(* ===== verification/Prelude.thy ===== *)
theory Prelude
  imports Complex_Main "HOL-Library.Word"
begin

text \<open>
  Shared vocabulary of the development: the types of bytes, instants and identifiers, the
  statement forms of SQL on a table read as a list of rows, the string operations of the
  standard library of JavaScript the sources use, and the lemmas every component shares.

  Text is a \<open>string\<close>. A character stands for one UTF-16 unit of the source and for the one
  byte of its UTF-8 form, so the two readings agree on ASCII text; the sources only slice,
  compare, split and concatenate text, which does not look inside a character.
\<close>

section \<open>Types\<close>

type_synonym byte = "8 word"
type_synonym bytes = "byte list"

text \<open>An instant, in milliseconds since the epoch (\<open>Date.now()\<close>, \<open>now()\<close> of a statement).\<close>

type_synonym time_ms = int

named_theorems sql_simps
named_theorems outside_simps

section \<open>Exceptions\<close>

text \<open>
  What a statement or a handler may throw. The constraint violations are those of the schema
  under \<open>db/migrations\<close>; each of them aborts the transaction it happens in.
\<close>

datatype exn =
    Bad_organization_id
  | Bad_user_id
  | Unique_violation
  | Foreign_key_violation
  | Check_violation
  | Bad_limit
  | Thrown string

type_synonym 'a result = "exn + 'a"

section \<open>Statements of SQL over a list of rows\<close>

definition sql_update :: "('r \<Rightarrow> bool) \<Rightarrow> ('r \<Rightarrow> 'r) \<Rightarrow> 'r list \<Rightarrow> 'r list" where
  "sql_update P f rows = map (\<lambda>r. if P r then f r else r) rows"

definition sql_delete :: "('r \<Rightarrow> bool) \<Rightarrow> 'r list \<Rightarrow> 'r list" where
  "sql_delete P rows = filter (\<lambda>r. \<not> P r) rows"

definition row_count :: "('r \<Rightarrow> bool) \<Rightarrow> 'r list \<Rightarrow> nat" where
  "row_count P rows = length (filter P rows)"

definition first_row :: "('r \<Rightarrow> bool) \<Rightarrow> 'r list \<Rightarrow> 'r option" where
  "first_row P rows = find P rows"

definition exists_row :: "('r \<Rightarrow> bool) \<Rightarrow> 'r list \<Rightarrow> bool" where
  "exists_row P rows = list_ex P rows"

definition coalesce :: "'a option \<Rightarrow> 'a option \<Rightarrow> 'a option" where
  "coalesce a b = (case a of None \<Rightarrow> b | Some _ \<Rightarrow> a)"

definition coalesce_default :: "'a option \<Rightarrow> 'a \<Rightarrow> 'a" where
  "coalesce_default a b = (case a of None \<Rightarrow> b | Some x \<Rightarrow> x)"

lemma coalesce_simps [simp]:
  "coalesce None b = b" "coalesce (Some x) b = Some x"
  "coalesce_default None c = c" "coalesce_default (Some y) c = y"
  by (simp_all add: coalesce_def coalesce_default_def)

lemma sql_update_Nil [simp]: "sql_update P f [] = []"
  by (simp add: sql_update_def)

lemma sql_update_Cons [simp]:
  "sql_update P f (r # rs) = (if P r then f r else r) # sql_update P f rs"
  by (simp add: sql_update_def)

lemma sql_update_append [simp]: "sql_update P f (xs @ ys) = sql_update P f xs @ sql_update P f ys"
  by (simp add: sql_update_def)

lemma length_sql_update [simp]: "length (sql_update P f rows) = length rows"
  by (simp add: sql_update_def)

lemma set_sql_update: "set (sql_update P f rows) = (\<lambda>r. if P r then f r else r) ` set rows"
  by (simp add: sql_update_def)

lemma in_sql_update:
  "r \<in> set (sql_update P f rows) \<longleftrightarrow> (\<exists>r' \<in> set rows. r = (if P r' then f r' else r'))"
  by (auto simp: set_sql_update)

lemma set_sql_delete [simp]: "set (sql_delete P rows) = {r \<in> set rows. \<not> P r}"
  by (auto simp: sql_delete_def)

lemma sql_update_none: "(\<And>r. r \<in> set rows \<Longrightarrow> \<not> P r) \<Longrightarrow> sql_update P f rows = rows"
  by (simp add: sql_update_def map_idI)

lemma sql_update_not_exists: "\<not> exists_row P rows \<Longrightarrow> sql_update P f rows = rows"
  by (rule sql_update_none) (auto simp: exists_row_def list_ex_iff)

lemma exists_row_iff [sql_simps]: "exists_row P rows \<longleftrightarrow> (\<exists>r \<in> set rows. P r)"
  by (simp add: exists_row_def list_ex_iff)

lemma row_count_0 [sql_simps]: "row_count P rows = 0 \<longleftrightarrow> \<not> exists_row P rows"
  by (auto simp: row_count_def exists_row_iff filter_empty_conv)

lemma row_count_pos [sql_simps]: "0 < row_count P rows \<longleftrightarrow> exists_row P rows"
  using row_count_0 [of P rows] by auto

lemma row_count_Nil [simp]: "row_count P [] = 0"
  by (simp add: row_count_def)

lemma row_count_Cons [simp]: "row_count P (r # rs) = (if P r then Suc (row_count P rs) else row_count P rs)"
  by (simp add: row_count_def)

lemma row_count_append [simp]: "row_count P (xs @ ys) = row_count P xs + row_count P ys"
  by (simp add: row_count_def)

lemma first_row_Nil [simp]: "first_row P [] = None"
  by (simp add: first_row_def)

lemma first_row_Cons [simp]: "first_row P (r # rs) = (if P r then Some r else first_row P rs)"
  by (simp add: first_row_def)

lemma first_row_SomeD: "first_row P rows = Some r \<Longrightarrow> r \<in> set rows \<and> P r"
  by (induction rows) (auto split: if_splits)

lemma first_row_None_iff: "first_row P rows = None \<longleftrightarrow> (\<forall>r \<in> set rows. \<not> P r)"
  by (induction rows) auto

lemma first_row_exists: "(\<exists>r. first_row P rows = Some r) \<longleftrightarrow> exists_row P rows"
  using first_row_None_iff [of P rows] by (auto simp: exists_row_iff)

lemma row_count_sql_update_cong:
  "(\<And>r. P r \<Longrightarrow> Q (f r) = Q r) \<Longrightarrow> row_count Q (sql_update P f rows) = row_count Q rows"
  by (induction rows) auto

lemma map_key_sql_update:
  "(\<And>r. P r \<Longrightarrow> key (f r) = key r) \<Longrightarrow> map key (sql_update P f rows) = map key rows"
  by (induction rows) auto

section \<open>The rows of the other organizations\<close>

text \<open>
  \<open>outside org o rows\<close> is what the organization \<open>o\<close> has no business with. An operation that is
  scoped to \<open>o\<close> leaves it as it was; the lemmas below decide this for each form of statement.
\<close>

definition outside :: "('r \<Rightarrow> 'k) \<Rightarrow> 'k \<Rightarrow> 'r list \<Rightarrow> 'r list" where
  "outside org o' rows = filter (\<lambda>r. org r \<noteq> o') rows"

lemma outside_Nil [outside_simps]: "outside org o' [] = []"
  by (simp add: outside_def)

lemma outside_append [outside_simps]: "outside org o' (xs @ ys) = outside org o' xs @ outside org o' ys"
  by (simp add: outside_def)

lemma outside_single [outside_simps]: "org r = o' \<Longrightarrow> outside org o' [r] = []"
  by (simp add: outside_def)

lemma outside_update [outside_simps]:
  "(\<And>r. P r \<Longrightarrow> org r = o') \<Longrightarrow> (\<And>r. P r \<Longrightarrow> org (f r) = o') \<Longrightarrow>
   outside org o' (sql_update P f rows) = outside org o' rows"
  by (induction rows) (auto simp: outside_def)

lemma outside_delete [outside_simps]:
  "(\<And>r. P r \<Longrightarrow> org r = o') \<Longrightarrow> outside org o' (sql_delete P rows) = outside org o' rows"
  by (induction rows) (auto simp: outside_def sql_delete_def)

section \<open>Strings\<close>

text \<open>\<open>xs.join(sep)\<close>, and \<open>s.split(c)\<close> on one character.\<close>

fun join_with :: "string \<Rightarrow> string list \<Rightarrow> string" where
  "join_with sep [] = []"
| "join_with sep [x] = x"
| "join_with sep (x # y # ys) = x @ sep @ join_with sep (y # ys)"

fun split_on :: "char \<Rightarrow> string \<Rightarrow> string list" where
  "split_on c [] = [[]]"
| "split_on c (x # xs) =
     (if x = c then [] # split_on c xs
      else (case split_on c xs of [] \<Rightarrow> [[x]] | p # ps \<Rightarrow> (x # p) # ps))"

lemma split_on_neq_Nil [simp]: "split_on c s \<noteq> []"
  by (induction s) (auto split: list.splits)

lemma split_on_free: "c \<notin> set s \<Longrightarrow> split_on c s = [s]"
  by (induction s) auto

lemma split_on_append: "c \<notin> set s \<Longrightarrow> split_on c (s @ c # t) = s # split_on c t"
  by (induction s) auto

lemma split_on_join:
  "xs \<noteq> [] \<Longrightarrow> \<forall>x \<in> set xs. c \<notin> set x \<Longrightarrow> split_on c (join_with [c] xs) = xs"
proof (induction xs)
  case Nil
  then show ?case by simp
next
  case (Cons x xs)
  then show ?case
    by (cases xs) (simp_all add: split_on_free split_on_append del: split_on.simps)
qed

lemma join_with_inject:
  assumes "join_with [c] xs = join_with [c] ys" and "xs \<noteq> []" and "ys \<noteq> []"
    and "\<forall>x \<in> set xs. c \<notin> set x" and "\<forall>y \<in> set ys. c \<notin> set y"
  shows "xs = ys"
  by (metis assms split_on_join)

text \<open>Character classes of the regular expressions of the sources.\<close>

definition digit_chars :: string where
  "digit_chars = ''0123456789''"

definition hex_chars :: string where
  "hex_chars = ''0123456789abcdef''"

definition lower_alnum :: string where
  "lower_alnum = ''0123456789abcdefghijklmnopqrstuvwxyz''"

definition id_chars :: string where
  "id_chars = ''ABCDEFGHIJKLMNOPQRSTUVWXYZabcdefghijklmnopqrstuvwxyz0123456789_-''"

definition all_in :: "string \<Rightarrow> string \<Rightarrow> bool" where
  "all_in cls s = list_all (\<lambda>c. c \<in> set cls) s"

text \<open>\<open>/^[cls]{lo,hi}$/\<close> and \<open>/^prefix[cls]{n}$/\<close>.\<close>

definition matches_class :: "string \<Rightarrow> nat \<Rightarrow> nat \<Rightarrow> string \<Rightarrow> bool" where
  "matches_class cls lo hi s = (lo \<le> length s \<and> length s \<le> hi \<and> all_in cls s)"

definition matches_prefixed :: "string \<Rightarrow> string \<Rightarrow> nat \<Rightarrow> string \<Rightarrow> bool" where
  "matches_prefixed pre cls n s =
     (take (length pre) s = pre \<and> length s = length pre + n \<and> all_in cls (drop (length pre) s))"

lemma all_in_iff: "all_in cls s \<longleftrightarrow> set s \<subseteq> set cls"
  by (auto simp: all_in_def list_all_iff)

lemma matches_class_notin: "matches_class cls lo hi s \<Longrightarrow> c \<notin> set cls \<Longrightarrow> c \<notin> set s"
  by (auto simp: matches_class_def all_in_iff)

lemma matches_class_nonempty: "matches_class cls lo hi s \<Longrightarrow> 0 < lo \<Longrightarrow> s \<noteq> []"
  by (auto simp: matches_class_def)

lemma matches_prefixed_append:
  "length s = n \<Longrightarrow> all_in cls s \<Longrightarrow> matches_prefixed pre cls n (pre @ s)"
  by (simp add: matches_prefixed_def)

lemma matches_prefixed_notin:
  "matches_prefixed pre cls n s \<Longrightarrow> c \<notin> set pre \<Longrightarrow> c \<notin> set cls \<Longrightarrow> c \<notin> set s"
proof
  assume m: "matches_prefixed pre cls n s" and "c \<notin> set pre" "c \<notin> set cls" "c \<in> set s"
  have "set s = set (take (length pre) s) \<union> set (drop (length pre) s)"
    by (simp flip: set_append)
  with m \<open>c \<in> set s\<close> \<open>c \<notin> set pre\<close> \<open>c \<notin> set cls\<close> show False
    by (auto simp: matches_prefixed_def all_in_iff)
qed

text \<open>\<open>String(n)\<close> of an integer, and \<open>Number(s)\<close> restricted to what is an integer.\<close>

fun string_of_nat :: "nat \<Rightarrow> string" where
  "string_of_nat n =
     (if n < 10 then [digit_chars ! n] else string_of_nat (n div 10) @ [digit_chars ! (n mod 10)])"

declare string_of_nat.simps [simp del]

definition string_of_int :: "int \<Rightarrow> string" where
  "string_of_int i = (if i < 0 then CHR ''-'' # string_of_nat (nat (- i)) else string_of_nat (nat i))"

fun digit_value :: "char \<Rightarrow> nat" where
  "digit_value c = of_char c - 48"

definition value_of_digits :: "string \<Rightarrow> nat" where
  "value_of_digits s = foldl (\<lambda>v c. v * 10 + digit_value c) 0 s"

text \<open>
  \<open>Number(s)\<close> where the caller accepts integers only (\<open>Number.isInteger\<close>): \<open>Some n\<close> when it is
  the integer \<open>n\<close>, \<open>None\<close> for every other double. A plain decimal literal of at most 15 digits,
  which a double holds exactly, is computed; the other literals of the language (signs, blanks,
  exponents, other radices) are the argument \<open>other\<close>.
\<close>

definition js_integer :: "(string \<Rightarrow> int option) \<Rightarrow> string \<Rightarrow> int option" where
  "js_integer other s =
     (if s \<noteq> [] \<and> length s \<le> 15 \<and> all_in digit_chars s
      then Some (int (value_of_digits s)) else other s)"

lemma digit_chars_nth: "n < 10 \<Longrightarrow> digit_chars ! n \<in> set digit_chars"
  by (rule nth_mem) (simp add: digit_chars_def)

lemma digit_value_nth: "n < 10 \<Longrightarrow> digit_value (digit_chars ! n) = n"
proof -
  assume "n < 10"
  then have "n \<in> set [0,1,2,3,4,5,6,7,8,9]" by auto
  moreover have "\<forall>m \<in> set [0,1,2,3,4,5,6,7,8,9]. digit_value (digit_chars ! m) = m"
    by (simp add: digit_chars_def)
  ultimately show ?thesis by blast
qed

lemma string_of_nat_digits: "set (string_of_nat n) \<subseteq> set digit_chars"
proof (induction n rule: string_of_nat.induct)
  case (1 n)
  then show ?case
    by (subst string_of_nat.simps) (auto simp: digit_chars_nth)
qed

lemma string_of_nat_neq_Nil [simp]: "string_of_nat n \<noteq> []"
  by (subst string_of_nat.simps) simp

lemma value_of_digits_snoc: "value_of_digits (s @ [c]) = value_of_digits s * 10 + digit_value c"
  by (simp add: value_of_digits_def)

lemma value_of_string_of_nat [simp]: "value_of_digits (string_of_nat n) = n"
proof (induction n rule: string_of_nat.induct)
  case (1 n)
  show ?case
  proof (cases "n < 10")
    case True
    then show ?thesis
      by (subst string_of_nat.simps) (simp add: value_of_digits_def digit_value_nth del: digit_value.simps)
  next
    case False
    with 1 have "value_of_digits (string_of_nat (n div 10)) = n div 10" by simp
    with False show ?thesis
      by (subst string_of_nat.simps) (simp add: value_of_digits_snoc digit_value_nth del: digit_value.simps)
  qed
qed

lemma length_string_of_nat: "n < 10 ^ k \<Longrightarrow> 0 < k \<Longrightarrow> length (string_of_nat n) \<le> k"
proof (induction n arbitrary: k rule: string_of_nat.induct)
  case (1 n)
  show ?case
  proof (cases "n < 10")
    case True
    with 1 show ?thesis by (subst string_of_nat.simps) simp
  next
    case False
    with "1.prems" obtain k' where k: "k = Suc k'" "0 < k'"
      by (cases k; cases "k - 1") auto
    with "1.prems" have "n div 10 < 10 ^ k'" by (simp add: less_mult_imp_div_less mult.commute)
    with "1.IH" False k have "length (string_of_nat (n div 10)) \<le> k'" by simp
    with False k show ?thesis by (subst string_of_nat.simps) simp
  qed
qed

lemma string_of_nat_inject [simp]: "string_of_nat m = string_of_nat n \<longleftrightarrow> m = n"
  by (metis value_of_string_of_nat)

lemma js_integer_string_of_int:
  assumes "0 \<le> i" and "i < 10 ^ 15"
  shows "js_integer other (string_of_int i) = Some i"
proof -
  have "nat i < 10 ^ 15" using assms by simp
  then have "length (string_of_nat (nat i)) \<le> 15" by (rule length_string_of_nat) simp
  moreover have "all_in digit_chars (string_of_nat (nat i))"
    by (simp add: all_in_iff string_of_nat_digits)
  ultimately show ?thesis using assms by (simp add: js_integer_def string_of_int_def)
qed

lemma string_of_int_chars: "set (string_of_int i) \<subseteq> insert (CHR ''-'') (set digit_chars)"
  using string_of_nat_digits by (auto simp: string_of_int_def)

lemma string_of_int_notin:
  "c \<noteq> CHR ''-'' \<Longrightarrow> c \<notin> set digit_chars \<Longrightarrow> c \<notin> set (string_of_int i)"
  using string_of_int_chars by blast

lemma string_of_int_inject [simp]: "string_of_int i = string_of_int j \<longleftrightarrow> i = j"
proof
  assume eq: "string_of_int i = string_of_int j"
  have no_minus: "CHR ''-'' # s \<noteq> string_of_nat n" for s n
  proof
    assume "CHR ''-'' # s = string_of_nat n"
    then have "CHR ''-'' \<in> set (string_of_nat n)" by (metis list.set_intros(1))
    then show False using string_of_nat_digits [of n] by (auto simp: digit_chars_def)
  qed
  from eq show "i = j"
    by (auto simp: string_of_int_def no_minus no_minus [symmetric] split: if_splits)
qed simp

text \<open>\<open>s.padStart(n, '0')\<close>, \<open>s.toUpperCase()\<close> and \<open>s.toLowerCase()\<close> on ASCII.\<close>

definition pad_start :: "nat \<Rightarrow> char \<Rightarrow> string \<Rightarrow> string" where
  "pad_start n c s = replicate (n - length s) c @ s"

definition upper_letters :: string where
  "upper_letters = ''ABCDEFGHIJKLMNOPQRSTUVWXYZ''"

definition lower_letters :: string where
  "lower_letters = ''abcdefghijklmnopqrstuvwxyz''"

definition to_upper :: "string \<Rightarrow> string" where
  "to_upper s = map (\<lambda>c. case map_of (zip lower_letters upper_letters) c of None \<Rightarrow> c | Some d \<Rightarrow> d) s"

definition to_lower :: "string \<Rightarrow> string" where
  "to_lower s = map (\<lambda>c. case map_of (zip upper_letters lower_letters) c of None \<Rightarrow> c | Some d \<Rightarrow> d) s"

definition utf8 :: "string \<Rightarrow> bytes" where
  "utf8 s = map (\<lambda>c. of_nat (of_char c)) s"

lemma length_to_upper [simp]: "length (to_upper s) = length s"
  by (simp add: to_upper_def)

lemma length_utf8 [simp]: "length (utf8 s) = length s"
  by (simp add: utf8_def)

section \<open>JSON\<close>

text \<open>A number is the exact value of the double that was read.\<close>

datatype json =
    JNull
  | JBool bool
  | JNum rat
  | JStr string
  | JArr "json list"
  | JObj "(string \<times> json) list"

abbreviation JInt :: "int \<Rightarrow> json" where
  "JInt i \<equiv> JNum (of_int i)"

text \<open>
  \<open>o.k\<close>, \<open>{...o, k: v}\<close> (a key that is already there keeps its place) and \<open>{...o, ...p}\<close>. A key
  occurs once in an object.
\<close>

definition obj_get :: "string \<Rightarrow> (string \<times> json) list \<Rightarrow> json option" where
  "obj_get k fs = map_of fs k"

fun obj_put :: "string \<Rightarrow> json \<Rightarrow> (string \<times> json) list \<Rightarrow> (string \<times> json) list" where
  "obj_put k v [] = [(k, v)]"
| "obj_put k v ((k', v') # fs) = (if k = k' then (k, v) # fs else (k', v') # obj_put k v fs)"

definition obj_spread :: "(string \<times> json) list \<Rightarrow> (string \<times> json) list \<Rightarrow> (string \<times> json) list" where
  "obj_spread fs gs = fold (\<lambda>(k, v) acc. obj_put k v acc) gs fs"

definition obj_remove :: "string \<Rightarrow> (string \<times> json) list \<Rightarrow> (string \<times> json) list" where
  "obj_remove k fs = filter (\<lambda>(k', v). k' \<noteq> k) fs"

lemma obj_get_put [simp]: "obj_get k (obj_put k' v fs) = (if k = k' then Some v else obj_get k fs)"
  by (induction k' v fs rule: obj_put.induct) (auto simp: obj_get_def)

lemma obj_get_remove [simp]: "obj_get k (obj_remove k' fs) = (if k = k' then None else obj_get k fs)"
  by (induction fs) (auto simp: obj_get_def obj_remove_def)

lemma obj_keys_put: "fst ` set (obj_put k v fs) = insert k (fst ` set fs)"
  by (induction k v fs rule: obj_put.induct) auto

text \<open>
  \<open>JSON.stringify\<close>. Control characters, the quote and the backslash are escaped; the text of a
  number that is not an integer is the argument \<open>num\<close>.
\<close>

definition json_escape :: "char \<Rightarrow> string" where
  "json_escape c =
     (if c = CHR 0x22 then [CHR 0x5C, CHR 0x22] else if c = CHR 0x5C then [CHR 0x5C, CHR 0x5C]
      else if c = CHR 0x08 then [CHR 0x5C, CHR ''b''] else if c = CHR 0x0C then [CHR 0x5C, CHR ''f'']
      else if c = CHR 0x0A then [CHR 0x5C, CHR ''n''] else if c = CHR 0x0D then [CHR 0x5C, CHR ''r'']
      else if c = CHR 0x09 then [CHR 0x5C, CHR ''t'']
      else if of_char c < (32 :: nat)
      then [CHR 0x5C] @ ''u00'' @ [hex_chars ! (of_char c div 16), hex_chars ! (of_char c mod 16)]
      else [c])"

definition json_quote :: "string \<Rightarrow> string" where
  "json_quote s = [CHR 0x22] @ concat (map json_escape s) @ [CHR 0x22]"

definition json_number :: "(rat \<Rightarrow> string) \<Rightarrow> rat \<Rightarrow> string" where
  "json_number num q = (if q = of_int \<lfloor>q\<rfloor> then string_of_int \<lfloor>q\<rfloor> else num q)"

fun json_text :: "(rat \<Rightarrow> string) \<Rightarrow> json \<Rightarrow> string" where
  "json_text num JNull = ''null''"
| "json_text num (JBool b) = (if b then ''true'' else ''false'')"
| "json_text num (JNum q) = json_number num q"
| "json_text num (JStr s) = json_quote s"
| "json_text num (JArr xs) = ''['' @ join_with '','' (map (json_text num) xs) @ '']''"
| "json_text num (JObj fs) =
     ''{'' @ join_with '','' (map (\<lambda>kv. json_quote (fst kv) @ '':'' @ json_text num (snd kv)) fs) @ ''}''"

section \<open>What a validated document may hold\<close>

text \<open>
  The validators of the library \<open>zod\<close> the schemas are built from, as partial functions on JSON:
  \<open>None\<close> when \<open>safeParse\<close> fails.
\<close>

definition z_string :: "nat \<Rightarrow> nat \<Rightarrow> json \<Rightarrow> string option" where
  "z_string lo hi j = (case j of JStr s \<Rightarrow> if lo \<le> length s \<and> length s \<le> hi then Some s else None | _ \<Rightarrow> None)"

definition z_number :: "rat \<Rightarrow> rat \<Rightarrow> json \<Rightarrow> rat option" where
  "z_number lo hi j = (case j of JNum q \<Rightarrow> if lo \<le> q \<and> q \<le> hi then Some q else None | _ \<Rightarrow> None)"

definition z_int_min :: "int \<Rightarrow> json \<Rightarrow> int option" where
  "z_int_min lo j =
     (case j of JNum q \<Rightarrow> if q = of_int \<lfloor>q\<rfloor> \<and> lo \<le> \<lfloor>q\<rfloor> then Some \<lfloor>q\<rfloor> else None | _ \<Rightarrow> None)"

definition z_int :: "int \<Rightarrow> int \<Rightarrow> json \<Rightarrow> int option" where
  "z_int lo hi j = (case z_int_min lo j of Some i \<Rightarrow> if i \<le> hi then Some i else None | None \<Rightarrow> None)"

definition z_bool :: "json \<Rightarrow> bool option" where
  "z_bool j = (case j of JBool b \<Rightarrow> Some b | _ \<Rightarrow> None)"

definition z_enum :: "(string \<times> 'a) list \<Rightarrow> json \<Rightarrow> 'a option" where
  "z_enum cases j = (case j of JStr s \<Rightarrow> map_of cases s | _ \<Rightarrow> None)"

definition z_matching :: "(string \<Rightarrow> bool) \<Rightarrow> json \<Rightarrow> string option" where
  "z_matching P j = (case j of JStr s \<Rightarrow> if P s then Some s else None | _ \<Rightarrow> None)"

definition z_record :: "json \<Rightarrow> (string \<times> json) list option" where
  "z_record j = (case j of JObj fs \<Rightarrow> Some fs | _ \<Rightarrow> None)"

fun all_some :: "'a option list \<Rightarrow> 'a list option" where
  "all_some [] = Some []"
| "all_some (x # xs) = (case x of None \<Rightarrow> None | Some y \<Rightarrow> map_option ((#) y) (all_some xs))"

definition z_array :: "nat \<Rightarrow> nat \<Rightarrow> (json \<Rightarrow> 'a option) \<Rightarrow> json \<Rightarrow> 'a list option" where
  "z_array lo hi p j =
     (case j of JArr xs \<Rightarrow> if lo \<le> length xs \<and> length xs \<le> hi then all_some (map p xs) else None | _ \<Rightarrow> None)"

text \<open>\<open>z.object({...}).strict()\<close>: no key beyond the listed ones; a required and an optional field.\<close>

definition z_object :: "string list \<Rightarrow> json \<Rightarrow> (string \<times> json) list option" where
  "z_object keys j =
     (case j of JObj fs \<Rightarrow> if list_all (\<lambda>kv. fst kv \<in> set keys) fs then Some fs else None | _ \<Rightarrow> None)"

definition z_field :: "string \<Rightarrow> (json \<Rightarrow> 'a option) \<Rightarrow> (string \<times> json) list \<Rightarrow> 'a option" where
  "z_field k p fs = (case obj_get k fs of None \<Rightarrow> None | Some v \<Rightarrow> p v)"

definition z_optional :: "string \<Rightarrow> (json \<Rightarrow> 'a option) \<Rightarrow> (string \<times> json) list \<Rightarrow> 'a option option" where
  "z_optional k p fs = (case obj_get k fs of None \<Rightarrow> Some None | Some v \<Rightarrow> map_option Some (p v))"

lemma z_string_bounds: "z_string lo hi j = Some s \<Longrightarrow> lo \<le> length s \<and> length s \<le> hi"
  by (auto simp: z_string_def split: json.splits if_splits)

lemma z_int_bounds: "z_int lo hi j = Some i \<Longrightarrow> lo \<le> i \<and> i \<le> hi"
  by (auto simp: z_int_def z_int_min_def split: json.splits if_splits option.splits)

lemma all_some_length: "all_some xs = Some ys \<Longrightarrow> length ys = length xs"
  by (induction xs arbitrary: ys) (auto split: option.splits)

lemma all_some_in: "all_some xs = Some ys \<Longrightarrow> y \<in> set ys \<Longrightarrow> Some y \<in> set xs"
  by (induction xs arbitrary: ys) (auto split: option.splits)

lemma z_array_bounds: "z_array lo hi p j = Some xs \<Longrightarrow> lo \<le> length xs \<and> length xs \<le> hi"
  by (auto simp: z_array_def split: json.splits if_splits dest: all_some_length)

lemma z_array_in: "z_array lo hi p j = Some xs \<Longrightarrow> x \<in> set xs \<Longrightarrow> \<exists>v. p v = Some x"
  by (auto simp: z_array_def split: json.splits if_splits dest!: all_some_in)
    (metis (no_types))

end
