(* ===== verification/Db.thy ===== *)
theory Db
  imports Prelude
begin

text \<open>
  \<open>apps/api/src/lib/db.ts\<close>: the four ways the code opens a transaction, over one connection of the
  pool. The database behind the driver holds a committed store; a transaction works on a copy and
  has settings of its own, which \<open>SET LOCAL\<close> writes. The function the wrapper is given reads the
  settings and transforms the copy; it may throw. Each command may fail, as the argument of type
  \<open>faults\<close> says. The second half states row level security (\<open>db/migrations\<close>) as filters on rows
  and shows that, inside \<open>withTenant\<close>, it is the filter on the organization.
\<close>

section \<open>Settings, connections, faults\<close>

record settings =
  set_org :: "string option"
  set_user :: "string option"
  set_lookup :: bool
  set_platform :: bool

definition no_settings :: settings where
  "no_settings = \<lparr>set_org = None, set_user = None, set_lookup = False, set_platform = False\<rparr>"

record 'd conn =
  cn_store :: 'd
  cn_tx :: "('d \<times> settings) option"
  cn_session :: settings
  cn_in_use :: nat

text \<open>The commands that fail: connecting, \<open>BEGIN\<close>, \<open>SET LOCAL\<close>, \<open>COMMIT\<close>, \<open>ROLLBACK\<close>.\<close>

record faults =
  f_connect :: bool
  f_begin :: bool
  f_set :: bool
  f_commit :: bool

definition no_faults :: faults where
  "no_faults = \<lparr>f_connect = False, f_begin = False, f_set = False, f_commit = False\<rparr>"

type_synonym ('a, 'd) body = "settings \<Rightarrow> 'd \<Rightarrow> 'a result \<times> 'd"

section \<open>The commands of a transaction\<close>

definition cmd_connect :: "'d conn \<Rightarrow> 'd conn" where
  "cmd_connect cn = cn\<lparr>cn_in_use := cn_in_use cn + 1\<rparr>"

definition cmd_release :: "'d conn \<Rightarrow> 'd conn" where
  "cmd_release cn = cn\<lparr>cn_in_use := cn_in_use cn - 1\<rparr>"

definition cmd_begin :: "'d conn \<Rightarrow> 'd conn" where
  "cmd_begin cn = cn\<lparr>cn_tx := Some (cn_store cn, cn_session cn)\<rparr>"

definition cmd_set_local :: "(settings \<Rightarrow> settings) \<Rightarrow> 'd conn \<Rightarrow> 'd conn" where
  "cmd_set_local f cn = cn\<lparr>cn_tx := map_option (\<lambda>(d, s). (d, f s)) (cn_tx cn)\<rparr>"

definition cmd_commit :: "'d conn \<Rightarrow> 'd conn" where
  "cmd_commit cn =
     (case cn_tx cn of None \<Rightarrow> cn | Some (d, s) \<Rightarrow> cn\<lparr>cn_store := d, cn_tx := None\<rparr>)"

definition cmd_rollback :: "'d conn \<Rightarrow> 'd conn" where
  "cmd_rollback cn = cn\<lparr>cn_tx := None\<rparr>"

definition cmd_run :: "('a, 'd) body \<Rightarrow> 'd conn \<Rightarrow> 'a result \<times> 'd conn" where
  "cmd_run fn cn =
     (case cn_tx cn of
        None \<Rightarrow> (case fn (cn_session cn) (cn_store cn) of (r, d) \<Rightarrow> (r, cn\<lparr>cn_store := d\<rparr>))
      | Some (d, s) \<Rightarrow> (case fn s d of (r, d') \<Rightarrow> (r, cn\<lparr>cn_tx := Some (d', s)\<rparr>)))"

text \<open>
  The body the four wrappers share: \<open>BEGIN\<close>, \<open>SET LOCAL\<close>, the function, \<open>COMMIT\<close>; on any error
  \<open>ROLLBACK\<close>, whose own failure is ignored since the connection it fails on has no transaction
  left; the client is released in every case.
\<close>

(* src lib/db.ts:76-98 withTenant/try *)
definition run_transaction :: "(settings \<Rightarrow> settings) \<Rightarrow> ('a, 'd) body \<Rightarrow> faults \<Rightarrow> 'd conn \<Rightarrow> 'a result \<times> 'd conn" where
  "run_transaction scope fn f cn =
     (if f_connect f then (Inl (Thrown ''connect''), cn)
      else (let cn1 = cmd_connect cn in
        if f_begin f then (Inl (Thrown ''begin''), cmd_release (cmd_rollback cn1))
        else (let cn2 = cmd_begin cn1 in
          if f_set f then (Inl (Thrown ''set''), cmd_release (cmd_rollback cn2))
          else (case cmd_run fn (cmd_set_local scope cn2) of
              (Inl e, cn3) \<Rightarrow> (Inl e, cmd_release (cmd_rollback cn3))
            | (Inr r, cn3) \<Rightarrow>
                if f_commit f then (Inl (Thrown ''commit''), cmd_release (cmd_rollback cn3))
                else (Inr r, cmd_release (cmd_commit cn3))))))"

(* src lib/db.ts:50 ORG_ID_PATTERN *)
definition org_id_ok :: "string \<Rightarrow> bool" where
  "org_id_ok s = matches_prefixed ''org_'' lower_alnum 26 s"

(* src lib/db.ts:101 USER_ID_PATTERN *)
definition user_id_ok :: "string \<Rightarrow> bool" where
  "user_id_ok s = matches_prefixed ''usr_'' lower_alnum 26 s"

(* src lib/db.ts:67-99 withTenant *)
definition withTenant :: "string \<Rightarrow> ('a, 'd) body \<Rightarrow> faults \<Rightarrow> 'd conn \<Rightarrow> 'a result \<times> 'd conn" where
  "withTenant org fn f cn =
     (if \<not> org_id_ok org then (Inl Bad_organization_id, cn)
      else run_transaction (\<lambda>s. s\<lparr>set_org := Some org\<rparr>) fn f cn)"

(* src lib/db.ts:111-142 withUser *)
definition withUser :: "string \<Rightarrow> ('a, 'd) body \<Rightarrow> faults \<Rightarrow> 'd conn \<Rightarrow> 'a result \<times> 'd conn" where
  "withUser user fn f cn =
     (if \<not> user_id_ok user then (Inl Bad_user_id, cn)
      else run_transaction (\<lambda>s. s\<lparr>set_user := Some user\<rparr>) fn f cn)"

(* src lib/db.ts:152-178 withAgentLookup *)
definition withAgentLookup :: "('a, 'd) body \<Rightarrow> faults \<Rightarrow> 'd conn \<Rightarrow> 'a result \<times> 'd conn" where
  "withAgentLookup fn f cn = run_transaction (\<lambda>s. s\<lparr>set_lookup := True\<rparr>) fn f cn"

(* src lib/db.ts:197-223 withPlatformAdmin *)
definition withPlatformAdmin :: "('a, 'd) body \<Rightarrow> faults \<Rightarrow> 'd conn \<Rightarrow> 'a result \<times> 'd conn" where
  "withPlatformAdmin fn f cn = run_transaction (\<lambda>s. s\<lparr>set_platform := True\<rparr>) fn f cn"

section \<open>What every transaction promises\<close>

text \<open>A connection at rest in the pool: no transaction, no setting left on the session.\<close>

definition at_rest :: "'d conn \<Rightarrow> bool" where
  "at_rest cn \<longleftrightarrow> cn_tx cn = None \<and> cn_session cn = no_settings"

lemma run_transaction_cases:
  assumes "at_rest cn"
  shows "run_transaction scope fn f cn =
    (if f_connect f then (Inl (Thrown ''connect''), cn)
     else if f_begin f then (Inl (Thrown ''begin''), cn)
     else if f_set f then (Inl (Thrown ''set''), cn)
     else (case fn (scope no_settings) (cn_store cn) of
         (Inl e, d) \<Rightarrow> (Inl e, cn)
       | (Inr r, d) \<Rightarrow> if f_commit f then (Inl (Thrown ''commit''), cn) else (Inr r, cn\<lparr>cn_store := d\<rparr>)))"
  using assms
  by (cases cn)
    (auto simp: run_transaction_def Let_def cmd_connect_def cmd_release_def cmd_begin_def cmd_set_local_def
      cmd_commit_def cmd_rollback_def cmd_run_def at_rest_def split: prod.splits sum.splits)

text \<open>
  The contract every caller relies on. \<open>run fn f cn\<close> is a wrapper with its identifier fixed,
  \<open>scope\<close> the settings the function sees.
\<close>

locale tx_runner =
  fixes run :: "('a, 'd) body \<Rightarrow> faults \<Rightarrow> 'd conn \<Rightarrow> 'a result \<times> 'd conn"
    and scope :: settings
  assumes run_rest: "at_rest cn \<Longrightarrow> at_rest (snd (run fn f cn))"
    and run_in_use: "at_rest cn \<Longrightarrow> cn_in_use (snd (run fn f cn)) = cn_in_use cn"
    and run_error: "at_rest cn \<Longrightarrow> fst (run fn f cn) = Inl e \<Longrightarrow> snd (run fn f cn) = cn"
    and run_ok: "at_rest cn \<Longrightarrow> fst (run fn f cn) = Inr r \<Longrightarrow>
      \<exists>d. fn scope (cn_store cn) = (Inr r, d) \<and> snd (run fn f cn) = cn\<lparr>cn_store := d\<rparr>"
begin

lemma all_or_nothing:
  assumes "at_rest cn"
  shows "cn_store (snd (run fn f cn)) = cn_store cn \<or>
    (\<exists>r. fst (run fn f cn) = Inr r \<and> fn scope (cn_store cn) = (Inr r, cn_store (snd (run fn f cn))))"
proof (cases "fst (run fn f cn)")
  case (Inl e)
  then show ?thesis using run_error [OF assms] by simp
next
  case (Inr r)
  then show ?thesis using run_ok [OF assms] by fastforce
qed

text \<open>An invariant of the store that the function keeps is kept by the transaction.\<close>

lemma keeps:
  assumes "at_rest cn" and "I (cn_store cn)"
    and "\<And>r d. fn scope (cn_store cn) = (Inr r, d) \<Longrightarrow> I d"
  shows "I (cn_store (snd (run fn f cn)))"
  using all_or_nothing [OF assms(1), of fn f] assms(2,3) by metis

text \<open>
  Two transactions one after the other on the same connection: the second one sees its own scope
  and nothing of the first but what it committed.
\<close>

lemma no_leak:
  assumes "at_rest cn" and "fst (run g f' (snd (run fn f cn))) = Inr r"
  shows "\<exists>d d'. (d = cn_store cn \<or> (\<exists>r'. fn scope (cn_store cn) = (Inr r', d))) \<and> g scope d = (Inr r, d')"
proof -
  have "at_rest (snd (run fn f cn))" using assms(1) by (rule run_rest)
  from run_ok [OF this assms(2)] obtain d' where "g scope (cn_store (snd (run fn f cn))) = (Inr r, d')" by blast
  with all_or_nothing [OF assms(1), of fn f] show ?thesis by metis
qed

end

lemma run_transaction_laws:
  assumes "at_rest cn"
  shows "at_rest (snd (run_transaction scope fn f cn))"
    and "cn_in_use (snd (run_transaction scope fn f cn)) = cn_in_use cn"
    and "fst (run_transaction scope fn f cn) = Inl e \<Longrightarrow> snd (run_transaction scope fn f cn) = cn"
    and "fst (run_transaction scope fn f cn) = Inr r \<Longrightarrow>
      \<exists>d. fn (scope no_settings) (cn_store cn) = (Inr r, d) \<and> snd (run_transaction scope fn f cn) = cn\<lparr>cn_store := d\<rparr>"
  using assms
  by (auto simp: run_transaction_cases at_rest_def split: if_splits prod.splits sum.splits)

interpretation tenant_tx: tx_runner "withTenant org" "no_settings\<lparr>set_org := Some org\<rparr>" for org
  by unfold_locales (auto simp: withTenant_def run_transaction_laws dest: run_transaction_laws split: if_splits)

interpretation user_tx: tx_runner "withUser user" "no_settings\<lparr>set_user := Some user\<rparr>" for user
  by unfold_locales (auto simp: withUser_def run_transaction_laws dest: run_transaction_laws split: if_splits)

interpretation lookup_tx: tx_runner withAgentLookup "no_settings\<lparr>set_lookup := True\<rparr>"
  by unfold_locales (auto simp: withAgentLookup_def run_transaction_laws dest: run_transaction_laws)

interpretation platform_tx: tx_runner withPlatformAdmin "no_settings\<lparr>set_platform := True\<rparr>"
  by unfold_locales (auto simp: withPlatformAdmin_def run_transaction_laws dest: run_transaction_laws)


section \<open>Row level security\<close>

text \<open>
  A policy says which rows a command sees (\<open>USING\<close>) and which it may write (\<open>WITH CHECK\<close>).
  Several permissive policies of a table are combined with \<open>or\<close>. A row that fails the check
  aborts the transaction.
\<close>

type_synonym 'r policy = "settings \<Rightarrow> 'r \<Rightarrow> bool"

definition rls_select :: "'r policy \<Rightarrow> settings \<Rightarrow> 'r list \<Rightarrow> 'r list" where
  "rls_select using s rows = filter (using s) rows"

definition rls_update :: "'r policy \<Rightarrow> 'r policy \<Rightarrow> settings \<Rightarrow> ('r \<Rightarrow> bool) \<Rightarrow> ('r \<Rightarrow> 'r) \<Rightarrow> 'r list \<Rightarrow> 'r list result" where
  "rls_update using check s P f rows =
     (if list_all (\<lambda>r. using s r \<and> P r \<longrightarrow> check s (f r)) rows
      then Inr (sql_update (\<lambda>r. using s r \<and> P r) f rows)
      else Inl (Thrown ''row_level_security''))"

definition rls_insert :: "'r policy \<Rightarrow> settings \<Rightarrow> 'r \<Rightarrow> 'r list \<Rightarrow> 'r list result" where
  "rls_insert check s r rows = (if check s r then Inr (rows @ [r]) else Inl (Thrown ''row_level_security''))"

definition rls_delete :: "'r policy \<Rightarrow> settings \<Rightarrow> ('r \<Rightarrow> bool) \<Rightarrow> 'r list \<Rightarrow> 'r list" where
  "rls_delete using s P rows = sql_delete (\<lambda>r. using s r \<and> P r) rows"

(* src db/migrations/0001_init.sql:550-552 tenant_isolation *)
definition tenant_isolation :: "('r \<Rightarrow> string) \<Rightarrow> 'r policy" where
  "tenant_isolation org s r = (set_org s = Some (org r))"

(* src db/migrations/0009_platform_admin.sql:25-31 platform_admin_all *)
definition platform_admin_all :: "'r policy" where
  "platform_admin_all s r = set_platform s"

(* src db/migrations/0003_non_tenant_read_paths.sql:60-64 agent_credential_lookup *)
definition agent_credential_lookup :: "'r policy" where
  "agent_credential_lookup s r = (set_org s = None \<and> set_lookup s)"

(* src db/migrations/0003_non_tenant_read_paths.sql:45-46 membership_self_read *)
definition membership_self_read :: "('r \<Rightarrow> string) \<Rightarrow> 'r policy" where
  "membership_self_read user s r = (set_user s = Some (user r))"

definition policy_or :: "'r policy \<Rightarrow> 'r policy \<Rightarrow> 'r policy" where
  "policy_or p q s r = (p s r \<or> q s r)"

text \<open>C30: Inside \<open>withTenant org\<close> the policies of a tenant table, whatever the other permissive
  policies of the platform, the agent lookup and the member are, make each statement the one that
  filters on the organization: rows of another organization are neither read nor written.\<close>

theorem rls_is_organization_filter:
  fixes org user :: "'r \<Rightarrow> string" and o' :: string
  defines "s \<equiv> no_settings\<lparr>set_org := Some o'\<rparr>"
    and "p \<equiv> policy_or (tenant_isolation org)
            (policy_or platform_admin_all (policy_or agent_credential_lookup (membership_self_read user)))"
  shows "rls_select p s rows = filter (\<lambda>r. org r = o') rows \<and>
    rls_delete p s P rows = sql_delete (\<lambda>r. org r = o' \<and> P r) rows \<and>
    (\<forall>rows'. rls_update p (tenant_isolation org) s P f rows = Inr rows' \<longrightarrow>
       rows' = sql_update (\<lambda>r. org r = o' \<and> P r) f rows \<and> outside org o' rows' = outside org o' rows) \<and>
    (\<forall>rows'. rls_insert (tenant_isolation org) s r rows = Inr rows' \<longrightarrow>
       outside org o' rows' = outside org o' rows)"
proof -
  have p: "p (no_settings\<lparr>set_org := Some o'\<rparr>) = (\<lambda>r. org r = o')"
    by (auto simp: p_def policy_or_def tenant_isolation_def platform_admin_all_def
        agent_credential_lookup_def membership_self_read_def no_settings_def fun_eq_iff)
  have "outside org o' (sql_update (\<lambda>r. org r = o' \<and> P r) f rows) = outside org o' rows"
    if "\<forall>r \<in> set rows. org r = o' \<and> P r \<longrightarrow> org (f r) = o'"
    using that by (induction rows) (auto simp: outside_def)
  moreover have c: "tenant_isolation org (no_settings\<lparr>set_org := Some o'\<rparr>) = (\<lambda>r. org r = o')"
    by (auto simp: tenant_isolation_def fun_eq_iff)
  ultimately show ?thesis
    unfolding s_def rls_select_def rls_delete_def rls_update_def rls_insert_def p c
    by (auto simp: list_all_iff outside_def split: if_splits)
qed

section \<open>Transactions as functions of the store\<close>

text \<open>
  A request takes a connection at rest and gives it back at rest, so between two transactions only
  the store counts. These forms are what the handlers are written with.
\<close>

definition rest_conn :: "'d \<Rightarrow> 'd conn" where
  "rest_conn d = \<lparr>cn_store = d, cn_tx = None, cn_session = no_settings, cn_in_use = 0\<rparr>"

definition tenant_db :: "string \<Rightarrow> faults \<Rightarrow> ('a, 'd) body \<Rightarrow> 'd \<Rightarrow> 'a result \<times> 'd" where
  "tenant_db org f fn d = (case withTenant org fn f (rest_conn d) of (r, cn) \<Rightarrow> (r, cn_store cn))"

definition user_db :: "string \<Rightarrow> faults \<Rightarrow> ('a, 'd) body \<Rightarrow> 'd \<Rightarrow> 'a result \<times> 'd" where
  "user_db user f fn d = (case withUser user fn f (rest_conn d) of (r, cn) \<Rightarrow> (r, cn_store cn))"

definition lookup_db :: "faults \<Rightarrow> ('a, 'd) body \<Rightarrow> 'd \<Rightarrow> 'a result \<times> 'd" where
  "lookup_db f fn d = (case withAgentLookup fn f (rest_conn d) of (r, cn) \<Rightarrow> (r, cn_store cn))"

definition platform_db :: "faults \<Rightarrow> ('a, 'd) body \<Rightarrow> 'd \<Rightarrow> 'a result \<times> 'd" where
  "platform_db f fn d = (case withPlatformAdmin fn f (rest_conn d) of (r, cn) \<Rightarrow> (r, cn_store cn))"

lemma rest_conn_at_rest [simp]: "at_rest (rest_conn d)" "cn_store (rest_conn d) = d"
  by (simp_all add: rest_conn_def at_rest_def)

lemma tenant_db_cases:
  "tenant_db org f fn d =
    (if \<not> org_id_ok org then (Inl Bad_organization_id, d)
     else if f_connect f then (Inl (Thrown ''connect''), d)
     else if f_begin f then (Inl (Thrown ''begin''), d)
     else if f_set f then (Inl (Thrown ''set''), d)
     else (case fn (no_settings\<lparr>set_org := Some org\<rparr>) d of
         (Inl e, d') \<Rightarrow> (Inl e, d)
       | (Inr r, d') \<Rightarrow> if f_commit f then (Inl (Thrown ''commit''), d) else (Inr r, d')))"
  by (auto simp: tenant_db_def withTenant_def run_transaction_cases split: prod.splits sum.splits)

lemma lookup_db_cases:
  "lookup_db f fn d =
    (if f_connect f then (Inl (Thrown ''connect''), d)
     else if f_begin f then (Inl (Thrown ''begin''), d)
     else if f_set f then (Inl (Thrown ''set''), d)
     else (case fn (no_settings\<lparr>set_lookup := True\<rparr>) d of
         (Inl e, d') \<Rightarrow> (Inl e, d)
       | (Inr r, d') \<Rightarrow> if f_commit f then (Inl (Thrown ''commit''), d) else (Inr r, d')))"
  by (auto simp: lookup_db_def withAgentLookup_def run_transaction_cases split: prod.splits sum.splits)

lemma user_db_cases:
  "user_db user f fn d =
    (if \<not> user_id_ok user then (Inl Bad_user_id, d)
     else if f_connect f then (Inl (Thrown ''connect''), d)
     else if f_begin f then (Inl (Thrown ''begin''), d)
     else if f_set f then (Inl (Thrown ''set''), d)
     else (case fn (no_settings\<lparr>set_user := Some user\<rparr>) d of
         (Inl e, d') \<Rightarrow> (Inl e, d)
       | (Inr r, d') \<Rightarrow> if f_commit f then (Inl (Thrown ''commit''), d) else (Inr r, d')))"
  by (auto simp: user_db_def withUser_def run_transaction_cases split: prod.splits sum.splits)

lemma tenant_db_Inr:
  assumes "tenant_db org f fn d = (Inr r, d')"
  shows "fn (no_settings\<lparr>set_org := Some org\<rparr>) d = (Inr r, d')" and "org_id_ok org"
  using assms by (auto simp: tenant_db_cases split: if_splits prod.splits sum.splits)

lemma tenant_db_Inl: "tenant_db org f fn d = (Inl e, d') \<Longrightarrow> d' = d"
  by (auto simp: tenant_db_cases split: if_splits prod.splits sum.splits)

lemma tenant_db_ok:
  "org_id_ok org \<Longrightarrow> fn (no_settings\<lparr>set_org := Some org\<rparr>) d = (Inr r, d') \<Longrightarrow>
   tenant_db org no_faults fn d = (Inr r, d')"
  by (simp add: tenant_db_cases no_faults_def)

lemma user_db_Inr:
  assumes "user_db user f fn d = (Inr r, d')"
  shows "fn (no_settings\<lparr>set_user := Some user\<rparr>) d = (Inr r, d')"
  using assms by (auto simp: user_db_cases split: if_splits prod.splits sum.splits)

lemma user_db_Inl: "user_db user f fn d = (Inl e, d') \<Longrightarrow> d' = d"
  by (auto simp: user_db_cases split: if_splits prod.splits sum.splits)

text \<open>A property both of the old store and of what the function commits holds of the new store.\<close>

lemma tenant_db_keeps:
  assumes "Q d" and "\<And>r d'. fn (no_settings\<lparr>set_org := Some org\<rparr>) d = (Inr r, d') \<Longrightarrow> Q d'"
  shows "Q (snd (tenant_db org f fn d))"
  using assms by (auto simp: tenant_db_cases split: prod.splits sum.splits)

lemma user_db_keeps:
  assumes "Q d" and "\<And>r d'. fn (no_settings\<lparr>set_user := Some user\<rparr>) d = (Inr r, d') \<Longrightarrow> Q d'"
  shows "Q (snd (user_db user f fn d))"
  using assms by (auto simp: user_db_cases split: prod.splits sum.splits)

lemma tenant_db_snd:
  "snd (tenant_db org f fn d) = d \<or>
   (\<exists>r. fn (no_settings\<lparr>set_org := Some org\<rparr>) d = (Inr r, snd (tenant_db org f fn d)))"
  by (rule tenant_db_keeps [where Q = "\<lambda>d'. d' = d \<or> (\<exists>r. fn (no_settings\<lparr>set_org := Some org\<rparr>) d = (Inr r, d'))"]) auto

lemma tenant_db_update:
  "snd (tenant_db org f (\<lambda>s d. (Inr u, g d)) d) = d \<or> snd (tenant_db org f (\<lambda>s d. (Inr u, g d)) d) = g d"
  using tenant_db_snd [of org f "\<lambda>s d. (Inr u, g d)" d] by auto

text \<open>A transaction that only reads.\<close>

lemma lookup_db_select: "fst (lookup_db f (\<lambda>s d. (Inr (g d), d)) d) = Inr x \<Longrightarrow> x = g d"
  by (auto simp: lookup_db_cases split: if_splits)

lemma lookup_db_read:
  "(\<And>s d. snd (fn s d) = d) \<Longrightarrow> snd (lookup_db f fn d) = d"
  by (auto simp: lookup_db_cases split: prod.splits sum.splits) (metis snd_conv)

lemma lookup_db_Inr:
  assumes "lookup_db f fn d = (Inr r, d')"
  shows "fn (no_settings\<lparr>set_lookup := True\<rparr>) d = (Inr r, d')"
  using assms by (auto simp: lookup_db_cases split: if_splits prod.splits sum.splits)

lemma platform_db_Inr:
  assumes "platform_db f fn d = (Inr r, d')"
  shows "fn (no_settings\<lparr>set_platform := True\<rparr>) d = (Inr r, d')"
  using assms
  by (auto simp: platform_db_def withPlatformAdmin_def run_transaction_cases split: if_splits prod.splits sum.splits)

lemma platform_db_Inl: "platform_db f fn d = (Inl e, d') \<Longrightarrow> d' = d"
  by (auto simp: platform_db_def withPlatformAdmin_def run_transaction_cases split: if_splits prod.splits sum.splits)

end
