(* ===== verification/Rbac.thy ===== *)
theory Rbac
  imports Prelude "HOL-Library.List_Lexorder" "HOL-Library.Char_ord"
begin

text \<open>
  \<open>apps/api/src/rbac/permissions.ts\<close>: the roles, the permissions, the explicit matrix, and the two
  checks on a change of the members of an organization. Roles are ordered by their rank and
  permissions by their name, as instances of the order classes. The last section runs the two
  checks over any sequence of changes as a step relation: an organization keeps an owner.
\<close>

section \<open>Roles and permissions\<close>

(* src rbac/permissions.ts:15-16 ROLES *)
datatype role = OWNER | ADMIN | STAFF | VIEWER

(* src rbac/permissions.ts:18-45 PERMISSIONS *)
datatype permission =
    Server_read | Server_write | Server_delete | Credential_manage
  | Command_issue | Configuration_write | Alert_read | Alert_triage
  | Incident_read | Incident_write | Member_read | Member_manage
  | Owner_manage | Audit_read | Analytics_read | Billing_manage
  | Organization_delete | Notification_manage | Detection_read | Ban_read
  | Ban_manage | Rule_read | Rule_manage | Anticheat_configure

primrec role_name :: "role \<Rightarrow> string" where
  "role_name OWNER = ''OWNER''"
| "role_name ADMIN = ''ADMIN''"
| "role_name STAFF = ''STAFF''"
| "role_name VIEWER = ''VIEWER''"

primrec permission_name :: "permission \<Rightarrow> string" where
  "permission_name Server_read = ''server.read''"
| "permission_name Server_write = ''server.write''"
| "permission_name Server_delete = ''server.delete''"
| "permission_name Credential_manage = ''credential.manage''"
| "permission_name Command_issue = ''command.issue''"
| "permission_name Configuration_write = ''configuration.write''"
| "permission_name Alert_read = ''alert.read''"
| "permission_name Alert_triage = ''alert.triage''"
| "permission_name Incident_read = ''incident.read''"
| "permission_name Incident_write = ''incident.write''"
| "permission_name Member_read = ''member.read''"
| "permission_name Member_manage = ''member.manage''"
| "permission_name Owner_manage = ''owner.manage''"
| "permission_name Audit_read = ''audit.read''"
| "permission_name Analytics_read = ''analytics.read''"
| "permission_name Billing_manage = ''billing.manage''"
| "permission_name Organization_delete = ''organization.delete''"
| "permission_name Notification_manage = ''notification.manage''"
| "permission_name Detection_read = ''detection.read''"
| "permission_name Ban_read = ''ban.read''"
| "permission_name Ban_manage = ''ban.manage''"
| "permission_name Rule_read = ''rule.read''"
| "permission_name Rule_manage = ''rule.manage''"
| "permission_name Anticheat_configure = ''anticheat.configure''"

(* src rbac/permissions.ts:53-126 MATRIX *)
primrec matrix :: "role \<Rightarrow> permission list" where
  "matrix OWNER =
     [Detection_read, Ban_read, Ban_manage, Rule_read, Rule_manage, Anticheat_configure,
      Server_read, Server_write, Server_delete, Credential_manage, Command_issue,
      Configuration_write, Alert_read, Alert_triage, Incident_read, Incident_write,
      Member_read, Member_manage, Owner_manage, Audit_read, Analytics_read, Billing_manage,
      Organization_delete, Notification_manage]"
| "matrix ADMIN =
     [Detection_read, Ban_read, Ban_manage, Rule_read, Rule_manage, Anticheat_configure,
      Server_read, Server_write, Server_delete, Credential_manage, Command_issue,
      Configuration_write, Alert_read, Alert_triage, Incident_read, Incident_write,
      Member_read, Member_manage, Audit_read, Analytics_read, Notification_manage]"
| "matrix STAFF =
     [Detection_read, Ban_read, Ban_manage, Rule_read, Server_read, Alert_read, Alert_triage,
      Incident_read, Incident_write, Member_read, Analytics_read]"
| "matrix VIEWER =
     [Detection_read, Ban_read, Rule_read, Server_read, Alert_read, Incident_read,
      Member_read, Analytics_read]"

definition all_permissions :: "permission list" where
  "all_permissions =
     [Server_read, Server_write, Server_delete, Credential_manage, Command_issue,
      Configuration_write, Alert_read, Alert_triage, Incident_read, Incident_write,
      Member_read, Member_manage, Owner_manage, Audit_read, Analytics_read, Billing_manage,
      Organization_delete, Notification_manage, Detection_read, Ban_read, Ban_manage,
      Rule_read, Rule_manage, Anticheat_configure]"

(* src rbac/permissions.ts:141-143 can *)
definition can :: "role \<Rightarrow> permission \<Rightarrow> bool" where
  "can r p = (p \<in> set (matrix r))"

(* src rbac/permissions.ts:145-147 assertCan *)
definition assertCan :: "role \<Rightarrow> permission \<Rightarrow> (role \<times> permission) + unit" where
  "assertCan r p = (if \<not> can r p then Inl (r, p) else Inr ())"

(* src rbac/permissions.ts:174 RANK *)
primrec rank :: "role \<Rightarrow> nat" where
  "rank VIEWER = 0"
| "rank STAFF = 1"
| "rank ADMIN = 2"
| "rank OWNER = 3"

text \<open>Roles ordered by rank, permissions by name.\<close>

instantiation role :: linorder
begin

definition less_eq_role :: "role \<Rightarrow> role \<Rightarrow> bool" where
  "less_eq_role a b = (rank a \<le> rank b)"

definition less_role :: "role \<Rightarrow> role \<Rightarrow> bool" where
  "less_role a b = (rank a < rank b)"

instance
proof
  fix a b c :: role
  show "a < b \<longleftrightarrow> a \<le> b \<and> \<not> b \<le> a" by (auto simp: less_eq_role_def less_role_def)
  show "a \<le> a" by (simp add: less_eq_role_def)
  show "a \<le> b \<Longrightarrow> b \<le> c \<Longrightarrow> a \<le> c" by (simp add: less_eq_role_def)
  show "a \<le> b \<Longrightarrow> b \<le> a \<Longrightarrow> a = b" by (cases a; cases b) (simp_all add: less_eq_role_def)
  show "a \<le> b \<or> b \<le> a" by (auto simp: less_eq_role_def)
qed

end

lemma permission_name_inject: "permission_name p = permission_name q \<longleftrightarrow> p = q"
proof
  define ps where "ps = all_permissions"
  have "distinct (map permission_name all_permissions)" by code_simp
  then have "inj_on permission_name (set all_permissions)" by (simp add: distinct_map)
  moreover have "p \<in> set all_permissions" "q \<in> set all_permissions"
    by (cases p; simp add: all_permissions_def) (cases q; simp add: all_permissions_def)
  moreover assume "permission_name p = permission_name q"
  ultimately show "p = q" by (simp add: inj_on_def)
qed simp

instantiation permission :: linorder
begin

definition less_eq_permission :: "permission \<Rightarrow> permission \<Rightarrow> bool" where
  "less_eq_permission a b = (permission_name a \<le> permission_name b)"

definition less_permission :: "permission \<Rightarrow> permission \<Rightarrow> bool" where
  "less_permission a b = (permission_name a < permission_name b)"

instance
proof
  fix a b c :: permission
  show "a < b \<longleftrightarrow> a \<le> b \<and> \<not> b \<le> a" by (auto simp: less_eq_permission_def less_permission_def)
  show "a \<le> a" by (simp add: less_eq_permission_def)
  show "a \<le> b \<Longrightarrow> b \<le> c \<Longrightarrow> a \<le> c" unfolding less_eq_permission_def by (rule order.trans)
  show "a \<le> b \<Longrightarrow> b \<le> a \<Longrightarrow> a = b" by (simp add: less_eq_permission_def permission_name_inject)
  show "a \<le> b \<or> b \<le> a" by (auto simp: less_eq_permission_def)
qed

end

(* src rbac/permissions.ts:149-151 permissionsOf *)
definition permissionsOf :: "role \<Rightarrow> permission list" where
  "permissionsOf r = sort (matrix r)"

lemma can_OWNER [simp]: "can OWNER p"
  by (cases p) (simp_all add: can_def)

text \<open>The permissions only an owner has, and what the matrix gives beyond the explicit sets.\<close>

lemma owner_only: "can r Owner_manage \<longleftrightarrow> r = OWNER" "can r Billing_manage \<longleftrightarrow> r = OWNER"
  "can r Organization_delete \<longleftrightarrow> r = OWNER"
  by (cases r; simp add: can_def)+

lemma manage_members: "can r Member_manage \<longleftrightarrow> ADMIN \<le> r"
  by (cases r) (simp_all add: can_def less_eq_role_def)

text \<open>The matrix, though written without inheritance, is monotone in the rank of the role, the
  owner holds every permission, and \<open>permissionsOf\<close> lists exactly what \<open>can\<close> grants, sorted and
  without duplicates.\<close>

theorem matrix_monotone:
  "(r \<le> r' \<longrightarrow> can r p \<longrightarrow> can r' p) \<and> can OWNER p \<and>
   (p \<in> set (permissionsOf r) \<longleftrightarrow> can r p) \<and> sorted (permissionsOf r) \<and> distinct (permissionsOf r)"
proof -
  have "can r' p" if "r \<le> r'" "can r p"
    using that by (cases r; cases r'; cases p) (simp_all add: can_def less_eq_role_def)
  moreover have "distinct (matrix r)" by (cases r) simp_all
  ultimately show ?thesis by (simp add: permissionsOf_def) (simp add: can_def)
qed

section \<open>Changes of role\<close>

(* src rbac/permissions.ts:157-162 RoleChangeRefusal *)
datatype role_change_refusal =
    Self_elevation
  | Self_demotion_last_owner
  | Owner_requires_owner
  | Last_owner_removal
  | Insufficient_permission

(* src rbac/permissions.ts:164-172 RoleChangeContext *)
record role_change_context =
  rc_actorRole :: role
  rc_actorUserId :: string
  rc_targetUserId :: string
  rc_targetCurrentRole :: role
  rc_targetNewRole :: role
  rc_ownerCount :: nat

(* src rbac/permissions.ts:186-209 checkRoleChange *)
definition checkRoleChange :: "role_change_context \<Rightarrow> role_change_refusal option" where
  "checkRoleChange ctx =
     (let isSelf = (rc_actorUserId ctx = rc_targetUserId ctx) in
      if \<not> can (rc_actorRole ctx) Member_manage then Some Insufficient_permission
      else if isSelf \<and> rank (rc_targetCurrentRole ctx) < rank (rc_targetNewRole ctx) then Some Self_elevation
      else if (rc_targetNewRole ctx = OWNER \<or> rc_targetCurrentRole ctx = OWNER) \<and>
              \<not> can (rc_actorRole ctx) Owner_manage then Some Owner_requires_owner
      else if rc_targetCurrentRole ctx = OWNER \<and> rc_targetNewRole ctx \<noteq> OWNER \<and> rc_ownerCount ctx \<le> 1
           then Some (if isSelf then Self_demotion_last_owner else Last_owner_removal)
      else None)"

(* src rbac/permissions.ts:211-217 MemberRemovalContext *)
record member_removal_context =
  mr_actorRole :: role
  mr_actorUserId :: string
  mr_targetUserId :: string
  mr_targetRole :: role
  mr_ownerCount :: nat

(* src rbac/permissions.ts:219-229 checkMemberRemoval *)
definition checkMemberRemoval :: "member_removal_context \<Rightarrow> role_change_refusal option" where
  "checkMemberRemoval ctx =
     (if \<not> can (mr_actorRole ctx) Member_manage then Some Insufficient_permission
      else if mr_targetRole ctx = OWNER \<and> \<not> can (mr_actorRole ctx) Owner_manage then Some Owner_requires_owner
      else if mr_targetRole ctx = OWNER \<and> mr_ownerCount ctx \<le> 1 then Some Last_owner_removal
      else None)"

lemma checkRoleChange_None:
  "checkRoleChange ctx = None \<longleftrightarrow>
     ADMIN \<le> rc_actorRole ctx \<and>
     (rc_actorUserId ctx = rc_targetUserId ctx \<longrightarrow> rc_targetNewRole ctx \<le> rc_targetCurrentRole ctx) \<and>
     (rc_targetNewRole ctx = OWNER \<or> rc_targetCurrentRole ctx = OWNER \<longrightarrow> rc_actorRole ctx = OWNER) \<and>
     (rc_targetCurrentRole ctx = OWNER \<and> rc_targetNewRole ctx \<noteq> OWNER \<longrightarrow> 2 \<le> rc_ownerCount ctx)"
  by (auto simp: checkRoleChange_def Let_def manage_members owner_only less_eq_role_def)

lemma checkMemberRemoval_None:
  "checkMemberRemoval ctx = None \<longleftrightarrow>
     ADMIN \<le> mr_actorRole ctx \<and>
     (mr_targetRole ctx = OWNER \<longrightarrow> mr_actorRole ctx = OWNER \<and> 2 \<le> mr_ownerCount ctx)"
  by (auto simp: checkMemberRemoval_def manage_members owner_only)

section \<open>Sequences of changes\<close>

text \<open>
  The members of one organization, and the changes the two checks let through when the context is
  filled from the state they are applied to, one at a time. An administrator may also bring in
  somebody who is not a member yet, with a role other than owner.
\<close>

type_synonym members = "string \<rightharpoonup> role"

definition owners :: "members \<Rightarrow> string set" where
  "owners m = {u. m u = Some OWNER}"

inductive member_step :: "members \<Rightarrow> members \<Rightarrow> bool" where
  Change: "m actor = Some ar \<Longrightarrow> m target = Some tr \<Longrightarrow>
    checkRoleChange \<lparr>rc_actorRole = ar, rc_actorUserId = actor, rc_targetUserId = target,
      rc_targetCurrentRole = tr, rc_targetNewRole = new, rc_ownerCount = card (owners m)\<rparr> = None \<Longrightarrow>
    member_step m (m(target \<mapsto> new))"
| Remove: "m actor = Some ar \<Longrightarrow> m target = Some tr \<Longrightarrow>
    checkMemberRemoval \<lparr>mr_actorRole = ar, mr_actorUserId = actor, mr_targetUserId = target,
      mr_targetRole = tr, mr_ownerCount = card (owners m)\<rparr> = None \<Longrightarrow>
    member_step m (m(target := None))"
| Join: "m u = None \<Longrightarrow> r \<noteq> OWNER \<Longrightarrow> member_step m (m(u \<mapsto> r))"

inductive_cases member_stepE: "member_step m m'"

lemma owners_upd:
  "owners (m(u \<mapsto> OWNER)) = insert u (owners m)"
  "r \<noteq> OWNER \<Longrightarrow> owners (m(u \<mapsto> r)) = owners m - {u}"
  "owners (m(u := None)) = owners m - {u}"
  by (auto simp: owners_def)

lemma finite_owners: "finite (dom m) \<Longrightarrow> finite (owners m)"
  by (rule finite_subset [of _ "dom m"]) (auto simp: owners_def)

lemma owners_minus:
  assumes "2 \<le> card (owners m)"
  shows "owners m - {u} \<noteq> {}"
proof
  assume "owners m - {u} = {}"
  then have "owners m \<subseteq> {u}" by auto
  then have "card (owners m) \<le> card {u}" by (intro card_mono) auto
  with assms show False by simp
qed

lemma member_step_owner:
  assumes "member_step m m'" and "owners m \<noteq> {}" and "finite (dom m)"
  shows "owners m' \<noteq> {} \<and> finite (dom m')"
  using assms
proof cases
  case (Change actor ar target tr new)
  then have keep: "tr = OWNER \<and> new \<noteq> OWNER \<longrightarrow> 2 \<le> card (owners m)"
    by (simp add: checkRoleChange_None)
  show ?thesis
  proof (cases "new = OWNER")
    case False
    have "owners m - {target} \<noteq> {}"
    proof (cases "tr = OWNER")
      case True
      with keep False show ?thesis by (intro owners_minus) simp
    next
      case False
      with Change(3) have "target \<notin> owners m" by (simp add: owners_def)
      with assms(2) show ?thesis by auto
    qed
    with Change False assms(3) show ?thesis by (simp add: owners_upd)
  qed (use Change assms(3) in \<open>simp add: owners_upd\<close>)
next
  case (Remove actor ar target tr)
  then have keep: "tr = OWNER \<longrightarrow> 2 \<le> card (owners m)" by (simp add: checkMemberRemoval_None)
  have "owners m - {target} \<noteq> {}"
  proof (cases "tr = OWNER")
    case True
    with keep show ?thesis by (intro owners_minus) simp
  next
    case False
    with Remove(3) have "target \<notin> owners m" by (simp add: owners_def)
    with assms(2) show ?thesis by auto
  qed
  with Remove assms(3) show ?thesis by (simp add: owners_upd)
next
  case (Join u r)
  then have "owners m - {u} = owners m" by (auto simp: owners_def)
  with Join assms show ?thesis by (simp add: owners_upd)
qed

text \<open>Whatever sequence of role changes, removals and arrivals the two checks let through,
  one at a time, an organization that has an owner still has one.\<close>

theorem owner_kept:
  assumes "member_step\<^sup>*\<^sup>* m m'" and "owners m \<noteq> {}" and "finite (dom m)"
  shows "owners m' \<noteq> {}"
proof -
  from assms have "owners m' \<noteq> {} \<and> finite (dom m')"
    by (induction rule: rtranclp_induct) (auto dest: member_step_owner)
  then show ?thesis ..
qed

text \<open>A change the check lets through never raises the rank of its own author, and nobody but
  an owner makes an owner or takes the role away from one.\<close>

theorem no_escalation:
  assumes "checkRoleChange ctx = None"
  shows "(rc_actorUserId ctx = rc_targetUserId ctx \<longrightarrow> rc_targetNewRole ctx \<le> rc_targetCurrentRole ctx) \<and>
    (rc_actorRole ctx \<noteq> OWNER \<longrightarrow> rc_targetNewRole ctx \<noteq> OWNER \<and> rc_targetCurrentRole ctx \<noteq> OWNER)"
  using assms by (auto simp: checkRoleChange_None)

end
