(* ===== verification/Tables.thy ===== *)
theory Tables
  imports Db Rbac
begin

text \<open>
  The tables of the database (\<open>db/migrations\<close>) with the columns the modelled code reads or writes,
  one record per row, and the constraints of the schema as the functions that insert. A row is
  kept in the order of insertion; a select with no order takes the first row that fits, which is
  the only one wherever a unique index covers the condition.
\<close>

section \<open>Values\<close>

text \<open>\<open>citext\<close>: text compared without case.\<close>

definition citext_eq :: "string \<Rightarrow> string \<Rightarrow> bool" where
  "citext_eq a b = (to_lower a = to_lower b)"

datatype server_state = State_online | State_degraded | State_offline | State_unknown
datatype health_state = Healthy | Health_degraded | Health_failed | Health_unknown
datatype severity = Sev_info | Sev_low | Sev_medium | Sev_high | Sev_critical
datatype alert_status = Alert_open | Alert_acknowledged | Alert_resolved
datatype incident_status = Inc_open | Inc_investigating | Inc_mitigated | Inc_resolved | Inc_closed
datatype command_status = Cmd_pending | Cmd_sent | Cmd_acknowledged | Cmd_failed | Cmd_expired
datatype command_result = Res_completed | Res_failed | Res_rejected | Res_duplicate
datatype credential_status = Cred_active | Cred_pending_rotation | Cred_superseded | Cred_revoked
datatype ban_scope = Scope_license | Scope_discord | Scope_steam | Scope_ip | Scope_fivem
datatype ban_status =
  Ban_active | Ban_expired | Ban_lifted | Ban_pending | Ban_kicked | Ban_dismissed
datatype appeal_status = Ap_pending | Ap_approved | Ap_rejected
datatype capture_status = Cap_pending | Cap_received | Cap_expired
datatype signature_status = Sig_pending | Sig_approved | Sig_rejected

section \<open>Accounts\<close>

(* src db/migrations/0001_init.sql:77-91 users *)
record user_row =
  u_id :: string
  u_email :: string
  u_password_hash :: string
  u_display_name :: string
  u_email_verified_at :: "time_ms option"
  u_mfa_enforced :: bool
  u_failed_logins :: int
  u_locked_until :: "time_ms option"
  u_last_login_at :: "time_ms option"
  u_deleted_at :: "time_ms option"
  u_is_platform_admin :: bool

record mfa_row =
  mf_user_id :: string
  mf_confirmed_at :: "time_ms option"

record session_row =
  se_id :: string
  se_user_id :: string
  se_token_hash :: bytes
  se_organization_id :: "string option"
  se_mfa_satisfied :: bool
  se_last_seen_at :: time_ms
  se_expires_at :: time_ms
  se_revoked_at :: "time_ms option"

record membership_row =
  me_id :: string
  me_organization_id :: string
  me_user_id :: string
  me_role :: role
  me_invited_by :: "string option"
  me_accepted_at :: "time_ms option"
  me_created_at :: time_ms

record invitation_row =
  iv_id :: string
  iv_organization_id :: string
  iv_email :: string
  iv_role :: role
  iv_token_hash :: bytes
  iv_invited_by :: "string option"
  iv_expires_at :: time_ms
  iv_accepted_at :: "time_ms option"

record organization_row =
  og_id :: string
  og_name :: string
  og_slug :: string
  og_heatmap_enabled :: bool
  og_share_bans :: bool

record reset_row =
  pr_id :: string
  pr_user_id :: string
  pr_token_hash :: bytes
  pr_purpose :: string
  pr_expires_at :: time_ms
  pr_consumed_at :: "time_ms option"

record discord_row =
  di_discord_user_id :: string
  di_user_id :: string
  di_username :: "string option"
  di_last_login_at :: "time_ms option"

record subscription_row =
  sb_id :: string
  sb_organization_id :: string
  sb_plan_code :: string
  sb_trial_ends_at :: "time_ms option"

section \<open>Servers and agents\<close>

record server_row =
  sv_id :: string
  sv_organization_id :: string
  sv_name :: string
  sv_environment :: string
  sv_state :: server_state
  sv_health :: health_state
  sv_connected_at :: "time_ms option"
  sv_last_heartbeat_at :: "time_ms option"
  sv_last_error :: "string option"
  sv_last_error_at :: "time_ms option"
  sv_agent_version :: "string option"
  sv_protocol_version :: "int option"
  sv_uptime_seconds :: "int option"
  sv_players_online :: "int option"
  sv_max_players :: "int option"
  sv_fxserver_version :: "string option"
  sv_onesync :: "string option"
  sv_queue_size :: "int option"
  sv_config_version :: int
  sv_remote_config :: json
  sv_fingerprint :: "string option"
  sv_updated_at :: time_ms
  sv_created_at :: time_ms
  sv_deleted_at :: "time_ms option"

record agent_row =
  ag_id :: string
  ag_organization_id :: string
  ag_server_id :: string
  ag_handshake_at :: "time_ms option"
  ag_handshake_count :: int
  ag_capabilities :: "string list"
  ag_last_request_at :: "time_ms option"

record credential_row =
  cr_key_id :: string
  cr_organization_id :: string
  cr_server_id :: string
  cr_agent_id :: string
  cr_secret_encrypted :: bytes
  cr_secret_hint :: string
  cr_status :: credential_status
  cr_supersedes_key_id :: "string option"
  cr_created_by :: "string option"
  cr_revoked_by :: "string option"
  cr_revoke_reason :: "string option"
  cr_last_seen_at :: "time_ms option"
  cr_expires_at :: "time_ms option"
  cr_revoked_at :: "time_ms option"

record telemetry_row =
  tm_organization_id :: string
  tm_server_id :: string
  tm_sampled_at :: int
  tm_players_online :: "int option"
  tm_uptime_seconds :: "int option"
  tm_memory_mb :: "rat option"
  tm_tick_ms :: "rat option"
  tm_resource_count :: "int option"
  tm_error_count :: "int option"
  tm_queue_size :: "int option"
  tm_dependencies :: json
  tm_created_at :: time_ms

record snapshot_row =
  sp_organization_id :: string
  sp_server_id :: string
  sp_updated_at :: int
  sp_snapshot :: json

record setting_row =
  st_organization_id :: string
  st_server_id :: string
  st_protection_id :: string
  st_enabled :: bool
  st_mode :: string

record license_row =
  li_organization_id :: string
  li_server_id :: string
  li_token :: string
  li_plan :: string
  li_issued_at :: time_ms
  li_expires_at :: time_ms
  li_created_by :: "string option"
  li_revoked_at :: "time_ms option"
  li_revoked_reason :: "string option"
  li_revoked_by :: "string option"

record command_row =
  cm_id :: string
  cm_organization_id :: string
  cm_server_id :: string
  cm_type :: string
  cm_payload :: json
  cm_status :: command_status
  cm_result :: "command_result option"
  cm_result_detail :: "json option"
  cm_reason :: "string option"
  cm_issued_by :: "string option"
  cm_sent_at :: "time_ms option"
  cm_delivery_count :: int
  cm_acknowledged_at :: "time_ms option"
  cm_executed_at :: "time_ms option"
  cm_duration_ms :: "int option"
  cm_expires_at :: time_ms
  cm_created_at :: time_ms

section \<open>Alerts, incidents, bans, audit\<close>

record alert_row =
  al_id :: string
  al_organization_id :: string
  al_server_id :: string
  al_agent_alert_id :: string
  al_severity :: severity
  al_category :: string
  al_status :: alert_status
  al_summary :: string
  al_metadata :: json
  al_reference :: "string option"
  al_origin :: "string option"
  al_occurrences :: int
  al_occurred_at :: int
  al_last_occurrence_at :: "int option"
  al_incident_id :: "string option"
  al_acknowledged_by :: "string option"
  al_acknowledged_at :: "time_ms option"
  al_resolved_by :: "string option"
  al_resolved_at :: "time_ms option"
  al_created_at :: time_ms

record incident_row =
  in_id :: string
  in_organization_id :: string
  in_server_id :: "string option"
  in_title :: string
  in_description :: "string option"
  in_severity :: severity
  in_status :: incident_status
  in_assigned_to :: "string option"
  in_opened_by :: "string option"
  in_alert_count :: int
  in_first_alert_at :: "int option"
  in_last_alert_at :: "int option"
  in_resolved_at :: "time_ms option"
  in_created_at :: time_ms

record incident_event_row =
  ie_organization_id :: string
  ie_incident_id :: string
  ie_actor_user_id :: "string option"
  ie_kind :: string
  ie_body :: "string option"
  ie_metadata :: json
  ie_created_at :: time_ms

record ban_row =
  bn_id :: string
  bn_organization_id :: string
  bn_server_id :: "string option"
  bn_scope :: ban_scope
  bn_identifier :: string
  bn_player_name :: "string option"
  bn_reason :: string
  bn_status :: ban_status
  bn_issued_by :: "string option"
  bn_issued_by_auto :: bool
  bn_detection_id :: "string option"
  bn_detector :: "string option"
  bn_risk :: "int option"
  bn_category :: "string option"
  bn_evidence_kind :: "string option"
  bn_lifted_by :: "string option"
  bn_lifted_reason :: "string option"
  bn_lifted_at :: "time_ms option"
  bn_reviewed_by :: "string option"
  bn_reviewed_at :: "time_ms option"
  bn_expires_at :: "time_ms option"
  bn_created_at :: time_ms

record feedback_row =
  fb_id :: string
  fb_organization_id :: string
  fb_server_id :: "string option"
  fb_detector :: string
  fb_scope :: ban_scope
  fb_identifier :: string
  fb_verdict :: string
  fb_ban_id :: string
  fb_created_by :: "string option"
  fb_created_at :: time_ms

record appeal_row =
  ap_id :: string
  ap_organization_id :: string
  ap_ban_id :: "string option"
  ap_identifier :: string
  ap_contact :: "string option"
  ap_message :: string
  ap_status :: appeal_status
  ap_ip :: string
  ap_created_at :: time_ms
  ap_resolved_by :: "string option"
  ap_resolved_at :: "time_ms option"

text \<open>The network of shared bans belongs to no organization.\<close>

record signal_row =
  gs_identifier_hash :: string
  gs_org_count :: int
  gs_report_count :: int
  gs_last_reported_at :: time_ms

record audit_row =
  au_organization_id :: "string option"
  au_actor_user_id :: "string option"
  au_actor_kind :: string
  au_actor_label :: "string option"
  au_action :: string
  au_target_id :: "string option"
  au_created_at :: time_ms

record rule_row =
  ru_id :: string
  ru_organization_id :: string
  ru_server_id :: "string option"
  ru_event_name :: string
  ru_event_side :: string
  ru_validation_kind :: string
  ru_validation_params :: json
  ru_action :: string
  ru_status :: string
  ru_hit_count :: int
  ru_created_by :: "string option"
  ru_created_at :: time_ms

text \<open>The settings of detection of a server: switches, thresholds, automatic response.\<close>

record anticheat_values =
  av_detect_teleport :: bool
  av_detect_speed :: bool
  av_detect_godmode :: bool
  av_detect_noclip :: bool
  av_detect_injected_event :: bool
  av_detect_firerate :: bool
  av_detect_entity_spam :: bool
  av_max_ground_speed_kmh :: int
  av_max_tick_distance_m :: int
  av_max_fire_rate_rps :: int
  av_auto_ban_enabled :: bool
  av_auto_ban_threshold :: int
  av_critical_action :: string
  av_default_ban_days :: "int option"
  av_onesync_lockdown :: string

record settings_row =
  an_organization_id :: string
  an_server_id :: string
  an_values :: anticheat_values
  an_updated_by :: "string option"
  an_updated_at :: time_ms

record signature_row =
  sg_id :: string
  sg_organization_id :: string
  sg_submitted_by :: "string option"
  sg_label :: string
  sg_category :: string
  sg_pattern :: string
  sg_cheat_name :: "string option"
  sg_description :: "string option"
  sg_status :: signature_status
  sg_reviewed_by :: "string option"
  sg_review_note :: "string option"
  sg_reviewed_at :: "time_ms option"
  sg_created_at :: time_ms

record capture_row =
  cp_id :: string
  cp_organization_id :: string
  cp_server_id :: string
  cp_target_slot :: "int option"
  cp_target_identifier :: "string option"
  cp_target_name :: "string option"
  cp_requested_by :: "string option"
  cp_command_id :: "string option"
  cp_token_hash :: bytes
  cp_status :: capture_status
  cp_mime :: "string option"
  cp_bytes :: "int option"
  cp_image :: "bytes option"
  cp_created_at :: time_ms
  cp_expires_at :: time_ms
  cp_received_at :: "time_ms option"

record entitlement_row =
  en_organization_id :: string
  en_key :: string
  en_int_value :: "int option"

section \<open>The database\<close>

record db =
  users :: "user_row list"
  mfa_factors :: "mfa_row list"
  sessions :: "session_row list"
  memberships :: "membership_row list"
  invitations :: "invitation_row list"
  organizations :: "organization_row list"
  password_resets :: "reset_row list"
  discord_identities :: "discord_row list"
  subscriptions :: "subscription_row list"
  entitlements :: "entitlement_row list"
  servers :: "server_row list"
  agents :: "agent_row list"
  credentials :: "credential_row list"
  telemetry_samples :: "telemetry_row list"
  server_protections :: "snapshot_row list"
  protection_settings :: "setting_row list"
  licenses :: "license_row list"
  agent_commands :: "command_row list"
  alerts :: "alert_row list"
  incidents :: "incident_row list"
  incident_events :: "incident_event_row list"
  bans :: "ban_row list"
  detection_feedback :: "feedback_row list"
  ban_appeals :: "appeal_row list"
  security_rules :: "rule_row list"
  anticheat_settings :: "settings_row list"
  signatures :: "signature_row list"
  captures :: "capture_row list"
  global_ban_reporters :: "(string \<times> string) list"
  global_ban_signals :: "signal_row list"
  audit_logs :: "audit_row list"

definition empty_db :: db where
  "empty_db =
     \<lparr>users = [], mfa_factors = [], sessions = [], memberships = [], invitations = [],
      organizations = [], password_resets = [], discord_identities = [], subscriptions = [],
      entitlements = [], servers = [], agents = [], credentials = [], telemetry_samples = [],
      server_protections = [], protection_settings = [], licenses = [], agent_commands = [],
      alerts = [], incidents = [], incident_events = [], bans = [], detection_feedback = [],
      ban_appeals = [], security_rules = [], anticheat_settings = [], signatures = [], captures = [],
      global_ban_reporters = [], global_ban_signals = [], audit_logs = []\<rparr>"

text \<open>What the components share: a server of an organization that is not deleted.\<close>

definition live_server :: "string \<Rightarrow> string \<Rightarrow> server_row \<Rightarrow> bool" where
  "live_server org sid r = (sv_organization_id r = org \<and> sv_id r = sid \<and> sv_deleted_at r = None)"

definition server_exists :: "string \<Rightarrow> string \<Rightarrow> db \<Rightarrow> bool" where
  "server_exists org sid d = exists_row (\<lambda>r. sv_organization_id r = org \<and> sv_id r = sid) (servers d)"

definition append_audit :: "audit_row \<Rightarrow> db \<Rightarrow> db" where
  "append_audit a d = d\<lparr>audit_logs := audit_logs d @ [a]\<rparr>"

lemma append_audit_fields [simp]:
  "credentials (append_audit a d) = credentials d" "servers (append_audit a d) = servers d"
  "agents (append_audit a d) = agents d" "bans (append_audit a d) = bans d"
  "alerts (append_audit a d) = alerts d" "agent_commands (append_audit a d) = agent_commands d"
  "memberships (append_audit a d) = memberships d" "users (append_audit a d) = users d"
  "sessions (append_audit a d) = sessions d" "incidents (append_audit a d) = incidents d"
  "password_resets (append_audit a d) = password_resets d" "licenses (append_audit a d) = licenses d"
  "invitations (append_audit a d) = invitations d" "captures (append_audit a d) = captures d"
  "ban_appeals (append_audit a d) = ban_appeals d" "detection_feedback (append_audit a d) = detection_feedback d"
  "organizations (append_audit a d) = organizations d" "security_rules (append_audit a d) = security_rules d"
  "anticheat_settings (append_audit a d) = anticheat_settings d" "signatures (append_audit a d) = signatures d"
  "protection_settings (append_audit a d) = protection_settings d"
  "global_ban_reporters (append_audit a d) = global_ban_reporters d"
  "global_ban_signals (append_audit a d) = global_ban_signals d"
  "audit_logs (append_audit a d) = audit_logs d @ [a]"
  by (simp_all add: append_audit_def)

section \<open>What belongs to the other organizations\<close>

text \<open>
  The part of the database organization \<open>o\<close> has no business with: the rows of every tenant table
  that carry another organization. An operation that agrees with its input on \<open>foreign o\<close> is
  confined to \<open>o\<close>.
\<close>

definition foreign :: "string \<Rightarrow> db \<Rightarrow> db" where
  "foreign o' d =
     \<lparr>users = [], mfa_factors = [], sessions = [],
      memberships = outside me_organization_id o' (memberships d),
      invitations = outside iv_organization_id o' (invitations d),
      organizations = outside og_id o' (organizations d), password_resets = [], discord_identities = [],
      subscriptions = outside sb_organization_id o' (subscriptions d),
      entitlements = outside en_organization_id o' (entitlements d),
      servers = outside sv_organization_id o' (servers d),
      agents = outside ag_organization_id o' (agents d),
      credentials = outside cr_organization_id o' (credentials d),
      telemetry_samples = outside tm_organization_id o' (telemetry_samples d),
      server_protections = outside sp_organization_id o' (server_protections d),
      protection_settings = outside st_organization_id o' (protection_settings d),
      licenses = outside li_organization_id o' (licenses d),
      agent_commands = outside cm_organization_id o' (agent_commands d),
      alerts = outside al_organization_id o' (alerts d),
      incidents = outside in_organization_id o' (incidents d),
      incident_events = outside ie_organization_id o' (incident_events d),
      bans = outside bn_organization_id o' (bans d),
      detection_feedback = outside fb_organization_id o' (detection_feedback d),
      ban_appeals = outside ap_organization_id o' (ban_appeals d),
      security_rules = outside ru_organization_id o' (security_rules d),
      anticheat_settings = outside an_organization_id o' (anticheat_settings d),
      signatures = outside sg_organization_id o' (signatures d),
      captures = outside cp_organization_id o' (captures d),
      global_ban_reporters = [], global_ban_signals = [],
      audit_logs = filter (\<lambda>r. au_organization_id r \<noteq> Some o') (audit_logs d)\<rparr>"

definition confined :: "string \<Rightarrow> db \<Rightarrow> db \<Rightarrow> bool" where
  "confined o' d d' \<longleftrightarrow> foreign o' d' = foreign o' d"

lemma confined_refl [simp]: "confined o' d d"
  by (simp add: confined_def)

lemma confined_trans: "confined o' d d' \<Longrightarrow> confined o' d' d'' \<Longrightarrow> confined o' d d''"
  by (simp add: confined_def)

lemma confined_audit: "au_organization_id a = Some o' \<Longrightarrow> confined o' d (append_audit a d)"
  by (simp add: confined_def foreign_def append_audit_def)

text \<open>Tables that no organization owns do not count.\<close>

lemma confined_accounts [simp]:
  "confined o' d (d\<lparr>users := x\<rparr>)" "confined o' d (d\<lparr>sessions := y\<rparr>)" "confined o' d (d\<lparr>password_resets := z\<rparr>)"
  by (simp_all add: confined_def foreign_def)

text \<open>One rule per tenant table.\<close>

lemma confined_tables:
  "outside me_organization_id o' x1 = outside me_organization_id o' (memberships d) \<Longrightarrow> confined o' d (d\<lparr>memberships := x1\<rparr>)"
  "outside iv_organization_id o' x2 = outside iv_organization_id o' (invitations d) \<Longrightarrow> confined o' d (d\<lparr>invitations := x2\<rparr>)"
  "outside sv_organization_id o' x3 = outside sv_organization_id o' (servers d) \<Longrightarrow> confined o' d (d\<lparr>servers := x3\<rparr>)"
  "outside ag_organization_id o' x4 = outside ag_organization_id o' (agents d) \<Longrightarrow> confined o' d (d\<lparr>agents := x4\<rparr>)"
  "outside cr_organization_id o' x5 = outside cr_organization_id o' (credentials d) \<Longrightarrow> confined o' d (d\<lparr>credentials := x5\<rparr>)"
  "outside tm_organization_id o' x6 = outside tm_organization_id o' (telemetry_samples d) \<Longrightarrow> confined o' d (d\<lparr>telemetry_samples := x6\<rparr>)"
  "outside sp_organization_id o' x7 = outside sp_organization_id o' (server_protections d) \<Longrightarrow> confined o' d (d\<lparr>server_protections := x7\<rparr>)"
  "outside cm_organization_id o' x8 = outside cm_organization_id o' (agent_commands d) \<Longrightarrow> confined o' d (d\<lparr>agent_commands := x8\<rparr>)"
  "outside al_organization_id o' x9 = outside al_organization_id o' (alerts d) \<Longrightarrow> confined o' d (d\<lparr>alerts := x9\<rparr>)"
  "outside in_organization_id o' x10 = outside in_organization_id o' (incidents d) \<Longrightarrow> confined o' d (d\<lparr>incidents := x10\<rparr>)"
  "outside ie_organization_id o' x11 = outside ie_organization_id o' (incident_events d) \<Longrightarrow> confined o' d (d\<lparr>incident_events := x11\<rparr>)"
  "outside bn_organization_id o' x12 = outside bn_organization_id o' (bans d) \<Longrightarrow> confined o' d (d\<lparr>bans := x12\<rparr>)"
  "outside fb_organization_id o' x13 = outside fb_organization_id o' (detection_feedback d) \<Longrightarrow> confined o' d (d\<lparr>detection_feedback := x13\<rparr>)"
  "outside ap_organization_id o' x14 = outside ap_organization_id o' (ban_appeals d) \<Longrightarrow> confined o' d (d\<lparr>ban_appeals := x14\<rparr>)"
  "outside li_organization_id o' x15 = outside li_organization_id o' (licenses d) \<Longrightarrow> confined o' d (d\<lparr>licenses := x15\<rparr>)"
  "outside cp_organization_id o' x16 = outside cp_organization_id o' (captures d) \<Longrightarrow> confined o' d (d\<lparr>captures := x16\<rparr>)"
  "outside ru_organization_id o' x17 = outside ru_organization_id o' (security_rules d) \<Longrightarrow> confined o' d (d\<lparr>security_rules := x17\<rparr>)"
  "outside st_organization_id o' x18 = outside st_organization_id o' (protection_settings d) \<Longrightarrow> confined o' d (d\<lparr>protection_settings := x18\<rparr>)"
  "outside an_organization_id o' x19 = outside an_organization_id o' (anticheat_settings d) \<Longrightarrow> confined o' d (d\<lparr>anticheat_settings := x19\<rparr>)"
  "outside sg_organization_id o' x20 = outside sg_organization_id o' (signatures d) \<Longrightarrow> confined o' d (d\<lparr>signatures := x20\<rparr>)"
  "outside og_id o' x21 = outside og_id o' (organizations d) \<Longrightarrow> confined o' d (d\<lparr>organizations := x21\<rparr>)"
  by (simp_all add: confined_def foreign_def)

end
