(* ===== verification/Crypto.thy ===== *)
theory Crypto
  imports Prelude
begin

text \<open>
  \<open>apps/api/src/lib/crypto.ts\<close>: hashing, encryption at rest, password records, tokens and
  identifiers. The primitives of \<open>node:crypto\<close> are the fields of a record the definitions take as
  their argument; random bytes are arguments too. The text of an exception is a tag.
\<close>

section \<open>The primitives the module imports\<close>

text \<open>
  \<open>c_scrypt pw salt keylen N r p\<close> is \<open>None\<close> when the promise rejects. \<open>c_gcm_open\<close> is \<open>None\<close> when
  \<open>final()\<close> throws because the tag does not match.
\<close>

record crypto =
  c_sha256 :: "bytes \<Rightarrow> bytes"
  c_hmac_sha256 :: "string \<Rightarrow> string \<Rightarrow> bytes"
  c_hmac_sha1 :: "bytes \<Rightarrow> bytes \<Rightarrow> bytes"
  c_scrypt :: "string \<Rightarrow> bytes \<Rightarrow> nat \<Rightarrow> int \<Rightarrow> int \<Rightarrow> int \<Rightarrow> bytes option"
  c_gcm_seal :: "bytes \<Rightarrow> bytes \<Rightarrow> bytes \<Rightarrow> bytes \<times> bytes"
  c_gcm_open :: "bytes \<Rightarrow> bytes \<Rightarrow> bytes \<Rightarrow> bytes \<Rightarrow> bytes option"

text \<open>
  The conversions of the language on inputs the computed cases below do not cover: \<open>Number\<close> on
  a literal that is not plain decimal, \<open>Buffer.from(s, 'base64')\<close> on text that is not padded base64,
  \<open>JSON.parse\<close> (\<open>None\<close> when it throws) and the text of a number that is not an integer.
\<close>

record js_lib =
  number_other :: "string \<Rightarrow> int option"
  base64_other :: "string \<Rightarrow> bytes"
  json_parse :: "string \<Rightarrow> json option"
  number_text :: "rat \<Rightarrow> string"

text \<open>Documented laws of the authenticated cipher: opening inverts sealing, the tag has 16 bytes.\<close>

definition gcm_laws :: "crypto \<Rightarrow> bool" where
  "gcm_laws c \<longleftrightarrow> (\<forall>k iv p. length (snd (c_gcm_seal c k iv p)) = 16 \<and>
     c_gcm_open c k iv (fst (c_gcm_seal c k iv p)) (snd (c_gcm_seal c k iv p)) = Some p)"

text \<open>A digest of SHA-256, and so its HMAC, has 32 bytes.\<close>

definition digest_laws :: "crypto \<Rightarrow> bool" where
  "digest_laws c \<longleftrightarrow> (\<forall>x. length (c_sha256 c x) = 32) \<and> (\<forall>k m. length (c_hmac_sha256 c k m) = 32)"

section \<open>Encodings of byte strings\<close>

definition hex_of_byte :: "byte \<Rightarrow> string" where
  "hex_of_byte b = [hex_chars ! (unat b div 16), hex_chars ! (unat b mod 16)]"

definition hex_of_bytes :: "bytes \<Rightarrow> string" where
  "hex_of_bytes bs = concat (map hex_of_byte bs)"

definition utf8_decode :: "bytes \<Rightarrow> string" where
  "utf8_decode bs = map (\<lambda>b. char_of (unat b)) bs"

definition base64_chars :: string where
  "base64_chars = ''ABCDEFGHIJKLMNOPQRSTUVWXYZabcdefghijklmnopqrstuvwxyz0123456789+/''"

definition base64url_chars :: string where
  "base64url_chars = ''ABCDEFGHIJKLMNOPQRSTUVWXYZabcdefghijklmnopqrstuvwxyz0123456789-_''"

fun base64_encode :: "string \<Rightarrow> string \<Rightarrow> bytes \<Rightarrow> string" where
  "base64_encode al pad [] = []"
| "base64_encode al pad [a] =
     [al ! (unat a div 4), al ! (unat a mod 4 * 16)] @ pad @ pad"
| "base64_encode al pad [a, b] =
     [al ! (unat a div 4), al ! (unat a mod 4 * 16 + unat b div 16), al ! (unat b mod 16 * 4)] @ pad"
| "base64_encode al pad (a # b # c # r) =
     [al ! (unat a div 4), al ! (unat a mod 4 * 16 + unat b div 16),
      al ! (unat b mod 16 * 4 + unat c div 64), al ! (unat c mod 64)] @ base64_encode al pad r"

abbreviation to_base64 :: "bytes \<Rightarrow> string" where
  "to_base64 \<equiv> base64_encode base64_chars ''=''"

abbreviation to_base64url :: "bytes \<Rightarrow> string" where
  "to_base64url \<equiv> base64_encode base64url_chars []"

lemma base64url_length: "length (to_base64url bs) = (4 * length bs + 2) div 3"
  by (induction base64url_chars "[] :: string" bs rule: base64_encode.induct) simp_all

lemma base64url_nth: "i < 64 \<Longrightarrow> base64url_chars ! i \<in> set base64url_chars"
  by (rule nth_mem) (simp add: base64url_chars_def)

lemma sextets:
  fixes a b c :: "8 word"
  shows "unat a div 4 < 64" "unat a mod 4 * 16 < 64" "unat a mod 4 * 16 + unat b div 16 < 64" "unat b mod 16 * 4 < 64"
    "unat b mod 16 * 4 + unat c div 64 < 64" "unat c mod 64 < 64"
proof -
  have "unat a < 256" "unat b < 256" "unat c < 256"
    using unsigned_less [of a, where 'a = nat] unsigned_less [of b, where 'a = nat] unsigned_less [of c, where 'a = nat] by simp_all
  then have "unat a div 4 < 64" "unat b div 16 < 16" "unat c div 64 < 4" by (auto intro: less_mult_imp_div_less)
  moreover have "unat a mod 4 < 4" "unat b mod 16 < 16" "unat c mod 64 < 64" by simp_all
  ultimately show "unat a div 4 < 64" "unat a mod 4 * 16 < 64" "unat a mod 4 * 16 + unat b div 16 < 64" "unat b mod 16 * 4 < 64"
    "unat b mod 16 * 4 + unat c div 64 < 64" "unat c mod 64 < 64" by linarith+
qed

lemma base64url_set: "set (to_base64url bs) \<subseteq> set base64url_chars"
proof (induction base64url_chars "[] :: string" bs rule: base64_encode.induct)
qed (auto intro!: base64url_nth simp: sextets)

definition base64_value :: "char \<Rightarrow> nat option" where
  "base64_value c = map_of (zip base64_chars [0..<64]) c"

fun base64_decode :: "string \<Rightarrow> bytes option" where
  "base64_decode [] = Some []"
| "base64_decode (w # x # y # z # r) =
     (case (base64_value w, base64_value x) of
        (Some i, Some j) \<Rightarrow>
          (if y = CHR ''='' then
             (if z = CHR ''='' \<and> r = [] then Some [of_nat (i * 4 + j div 16)] else None)
           else (case base64_value y of None \<Rightarrow> None
             | Some k \<Rightarrow>
                (if z = CHR ''='' then
                   (if r = [] then Some [of_nat (i * 4 + j div 16), of_nat (j mod 16 * 16 + k div 4)]
                    else None)
                 else (case (base64_value z, base64_decode r) of
                   (Some l, Some rest) \<Rightarrow>
                      Some (of_nat (i * 4 + j div 16) # of_nat (j mod 16 * 16 + k div 4) #
                            of_nat (k mod 4 * 64 + l) # rest)
                 | _ \<Rightarrow> None))))
      | _ \<Rightarrow> None)"
| "base64_decode _ = None"

definition from_base64 :: "js_lib \<Rightarrow> string \<Rightarrow> bytes" where
  "from_base64 js s = (case base64_decode s of Some b \<Rightarrow> b | None \<Rightarrow> base64_other js s)"

lemma unat_byte: "unat (b :: byte) < 256"
  using unsigned_less [of b] by simp

lemma length_hex_of_bytes [simp]: "length (hex_of_bytes bs) = 2 * length bs"
  by (induction bs) (simp_all add: hex_of_bytes_def hex_of_byte_def)

lemma hex_chars_nth: "n < 16 \<Longrightarrow> hex_chars ! n \<in> set hex_chars"
  by (rule nth_mem) (simp add: hex_chars_def)

lemma hex_of_byte_class: "set (hex_of_byte b) \<subseteq> set hex_chars"
proof -
  have "unat b div 16 < 16" using unat_byte [of b] by (simp add: less_mult_imp_div_less)
  then show ?thesis by (simp add: hex_of_byte_def hex_chars_nth)
qed

lemma hex_of_bytes_class: "all_in hex_chars (hex_of_bytes bs)"
  using hex_of_byte_class by (auto simp: all_in_iff hex_of_bytes_def)

lemma hex_chars_inject:
  assumes "i < 16" "j < 16"
  shows "hex_chars ! i = hex_chars ! j \<longleftrightarrow> i = j"
proof -
  have "distinct hex_chars" by (simp add: hex_chars_def)
  then show ?thesis using assms by (simp add: nth_eq_iff_index_eq hex_chars_def)
qed

lemma hex_of_byte_inject: "hex_of_byte a = hex_of_byte b \<longleftrightarrow> a = b"
proof
  assume eq: "hex_of_byte a = hex_of_byte b"
  have "unat a div 16 < 16" "unat b div 16 < 16"
    using unat_byte [of a] unat_byte [of b] by (simp_all add: less_mult_imp_div_less)
  with eq have "unat a div 16 = unat b div 16" "unat a mod 16 = unat b mod 16"
    by (simp_all add: hex_of_byte_def hex_chars_inject)
  then have "unat a = unat b" by (metis div_mult_mod_eq)
  then show "a = b" by (simp add: word_unat_eq_iff)
qed simp

lemma hex_of_bytes_inject: "hex_of_bytes xs = hex_of_bytes ys \<longleftrightarrow> xs = ys"
proof
  assume "hex_of_bytes xs = hex_of_bytes ys"
  then show "xs = ys"
  proof (induction xs arbitrary: ys)
    case Nil
    then show ?case by (cases ys) (simp_all add: hex_of_bytes_def hex_of_byte_def)
  next
    case (Cons x xs)
    then obtain y ys' where ys: "ys = y # ys'"
      by (cases ys) (auto simp: hex_of_bytes_def hex_of_byte_def)
    have "length (hex_of_byte x) = length (hex_of_byte y)" by (simp add: hex_of_byte_def)
    with Cons.prems ys have "hex_of_byte x = hex_of_byte y" "hex_of_bytes xs = hex_of_bytes ys'"
      by (simp_all add: hex_of_bytes_def)
    with Cons.IH ys show ?case by (simp add: hex_of_byte_inject)
  qed
qed simp

lemma utf8_decode_utf8 [simp]: "utf8_decode (utf8 s) = s"
proof -
  have "char_of (unat (of_nat (of_char c) :: byte)) = c" for c :: char
  proof -
    have "of_char c < (256 :: nat)" by (rule nat_of_char_less_256)
    then show ?thesis by (simp add: unsigned_of_nat take_bit_nat_eq_self)
  qed
  then show ?thesis by (simp add: utf8_decode_def utf8_def comp_def)
qed

lemma utf8_inject [simp]: "utf8 s = utf8 t \<longleftrightarrow> s = t"
  by (metis utf8_decode_utf8)

text \<open>Base64: decoding inverts encoding.\<close>

lemma base64_chars_facts: "length base64_chars = 64" "distinct base64_chars"
  "CHR ''='' \<notin> set base64_chars" "CHR ''$'' \<notin> set base64_chars"
  by (simp_all add: base64_chars_def)

lemma base64_value_nth: "n < 64 \<Longrightarrow> base64_value (base64_chars ! n) = Some n"
  using map_of_zip_nth [of base64_chars "[0..<64]" n]
  by (simp add: base64_value_def base64_chars_facts)

lemma base64_chars_nth_neq: "n < 64 \<Longrightarrow> base64_chars ! n \<noteq> CHR ''=''"
  by (metis base64_chars_facts(1,3) nth_mem)

lemma byte_split_bounds:
  fixes a b :: byte
  shows "unat a div 4 < 64" "unat a div 16 < 16" "unat a div 64 < 4" "unat a mod 64 < 64"
    and "unat a mod 4 * 16 < 64" "unat a mod 16 * 4 < 64"
    and "unat a mod 4 * 16 + unat b div 16 < 64" "unat a mod 16 * 4 + unat b div 64 < 64"
  using unat_byte [of a] unat_byte [of b] by auto

lemma byte_join:
  "of_nat (unat (a :: byte) div 4 * 4 + (unat a mod 4 * 16) div 16) = a"
  "of_nat (unat (a :: byte) div 4 * 4 + (unat a mod 4 * 16 + unat (b :: byte) div 16) div 16) = a"
  "of_nat ((unat a mod 4 * 16 + unat b div 16) mod 16 * 16 + (unat b mod 16 * 4) div 4) = b"
  "of_nat ((unat a mod 4 * 16 + unat b div 16) mod 16 * 16 + (unat b mod 16 * 4 + unat (c :: byte) div 64) div 4) = b"
  "of_nat ((unat b mod 16 * 4 + unat c div 64) mod 4 * 64 + unat c mod 64) = c"
proof -
  have b: "unat b div 16 < 16" and c: "unat c div 64 < 4" by (rule byte_split_bounds)+
  have 1: "unat a div 4 * 4 + (unat a mod 4 * 16) div 16 = unat a" by simp
  have 2: "unat a div 4 * 4 + (unat a mod 4 * 16 + unat b div 16) div 16 = unat a" using b by simp
  have 3: "(unat a mod 4 * 16 + unat b div 16) mod 16 * 16 + (unat b mod 16 * 4) div 4 = unat b"
    using b by simp
  have 4: "(unat a mod 4 * 16 + unat b div 16) mod 16 * 16 + (unat b mod 16 * 4 + unat c div 64) div 4 = unat b"
    using b c by simp
  have 5: "(unat b mod 16 * 4 + unat c div 64) mod 4 * 64 + unat c mod 64 = unat c" using c by simp
  show "of_nat (unat a div 4 * 4 + (unat a mod 4 * 16) div 16) = a"
    and "of_nat (unat a div 4 * 4 + (unat a mod 4 * 16 + unat b div 16) div 16) = a"
    and "of_nat ((unat a mod 4 * 16 + unat b div 16) mod 16 * 16 + (unat b mod 16 * 4) div 4) = b"
    and "of_nat ((unat a mod 4 * 16 + unat b div 16) mod 16 * 16 + (unat b mod 16 * 4 + unat c div 64) div 4) = b"
    and "of_nat ((unat b mod 16 * 4 + unat c div 64) mod 4 * 64 + unat c mod 64) = c"
    unfolding 1 2 3 4 5 by simp_all
qed

lemma base64_decode_encode: "base64_decode (to_base64 bs) = Some bs"
proof (induction base64_chars "''=''" bs rule: base64_encode.induct)
  case (2 a)
  then show ?case by (simp add: base64_value_nth byte_split_bounds byte_join(1))
next
  case (3 a b)
  then show ?case
    by (simp add: base64_value_nth base64_chars_nth_neq byte_split_bounds byte_join(2,3))
next
  case (4 a b c r)
  then show ?case
    by (simp add: base64_value_nth base64_chars_nth_neq byte_split_bounds byte_join(2,4,5))
qed simp

lemma from_to_base64 [simp]: "from_base64 js (to_base64 bs) = bs"
  by (simp add: from_base64_def base64_decode_encode)

lemma base64_encode_class:
  assumes "length al = 64"
  shows "set (base64_encode al pad bs) \<subseteq> set al \<union> set pad"
  using assms by (induction al pad bs rule: base64_encode.induct) (auto simp: byte_split_bounds)

section \<open>Digests and signatures\<close>

(* src lib/crypto.ts:53-55 sha256Hex *)
definition sha256Hex :: "crypto \<Rightarrow> bytes \<Rightarrow> string" where
  "sha256Hex c input = hex_of_bytes (c_sha256 c input)"

(* src lib/crypto.ts:57-59 hmacSha256Hex *)
definition hmacSha256Hex :: "crypto \<Rightarrow> string \<Rightarrow> string \<Rightarrow> string" where
  "hmacSha256Hex c secret message = hex_of_bytes (c_hmac_sha256 c secret message)"

(* src lib/crypto.ts:68-72 constantTimeEqual *)
definition constantTimeEqual :: "crypto \<Rightarrow> string \<Rightarrow> string \<Rightarrow> bool" where
  "constantTimeEqual c a b = (c_sha256 c (utf8 a) = c_sha256 c (utf8 b))"

lemma constantTimeEqual_refl [simp]: "constantTimeEqual c a a"
  by (simp add: constantTimeEqual_def)

lemma length_sha256Hex: "digest_laws c \<Longrightarrow> length (sha256Hex c x) = 64"
  by (simp add: sha256Hex_def digest_laws_def)

lemma length_hmacSha256Hex: "digest_laws c \<Longrightarrow> length (hmacSha256Hex c k m) = 64"
  by (simp add: hmacSha256Hex_def digest_laws_def)

section \<open>Encryption at rest\<close>

definition gcm_iv_bytes :: nat where "gcm_iv_bytes = 12"
definition gcm_tag_bytes :: nat where "gcm_tag_bytes = 16"
definition envelope_version :: byte where "envelope_version = 1"

text \<open>\<open>iv\<close> is what \<open>randomBytes(GCM_IV_BYTES)\<close> returned.\<close>

(* src lib/crypto.ts:88-99 encryptSecret *)
definition encryptSecret :: "crypto \<Rightarrow> bytes \<Rightarrow> string \<Rightarrow> bytes \<Rightarrow> bytes result" where
  "encryptSecret c iv plaintext key =
     (if length key \<noteq> 32 then Inl (Thrown ''key_length'')
      else (let (ciphertext, tag) = c_gcm_seal c key iv (utf8 plaintext)
            in Inr ([envelope_version] @ iv @ tag @ ciphertext)))"

(* src lib/crypto.ts:101-123 decryptSecret *)
definition decryptSecret :: "crypto \<Rightarrow> bytes \<Rightarrow> bytes \<Rightarrow> string result" where
  "decryptSecret c envelope key =
     (if length key \<noteq> 32 then Inl (Thrown ''key_length'')
      else if length envelope < 1 + gcm_iv_bytes + gcm_tag_bytes then Inl (Thrown ''truncated'')
      else if envelope ! 0 \<noteq> envelope_version then Inl (Thrown ''version'')
      else (let iv = take gcm_iv_bytes (drop 1 envelope);
                tag = take gcm_tag_bytes (drop (1 + gcm_iv_bytes) envelope);
                ciphertext = drop (1 + gcm_iv_bytes + gcm_tag_bytes) envelope
            in case c_gcm_open c key iv ciphertext tag of
                 None \<Rightarrow> Inl (Thrown ''auth_tag'')
               | Some plain \<Rightarrow> Inr (utf8_decode plain)))"

lemma encrypt_ok:
  "length key = 32 \<Longrightarrow>
   encryptSecret c iv s key =
     Inr ([envelope_version] @ iv @ snd (c_gcm_seal c key iv (utf8 s)) @ fst (c_gcm_seal c key iv (utf8 s)))"
  by (simp add: encryptSecret_def split: prod.split)

lemma decrypt_encrypt:
  assumes laws: "gcm_laws c" and iv: "length iv = gcm_iv_bytes" and e: "encryptSecret c iv s key = Inr env"
  shows "decryptSecret c env key = Inr s"
proof -
  have key: "length key = 32" using e by (auto simp: encryptSecret_def split: if_splits)
  let ?t = "snd (c_gcm_seal c key iv (utf8 s))" and ?p = "fst (c_gcm_seal c key iv (utf8 s))"
  have t: "length ?t = 16" and o: "c_gcm_open c key iv ?p ?t = Some (utf8 s)"
    using laws by (simp_all add: gcm_laws_def)
  have env: "env = envelope_version # iv @ ?t @ ?p" using e key by (simp add: encrypt_ok)
  show ?thesis
    using key iv t o by (simp add: decryptSecret_def env gcm_iv_bytes_def gcm_tag_bytes_def)
qed

section \<open>Passwords\<close>

definition scrypt_N :: int where "scrypt_N = 32768"
definition scrypt_r :: int where "scrypt_r = 8"
definition scrypt_p :: int where "scrypt_p = 1"
definition scrypt_keylen :: nat where "scrypt_keylen = 32"

(* src lib/crypto.ts:139-159 hashPassword *)
definition hashPassword :: "crypto \<Rightarrow> bytes \<Rightarrow> string \<Rightarrow> string result" where
  "hashPassword c salt password =
     (if length password < 12 then Inl (Thrown ''password_too_short'')
      else (case c_scrypt c password salt scrypt_keylen scrypt_N scrypt_r scrypt_p of
         None \<Rightarrow> Inl (Thrown ''scrypt'')
       | Some derived \<Rightarrow> Inr (join_with ''$''
           [''scrypt'', string_of_int scrypt_N, string_of_int scrypt_r, string_of_int scrypt_p,
            to_base64 salt, to_base64 derived])))"

text \<open>\<open>timingSafeEqual\<close> throws on different lengths.\<close>

definition timingSafeEqual :: "bytes \<Rightarrow> bytes \<Rightarrow> bool result" where
  "timingSafeEqual a b = (if length a \<noteq> length b then Inl (Thrown ''range'') else Inr (a = b))"

(* src lib/crypto.ts:161-182 verifyPassword *)
definition verifyPassword :: "js_lib \<Rightarrow> crypto \<Rightarrow> string \<Rightarrow> string \<Rightarrow> bool result" where
  "verifyPassword js c password stored =
     (let parts = split_on (CHR ''$'') stored in
      if length parts \<noteq> 6 \<or> parts ! 0 \<noteq> ''scrypt'' then Inr False
      else (let salt = from_base64 js (parts ! 4); expected = from_base64 js (parts ! 5) in
        case (js_integer (number_other js) (parts ! 1), js_integer (number_other js) (parts ! 2),
              js_integer (number_other js) (parts ! 3)) of
          (Some N, Some r, Some p) \<Rightarrow>
            if length salt = 0 \<or> length expected = 0 then Inr False
            else (case c_scrypt c password salt (length expected) N r p of
                None \<Rightarrow> Inl (Thrown ''scrypt'')
              | Some derived \<Rightarrow> timingSafeEqual derived expected)
        | _ \<Rightarrow> Inr False))"

text \<open>scrypt returns as many bytes as it was asked for.\<close>

definition scrypt_laws :: "crypto \<Rightarrow> bool" where
  "scrypt_laws c \<longleftrightarrow> (\<forall>pw salt n N r p d. c_scrypt c pw salt n N r p = Some d \<longrightarrow> length d = n)"

lemma to_base64_no_dollar: "CHR ''$'' \<notin> set (to_base64 bs)"
  using base64_encode_class [OF base64_chars_facts(1), of "''=''" bs] base64_chars_facts(4) by auto

lemma string_of_int_no_dollar: "CHR ''$'' \<notin> set (string_of_int i)"
  by (rule string_of_int_notin) (simp_all add: digit_chars_def)

lemma password_parts:
  assumes "hashPassword c salt pw = Inr stored"
  obtains derived where
    "split_on (CHR ''$'') stored =
       [''scrypt'', string_of_int scrypt_N, string_of_int scrypt_r, string_of_int scrypt_p,
        to_base64 salt, to_base64 derived]"
    and "c_scrypt c pw salt scrypt_keylen scrypt_N scrypt_r scrypt_p = Some derived"
    and "12 \<le> length pw"
proof -
  obtain derived where d: "c_scrypt c pw salt scrypt_keylen scrypt_N scrypt_r scrypt_p = Some derived"
    and st: "stored = join_with [CHR ''$'']
       [''scrypt'', string_of_int scrypt_N, string_of_int scrypt_r, string_of_int scrypt_p,
        to_base64 salt, to_base64 derived]" and len: "12 \<le> length pw"
    using assms by (auto simp: hashPassword_def split: if_splits option.splits simp del: join_with.simps)
  have "split_on (CHR ''$'') stored =
       [''scrypt'', string_of_int scrypt_N, string_of_int scrypt_r, string_of_int scrypt_p,
        to_base64 salt, to_base64 derived]"
    unfolding st by (rule split_on_join) (auto simp: to_base64_no_dollar string_of_int_no_dollar)
  then show ?thesis using d len by (rule that)
qed

lemma verify_hashed:
  assumes laws: "scrypt_laws c" and salt: "salt \<noteq> []" and h: "hashPassword c salt pw = Inr stored"
  shows "verifyPassword js c guess stored =
    (case c_scrypt c guess salt scrypt_keylen scrypt_N scrypt_r scrypt_p of
       None \<Rightarrow> Inl (Thrown ''scrypt'')
     | Some d \<Rightarrow> Inr (Some d = c_scrypt c pw salt scrypt_keylen scrypt_N scrypt_r scrypt_p))"
proof -
  obtain derived where parts: "split_on (CHR ''$'') stored =
       [''scrypt'', string_of_int scrypt_N, string_of_int scrypt_r, string_of_int scrypt_p,
        to_base64 salt, to_base64 derived]"
    and d: "c_scrypt c pw salt scrypt_keylen scrypt_N scrypt_r scrypt_p = Some derived"
    using h by (rule password_parts)
  have len: "length derived = scrypt_keylen" using laws d by (auto simp: scrypt_laws_def)
  have nums: "js_integer (number_other js) (string_of_int scrypt_N) = Some scrypt_N"
    "js_integer (number_other js) (string_of_int scrypt_r) = Some scrypt_r"
    "js_integer (number_other js) (string_of_int scrypt_p) = Some scrypt_p"
    by (rule js_integer_string_of_int; simp add: scrypt_N_def scrypt_r_def scrypt_p_def)+
  have nonempty: "derived \<noteq> []" using len by (auto simp: scrypt_keylen_def)
  show ?thesis
  proof (cases "c_scrypt c guess salt scrypt_keylen scrypt_N scrypt_r scrypt_p")
    case None
    then show ?thesis using salt nonempty by (simp add: verifyPassword_def parts nums len)
  next
    case (Some g)
    moreover from Some have "length g = scrypt_keylen" using laws unfolding scrypt_laws_def by blast
    ultimately show ?thesis
      using salt nonempty by (simp add: verifyPassword_def parts nums len d timingSafeEqual_def)
  qed
qed

section \<open>Tokens and identifiers\<close>

definition base32_alphabet :: string where
  "base32_alphabet = ''0123456789abcdefghjkmnpqrstvwxyz''"

text \<open>
  The body of the \<open>for\<close> loop of \<open>randomBase32\<close> over one block of random bytes: a byte below 248
  gives a symbol, and the block is left as soon as \<open>n\<close> symbols are there.
\<close>

(* src lib/crypto.ts:196-199 randomBase32 *)
fun base32_block :: "nat \<Rightarrow> string \<Rightarrow> bytes \<Rightarrow> string" where
  "base32_block n out [] = out"
| "base32_block n out (b # bs) =
     (let out' = (if b < 248 then out @ [base32_alphabet ! (unat b mod 32)] else out)
      in if length out' = n then out' else base32_block n out' bs)"

text \<open>
  \<open>randomBase32 n blocks\<close>: \<open>blocks\<close> are the successive results of \<open>randomBytes(n)\<close>; \<open>None\<close> when
  the loop would ask for one more.
\<close>

(* src lib/crypto.ts:191-202 randomBase32 *)
fun randomBase32 :: "nat \<Rightarrow> bytes list \<Rightarrow> string \<Rightarrow> string option" where
  "randomBase32 n [] out = (if n \<le> length out then Some out else None)"
| "randomBase32 n (b # bs) out = (if n \<le> length out then Some out else randomBase32 n bs (base32_block n out b))"

(* src lib/crypto.ts:225-227 newId *)
definition newId :: "string \<Rightarrow> bytes list \<Rightarrow> string option" where
  "newId prefix blocks = map_option (\<lambda>s. prefix @ ''_'' @ s) (randomBase32 26 blocks [])"

(* src lib/crypto.ts:230-232 newAgentSecret *)
definition newAgentSecret :: "bytes \<Rightarrow> string" where
  "newAgentSecret random36 = to_base64url random36"

(* src lib/crypto.ts:235-237 newOpaqueToken *)
definition newOpaqueToken :: "bytes \<Rightarrow> string" where
  "newOpaqueToken random32 = to_base64url random32"

(* src lib/crypto.ts:239-241 hashToken *)
definition hashToken :: "crypto \<Rightarrow> string \<Rightarrow> bytes" where
  "hashToken c token = c_sha256 c (utf8 token)"

(* src lib/crypto.ts:244-246 newResponseNonce *)
definition newResponseNonce :: "bytes \<Rightarrow> string" where
  "newResponseNonce random16 = hex_of_bytes random16"

lemma base32_block_bound:
  "length out < n \<Longrightarrow> length (base32_block n out bs) \<le> n"
  by (induction n out bs rule: base32_block.induct) (auto simp: Let_def)

lemma base32_alphabet_nth: "base32_alphabet ! (m mod 32) \<in> set base32_alphabet"
  by (rule nth_mem) (simp add: base32_alphabet_def)

lemma base32_block_class:
  "all_in base32_alphabet out \<Longrightarrow> all_in base32_alphabet (base32_block n out bs)"
  by (induction n out bs rule: base32_block.induct)
    (auto simp: Let_def all_in_iff base32_alphabet_nth)

lemma base32_block_progress:
  "length out < n \<Longrightarrow>
   length (base32_block n out bs) = min n (length out + length (filter (\<lambda>b. b < 248) bs))"
  by (induction n out bs rule: base32_block.induct) (auto simp: Let_def)

lemma randomBase32_ok:
  assumes "randomBase32 n blocks out = Some s" and "length out \<le> n" and "all_in base32_alphabet out"
  shows "length s = n \<and> all_in base32_alphabet s"
  using assms
  by (induction n blocks out rule: randomBase32.induct)
    (auto split: if_splits simp: base32_block_bound base32_block_class)

lemma randomBase32_returns:
  assumes "length out \<le> n" and "n \<le> length out + length (filter (\<lambda>b. b < 248) (concat blocks))"
  shows "\<exists>s. randomBase32 n blocks out = Some s"
  using assms
proof (induction n blocks out rule: randomBase32.induct)
  case (2 n b bs out)
  show ?case
  proof (cases "n \<le> length out")
    case False
    then have l: "length (base32_block n out b) = min n (length out + length (filter (\<lambda>b. b < 248) b))"
      by (intro base32_block_progress) simp
    then have "\<exists>s. randomBase32 n bs (base32_block n out b) = Some s"
      using 2 False by auto
    with False show ?thesis by simp
  qed simp
qed simp

section \<open>Properties\<close>

text \<open>What \<open>encryptSecret\<close> stores, \<open>decryptSecret\<close> gives back, and an envelope has the documented
  layout: a version byte, the nonce, a tag of 16 bytes, the ciphertext. Keys of another length, cut
  envelopes and other versions are refused before the cipher is called.\<close>

theorem secret_envelope_roundtrip:
  assumes "gcm_laws c" and "length iv = gcm_iv_bytes" and "encryptSecret c iv s key = Inr env"
  shows "decryptSecret c env key = Inr s \<and> env ! 0 = envelope_version \<and> take gcm_iv_bytes (drop 1 env) = iv \<and>
    1 + gcm_iv_bytes + gcm_tag_bytes \<le> length env \<and>
    (\<forall>key'. length key' \<noteq> 32 \<longrightarrow> decryptSecret c env key' = Inl (Thrown ''key_length'')) \<and>
    (\<forall>n < 1 + gcm_iv_bytes + gcm_tag_bytes. decryptSecret c (take n env) key = Inl (Thrown ''truncated'')) \<and>
    (\<forall>v. v \<noteq> envelope_version \<longrightarrow> decryptSecret c (env[0 := v]) key = Inl (Thrown ''version''))"
proof -
  have key: "length key = 32" using assms(3) by (auto simp: encryptSecret_def split: if_splits)
  have env: "env = [envelope_version] @ iv @ snd (c_gcm_seal c key iv (utf8 s)) @ fst (c_gcm_seal c key iv (utf8 s))"
    using assms(3) key by (simp add: encrypt_ok)
  have tag: "length (snd (c_gcm_seal c key iv (utf8 s))) = 16" using assms(1) by (simp add: gcm_laws_def)
  have len: "1 + gcm_iv_bytes + gcm_tag_bytes \<le> length env"
    using assms(2) tag by (simp add: env gcm_iv_bytes_def gcm_tag_bytes_def)
  have "decryptSecret c env key = Inr s" using assms by (rule decrypt_encrypt)
  moreover have "\<forall>v. v \<noteq> envelope_version \<longrightarrow> decryptSecret c (env[0 := v]) key = Inl (Thrown ''version'')"
    using key len by (simp add: decryptSecret_def env)
  moreover have "\<forall>n < 1 + gcm_iv_bytes + gcm_tag_bytes. decryptSecret c (take n env) key = Inl (Thrown ''truncated'')"
    using key by (auto simp: decryptSecret_def)
  moreover have "env ! 0 = envelope_version" "take gcm_iv_bytes (drop 1 env) = iv"
    using assms(2) by (simp_all add: env)
  ultimately show ?thesis using len by (simp add: decryptSecret_def)
qed

text \<open>A stored password record verifies exactly the passwords that derive the same key with the same
  salt, the original among them; passwords under twelve characters get no record, and a text that
  is not a record of six fields verifies nothing.\<close>

theorem password_record_verifies:
  assumes "scrypt_laws c" and "salt \<noteq> []" and "hashPassword c salt pw = Inr stored"
  shows "verifyPassword js c pw stored = Inr True \<and> 12 \<le> length pw \<and>
    (verifyPassword js c guess stored = Inr True \<longleftrightarrow>
       c_scrypt c guess salt scrypt_keylen scrypt_N scrypt_r scrypt_p =
       c_scrypt c pw salt scrypt_keylen scrypt_N scrypt_r scrypt_p) \<and>
    (length (split_on (CHR ''$'') other) \<noteq> 6 \<longrightarrow> verifyPassword js c guess other = Inr False)"
proof -
  obtain d where d: "c_scrypt c pw salt scrypt_keylen scrypt_N scrypt_r scrypt_p = Some d" and len: "12 \<le> length pw"
    using assms(3) by (rule password_parts)
  show ?thesis
    using verify_hashed [OF assms, of js pw] verify_hashed [OF assms, of js guess] d len
    by (auto simp: verifyPassword_def split: option.splits)
qed

text \<open>C40: An identifier is its prefix, an underscore and 26 symbols of the alphabet, and the loop that
  draws it returns as soon as 26 of the bytes drawn are below 248.\<close>

theorem newId_shape_and_return:
  "(newId prefix blocks = Some i \<longrightarrow>
      (\<exists>s. i = prefix @ ''_'' @ s \<and> length s = 26 \<and> all_in base32_alphabet s)) \<and>
   (26 \<le> length (filter (\<lambda>b. b < 248) (concat blocks)) \<longrightarrow> (\<exists>i. newId prefix blocks = Some i))"
  using randomBase32_ok [of 26 blocks "[]"] randomBase32_returns [of "[]" 26 blocks]
  by (auto simp: newId_def all_in_def)

text \<open>The number of bytes the loop accepts for the \<open>i\<close>-th symbol of the alphabet.\<close>

definition accepted_bytes :: "nat \<Rightarrow> nat" where
  "accepted_bytes i = length (filter (\<lambda>n. n < 248 \<and> n mod 32 = i) [0..<256])"

lemma residue_block:
  "m \<le> 32 \<Longrightarrow> length (filter (\<lambda>n. n mod 32 = i) [32 * k..<32 * k + m]) = (if i < m then 1 else 0)"
  by (induction m) auto

lemma residue_blocks: "i < 32 \<Longrightarrow> length (filter (\<lambda>n. n mod 32 = i) [0..<32 * k]) = k"
proof (induction k)
  case (Suc k)
  have "[0..<32 * Suc k] = [0..<32 * k] @ [32 * k..<32 * k + 32]"
    using upt_add_eq_append [of 0 "32 * k" 32] by (simp add: add.commute)
  with Suc residue_block [of 32 i k] show ?case by simp
qed simp

lemma accepted_bytes_eq:
  assumes "i < 32"
  shows "accepted_bytes i = (if i < 24 then 8 else 7)"
proof -
  have "[0..<256] = [0..<248] @ [248..<256 :: nat]" by (simp add: upt_add_eq_append [of 0 248 8, simplified])
  then have "accepted_bytes i = length (filter (\<lambda>n. n mod 32 = i) [0..<248])"
    unfolding accepted_bytes_def by (simp only: filter_append) (auto intro!: arg_cong [of _ _ length] filter_cong simp: filter_empty_conv)
  also have "[0..<248] = [0..<32 * 7] @ [32 * 7..<32 * 7 + 24 :: nat]"
    using upt_add_eq_append [of 0 "32 * 7" 24] by simp
  finally show ?thesis
    using residue_blocks [OF assms, of 7] residue_block [of 24 i 7] by (simp only: filter_append length_append) simp
qed

text \<open>The rejection of bytes from 248 on biases the symbols it is meant to keep even: of the bytes
  that are accepted eight give each of the first 24 symbols and seven each of the last 8, while
  without rejection each symbol has eight.\<close>

theorem base32_rejection_is_biased:
  "(\<forall>i < 24. accepted_bytes i = 8) \<and> (\<forall>i \<in> {24..<32}. accepted_bytes i = 7) \<and>
   (\<forall>i < 32. length (filter (\<lambda>n. n mod 32 = i) [0..<256]) = 8)"
  using residue_blocks [of _ 8] by (auto simp: accepted_bytes_eq)

end
