(* ===== verification/Credentials.thy ===== *)
theory Credentials
  imports Tables Crypto
begin

text \<open>
  \<open>apps/api/src/agent-gateway/credentials.ts\<close>: the credentials of the agents. Their life cycle is
  \<open>ACTIVE\<close> / \<open>PENDING_ROTATION\<close>, then \<open>SUPERSEDED\<close> or \<open>REVOKED\<close>; a key in one of the first two is
  usable. The lemmas show that a server never has two active keys, that a key that is not usable
  never becomes usable again, and that a rotation leaves at every step a key the agent holds.
\<close>

section \<open>Resolution\<close>

(* src agent-gateway/credentials.ts:16-23 ResolvedCredential *)
record resolved_credential =
  rc_keyId :: string
  rc_organizationId :: string
  rc_serverId :: string
  rc_agentId :: string
  rc_secret :: string
  rc_status :: credential_status

definition usable :: "credential_row \<Rightarrow> bool" where
  "usable r = (cr_status r = Cred_active \<or> cr_status r = Cred_pending_rotation)"

(* src agent-gateway/credentials.ts:52-57 resolve/select *)
definition select_credential :: "string \<Rightarrow> string \<Rightarrow> db \<Rightarrow> credential_row option" where
  "select_credential agentId keyId d =
     first_row (\<lambda>r. cr_agent_id r = agentId \<and> cr_key_id r = keyId \<and> usable r) (credentials d)"

(* src agent-gateway/credentials.ts:42-88 resolve *)
definition resolve :: "crypto \<Rightarrow> bytes \<Rightarrow> time_ms \<Rightarrow> faults \<Rightarrow> string \<Rightarrow> string \<Rightarrow> db \<Rightarrow>
    resolved_credential option result" where
  "resolve c key now f agentId keyId d =
     (case fst (lookup_db f (\<lambda>s d. (Inr (select_credential agentId keyId d), d)) d) of
        Inl e \<Rightarrow> Inl e
      | Inr None \<Rightarrow> Inr None
      | Inr (Some row) \<Rightarrow>
          if (case cr_expires_at row of Some t \<Rightarrow> t \<le> now | None \<Rightarrow> False) then Inr None
          else (case decryptSecret c (cr_secret_encrypted row) key of
              Inl e \<Rightarrow> Inl (Thrown ''credential unreadable'')
            | Inr secret \<Rightarrow> Inr (Some
                \<lparr>rc_keyId = cr_key_id row, rc_organizationId = cr_organization_id row,
                 rc_serverId = cr_server_id row, rc_agentId = cr_agent_id row,
                 rc_secret = secret, rc_status = cr_status row\<rparr>)))"

section \<open>Statements on the table, with its constraints\<close>

text \<open>
  The unique indexes: a key identifier occurs once, and a server has one row with status
  \<open>ACTIVE\<close>. A statement whose result violates one of them throws.
\<close>

(* src db/migrations/0001_init.sql:240-249 api_credentials_one_active_idx *)
definition credentials_unique :: "credential_row list \<Rightarrow> bool" where
  "credentials_unique rows =
     (distinct (map cr_key_id rows) \<and>
      distinct (map (\<lambda>r. (cr_organization_id r, cr_server_id r)) (filter (\<lambda>r. cr_status r = Cred_active) rows)))"

definition key_id_ok :: "string \<Rightarrow> bool" where
  "key_id_ok s = matches_prefixed ''key_'' lower_alnum 26 s"

definition put_credentials :: "credential_row list \<Rightarrow> db \<Rightarrow> unit result \<times> db" where
  "put_credentials rows d =
     (if credentials_unique rows then (Inr (), d\<lparr>credentials := rows\<rparr>) else (Inl Unique_violation, d))"

definition insert_credential :: "credential_row \<Rightarrow> db \<Rightarrow> unit result \<times> db" where
  "insert_credential r d =
     (if \<not> key_id_ok (cr_key_id r) \<or> 8 < length (cr_secret_hint r) then (Inl Check_violation, d)
      else if \<not> server_exists (cr_organization_id r) (cr_server_id r) d then (Inl Foreign_key_violation, d)
      else put_credentials (credentials d @ [r]) d)"

section \<open>Operations\<close>

(* src agent-gateway/credentials.ts:96-104 touch *)
definition touch :: "string \<Rightarrow> string \<Rightarrow> time_ms \<Rightarrow> faults \<Rightarrow> db \<Rightarrow> unit result \<times> db" where
  "touch org keyId now f d =
     tenant_db org f (\<lambda>s d. (Inr (), d\<lparr>credentials :=
       sql_update (\<lambda>r. cr_organization_id r = org \<and> cr_key_id r = keyId)
         (\<lambda>r. r\<lparr>cr_last_seen_at := Some now\<rparr>) (credentials d)\<rparr>)) d"

text \<open>The input of \<open>issue\<close>; \<open>keyId\<close>, \<open>random36\<close> and \<open>iv\<close> are what the generators return.\<close>

(* src agent-gateway/credentials.ts:110-117 issue/input *)
record issue_input =
  is_organizationId :: string
  is_serverId :: string
  is_agentId :: string
  is_createdBy :: "string option"
  is_supersedesKeyId :: "string option"
  is_status :: "credential_status option"

record issue_random =
  ir_keyId :: string
  ir_random36 :: bytes
  ir_iv :: bytes

(* src agent-gateway/credentials.ts:110-142 issue *)
definition issue :: "crypto \<Rightarrow> bytes \<Rightarrow> issue_random \<Rightarrow> faults \<Rightarrow> issue_input \<Rightarrow> db \<Rightarrow> (string \<times> string) result \<times> db" where
  "issue c key rnd f input d =
     (let keyId = ir_keyId rnd; secret = newAgentSecret (ir_random36 rnd) in
      case tenant_db (is_organizationId input) f
        (\<lambda>s d. case encryptSecret c (ir_iv rnd) secret key of
             Inl e \<Rightarrow> (Inl e, d)
           | Inr env \<Rightarrow> insert_credential
               \<lparr>cr_key_id = keyId, cr_organization_id = is_organizationId input,
                cr_server_id = is_serverId input, cr_agent_id = is_agentId input,
                cr_secret_encrypted = env, cr_secret_hint = drop (length secret - 4) secret,
                cr_status = coalesce_default (is_status input) Cred_active,
                cr_supersedes_key_id = is_supersedesKeyId input, cr_created_by = is_createdBy input,
                cr_revoked_by = None, cr_revoke_reason = None, cr_last_seen_at = None,
                cr_expires_at = None, cr_revoked_at = None\<rparr> d) d of
        (Inl e, d') \<Rightarrow> (Inl e, d')
      | (Inr _, d') \<Rightarrow> (Inr (keyId, secret), d'))"

(* src agent-gateway/credentials.ts:148-156 beginRotation *)
definition beginRotation :: "crypto \<Rightarrow> bytes \<Rightarrow> issue_random \<Rightarrow> faults \<Rightarrow> resolved_credential \<Rightarrow> db \<Rightarrow>
    (string \<times> string) result \<times> db" where
  "beginRotation c key rnd f current d =
     issue c key rnd f
       \<lparr>is_organizationId = rc_organizationId current, is_serverId = rc_serverId current,
        is_agentId = rc_agentId current, is_createdBy = None,
        is_supersedesKeyId = Some (rc_keyId current), is_status = Some Cred_pending_rotation\<rparr> d"

(* src agent-gateway/credentials.ts:177-184 commitRotation/supersede *)
definition supersede :: "string \<Rightarrow> time_ms \<Rightarrow> string option \<Rightarrow> credential_row list \<Rightarrow> credential_row list" where
  "supersede org now old rows =
     (case old of None \<Rightarrow> rows
      | Some k \<Rightarrow> sql_update (\<lambda>r. cr_organization_id r = org \<and> cr_key_id r = k)
                    (\<lambda>r. r\<lparr>cr_status := Cred_superseded, cr_revoked_at := Some now\<rparr>) rows)"

(* src agent-gateway/credentials.ts:186-190 commitRotation/promote *)
definition promote :: "string \<Rightarrow> string \<Rightarrow> credential_row list \<Rightarrow> credential_row list" where
  "promote org newKeyId rows =
     sql_update (\<lambda>r. cr_organization_id r = org \<and> cr_key_id r = newKeyId) (\<lambda>r. r\<lparr>cr_status := Cred_active\<rparr>) rows"

definition pending_key :: "string \<Rightarrow> string \<Rightarrow> credential_row \<Rightarrow> bool" where
  "pending_key org newKeyId r =
     (cr_organization_id r = org \<and> cr_key_id r = newKeyId \<and> cr_status r = Cred_pending_rotation)"

(* src agent-gateway/credentials.ts:165-190 commitRotation/transaction *)
definition commit_tx :: "string \<Rightarrow> string \<Rightarrow> time_ms \<Rightarrow> db \<Rightarrow> unit result \<times> db" where
  "commit_tx org newKeyId now d =
     (case first_row (pending_key org newKeyId) (credentials d) of
         None \<Rightarrow> (Inr (), d)
       | Some pending \<Rightarrow>
           (case put_credentials (supersede org now (cr_supersedes_key_id pending) (credentials d)) d of
              (Inl e, d1) \<Rightarrow> (Inl e, d1)
            | (Inr _, d1) \<Rightarrow> put_credentials (promote org newKeyId (credentials d1)) d1))"

(* src agent-gateway/credentials.ts:163-192 commitRotation *)
definition commitRotation :: "string \<Rightarrow> string \<Rightarrow> time_ms \<Rightarrow> faults \<Rightarrow> db \<Rightarrow> unit result \<times> db" where
  "commitRotation org newKeyId now f d = tenant_db org f (\<lambda>s d. commit_tx org newKeyId now d) d"

(* src agent-gateway/credentials.ts:198-212 revoke *)
definition revoke :: "string \<Rightarrow> string \<Rightarrow> string option \<Rightarrow> string \<Rightarrow> time_ms \<Rightarrow> faults \<Rightarrow> db \<Rightarrow> unit result \<times> db" where
  "revoke org keyId revokedBy reason now f d =
     tenant_db org f (\<lambda>s d. (Inr (), d\<lparr>credentials :=
       sql_update (\<lambda>r. cr_organization_id r = org \<and> cr_key_id r = keyId \<and> cr_status r \<noteq> Cred_revoked)
         (\<lambda>r. r\<lparr>cr_status := Cred_revoked, cr_revoked_at := Some now, cr_revoked_by := revokedBy,
                cr_revoke_reason := Some (take 400 reason)\<rparr>) (credentials d)\<rparr>)) d"

section \<open>Resolution: what it returns\<close>

lemma resolve_SomeD:
  assumes "resolve c key now f agentId keyId d = Inr (Some cr)"
  obtains row where "row \<in> set (credentials d)" "usable row" "cr_key_id row = keyId" "cr_agent_id row = agentId"
    "decryptSecret c (cr_secret_encrypted row) key = Inr (rc_secret cr)"
    "rc_keyId cr = keyId" "rc_agentId cr = agentId" "rc_serverId cr = cr_server_id row"
    "rc_organizationId cr = cr_organization_id row" "rc_status cr = cr_status row"
    "\<forall>t. cr_expires_at row = Some t \<longrightarrow> now < t"
proof -
  obtain row where l: "fst (lookup_db f (\<lambda>s d. (Inr (select_credential agentId keyId d), d)) d) = Inr (Some row)"
    using assms by (auto simp: resolve_def split: sum.splits option.splits)
  from lookup_db_select [OF this] have sel: "select_credential agentId keyId d = Some row" by simp
  have exp: "\<not> (case cr_expires_at row of Some t \<Rightarrow> t \<le> now | None \<Rightarrow> False)"
    using assms unfolding resolve_def l by (cases "case cr_expires_at row of Some t \<Rightarrow> t \<le> now | None \<Rightarrow> False") simp_all
  with assms obtain secret where dec: "decryptSecret c (cr_secret_encrypted row) key = Inr secret"
    and cr: "cr = \<lparr>rc_keyId = cr_key_id row, rc_organizationId = cr_organization_id row,
       rc_serverId = cr_server_id row, rc_agentId = cr_agent_id row,
       rc_secret = secret, rc_status = cr_status row\<rparr>"
    unfolding resolve_def l by (cases "decryptSecret c (cr_secret_encrypted row) key") simp_all
  from first_row_SomeD [OF sel [unfolded select_credential_def]]
  have "row \<in> set (credentials d)" "usable row" "cr_key_id row = keyId" "cr_agent_id row = agentId" by simp_all
  with dec exp show ?thesis by (intro that [of row]) (auto simp: cr split: option.splits)
qed

section \<open>Invariant: one active key per server, key identifiers never reused\<close>

definition credentials_inv :: "db \<Rightarrow> bool" where
  "credentials_inv d = credentials_unique (credentials d)"

lemma put_credentials_inv: "put_credentials rows d = (Inr u, d') \<Longrightarrow> credentials_inv d' \<and> credentials d' = rows"
  by (auto simp: put_credentials_def credentials_inv_def split: if_splits)

lemma credentials_unique_update:
  assumes "credentials_unique rows"
    and "\<And>r. r \<in> set rows \<Longrightarrow> P r \<Longrightarrow> cr_key_id (f r) = cr_key_id r \<and> cr_organization_id (f r) = cr_organization_id r \<and>
      cr_server_id (f r) = cr_server_id r \<and> (cr_status (f r) = Cred_active \<longrightarrow> cr_status r = Cred_active)"
  shows "credentials_unique (sql_update P f rows)"
proof -
  let ?key = "\<lambda>r. (cr_organization_id r, cr_server_id r)" and ?act = "filter (\<lambda>r. cr_status r = Cred_active)"
  have k: "map cr_key_id (sql_update P f rows) = map cr_key_id rows"
    using assms(2) by (induction rows) auto
  have "distinct (map ?key (?act rows)) \<Longrightarrow>
      distinct (map ?key (?act (sql_update P f rows))) \<and>
      ?key ` set (?act (sql_update P f rows)) \<subseteq> ?key ` set (?act rows)"
    using assms(2)
  proof (induction rows)
    case (Cons r rows)
    then have ih: "distinct (map ?key (?act (sql_update P f rows)))"
      "?key ` set (?act (sql_update P f rows)) \<subseteq> ?key ` set (?act rows)"
      by (simp_all split: if_splits)
    show ?case
    proof (cases "P r")
      case False
      with ih Cons.prems(1) show ?thesis by (auto split: if_splits)
    next
      case True
      with Cons.prems(2) [of r] have "?key (f r) = ?key r" "cr_status (f r) = Cred_active \<longrightarrow> cr_status r = Cred_active"
        by simp_all
      with ih Cons.prems(1) True show ?thesis by (auto split: if_splits)
    qed
  qed simp
  with k assms(1) show ?thesis by (simp add: credentials_unique_def)
qed

text \<open>Any sequence of the operations of the store, by anybody, with any random values and faults.\<close>

inductive cred_step :: "crypto \<Rightarrow> bytes \<Rightarrow> db \<Rightarrow> db \<Rightarrow> bool" for c key where
  Touch: "cred_step c key d (snd (touch org keyId now f d))"
| Issue: "is_status input \<in> {None, Some Cred_active, Some Cred_pending_rotation} \<Longrightarrow>
    cred_step c key d (snd (issue c key rnd f input d))"
| Commit: "cred_step c key d (snd (commitRotation org keyId now f d))"
| Revoke: "cred_step c key d (snd (revoke org keyId admin reason now f d))"

lemma put_credentials_Inr:
  "put_credentials rows d = (Inr u, d') \<Longrightarrow> credentials_unique rows \<and> d' = d\<lparr>credentials := rows\<rparr>"
  by (simp add: put_credentials_def split: if_splits)

lemma insert_credential_Inr:
  "insert_credential r d = (Inr u, d') \<Longrightarrow>
   credentials_unique (credentials d @ [r]) \<and> d' = d\<lparr>credentials := credentials d @ [r]\<rparr>"
  by (auto simp: insert_credential_def split: if_splits dest: put_credentials_Inr)

lemma issue_Inr:
  assumes "issue c key rnd f input d = (Inr res, d')"
  obtains env where
    "encryptSecret c (ir_iv rnd) (newAgentSecret (ir_random36 rnd)) key = Inr env"
    "res = (ir_keyId rnd, newAgentSecret (ir_random36 rnd))"
    "insert_credential \<lparr>cr_key_id = ir_keyId rnd, cr_organization_id = is_organizationId input,
                cr_server_id = is_serverId input, cr_agent_id = is_agentId input,
                cr_secret_encrypted = env,
                cr_secret_hint = drop (length (newAgentSecret (ir_random36 rnd)) - 4) (newAgentSecret (ir_random36 rnd)),
                cr_status = coalesce_default (is_status input) Cred_active,
                cr_supersedes_key_id = is_supersedesKeyId input, cr_created_by = is_createdBy input,
                cr_revoked_by = None, cr_revoke_reason = None, cr_last_seen_at = None,
                cr_expires_at = None, cr_revoked_at = None\<rparr> d = (Inr (), d')"
proof -
  obtain u where t: "tenant_db (is_organizationId input) f
        (\<lambda>s d. case encryptSecret c (ir_iv rnd) (newAgentSecret (ir_random36 rnd)) key of
             Inl e \<Rightarrow> (Inl e, d)
           | Inr env \<Rightarrow> insert_credential
               \<lparr>cr_key_id = ir_keyId rnd, cr_organization_id = is_organizationId input,
                cr_server_id = is_serverId input, cr_agent_id = is_agentId input,
                cr_secret_encrypted = env,
                cr_secret_hint = drop (length (newAgentSecret (ir_random36 rnd)) - 4) (newAgentSecret (ir_random36 rnd)),
                cr_status = coalesce_default (is_status input) Cred_active,
                cr_supersedes_key_id = is_supersedesKeyId input, cr_created_by = is_createdBy input,
                cr_revoked_by = None, cr_revoke_reason = None, cr_last_seen_at = None,
                cr_expires_at = None, cr_revoked_at = None\<rparr> d) d = (Inr u, d')"
    and res: "res = (ir_keyId rnd, newAgentSecret (ir_random36 rnd))"
    using assms unfolding issue_def Let_def by (auto split: prod.splits sum.splits)
  from tenant_db_Inr(1) [OF t] show ?thesis
    by (cases "encryptSecret c (ir_iv rnd) (newAgentSecret (ir_random36 rnd)) key") (simp_all add: that res)
qed

lemma issue_Inl: "issue c key rnd f input d = (Inl e, d') \<Longrightarrow> d' = d"
  unfolding issue_def Let_def by (auto split: prod.splits sum.splits dest: tenant_db_Inl)

lemma issue_credentials:
  "snd (issue c key rnd f input d) = d \<or>
   (\<exists>r. snd (issue c key rnd f input d) = d\<lparr>credentials := credentials d @ [r]\<rparr> \<and>
      cr_key_id r = ir_keyId rnd \<and> cr_organization_id r = is_organizationId input \<and>
      credentials_unique (credentials d @ [r]))"
proof (cases "issue c key rnd f input d")
  case (Pair res d')
  show ?thesis
  proof (cases res)
    case (Inl e)
    with Pair issue_Inl show ?thesis by fastforce
  next
    case (Inr p)
    with Pair have "issue c key rnd f input d = (Inr p, d')" by simp
    then show ?thesis by (rule issue_Inr) (use Pair in \<open>auto dest!: insert_credential_Inr\<close>)
  qed
qed

definition commit_body :: "string \<Rightarrow> string \<Rightarrow> time_ms \<Rightarrow> credential_row \<Rightarrow> db \<Rightarrow> credential_row list" where
  "commit_body org keyId now p d = promote org keyId (supersede org now (cr_supersedes_key_id p) (credentials d))"

lemma commit_tx_Inr:
  assumes "commit_tx org keyId now d = (Inr u, d')"
  shows "d' = d \<or> (\<exists>p. first_row (pending_key org keyId) (credentials d) = Some p \<and>
      d' = d\<lparr>credentials := commit_body org keyId now p d\<rparr> \<and>
      credentials_unique (commit_body org keyId now p d))"
proof (cases "first_row (pending_key org keyId) (credentials d)")
  case None
  with assms show ?thesis by (simp add: commit_tx_def)
next
  case (Some p)
  let ?s = "supersede org now (cr_supersedes_key_id p) (credentials d)"
  obtain d1 where d1: "put_credentials ?s d = (Inr (), d1)"
    and d2: "put_credentials (promote org keyId (credentials d1)) d1 = (Inr u, d')"
    using assms Some by (auto simp: commit_tx_def split: prod.splits sum.splits)
  from put_credentials_Inr [OF d1] put_credentials_Inr [OF d2]
  have "credentials_unique (commit_body org keyId now p d) \<and> d' = d\<lparr>credentials := commit_body org keyId now p d\<rparr>"
    by (simp add: commit_body_def)
  with Some show ?thesis by simp
qed

lemma commit_credentials:
  "snd (commitRotation org keyId now f d) = d \<or>
   (\<exists>p. first_row (pending_key org keyId) (credentials d) = Some p \<and>
      snd (commitRotation org keyId now f d) = d\<lparr>credentials := commit_body org keyId now p d\<rparr> \<and>
      credentials_unique (commit_body org keyId now p d))"
  using tenant_db_snd [of org f "\<lambda>s d. commit_tx org keyId now d" d, folded commitRotation_def]
    commit_tx_Inr by blast

lemma touch_cases:
  "snd (touch org keyId now f d) = d \<or>
   snd (touch org keyId now f d) = d\<lparr>credentials := sql_update (\<lambda>r. cr_organization_id r = org \<and> cr_key_id r = keyId)
         (\<lambda>r. r\<lparr>cr_last_seen_at := Some now\<rparr>) (credentials d)\<rparr>"
  unfolding touch_def by (rule tenant_db_update)

lemma revoke_cases:
  "snd (revoke org keyId admin reason now f d) = d \<or>
   snd (revoke org keyId admin reason now f d) = d\<lparr>credentials :=
     sql_update (\<lambda>r. cr_organization_id r = org \<and> cr_key_id r = keyId \<and> cr_status r \<noteq> Cred_revoked)
         (\<lambda>r. r\<lparr>cr_status := Cred_revoked, cr_revoked_at := Some now, cr_revoked_by := admin,
                cr_revoke_reason := Some (take 400 reason)\<rparr>) (credentials d)\<rparr>"
  unfolding revoke_def by (rule tenant_db_update)

lemma cred_step_inv: "cred_step c key d d' \<Longrightarrow> credentials_inv d \<Longrightarrow> credentials_inv d'"
proof (induction rule: cred_step.induct)
  case (Touch d org keyId now f)
  have "credentials_unique (sql_update (\<lambda>r. cr_organization_id r = org \<and> cr_key_id r = keyId)
         (\<lambda>r. r\<lparr>cr_last_seen_at := Some now\<rparr>) (credentials d))"
    using Touch unfolding credentials_inv_def by (rule credentials_unique_update) simp
  then show ?case using Touch touch_cases [of org keyId now f d] by (elim disjE) (simp_all add: credentials_inv_def)
next
  case (Issue input d rnd f)
  then show ?case using issue_credentials [of c key rnd f input d] by (auto simp: credentials_inv_def)
next
  case (Commit d org keyId now f)
  then show ?case using commit_credentials [of org keyId now f d] by (auto simp: credentials_inv_def)
next
  case (Revoke d org keyId admin reason now f)
  have "credentials_unique (sql_update (\<lambda>r. cr_organization_id r = org \<and> cr_key_id r = keyId \<and> cr_status r \<noteq> Cred_revoked)
         (\<lambda>r. r\<lparr>cr_status := Cred_revoked, cr_revoked_at := Some now, cr_revoked_by := admin,
                cr_revoke_reason := Some (take 400 reason)\<rparr>) (credentials d))"
    using Revoke unfolding credentials_inv_def by (rule credentials_unique_update) simp
  then show ?case using Revoke revoke_cases [of org keyId admin reason now f d] by (elim disjE) (simp_all add: credentials_inv_def)
qed

section \<open>A key that is not usable stays so\<close>

definition dead_key :: "string \<Rightarrow> db \<Rightarrow> bool" where
  "dead_key k d = (\<exists>r \<in> set (credentials d). cr_key_id r = k \<and> \<not> usable r)"

lemma dead_key_unique:
  assumes "credentials_inv d" and "dead_key k d" and "r \<in> set (credentials d)" and "cr_key_id r = k"
  shows "\<not> usable r"
proof -
  have "inj_on cr_key_id (set (credentials d))"
    using assms(1) by (simp add: credentials_inv_def credentials_unique_def distinct_map)
  then show ?thesis using assms(2-4) by (auto simp: dead_key_def dest: inj_onD)
qed

definition dead_in :: "string \<Rightarrow> credential_row list \<Rightarrow> bool" where
  "dead_in k rows = (\<exists>r \<in> set rows. cr_key_id r = k \<and> \<not> usable r)"

lemma dead_key_in: "dead_key k d = dead_in k (credentials d)"
  by (simp add: dead_key_def dead_in_def)

lemma dead_in_update:
  assumes "dead_in k rows"
    and "\<And>r. cr_key_id r = k \<Longrightarrow> P r \<Longrightarrow> \<not> usable r \<Longrightarrow> cr_key_id (f r) = k \<and> \<not> usable (f r)"
  shows "dead_in k (sql_update P f rows)"
proof -
  from assms(1) obtain r where r: "r \<in> set rows" "cr_key_id r = k" "\<not> usable r" by (auto simp: dead_in_def)
  let ?r = "if P r then f r else r"
  have "?r \<in> set (sql_update P f rows)" using r(1) by (auto simp: set_sql_update)
  moreover have "cr_key_id ?r = k \<and> \<not> usable ?r" using r assms(2) by simp
  ultimately show ?thesis unfolding dead_in_def by blast
qed

lemma dead_key_step:
  assumes "cred_step c key d d'" and "credentials_inv d" and "dead_key k d"
  shows "dead_key k d'"
  using assms
proof (induction rule: cred_step.induct)
  case (Touch d org keyId now f)
  have "dead_in k (sql_update (\<lambda>r. cr_organization_id r = org \<and> cr_key_id r = keyId)
         (\<lambda>r. r\<lparr>cr_last_seen_at := Some now\<rparr>) (credentials d))"
    using Touch by (intro dead_in_update) (simp_all add: dead_key_in usable_def)
  then show ?case using Touch touch_cases [of org keyId now f d] by (elim disjE) (simp_all add: dead_key_in)
next
  case (Issue input d rnd f)
  then show ?case using issue_credentials [of c key rnd f input d] by (auto simp: dead_key_def)
next
  case (Commit d org keyId now f)
  from commit_credentials [of org keyId now f d] show ?case
  proof (elim disjE exE conjE)
    fix p
    assume p: "first_row (pending_key org keyId) (credentials d) = Some p"
      and cd: "snd (commitRotation org keyId now f d) = d\<lparr>credentials := commit_body org keyId now p d\<rparr>"
    from first_row_SomeD [OF p] have "p \<in> set (credentials d)" "usable p" "cr_key_id p = keyId"
      by (simp_all add: usable_def pending_key_def)
    with dead_key_unique [OF Commit.prems] have neq: "keyId \<noteq> k" by blast
    have "dead_in k (supersede org now (cr_supersedes_key_id p) (credentials d))"
      using Commit.prems(2)
      by (cases "cr_supersedes_key_id p") (simp_all add: supersede_def dead_key_in usable_def dead_in_update)
    then have "dead_in k (commit_body org keyId now p d)"
      unfolding commit_body_def promote_def by (rule dead_in_update) (use neq in auto)
    then show ?case by (simp add: dead_key_in cd)
  qed (use Commit in simp)
next
  case (Revoke d org keyId admin reason now f)
  have "dead_in k (sql_update (\<lambda>r. cr_organization_id r = org \<and> cr_key_id r = keyId \<and> cr_status r \<noteq> Cred_revoked)
         (\<lambda>r. r\<lparr>cr_status := Cred_revoked, cr_revoked_at := Some now, cr_revoked_by := admin,
                cr_revoke_reason := Some (take 400 reason)\<rparr>) (credentials d))"
    using Revoke by (intro dead_in_update) (simp_all add: dead_key_in usable_def)
  then show ?case using Revoke revoke_cases [of org keyId admin reason now f d] by (elim disjE) (simp_all add: dead_key_in)
qed

lemma cred_steps_dead:
  assumes "(cred_step c key)\<^sup>*\<^sup>* d d'" and "credentials_inv d" and "dead_key k d"
  shows "credentials_inv d' \<and> dead_key k d'"
  using assms by (induction rule: rtranclp_induct) (auto dest: cred_step_inv dead_key_step)

lemma dead_key_resolve:
  assumes "credentials_inv d" and "dead_key k d"
  shows "resolve c key now f a k d \<noteq> Inr (Some cr)"
proof
  assume "resolve c key now f a k d = Inr (Some cr)"
  then obtain row where "row \<in> set (credentials d)" "usable row" "cr_key_id row = k" by (rule resolve_SomeD)
  with dead_key_unique [OF assms] show False by blast
qed

text \<open>Whatever operations run, in any order and with any fault, no server ever has two \<open>ACTIVE\<close>
  credentials and no two credentials share a key identifier.\<close>

theorem one_active_credential:
  assumes "(cred_step c key)\<^sup>*\<^sup>* d d'" and "credentials_inv d"
  shows "credentials_inv d'"
  using assms by (induction rule: rtranclp_induct) (auto dest: cred_step_inv)

text \<open>Revocation is final: once \<open>revoke\<close> has committed for a key that exists, no later sequence of
  issues, rotations, commits and revocations makes it resolve again.\<close>

theorem revoked_never_resolves:
  assumes inv: "credentials_inv d"
    and ex: "\<exists>r \<in> set (credentials d). cr_organization_id r = org \<and> cr_key_id r = k"
    and rv: "revoke org k admin reason now f d = (Inr (), d1)"
    and steps: "(cred_step c key)\<^sup>*\<^sup>* d1 d2"
  shows "resolve c key now' f' a k d2 \<noteq> Inr (Some cr)"
proof -
  have step: "cred_step c key d d1" using cred_step.Revoke [of c key d org k admin reason now f] rv by simp
  have d1: "credentials d1 =
      sql_update (\<lambda>r. cr_organization_id r = org \<and> cr_key_id r = k \<and> cr_status r \<noteq> Cred_revoked)
        (\<lambda>r. r\<lparr>cr_status := Cred_revoked, cr_revoked_at := Some now, cr_revoked_by := admin,
               cr_revoke_reason := Some (take 400 reason)\<rparr>) (credentials d)"
    using tenant_db_Inr(1) [OF rv [unfolded revoke_def]] by auto
  from ex obtain r where r: "r \<in> set (credentials d)" "cr_organization_id r = org" "cr_key_id r = k" by blast
  then have "\<exists>r' \<in> set (credentials d1). cr_key_id r' = k \<and> cr_status r' = Cred_revoked"
    unfolding d1 set_sql_update by (intro bexI [OF _ imageI [OF r(1)]]) simp
  then have "dead_key k d1" unfolding dead_key_def usable_def by force
  moreover have "credentials_inv d1" using cred_step_inv [OF step inv] .
  ultimately have "credentials_inv d2 \<and> dead_key k d2" using cred_steps_dead [OF steps] by blast
  then show ?thesis using dead_key_resolve by blast
qed

section \<open>A rotation, step by step\<close>

lemma select_row:
  assumes "credentials_unique (credentials d)" and "r \<in> set (credentials d)"
    and "cr_agent_id r = a" and "cr_key_id r = k" and "usable r"
  shows "select_credential a k d = Some r"
proof -
  have inj: "inj_on cr_key_id (set (credentials d))"
    using assms(1) by (simp add: credentials_unique_def distinct_map)
  obtain r' where s: "select_credential a k d = Some r'"
    using assms(2-5) unfolding select_credential_def
    by (cases "first_row (\<lambda>r. cr_agent_id r = a \<and> cr_key_id r = k \<and> usable r) (credentials d)")
      (auto simp: first_row_None_iff)
  from first_row_SomeD [OF s [unfolded select_credential_def]] have "r' \<in> set (credentials d)" "cr_key_id r' = k"
    by simp_all
  with inj assms(2,4) have "r' = r" by (auto dest: inj_onD)
  with s show ?thesis by simp
qed

lemma select_dead:
  assumes "credentials_unique (credentials d)" and "r \<in> set (credentials d)" and "cr_key_id r = k" and "\<not> usable r"
  shows "select_credential a k d = None"
proof -
  have "\<not> usable r'" if "r' \<in> set (credentials d)" "cr_key_id r' = k" for r'
    using dead_key_unique [of d k r'] assms that by (auto simp: credentials_inv_def dead_key_def)
  then show ?thesis unfolding select_credential_def first_row_None_iff by blast
qed

definition resolved :: "credential_row \<Rightarrow> string \<Rightarrow> resolved_credential" where
  "resolved r secret =
     \<lparr>rc_keyId = cr_key_id r, rc_organizationId = cr_organization_id r, rc_serverId = cr_server_id r,
      rc_agentId = cr_agent_id r, rc_secret = secret, rc_status = cr_status r\<rparr>"

lemma resolve_no_faults:
  "resolve c key now no_faults a k d =
     (case select_credential a k d of
        None \<Rightarrow> Inr None
      | Some row \<Rightarrow>
          if (case cr_expires_at row of Some t \<Rightarrow> t \<le> now | None \<Rightarrow> False) then Inr None
          else (case decryptSecret c (cr_secret_encrypted row) key of
              Inl e \<Rightarrow> Inl (Thrown ''credential unreadable'')
            | Inr secret \<Rightarrow> Inr (Some (resolved row secret))))"
  by (auto simp: resolve_def lookup_db_cases no_faults_def resolved_def split: option.split sum.split)

lemma resolve_row:
  assumes "credentials_unique (credentials d)" and "r \<in> set (credentials d)" and "usable r"
    and "\<not> (case cr_expires_at r of Some t \<Rightarrow> t \<le> now | None \<Rightarrow> False)"
    and "decryptSecret c (cr_secret_encrypted r) key = Inr secret"
  shows "resolve c key now no_faults (cr_agent_id r) (cr_key_id r) d = Inr (Some (resolved r secret))"
  using select_row [OF assms(1,2) refl refl assms(3)] assms(4,5) by (simp add: resolve_no_faults)

lemma resolved_by_row:
  assumes "resolve c key now f a k d = Inr (Some cur)"
  obtains row where "row \<in> set (credentials d)" "usable row" "cur = resolved row (rc_secret cur)"
    "decryptSecret c (cr_secret_encrypted row) key = Inr (rc_secret cur)"
    "\<not> (case cr_expires_at row of Some t \<Rightarrow> t \<le> now | None \<Rightarrow> False)"
    "cr_key_id row = k" "cr_agent_id row = a"
proof -
  from assms obtain row where "row \<in> set (credentials d)" "usable row" "cr_key_id row = k" "cr_agent_id row = a"
    "decryptSecret c (cr_secret_encrypted row) key = Inr (rc_secret cur)"
    "rc_keyId cur = k" "rc_agentId cur = a" "rc_serverId cur = cr_server_id row"
    "rc_organizationId cur = cr_organization_id row" "rc_status cur = cr_status row"
    "\<forall>t. cr_expires_at row = Some t \<longrightarrow> now < t" by (rule resolve_SomeD)
  then show ?thesis by (intro that [of row]) (auto simp: resolved_def split: option.splits)
qed

lemma beginRotation_Inr:
  assumes laws: "gcm_laws c" and iv: "length (ir_iv rnd) = gcm_iv_bytes"
    and b: "beginRotation c key rnd f cur d = (Inr (k', s'), d1)"
  obtains r' where "d1 = d\<lparr>credentials := credentials d @ [r']\<rparr>" "credentials_unique (credentials d @ [r'])"
    "cr_key_id r' = k'" "cr_agent_id r' = rc_agentId cur" "cr_organization_id r' = rc_organizationId cur"
    "cr_server_id r' = rc_serverId cur" "cr_status r' = Cred_pending_rotation" "cr_expires_at r' = None"
    "cr_supersedes_key_id r' = Some (rc_keyId cur)" "decryptSecret c (cr_secret_encrypted r') key = Inr s'"
proof -
  obtain env where e: "encryptSecret c (ir_iv rnd) (newAgentSecret (ir_random36 rnd)) key = Inr env"
    and r: "(k', s') = (ir_keyId rnd, newAgentSecret (ir_random36 rnd))"
    and ins: "insert_credential \<lparr>cr_key_id = ir_keyId rnd, cr_organization_id = rc_organizationId cur,
        cr_server_id = rc_serverId cur, cr_agent_id = rc_agentId cur, cr_secret_encrypted = env,
        cr_secret_hint = drop (length (newAgentSecret (ir_random36 rnd)) - 4) (newAgentSecret (ir_random36 rnd)),
        cr_status = Cred_pending_rotation, cr_supersedes_key_id = Some (rc_keyId cur), cr_created_by = None,
        cr_revoked_by = None, cr_revoke_reason = None, cr_last_seen_at = None, cr_expires_at = None,
        cr_revoked_at = None\<rparr> d = (Inr (), d1)"
    using b unfolding beginRotation_def by (rule issue_Inr) simp
  from insert_credential_Inr [OF ins] r decrypt_encrypt [OF laws iv e] show ?thesis
    by (intro that) auto
qed

text \<open>A commit takes the key in force out of use and puts the pending one in its place.\<close>

lemma commit_swaps_keys:
  assumes m: "commitRotation (rc_organizationId cur) k' now f2 d1 = (Inr x, d2)" and u1: "credentials_unique (credentials d1)"
    and row_in: "row \<in> set (credentials d1)" and k: "cr_key_id row = k" and neq: "k' \<noteq> k" and r'_in: "r' \<in> set (credentials d1)"
    and r': "cr_key_id r' = k'" "cr_agent_id r' = rc_agentId cur" "cr_organization_id r' = rc_organizationId cur"
      "cr_server_id r' = rc_serverId cur" "cr_status r' = Cred_pending_rotation" "cr_expires_at r' = None"
      "cr_supersedes_key_id r' = Some (rc_keyId cur)" "decryptSecret c (cr_secret_encrypted r') key = Inr s'"
    and cf: "rc_agentId cur = a" "rc_keyId cur = k" "rc_organizationId cur = cr_organization_id row" "rc_serverId cur = cr_server_id row"
  shows "resolve c key now no_faults a k d2 = Inr None \<and>
    resolve c key now no_faults a k' d2 = Inr (Some (cur\<lparr>rc_keyId := k', rc_secret := s', rc_status := Cred_active\<rparr>))"
proof -
  let ?org = "rc_organizationId cur"
  from m have tx: "commit_tx ?org k' now d1 = (Inr x, d2)"
    unfolding commitRotation_def by (auto dest: tenant_db_Inr(1))
  have "\<exists>p. first_row (pending_key ?org k') (credentials d1) = Some p"
    using r'_in r' by (simp only: first_row_exists exists_row_iff) (auto simp: pending_key_def)
  then obtain p where p: "first_row (pending_key ?org k') (credentials d1) = Some p" ..
  from first_row_SomeD [OF p] have "p \<in> set (credentials d1)" "cr_key_id p = k'" by (simp_all add: pending_key_def)
  with u1 r'_in r'(1) have "p = r'" by (auto simp: credentials_unique_def distinct_map dest: inj_onD)
  with p r'(7) cf have p': "first_row (pending_key ?org k') (credentials d1) = Some r'" "cr_supersedes_key_id r' = Some k"
    by simp_all
  from tx p' obtain d3 where "put_credentials (supersede ?org now (Some k) (credentials d1)) d1 = (Inr (), d3)"
    and "put_credentials (promote ?org k' (credentials d3)) d3 = (Inr x, d2)"
    by (auto simp: commit_tx_def split: prod.splits sum.splits)
  from put_credentials_Inr [OF this(1)] put_credentials_Inr [OF this(2)]
  have cd: "credentials d2 = promote ?org k' (supersede ?org now (Some k) (credentials d1))"
    and u2: "credentials_unique (credentials d2)" by simp_all
  have old2: "row\<lparr>cr_status := Cred_superseded, cr_revoked_at := Some now\<rparr> \<in> set (credentials d2)"
    using row_in k neq cf unfolding cd promote_def supersede_def option.case set_sql_update image_image
    by (intro image_eqI [of _ _ row]) simp_all
  have new2: "r'\<lparr>cr_status := Cred_active\<rparr> \<in> set (credentials d2)"
    using r'_in r' neq cf unfolding cd promote_def supersede_def option.case set_sql_update image_image
    by (intro image_eqI [of _ _ r']) simp_all
  have "resolve c key now no_faults a k d2 = Inr None"
    using select_dead [OF u2 old2, of k a] k by (simp add: resolve_no_faults usable_def)
  moreover have "resolve c key now no_faults a k' d2 =
         Inr (Some (cur\<lparr>rc_keyId := k', rc_secret := s', rc_status := Cred_active\<rparr>))"
    using resolve_row [OF u2 new2, of now c key s'] r' cf by (simp add: usable_def resolved_def)
  ultimately show ?thesis by simp
qed

text \<open>Rotation never locks the agent out. After \<open>beginRotation\<close> both the key it signs with and the
  new one resolve, with their secrets; if the commit fails nothing changes for either, and if it
  succeeds the new key resolves as \<open>ACTIVE\<close> and the old one no longer resolves.\<close>

theorem rotation_never_locks_out:
  assumes laws: "gcm_laws c" and iv: "length (ir_iv rnd) = gcm_iv_bytes" and inv: "credentials_inv d"
    and cur: "resolve c key now no_faults a k d = Inr (Some cur)"
    and b: "beginRotation c key rnd f cur d = (Inr (k', s'), d1)"
    and m: "commitRotation (rc_organizationId cur) k' now f2 d1 = (res, d2)"
  shows "resolve c key now no_faults a k d1 = Inr (Some cur) \<and>
    resolve c key now no_faults a k' d1 =
      Inr (Some (cur\<lparr>rc_keyId := k', rc_secret := s', rc_status := Cred_pending_rotation\<rparr>)) \<and>
    (case res of Inl e \<Rightarrow> d2 = d1
     | Inr _ \<Rightarrow> resolve c key now no_faults a k d2 = Inr None \<and>
         resolve c key now no_faults a k' d2 =
           Inr (Some (cur\<lparr>rc_keyId := k', rc_secret := s', rc_status := Cred_active\<rparr>)))"
proof -
  obtain row where row: "row \<in> set (credentials d)" "usable row" and cur_row: "cur = resolved row (rc_secret cur)"
    and dec: "decryptSecret c (cr_secret_encrypted row) key = Inr (rc_secret cur)"
    and exp: "\<not> (case cr_expires_at row of Some t \<Rightarrow> t \<le> now | None \<Rightarrow> False)"
    and k: "cr_key_id row = k" and a: "cr_agent_id row = a"
    using cur by (rule resolved_by_row)
  from cur_row k a have cf: "rc_agentId cur = a" "rc_keyId cur = k" "rc_organizationId cur = cr_organization_id row"
    "rc_serverId cur = cr_server_id row" by (auto simp: resolved_def dest: arg_cong [of _ _ rc_agentId]
      arg_cong [of _ _ rc_keyId] arg_cong [of _ _ rc_organizationId] arg_cong [of _ _ rc_serverId])
  obtain r' where d1: "d1 = d\<lparr>credentials := credentials d @ [r']\<rparr>"
    and u: "credentials_unique (credentials d @ [r'])"
    and r': "cr_key_id r' = k'" "cr_agent_id r' = rc_agentId cur" "cr_organization_id r' = rc_organizationId cur"
      "cr_server_id r' = rc_serverId cur" "cr_status r' = Cred_pending_rotation" "cr_expires_at r' = None"
      "cr_supersedes_key_id r' = Some (rc_keyId cur)" "decryptSecret c (cr_secret_encrypted r') key = Inr s'"
    using laws iv b by (rule beginRotation_Inr)
  have r'_in: "r' \<in> set (credentials d1)" and row_in: "row \<in> set (credentials d1)" using row(1) by (simp_all add: d1)
  have u1: "credentials_unique (credentials d1)" using u by (simp add: d1)
  have neq: "k' \<noteq> k" using u row(1) k r'(1) by (auto simp: credentials_unique_def)
  have old1: "resolve c key now no_faults a k d1 = Inr (Some cur)"
    using resolve_row [OF u1 row_in row(2) exp dec] k a cur_row by simp
  have new1: "resolve c key now no_faults a k' d1 =
      Inr (Some (cur\<lparr>rc_keyId := k', rc_secret := s', rc_status := Cred_pending_rotation\<rparr>))"
    using resolve_row [OF u1 r'_in, of now c key s'] r' cf by (simp add: usable_def resolved_def)
  have "case res of Inl e \<Rightarrow> d2 = d1
     | Inr _ \<Rightarrow> resolve c key now no_faults a k d2 = Inr None \<and>
         resolve c key now no_faults a k' d2 =
           Inr (Some (cur\<lparr>rc_keyId := k', rc_secret := s', rc_status := Cred_active\<rparr>))"
  proof (cases res)
    case (Inl e)
    with m tenant_db_Inl show ?thesis by (fastforce simp: commitRotation_def)
  next
    case (Inr x)
    from commit_swaps_keys [OF m [unfolded Inr] u1 row_in k neq r'_in r' cf] show ?thesis using Inr by simp
  qed
  with old1 new1 show ?thesis by blast
qed

end
