(* ===== verification/Replay.thy ===== *)
theory Replay
  imports Prelude
begin

text \<open>
  \<open>apps/api/src/agent-gateway/replay.ts\<close>: the cache of nonces and the limit on the requests of an
  agent, over Redis. Redis is a record of two operations on a state of an unknown type; what the
  code relies on is \<open>redis_laws\<close>. The guard fails closed and the limiter fails open.
\<close>

section \<open>The two operations of Redis\<close>

text \<open>
  \<open>r_set_nx_ex s key value ttl now\<close> is \<open>SET key value EX ttl NX\<close> (the seconds of \<open>ttl\<close> counted from
  the instant \<open>now\<close>); \<open>r_incr_expire s key ttl now\<close> is \<open>MULTI; INCR key; EXPIRE key ttl; EXEC\<close>, its
  result the value of the counter, and \<open>None\<close> when the call throws.
\<close>

datatype redis_reply = Reply_ok | Reply_nil | Reply_error

record 's redis =
  r_set_nx_ex :: "'s \<Rightarrow> string \<Rightarrow> string \<Rightarrow> int \<Rightarrow> time_ms \<Rightarrow> redis_reply \<times> 's"
  r_incr_expire :: "'s \<Rightarrow> string \<Rightarrow> int \<Rightarrow> time_ms \<Rightarrow> int option \<times> 's"

text \<open>
  The documented behaviour: with \<open>live s t\<close> the keys that exist at \<open>t\<close>, a \<open>SET NX\<close> that answers OK
  found the key absent and leaves it there for \<open>ttl\<close> seconds; neither operation makes another
  key expire earlier.
\<close>

definition redis_laws :: "'s redis \<Rightarrow> ('s \<Rightarrow> time_ms \<Rightarrow> string set) \<Rightarrow> bool" where
  "redis_laws r live \<longleftrightarrow>
     (\<forall>s key v ttl now. fst (r_set_nx_ex r s key v ttl now) = Reply_ok \<longrightarrow>
        key \<notin> live s now \<and>
        (\<forall>t. now \<le> t \<and> t < now + 1000 * ttl \<longrightarrow> key \<in> live (snd (r_set_nx_ex r s key v ttl now)) t)) \<and>
     (\<forall>s key v ttl now k t. now \<le> t \<and> k \<in> live s t \<longrightarrow> k \<in> live (snd (r_set_nx_ex r s key v ttl now)) t) \<and>
     (\<forall>s key ttl now k t. now \<le> t \<and> k \<noteq> key \<and> k \<in> live s t \<longrightarrow> k \<in> live (snd (r_incr_expire r s key ttl now)) t)"

section \<open>The guard against replays\<close>

definition nonce_key :: "string \<Rightarrow> string \<Rightarrow> string \<Rightarrow> string" where
  "nonce_key agentId keyId nonce = join_with '':'' [''agent'', ''nonce'', agentId, keyId, nonce]"

text \<open>\<open>None\<close> is the exception \<open>ReplayCheckUnavailable\<close>.\<close>

(* src agent-gateway/replay.ts:52-62 claim *)
definition claim :: "'s redis \<Rightarrow> int \<Rightarrow> time_ms \<Rightarrow> 's \<Rightarrow> string \<Rightarrow> string \<Rightarrow> string \<Rightarrow> bool option \<times> 's" where
  "claim r ttlSeconds now s agentId keyId nonce =
     (case r_set_nx_ex r s (nonce_key agentId keyId nonce) ''1'' ttlSeconds now of
        (Reply_error, s') \<Rightarrow> (None, s')
      | (reply, s') \<Rightarrow> (Some (reply = Reply_ok), s'))"

(* src agent-gateway/replay.ts:65-69 RateLimitDecision *)
record rate_limit_decision =
  rl_allowed :: bool
  rl_remaining :: int
  rl_retryAfterSeconds :: int

definition rate_key :: "string \<Rightarrow> int \<Rightarrow> string" where
  "rate_key agentId window = join_with '':'' [''agent'', ''rate'', agentId, string_of_int window]"

text \<open>The clock is read twice: \<open>now\<close> before the call, \<open>now'\<close> after it.\<close>

(* src agent-gateway/replay.ts:81-103 consume *)
definition consume :: "'s redis \<Rightarrow> int \<Rightarrow> time_ms \<Rightarrow> time_ms \<Rightarrow> 's \<Rightarrow> string \<Rightarrow> rate_limit_decision \<times> 's" where
  "consume r perMinute now now' s agentId =
     (let window = now div 60000 in
      case r_incr_expire r s (rate_key agentId window) 120 now of
        (None, s') \<Rightarrow> (\<lparr>rl_allowed = True, rl_remaining = perMinute, rl_retryAfterSeconds = 0\<rparr>, s')
      | (Some count, s') \<Rightarrow>
          (\<lparr>rl_allowed = (count \<le> perMinute), rl_remaining = max 0 (perMinute - count),
            rl_retryAfterSeconds = 60 - (now' mod 60000) div 1000\<rparr>, s'))"

section \<open>Keys\<close>

text \<open>No part of a key holds a colon: the patterns of the headers exclude it.\<close>

definition no_colon :: "string \<Rightarrow> bool" where
  "no_colon s \<longleftrightarrow> CHR '':'' \<notin> set s"

lemma nonce_key_inject:
  assumes "nonce_key a k n = nonce_key a' k' n'"
    and "no_colon a" "no_colon k" "no_colon n" "no_colon a'" "no_colon k'" "no_colon n'"
  shows "a = a' \<and> k = k' \<and> n = n'"
proof -
  have "[''agent'', ''nonce'', a, k, n] = [''agent'', ''nonce'', a', k', n']"
    using assms(1) unfolding nonce_key_def
    by (rule join_with_inject) (use assms(2-) in \<open>simp_all add: no_colon_def\<close>)
  then show ?thesis by simp
qed

lemma nonce_rate_key: "nonce_key a k n \<noteq> rate_key a' w"
proof
  assume "nonce_key a k n = rate_key a' w"
  then have "nonce_key a k n ! 6 = rate_key a' w ! 6" by simp
  then show False by (simp add: nonce_key_def rate_key_def)
qed

section \<open>Traces\<close>

text \<open>
  What the gateway does to Redis over time: claims and counts, at instants that do not decrease.
  \<open>replay_run\<close> gives the claims that were granted, with their instants.
\<close>

datatype redis_op =
    Claim_nonce time_ms string string string
  | Count_request time_ms string

fun op_time :: "redis_op \<Rightarrow> time_ms" where
  "op_time (Claim_nonce t a k n) = t"
| "op_time (Count_request t a) = t"

fun op_clean :: "redis_op \<Rightarrow> bool" where
  "op_clean (Claim_nonce t a k n) = (no_colon a \<and> no_colon k \<and> no_colon n)"
| "op_clean (Count_request t a) = True"

fun replay_run :: "'s redis \<Rightarrow> int \<Rightarrow> int \<Rightarrow> 's \<Rightarrow> redis_op list \<Rightarrow> (time_ms \<times> string \<times> string \<times> string) list" where
  "replay_run r ttl limit s [] = []"
| "replay_run r ttl limit s (Claim_nonce t a k n # ops) =
     (case claim r ttl t s a k n of (res, s') \<Rightarrow>
        (if res = Some True then [(t, a, k, n)] else []) @ replay_run r ttl limit s' ops)"
| "replay_run r ttl limit s (Count_request t a # ops) =
     replay_run r ttl limit (snd (consume r limit t t s a)) ops"

lemma claim_True:
  assumes "fst (claim r ttl t s a k n) = Some True"
  shows "fst (r_set_nx_ex r s (nonce_key a k n) ''1'' ttl t) = Reply_ok"
    and "snd (claim r ttl t s a k n) = snd (r_set_nx_ex r s (nonce_key a k n) ''1'' ttl t)"
  using assms by (auto simp: claim_def split: prod.splits redis_reply.splits)

lemma claim_granted:
  assumes "redis_laws r live" and "fst (claim r ttl t s a k n) = Some True"
  shows "nonce_key a k n \<notin> live s t"
    and "t \<le> t' \<Longrightarrow> t' < t + 1000 * ttl \<Longrightarrow> nonce_key a k n \<in> live (snd (claim r ttl t s a k n)) t'"
proof -
  note ok = claim_True [OF assms(2)]
  from assms(1) have l: "\<forall>s key v ttl now. fst (r_set_nx_ex r s key v ttl now) = Reply_ok \<longrightarrow>
        key \<notin> live s now \<and>
        (\<forall>t. now \<le> t \<and> t < now + 1000 * ttl \<longrightarrow> key \<in> live (snd (r_set_nx_ex r s key v ttl now)) t)"
    unfolding redis_laws_def by (rule conjunct1)
  from l ok(1) show "nonce_key a k n \<notin> live s t" by blast
  from l ok(1) show "t \<le> t' \<Longrightarrow> t' < t + 1000 * ttl \<Longrightarrow> nonce_key a k n \<in> live (snd (claim r ttl t s a k n)) t'"
    unfolding ok(2) by blast
qed

lemma redis_set_keeps:
  "redis_laws r live \<Longrightarrow> now \<le> t \<Longrightarrow> key' \<in> live s t \<Longrightarrow> key' \<in> live (snd (r_set_nx_ex r s key v ttl now)) t"
  unfolding redis_laws_def by (elim conjE) simp

lemma snd_claim: "snd (claim r ttl t s a k n) = snd (r_set_nx_ex r s (nonce_key a k n) ''1'' ttl t)"
  by (cases "r_set_nx_ex r s (nonce_key a k n) ''1'' ttl t"; cases "fst (r_set_nx_ex r s (nonce_key a k n) ''1'' ttl t)")
    (simp_all add: claim_def)

lemma claim_keeps:
  assumes "redis_laws r live" and "t \<le> t'" and "key \<in> live s t'"
  shows "key \<in> live (snd (claim r ttl t s a k n)) t'"
  unfolding snd_claim using assms by (rule redis_set_keeps)

lemma consume_keeps:
  assumes "redis_laws r live" and "t \<le> t'" and "key \<in> live s t'" and "key = nonce_key a k n"
  shows "key \<in> live (snd (consume r limit t t'' s ag)) t'"
proof -
  have "key \<noteq> rate_key ag (t div 60000)" using assms(4) nonce_rate_key by simp
  then have "key \<in> live (snd (r_incr_expire r s (rate_key ag (t div 60000)) 120 t)) t'"
    using assms(1-3) unfolding redis_laws_def by blast
  then show ?thesis by (auto simp: consume_def Let_def split: prod.splits option.splits)
qed

text \<open>While a nonce is live it is not granted again.\<close>

lemma replay_run_live:
  assumes "redis_laws r live" and "sorted (map op_time ops)" and "\<forall>op \<in> set ops. op_clean op \<and> t0 \<le> op_time op"
    and "\<forall>t. t0 \<le> t \<and> t < until \<longrightarrow> nonce_key a k n \<in> live s t"
    and "(t, a, k, n) \<in> set (replay_run r ttl limit s ops)"
  shows "until \<le> t"
  using assms
proof (induction r ttl limit s ops arbitrary: t0 rule: replay_run.induct)
  case (2 r ttl limit s t1 a1 k1 n1 ops)
  obtain res s' where c: "claim r ttl t1 s a1 k1 n1 = (res, s')" by fastforce
  have "t0 \<le> t1" using "2.prems"(3) by simp
  show ?case
  proof (cases "res = Some True \<and> (t, a, k, n) = (t1, a1, k1, n1)")
    case True
    then have "nonce_key a k n \<notin> live s t1"
      using claim_granted(1) [OF "2.prems"(1), of ttl t1 s a1 k1 n1] c by simp
    with "2.prems"(4) \<open>t0 \<le> t1\<close> have "\<not> t1 < until" by blast
    with True show ?thesis by simp
  next
    case False
    then have m: "(t, a, k, n) \<in> set (replay_run r ttl limit s' ops)"
      using "2.prems"(5) c by (auto split: if_splits)
    have l: "\<forall>t. t1 \<le> t \<and> t < until \<longrightarrow> nonce_key a k n \<in> live s' t"
      using "2.prems"(4) claim_keeps [OF "2.prems"(1), of t1 _ _ s ttl a1 k1 n1] c \<open>t0 \<le> t1\<close> by auto
    show ?thesis
    proof (rule "2.IH" [OF c [symmetric] "2.prems"(1) _ _ l m])
      show "sorted (map op_time ops)" "\<forall>op \<in> set ops. op_clean op \<and> t1 \<le> op_time op"
        using "2.prems"(2,3) by auto
    qed
  qed
next
  case (3 r ttl limit s t1 a1 ops)
  let ?s = "snd (consume r limit t1 t1 s a1)"
  have "t0 \<le> t1" using "3.prems"(3) by simp
  then have l: "\<forall>t. t1 \<le> t \<and> t < until \<longrightarrow> nonce_key a k n \<in> live ?s t"
    using "3.prems"(4) consume_keeps [OF "3.prems"(1) _ _ refl] by auto
  show ?case
  proof (rule "3.IH" [OF "3.prems"(1) _ _ l])
    show "sorted (map op_time ops)" "\<forall>op \<in> set ops. op_clean op \<and> t1 \<le> op_time op"
      using "3.prems"(2,3) by auto
    show "(t, a, k, n) \<in> set (replay_run r ttl limit ?s ops)" using "3.prems"(5) by simp
  qed
qed simp

text \<open>Two grants of the same nonce are at least the lifetime of the entry apart.\<close>

definition grants_apart :: "int \<Rightarrow> (time_ms \<times> string \<times> string \<times> string) list \<Rightarrow> bool" where
  "grants_apart ttl gs \<longleftrightarrow>
     sorted_wrt (\<lambda>g g'. snd g = snd g' \<longrightarrow> fst g + 1000 * ttl \<le> fst g') gs"

lemma replay_run_apart:
  assumes "redis_laws r live" and "sorted (map op_time ops)" and "\<forall>op \<in> set ops. op_clean op"
  shows "grants_apart ttl (replay_run r ttl limit s ops)"
  using assms
proof (induction r ttl limit s ops rule: replay_run.induct)
  case (2 r ttl limit s t1 a1 k1 n1 ops)
  obtain res s' where c: "claim r ttl t1 s a1 k1 n1 = (res, s')" by fastforce
  have ih: "grants_apart ttl (replay_run r ttl limit s' ops)"
    using "2.IH" [OF c [symmetric] "2.prems"(1)] "2.prems"(2,3) by auto
  show ?case
  proof (cases "res = Some True")
    case True
    have "t1 + 1000 * ttl \<le> t" if "(t, a1, k1, n1) \<in> set (replay_run r ttl limit s' ops)" for t
    proof (rule replay_run_live [OF "2.prems"(1) _ _ _ that])
      show "sorted (map op_time ops)" "\<forall>op \<in> set ops. op_clean op \<and> t1 \<le> op_time op"
        using "2.prems"(2,3) by auto
      show "\<forall>t. t1 \<le> t \<and> t < t1 + 1000 * ttl \<longrightarrow> nonce_key a1 k1 n1 \<in> live s' t"
        using claim_granted(2) [OF "2.prems"(1), of ttl t1 s a1 k1 n1] c True by simp
    qed
    then show ?thesis using ih c True by (auto simp: grants_apart_def)
  qed (use ih c in simp)
qed (auto simp: grants_apart_def)

end
