(* ===== verification/Totp.thy ===== *)
theory Totp
  imports Crypto "HOL-Library.Multiset"
begin

unbundle bit_operations_syntax

text \<open>
  \<open>apps/api/src/auth/totp.ts\<close>: one-time codes of RFC 6238 and recovery codes. The 32-bit
  operators of the language are operations on \<open>32 word\<close>; the random bytes, the clock and
  HMAC-SHA1 are arguments. The lemmas show that decoding inverts the generator of secrets, that a
  code has six digits, that a step is accepted once, and that a recovery code is used once.
\<close>

section \<open>Base32 of a secret\<close>

type_synonym word32 = "32 word"

definition totp_alphabet :: string where
  "totp_alphabet = ''ABCDEFGHIJKLMNOPQRSTUVWXYZ234567''"

(* src auth/totp.ts:37-40 generateTotpSecret/while *)
function emit_symbols :: "word32 \<Rightarrow> nat \<Rightarrow> string \<Rightarrow> nat \<times> string" where
  "emit_symbols value bits output =
     (if 5 \<le> bits
      then emit_symbols value (bits - 5)
             (output @ [totp_alphabet ! unat (drop_bit (bits - 5) value AND 31)])
      else (bits, output))"
  by pat_completeness auto
termination by (relation "measure (\<lambda>(value, bits, output). bits)") auto

declare emit_symbols.simps [simp del]

(* src auth/totp.ts:34-41 generateTotpSecret/for *)
fun encode_bytes :: "bytes \<Rightarrow> word32 \<Rightarrow> nat \<Rightarrow> string \<Rightarrow> word32 \<times> nat \<times> string" where
  "encode_bytes [] value bits output = (value, bits, output)"
| "encode_bytes (b # bs) value bits output =
     (let value' = push_bit 8 value OR ucast b;
          (bits', output') = emit_symbols value' (bits + 8) output
      in encode_bytes bs value' bits' output')"

text \<open>\<open>bytes\<close> is what \<open>randomBytes(20)\<close> returned.\<close>

(* src auth/totp.ts:27-45 generateTotpSecret *)
definition generateTotpSecret :: "bytes \<Rightarrow> string" where
  "generateTotpSecret bytes =
     (let (value, bits, output) = encode_bytes bytes 0 0 []
      in if 0 < bits then output @ [totp_alphabet ! unat (push_bit (5 - bits) value AND 31)] else output)"

text \<open>The class \<open>\s\<close> of a regular expression, on one-byte characters.\<close>

definition js_space :: "char \<Rightarrow> bool" where
  "js_space c = (of_char c \<in> set [9, 10, 11, 12, 13, 32, 160 :: nat])"

definition index_in :: "char \<Rightarrow> string \<Rightarrow> nat option" where
  "index_in c s = map_of (zip s [0..<length s]) c"

definition strip_equals :: "string \<Rightarrow> string" where
  "strip_equals s = rev (dropWhile (\<lambda>c. c = CHR ''='') (rev s))"

(* src auth/totp.ts:53-62 base32Decode/for *)
fun decode_symbols :: "string \<Rightarrow> word32 \<Rightarrow> nat \<Rightarrow> bytes \<Rightarrow> bytes result" where
  "decode_symbols [] value bits out = Inr out"
| "decode_symbols (ch # chs) value bits out =
     (case index_in ch totp_alphabet of
        None \<Rightarrow> Inl (Thrown ''secret'')
      | Some index \<Rightarrow>
          (let value' = push_bit 5 value OR of_nat index; bits' = bits + 5
           in if 8 \<le> bits' then decode_symbols chs value' (bits' - 8)
                                  (out @ [ucast (drop_bit (bits' - 8) value' AND 0xff)])
              else decode_symbols chs value' bits' out))"

(* src auth/totp.ts:47-65 base32Decode *)
definition base32Decode :: "string \<Rightarrow> bytes result" where
  "base32Decode input =
     decode_symbols (filter (\<lambda>c. \<not> js_space c) (strip_equals (to_upper input))) 0 0 []"

text \<open>
  Both loops seen as streams of bits: the bits already written followed by the \<open>bits\<close> low bits of
  the accumulator are the bits read so far.
\<close>

definition low_bits :: "nat \<Rightarrow> 'a::len word \<Rightarrow> bool list" where
  "low_bits n v = map (bit v) (rev [0..<n])"

definition symbol_bits :: "char \<Rightarrow> bool list" where
  "symbol_bits ch = low_bits 5 (of_nat (the (index_in ch totp_alphabet)) :: word32)"

lemma length_low_bits [simp]: "length (low_bits n v) = n"
  by (simp add: low_bits_def)

lemma low_bits_0 [simp]: "low_bits 0 v = []"
  by (simp add: low_bits_def)

lemma low_bits_cong: "(\<And>i. i < n \<Longrightarrow> bit v i = bit w i) \<Longrightarrow> low_bits n v = low_bits n w"
  by (simp add: low_bits_def)

lemma low_bits_add: "low_bits (m + n) v = low_bits m (drop_bit n v) @ low_bits n v"
proof -
  have "rev [0..<m + n] = rev (map (\<lambda>i. i + n) [0..<m]) @ rev [0..<n]"
    using upt_add_eq_append [of 0 n m] by (simp add: map_add_upt add.commute flip: rev_append)
  then show ?thesis by (simp add: low_bits_def rev_map bit_drop_bit_eq comp_def add.commute)
qed

lemma low_bits_push:
  assumes "m + n \<le> 32" and "\<And>i. n \<le> i \<Longrightarrow> \<not> bit w i"
  shows "low_bits (m + n) (push_bit n v OR w :: word32) = low_bits m v @ low_bits n w"
proof -
  have "low_bits m (drop_bit n (push_bit n v OR w)) = low_bits m v"
    using assms by (intro low_bits_cong) (auto simp: bit_drop_bit_eq bit_or_iff bit_push_bit_iff)
  moreover have "low_bits n (push_bit n v OR w) = low_bits n w"
    by (rule low_bits_cong) (simp add: bit_or_iff bit_push_bit_iff)
  ultimately show ?thesis by (simp add: low_bits_add)
qed

lemma low_bits_mask: "low_bits n (v AND mask n) = low_bits n v"
  by (rule low_bits_cong) (auto simp: bit_and_iff bit_mask_iff dest: bit_imp_le_length)

lemma low_bits_inject: "low_bits 8 (a :: byte) = low_bits 8 b \<longleftrightarrow> a = b"
proof
  assume eq: "low_bits 8 a = low_bits 8 b"
  then have "bit a i = bit b i" if "i < 8" for i
    using that by (simp add: low_bits_def)
  then show "a = b" by (intro bit_word_eqI) simp
qed simp

lemma length_alphabet: "length totp_alphabet = 32"
  by (simp add: totp_alphabet_def)

lemma alphabet_index: "i < 32 \<Longrightarrow> index_in (totp_alphabet ! i) totp_alphabet = Some i"
proof -
  assume "i < 32"
  moreover have "length totp_alphabet = 32" "distinct totp_alphabet"
    by (simp_all add: totp_alphabet_def)
  ultimately show ?thesis
    unfolding index_in_def by (subst map_of_zip_nth) simp_all
qed

lemma and_31_less: "unat (v AND 31 :: word32) < 32"
proof -
  have "v AND 31 = take_bit 5 v" by (simp add: take_bit_eq_mask mask_eq_exp_minus_1)
  then have "unat (v AND 31) = take_bit 5 (unat v)" by (simp add: unsigned_take_bit_eq)
  then show ?thesis by (simp add: take_bit_eq_mod)
qed

lemma symbol_bits_nth: "symbol_bits (totp_alphabet ! unat (v AND 31 :: word32)) = low_bits 5 v"
proof -
  have "low_bits 5 (v AND 31) = low_bits 5 v"
    using low_bits_mask [of 5 v] by (simp add: mask_eq_exp_minus_1)
  then show ?thesis by (simp add: symbol_bits_def alphabet_index and_31_less)
qed

lemma symbol_in: "totp_alphabet ! unat (v AND 31 :: word32) \<in> set totp_alphabet"
  using and_31_less [of v] by (intro nth_mem) (simp add: totp_alphabet_def)

lemma emit_symbols_spec:
  assumes "emit_symbols v n out = (n', out')"
  shows "n' < 5 \<and> (\<exists>s. out' = out @ s \<and> set s \<subseteq> set totp_alphabet \<and>
           concat (map symbol_bits s) @ low_bits n' v = low_bits n v)"
  using assms
proof (induction v n out arbitrary: n' out' rule: emit_symbols.induct)
  case (1 v n out)
  show ?case
  proof (cases "5 \<le> n")
    case False
    with "1.prems" show ?thesis by (subst (asm) emit_symbols.simps) simp
  next
    case True
    let ?ch = "totp_alphabet ! unat (drop_bit (n - 5) v AND 31)"
    have "emit_symbols v (n - 5) (out @ [?ch]) = (n', out')"
      using True "1.prems" by (subst (asm) emit_symbols.simps) simp
    from "1.IH" [OF True this] obtain s where n': "n' < 5" and out': "out' = (out @ [?ch]) @ s"
      and s: "set s \<subseteq> set totp_alphabet"
      and bits: "concat (map symbol_bits s) @ low_bits n' v = low_bits (n - 5) v"
      by blast
    have "low_bits n v = low_bits 5 (drop_bit (n - 5) v) @ low_bits (n - 5) v"
      using True low_bits_add [of 5 "n - 5" v] by simp
    then have "concat (map symbol_bits (?ch # s)) @ low_bits n' v = low_bits n v"
      using bits by (simp add: symbol_bits_nth)
    moreover have "set (?ch # s) \<subseteq> set totp_alphabet" using s symbol_in by simp
    ultimately show ?thesis using n' out' by (intro conjI exI [of _ "?ch # s"]) simp_all
  qed
qed

lemma encode_bytes_spec:
  assumes "encode_bytes bs v n out = (v', n', out')" and "n < 5"
  shows "n' < 5 \<and> (\<exists>s. out' = out @ s \<and> set s \<subseteq> set totp_alphabet \<and>
           concat (map symbol_bits s) @ low_bits n' v' = low_bits n v @ concat (map (low_bits 8) bs))"
  using assms
proof (induction bs v n out rule: encode_bytes.induct)
  case (1 v n out)
  then show ?case by simp
next
  case (2 b bs v n out)
  let ?v = "push_bit 8 v OR ucast b :: word32"
  obtain n1 out1 where e: "emit_symbols ?v (n + 8) out = (n1, out1)" by (cases "emit_symbols ?v (n + 8) out")
  from emit_symbols_spec [OF e] obtain s1 where n1: "n1 < 5" and out1: "out1 = out @ s1"
    and s1: "set s1 \<subseteq> set totp_alphabet"
    and b1: "concat (map symbol_bits s1) @ low_bits n1 ?v = low_bits (n + 8) ?v" by blast
  have rest: "encode_bytes bs ?v n1 out1 = (v', n', out')" using "2.prems" e by simp
  from "2.IH" [OF refl _ refl rest n1] e obtain s2 where n': "n' < 5" and out': "out' = out1 @ s2"
    and s2: "set s2 \<subseteq> set totp_alphabet"
    and b2: "concat (map symbol_bits s2) @ low_bits n' v' = low_bits n1 ?v @ concat (map (low_bits 8) bs)"
    by auto
  have "low_bits (n + 8) ?v = low_bits n v @ low_bits 8 (ucast b :: word32)"
    using "2.prems"(2) by (intro low_bits_push) (auto simp: bit_ucast_iff dest: bit_imp_le_length)
  also have "low_bits 8 (ucast b :: word32) = low_bits 8 b"
    by (auto simp: low_bits_def bit_ucast_iff)
  finally have "concat (map symbol_bits (s1 @ s2)) @ low_bits n' v' =
      low_bits n v @ concat (map (low_bits 8) (b # bs))"
    using b1 b2 append.assoc [of "concat (map symbol_bits s1)"] by simp
  then show ?case using n' out1 out' s1 s2 by (intro conjI exI [of _ "s1 @ s2"]) auto
qed

lemma decode_symbols_spec:
  assumes "set s \<subseteq> set totp_alphabet" and "n < 8"
  shows "\<exists>out' n' v'. decode_symbols s v n out = Inr (out @ out') \<and> n' < 8 \<and>
           concat (map (low_bits 8) out') @ low_bits n' (v' :: word32) =
             low_bits n v @ concat (map symbol_bits s)"
  using assms
proof (induction s v n out rule: decode_symbols.induct)
  case (1 v n out)
  then show ?case by (intro exI [of _ "[]"] exI [of _ n] exI [of _ v]) simp
next
  case (2 ch chs v n out)
  obtain i where i: "i < 32" "ch = totp_alphabet ! i"
    using "2.prems"(1) length_alphabet by (auto simp: in_set_conv_nth)
  then have idx: "index_in ch totp_alphabet = Some i" by (simp add: alphabet_index)
  let ?v = "push_bit 5 v OR of_nat i :: word32"
  have small: "\<not> bit (of_nat i :: word32) j" if "5 \<le> j" for j
  proof -
    have "i < 2 ^ j" using i(1) that power_increasing [of 5 j "2::nat"] by simp
    then have "\<not> bit i j" by (simp add: bit_iff_odd)
    then show ?thesis by (simp add: bit_of_nat_iff)
  qed
  have sb: "low_bits (n + 5) ?v = low_bits n v @ symbol_bits ch"
    using "2.prems"(2) small by (simp add: low_bits_push symbol_bits_def idx)
  show ?case
  proof (cases "8 \<le> n + 5")
    case False
    from "2.IH"(2) [OF idx refl refl False] "2.prems" False obtain out' n' v' where
      "decode_symbols chs ?v (n + 5) out = Inr (out @ out')" "n' < 8"
      "concat (map (low_bits 8) out') @ low_bits n' (v' :: word32) = low_bits (n + 5) ?v @ concat (map symbol_bits chs)"
      by auto
    then show ?thesis using False sb idx
      by (intro exI [of _ out'] exI [of _ n'] exI [of _ v']) simp
  next
    case True
    define w where "w = ?v"
    define k where "k = n + 5 - 8"
    define b where "b = (ucast (drop_bit k w AND 0xff) :: byte)"
    have sub: "set chs \<subseteq> set totp_alphabet" and "k < 8" using "2.prems" by (auto simp: k_def)
    with "2.IH"(1) [OF idx refl refl True] obtain out' n' v' where
      d: "decode_symbols chs w k (out @ [b]) = Inr ((out @ [b]) @ out')" and n': "n' < 8"
      and o: "concat (map (low_bits 8) out') @ low_bits n' (v' :: word32) = low_bits k w @ concat (map symbol_bits chs)"
      unfolding w_def k_def b_def by blast
    have "low_bits 8 b = low_bits 8 (drop_bit k w)"
      using low_bits_mask [of 8 "drop_bit k w"]
      by (auto simp: low_bits_def bit_ucast_iff mask_eq_exp_minus_1 b_def)
    then have "low_bits (n + 5) w = low_bits 8 b @ low_bits k w"
      using True low_bits_add [of 8 k w] by (simp add: k_def add.commute)
    then have "concat (map (low_bits 8) (b # out')) @ low_bits n' v' = low_bits n v @ concat (map symbol_bits (ch # chs))"
      using sb o by (simp add: w_def)
    moreover have "decode_symbols (ch # chs) v n out = Inr (out @ (b # out'))"
      using True d idx by (simp add: Let_def flip: w_def k_def b_def)
    ultimately show ?thesis using n' by blast
  qed
qed

lemma alphabet_normal:
  assumes "set s \<subseteq> set totp_alphabet"
  shows "filter (\<lambda>c. \<not> js_space c) (strip_equals (to_upper s)) = s"
proof -
  have ch: "(case map_of (zip lower_letters upper_letters) c of None \<Rightarrow> c | Some d \<Rightarrow> d) = c \<and>
      c \<noteq> CHR ''='' \<and> \<not> js_space c" if "c \<in> set totp_alphabet" for c
  proof -
    have "\<forall>c \<in> set totp_alphabet. (case map_of (zip lower_letters upper_letters) c of None \<Rightarrow> c | Some d \<Rightarrow> d) = c \<and>
        c \<noteq> CHR ''='' \<and> \<not> js_space c"
      by (simp add: totp_alphabet_def lower_letters_def upper_letters_def js_space_def)
    with that show ?thesis by blast
  qed
  have up: "to_upper s = s" unfolding to_upper_def using assms ch by (intro map_idI) auto
  have "strip_equals s = s"
  proof (cases "rev s")
    case (Cons x xs)
    then have "x \<in> set s" by (metis list.set_intros(1) set_rev)
    with assms ch have "x \<noteq> CHR ''=''" by blast
    with Cons show ?thesis by (simp add: strip_equals_def flip: rev_swap)
  qed (simp add: strip_equals_def)
  then show ?thesis using assms ch by (simp add: up filter_id_conv subset_iff)
qed

lemma concat_low_bits_prefix:
  assumes "concat (map (low_bits 8) xs) @ p = concat (map (low_bits 8) (ys :: bytes)) @ q"
    and "length p < 8" and "length q < 8"
  shows "xs = ys"
  using assms
proof (induction xs arbitrary: ys)
  case Nil
  show ?case
  proof (cases ys)
    case (Cons y ys')
    with Nil.prems(1) have "length p = length (low_bits 8 y @ concat (map (low_bits 8) ys') @ q)" by simp
    with Nil.prems(2) show ?thesis by simp
  qed simp
next
  case (Cons x xs)
  show ?case
  proof (cases ys)
    case Nil
    with Cons.prems(1) have "length q = length (low_bits 8 x @ concat (map (low_bits 8) xs) @ p)" by simp
    with Cons.prems(3) show ?thesis by simp
  next
    case (Cons y ys')
    with Cons.prems(1) have "low_bits 8 x = low_bits 8 y"
      "concat (map (low_bits 8) xs) @ p = concat (map (low_bits 8) ys') @ q" by simp_all
    with Cons.IH Cons.prems(2,3) Cons show ?thesis by (simp add: low_bits_inject)
  qed
qed

lemma secret_stream:
  "\<exists>pad. set (generateTotpSecret bs) \<subseteq> set totp_alphabet \<and> length pad < 5 \<and>
     concat (map symbol_bits (generateTotpSecret bs)) = concat (map (low_bits 8) bs) @ pad"
proof -
  obtain v n out where e: "encode_bytes bs 0 0 [] = (v, n, out)" by (metis prod_cases3)
  from encode_bytes_spec [OF e] have n: "n < 5" and cls: "set out \<subseteq> set totp_alphabet"
    and bits: "concat (map symbol_bits out) @ low_bits n v = concat (map (low_bits 8) bs)" by auto
  show ?thesis
  proof (cases "0 < n")
    case False
    then show ?thesis using e cls bits by (intro exI [of _ "[]"]) (simp add: generateTotpSecret_def)
  next
    case True
    let ?w = "push_bit (5 - n) v"
    have "low_bits 5 ?w = low_bits n (drop_bit (5 - n) ?w) @ low_bits (5 - n) ?w"
      using n low_bits_add [of n "5 - n" ?w] by simp
    also have "low_bits n (drop_bit (5 - n) ?w) = low_bits n v"
      using n by (intro low_bits_cong) (auto simp: bit_drop_bit_eq bit_push_bit_iff)
    finally have "symbol_bits (totp_alphabet ! unat (?w AND 31)) = low_bits n v @ low_bits (5 - n) ?w"
      by (simp add: symbol_bits_nth)
    then show ?thesis
      using True n e cls bits symbol_in [of ?w]
      by (intro exI [of _ "low_bits (5 - n) ?w"]) (auto simp: generateTotpSecret_def)
  qed
qed

text \<open>Decoding the base32 form of a generated secret gives back its random bytes, whatever their number.\<close>

theorem totp_secret_roundtrip: "base32Decode (generateTotpSecret bs) = Inr bs"
proof -
  obtain pad where cls: "set (generateTotpSecret bs) \<subseteq> set totp_alphabet" and pad: "length pad < 5"
    and st: "concat (map symbol_bits (generateTotpSecret bs)) = concat (map (low_bits 8) bs) @ pad"
    using secret_stream by blast
  obtain out n v where d: "decode_symbols (generateTotpSecret bs) 0 0 [] = Inr out" and n: "n < 8"
    and o: "concat (map (low_bits 8) out) @ low_bits n (v :: word32) = concat (map symbol_bits (generateTotpSecret bs))"
    using decode_symbols_spec [OF cls, of 0 0 "[]"] by auto
  have "out = bs" by (rule concat_low_bits_prefix [OF o [unfolded st]]) (use n pad in simp_all)
  with d cls show ?thesis by (simp add: base32Decode_def alphabet_normal)
qed

section \<open>Codes\<close>

definition step_seconds :: int where "step_seconds = 30"
definition totp_digits :: nat where "totp_digits = 6"
definition default_window :: int where "default_window = 1"

text \<open>The eight bytes \<open>writeBigUInt64BE\<close> writes; a read past the end of a digest gives 0 in \<open>&\<close> and \<open>|\<close>.\<close>

definition be64 :: "int \<Rightarrow> bytes" where
  "be64 n = map (\<lambda>i. of_int (n div 256 ^ i)) (rev [0..<8])"

definition byte_at :: "bytes \<Rightarrow> nat \<Rightarrow> byte" where
  "byte_at d i = (if i < length d then d ! i else 0)"

(* src auth/totp.ts:68-82 totpCodeForStep *)
definition totpCodeForStep :: "crypto \<Rightarrow> string \<Rightarrow> int \<Rightarrow> string result" where
  "totpCodeForStep c secret step =
     (case base32Decode secret of Inl e \<Rightarrow> Inl e
      | Inr key \<Rightarrow>
         if step < 0 \<or> 2 ^ 64 \<le> step then Inl (Thrown ''range'')
         else (let digest = c_hmac_sha1 c key (be64 step);
                   offset = unat (byte_at digest (length digest - 1) AND 0x0f);
                   binary = (push_bit 24 (ucast (byte_at digest offset AND 0x7f)) OR
                             push_bit 16 (ucast (byte_at digest (offset + 1))) OR
                             push_bit 8 (ucast (byte_at digest (offset + 2))) OR
                             ucast (byte_at digest (offset + 3)) :: word32)
               in Inr (pad_start totp_digits (CHR ''0'')
                         (string_of_nat (unat binary mod 10 ^ totp_digits)))))"

(* src auth/totp.ts:84-86 currentStep *)
definition currentStep :: "time_ms \<Rightarrow> int" where
  "currentStep now = now div (1000 * step_seconds)"

(* src auth/totp.ts:88-93 TotpVerification *)
datatype totp_verification =
    Totp_valid int
  | Totp_malformed
  | Totp_mismatch
  | Totp_replayed

(* src auth/totp.ts:113-126 verifyTotp/for *)
fun verify_steps :: "crypto \<Rightarrow> string \<Rightarrow> string \<Rightarrow> int option \<Rightarrow> int \<Rightarrow> int list \<Rightarrow> totp_verification result" where
  "verify_steps c secret provided lastUsedStep center [] = Inr Totp_mismatch"
| "verify_steps c secret provided lastUsedStep center (offset # offsets) =
     (let step = center + offset in
      if step < 0 then verify_steps c secret provided lastUsedStep center offsets
      else (case totpCodeForStep c secret step of
          Inl e \<Rightarrow> Inl e
        | Inr expected \<Rightarrow>
            if length expected = length provided \<and> expected = provided
            then (case lastUsedStep of
                    Some l \<Rightarrow> if step \<le> l then Inr Totp_replayed else Inr (Totp_valid step)
                  | None \<Rightarrow> Inr (Totp_valid step))
            else verify_steps c secret provided lastUsedStep center offsets))"

text \<open>The \<open>for\<close> loop runs over the offsets \<open>-window, \<dots>, window\<close>.\<close>

(* src auth/totp.ts:101-127 verifyTotp *)
definition verifyTotp :: "crypto \<Rightarrow> string \<Rightarrow> string \<Rightarrow> int option \<Rightarrow> time_ms \<Rightarrow> int option \<Rightarrow> totp_verification result" where
  "verifyTotp c secret code lastUsedStep now window_opt =
     (let cleaned = filter (\<lambda>ch. \<not> js_space ch) code in
      if \<not> matches_class digit_chars 6 6 cleaned then Inr Totp_malformed
      else (let window = coalesce_default window_opt default_window
            in verify_steps c secret cleaned lastUsedStep (currentStep now) [- window..window]))"

lemma totp_code_digits:
  assumes "totpCodeForStep c secret step = Inr code"
  shows "matches_class digit_chars 6 6 code"
proof -
  have d: "length (string_of_nat (n mod 10 ^ 6)) \<le> 6" for n :: nat
    by (rule length_string_of_nat) simp_all
  have "\<exists>n. code = pad_start 6 (CHR ''0'') (string_of_nat (n mod 10 ^ 6))"
    using assms by (auto simp: totpCodeForStep_def totp_digits_def Let_def split: sum.splits if_splits)
  then obtain n where code: "code = pad_start 6 (CHR ''0'') (string_of_nat (n mod 10 ^ 6))" ..
  have "CHR ''0'' \<in> set digit_chars" by (simp add: digit_chars_def)
  then show ?thesis
    using d [of n] string_of_nat_digits [of "n mod 10 ^ 6"]
    by (auto simp: code matches_class_def pad_start_def all_in_iff set_replicate_conv_if)
qed

lemma verify_steps_valid:
  assumes "verify_steps c secret provided lastUsed center offs = Inr (Totp_valid s)"
  shows "s \<in> (\<lambda>off. center + off) ` set offs \<and> 0 \<le> s \<and> totpCodeForStep c secret s = Inr provided \<and>
    (\<forall>l. lastUsed = Some l \<longrightarrow> l < s)"
  using assms
  by (induction c secret provided lastUsed center offs rule: verify_steps.induct)
    (auto simp: Let_def split: if_splits sum.splits option.splits)

lemma verify_steps_complete:
  assumes "\<And>off. off \<in> set offs \<Longrightarrow> 0 \<le> center + off \<Longrightarrow>
      \<exists>code. totpCodeForStep c secret (center + off) = Inr code"
    and "\<And>off. off \<in> set offs \<Longrightarrow> 0 \<le> center + off \<Longrightarrow>
      totpCodeForStep c secret (center + off) = Inr provided \<Longrightarrow> \<forall>l. lastUsed = Some l \<longrightarrow> l < center + off"
    and "off \<in> set offs" "0 \<le> center + off" "totpCodeForStep c secret (center + off) = Inr provided"
  shows "\<exists>s. verify_steps c secret provided lastUsed center offs = Inr (Totp_valid s)"
  using assms
proof (induction offs)
  case (Cons o1 offs)
  show ?case
  proof (cases "0 \<le> center + o1")
    case False
    with Cons.prems(3,4) have "off \<in> set offs" by auto
    then have "\<exists>s. verify_steps c secret provided lastUsed center offs = Inr (Totp_valid s)"
      using Cons.prems by (intro Cons.IH) auto
    with False show ?thesis by (simp add: Let_def)
  next
    case True
    with Cons.prems(1) [of o1] obtain code where code: "totpCodeForStep c secret (center + o1) = Inr code" by auto
    show ?thesis
    proof (cases "code = provided")
      case True
      with Cons.prems(2) [of o1] code \<open>0 \<le> center + o1\<close> have "\<forall>l. lastUsed = Some l \<longrightarrow> l < center + o1" by simp
      with True code \<open>0 \<le> center + o1\<close> show ?thesis by (auto simp: Let_def split: option.split)
    next
      case False
      with Cons.prems(3,5) code have "off \<in> set offs" by auto
      then have "\<exists>s. verify_steps c secret provided lastUsed center offs = Inr (Totp_valid s)"
        using Cons.prems by (intro Cons.IH) auto
      with False code \<open>0 \<le> center + o1\<close> show ?thesis by (simp add: Let_def)
    qed
  qed
qed simp

text \<open>An accepted code is the code of the accepted step, the step is within the window of the
  clock, and it lies strictly after the last step used.\<close>

theorem verifyTotp_sound:
  assumes "verifyTotp c secret code lastUsed now window = Inr (Totp_valid s)"
  shows "totpCodeForStep c secret s = Inr (filter (\<lambda>ch. \<not> js_space ch) code) \<and>
    \<bar>s - currentStep now\<bar> \<le> coalesce_default window default_window \<and> 0 \<le> s \<and>
    (\<forall>l. lastUsed = Some l \<longrightarrow> l < s)"
proof -
  let ?w = "coalesce_default window default_window"
  have "verify_steps c secret (filter (\<lambda>ch. \<not> js_space ch) code) lastUsed (currentStep now) [- ?w..?w]
      = Inr (Totp_valid s)"
    using assms by (simp add: verifyTotp_def Let_def split: if_splits)
  from verify_steps_valid [OF this] show ?thesis by auto
qed

text \<open>A sequence of attempts against one secret, with the accepted step stored after each of them.\<close>

fun totp_attempts :: "crypto \<Rightarrow> string \<Rightarrow> int option \<Rightarrow> (string \<times> time_ms) list \<Rightarrow> int list" where
  "totp_attempts c secret stored [] = []"
| "totp_attempts c secret stored ((code, now) # rest) =
     (case verifyTotp c secret code stored now None of
        Inr (Totp_valid s) \<Rightarrow> s # totp_attempts c secret (Some s) rest
      | _ \<Rightarrow> totp_attempts c secret stored rest)"

lemma totp_attempts_sorted:
  "sorted_wrt (<) (totp_attempts c secret stored xs) \<and>
   (\<forall>l. stored = Some l \<longrightarrow> (\<forall>s \<in> set (totp_attempts c secret stored xs). l < s))"
proof (induction c secret stored xs rule: totp_attempts.induct)
  case (2 c secret stored code now rest)
  show ?case
  proof (cases "\<exists>s. verifyTotp c secret code stored now None = Inr (Totp_valid s)")
    case True
    then obtain s where v: "verifyTotp c secret code stored now None = Inr (Totp_valid s)" ..
    from verify_steps_valid have "\<forall>l. stored = Some l \<longrightarrow> l < s"
      using v by (auto simp: verifyTotp_def Let_def split: if_splits)
    moreover have "sorted_wrt (<) (totp_attempts c secret (Some s) rest) \<and>
        (\<forall>t \<in> set (totp_attempts c secret (Some s) rest). s < t)"
      using "2.IH" v by simp
    ultimately show ?thesis using v by (auto) (meson less_trans)
  next
    case False
    then have eq: "totp_attempts c secret stored ((code, now) # rest) = totp_attempts c secret stored rest"
      by (auto split: sum.splits totp_verification.splits)
    have "sorted_wrt (<) (totp_attempts c secret stored rest) \<and>
        (\<forall>l. stored = Some l \<longrightarrow> (\<forall>s \<in> set (totp_attempts c secret stored rest). l < s))"
    proof (cases "verifyTotp c secret code stored now None")
      case (Inl e)
      then show ?thesis using "2.IH" by blast
    next
      case (Inr r)
      then show ?thesis using "2.IH" False by (cases r) auto
    qed
    then show ?thesis unfolding eq .
  qed
qed simp

text \<open>With the accepted step stored after each attempt, no step is accepted twice in any
  sequence of attempts, and accepted steps only grow.\<close>

theorem totp_no_replay:
  "sorted_wrt (<) (totp_attempts c secret stored attempts)"
  by (simp add: totp_attempts_sorted)

section \<open>Recovery codes\<close>

(* src auth/totp.ts:152-155 generateRecoveryCodes/for *)
definition recovery_code :: "bytes \<Rightarrow> string" where
  "recovery_code random5 = (let raw = to_upper (hex_of_bytes random5) in take 5 raw @ ''-'' @ drop 5 raw)"

text \<open>\<open>randoms\<close> are the results of the \<open>count\<close> calls of \<open>randomBytes(5)\<close>.\<close>

(* src auth/totp.ts:150-157 generateRecoveryCodes *)
definition generateRecoveryCodes :: "crypto \<Rightarrow> bytes list \<Rightarrow> string list \<times> string list" where
  "generateRecoveryCodes c randoms =
     (let codes = map recovery_code randoms in (codes, map (\<lambda>code. to_base64 (hashToken c code)) codes))"

definition js_trim :: "string \<Rightarrow> string" where
  "js_trim s = rev (dropWhile js_space (rev (dropWhile js_space s)))"

definition index_of :: "'a \<Rightarrow> 'a list \<Rightarrow> nat option" where
  "index_of x xs = (if x \<in> set xs then Some (length (takeWhile (\<lambda>y. y \<noteq> x) xs)) else None)"

(* src auth/totp.ts:163-175 consumeRecoveryCode *)
definition consumeRecoveryCode :: "crypto \<Rightarrow> string \<Rightarrow> string list \<Rightarrow> bool \<times> string list" where
  "consumeRecoveryCode c presented storedHashes =
     (let candidate = to_base64 (hashToken c (to_upper (js_trim presented))) in
      case index_of candidate storedHashes of
        None \<Rightarrow> (False, storedHashes)
      | Some index \<Rightarrow> (True, take index storedHashes @ drop (Suc index) storedHashes))"

lemma splice_remove1:
  "x \<in> set xs \<Longrightarrow> take (length (takeWhile (\<lambda>y. y \<noteq> x) xs)) xs @
     drop (Suc (length (takeWhile (\<lambda>y. y \<noteq> x) xs))) xs = remove1 x xs"
  by (induction xs) auto

lemma consume_eq:
  "consumeRecoveryCode c p hs =
     (let h = to_base64 (hashToken c (to_upper (js_trim p))) in (h \<in> set hs, remove1 h hs))"
  by (auto simp: consumeRecoveryCode_def index_of_def splice_remove1 Let_def remove1_idem)

definition recovery_chars :: string where
  "recovery_chars = ''-0123456789ABCDEF''"

abbreviation upper_char :: "char \<Rightarrow> char" where
  "upper_char ch \<equiv> (case map_of (zip lower_letters upper_letters) ch of None \<Rightarrow> ch | Some d \<Rightarrow> d)"

lemma upper_hex_char: "list_all (\<lambda>ch. upper_char ch \<in> set recovery_chars) hex_chars"
  by code_simp

lemma recovery_char: "list_all (\<lambda>ch. \<not> js_space ch \<and> upper_char ch = ch) recovery_chars"
  by code_simp

lemma upper_hex: "set (to_upper (hex_of_bytes bs)) \<subseteq> set recovery_chars"
  using upper_hex_char hex_of_bytes_class [of bs]
  unfolding to_upper_def set_map list_all_iff all_in_iff by blast

lemma recovery_code_chars: "set (recovery_code bs) \<subseteq> set recovery_chars"
proof -
  have "CHR ''-'' \<in> set recovery_chars" by (simp add: recovery_chars_def)
  then show ?thesis
    using upper_hex [of bs] set_take_subset [of 5 "to_upper (hex_of_bytes bs)"]
      set_drop_subset [of 5 "to_upper (hex_of_bytes bs)"]
    unfolding recovery_code_def Let_def set_append by auto
qed

lemma recovery_code_normal: "to_upper (js_trim (recovery_code bs)) = recovery_code bs"
proof -
  have ch: "\<not> js_space ch \<and> upper_char ch = ch" if "ch \<in> set (recovery_code bs)" for ch
    using that recovery_code_chars recovery_char unfolding list_all_iff by blast
  have drop: "dropWhile js_space xs = xs" if "set xs \<subseteq> set (recovery_code bs)" for xs
    using that ch by (cases xs) auto
  have "js_trim (recovery_code bs) = recovery_code bs" unfolding js_trim_def by (simp add: drop)
  moreover have "to_upper (recovery_code bs) = recovery_code bs"
    unfolding to_upper_def using ch by (intro map_idI) blast
  ultimately show ?thesis by simp
qed

text \<open>Every generated recovery code is accepted against the stored hashes, and accepting it
  removes exactly one occurrence of its hash.\<close>

theorem recovery_code_once:
  assumes "random5 \<in> set randoms"
  shows "\<exists>rest. consumeRecoveryCode c (recovery_code random5) (snd (generateRecoveryCodes c randoms)) = (True, rest) \<and>
    mset (snd (generateRecoveryCodes c randoms)) = add_mset (to_base64 (hashToken c (recovery_code random5))) (mset rest)"
  using assms
  by (auto simp: consume_eq recovery_code_normal generateRecoveryCodes_def Let_def)

end
