(* ===== verification/Samples.thy ===== *)
theory Samples
  imports Credentials Replay Totp
begin

text \<open>
  Concrete instances of the parameters of the model, which satisfy the documented laws: the
  statements that rest on a law are applied to them.
\<close>

section \<open>Primitives\<close>

definition pad_to :: "nat \<Rightarrow> bytes \<Rightarrow> bytes" where
  "pad_to n x = take n (x @ replicate n 0)"

definition sample_crypto :: crypto where
  "sample_crypto =
     \<lparr>c_sha256 = (\<lambda>x. pad_to 32 x), c_hmac_sha256 = (\<lambda>k m. pad_to 32 (utf8 (k @ m))),
      c_hmac_sha1 = (\<lambda>k m. pad_to 20 (k @ m)),
      c_scrypt = (\<lambda>pw salt n N r p. Some (pad_to n (utf8 pw))),
      c_gcm_seal = (\<lambda>k iv p. (p, replicate 16 0)), c_gcm_open = (\<lambda>k iv ct tag. Some ct)\<rparr>"

definition sample_js :: js_lib where
  "sample_js = \<lparr>number_other = (\<lambda>s. None), base64_other = (\<lambda>s. []), json_parse = (\<lambda>s. None),
     number_text = (\<lambda>q. ''NaN'')\<rparr>"

lemma length_pad_to [simp]: "length (pad_to n x) = n"
  by (simp add: pad_to_def)

lemma sample_crypto_laws: "gcm_laws sample_crypto" "digest_laws sample_crypto" "scrypt_laws sample_crypto"
  by (simp_all add: gcm_laws_def digest_laws_def scrypt_laws_def sample_crypto_def)

section \<open>Redis\<close>

type_synonym key_store = "(string \<times> time_ms) list"

definition store_live :: "key_store \<Rightarrow> time_ms \<Rightarrow> string set" where
  "store_live s t = {k. \<exists>e. (k, e) \<in> set s \<and> t < e}"

definition sample_redis :: "key_store redis" where
  "sample_redis =
     \<lparr>r_set_nx_ex = (\<lambda>s key v ttl now.
         if list_ex (\<lambda>(k, e). k = key \<and> now < e) s then (Reply_nil, s)
         else (Reply_ok, (key, now + 1000 * ttl) # s)),
      r_incr_expire = (\<lambda>s key ttl now. (Some 1, s))\<rparr>"

lemma sample_redis_laws: "redis_laws sample_redis store_live"
  by (auto simp: redis_laws_def sample_redis_def store_live_def list_ex_iff split: if_splits)

section \<open>Applications\<close>

theorem secret_envelope_roundtrip_witness:
  "\<exists>env. encryptSecret sample_crypto (replicate 12 7) ''s3cret'' (replicate 32 1) = Inr env \<and>
     decryptSecret sample_crypto env (replicate 32 1) = Inr ''s3cret''"
proof -
  obtain env where e: "encryptSecret sample_crypto (replicate 12 7) ''s3cret'' (replicate 32 1) = Inr env"
    by (simp add: encryptSecret_def sample_crypto_def)
  from secret_envelope_roundtrip [OF sample_crypto_laws(1) _ e]
  have "decryptSecret sample_crypto env (replicate 32 1) = Inr ''s3cret''" by (simp add: gcm_iv_bytes_def)
  with e show ?thesis by blast
qed

theorem password_record_verifies_witness:
  "\<exists>stored. hashPassword sample_crypto [1] ''correct horse'' = Inr stored \<and>
     verifyPassword sample_js sample_crypto ''correct horse'' stored = Inr True"
proof -
  obtain stored where h: "hashPassword sample_crypto [1] ''correct horse'' = Inr stored"
    by (simp add: hashPassword_def sample_crypto_def)
  from password_record_verifies [OF sample_crypto_laws(3) _ h, of sample_js undefined undefined]
  have "verifyPassword sample_js sample_crypto ''correct horse'' stored = Inr True" by simp
  with h show ?thesis by blast
qed

section \<open>A server with one credential\<close>

definition sample_id :: "string \<Rightarrow> char \<Rightarrow> string" where
  "sample_id prefix c = prefix @ replicate 26 c"

definition sample_org :: string where "sample_org = sample_id ''org_'' (CHR ''a'')"
definition sample_server_id :: string where "sample_server_id = sample_id ''srv_'' (CHR ''a'')"
definition sample_agent_id :: string where "sample_agent_id = sample_id ''agt_'' (CHR ''a'')"
definition sample_key :: "nat \<Rightarrow> string" where "sample_key n = sample_id ''key_'' (digit_chars ! n)"
definition sample_master :: bytes where "sample_master = replicate 32 1"

definition sample_server :: server_row where
  "sample_server =
     \<lparr>sv_id = sample_server_id, sv_organization_id = sample_org, sv_name = ''main'', sv_environment = ''production'',
      sv_state = State_unknown, sv_health = Health_unknown, sv_connected_at = None, sv_last_heartbeat_at = None,
      sv_last_error = None, sv_last_error_at = None, sv_agent_version = None, sv_protocol_version = None,
      sv_uptime_seconds = None, sv_players_online = None, sv_max_players = None, sv_fxserver_version = None,
      sv_onesync = None, sv_queue_size = None, sv_config_version = 0, sv_remote_config = JObj [],
      sv_fingerprint = None, sv_updated_at = 0, sv_created_at = 0, sv_deleted_at = None\<rparr>"

definition sample_random :: "nat \<Rightarrow> issue_random" where
  "sample_random n = \<lparr>ir_keyId = sample_key n, ir_random36 = replicate 36 (of_nat n), ir_iv = replicate 12 7\<rparr>"

definition sample_input :: issue_input where
  "sample_input = \<lparr>is_organizationId = sample_org, is_serverId = sample_server_id, is_agentId = sample_agent_id,
     is_createdBy = None, is_supersedesKeyId = None, is_status = None\<rparr>"

definition sample_issued :: "(string \<times> string) result \<times> db" where
  "sample_issued = issue sample_crypto sample_master (sample_random 0) no_faults sample_input
     (empty_db\<lparr>servers := [sample_server]\<rparr>)"

definition sample_db :: db where
  "sample_db = snd sample_issued"

definition sample_secret :: string where
  "sample_secret = newAgentSecret (replicate 36 0)"

definition sample_current :: resolved_credential where
  "sample_current = \<lparr>rc_keyId = sample_key 0, rc_organizationId = sample_org, rc_serverId = sample_server_id,
     rc_agentId = sample_agent_id, rc_secret = sample_secret, rc_status = Cred_active\<rparr>"

lemma sample_org_ok: "org_id_ok sample_org"
  by code_simp

lemma sample_issued_ok: "fst sample_issued = Inr (sample_key 0, sample_secret)"
  by code_simp

lemma sample_resolve: "resolve sample_crypto sample_master 5 no_faults sample_agent_id (sample_key 0) sample_db
    = Inr (Some sample_current)"
  by code_simp

lemma sample_inv: "credentials_inv sample_db"
  by code_simp

lemma sample_row: "\<exists>r \<in> set (credentials sample_db). cr_organization_id r = sample_org \<and> cr_key_id r = sample_key 0"
  by code_simp

definition sample_begin :: "(string \<times> string) result \<times> db" where
  "sample_begin = beginRotation sample_crypto sample_master (sample_random 1) no_faults sample_current sample_db"

lemma sample_begin_ok: "sample_begin = (Inr (sample_key 1, newAgentSecret (replicate 36 1)), snd sample_begin)"
proof -
  have "fst sample_begin = Inr (sample_key 1, newAgentSecret (replicate 36 1))" by code_simp
  then show ?thesis by (metis prod.collapse)
qed

definition sample_commit :: "unit result \<times> db" where
  "sample_commit = commitRotation sample_org (sample_key 1) 5 no_faults (snd sample_begin)"

lemma sample_commit_ok: "sample_commit = (Inr (), snd sample_commit)"
proof -
  have "fst sample_commit = Inr ()" by code_simp
  then show ?thesis by (metis prod.collapse)
qed

theorem rotation_never_locks_out_witness:
  "resolve sample_crypto sample_master 5 no_faults sample_agent_id (sample_key 1) (snd sample_commit) =
     Inr (Some (sample_current\<lparr>rc_keyId := sample_key 1, rc_secret := newAgentSecret (replicate 36 1)\<rparr>)) \<and>
   resolve sample_crypto sample_master 5 no_faults sample_agent_id (sample_key 0) (snd sample_commit) = Inr None"
proof -
  have iv: "length (ir_iv (sample_random 1)) = gcm_iv_bytes" by (simp add: sample_random_def gcm_iv_bytes_def)
  have m: "commitRotation (rc_organizationId sample_current) (sample_key 1) 5 no_faults (snd sample_begin)
      = (Inr (), snd sample_commit)"
    using sample_commit_ok by (simp add: sample_commit_def sample_current_def)
  have "beginRotation sample_crypto sample_master (sample_random 1) no_faults sample_current sample_db =
      (Inr (sample_key 1, newAgentSecret (replicate 36 1)), snd sample_begin)"
    using sample_begin_ok by (simp add: sample_begin_def)
  from rotation_never_locks_out [OF sample_crypto_laws(1) iv sample_inv sample_resolve this m]
  show ?thesis by (simp add: sample_current_def)
qed

theorem revoked_never_resolves_witness:
  "\<exists>d1. revoke sample_org (sample_key 0) None ''leaked'' 5 no_faults sample_db = (Inr (), d1) \<and>
     (\<forall>cr. resolve sample_crypto sample_master 6 no_faults sample_agent_id (sample_key 0) d1 \<noteq> Inr (Some cr))"
proof -
  have "fst (revoke sample_org (sample_key 0) None ''leaked'' 5 no_faults sample_db) = Inr ()" by code_simp
  then obtain d1 where r: "revoke sample_org (sample_key 0) None ''leaked'' 5 no_faults sample_db = (Inr (), d1)"
    by (metis prod.collapse)
  from revoked_never_resolves [OF sample_inv sample_row r rtranclp.rtrancl_refl] r show ?thesis by blast
qed

theorem one_active_credential_witness: "credentials_inv (snd sample_begin)"
proof -
  have "cred_step sample_crypto sample_master sample_db (snd sample_begin)"
    unfolding sample_begin_def beginRotation_def by (rule cred_step.Issue) simp
  from one_active_credential [OF r_into_rtranclp [of "cred_step sample_crypto sample_master", OF this] sample_inv]
  show ?thesis .
qed

end
