(* ===== verification/Protocol.thy ===== *)
theory Protocol
  imports Crypto
begin

text \<open>
  \<open>apps/api/src/agent-gateway/protocol.ts\<close>: the strings an agent and the platform sign, the codes
  of errors, and the constants of the wire contract. The lemmas show that the two canonical
  strings determine the parts they are built from and never coincide.
\<close>

(* src agent-gateway/protocol.ts:14 PROTOCOL_VERSION *)
definition protocol_version :: int where "protocol_version = 1"
(* src agent-gateway/protocol.ts:15 MIN_AGENT_PROTOCOL *)
definition min_agent_protocol :: int where "min_agent_protocol = 1"

(* src agent-gateway/protocol.ts:18 EMPTY_BODY_HASH *)
definition empty_body_hash :: "crypto \<Rightarrow> string" where
  "empty_body_hash c = sha256Hex c []"

definition LF :: char where "LF = CHR 0x0A"

(* src agent-gateway/protocol.ts:55-68 CanonicalRequestParts *)
record canonical_request_parts =
  q_method :: string
  q_path :: string
  q_query :: string
  q_agentId :: string
  q_serverId :: string
  q_keyId :: string
  q_timestamp :: string
  q_nonce :: string
  q_bodyHash :: string

definition request_fields :: "canonical_request_parts \<Rightarrow> string list" where
  "request_fields p =
     [''ZSHIELD-AGENT-V'' @ string_of_int protocol_version, to_upper (q_method p), q_path p, q_query p,
      q_agentId p, q_serverId p, q_keyId p, q_timestamp p, q_nonce p, q_bodyHash p]"

(* src agent-gateway/protocol.ts:76-89 canonicalRequest *)
definition canonicalRequest :: "canonical_request_parts \<Rightarrow> string" where
  "canonicalRequest p = join_with [LF] (request_fields p)"

(* src agent-gateway/protocol.ts:91-98 CanonicalResponseParts *)
record canonical_response_parts =
  s_status :: int
  s_requestId :: string
  s_timestamp :: int
  s_nonce :: string
  s_bodyHash :: string

definition response_fields :: "canonical_response_parts \<Rightarrow> string list" where
  "response_fields p =
     [''ZSHIELD-PLATFORM-V'' @ string_of_int protocol_version, string_of_int (s_status p), s_requestId p,
      string_of_int (s_timestamp p), s_nonce p, s_bodyHash p]"

(* src agent-gateway/protocol.ts:100-109 canonicalResponse *)
definition canonicalResponse :: "canonical_response_parts \<Rightarrow> string" where
  "canonicalResponse p = join_with [LF] (response_fields p)"

(* src agent-gateway/protocol.ts:121-133 AGENT_ERROR *)
datatype agent_error_code =
    E_VALIDATION
  | E_AUTH_CLOCK_SKEW
  | E_AUTH_REPLAY
  | E_AUTH_INVALID_SIGNATURE
  | E_AUTH_CREDENTIAL_REVOKED
  | E_PROTOCOL_UNSUPPORTED
  | E_PAYLOAD_TOO_LARGE
  | E_RATE_LIMITED
  | E_INTERNAL

(* src agent-gateway/protocol.ts:136 MAX_BODY_BYTES *)
definition max_body_bytes :: nat where "max_body_bytes = 262144"

text \<open>The bounds of the remote configuration, as pairs of the least and the greatest value.\<close>

(* src agent-gateway/protocol.ts:139-144 REMOTE_CONFIG_BOUNDS *)
definition remote_config_bounds :: "string \<Rightarrow> (int \<times> int) option" where
  "remote_config_bounds k =
     map_of [(''heartbeat_interval'', (15, 900)), (''telemetry_interval'', (30, 3600)),
             (''alert_batch_size'', (1, 200)), (''alert_flush_interval'', (1, 300))] k"

(* src agent-gateway/protocol.ts:147-164 COMMAND_TYPES *)
datatype command_type =
    Ping
  | Request_status
  | Request_health_check
  | Refresh_configuration
  | Reload_safe_configuration
  | Flush_queue
  | Rotate_credential
  | Spectate_request
  | Spectate_stop
  | Capture_request

(* src agent-gateway/protocol.ts:169 MAX_COMMANDS_PER_POLL *)
definition max_commands_per_poll :: int where "max_commands_per_poll = 25"

section \<open>The canonical strings determine their parts\<close>

lemma LF_notin_number: "LF \<notin> set (string_of_int i)"
  by (rule string_of_int_notin) (simp_all add: LF_def digit_chars_def)

lemma LF_notin_upper: "LF \<notin> set s \<Longrightarrow> LF \<notin> set (to_upper s)"
proof -
  have "LF \<notin> set upper_letters" by (simp add: LF_def upper_letters_def)
  moreover have "x \<in> set upper_letters" if "map_of (zip lower_letters upper_letters) c = Some x" for c x
    using that by (auto dest: map_of_SomeD set_zip_rightD)
  ultimately show "LF \<notin> set s \<Longrightarrow> LF \<notin> set (to_upper s)"
    by (auto simp: to_upper_def split: option.splits)
qed

text \<open>A request as HTTP delivers it: no part holds a line feed.\<close>

definition request_clean :: "canonical_request_parts \<Rightarrow> bool" where
  "request_clean p \<longleftrightarrow> list_all (\<lambda>s. LF \<notin> set s)
     [q_method p, q_path p, q_query p, q_agentId p, q_serverId p, q_keyId p, q_timestamp p, q_nonce p, q_bodyHash p]"

definition response_clean :: "canonical_response_parts \<Rightarrow> bool" where
  "response_clean p \<longleftrightarrow> list_all (\<lambda>s. LF \<notin> set s) [s_requestId p, s_nonce p, s_bodyHash p]"

lemma version_prefix_LF: "LF \<notin> set (''ZSHIELD-AGENT-V'' @ string_of_int protocol_version)"
  "LF \<notin> set (''ZSHIELD-PLATFORM-V'' @ string_of_int protocol_version)"
  using LF_notin_number [of protocol_version] by (simp_all add: LF_def)

lemma request_fields_nonempty: "request_fields p \<noteq> []"
  by (simp add: request_fields_def)

lemma request_fields_clean: "request_clean p \<Longrightarrow> \<forall>f \<in> set (request_fields p). LF \<notin> set f"
  using version_prefix_LF(1) LF_notin_upper [of "q_method p"]
  unfolding request_clean_def request_fields_def list.set list.pred_inject by blast

lemma response_fields_nonempty: "response_fields p \<noteq> []"
  by (simp add: response_fields_def)

lemma response_fields_clean: "response_clean p \<Longrightarrow> \<forall>f \<in> set (response_fields p). LF \<notin> set f"
  using version_prefix_LF(2) LF_notin_number
  unfolding response_clean_def response_fields_def list.set list.pred_inject by blast

text \<open>Two requests with the same canonical string agree in every signed part (the method up to
  case): a signature over one endpoint, query, identity, time, nonce or body is not one over another.\<close>

theorem canonicalRequest_determines:
  assumes "canonicalRequest p = canonicalRequest q" and "request_clean p" and "request_clean q"
  shows "to_upper (q_method p) = to_upper (q_method q) \<and> q_path p = q_path q \<and> q_query p = q_query q \<and>
    q_agentId p = q_agentId q \<and> q_serverId p = q_serverId q \<and> q_keyId p = q_keyId q \<and>
    q_timestamp p = q_timestamp q \<and> q_nonce p = q_nonce q \<and> q_bodyHash p = q_bodyHash q"
proof -
  have "request_fields p = request_fields q"
    using assms(1) unfolding canonicalRequest_def
    by (rule join_with_inject) (rule request_fields_nonempty request_fields_clean assms(2,3))+
  then show ?thesis by (simp add: request_fields_def)
qed

text \<open>Two responses with the same canonical string are the same response, part by part.\<close>

theorem canonicalResponse_determines:
  assumes "canonicalResponse p = canonicalResponse q" and "response_clean p" and "response_clean q"
  shows "s_status p = s_status q \<and> s_requestId p = s_requestId q \<and> s_timestamp p = s_timestamp q \<and>
    s_nonce p = s_nonce q \<and> s_bodyHash p = s_bodyHash q"
proof -
  have "response_fields p = response_fields q"
    using assms(1) unfolding canonicalResponse_def
    by (rule join_with_inject) (rule response_fields_nonempty response_fields_clean assms(2,3))+
  then show ?thesis by (simp add: response_fields_def)
qed

text \<open>No string is both a canonical request and a canonical response, whatever the parts hold: a
  signature of the platform never passes for one of an agent.\<close>

theorem request_response_disjoint: "canonicalRequest p \<noteq> canonicalResponse q"
proof
  assume "canonicalRequest p = canonicalResponse q"
  then have "canonicalRequest p ! 8 = canonicalResponse q ! 8" by simp
  then show False by (simp add: canonicalRequest_def canonicalResponse_def request_fields_def response_fields_def)
qed

end
