(* ===== verification/Authenticate.thy ===== *)
theory Authenticate
  imports Credentials Protocol Replay
begin

text \<open>
  \<open>apps/api/src/agent-gateway/authenticate.ts\<close>: the pipeline every request of an agent goes
  through. What it calls (the credential store, the rate limiter, the guard against replays, the
  clock) are the operations of a record over an abstract world; \<open>gateway_deps\<close> builds that record
  from the models of those components. The contract between the two is the locale
  \<open>auth_contract\<close>.
\<close>

section \<open>Requests\<close>

text \<open>A header is absent, has one value, or was repeated.\<close>

datatype header_value = H_absent | H_one string | H_many "string list"

record agent_request =
  aq_headers :: "string \<Rightarrow> header_value"
  aq_method :: string
  aq_raw_url :: "string option"
  aq_url :: string

(* src agent-gateway/protocol.ts:20-30 HEADER *)
definition header_name :: "string \<Rightarrow> string" where
  "header_name n = ''x-zshield-'' @ n"

(* src agent-gateway/authenticate.ts:61-67 header *)
definition get_header :: "agent_request \<Rightarrow> string \<Rightarrow> string option" where
  "get_header q n = (case aq_headers q n of H_one v \<Rightarrow> Some v | H_many vs \<Rightarrow> None | H_absent \<Rightarrow> None)"

definition truthy :: "string option \<Rightarrow> bool" where
  "truthy v = (case v of None \<Rightarrow> False | Some s \<Rightarrow> s \<noteq> [])"

(* src agent-gateway/authenticate.ts:70-70 ID_PATTERN *)
definition id_pattern :: "string \<Rightarrow> bool" where "id_pattern s = matches_class id_chars 1 64 s"
(* src agent-gateway/authenticate.ts:71-71 NONCE_PATTERN *)
definition nonce_pattern :: "string \<Rightarrow> bool" where "nonce_pattern s = matches_class hex_chars 16 128 s"
(* src agent-gateway/authenticate.ts:72-72 SIGNATURE_PATTERN *)
definition signature_pattern :: "string \<Rightarrow> bool" where "signature_pattern s = matches_class hex_chars 64 64 s"

(* src agent-gateway/authenticate.ts:26-37 AgentAuthContext *)
record agent_auth_context =
  cx_credential :: resolved_credential
  cx_agentId :: string
  cx_serverId :: string
  cx_keyId :: string
  cx_requestId :: string
  cx_nonce :: string
  cx_timestamp :: int
  cx_agentVersion :: string
  cx_protocolVersion :: int
  cx_rawBody :: bytes

text \<open>\<open>AgentAuthError\<close> with its status, code, public message and delay; any other exception passes through.\<close>

(* src agent-gateway/authenticate.ts:39-59 AgentAuthError *)
datatype auth_failure =
    Agent_auth_error int agent_error_code string "int option"
  | Other_exception exn

(* src agent-gateway/authenticate.ts:74-80 AuthenticatorDeps *)
record 'w auth_deps =
  ad_consume :: "string \<Rightarrow> 'w \<Rightarrow> rate_limit_decision \<times> 'w"
  ad_resolve :: "string \<Rightarrow> string \<Rightarrow> 'w \<Rightarrow> resolved_credential option result \<times> 'w"
  ad_now :: int
  ad_claim :: "string \<Rightarrow> string \<Rightarrow> string \<Rightarrow> 'w \<Rightarrow> bool option \<times> 'w"
  ad_clockSkewSeconds :: int

section \<open>The pipeline\<close>

(* src agent-gateway/authenticate.ts:186-190 authenticate/path *)
definition request_path :: "agent_request \<Rightarrow> string" where
  "request_path q =
     (case aq_raw_url q of Some u \<Rightarrow> hd (split_on (CHR ''?'') u) | None \<Rightarrow> hd (split_on (CHR ''?'') (aq_url q)))"

definition after_first :: "char \<Rightarrow> string \<Rightarrow> string" where
  "after_first c s = drop 1 (dropWhile (\<lambda>x. x \<noteq> c) s)"

(* src agent-gateway/authenticate.ts:187-190 authenticate/query *)
definition request_query :: "agent_request \<Rightarrow> string" where
  "request_query q = after_first (CHR ''?'') (coalesce_default (aq_raw_url q) [])"

text \<open>The values of the signed headers once they have been checked (step 1).\<close>

record signed_headers =
  sh_agentId :: string
  sh_serverId :: string
  sh_keyId :: string
  sh_nonce :: string
  sh_signature :: string
  sh_timestamp :: int
  sh_protocolVersion :: int

(* src agent-gateway/authenticate.ts:100-128 authenticate/headers *)
definition check_headers :: "js_lib \<Rightarrow> agent_request \<Rightarrow> auth_failure + signed_headers" where
  "check_headers js q =
     (let agentId = get_header q (header_name ''agent-id'');
          serverId = get_header q (header_name ''server-id'');
          keyId = get_header q (header_name ''key-id'');
          timestampRaw = get_header q (header_name ''timestamp'');
          nonce = get_header q (header_name ''nonce'');
          signature = get_header q (header_name ''signature'');
          protocolRaw = get_header q (header_name ''protocol'')
      in if \<not> truthy agentId \<or> \<not> truthy serverId \<or> \<not> truthy keyId \<or> \<not> truthy timestampRaw \<or>
            \<not> truthy nonce \<or> \<not> truthy signature
         then Inl (Agent_auth_error 401 E_AUTH_INVALID_SIGNATURE ''signed headers missing'' None)
         else if \<not> id_pattern (the agentId) \<or> \<not> id_pattern (the serverId) \<or> \<not> id_pattern (the keyId)
         then Inl (Agent_auth_error 401 E_AUTH_INVALID_SIGNATURE ''malformed identifiers'' None)
         else if \<not> nonce_pattern (the nonce) \<or> \<not> signature_pattern (the signature)
         then Inl (Agent_auth_error 401 E_AUTH_INVALID_SIGNATURE ''malformed nonce or signature'' None)
         else (case js_integer (number_other js) (the timestampRaw) of
             None \<Rightarrow> Inl (Agent_auth_error 401 E_AUTH_CLOCK_SKEW ''malformed timestamp'' None)
           | Some timestamp \<Rightarrow>
               if timestamp \<le> 0 then Inl (Agent_auth_error 401 E_AUTH_CLOCK_SKEW ''malformed timestamp'' None)
               else (case js_integer (number_other js) (coalesce_default protocolRaw ''0'') of
                   None \<Rightarrow> Inl (Agent_auth_error 400 E_VALIDATION ''malformed protocol version'' None)
                 | Some protocolVersion \<Rightarrow>
                     if protocolVersion < 1 then Inl (Agent_auth_error 400 E_VALIDATION ''malformed protocol version'' None)
                     else Inr \<lparr>sh_agentId = the agentId, sh_serverId = the serverId, sh_keyId = the keyId,
                               sh_nonce = the nonce, sh_signature = the signature,
                               sh_timestamp = timestamp, sh_protocolVersion = protocolVersion\<rparr>)))"

(* src agent-gateway/authenticate.ts:192-202 authenticate/canonical *)
definition signed_text :: "crypto \<Rightarrow> agent_request \<Rightarrow> bytes \<Rightarrow> signed_headers \<Rightarrow> canonical_request_parts" where
  "signed_text c q rawBody h =
     \<lparr>q_method = aq_method q, q_path = request_path q, q_query = request_query q,
      q_agentId = sh_agentId h, q_serverId = sh_serverId h, q_keyId = sh_keyId h,
      q_timestamp = string_of_int (sh_timestamp h), q_nonce = sh_nonce h,
      q_bodyHash = sha256Hex c rawBody\<rparr>"

(* src agent-gateway/authenticate.ts:167-183 authenticate/nonce *)
definition claim_nonce :: "'w auth_deps \<Rightarrow> signed_headers \<Rightarrow> 'w \<Rightarrow> (auth_failure + unit) \<times> 'w" where
  "claim_nonce deps h w =
     (case ad_claim deps (sh_agentId h) (sh_keyId h) (sh_nonce h) w of
        (fresh, w') \<Rightarrow>
          (case fresh of
             None \<Rightarrow> Inl (Agent_auth_error 503 E_INTERNAL ''replay protection unavailable'' (Some 15))
           | Some ok \<Rightarrow> if \<not> ok then Inl (Agent_auth_error 401 E_AUTH_REPLAY ''nonce already used'' None) else Inr (), w'))"

(* src agent-gateway/authenticate.ts:204-222 authenticate/signature *)
definition check_signature :: "crypto \<Rightarrow> agent_request \<Rightarrow> bytes \<Rightarrow> signed_headers \<Rightarrow> resolved_credential \<Rightarrow>
    auth_failure + agent_auth_context" where
  "check_signature c q rawBody h credential =
     (let expected = hmacSha256Hex c (rc_secret credential) (canonicalRequest (signed_text c q rawBody h))
      in if \<not> constantTimeEqual c (sh_signature h) expected
         then Inl (Agent_auth_error 401 E_AUTH_INVALID_SIGNATURE ''signature mismatch'' None)
         else Inr \<lparr>cx_credential = credential, cx_agentId = sh_agentId h, cx_serverId = sh_serverId h,
                cx_keyId = sh_keyId h,
                cx_requestId = coalesce_default (get_header q (header_name ''request-id'')) [],
                cx_nonce = sh_nonce h, cx_timestamp = sh_timestamp h,
                cx_agentVersion = coalesce_default (get_header q (header_name ''agent-version'')) ''unknown'',
                cx_protocolVersion = sh_protocolVersion h, cx_rawBody = rawBody\<rparr>)"

(* src agent-gateway/authenticate.ts:153-165 authenticate/identity *)
definition check_identity :: "'w auth_deps \<Rightarrow> signed_headers \<Rightarrow> resolved_credential \<Rightarrow> auth_failure option" where
  "check_identity deps h credential =
     (if rc_serverId credential \<noteq> sh_serverId h then Some (Agent_auth_error 401 E_AUTH_INVALID_SIGNATURE ''identity mismatch'' None)
      else if ad_clockSkewSeconds deps < \<bar>ad_now deps - sh_timestamp h\<bar>
      then Some (Agent_auth_error 401 E_AUTH_CLOCK_SKEW ''timestamp outside accepted window'' None)
      else None)"

(* src agent-gateway/authenticate.ts:98-223 authenticate *)
definition authenticate :: "'w auth_deps \<Rightarrow> js_lib \<Rightarrow> crypto \<Rightarrow> agent_request \<Rightarrow> bytes \<Rightarrow> 'w \<Rightarrow>
    (auth_failure + agent_auth_context) \<times> 'w" where
  "authenticate deps js c q rawBody w =
     (case check_headers js q of
        Inl e \<Rightarrow> (Inl e, w)
      | Inr h \<Rightarrow>
        (case ad_consume deps (sh_agentId h) w of (rate, w1) \<Rightarrow>
         if \<not> rl_allowed rate
         then (Inl (Agent_auth_error 429 E_RATE_LIMITED ''rate limit exceeded'' (Some (rl_retryAfterSeconds rate))), w1)
         else (case ad_resolve deps (sh_agentId h) (sh_keyId h) w1 of
             (Inl e, w2) \<Rightarrow> (Inl (Other_exception e), w2)
           | (Inr None, w2) \<Rightarrow> (Inl (Agent_auth_error 401 E_AUTH_CREDENTIAL_REVOKED ''credential not usable'' None), w2)
           | (Inr (Some credential), w2) \<Rightarrow>
               (case check_identity deps h credential of
                  Some e \<Rightarrow> (Inl e, w2)
                | None \<Rightarrow>
                    (case claim_nonce deps h w2 of
                       (Inl e, w3) \<Rightarrow> (Inl e, w3)
                     | (Inr _, w3) \<Rightarrow> (check_signature c q rawBody h credential, w3))))))"

text \<open>The steps an accepted request has passed, as one fact per step.\<close>

lemma authenticate_accepted:
  assumes "authenticate deps js c q body w = (Inr ctx, w')"
  obtains h rate w1 w2 where
    "check_headers js q = Inr h"
    "ad_consume deps (sh_agentId h) w = (rate, w1)" "rl_allowed rate"
    "ad_resolve deps (sh_agentId h) (sh_keyId h) w1 = (Inr (Some (cx_credential ctx)), w2)"
    "rc_serverId (cx_credential ctx) = sh_serverId h"
    "\<bar>ad_now deps - sh_timestamp h\<bar> \<le> ad_clockSkewSeconds deps"
    "ad_claim deps (sh_agentId h) (sh_keyId h) (sh_nonce h) w2 = (Some True, w')"
    "constantTimeEqual c (sh_signature h)
       (hmacSha256Hex c (rc_secret (cx_credential ctx)) (canonicalRequest (signed_text c q body h)))"
    "cx_agentId ctx = sh_agentId h" "cx_serverId ctx = sh_serverId h" "cx_keyId ctx = sh_keyId h"
    "cx_nonce ctx = sh_nonce h" "cx_timestamp ctx = sh_timestamp h" "cx_rawBody ctx = body"
proof -
  obtain h where h: "check_headers js q = Inr h"
    using assms by (cases "check_headers js q") (auto simp: authenticate_def)
  obtain rate w1 where c1: "ad_consume deps (sh_agentId h) w = (rate, w1)" by fastforce
  obtain res w2 where c2: "ad_resolve deps (sh_agentId h) (sh_keyId h) w1 = (res, w2)" by fastforce
  from assms have al: "rl_allowed rate" by (auto simp: authenticate_def h c1 split: if_splits)
  with assms obtain cr where res: "res = Inr (Some cr)"
    by (auto simp: authenticate_def h c1 c2 split: sum.splits option.splits)
  with assms al have idn: "check_identity deps h cr = None"
    by (auto simp: authenticate_def h c1 c2 split: option.splits)
  with assms al res obtain u where cl: "claim_nonce deps h w2 = (Inr u, w')"
    and sg: "check_signature c q body h cr = Inr ctx"
    by (auto simp: authenticate_def h c1 c2 split: sum.splits prod.splits)
  have claimed: "ad_claim deps (sh_agentId h) (sh_keyId h) (sh_nonce h) w2 = (Some True, w')"
    using cl by (auto simp: claim_nonce_def split: prod.splits option.splits if_splits)
  have ok: "constantTimeEqual c (sh_signature h)
       (hmacSha256Hex c (rc_secret cr) (canonicalRequest (signed_text c q body h)))"
    and ctx: "cx_credential ctx = cr" "cx_agentId ctx = sh_agentId h" "cx_serverId ctx = sh_serverId h"
      "cx_keyId ctx = sh_keyId h" "cx_nonce ctx = sh_nonce h" "cx_timestamp ctx = sh_timestamp h" "cx_rawBody ctx = body"
    using sg by (auto simp: check_signature_def Let_def split: if_splits)
  have "rc_serverId cr = sh_serverId h" "\<bar>ad_now deps - sh_timestamp h\<bar> \<le> ad_clockSkewSeconds deps"
    using idn by (auto simp: check_identity_def split: if_splits)
  with h c1 c2 al res claimed ok ctx show ?thesis by (intro that [of h rate w1 w2]) simp_all
qed

lemma check_headers_patterns:
  assumes "check_headers js q = Inr h"
  shows "id_pattern (sh_agentId h) \<and> id_pattern (sh_serverId h) \<and> id_pattern (sh_keyId h) \<and>
    nonce_pattern (sh_nonce h) \<and> signature_pattern (sh_signature h) \<and> 0 < sh_timestamp h \<and> 1 \<le> sh_protocolVersion h"
  using assms
  by (auto simp: check_headers_def Let_def split: if_splits option.splits)

text \<open>The world a request leaves is the one after its last call.\<close>

lemma authenticate_world:
  assumes "check_headers js q = Inr h"
  shows "snd (authenticate deps js c q body w) \<in>
    (let w1 = snd (ad_consume deps (sh_agentId h) w);
         w2 = snd (ad_resolve deps (sh_agentId h) (sh_keyId h) w1);
         w3 = snd (ad_claim deps (sh_agentId h) (sh_keyId h) (sh_nonce h) w2) in {w1, w2, w3})"
  by (auto simp: authenticate_def assms claim_nonce_def Let_def split: prod.split sum.split option.split)

section \<open>The contract of the collaborators\<close>

text \<open>
  \<open>view\<close> is the part of the world the pipeline must not change (the database); the store only ever
  returns a credential that carries the identifiers it was asked for and is usable.
\<close>

locale auth_contract =
  fixes deps :: "'w auth_deps" and view :: "'w \<Rightarrow> 'v"
  assumes consume_view: "view (snd (ad_consume deps a w)) = view w"
    and resolve_view: "view (snd (ad_resolve deps a k w)) = view w"
    and claim_view: "view (snd (ad_claim deps a k n w)) = view w"
    and resolve_ids: "fst (ad_resolve deps a k w) = Inr (Some cr) \<Longrightarrow>
      rc_agentId cr = a \<and> rc_keyId cr = k \<and> rc_status cr \<in> {Cred_active, Cred_pending_rotation}"
begin

lemma authenticate_view: "view (snd (authenticate deps js c q body w)) = view w"
proof (cases "check_headers js q")
  case (Inl e)
  then show ?thesis by (simp add: authenticate_def)
next
  case (Inr h)
  from authenticate_world [OF Inr, of deps c body w] show ?thesis
    by (auto simp: Let_def consume_view resolve_view claim_view)
qed

text \<open>An accepted request carries a coherent identity: headers, credential and context agree.\<close>

lemma authentic_identity:
  assumes "authenticate deps js c q body w = (Inr ctx, w')"
  shows "rc_agentId (cx_credential ctx) = cx_agentId ctx \<and> rc_keyId (cx_credential ctx) = cx_keyId ctx \<and>
    rc_serverId (cx_credential ctx) = cx_serverId ctx \<and>
    rc_status (cx_credential ctx) \<in> {Cred_active, Cred_pending_rotation}"
proof -
  from assms obtain h :: signed_headers and w1 w2 where
    r: "ad_resolve deps (sh_agentId h) (sh_keyId h) w1 = (Inr (Some (cx_credential ctx)), w2)"
    and "rc_serverId (cx_credential ctx) = sh_serverId h"
    and "cx_agentId ctx = sh_agentId h" "cx_serverId ctx = sh_serverId h" "cx_keyId ctx = sh_keyId h"
    by (rule authenticate_accepted) blast
  moreover have "fst (ad_resolve deps (sh_agentId h) (sh_keyId h) w1) = Inr (Some (cx_credential ctx))"
    by (simp add: r)
  ultimately show ?thesis using resolve_ids by metis
qed

end

section \<open>The pipeline over the models of its collaborators\<close>

record 's gw_world =
  gw_db :: db
  gw_redis :: 's

text \<open>The instants at which one request reads the clock, in order.\<close>

record auth_clock =
  ck_rate :: time_ms
  ck_rate_end :: time_ms
  ck_resolve :: time_ms
  ck_skew :: time_ms
  ck_claim :: time_ms

definition clock_ordered :: "auth_clock \<Rightarrow> bool" where
  "clock_ordered k = (ck_rate k \<le> ck_rate_end k \<and> ck_rate_end k \<le> ck_resolve k \<and>
     ck_resolve k \<le> ck_skew k \<and> ck_skew k \<le> ck_claim k)"

record gateway_config =
  gc_key :: bytes
  gc_perMinute :: int
  gc_ttlSeconds :: int
  gc_skewSeconds :: int

(* src agent-gateway/authenticate.ts:82-91 AgentAuthenticator/now *)
definition gateway_deps :: "crypto \<Rightarrow> 's redis \<Rightarrow> gateway_config \<Rightarrow> auth_clock \<Rightarrow> faults \<Rightarrow> 's gw_world auth_deps" where
  "gateway_deps c rd g k f =
     \<lparr>ad_consume = (\<lambda>a w. case consume rd (gc_perMinute g) (ck_rate k) (ck_rate_end k) (gw_redis w) a of
          (r, s) \<Rightarrow> (r, w\<lparr>gw_redis := s\<rparr>)),
      ad_resolve = (\<lambda>a kid w. (resolve c (gc_key g) (ck_resolve k) f a kid (gw_db w), w)),
      ad_now = ck_skew k div 1000,
      ad_claim = (\<lambda>a kid n w. case claim rd (gc_ttlSeconds g) (ck_claim k) (gw_redis w) a kid n of
          (r, s) \<Rightarrow> (r, w\<lparr>gw_redis := s\<rparr>)),
      ad_clockSkewSeconds = gc_skewSeconds g\<rparr>"

interpretation gw: auth_contract "gateway_deps c rd g k f" gw_db for c rd g k f
proof
  fix a kid n and w :: "'a gw_world" and cr
  show "gw_db (snd (ad_consume (gateway_deps c rd g k f) a w)) = gw_db w"
    by (simp add: gateway_deps_def split: prod.split)
  show "gw_db (snd (ad_resolve (gateway_deps c rd g k f) a kid w)) = gw_db w"
    by (simp add: gateway_deps_def)
  show "gw_db (snd (ad_claim (gateway_deps c rd g k f) a kid n w)) = gw_db w"
    by (simp add: gateway_deps_def split: prod.split)
  assume "fst (ad_resolve (gateway_deps c rd g k f) a kid w) = Inr (Some cr)"
  then have "resolve c (gc_key g) (ck_resolve k) f a kid (gw_db w) = Inr (Some cr)" by (simp add: gateway_deps_def)
  then show "rc_agentId cr = a \<and> rc_keyId cr = kid \<and> rc_status cr \<in> {Cred_active, Cred_pending_rotation}"
    by (rule resolve_SomeD) (auto simp: usable_def)
qed

text \<open>One request through the gateway's own collaborators.\<close>

definition gateway_auth :: "js_lib \<Rightarrow> crypto \<Rightarrow> 's redis \<Rightarrow> gateway_config \<Rightarrow> auth_clock \<Rightarrow> faults \<Rightarrow>
    agent_request \<Rightarrow> bytes \<Rightarrow> 's gw_world \<Rightarrow> (auth_failure + agent_auth_context) \<times> 's gw_world" where
  "gateway_auth js c rd g k f q body w = authenticate (gateway_deps c rd g k f) js c q body w"

text \<open>C1: A request is accepted only if a credential row for exactly its agent and key is usable and
  not expired, binds the server it names, the clock is within the window, its nonce was just
  granted, and its signature has the digest of the HMAC, under that row's secret, of the string
  built from this method, path, query, identity, time, nonce and raw body. The database is untouched.\<close>

theorem gateway_auth_sound:
  assumes "gateway_auth js c rd g k f q body w = (Inr ctx, w')"
  shows "gw_db w' = gw_db w \<and> cx_rawBody ctx = body \<and>
    (\<exists>row \<in> set (credentials (gw_db w)). usable row \<and> cr_agent_id row = cx_agentId ctx \<and>
       cr_key_id row = cx_keyId ctx \<and> cr_server_id row = cx_serverId ctx \<and>
       cr_organization_id row = rc_organizationId (cx_credential ctx) \<and>
       (\<forall>t. cr_expires_at row = Some t \<longrightarrow> ck_resolve k < t) \<and>
       decryptSecret c (cr_secret_encrypted row) (gc_key g) = Inr (rc_secret (cx_credential ctx))) \<and>
    \<bar>ck_skew k div 1000 - cx_timestamp ctx\<bar> \<le> gc_skewSeconds g \<and>
    (\<exists>s. claim rd (gc_ttlSeconds g) (ck_claim k) s (cx_agentId ctx) (cx_keyId ctx) (cx_nonce ctx) =
           (Some True, gw_redis w')) \<and>
    (\<exists>signature. get_header q (header_name ''signature'') = Some signature \<and>
       constantTimeEqual c signature (hmacSha256Hex c (rc_secret (cx_credential ctx))
         (canonicalRequest \<lparr>q_method = aq_method q, q_path = request_path q, q_query = request_query q,
            q_agentId = cx_agentId ctx, q_serverId = cx_serverId ctx, q_keyId = cx_keyId ctx,
            q_timestamp = string_of_int (cx_timestamp ctx), q_nonce = cx_nonce ctx,
            q_bodyHash = sha256Hex c body\<rparr>)))"
proof -
  let ?deps = "gateway_deps c rd g k f"
  have a: "authenticate ?deps js c q body w = (Inr ctx, w')" using assms by (simp add: gateway_auth_def)
  have db: "gw_db w' = gw_db w" using gw.authenticate_view [of c rd g k f js c q body w] a by simp
  from a obtain h rate w1 w2 where h: "check_headers js q = Inr h"
    and c1: "ad_consume ?deps (sh_agentId h) w = (rate, w1)"
    and c2: "ad_resolve ?deps (sh_agentId h) (sh_keyId h) w1 = (Inr (Some (cx_credential ctx)), w2)"
    and srv: "rc_serverId (cx_credential ctx) = sh_serverId h"
    and skew: "\<bar>ad_now ?deps - sh_timestamp h\<bar> \<le> ad_clockSkewSeconds ?deps"
    and c3: "ad_claim ?deps (sh_agentId h) (sh_keyId h) (sh_nonce h) w2 = (Some True, w')"
    and sig: "constantTimeEqual c (sh_signature h)
       (hmacSha256Hex c (rc_secret (cx_credential ctx)) (canonicalRequest (signed_text c q body h)))"
    and ctx: "cx_agentId ctx = sh_agentId h" "cx_serverId ctx = sh_serverId h" "cx_keyId ctx = sh_keyId h"
      "cx_nonce ctx = sh_nonce h" "cx_timestamp ctx = sh_timestamp h" "cx_rawBody ctx = body"
    by (rule authenticate_accepted)
  have w1: "gw_db w1 = gw_db w" using gw.consume_view [of c rd g k f "sh_agentId h" w] c1 by simp
  have "resolve c (gc_key g) (ck_resolve k) f (sh_agentId h) (sh_keyId h) (gw_db w) = Inr (Some (cx_credential ctx))"
    using c2 w1 by (simp add: gateway_deps_def)
  then obtain row where "row \<in> set (credentials (gw_db w))" "usable row" "cr_key_id row = sh_keyId h"
    "cr_agent_id row = sh_agentId h"
    "decryptSecret c (cr_secret_encrypted row) (gc_key g) = Inr (rc_secret (cx_credential ctx))"
    "rc_serverId (cx_credential ctx) = cr_server_id row"
    "rc_organizationId (cx_credential ctx) = cr_organization_id row"
    "\<forall>t. cr_expires_at row = Some t \<longrightarrow> ck_resolve k < t" by (rule resolve_SomeD)
  moreover have "\<exists>s. claim rd (gc_ttlSeconds g) (ck_claim k) s (sh_agentId h) (sh_keyId h) (sh_nonce h) = (Some True, gw_redis w')"
    using c3 by (auto simp: gateway_deps_def split: prod.splits)
  moreover have "get_header q (header_name ''signature'') = Some (sh_signature h)"
    using h by (auto simp: check_headers_def Let_def truthy_def split: if_splits option.splits)
  ultimately show ?thesis
    using db ctx srv sig skew by (auto simp: signed_text_def gateway_deps_def)
qed

section \<open>Replays\<close>

text \<open>
  The requests of the gateway one after the other, each with its own instants, faults and database
  (anything may have happened to it in between). The result lists what was accepted, with the
  instants of each.
\<close>

record gw_entry =
  ge_clock :: auth_clock
  ge_faults :: faults
  ge_db :: db
  ge_request :: agent_request
  ge_body :: bytes

definition entry_auth :: "js_lib \<Rightarrow> crypto \<Rightarrow> 's redis \<Rightarrow> gateway_config \<Rightarrow> 's \<Rightarrow> gw_entry \<Rightarrow>
    (auth_failure + agent_auth_context) \<times> 's gw_world" where
  "entry_auth js c rd g s e =
     gateway_auth js c rd g (ge_clock e) (ge_faults e) (ge_request e) (ge_body e)
       \<lparr>gw_db = ge_db e, gw_redis = s\<rparr>"

fun gateway_run :: "js_lib \<Rightarrow> crypto \<Rightarrow> 's redis \<Rightarrow> gateway_config \<Rightarrow> 's \<Rightarrow> gw_entry list \<Rightarrow>
    (auth_clock \<times> agent_auth_context) list" where
  "gateway_run js c rd g s [] = []"
| "gateway_run js c rd g s (e # es) =
     (case entry_auth js c rd g s e of
        (Inl _, w) \<Rightarrow> gateway_run js c rd g (gw_redis w) es
      | (Inr ctx, w) \<Rightarrow> (ge_clock e, ctx) # gateway_run js c rd g (gw_redis w) es)"

text \<open>Time does not go back, and a request waits at most \<open>latency\<close> between the check of its clock and its claim.\<close>

definition entries_ordered :: "int \<Rightarrow> gw_entry list \<Rightarrow> bool" where
  "entries_ordered latency es =
     (sorted_wrt (\<lambda>e e'. ck_claim (ge_clock e) \<le> ck_rate (ge_clock e')) es \<and>
      list_all (\<lambda>e. clock_ordered (ge_clock e) \<and> ck_claim (ge_clock e) \<le> ck_skew (ge_clock e) + latency) es)"

lemma colon_free: "CHR '':'' \<notin> set id_chars" "CHR '':'' \<notin> set hex_chars"
  by code_simp+

lemma id_no_colon: "id_pattern s \<Longrightarrow> no_colon s"
  unfolding id_pattern_def no_colon_def using colon_free(1) by (rule matches_class_notin [rotated])

lemma nonce_no_colon: "nonce_pattern s \<Longrightarrow> no_colon s"
  unfolding nonce_pattern_def no_colon_def using colon_free(2) by (rule matches_class_notin [rotated])

lemma gateway_run_entry:
  "(clk, ctx) \<in> set (gateway_run js c rd g s es) \<Longrightarrow>
   \<exists>e s' w. e \<in> set es \<and> clk = ge_clock e \<and> entry_auth js c rd g s' e = (Inr ctx, w)"
proof (induction es arbitrary: s)
  case (Cons e es)
  obtain res w where r: "entry_auth js c rd g s e = (res, w)" by fastforce
  show ?case
  proof (cases "res = Inr ctx \<and> clk = ge_clock e")
    case True
    with r show ?thesis by auto
  next
    case False
    with Cons.prems r have "(clk, ctx) \<in> set (gateway_run js c rd g (gw_redis w) es)" by (cases res) auto
    from Cons.IH [OF this] show ?thesis by auto
  qed
qed simp

lemma entry_auth_keeps:
  assumes laws: "redis_laws rd live" and clk: "clock_ordered (ge_clock e)" and t: "ck_claim (ge_clock e) \<le> t"
    and l: "nonce_key a k n \<in> live s t"
  shows "nonce_key a k n \<in> live (gw_redis (snd (entry_auth js c rd g s e))) t"
proof (cases "check_headers js (ge_request e)")
  case (Inl x)
  then show ?thesis using l by (simp add: entry_auth_def gateway_auth_def authenticate_def)
next
  case (Inr h)
  let ?deps = "gateway_deps c rd g (ge_clock e) (ge_faults e)" and ?w = "\<lparr>gw_db = ge_db e, gw_redis = s\<rparr>"
  define w1 where "w1 = snd (ad_consume ?deps (sh_agentId h) ?w)"
  define w2 where "w2 = snd (ad_resolve ?deps (sh_agentId h) (sh_keyId h) w1)"
  define w3 where "w3 = snd (ad_claim ?deps (sh_agentId h) (sh_keyId h) (sh_nonce h) w2)"
  have t': "ck_rate (ge_clock e) \<le> t" using clk t by (simp add: clock_ordered_def)
  have r1: "gw_redis w1 = snd (consume rd (gc_perMinute g) (ck_rate (ge_clock e)) (ck_rate_end (ge_clock e)) s (sh_agentId h))"
    by (simp add: w1_def gateway_deps_def split: prod.split)
  have 1: "nonce_key a k n \<in> live (gw_redis w1) t"
    unfolding r1 using laws t' l refl by (rule consume_keeps)
  have 2: "gw_redis w2 = gw_redis w1" by (simp add: w2_def gateway_deps_def)
  have r3: "gw_redis w3 = snd (claim rd (gc_ttlSeconds g) (ck_claim (ge_clock e)) (gw_redis w2) (sh_agentId h) (sh_keyId h) (sh_nonce h))"
    by (simp add: w3_def gateway_deps_def split: prod.split)
  have 3: "nonce_key a k n \<in> live (gw_redis w3) t"
    unfolding r3 2 using laws t 1 by (rule claim_keeps)
  have "snd (entry_auth js c rd g s e) \<in> {w1, w2, w3}"
    using authenticate_world [OF Inr, of ?deps c "ge_body e" ?w]
    by (simp add: entry_auth_def gateway_auth_def Let_def w1_def w2_def w3_def)
  with 1 2 3 show ?thesis by auto
qed

lemma entry_auth_accepted:
  assumes laws: "redis_laws rd live" and clk: "clock_ordered (ge_clock e)"
    and a: "entry_auth js c rd g s e = (Inr ctx, w')"
  shows "ck_claim (ge_clock e) \<le> t \<Longrightarrow> t < ck_claim (ge_clock e) + 1000 * gc_ttlSeconds g \<Longrightarrow>
      nonce_key (cx_agentId ctx) (cx_keyId ctx) (cx_nonce ctx) \<in> live (gw_redis w') t"
    and "nonce_key (cx_agentId ctx) (cx_keyId ctx) (cx_nonce ctx) \<notin> live s (ck_claim (ge_clock e))"
    and "\<bar>ck_skew (ge_clock e) div 1000 - cx_timestamp ctx\<bar> \<le> gc_skewSeconds g"
proof -
  let ?deps = "gateway_deps c rd g (ge_clock e) (ge_faults e)" and ?w = "\<lparr>gw_db = ge_db e, gw_redis = s\<rparr>"
  have "authenticate ?deps js c (ge_request e) (ge_body e) ?w = (Inr ctx, w')"
    using a by (simp add: entry_auth_def gateway_auth_def)
  then obtain h :: signed_headers and rate w1 w2 where
    c1: "ad_consume ?deps (sh_agentId h) ?w = (rate, w1)"
    and c2: "ad_resolve ?deps (sh_agentId h) (sh_keyId h) w1 = (Inr (Some (cx_credential ctx)), w2)"
    and skew: "\<bar>ad_now ?deps - sh_timestamp h\<bar> \<le> ad_clockSkewSeconds ?deps"
    and c3: "ad_claim ?deps (sh_agentId h) (sh_keyId h) (sh_nonce h) w2 = (Some True, w')"
    and ctx: "cx_agentId ctx = sh_agentId h" "cx_keyId ctx = sh_keyId h" "cx_nonce ctx = sh_nonce h"
      "cx_timestamp ctx = sh_timestamp h"
    by (rule authenticate_accepted) blast
  let ?key = "nonce_key (cx_agentId ctx) (cx_keyId ctx) (cx_nonce ctx)"
  have cl: "claim rd (gc_ttlSeconds g) (ck_claim (ge_clock e)) (gw_redis w2) (cx_agentId ctx) (cx_keyId ctx) (cx_nonce ctx)
      = (Some True, gw_redis w')"
    using c3 ctx by (auto simp: gateway_deps_def split: prod.splits)
  have w2: "gw_redis w2 = snd (consume rd (gc_perMinute g) (ck_rate (ge_clock e)) (ck_rate_end (ge_clock e)) s (sh_agentId h))"
    using c1 c2 by (auto simp: gateway_deps_def split: prod.splits)
  show "ck_claim (ge_clock e) \<le> t \<Longrightarrow> t < ck_claim (ge_clock e) + 1000 * gc_ttlSeconds g \<Longrightarrow> ?key \<in> live (gw_redis w') t"
    using claim_granted(2) [OF laws, of "gc_ttlSeconds g" "ck_claim (ge_clock e)" "gw_redis w2"] cl by (metis fst_conv snd_conv)
  have n: "?key \<notin> live (gw_redis w2) (ck_claim (ge_clock e))"
    using claim_granted(1) [OF laws, of "gc_ttlSeconds g" "ck_claim (ge_clock e)" "gw_redis w2"] cl by (metis fst_conv)
  have "ck_rate (ge_clock e) \<le> ck_claim (ge_clock e)" using clk by (simp add: clock_ordered_def)
  with n show "?key \<notin> live s (ck_claim (ge_clock e))"
    unfolding w2 using consume_keeps [OF laws _ _ refl] by blast
  show "\<bar>ck_skew (ge_clock e) div 1000 - cx_timestamp ctx\<bar> \<le> gc_skewSeconds g"
    using skew ctx by (simp add: gateway_deps_def)
qed

lemma gateway_run_live:
  assumes "redis_laws rd live" and "entries_ordered latency es"
    and "\<forall>e \<in> set es. t0 \<le> ck_rate (ge_clock e)"
    and "\<forall>t. t0 \<le> t \<and> t < until \<longrightarrow> nonce_key a k n \<in> live s t"
    and "(clk, ctx) \<in> set (gateway_run js c rd g s es)"
    and "cx_agentId ctx = a" "cx_keyId ctx = k" "cx_nonce ctx = n"
  shows "until \<le> ck_claim clk"
  using assms(2-)
proof (induction es arbitrary: s t0)
  case (Cons e es)
  obtain res w where r: "entry_auth js c rd g s e = (res, w)" by fastforce
  have clk: "clock_ordered (ge_clock e)" and t0: "t0 \<le> ck_rate (ge_clock e)"
    and ord: "entries_ordered latency es" and next_t: "\<forall>e' \<in> set es. ck_claim (ge_clock e) \<le> ck_rate (ge_clock e')"
    using Cons.prems(1,2) by (auto simp: entries_ordered_def)
  have le: "t0 \<le> ck_claim (ge_clock e)" using clk t0 by (simp add: clock_ordered_def)
  have live': "\<forall>t. ck_claim (ge_clock e) \<le> t \<and> t < until \<longrightarrow> nonce_key a k n \<in> live (gw_redis w) t"
    using entry_auth_keeps [OF assms(1) clk, of _ a k n s js c g] r le Cons.prems(3) by auto
  show ?case
  proof (cases "res = Inr ctx \<and> clk = ge_clock e")
    case True
    with entry_auth_accepted(2) [OF assms(1) clk, of js c g s ctx w] r Cons.prems(5-7)
    have "nonce_key a k n \<notin> live s (ck_claim clk)" by simp
    with Cons.prems(3) le True show ?thesis by fastforce
  next
    case False
    with Cons.prems(4) r have "(clk, ctx) \<in> set (gateway_run js c rd g (gw_redis w) es)"
      by (cases res) auto
    with Cons.IH [OF ord next_t live'] Cons.prems(5-7) show ?thesis by simp
  qed
qed simp

text \<open>The same identity, nonce and timestamp: what a replayed request has in common with the original.\<close>

definition same_request :: "agent_auth_context \<Rightarrow> agent_auth_context \<Rightarrow> bool" where
  "same_request x y = (cx_agentId x = cx_agentId y \<and> cx_keyId x = cx_keyId y \<and> cx_nonce x = cx_nonce y \<and>
     cx_timestamp x = cx_timestamp y)"

lemma accepted_requests_differ:
  assumes laws: "redis_laws rd live" and ord: "entries_ordered latency es"
    and ttl: "2000 * gc_skewSeconds g + 1000 + latency \<le> 1000 * gc_ttlSeconds g"
  shows "sorted_wrt (\<lambda>x y. \<not> same_request (snd x) (snd y)) (gateway_run js c rd g s es)"
  using ord
proof (induction es arbitrary: s)
  case (Cons e es)
  obtain res w where r: "entry_auth js c rd g s e = (res, w)" by fastforce
  have clk: "clock_ordered (ge_clock e)" and ord': "entries_ordered latency es"
    and next_t: "\<forall>e' \<in> set es. ck_claim (ge_clock e) \<le> ck_rate (ge_clock e')"
    using Cons.prems by (auto simp: entries_ordered_def)
  show ?case
  proof (cases res)
    case (Inl x)
    then show ?thesis using Cons.IH [OF ord'] r by simp
  next
    case (Inr ctx)
    note acc = entry_auth_accepted [OF laws clk, of js c g s ctx w]
    have "\<not> same_request ctx ctx'" if m: "(clk', ctx') \<in> set (gateway_run js c rd g (gw_redis w) es)" for clk' ctx'
    proof
      assume same: "same_request ctx ctx'"
      have "\<forall>t. ck_claim (ge_clock e) \<le> t \<and> t < ck_claim (ge_clock e) + 1000 * gc_ttlSeconds g \<longrightarrow>
          nonce_key (cx_agentId ctx) (cx_keyId ctx) (cx_nonce ctx) \<in> live (gw_redis w) t"
        using acc(1) r Inr by simp
      from gateway_run_live [OF laws ord' next_t this m] same
      have late: "ck_claim (ge_clock e) + 1000 * gc_ttlSeconds g \<le> ck_claim clk'" by (simp add: same_request_def)
      from gateway_run_entry [OF m] obtain e' s' w2 where e': "e' \<in> set es" "clk' = ge_clock e'" "entry_auth js c rd g s' e' = (Inr ctx', w2)"
        by blast
      then have clk': "clock_ordered clk'" "ck_claim clk' \<le> ck_skew clk' + latency"
        using ord' by (auto simp: entries_ordered_def list_all_iff)
      have "\<bar>ck_skew clk' div 1000 - cx_timestamp ctx'\<bar> \<le> gc_skewSeconds g"
        using entry_auth_accepted(3) [OF laws _ e'(3)] clk'(1) e'(2) by simp
      moreover have "\<bar>ck_skew (ge_clock e) div 1000 - cx_timestamp ctx\<bar> \<le> gc_skewSeconds g"
        using acc(3) r Inr by simp
      moreover have "cx_timestamp ctx' = cx_timestamp ctx" using same by (simp add: same_request_def)
      ultimately have "ck_skew clk' div 1000 - ck_skew (ge_clock e) div 1000 \<le> 2 * gc_skewSeconds g" by linarith
      moreover have "ck_skew (ge_clock e) \<le> ck_claim (ge_clock e)" using clk by (simp add: clock_ordered_def)
      ultimately show False using late clk'(2) ttl by linarith
    qed
    then show ?thesis using Cons.IH [OF ord'] r Inr by auto
  qed
qed simp

text \<open>C5: With a lifetime of nonces above twice the tolerance by a second and the latency, no request is
  accepted twice in any sequence, whatever happens to the database in between.\<close>

theorem no_request_accepted_twice:
  assumes "redis_laws rd live" and "entries_ordered latency es" and "2000 * gc_skewSeconds g + 1000 + latency \<le> 1000 * gc_ttlSeconds g"
  shows "sorted_wrt (\<lambda>x y. \<not> same_request (snd x) (snd y)) (gateway_run js c rd g s es)"
  by (rule accepted_requests_differ [OF assms])

end
