(* ===== verification/Gateway_Samples.thy ===== *)
theory Gateway_Samples
  imports Samples Authenticate
begin

text \<open>
  One signed request of the sample agent, and the run of the authentication that accepts it: the
  statements about requests are applied to it.
\<close>

definition sample_clock :: "time_ms \<Rightarrow> auth_clock" where
  "sample_clock t = \<lparr>ck_rate = t, ck_rate_end = t, ck_resolve = t, ck_skew = t, ck_claim = t\<rparr>"

definition sample_config :: gateway_config where
  "sample_config = \<lparr>gc_key = sample_master, gc_perMinute = 120, gc_ttlSeconds = 601, gc_skewSeconds = 300\<rparr>"

definition sample_signature :: string where
  "sample_signature = hmacSha256Hex sample_crypto sample_secret []"

definition sample_request :: "string \<Rightarrow> agent_request" where
  "sample_request path =
     \<lparr>aq_headers = (\<lambda>n. case map_of
          [(header_name ''agent-id'', sample_agent_id), (header_name ''server-id'', sample_server_id),
           (header_name ''key-id'', sample_key 0), (header_name ''timestamp'', ''5''),
           (header_name ''nonce'', replicate 16 (CHR ''0'')), (header_name ''signature'', sample_signature),
           (header_name ''protocol'', ''1'')] n of None \<Rightarrow> H_absent | Some v \<Rightarrow> H_one v),
      aq_method = ''POST'', aq_raw_url = Some path, aq_url = path\<rparr>"

definition sample_gateway :: "string \<Rightarrow> (auth_failure + agent_auth_context) \<times> key_store gw_world" where
  "sample_gateway path = gateway_auth sample_js sample_crypto sample_redis sample_config (sample_clock 5000) no_faults
     (sample_request path) [] \<lparr>gw_db = sample_db, gw_redis = []\<rparr>"

text \<open>What the request is accepted as.\<close>

definition accepts_sample :: "auth_failure + agent_auth_context \<Rightarrow> bool" where
  "accepts_sample r =
     (case r of
        Inl _ \<Rightarrow> False
      | Inr ctx \<Rightarrow> cx_credential ctx = sample_current \<and> cx_agentId ctx = sample_agent_id \<and>
          cx_serverId ctx = sample_server_id \<and> cx_keyId ctx = sample_key 0 \<and> cx_rawBody ctx = [])"

lemma sample_gateway_accepts: "accepts_sample (fst (sample_gateway ''/agent/v1/heartbeat''))"
  by code_simp

lemma sample_gateway_ok: "\<exists>ctx. fst (sample_gateway ''/agent/v1/heartbeat'') = Inr ctx \<and> cx_agentId ctx = sample_agent_id \<and>
    cx_serverId ctx = sample_server_id \<and> cx_credential ctx = sample_current \<and> cx_keyId ctx = sample_key 0"
  using sample_gateway_accepts by (auto simp: accepts_sample_def split: sum.splits)

end
