(* ===== verification/Respond.thy ===== *)
theory Respond
  imports Protocol
begin

text \<open>
  \<open>apps/api/src/agent-gateway/respond.ts\<close>: the replies of the gateway. A reply is serialised once;
  that text is hashed, signed and sent. The clock and the random bytes of the nonce are arguments.
\<close>

record http_reply =
  rp_status :: int
  rp_headers :: "(string \<times> string) list"
  rp_body :: string

(* src agent-gateway/respond.ts:23-26 SignableContext *)
record signable_context =
  sg_secret :: string
  sg_requestId :: string

(* src agent-gateway/protocol.ts:33-37 RESPONSE_HEADER *)
definition response_header :: "string \<Rightarrow> string" where
  "response_header n = ''X-ZShield-'' @ n"

primrec error_code_name :: "agent_error_code \<Rightarrow> string" where
  "error_code_name E_VALIDATION = ''E_VALIDATION''"
| "error_code_name E_AUTH_CLOCK_SKEW = ''E_AUTH_CLOCK_SKEW''"
| "error_code_name E_AUTH_REPLAY = ''E_AUTH_REPLAY''"
| "error_code_name E_AUTH_INVALID_SIGNATURE = ''E_AUTH_INVALID_SIGNATURE''"
| "error_code_name E_AUTH_CREDENTIAL_REVOKED = ''E_AUTH_CREDENTIAL_REVOKED''"
| "error_code_name E_PROTOCOL_UNSUPPORTED = ''E_PROTOCOL_UNSUPPORTED''"
| "error_code_name E_PAYLOAD_TOO_LARGE = ''E_PAYLOAD_TOO_LARGE''"
| "error_code_name E_RATE_LIMITED = ''E_RATE_LIMITED''"
| "error_code_name E_INTERNAL = ''E_INTERNAL''"

text \<open>What one reply reads: the clock, and the bytes of its nonce.\<close>

record reply_env =
  re_now :: time_ms
  re_random16 :: bytes

(* src agent-gateway/respond.ts:33-65 sendSigned *)
definition sendSigned :: "js_lib \<Rightarrow> crypto \<Rightarrow> reply_env \<Rightarrow> int \<Rightarrow> (string \<times> json) list \<Rightarrow> signable_context \<Rightarrow> http_reply" where
  "sendSigned js c e status body ctx =
     (let timestamp = re_now e div 1000;
          payload = obj_put ''request_id'' (JStr (sg_requestId ctx)) (obj_put ''server_time'' (JInt timestamp) body);
          serialised = json_text (number_text js) (JObj payload);
          nonce = newResponseNonce (re_random16 e);
          signature = hmacSha256Hex c (sg_secret ctx)
            (canonicalResponse \<lparr>s_status = status, s_requestId = sg_requestId ctx, s_timestamp = timestamp,
               s_nonce = nonce, s_bodyHash = sha256Hex c (utf8 serialised)\<rparr>)
      in \<lparr>rp_status = status,
          rp_headers =
            [(''Content-Type'', ''application/json; charset=utf-8''),
             (response_header ''Timestamp'', string_of_int timestamp),
             (response_header ''Nonce'', nonce),
             (response_header ''Signature'', signature),
             (''Cache-Control'', ''no-store'')],
          rp_body = serialised\<rparr>)"

(* src agent-gateway/respond.ts:67-73 sendSignedOk *)
definition sendSignedOk :: "js_lib \<Rightarrow> crypto \<Rightarrow> reply_env \<Rightarrow> (string \<times> json) list \<Rightarrow> signable_context \<Rightarrow> http_reply" where
  "sendSignedOk js c e data ctx = sendSigned js c e 200 (obj_spread [(''ok'', JBool True)] data) ctx"

definition with_retry :: "int option \<Rightarrow> (string \<times> json) list \<Rightarrow> (string \<times> json) list" where
  "with_retry retryAfter body = (case retryAfter of None \<Rightarrow> body | Some n \<Rightarrow> obj_put ''retry_after'' (JInt n) body)"

(* src agent-gateway/respond.ts:75-86 sendSignedError *)
definition sendSignedError :: "js_lib \<Rightarrow> crypto \<Rightarrow> reply_env \<Rightarrow> int \<Rightarrow> agent_error_code \<Rightarrow> string \<Rightarrow>
    signable_context \<Rightarrow> int option \<Rightarrow> http_reply" where
  "sendSignedError js c e status code message ctx retryAfter =
     sendSigned js c e status
       (with_retry retryAfter
         [(''ok'', JBool False), (''error'', JStr (error_code_name code)), (''message'', JStr message)]) ctx"

(* src agent-gateway/respond.ts:93-113 sendUnsignableError *)
definition sendUnsignableError :: "js_lib \<Rightarrow> reply_env \<Rightarrow> int \<Rightarrow> agent_error_code \<Rightarrow> string \<Rightarrow> int option \<Rightarrow> http_reply" where
  "sendUnsignableError js e status code message retryAfter =
     \<lparr>rp_status = status,
      rp_headers = [(''Content-Type'', ''application/json; charset=utf-8''), (''Cache-Control'', ''no-store'')],
      rp_body = json_text (number_text js) (JObj (with_retry retryAfter
        [(''ok'', JBool False), (''error'', JStr (error_code_name code)), (''message'', JStr message),
         (''server_time'', JInt (re_now e div 1000))]))\<rparr>"

section \<open>What an agent checks\<close>

definition reply_header :: "string \<Rightarrow> http_reply \<Rightarrow> string option" where
  "reply_header n r = map_of (rp_headers r) (response_header n)"

text \<open>
  The check of the agent, stated in the terms of the protocol: the headers give a time, a nonce
  and a signature, and the signature is the HMAC over the reply as it was received.
\<close>

definition reply_verifies :: "crypto \<Rightarrow> string \<Rightarrow> string \<Rightarrow> http_reply \<Rightarrow> bool" where
  "reply_verifies c secret requestId r =
     (case (reply_header ''Timestamp'' r, reply_header ''Nonce'' r, reply_header ''Signature'' r) of
        (Some t, Some n, Some s) \<Rightarrow>
          s = hmacSha256Hex c secret (join_with [LF]
                [''ZSHIELD-PLATFORM-V'' @ string_of_int protocol_version, string_of_int (rp_status r),
                 requestId, t, n, sha256Hex c (utf8 (rp_body r))])
      | _ \<Rightarrow> False)"

definition signed_reply :: "http_reply \<Rightarrow> bool" where
  "signed_reply r \<longleftrightarrow> reply_header ''Signature'' r \<noteq> None"

lemma response_header_inject [simp]: "response_header a = response_header b \<longleftrightarrow> a = b"
  by (simp add: response_header_def)

lemma response_header_other [simp]:
  "response_header n \<noteq> ''Content-Type''" "response_header n \<noteq> ''Cache-Control''"
  "''Content-Type'' \<noteq> response_header n" "''Cache-Control'' \<noteq> response_header n"
  by (simp_all add: response_header_def)

lemma sendSigned_headers:
  "reply_header ''Timestamp'' (sendSigned js c e status body ctx) = Some (string_of_int (re_now e div 1000))"
  "reply_header ''Nonce'' (sendSigned js c e status body ctx) = Some (newResponseNonce (re_random16 e))"
  "signed_reply (sendSigned js c e status body ctx)"
  by (simp_all add: reply_header_def signed_reply_def sendSigned_def Let_def)

lemma sendSigned_verifies: "reply_verifies c (sg_secret ctx) (sg_requestId ctx) (sendSigned js c e status body ctx)"
  by (simp add: reply_verifies_def reply_header_def sendSigned_def Let_def canonicalResponse_def response_fields_def)

lemma sendSignedOk_verifies: "reply_verifies c (sg_secret ctx) (sg_requestId ctx) (sendSignedOk js c e data ctx)"
  by (simp add: sendSignedOk_def sendSigned_verifies)

lemma sendSignedError_verifies:
  "reply_verifies c (sg_secret ctx) (sg_requestId ctx) (sendSignedError js c e st code msg ctx retry)"
  by (simp add: sendSignedError_def sendSigned_verifies)

lemma unsignable_unsigned: "\<not> signed_reply (sendUnsignableError js e status code message retryAfter)"
  by (simp add: signed_reply_def reply_header_def sendUnsignableError_def)

lemma reply_status [simp]:
  "rp_status (sendSigned js c e status body ctx) = status"
  "rp_status (sendSignedOk js c e data ctx) = 200"
  "rp_status (sendSignedError js c e status code msg ctx retry) = status"
  "rp_status (sendUnsignableError js e status code message retry) = status"
  by (simp_all add: sendSigned_def sendSignedOk_def sendSignedError_def sendUnsignableError_def Let_def)

text \<open>Every reply sent through the signed path is accepted by the check of the agent with the secret
  and the identifier of its request, success and error alike, and carries both \<open>server_time\<close> and
  \<open>request_id\<close> whatever the handler put in the body.\<close>

theorem signed_replies_verify:
  "reply_verifies c (sg_secret ctx) (sg_requestId ctx) (sendSignedOk js c e data ctx) \<and>
   reply_verifies c (sg_secret ctx) (sg_requestId ctx) (sendSignedError js c e st code msg ctx retry) \<and>
   (\<exists>fs. rp_body (sendSignedOk js c e data ctx) = json_text (number_text js) (JObj fs) \<and>
      obj_get ''request_id'' fs = Some (JStr (sg_requestId ctx)) \<and>
      obj_get ''server_time'' fs = Some (JInt (re_now e div 1000)))"
proof -
  let ?fs = "obj_put ''request_id'' (JStr (sg_requestId ctx))
      (obj_put ''server_time'' (JInt (re_now e div 1000)) (obj_spread [(''ok'', JBool True)] data))"
  have "rp_body (sendSignedOk js c e data ctx) = json_text (number_text js) (JObj ?fs)"
    by (simp add: sendSignedOk_def sendSigned_def Let_def)
  moreover have "obj_get ''request_id'' ?fs = Some (JStr (sg_requestId ctx))"
    "obj_get ''server_time'' ?fs = Some (JInt (re_now e div 1000))" by simp_all
  ultimately show ?thesis using sendSignedOk_verifies sendSignedError_verifies by blast
qed

end
