(* ===== verification/Schemas.thy ===== *)
theory Schemas
  imports Tables Protocol "HOL-Library.Monad_Syntax"
begin

text \<open>
  \<open>apps/api/src/agent-gateway/schemas.ts\<close>: what may enter through the gateway and what may be pushed
  to an agent. A schema is the partial function that \<open>safeParse\<close> computes: \<open>None\<close> when the document is
  refused, otherwise the record the code goes on with. Every object is strict. The lemmas give the
  bounds of what passes.
\<close>

section \<open>Scalars\<close>

(* src agent-gateway/schemas.ts:16-16 unixSeconds *)
definition unixSeconds :: "json \<Rightarrow> int option" where
  "unixSeconds = z_int 0 4000000000"

(* src agent-gateway/schemas.ts:17-17 shortText *)
definition shortText :: "nat \<Rightarrow> json \<Rightarrow> string option" where
  "shortText n = z_string 0 n"

(* src agent-gateway/schemas.ts:19-19 SEVERITIES *)
definition z_severity :: "json \<Rightarrow> severity option" where
  "z_severity = z_enum [(''INFO'', Sev_info), (''LOW'', Sev_low), (''MEDIUM'', Sev_medium),
     (''HIGH'', Sev_high), (''CRITICAL'', Sev_critical)]"

(* src agent-gateway/schemas.ts:20-30 CATEGORIES *)
definition z_category :: "json \<Rightarrow> string option" where
  "z_category = z_enum (map (\<lambda>s. (s, s)) [''event'', ''entity'', ''movement'', ''economy'', ''weapon'',
     ''resource'', ''admin'', ''agent'', ''other''])"

definition z_environment :: "json \<Rightarrow> string option" where
  "z_environment = z_enum (map (\<lambda>s. (s, s)) [''production'', ''staging'', ''development''])"

section \<open>Envelope\<close>

record envelope =
  ev_protocol_version :: int
  ev_agent_version :: string
  ev_kind :: string
  ev_server_id :: string
  ev_agent_id :: string
  ev_environment :: string
  ev_sent_at :: int
  ev_payload :: "(string \<times> json) list"

(* src agent-gateway/schemas.ts:33-44 envelopeSchema *)
definition envelopeSchema :: "json \<Rightarrow> envelope option" where
  "envelopeSchema j = do {
     fs \<leftarrow> z_object [''protocol_version'', ''agent_version'', ''kind'', ''server_id'', ''agent_id'',
                      ''environment'', ''sent_at'', ''payload''] j;
     pv \<leftarrow> z_field ''protocol_version'' (z_int 1 100) fs;
     av \<leftarrow> z_field ''agent_version'' (shortText 32) fs;
     kind \<leftarrow> z_field ''kind'' (shortText 32) fs;
     sid \<leftarrow> z_field ''server_id'' (shortText 64) fs;
     aid \<leftarrow> z_field ''agent_id'' (shortText 64) fs;
     env \<leftarrow> z_field ''environment'' z_environment fs;
     sent \<leftarrow> z_field ''sent_at'' unixSeconds fs;
     payload \<leftarrow> z_field ''payload'' z_record fs;
     Some \<lparr>ev_protocol_version = pv, ev_agent_version = av, ev_kind = kind, ev_server_id = sid,
           ev_agent_id = aid, ev_environment = env, ev_sent_at = sent, ev_payload = payload\<rparr>
   }"

section \<open>Payloads\<close>

record handshake_server =
  hs_fxserver_version :: "string option"
  hs_onesync :: "string option"
  hs_max_players :: "int option"
  hs_uptime_seconds :: "int option"
  hs_resource_count :: "int option"

record handshake_payload =
  hp_server :: "handshake_server option"
  hp_capabilities :: "string list option"

(* src agent-gateway/schemas.ts:54-63 handshakePayloadSchema/server *)
definition handshake_server_schema :: "json \<Rightarrow> handshake_server option" where
  "handshake_server_schema j = do {
     fs \<leftarrow> z_object [''fxserver_version'', ''onesync'', ''max_players'', ''uptime_seconds'', ''resource_count''] j;
     fx \<leftarrow> z_optional ''fxserver_version'' (shortText 64) fs;
     os \<leftarrow> z_optional ''onesync'' (shortText 32) fs;
     mp \<leftarrow> z_optional ''max_players'' (z_int 0 2048) fs;
     up \<leftarrow> z_optional ''uptime_seconds'' (z_int_min 0) fs;
     rc \<leftarrow> z_optional ''resource_count'' (z_int 0 10000) fs;
     Some \<lparr>hs_fxserver_version = fx, hs_onesync = os, hs_max_players = mp, hs_uptime_seconds = up,
           hs_resource_count = rc\<rparr>
   }"

definition handshake_queue_schema :: "json \<Rightarrow> unit option" where
  "handshake_queue_schema j = do {
     fs \<leftarrow> z_object [''size'', ''dropped''] j;
     _ \<leftarrow> z_optional ''size'' (z_int_min 0) fs;
     _ \<leftarrow> z_optional ''dropped'' (z_int_min 0) fs;
     Some ()
   }"

(* src agent-gateway/schemas.ts:52-73 handshakePayloadSchema *)
definition handshakePayloadSchema :: "json \<Rightarrow> handshake_payload option" where
  "handshakePayloadSchema j = do {
     fs \<leftarrow> z_object [''server'', ''capabilities'', ''queue''] j;
     server \<leftarrow> z_optional ''server'' handshake_server_schema fs;
     caps \<leftarrow> z_optional ''capabilities'' (z_array 0 32 (shortText 32)) fs;
     _ \<leftarrow> z_optional ''queue'' handshake_queue_schema fs;
     Some \<lparr>hp_server = server, hp_capabilities = caps\<rparr>
   }"

datatype agent_state = Booting | Misconfigured | Handshaking | Online | Degraded | Offline | Stopping

definition z_agent_state :: "json \<Rightarrow> agent_state option" where
  "z_agent_state = z_enum [(''BOOTING'', Booting), (''MISCONFIGURED'', Misconfigured), (''HANDSHAKING'', Handshaking),
     (''ONLINE'', Online), (''DEGRADED'', Degraded), (''OFFLINE'', Offline), (''STOPPING'', Stopping)]"

definition z_health :: "json \<Rightarrow> health_state option" where
  "z_health = z_enum [(''HEALTHY'', Healthy), (''DEGRADED'', Health_degraded), (''FAILED'', Health_failed),
     (''UNKNOWN'', Health_unknown)]"

record heartbeat_payload =
  hb_state :: agent_state
  hb_agent_version :: string
  hb_protocol_version :: int
  hb_uptime_seconds :: int
  hb_players_online :: "int option"
  hb_config_version :: int
  hb_queue_size :: int
  hb_health :: health_state
  hb_last_error :: "string option"
  hb_server_fingerprint :: "string option"

text \<open>\<open>.nullable().optional()\<close>: absent and \<open>null\<close> are both accepted, and the code does not tell them apart.\<close>

definition z_nullish :: "string \<Rightarrow> (json \<Rightarrow> 'a option) \<Rightarrow> (string \<times> json) list \<Rightarrow> 'a option option" where
  "z_nullish k p fs =
     (case obj_get k fs of None \<Rightarrow> Some None | Some JNull \<Rightarrow> Some None | Some v \<Rightarrow> map_option Some (p v))"

(* src agent-gateway/schemas.ts:75-92 heartbeatPayloadSchema *)
definition heartbeatPayloadSchema :: "json \<Rightarrow> heartbeat_payload option" where
  "heartbeatPayloadSchema j = do {
     fs \<leftarrow> z_object [''state'', ''agent_version'', ''protocol_version'', ''uptime_seconds'', ''players_online'',
                      ''config_version'', ''queue_size'', ''health'', ''last_error'', ''server_fingerprint''] j;
     st \<leftarrow> z_field ''state'' z_agent_state fs;
     av \<leftarrow> z_field ''agent_version'' (shortText 32) fs;
     pv \<leftarrow> z_field ''protocol_version'' (z_int 1 100) fs;
     up \<leftarrow> z_field ''uptime_seconds'' (z_int_min 0) fs;
     po \<leftarrow> z_optional ''players_online'' (z_int 0 2048) fs;
     cv \<leftarrow> z_field ''config_version'' (z_int_min 0) fs;
     qs \<leftarrow> z_field ''queue_size'' (z_int_min 0) fs;
     he \<leftarrow> z_field ''health'' z_health fs;
     le \<leftarrow> z_nullish ''last_error'' (shortText 1000) fs;
     fp \<leftarrow> z_optional ''server_fingerprint'' (z_matching (matches_class hex_chars 16 16)) fs;
     Some \<lparr>hb_state = st, hb_agent_version = av, hb_protocol_version = pv, hb_uptime_seconds = up,
           hb_players_online = po, hb_config_version = cv, hb_queue_size = qs, hb_health = he,
           hb_last_error = le, hb_server_fingerprint = fp\<rparr>
   }"

text \<open>
  The snapshot of the protections is stored as it came; its schema only decides. A value of a layer
  is a number or a short text.
\<close>

definition z_values :: "(json \<Rightarrow> 'a option) \<Rightarrow> json \<Rightarrow> unit option" where
  "z_values p j = (case j of JObj fs \<Rightarrow> if list_all (\<lambda>kv. p (snd kv) \<noteq> None) fs then Some () else None | _ \<Rightarrow> None)"

definition z_layer_value :: "json \<Rightarrow> unit option" where
  "z_layer_value j = (case j of JNum q \<Rightarrow> Some () | JStr s \<Rightarrow> if length s \<le> 32 then Some () else None | _ \<Rightarrow> None)"

definition performance_schema :: "json \<Rightarrow> unit option" where
  "performance_schema j = do {
     fs \<leftarrow> z_record j;
     _ \<leftarrow> z_optional ''critical_ms'' (z_number 0 60000) fs;
     _ \<leftarrow> z_optional ''budget_ms'' (z_number 0 60000) fs;
     _ \<leftarrow> z_optional ''overhead_pct'' (z_number 0 100) fs;
     Some ()
   }"

(* src agent-gateway/schemas.ts:99-117 protectionsSnapshotSchema *)
definition protectionsSnapshotSchema :: "json \<Rightarrow> json option" where
  "protectionsSnapshotSchema j = do {
     fs \<leftarrow> z_object [''version'', ''layers'', ''reputation'', ''evidence'', ''performance'', ''onesync_lockdown''] j;
     _ \<leftarrow> z_optional ''version'' (z_string 0 32) fs;
     _ \<leftarrow> z_optional ''layers'' (z_values (z_values z_layer_value)) fs;
     _ \<leftarrow> z_optional ''reputation'' (z_values (z_int 0 100000)) fs;
     _ \<leftarrow> z_optional ''evidence'' (z_values (z_int_min 0)) fs;
     _ \<leftarrow> z_optional ''performance'' performance_schema fs;
     _ \<leftarrow> z_optional ''onesync_lockdown'' (z_enum [(''inactive'', ()), (''relaxed'', ()), (''strict'', ())]) fs;
     Some j
   }"

record telemetry_sample =
  ts_sampled_at :: int
  ts_players_online :: "int option"
  ts_uptime_seconds :: "int option"
  ts_memory_mb :: "rat option"
  ts_tick_ms :: "rat option"
  ts_resource_count :: "int option"
  ts_error_count :: "int option"
  ts_queue_size :: "int option"
  ts_dependencies :: "json option"
  ts_protections :: "json option"

definition dependencies_schema :: "json \<Rightarrow> json option" where
  "dependencies_schema j = do {
     _ \<leftarrow> z_values (z_enum [(''started'', ()), (''stopped'', ()), (''missing'', ())]) j;
     Some j
   }"

(* src agent-gateway/schemas.ts:123-136 telemetryPayloadSchema/sample *)
definition telemetry_sample_schema :: "json \<Rightarrow> telemetry_sample option" where
  "telemetry_sample_schema j = do {
     fs \<leftarrow> z_object [''sampled_at'', ''players_online'', ''uptime_seconds'', ''memory_mb'', ''tick_ms'',
       ''resource_count'', ''error_count'', ''queue_size'', ''dependencies'', ''protections''] j;
     sa \<leftarrow> z_field ''sampled_at'' unixSeconds fs;
     po \<leftarrow> z_optional ''players_online'' (z_int 0 2048) fs;
     up \<leftarrow> z_optional ''uptime_seconds'' (z_int_min 0) fs;
     mm \<leftarrow> z_optional ''memory_mb'' (z_number 0 1048576) fs;
     tk \<leftarrow> z_optional ''tick_ms'' (z_number 0 60000) fs;
     rc \<leftarrow> z_optional ''resource_count'' (z_int 0 10000) fs;
     ec \<leftarrow> z_optional ''error_count'' (z_int_min 0) fs;
     qs \<leftarrow> z_optional ''queue_size'' (z_int_min 0) fs;
     dp \<leftarrow> z_optional ''dependencies'' dependencies_schema fs;
     pr \<leftarrow> z_optional ''protections'' protectionsSnapshotSchema fs;
     Some \<lparr>ts_sampled_at = sa, ts_players_online = po, ts_uptime_seconds = up, ts_memory_mb = mm,
           ts_tick_ms = tk, ts_resource_count = rc, ts_error_count = ec, ts_queue_size = qs,
           ts_dependencies = dp, ts_protections = pr\<rparr>
   }"

(* src agent-gateway/schemas.ts:119-141 telemetryPayloadSchema *)
definition telemetryPayloadSchema :: "json \<Rightarrow> telemetry_sample list option" where
  "telemetryPayloadSchema j = do {
     fs \<leftarrow> z_object [''samples''] j;
     z_field ''samples'' (z_array 1 120 telemetry_sample_schema) fs
   }"

record live_player =
  lp_x :: rat
  lp_y :: rat
  lp_json :: json

record live_payload =
  lv_sampled_at :: int
  lv_players :: "live_player list"

(* src agent-gateway/schemas.ts:154-169 livePayloadSchema/player *)
definition live_player_schema :: "json \<Rightarrow> live_player option" where
  "live_player_schema j = do {
     fs \<leftarrow> z_object [''id'', ''name'', ''identifier'', ''x'', ''y'', ''z'', ''h'', ''hp'', ''armor'', ''veh'',
                      ''weapon'', ''ping''] j;
     _ \<leftarrow> z_field ''id'' (z_int 0 65535) fs;
     _ \<leftarrow> z_field ''name'' (shortText 64) fs;
     _ \<leftarrow> z_optional ''identifier'' (shortText 64) fs;
     x \<leftarrow> z_field ''x'' (z_number (- 20000) 20000) fs;
     y \<leftarrow> z_field ''y'' (z_number (- 20000) 20000) fs;
     _ \<leftarrow> z_field ''z'' (z_number (- 5000) 5000) fs;
     _ \<leftarrow> z_field ''h'' (z_number (- 720) 720) fs;
     _ \<leftarrow> z_field ''hp'' (z_int 0 10000) fs;
     _ \<leftarrow> z_field ''armor'' (z_int 0 10000) fs;
     _ \<leftarrow> z_field ''veh'' z_bool fs;
     _ \<leftarrow> z_optional ''weapon'' (\<lambda>v. case v of JNum q \<Rightarrow> if q = of_int \<lfloor>q\<rfloor> then Some () else None | _ \<Rightarrow> None) fs;
     _ \<leftarrow> z_field ''ping'' (z_int 0 100000) fs;
     Some \<lparr>lp_x = x, lp_y = y, lp_json = j\<rparr>
   }"

(* src agent-gateway/schemas.ts:149-173 livePayloadSchema *)
definition livePayloadSchema :: "json \<Rightarrow> live_payload option" where
  "livePayloadSchema j = do {
     fs \<leftarrow> z_object [''sampled_at'', ''players''] j;
     sa \<leftarrow> z_field ''sampled_at'' unixSeconds fs;
     ps \<leftarrow> z_field ''players'' (z_array 0 512 live_player_schema) fs;
     Some \<lparr>lv_sampled_at = sa, lv_players = ps\<rparr>
   }"

section \<open>Alerts\<close>

definition metadata_value :: "json \<Rightarrow> unit option" where
  "metadata_value j =
     (case j of JStr s \<Rightarrow> if length s \<le> 1024 then Some () else None | JNum q \<Rightarrow> Some () | JBool b \<Rightarrow> Some ()
      | JNull \<Rightarrow> Some () | _ \<Rightarrow> None)"

(* src agent-gateway/schemas.ts:180-184 alertMetadataSchema *)
definition alertMetadataSchema :: "json \<Rightarrow> json option" where
  "alertMetadataSchema j = do {
     fs \<leftarrow> z_record j;
     _ \<leftarrow> z_values metadata_value j;
     if length fs \<le> 32 then Some j else None
   }"

record sanction =
  sn_scope :: ban_scope
  sn_identifier :: string
  sn_player_name :: "string option"
  sn_detector :: string
  sn_risk :: "int option"
  sn_evidence_kind :: "string option"

definition z_scope :: "json \<Rightarrow> ban_scope option" where
  "z_scope = z_enum [(''license'', Scope_license), (''discord'', Scope_discord), (''steam'', Scope_steam),
     (''ip'', Scope_ip), (''fivem'', Scope_fivem)]"

(* src agent-gateway/schemas.ts:208-218 alertSchema/sanction *)
definition sanction_schema :: "json \<Rightarrow> sanction option" where
  "sanction_schema j = do {
     fs \<leftarrow> z_object [''scope'', ''identifier'', ''player_name'', ''detector'', ''risk'', ''evidence_kind''] j;
     sc \<leftarrow> z_field ''scope'' z_scope fs;
     i \<leftarrow> z_field ''identifier'' (z_string 1 128) fs;
     pn \<leftarrow> z_optional ''player_name'' (z_string 0 64) fs;
     dt \<leftarrow> z_field ''detector'' (z_string 1 64) fs;
     rk \<leftarrow> z_optional ''risk'' (z_int 0 100) fs;
     ek \<leftarrow> z_optional ''evidence_kind'' (z_enum [(''clip'', ''clip''), (''screenshot'', ''screenshot'')]) fs;
     Some \<lparr>sn_scope = sc, sn_identifier = i, sn_player_name = pn, sn_detector = dt, sn_risk = rk, sn_evidence_kind = ek\<rparr>
   }"

record alert_input =
  ai_id :: string
  ai_category :: string
  ai_severity :: severity
  ai_summary :: string
  ai_metadata :: "json option"
  ai_reference :: "string option"
  ai_occurrences :: "int option"
  ai_occurred_at :: int
  ai_last_occurrence_at :: "int option"
  ai_origin :: "string option"
  ai_sanction :: "sanction option"

(* src agent-gateway/schemas.ts:186-220 alertSchema *)
definition alertSchema :: "json \<Rightarrow> alert_input option" where
  "alertSchema j = do {
     fs \<leftarrow> z_object [''id'', ''category'', ''severity'', ''summary'', ''metadata'', ''reference'', ''occurrences'',
                      ''occurred_at'', ''last_occurrence_at'', ''origin'', ''sanction''] j;
     i \<leftarrow> z_field ''id'' (z_matching (matches_class id_chars 1 64)) fs;
     ct \<leftarrow> z_field ''category'' z_category fs;
     sv \<leftarrow> z_field ''severity'' z_severity fs;
     sm \<leftarrow> z_field ''summary'' (z_string 1 512) fs;
     md \<leftarrow> z_optional ''metadata'' alertMetadataSchema fs;
     rf \<leftarrow> z_optional ''reference'' (shortText 64) fs;
     oc \<leftarrow> z_optional ''occurrences'' (z_int 1 1000000) fs;
     sa \<leftarrow> z_field ''occurred_at'' unixSeconds fs;
     lo \<leftarrow> z_optional ''last_occurrence_at'' unixSeconds fs;
     og \<leftarrow> z_optional ''origin'' (shortText 64) fs;
     sn \<leftarrow> z_optional ''sanction'' sanction_schema fs;
     Some \<lparr>ai_id = i, ai_category = ct, ai_severity = sv, ai_summary = sm, ai_metadata = md, ai_reference = rf,
           ai_occurrences = oc, ai_occurred_at = sa, ai_last_occurrence_at = lo, ai_origin = og, ai_sanction = sn\<rparr>
   }"

(* src agent-gateway/schemas.ts:222-226 alertsPayloadSchema *)
definition alertsPayloadSchema :: "json \<Rightarrow> alert_input list option" where
  "alertsPayloadSchema j = do {
     fs \<leftarrow> z_object [''alerts''] j;
     z_field ''alerts'' (z_array 1 200 alertSchema) fs
   }"

section \<open>Results of commands, rotation, queries\<close>

record result_input =
  ri_id :: string
  ri_status :: command_result
  ri_result :: "json option"
  ri_reason :: "string option"
  ri_executed_at :: int
  ri_duration_ms :: "int option"

definition z_result :: "json \<Rightarrow> command_result option" where
  "z_result = z_enum [(''COMPLETED'', Res_completed), (''FAILED'', Res_failed), (''REJECTED'', Res_rejected),
     (''DUPLICATE'', Res_duplicate)]"

(* src agent-gateway/schemas.ts:232-241 commandResultsPayloadSchema/result *)
definition result_schema :: "json \<Rightarrow> result_input option" where
  "result_schema j = do {
     fs \<leftarrow> z_object [''id'', ''status'', ''result'', ''reason'', ''executed_at'', ''duration_ms''] j;
     i \<leftarrow> z_field ''id'' (z_string 1 64) fs;
     st \<leftarrow> z_field ''status'' z_result fs;
     rs \<leftarrow> z_optional ''result'' (\<lambda>v. map_option JObj (z_record v)) fs;
     rn \<leftarrow> z_optional ''reason'' (shortText 400) fs;
     ex \<leftarrow> z_field ''executed_at'' unixSeconds fs;
     du \<leftarrow> z_optional ''duration_ms'' (z_int 0 600000) fs;
     Some \<lparr>ri_id = i, ri_status = st, ri_result = rs, ri_reason = rn, ri_executed_at = ex, ri_duration_ms = du\<rparr>
   }"

(* src agent-gateway/schemas.ts:228-246 commandResultsPayloadSchema *)
definition commandResultsPayloadSchema :: "json \<Rightarrow> result_input list option" where
  "commandResultsPayloadSchema j = do {
     fs \<leftarrow> z_object [''results''] j;
     z_field ''results'' (z_array 1 50 result_schema) fs
   }"

record rotate_payload =
  rt_reason :: "string option"
  rt_current_key_id :: string

(* src agent-gateway/schemas.ts:248-253 rotatePayloadSchema *)
definition rotatePayloadSchema :: "json \<Rightarrow> rotate_payload option" where
  "rotatePayloadSchema j = do {
     fs \<leftarrow> z_object [''reason'', ''current_key_id''] j;
     rn \<leftarrow> z_optional ''reason'' (shortText 200) fs;
     k \<leftarrow> z_field ''current_key_id'' (z_string 1 64) fs;
     Some \<lparr>rt_reason = rn, rt_current_key_id = k\<rparr>
   }"

section \<open>Remote configuration and commands\<close>

definition z_bounded :: "string \<Rightarrow> (string \<times> json) list \<Rightarrow> int option option" where
  "z_bounded k fs =
     z_optional k (\<lambda>v. case remote_config_bounds k of Some (lo, hi) \<Rightarrow> z_int lo hi v | None \<Rightarrow> None) fs"

definition metrics_schema :: "json \<Rightarrow> unit option" where
  "metrics_schema j = do {
     fs \<leftarrow> z_object [''players'', ''performance'', ''errors'', ''dependencies'', ''resources''] j;
     _ \<leftarrow> z_values z_bool (JObj fs);
     Some ()
   }"

text \<open>The parsed document holds the fields that are present, unchanged.\<close>

(* src agent-gateway/schemas.ts:263-302 remoteConfigSchema *)
definition remoteConfigSchema :: "json \<Rightarrow> (string \<times> json) list option" where
  "remoteConfigSchema j = do {
     fs \<leftarrow> z_object [''telemetry_enabled'', ''heartbeat_interval'', ''telemetry_interval'', ''alert_batch_size'',
                      ''alert_flush_interval'', ''log_level'', ''metrics''] j;
     _ \<leftarrow> z_optional ''telemetry_enabled'' z_bool fs;
     _ \<leftarrow> z_bounded ''heartbeat_interval'' fs;
     _ \<leftarrow> z_bounded ''telemetry_interval'' fs;
     _ \<leftarrow> z_bounded ''alert_batch_size'' fs;
     _ \<leftarrow> z_bounded ''alert_flush_interval'' fs;
     _ \<leftarrow> z_optional ''log_level'' (z_enum [(''DEBUG'', ()), (''INFO'', ()), (''WARN'', ()), (''ERROR'', ())]) fs;
     _ \<leftarrow> z_optional ''metrics'' metrics_schema fs;
     Some fs
   }"

definition command_value :: "json \<Rightarrow> unit option" where
  "command_value j =
     (case j of JStr s \<Rightarrow> if length s \<le> 256 then Some () else None | JNum q \<Rightarrow> Some () | JBool b \<Rightarrow> Some () | _ \<Rightarrow> None)"

(* src agent-gateway/schemas.ts:312-316 commandPayloadSchema *)
definition commandPayloadSchema :: "json \<Rightarrow> json option" where
  "commandPayloadSchema j = do {
     fs \<leftarrow> z_record j;
     _ \<leftarrow> z_values command_value j;
     if length fs \<le> 8 then Some j else None
   }"

definition command_types :: "(string \<times> command_type) list" where
  "command_types =
     [(''ping'', Ping), (''request_status'', Request_status), (''request_health_check'', Request_health_check),
      (''refresh_configuration'', Refresh_configuration), (''reload_safe_configuration'', Reload_safe_configuration),
      (''flush_queue'', Flush_queue), (''rotate_credential'', Rotate_credential),
      (''spectate_request'', Spectate_request), (''spectate_stop'', Spectate_stop), (''capture_request'', Capture_request)]"

record issue_command =
  ic_type :: string
  ic_payload :: "json option"
  ic_ttl_seconds :: int

(* src agent-gateway/schemas.ts:318-324 issueCommandSchema *)
definition issueCommandSchema :: "json \<Rightarrow> issue_command option" where
  "issueCommandSchema j = do {
     fs \<leftarrow> z_object [''type'', ''payload'', ''ttl_seconds''] j;
     ty \<leftarrow> z_field ''type'' (z_enum (map (\<lambda>(n, c). (n, n)) command_types)) fs;
     pl \<leftarrow> z_optional ''payload'' commandPayloadSchema fs;
     tl \<leftarrow> z_optional ''ttl_seconds'' (z_int 30 86400) fs;
     Some \<lparr>ic_type = ty, ic_payload = pl, ic_ttl_seconds = coalesce_default tl 300\<rparr>
   }"

section \<open>Bounds of what passes\<close>

lemma bind_Some [simp]: "Option.bind x f = Some y \<longleftrightarrow> (\<exists>z. x = Some z \<and> f z = Some y)"
  by (cases x) auto

lemma z_optional_SomeD: "z_optional k p fs = Some r \<Longrightarrow> obj_get k fs = Some v \<Longrightarrow> \<exists>a. r = Some a \<and> p v = Some a"
  by (auto simp: z_optional_def)

lemma z_optional_bound: "z_optional k p fs = Some (Some a) \<Longrightarrow> \<exists>v. obj_get k fs = Some v \<and> p v = Some a"
  by (auto simp: z_optional_def split: option.splits)

lemma z_field_SomeD: "z_field k p fs = Some a \<Longrightarrow> \<exists>v. obj_get k fs = Some v \<and> p v = Some a"
  by (auto simp: z_field_def split: option.splits)

lemma z_matching_SomeD: "z_matching P v = Some s \<Longrightarrow> P s"
  by (cases v) (auto simp: z_matching_def split: if_splits)

lemma z_object_keys: "z_object ks j = Some fs \<Longrightarrow> j = JObj fs \<and> fst ` set fs \<subseteq> set ks"
  by (auto simp: z_object_def list_all_iff split: json.splits if_splits)

text \<open>What is stored as remote configuration: only known keys, every interval inside its bounds.\<close>

definition remote_config_ok :: "(string \<times> json) list \<Rightarrow> bool" where
  "remote_config_ok fs \<longleftrightarrow>
     fst ` set fs \<subseteq> {''telemetry_enabled'', ''heartbeat_interval'', ''telemetry_interval'', ''alert_batch_size'',
                     ''alert_flush_interval'', ''log_level'', ''metrics''} \<and>
     (\<forall>k lo hi v. remote_config_bounds k = Some (lo, hi) \<longrightarrow> obj_get k fs = Some v \<longrightarrow>
        (\<exists>i. v = JInt i \<and> lo \<le> i \<and> i \<le> hi))"

lemma z_int_JInt: "z_int lo hi v = Some i \<Longrightarrow> v = JInt i \<and> lo \<le> i \<and> i \<le> hi"
  by (auto simp: z_int_def z_int_min_def split: json.splits if_splits option.splits)

lemma z_bounded_ok:
  "z_bounded k fs = Some r \<Longrightarrow> remote_config_bounds k = Some (lo, hi) \<Longrightarrow> obj_get k fs = Some v \<Longrightarrow>
   \<exists>i. v = JInt i \<and> lo \<le> i \<and> i \<le> hi"
  unfolding z_bounded_def by (drule (1) z_optional_SomeD) (auto dest: z_int_JInt)

lemma bounds_keys: "remote_config_bounds k = Some b \<Longrightarrow>
   k \<in> {''heartbeat_interval'', ''telemetry_interval'', ''alert_batch_size'', ''alert_flush_interval''}"
  by (auto simp: remote_config_bounds_def split: if_splits)

text \<open>A remote configuration that passes the schema has only known keys and every interval inside the
  bounds the agent enforces, and it is the document itself: parsing changes nothing.\<close>

theorem remote_config_bounded:
  assumes "remoteConfigSchema j = Some fs"
  shows "remote_config_ok fs \<and> j = JObj fs"
proof -
  from assms have o: "z_object [''telemetry_enabled'', ''heartbeat_interval'', ''telemetry_interval'', ''alert_batch_size'',
                      ''alert_flush_interval'', ''log_level'', ''metrics''] j = Some fs"
    and b: "\<exists>a. z_bounded ''heartbeat_interval'' fs = Some a" "\<exists>a. z_bounded ''telemetry_interval'' fs = Some a"
      "\<exists>a. z_bounded ''alert_batch_size'' fs = Some a" "\<exists>a. z_bounded ''alert_flush_interval'' fs = Some a"
    unfolding remoteConfigSchema_def by auto
  have "\<exists>i. v = JInt i \<and> lo \<le> i \<and> i \<le> hi"
    if k: "remote_config_bounds k = Some (lo, hi)" and v: "obj_get k fs = Some v" for k lo hi v
  proof -
    from bounds_keys [OF k] b have "\<exists>a. z_bounded k fs = Some a" by blast
    with z_bounded_ok k v show ?thesis by blast
  qed
  with z_object_keys [OF o] show ?thesis by (simp add: remote_config_ok_def)
qed

text \<open>A batch of alerts that passes the schema has between 1 and 200 alerts, and every one of them has
  an identifier of 1 to 64 safe characters, a summary of 1 to 512, at least one occurrence, and a
  sanction, if any, with a non-empty identifier and a risk between 0 and 100.\<close>

theorem alerts_payload_bounded:
  assumes "alertsPayloadSchema j = Some xs"
  shows "1 \<le> length xs \<and> length xs \<le> 200 \<and>
    (\<forall>a \<in> set xs. matches_class id_chars 1 64 (ai_id a) \<and> 1 \<le> length (ai_summary a) \<and> length (ai_summary a) \<le> 512 \<and>
       (\<forall>n. ai_occurrences a = Some n \<longrightarrow> 1 \<le> n \<and> n \<le> 1000000) \<and>
       (\<forall>s. ai_sanction a = Some s \<longrightarrow> sn_identifier s \<noteq> [] \<and> (\<forall>r. sn_risk s = Some r \<longrightarrow> 0 \<le> r \<and> r \<le> 100)))"
proof -
  from assms obtain v where arr: "z_array 1 200 alertSchema v = Some xs"
    by (auto simp: alertsPayloadSchema_def dest: z_field_SomeD)
  have "matches_class id_chars 1 64 (ai_id a) \<and> 1 \<le> length (ai_summary a) \<and> length (ai_summary a) \<le> 512 \<and>
       (\<forall>n. ai_occurrences a = Some n \<longrightarrow> 1 \<le> n \<and> n \<le> 1000000) \<and>
       (\<forall>s. ai_sanction a = Some s \<longrightarrow> sn_identifier s \<noteq> [] \<and> (\<forall>r. sn_risk s = Some r \<longrightarrow> 0 \<le> r \<and> r \<le> 100))"
    if "a \<in> set xs" for a
  proof -
    from z_array_in [OF arr that] obtain w where w: "alertSchema w = Some a" ..
    then obtain fs where
      i: "z_field ''id'' (z_matching (matches_class id_chars 1 64)) fs = Some (ai_id a)"
      and sm: "z_field ''summary'' (z_string 1 512) fs = Some (ai_summary a)"
      and oc: "z_optional ''occurrences'' (z_int 1 1000000) fs = Some (ai_occurrences a)"
      and sn: "z_optional ''sanction'' sanction_schema fs = Some (ai_sanction a)"
      unfolding alertSchema_def by auto
    have 1: "matches_class id_chars 1 64 (ai_id a)"
      using z_field_SomeD [OF i] by (auto dest: z_matching_SomeD)
    have 2: "1 \<le> length (ai_summary a) \<and> length (ai_summary a) \<le> 512"
      using z_field_SomeD [OF sm] by (auto dest: z_string_bounds)
    have 3: "1 \<le> n \<and> n \<le> 1000000" if "ai_occurrences a = Some n" for n
      using z_optional_bound [OF oc [unfolded that]] by (auto dest: z_int_bounds)
    have 4: "sn_identifier s \<noteq> [] \<and> (\<forall>r. sn_risk s = Some r \<longrightarrow> 0 \<le> r \<and> r \<le> 100)" if s: "ai_sanction a = Some s" for s
    proof -
      from z_optional_bound [OF sn [unfolded s]] obtain u where u: "sanction_schema u = Some s" by blast
      then obtain gs where
        gi: "z_field ''identifier'' (z_string 1 128) gs = Some (sn_identifier s)"
        and gr: "z_optional ''risk'' (z_int 0 100) gs = Some (sn_risk s)"
        unfolding sanction_schema_def by auto
      have "sn_identifier s \<noteq> []" using z_field_SomeD [OF gi] by (auto dest: z_string_bounds)
      moreover have "0 \<le> r \<and> r \<le> 100" if "sn_risk s = Some r" for r
        using z_optional_bound [OF gr [unfolded that]] by (auto dest: z_int_bounds)
      ultimately show ?thesis by blast
    qed
    from 1 2 3 4 show ?thesis by blast
  qed
  with z_array_bounds [OF arr] show ?thesis by blast
qed

end
