(* ===== verification/Catalog.thy ===== *)
theory Catalog
  imports Prelude
begin

text \<open>
  \<open>apps/api/src/protections/catalog.ts\<close>: the protections an operator can switch, category by
  category, with their identifier, default mode and default state (the labels and descriptions,
  which no code reads, are left out). The lemmas show that the identifiers are distinct, so that
  the index by identifier finds each protection.
\<close>

(* src protections/catalog.ts:15-15 ProtectionMode *)
datatype protection_mode = Watch | Block

(* src protections/catalog.ts:17-23 ProtectionDef *)
record protection_def =
  pd_id :: string
  pd_defaultMode :: protection_mode
  pd_defaultEnabled :: bool

(* src protections/catalog.ts:25-29 ProtectionCategory *)
record protection_category =
  pc_id :: string
  pc_items :: "protection_def list"

(* src protections/catalog.ts:31-37 def *)
definition pdef :: "string \<Rightarrow> protection_mode \<Rightarrow> bool \<Rightarrow> protection_def" where
  "pdef i mode enabled = \<lparr>pd_id = i, pd_defaultMode = mode, pd_defaultEnabled = enabled\<rparr>"

section \<open>The categories\<close>

(* src protections/catalog.ts:40-53 PROTECTION_CATALOG/deplacement *)
definition cat_deplacement :: protection_category where
  "cat_deplacement = \<lparr>pc_id = ''deplacement'', pc_items =
     [pdef ''mv_teleport'' Block True,
      pdef ''mv_noclip'' Block True,
      pdef ''mv_superjump'' Block True,
      pdef ''mv_fly'' Block True,
      pdef ''mv_speed'' Watch True,
      pdef ''mv_accel'' Watch True,
      pdef ''mv_pos_no_event'' Block True,
      pdef ''mv_teleport_to_player'' Block True]\<rparr>"

(* src protections/catalog.ts:54-66 PROTECTION_CATALOG/joueur *)
definition cat_joueur :: protection_category where
  "cat_joueur = \<lparr>pc_id = ''joueur'', pc_items =
     [pdef ''pl_invincible'' Block True,
      pdef ''pl_health_over_max'' Block True,
      pdef ''pl_armor'' Block True,
      pdef ''pl_regen'' Watch True,
      pdef ''pl_invisible'' Watch True,
      pdef ''pl_damage_resist'' Watch True,
      pdef ''pl_ragdoll_off'' Watch False]\<rparr>"

(* src protections/catalog.ts:67-81 PROTECTION_CATALOG/armes *)
definition cat_armes :: protection_category where
  "cat_armes = \<lparr>pc_id = ''armes'', pc_items =
     [pdef ''wp_no_source'' Block True,
      pdef ''wp_ammo_illegit'' Block True,
      pdef ''wp_ammo_impossible'' Block True,
      pdef ''wp_fire_rate'' Block True,
      pdef ''wp_reload_instant'' Block True,
      pdef ''wp_no_recoil'' Watch True,
      pdef ''wp_damage_fake'' Block True,
      pdef ''wp_wallbang'' Block True,
      pdef ''wp_shots_impossible'' Watch True]\<rparr>"

(* src protections/catalog.ts:82-95 PROTECTION_CATALOG/vehicules *)
definition cat_vehicules :: protection_category where
  "cat_vehicules = \<lparr>pc_id = ''vehicules'', pc_items =
     [pdef ''vh_spawn_unauth'' Block True,
      pdef ''vh_spam'' Block True,
      pdef ''vh_forbidden_zone'' Block True,
      pdef ''vh_invincible'' Watch True,
      pdef ''vh_speed'' Watch True,
      pdef ''vh_teleport'' Block True,
      pdef ''vh_repair'' Watch True,
      pdef ''vh_model'' Watch False]\<rparr>"

(* src protections/catalog.ts:96-109 PROTECTION_CATALOG/reseau *)
definition cat_reseau :: protection_category where
  "cat_reseau = \<lparr>pc_id = ''reseau'', pc_items =
     [pdef ''nt_event_server'' Block True,
      pdef ''nt_event_bad_params'' Block True,
      pdef ''nt_antiflood'' Block True,
      pdef ''nt_event_frequency'' Block True,
      pdef ''nt_event_admin'' Block True,
      pdef ''nt_money_via_event'' Block True,
      pdef ''nt_item_no_txn'' Watch True,
      pdef ''nt_perms_via_event'' Block True]\<rparr>"

(* src protections/catalog.ts:110-123 PROTECTION_CATALOG/argent *)
definition cat_argent :: protection_category where
  "cat_argent = \<lparr>pc_id = ''argent'', pc_items =
     [pdef ''mn_create'' Block True,
      pdef ''mn_balance_jump'' Watch True,
      pdef ''mn_item_no_source'' Block True,
      pdef ''mn_qty_impossible'' Block True,
      pdef ''mn_item_dupe'' Block True,
      pdef ''mn_txn_frequency'' Watch True,
      pdef ''mn_item_not_owned'' Block True,
      pdef ''mn_inv_out_of_bounds'' Watch True]\<rparr>"

(* src protections/catalog.ts:124-135 PROTECTION_CATALOG/aimbot *)
definition cat_aimbot :: protection_category where
  "cat_aimbot = \<lparr>pc_id = ''aimbot'', pc_items =
     [pdef ''ai_precision'' Watch True,
      pdef ''ai_reaction'' Watch True,
      pdef ''ai_target_switch'' Watch True,
      pdef ''ai_walltrack'' Watch True,
      pdef ''ai_camera'' Watch False,
      pdef ''ai_headshot'' Watch False]\<rparr>"

(* src protections/catalog.ts:136-149 PROTECTION_CATALOG/spam *)
definition cat_spam :: protection_category where
  "cat_spam = \<lparr>pc_id = ''spam'', pc_items =
     [pdef ''sp_events'' Block True,
      pdef ''sp_commands'' Block True,
      pdef ''sp_entities'' Block True,
      pdef ''sp_peds'' Block True,
      pdef ''sp_objects'' Block True,
      pdef ''sp_explosions'' Block True,
      pdef ''sp_mass_delete'' Watch True,
      pdef ''sp_request_flood'' Block True]\<rparr>"

(* src protections/catalog.ts:150-158 PROTECTION_CATALOG/listes *)
definition cat_listes :: protection_category where
  "cat_listes = \<lparr>pc_id = ''listes'', pc_items =
     [pdef ''bl_ped_models'' Block True,
      pdef ''bl_object_models'' Block True,
      pdef ''expl_type_block'' Block True]\<rparr>"

(* src protections/catalog.ts:159-167 PROTECTION_CATALOG/connexion *)
definition cat_connexion :: protection_category where
  "cat_connexion = \<lparr>pc_id = ''connexion'', pc_items =
     [pdef ''conn_name_blocklist'' Block True,
      pdef ''conn_name_length'' Watch True,
      pdef ''conn_relog'' Watch True]\<rparr>"

(* src protections/catalog.ts:174-187 PROTECTION_CATALOG/aim_stat *)
definition cat_aim_stat :: protection_category where
  "cat_aim_stat = \<lparr>pc_id = ''aim_stat'', pc_items =
     [pdef ''av_headshot_ratio'' Watch True,
      pdef ''av_snap'' Watch True,
      pdef ''av_reaction'' Watch True,
      pdef ''av_silent_aim'' Block True,
      pdef ''av_shot_rewind'' Block True,
      pdef ''av_no_recoil'' Watch True,
      pdef ''av_sprt'' Watch True,
      pdef ''av_baseline'' Watch True]\<rparr>"

(* src protections/catalog.ts:188-199 PROTECTION_CATALOG/reseau_adv *)
definition cat_reseau_adv :: protection_category where
  "cat_reseau_adv = \<lparr>pc_id = ''reseau_adv'', pc_items =
     [pdef ''nw_executor'' Block True,
      pdef ''nw_injection_traces'' Block True,
      pdef ''nw_lagswitch'' Block True,
      pdef ''nw_desync'' Block True,
      pdef ''nw_event_flood'' Block True,
      pdef ''nw_clocksync'' Block True]\<rparr>"

(* src protections/catalog.ts:200-213 PROTECTION_CATALOG/integrite *)
definition cat_integrite :: protection_category where
  "cat_integrite = \<lparr>pc_id = ''integrite'', pc_items =
     [pdef ''rc_health'' Block True,
      pdef ''rc_money'' Block True,
      pdef ''rc_ammo'' Block True,
      pdef ''rc_godmode'' Block True,
      pdef ''rc_reach'' Block True,
      pdef ''rc_invariants'' Block True,
      pdef ''rc_envelope'' Block True,
      pdef ''rc_spawnkill'' Watch True]\<rparr>"

(* src protections/catalog.ts:214-223 PROTECTION_CATALOG/ressources *)
definition cat_ressources :: protection_category where
  "cat_ressources = \<lparr>pc_id = ''ressources'', pc_items =
     [pdef ''rs_stop_protected'' Block True,
      pdef ''rs_stop_anticheat'' Block True,
      pdef ''rs_backdoor'' Block True,
      pdef ''rs_crashguard'' Block True]\<rparr>"

(* src protections/catalog.ts:224-233 PROTECTION_CATALOG/comportement *)
definition cat_comportement :: protection_category where
  "cat_comportement = \<lparr>pc_id = ''comportement'', pc_items =
     [pdef ''bh_macro'' Watch True,
      pdef ''bh_trainer'' Watch True,
      pdef ''bh_reputation'' Watch True,
      pdef ''bh_freecam'' Watch True]\<rparr>"

(* src protections/catalog.ts:234-249 PROTECTION_CATALOG/sante_etat *)
definition cat_sante_etat :: protection_category where
  "cat_sante_etat = \<lparr>pc_id = ''sante_etat'', pc_items =
     [pdef ''pl_regen_block'' Block True,
      pdef ''pl_stat_mod'' Block True,
      pdef ''pl_damage_immunity'' Block True,
      pdef ''pl_infinite_stamina'' Watch True,
      pdef ''pl_combat_roll'' Watch True,
      pdef ''pl_model_change'' Block True,
      pdef ''pl_night_vision'' Watch True,
      pdef ''pl_afk_bypass'' Watch True,
      pdef ''pl_lua_input'' Block True,
      pdef ''pl_clear_tasks'' Watch True]\<rparr>"

(* src protections/catalog.ts:250-269 PROTECTION_CATALOG/armes_detail *)
definition cat_armes_detail :: protection_category where
  "cat_armes_detail = \<lparr>pc_id = ''armes_detail'', pc_items =
     [pdef ''wp_give'' Block True,
      pdef ''wp_remove'' Block True,
      pdef ''wp_spoofed_bullets'' Block True,
      pdef ''wp_kill_exploits'' Block True,
      pdef ''wp_component_mod'' Block True,
      pdef ''wp_damage_mod'' Block True,
      pdef ''wp_ammo_cheats'' Block True,
      pdef ''wp_infinite_ammo'' Block True,
      pdef ''wp_no_reload'' Block True,
      pdef ''wp_explosive_bullets'' Block True,
      pdef ''wp_super_punch'' Block True,
      pdef ''wp_hitbox'' Block True,
      pdef ''wp_blacklist'' Block True,
      pdef ''wp_projectile'' Watch True]\<rparr>"

(* src protections/catalog.ts:270-286 PROTECTION_CATALOG/vehicules_detail *)
definition cat_vehicules_detail :: protection_category where
  "cat_vehicules_detail = \<lparr>pc_id = ''vehicules_detail'', pc_items =
     [pdef ''vh_throwing'' Block True,
      pdef ''vh_deletion'' Block True,
      pdef ''vh_hijack'' Block True,
      pdef ''vh_speed_mod'' Watch True,
      pdef ''vh_handling'' Watch True,
      pdef ''vh_plate'' Watch True,
      pdef ''vh_isolated'' Block True,
      pdef ''vh_ai_spawn'' Block True,
      pdef ''vh_blacklist'' Block True,
      pdef ''vh_whitelist'' Watch False,
      pdef ''vh_limiter'' Block True]\<rparr>"

(* src protections/catalog.ts:287-299 PROTECTION_CATALOG/pnj_objets *)
definition cat_pnj_objets :: protection_category where
  "cat_pnj_objets = \<lparr>pc_id = ''pnj_objets'', pc_items =
     [pdef ''sp_ped_ai'' Block True,
      pdef ''sp_ped_blacklist'' Block True,
      pdef ''sp_ped_limiter'' Block True,
      pdef ''sp_obj_ai'' Block True,
      pdef ''sp_obj_blacklist'' Block True,
      pdef ''sp_obj_limiter'' Block True,
      pdef ''sp_pickup'' Block True]\<rparr>"

(* src protections/catalog.ts:300-312 PROTECTION_CATALOG/explosions_particules *)
definition cat_explosions_particules :: protection_category where
  "cat_explosions_particules = \<lparr>pc_id = ''explosions_particules'', pc_items =
     [pdef ''sp_expl_ai'' Block True,
      pdef ''sp_expl_blacklist'' Block True,
      pdef ''sp_expl_invisible'' Block True,
      pdef ''sp_expl_inaudible'' Block True,
      pdef ''sp_expl_limiter'' Block True,
      pdef ''sp_particle_ai'' Watch True,
      pdef ''sp_particle_attached'' Watch True]\<rparr>"

(* src protections/catalog.ts:313-324 PROTECTION_CATALOG/evenements *)
definition cat_evenements :: protection_category where
  "cat_evenements = \<lparr>pc_id = ''evenements'', pc_items =
     [pdef ''nt_server_event'' Block True,
      pdef ''nt_client_event'' Block True,
      pdef ''nt_export'' Block True,
      pdef ''nt_trigger_blacklist'' Block True,
      pdef ''nt_trigger_ratelimit'' Block True,
      pdef ''nt_xss'' Block True]\<rparr>"

(* src protections/catalog.ts:325-335 PROTECTION_CATALOG/connexion_detail *)
definition cat_connexion_detail :: protection_category where
  "cat_connexion_detail = \<lparr>pc_id = ''connexion_detail'', pc_items =
     [pdef ''conn_vpn'' Watch False,
      pdef ''conn_duplication'' Block True,
      pdef ''conn_discord_required'' Watch False,
      pdef ''conn_alphanumeric'' Watch True,
      pdef ''conn_max_threat'' Block True]\<rparr>"

(* src protections/catalog.ts:336-351 PROTECTION_CATALOG/divers_anticheat *)
definition cat_divers_anticheat :: protection_category where
  "cat_divers_anticheat = \<lparr>pc_id = ''divers_anticheat'', pc_items =
     [pdef ''rs_resource_injection'' Block True,
      pdef ''rs_dev_tools'' Watch True,
      pdef ''rs_spoofer'' Block True,
      pdef ''rs_voice'' Watch True,
      pdef ''rs_synaps'' Block True,
      pdef ''rs_cheat_traces'' Watch True,
      pdef ''rs_sound'' Watch True,
      pdef ''rs_forced_ragdoll'' Block True,
      pdef ''rs_vehicle_bomb'' Block True,
      pdef ''rs_magneto'' Watch False]\<rparr>"

(* src protections/catalog.ts:357-367 PROTECTION_CATALOG/exploits_joueur *)
definition cat_exploits_joueur :: protection_category where
  "cat_exploits_joueur = \<lparr>pc_id = ''exploits_joueur'', pc_items =
     [pdef ''pl_fake_handcuff'' Block True,
      pdef ''pl_revive_exploit'' Block True,
      pdef ''rc_maxstats'' Block True,
      pdef ''mv_parkour'' Block True,
      pdef ''mv_sliderun'' Watch True]\<rparr>"

(* src protections/catalog.ts:368-377 PROTECTION_CATALOG/manip_autrui *)
definition cat_manip_autrui :: protection_category where
  "cat_manip_autrui = \<lparr>pc_id = ''manip_autrui'', pc_items =
     [pdef ''nt_player_grab'' Block True,
      pdef ''nt_unjail'' Block True,
      pdef ''nt_radio_join'' Block True,
      pdef ''nt_dynamic_triggers'' Block True]\<rparr>"

(* src protections/catalog.ts:378-387 PROTECTION_CATALOG/construction_entites *)
definition cat_construction_entites :: protection_category where
  "cat_construction_entites = \<lparr>pc_id = ''construction_entites'', pc_items =
     [pdef ''sp_construct'' Block True,
      pdef ''sp_physgun'' Block True,
      pdef ''vh_attach'' Block True,
      pdef ''vh_spoof'' Block True]\<rparr>"

(* src protections/catalog.ts:388-396 PROTECTION_CATALOG/combat_deloyal *)
definition cat_combat_deloyal :: protection_category where
  "cat_combat_deloyal = \<lparr>pc_id = ''combat_deloyal'', pc_items =
     [pdef ''wp_silentkill'' Block True,
      pdef ''av_triggerbot'' Watch True,
      pdef ''av_no_spread'' Watch True]\<rparr>"

(* src protections/catalog.ts:397-404 PROTECTION_CATALOG/reseau_desync *)
definition cat_reseau_desync :: protection_category where
  "cat_reseau_desync = \<lparr>pc_id = ''reseau_desync'', pc_items =
     [pdef ''nw_fakelag'' Block True,
      pdef ''nw_forcedesync'' Block True]\<rparr>"

(* src protections/catalog.ts:405-413 PROTECTION_CATALOG/anti_contournement *)
definition cat_anti_contournement :: protection_category where
  "cat_anti_contournement = \<lparr>pc_id = ''anti_contournement'', pc_items =
     [pdef ''rs_ac_bypass'' Block True,
      pdef ''rs_screenshot_tamper'' Block True,
      pdef ''rs_scan_evasion'' Block True]\<rparr>"

(* src protections/catalog.ts:414-424 PROTECTION_CATALOG/fonctions_avancees *)
definition cat_fonctions_avancees :: protection_category where
  "cat_fonctions_avancees = \<lparr>pc_id = ''fonctions_avancees'', pc_items =
     [pdef ''sp_particles'' Block False,
      pdef ''nt_fakechat'' Block True,
      pdef ''rs_resource_control'' Block True,
      pdef ''rc_keepalive'' Watch False,
      pdef ''nt_solo_session'' Block False]\<rparr>"

(* src protections/catalog.ts:39-39 PROTECTION_CATALOG *)
definition protection_catalog :: "protection_category list" where
  "protection_catalog =
     [cat_deplacement, cat_joueur, cat_armes, cat_vehicules,
      cat_reseau, cat_argent, cat_aimbot, cat_spam,
      cat_listes, cat_connexion, cat_aim_stat, cat_reseau_adv,
      cat_integrite, cat_ressources, cat_comportement, cat_sante_etat,
      cat_armes_detail, cat_vehicules_detail, cat_pnj_objets, cat_explosions_particules,
      cat_evenements, cat_connexion_detail, cat_divers_anticheat, cat_exploits_joueur,
      cat_manip_autrui, cat_construction_entites, cat_combat_deloyal, cat_reseau_desync,
      cat_anti_contournement, cat_fonctions_avancees]"

definition catalog_items :: "protection_def list" where
  "catalog_items = concat (map pc_items protection_catalog)"

(* src protections/catalog.ts:428-430 PROTECTION_BY_ID *)
definition protection_by_id :: "string \<Rightarrow> protection_def option" where
  "protection_by_id i = map_of (rev (map (\<lambda>d. (pd_id d, d)) catalog_items)) i"

(* src protections/catalog.ts:432-432 PROTECTION_COUNT *)
definition protection_count :: nat where
  "protection_count = card (dom protection_by_id)"

section \<open>Identifiers\<close>

text \<open>A number per identifier that already tells the 194 of them apart: it decides their distinctness fast.\<close>

definition id_number :: "string \<Rightarrow> int" where
  "id_number s = foldl (\<lambda>n c. (n * 7 + of_char c) mod 2249) 0 s"

lemma catalog_numbers_distinct: "distinct (map (\<lambda>d. id_number (pd_id d)) catalog_items)"
  by code_simp

lemma catalog_ids_distinct: "distinct (map pd_id catalog_items)"
proof -
  have "distinct (map id_number (map pd_id catalog_items))" using catalog_numbers_distinct by (simp add: comp_def)
  then show ?thesis by (simp only: distinct_map)
qed

lemma catalog_length: "length catalog_items = 194"
  by code_simp

text \<open>The identifiers of the catalogue are distinct; the index finds every protection under its own
  identifier and nothing else, and its size is the number of protections, 194.\<close>

theorem catalog_index:
  "(protection_by_id i = Some d \<longleftrightarrow> d \<in> set catalog_items \<and> pd_id d = i) \<and> protection_count = 194"
proof -
  let ?kv = "map (\<lambda>d. (pd_id d, d)) catalog_items"
  have fst: "map fst (rev ?kv) = rev (map pd_id catalog_items)" by (simp add: rev_map comp_def)
  then have dist: "distinct (map fst (rev ?kv))" using catalog_ids_distinct by simp
  have "map_of (rev ?kv) i = Some d \<longleftrightarrow> (i, d) \<in> set (rev ?kv)" for i d
    using map_of_eq_Some_iff [OF dist] by simp
  then have iff: "protection_by_id i = Some d \<longleftrightarrow> d \<in> set catalog_items \<and> pd_id d = i" for i d
    by (auto simp: protection_by_id_def)
  have "dom protection_by_id = pd_id ` set catalog_items"
    by (auto simp: dom_def iff)
  moreover have "card (pd_id ` set catalog_items) = length (map pd_id catalog_items)"
    using distinct_card [OF catalog_ids_distinct] by simp
  ultimately show ?thesis using iff catalog_length by (simp add: protection_count_def)
qed

end
