(* ===== verification/Witnesses.thy ===== *)
theory Witnesses
  imports Gateway_Samples Respond Schemas Rbac Catalog
begin

text \<open>
  Applications of the properties of the gateway, the transactions, the roles and the schemas to
  concrete values at which their hypotheses hold.
\<close>

section \<open>Identifiers, codes, canonical strings\<close>

theorem newId_shape_and_return_witness:
  "\<exists>s. newId ''org'' [replicate 26 0] = Some (''org_'' @ s) \<and> length s = 26"
proof -
  have "26 \<le> length (filter (\<lambda>b. b < 248) (concat [replicate 26 (0::byte)]))" by simp
  then obtain i where i: "newId ''org'' [replicate 26 0] = Some i"
    using newId_shape_and_return [of "''org''" "[replicate 26 0]"] by blast
  with newId_shape_and_return [of "''org''" "[replicate 26 0]" i]
  obtain s where "i = ''org'' @ ''_'' @ s" "length s = 26" by blast
  with i show ?thesis by auto
qed

theorem base32_rejection_is_biased_witness: "accepted_bytes 0 = 8 \<and> accepted_bytes 31 = 7"
  using base32_rejection_is_biased by auto

definition zero_hmac :: crypto where
  "zero_hmac = sample_crypto\<lparr>c_hmac_sha1 := (\<lambda>k m. replicate 20 0)\<rparr>"

lemma zero_code: "totpCodeForStep zero_hmac [] 100 = Inr ''000000''"
proof -
  have "pad_start totp_digits (CHR ''0'') (string_of_nat 0) = ''000000''" by code_simp
  moreover have "base32Decode [] = Inr []" by code_simp
  moreover have "byte_at (replicate 20 0) n = 0" for n by (simp add: byte_at_def)
  ultimately show ?thesis
    by (simp add: totpCodeForStep_def zero_hmac_def sample_crypto_def Let_def)
qed

theorem verifyTotp_sound_witness:
  "verifyTotp zero_hmac [] ''000 000'' (Some 99) 3000000 (Some 0) = Inr (Totp_valid 100) \<and>
   totpCodeForStep zero_hmac [] 100 = Inr ''000000'' \<and> \<bar>100 - currentStep 3000000\<bar> \<le> 0"
proof -
  have cl: "filter (\<lambda>ch. \<not> js_space ch) ''000 000'' = ''000000''" by code_simp
  have d: "matches_class digit_chars 6 6 ''000000''" by code_simp
  have st: "currentStep 3000000 = 100" by (simp add: currentStep_def step_seconds_def)
  have v: "verifyTotp zero_hmac [] ''000 000'' (Some 99) 3000000 (Some 0) = Inr (Totp_valid 100)"
    unfolding verifyTotp_def cl st Let_def
    by (simp add: d zero_code coalesce_default_def)
  from verifyTotp_sound [OF v] v cl show ?thesis by (simp add: coalesce_default_def)
qed

theorem recovery_code_once_witness:
  "fst (consumeRecoveryCode sample_crypto (recovery_code [1, 2, 3, 4, 5])
      (snd (generateRecoveryCodes sample_crypto [[1, 2, 3, 4, 5], [9, 9, 9, 9, 9]])))"
  using recovery_code_once [of "[1, 2, 3, 4, 5]" "[[1, 2, 3, 4, 5], [9, 9, 9, 9, 9]]" sample_crypto] by auto

definition sample_parts :: canonical_request_parts where
  "sample_parts = \<lparr>q_method = ''post'', q_path = ''/agent/v1/heartbeat'', q_query = [], q_agentId = ''a'',
     q_serverId = ''s'', q_keyId = ''k'', q_timestamp = ''100'', q_nonce = ''00'', q_bodyHash = ''ff''\<rparr>"

theorem canonicalRequest_determines_witness:
  "canonicalRequest sample_parts = canonicalRequest (sample_parts\<lparr>q_method := ''POST''\<rparr>) \<and>
   to_upper (q_method sample_parts) = ''POST''"
proof -
  have e: "canonicalRequest sample_parts = canonicalRequest (sample_parts\<lparr>q_method := ''POST''\<rparr>)" by code_simp
  have "request_clean sample_parts" "request_clean (sample_parts\<lparr>q_method := ''POST''\<rparr>)" by code_simp+
  from canonicalRequest_determines [OF e this] have "to_upper (q_method sample_parts) = to_upper ''POST''" by simp
  with e show ?thesis by (simp add: to_upper_def upper_letters_def lower_letters_def)
qed

definition sample_reply_parts :: canonical_response_parts where
  "sample_reply_parts = \<lparr>s_status = 200, s_requestId = ''r'', s_timestamp = 100, s_nonce = ''00'', s_bodyHash = ''ff''\<rparr>"

theorem canonicalResponse_determines_witness:
  "canonicalResponse sample_reply_parts = canonicalResponse (sample_reply_parts\<lparr>s_status := 100 + 100\<rparr>) \<and>
   s_status sample_reply_parts = 100 + 100"
proof -
  have e: "canonicalResponse sample_reply_parts = canonicalResponse (sample_reply_parts\<lparr>s_status := 100 + 100\<rparr>)"
    by (simp add: sample_reply_parts_def)
  have "response_clean sample_reply_parts" "response_clean (sample_reply_parts\<lparr>s_status := 100 + 100\<rparr>)"
    by (simp_all add: response_clean_def sample_reply_parts_def LF_def)
  from canonicalResponse_determines [OF e this] e show ?thesis by simp
qed

section \<open>Roles and members\<close>

theorem matrix_monotone_witness: "can OWNER Server_delete \<and> can ADMIN Server_read \<and> can OWNER Server_read"
  using matrix_monotone [of ADMIN OWNER Server_read] matrix_monotone [of OWNER OWNER Server_delete]
  by (simp add: less_eq_role_def can_def)

definition two_owners :: members where
  "two_owners = [''ann'' \<mapsto> OWNER, ''bob'' \<mapsto> OWNER]"

lemma two_owners_step: "member_step two_owners (two_owners(''bob'' \<mapsto> VIEWER))"
  by (rule member_step.Change [where actor = "''ann''" and ar = OWNER and tr = OWNER])
    (simp_all add: two_owners_def owners_upd checkRoleChange_None less_eq_role_def, simp add: owners_def)

theorem owner_kept_witness: "owners (two_owners(''bob'' \<mapsto> VIEWER)) \<noteq> {}"
  by (rule owner_kept [OF r_into_rtranclp [of member_step, OF two_owners_step]])
    (simp_all add: two_owners_def owners_upd)

theorem no_escalation_witness:
  "let ctx = \<lparr>rc_actorRole = ADMIN, rc_actorUserId = ''ann'', rc_targetUserId = ''bob'',
       rc_targetCurrentRole = VIEWER, rc_targetNewRole = STAFF, rc_ownerCount = 1\<rparr>
   in checkRoleChange ctx = None \<and> rc_targetNewRole ctx \<noteq> OWNER"
proof -
  let ?ctx = "\<lparr>rc_actorRole = ADMIN, rc_actorUserId = ''ann'', rc_targetUserId = ''bob'',
       rc_targetCurrentRole = VIEWER, rc_targetNewRole = STAFF, rc_ownerCount = 1\<rparr>"
  have "checkRoleChange ?ctx = None" by (simp add: checkRoleChange_None can_def less_eq_role_def)
  from no_escalation [OF this] this show ?thesis by simp
qed

section \<open>Transactions\<close>

definition sample_conn :: "nat conn" where
  "sample_conn = \<lparr>cn_store = 5, cn_tx = None, cn_session = no_settings, cn_in_use = 0\<rparr>"


theorem rls_is_organization_filter_witness:
  "rls_select (policy_or (tenant_isolation fst)
      (policy_or platform_admin_all (policy_or agent_credential_lookup (membership_self_read snd))))
     (no_settings\<lparr>set_org := Some ''a''\<rparr>) [(''a'', ''u''), (''b'', ''u'')] = [(''a'', ''u'')]"
  using rls_is_organization_filter [of fst snd "''a''" "[(''a'', ''u''), (''b'', ''u'')]"] by simp

section \<open>Documents\<close>

theorem remote_config_bounded_witness:
  "remote_config_ok [(''heartbeat_interval'', JInt 30)]"
proof -
  have "remoteConfigSchema (JObj [(''heartbeat_interval'', JInt 30)]) = Some [(''heartbeat_interval'', JInt 30)]"
    by code_simp
  from remote_config_bounded [OF this] show ?thesis by simp
qed

theorem catalog_index_witness: "\<exists>i d. protection_by_id i = Some d \<and> pd_id d = i"
proof -
  have "length catalog_items = 194" by (rule catalog_length)
  then have "hd catalog_items \<in> set catalog_items" by (intro hd_in_set) auto
  with catalog_index [of "pd_id (hd catalog_items)" "hd catalog_items"] show ?thesis by blast
qed

theorem alerts_payload_bounded_witness:
  "\<exists>a. alertsPayloadSchema (JObj [(''alerts'', JArr [JObj [(''id'', JStr ''a1''), (''category'', JStr ''weapon''),
      (''severity'', JStr ''HIGH''), (''summary'', JStr ''s''), (''occurred_at'', JInt 5)]])]) = Some [a] \<and>
     matches_class id_chars 1 64 (ai_id a)"
proof -
  let ?j = "JObj [(''alerts'', JArr [JObj [(''id'', JStr ''a1''), (''category'', JStr ''weapon''),
      (''severity'', JStr ''HIGH''), (''summary'', JStr ''s''), (''occurred_at'', JInt 5)]])]"
  have "map_option length (alertsPayloadSchema ?j) = Some 1" by code_simp
  then obtain a where a: "alertsPayloadSchema ?j = Some [a]" by (auto simp: length_Suc_conv)
  from alerts_payload_bounded [OF this] have "matches_class id_chars 1 64 (ai_id a)" by simp
  with a show ?thesis by blast
qed

section \<open>The gateway\<close>

theorem gateway_auth_sound_witness:
  "\<exists>ctx w'. gateway_auth sample_js sample_crypto sample_redis sample_config (sample_clock 5000) no_faults
     (sample_request ''/agent/v1/heartbeat'') [] \<lparr>gw_db = sample_db, gw_redis = []\<rparr> = (Inr ctx, w') \<and>
     gw_db w' = sample_db \<and> cx_agentId ctx = sample_agent_id"
proof -
  obtain ctx w' where a: "sample_gateway ''/agent/v1/heartbeat'' = (Inr ctx, w')" and i: "cx_agentId ctx = sample_agent_id"
    using sample_gateway_ok by (metis prod.collapse)
  from gateway_auth_sound [OF a [unfolded sample_gateway_def]] have "gw_db w' = sample_db" by simp
  with a i show ?thesis unfolding sample_gateway_def by blast
qed

definition sample_entry :: "time_ms \<Rightarrow> gw_entry" where
  "sample_entry t = \<lparr>ge_clock = sample_clock t, ge_faults = no_faults, ge_db = sample_db,
     ge_request = sample_request ''/agent/v1/heartbeat'', ge_body = []\<rparr>"

theorem no_request_accepted_twice_witness:
  "length (gateway_run sample_js sample_crypto sample_redis sample_config [] [sample_entry 5000, sample_entry 9000]) = 1 \<and>
   sorted_wrt (\<lambda>x y. \<not> same_request (snd x) (snd y))
     (gateway_run sample_js sample_crypto sample_redis sample_config [] [sample_entry 5000, sample_entry 9000])"
proof -
  have o: "entries_ordered 0 [sample_entry 5000, sample_entry 9000]" by code_simp
  have "2000 * gc_skewSeconds sample_config + 1000 + 0 \<le> 1000 * gc_ttlSeconds sample_config"
    by (simp add: sample_config_def)
  from no_request_accepted_twice [OF sample_redis_laws o this]
  have "sorted_wrt (\<lambda>x y. \<not> same_request (snd x) (snd y))
     (gateway_run sample_js sample_crypto sample_redis sample_config [] [sample_entry 5000, sample_entry 9000])" .
  moreover have "length (gateway_run sample_js sample_crypto sample_redis sample_config []
      [sample_entry 5000, sample_entry 9000]) = 1" by code_simp
  ultimately show ?thesis by simp
qed

end
