(* ===== verification/Effects.thy ===== *)
theory Effects
  imports Tables
begin

text \<open>
  What the handlers share: the world they change (the database and the events handed to Redis),
  the range of the integer columns, the text of the enumerations, and what an organization owns.
\<close>

lemma sql_update_ex:
  "\<exists>r \<in> set rows. Q r \<Longrightarrow> (\<And>r. Q r \<Longrightarrow> Q (f r)) \<Longrightarrow> \<exists>r \<in> set (sql_update P f rows). Q r"
  by (induction rows) auto

section \<open>Events\<close>

text \<open>
  An event as it is handed to \<open>PUBLISH\<close>: the channel of an organization, a type and a payload. The
  call never fails for the caller (\<open>publish\<close> swallows the error), so the log of calls is the effect.
\<close>

record event =
  pe_organization_id :: string
  pe_type :: string
  pe_payload :: json

record world =
  wd_db :: db
  wd_events :: "event list"

(* src agent-gateway/service.ts:76-85 publish *)
definition publish :: "string \<Rightarrow> string \<Rightarrow> (string \<times> json) list \<Rightarrow> world \<Rightarrow> world" where
  "publish organizationId type payload w =
     w\<lparr>wd_events := wd_events w @
        [\<lparr>pe_organization_id = organizationId, pe_type = type, pe_payload = JObj payload\<rparr>]\<rparr>"

text \<open>A transaction of an organization, as a step of the world.\<close>

definition world_tx :: "string \<Rightarrow> faults \<Rightarrow> (db \<Rightarrow> 'a result \<times> db) \<Rightarrow> world \<Rightarrow> 'a result \<times> world" where
  "world_tx org f fn w =
     (case tenant_db org f (\<lambda>s. fn) (wd_db w) of (r, d) \<Rightarrow> (r, w\<lparr>wd_db := d\<rparr>))"

text \<open>An operation on the database alone, as a step of the world.\<close>

definition on_db :: "(db \<Rightarrow> 'a \<times> db) \<Rightarrow> world \<Rightarrow> 'a \<times> world" where
  "on_db op w = (case op (wd_db w) of (r, d) \<Rightarrow> (r, w\<lparr>wd_db := d\<rparr>))"

text \<open>The function of a transaction is reached.\<close>

definition tx_enters :: "string \<Rightarrow> faults \<Rightarrow> bool" where
  "tx_enters org f = (org_id_ok org \<and> \<not> f_connect f \<and> \<not> f_begin f \<and> \<not> f_set f)"

lemma publish_db [simp]: "wd_db (publish org ty fs w) = wd_db w"
  by (simp add: publish_def)

lemma publish_events [simp]:
  "wd_events (publish org ty fs w) =
     wd_events w @ [\<lparr>pe_organization_id = org, pe_type = ty, pe_payload = JObj fs\<rparr>]"
  by (simp add: publish_def)

lemma world_tx_events [simp]: "wd_events (snd (world_tx org f fn w)) = wd_events w"
  by (simp add: world_tx_def split: prod.split)

lemma world_tx_Inr:
  assumes "world_tx org f fn w = (Inr r, w')"
  shows "fn (wd_db w) = (Inr r, wd_db w')" and "org_id_ok org" and "wd_events w' = wd_events w"
    and "w' = w\<lparr>wd_db := wd_db w'\<rparr>"
proof -
  obtain r0 d where t: "tenant_db org f (\<lambda>s. fn) (wd_db w) = (r0, d)" by fastforce
  with assms have r: "r0 = Inr r" and w: "w' = w\<lparr>wd_db := d\<rparr>" by (simp_all add: world_tx_def)
  from t r tenant_db_Inr [of org f "\<lambda>s. fn" "wd_db w" r d] show "fn (wd_db w) = (Inr r, wd_db w')" "org_id_ok org"
    by (simp_all add: w)
  show "wd_events w' = wd_events w" "w' = w\<lparr>wd_db := wd_db w'\<rparr>" by (simp_all add: w)
qed

lemma world_tx_Inl: "world_tx org f fn w = (Inl e, w') \<Longrightarrow> w' = w"
  by (auto simp: world_tx_def split: prod.splits dest: tenant_db_Inl)

lemma world_tx_ok:
  "org_id_ok org \<Longrightarrow> fn (wd_db w) = (Inr r, d') \<Longrightarrow> world_tx org no_faults fn w = (Inr r, w\<lparr>wd_db := d'\<rparr>)"
  by (simp add: world_tx_def tenant_db_ok)

lemma world_tx_keeps:
  assumes "Q (wd_db w)" and "\<And>r d'. fn (wd_db w) = (Inr r, d') \<Longrightarrow> Q d'"
  shows "Q (wd_db (snd (world_tx org f fn w)))"
proof -
  have "Q (snd (tenant_db org f (\<lambda>s. fn) (wd_db w)))"
    using assms by (intro tenant_db_keeps [where Q = Q]) auto
  then show ?thesis by (cases "tenant_db org f (\<lambda>s. fn) (wd_db w)") (simp add: world_tx_def)
qed

section \<open>Values\<close>

text \<open>An \<open>integer\<close> and a \<open>bigint\<close> column refuse a value out of their range.\<close>

definition int4_ok :: "int \<Rightarrow> bool" where "int4_ok i = (- (2 ^ 31) \<le> i \<and> i < 2 ^ 31)"
definition int8_ok :: "int \<Rightarrow> bool" where "int8_ok i = (- (2 ^ 63) \<le> i \<and> i < 2 ^ 63)"

definition opt_ok :: "('a \<Rightarrow> bool) \<Rightarrow> 'a option \<Rightarrow> bool" where
  "opt_ok P v = (case v of None \<Rightarrow> True | Some x \<Rightarrow> P x)"

definition out_of_range :: exn where "out_of_range = Thrown ''out_of_range''"

text \<open>A \<open>numeric(_, n)\<close> column rounds half away from zero; the values stored here are not negative.\<close>

definition numeric_scale :: "nat \<Rightarrow> rat \<Rightarrow> rat" where
  "numeric_scale n q = of_int \<lfloor>q * 10 ^ n + 1 / 2\<rfloor> / 10 ^ n"

primrec severity_name :: "severity \<Rightarrow> string" where
  "severity_name Sev_info = ''INFO''"
| "severity_name Sev_low = ''LOW''"
| "severity_name Sev_medium = ''MEDIUM''"
| "severity_name Sev_high = ''HIGH''"
| "severity_name Sev_critical = ''CRITICAL''"

primrec server_state_name :: "server_state \<Rightarrow> string" where
  "server_state_name State_online = ''ONLINE''"
| "server_state_name State_degraded = ''DEGRADED''"
| "server_state_name State_offline = ''OFFLINE''"
| "server_state_name State_unknown = ''UNKNOWN''"

primrec health_name :: "health_state \<Rightarrow> string" where
  "health_name Healthy = ''HEALTHY''"
| "health_name Health_degraded = ''DEGRADED''"
| "health_name Health_failed = ''FAILED''"
| "health_name Health_unknown = ''UNKNOWN''"

primrec command_result_name :: "command_result \<Rightarrow> string" where
  "command_result_name Res_completed = ''COMPLETED''"
| "command_result_name Res_failed = ''FAILED''"
| "command_result_name Res_rejected = ''REJECTED''"
| "command_result_name Res_duplicate = ''DUPLICATE''"

primrec ban_status_name :: "ban_status \<Rightarrow> string" where
  "ban_status_name Ban_active = ''ACTIVE''"
| "ban_status_name Ban_expired = ''EXPIRED''"
| "ban_status_name Ban_lifted = ''LIFTED''"
| "ban_status_name Ban_pending = ''PENDING''"
| "ban_status_name Ban_kicked = ''KICKED''"
| "ban_status_name Ban_dismissed = ''DISMISSED''"

definition j_opt :: "('a \<Rightarrow> json) \<Rightarrow> 'a option \<Rightarrow> json" where
  "j_opt f v = (case v of None \<Rightarrow> JNull | Some x \<Rightarrow> f x)"

text \<open>The fields \<open>...v\<close> gives, for a value that came out of a \<open>jsonb\<close> column.\<close>

definition spread_fields :: "json \<Rightarrow> (string \<times> json) list" where
  "spread_fields v =
     (case v of
        JObj fs \<Rightarrow> fs
      | JArr xs \<Rightarrow> zip (map (\<lambda>i. string_of_nat i) [0..<length xs]) xs
      | JStr s \<Rightarrow> zip (map (\<lambda>i. string_of_nat i) [0..<length s]) (map (\<lambda>ch. JStr [ch]) s)
      | _ \<Rightarrow> [])"

section \<open>What an organization owns\<close>

text \<open>
  The rows that carry organization \<open>o\<close>. An operation confined to another organization leaves
  them as they are.
\<close>

definition inside :: "('r \<Rightarrow> 'k) \<Rightarrow> 'k \<Rightarrow> 'r list \<Rightarrow> 'r list" where
  "inside org o' rows = filter (\<lambda>r. org r = o') rows"

lemma inside_outside: "o1 \<noteq> o2 \<Longrightarrow> inside org o1 (outside org o2 rows) = inside org o1 rows"
  by (auto simp: inside_def outside_def intro!: filter_cong)

definition owned :: "string \<Rightarrow> db \<Rightarrow> db" where
  "owned o' d = empty_db
     \<lparr>memberships := inside me_organization_id o' (memberships d),
      invitations := inside iv_organization_id o' (invitations d),
      servers := inside sv_organization_id o' (servers d),
      agents := inside ag_organization_id o' (agents d),
      credentials := inside cr_organization_id o' (credentials d),
      telemetry_samples := inside tm_organization_id o' (telemetry_samples d),
      server_protections := inside sp_organization_id o' (server_protections d),
      protection_settings := inside st_organization_id o' (protection_settings d),
      licenses := inside li_organization_id o' (licenses d),
      agent_commands := inside cm_organization_id o' (agent_commands d),
      alerts := inside al_organization_id o' (alerts d),
      incidents := inside in_organization_id o' (incidents d),
      incident_events := inside ie_organization_id o' (incident_events d),
      bans := inside bn_organization_id o' (bans d),
      detection_feedback := inside fb_organization_id o' (detection_feedback d),
      ban_appeals := inside ap_organization_id o' (ban_appeals d),
      security_rules := inside ru_organization_id o' (security_rules d),
      captures := inside cp_organization_id o' (captures d),
      audit_logs := filter (\<lambda>r. au_organization_id r = Some o') (audit_logs d)\<rparr>"

lemma inside_outside_opt:
  "o1 \<noteq> o2 \<Longrightarrow> filter (\<lambda>r. org r \<noteq> Some o2 \<and> org r = Some o1) rows = filter (\<lambda>r. org r = Some o1) rows"
  by (induction rows) auto

lemma owned_foreign: "o1 \<noteq> o2 \<Longrightarrow> owned o1 (foreign o2 d) = owned o1 d"
  by (simp add: owned_def foreign_def inside_outside inside_outside_opt)

lemma confined_owned: "confined o2 d d' \<Longrightarrow> o1 \<noteq> o2 \<Longrightarrow> owned o1 d' = owned o1 d"
  by (metis confined_def owned_foreign)

section \<open>The contract of a handler of agents\<close>

text \<open>
  A handler is a step of the world for a caller of an organization; it is confined to it, and the
  events it publishes go to the channel of that organization.
\<close>

definition own_events :: "string \<Rightarrow> world \<Rightarrow> world \<Rightarrow> bool" where
  "own_events org w w' = (\<exists>es. wd_events w' = wd_events w @ es \<and> (\<forall>e \<in> set es. pe_organization_id e = org))"

lemma own_events_refl [simp]: "own_events org w w"
  by (simp add: own_events_def)

lemma own_events_trans: "own_events org w w' \<Longrightarrow> own_events org w' w'' \<Longrightarrow> own_events org w w''"
  unfolding own_events_def by (metis append.assoc Un_iff set_append)

lemma own_events_publish: "own_events org w w' \<Longrightarrow> own_events org w (publish org ty fs w')"
  by (rule own_events_trans) (auto simp: own_events_def)

lemma own_events_same: "wd_events w' = wd_events w \<Longrightarrow> own_events org w w'"
  by (simp add: own_events_def)

definition scoped :: "string \<Rightarrow> world \<Rightarrow> world \<Rightarrow> bool" where
  "scoped org w w' = (confined org (wd_db w) (wd_db w') \<and> own_events org w w')"

lemma scoped_refl [simp]: "scoped org w w"
  by (simp add: scoped_def)

lemma scoped_trans: "scoped org w w' \<Longrightarrow> scoped org w' w'' \<Longrightarrow> scoped org w w''"
  unfolding scoped_def using confined_trans own_events_trans by blast

lemma scoped_publish: "scoped org w w' \<Longrightarrow> scoped org w (publish org ty fs w')"
  by (simp add: scoped_def own_events_publish)

lemma scoped_tx:
  "(\<And>r d'. fn (wd_db w) = (Inr r, d') \<Longrightarrow> confined org (wd_db w) d') \<Longrightarrow>
   scoped org w (snd (world_tx org f fn w))"
  using world_tx_keeps [of "confined org (wd_db w)" w fn org f]
  by (simp add: scoped_def own_events_same)

lemma scoped_on_db: "confined org (wd_db w) (snd (op (wd_db w))) \<Longrightarrow> scoped org w (snd (on_db op w))"
  by (cases "op (wd_db w)") (simp add: on_db_def scoped_def own_events_same)

text \<open>Any sequence of calls: the world it leaves.\<close>

fun run_all :: "('c \<Rightarrow> world \<Rightarrow> 'r \<times> world) \<Rightarrow> 'c list \<Rightarrow> world \<Rightarrow> world" where
  "run_all run [] w = w"
| "run_all run (c # cs) w = run_all run cs (snd (run c w))"

locale scoped_handler =
  fixes org :: "'c \<Rightarrow> string" and run :: "'c \<Rightarrow> world \<Rightarrow> 'r \<times> world"
  assumes scoped: "scoped (org c) w (snd (run c w))"
begin

lemma run_owned: "org c \<noteq> o' \<Longrightarrow> owned o' (wd_db (snd (run c w))) = owned o' (wd_db w)"
  using scoped [of c w] confined_owned [of "org c" _ _ o'] by (auto simp: scoped_def)

lemma run_all_owned:
  "\<forall>c \<in> set cs. org c \<noteq> o' \<Longrightarrow> owned o' (wd_db (run_all run cs w)) = owned o' (wd_db w)"
  by (induction cs arbitrary: w) (simp_all add: run_owned)

lemma run_all_events:
  "\<exists>es. wd_events (run_all run cs w) = wd_events w @ es \<and> (\<forall>e \<in> set es. pe_organization_id e \<in> org ` set cs)"
proof (induction cs arbitrary: w)
  case (Cons c cs)
  obtain es where "wd_events (snd (run c w)) = wd_events w @ es" "\<forall>e \<in> set es. pe_organization_id e = org c"
    using scoped [of c w] by (auto simp: scoped_def own_events_def)
  moreover obtain es' where "wd_events (run_all run cs (snd (run c w))) = wd_events (snd (run c w)) @ es'"
    "\<forall>e \<in> set es'. pe_organization_id e \<in> org ` set cs" using Cons.IH by blast
  ultimately show ?case by (intro exI [of _ "es @ es'"]) auto
qed simp

end

end
