(* ===== verification/Agent_Session.thy ===== *)
theory Agent_Session
  imports Effects Credentials Authenticate Schemas
begin

text \<open>
  \<open>apps/api/src/agent-gateway/service.ts\<close>, the life of the connection of an agent: \<open>handshake\<close>,
  \<open>heartbeat\<close> and \<open>rotate\<close>. Each of them writes under \<open>withTenant\<close>, with the organization of the
  credential; the metadata of the audit rows are not kept.
\<close>

text \<open>The instants and the failures of the transactions one request opens, in order.\<close>

record svc_env =
  xe_now :: time_ms
  xe_faults :: faults
  xe_now2 :: time_ms
  xe_faults2 :: faults

section \<open>Constraints of the tables\<close>

definition agent_id_ok :: "string \<Rightarrow> bool" where
  "agent_id_ok s = matches_prefixed ''agt_'' lower_alnum 26 s"

definition server_row_ok :: "server_row \<Rightarrow> bool" where
  "server_row_ok r =
     (opt_ok (\<lambda>s. length s \<le> 1000) (sv_last_error r) \<and> opt_ok (\<lambda>s. length s \<le> 32) (sv_agent_version r) \<and>
      opt_ok (\<lambda>v. 1 \<le> v \<and> v \<le> 100) (sv_protocol_version r) \<and> opt_ok (\<lambda>n. 0 \<le> n) (sv_uptime_seconds r) \<and>
      opt_ok (\<lambda>n. 0 \<le> n) (sv_players_online r) \<and> opt_ok (\<lambda>n. 0 \<le> n) (sv_max_players r) \<and>
      opt_ok (\<lambda>s. length s \<le> 64) (sv_fxserver_version r) \<and> opt_ok (\<lambda>s. length s \<le> 32) (sv_onesync r) \<and>
      opt_ok (\<lambda>n. 0 \<le> n) (sv_queue_size r))"

text \<open>\<open>UPDATE servers \<dots> WHERE organization_id = $1 AND id = $2 AND deleted_at IS NULL RETURNING \<dots>\<close>.\<close>

definition update_server :: "string \<Rightarrow> string \<Rightarrow> (server_row \<Rightarrow> server_row) \<Rightarrow> db \<Rightarrow> server_row option result \<times> db" where
  "update_server org sid f d =
     (case first_row (live_server org sid) (servers d) of
        None \<Rightarrow> (Inr None, d)
      | Some r \<Rightarrow>
          if \<not> server_row_ok (f r) then (Inl Check_violation, d)
          else (Inr (Some (f r)), d\<lparr>servers := sql_update (live_server org sid) f (servers d)\<rparr>))"

section \<open>Handshake\<close>

definition agent_row_of :: "string \<Rightarrow> string \<Rightarrow> string \<Rightarrow> string list \<Rightarrow> time_ms \<Rightarrow> agent_row" where
  "agent_row_of org sid aid caps now =
     \<lparr>ag_id = aid, ag_organization_id = org, ag_server_id = sid, ag_handshake_at = Some now,
      ag_handshake_count = 1, ag_capabilities = caps, ag_last_request_at = Some now\<rparr>"

definition same_agent :: "string \<Rightarrow> string \<Rightarrow> agent_row \<Rightarrow> bool" where
  "same_agent org aid r = (ag_organization_id r = org \<and> ag_id r = aid)"

definition renew_agent :: "string list \<Rightarrow> time_ms \<Rightarrow> agent_row \<Rightarrow> agent_row" where
  "renew_agent caps now r =
     r\<lparr>ag_handshake_at := Some now, ag_handshake_count := ag_handshake_count r + 1, ag_capabilities := caps,
       ag_last_request_at := Some now\<rparr>"

text \<open>
  The conflict target is \<open>(organization_id, id)\<close>; the other two unique indexes of the table (the
  identifier, and one agent per server) still raise.
\<close>

(* src agent-gateway/service.ts:94-104 handshake/agents *)
definition upsert_agent :: "string \<Rightarrow> string \<Rightarrow> string \<Rightarrow> string list \<Rightarrow> time_ms \<Rightarrow> db \<Rightarrow> unit result \<times> db" where
  "upsert_agent org sid aid caps now d =
     (if exists_row (same_agent org aid) (agents d)
      then (Inr (), d\<lparr>agents := sql_update (same_agent org aid) (renew_agent caps now) (agents d)\<rparr>)
      else if \<not> agent_id_ok aid then (Inl Check_violation, d)
      else if exists_row (\<lambda>r. ag_id r = aid \<or> (ag_organization_id r = org \<and> ag_server_id r = sid)) (agents d)
      then (Inl Unique_violation, d)
      else if \<not> server_exists org sid d then (Inl Foreign_key_violation, d)
      else (Inr (), d\<lparr>agents := agents d @ [agent_row_of org sid aid caps now]\<rparr>))"

definition server_field :: "(handshake_server \<Rightarrow> 'a option) \<Rightarrow> handshake_payload \<Rightarrow> 'a option" where
  "server_field f p = (case hp_server p of None \<Rightarrow> None | Some s \<Rightarrow> f s)"

(* src agent-gateway/service.ts:113-136 handshake/servers *)
definition handshake_row :: "agent_auth_context \<Rightarrow> handshake_payload \<Rightarrow> time_ms \<Rightarrow> server_row \<Rightarrow> server_row" where
  "handshake_row ctx p now r =
     r\<lparr>sv_connected_at := coalesce (sv_connected_at r) (Some now), sv_state := State_online,
       sv_agent_version := Some (cx_agentVersion ctx), sv_protocol_version := Some (cx_protocolVersion ctx),
       sv_fxserver_version := coalesce (server_field hs_fxserver_version p) (sv_fxserver_version r),
       sv_onesync := coalesce (server_field hs_onesync p) (sv_onesync r),
       sv_max_players := coalesce (server_field hs_max_players p) (sv_max_players r),
       sv_uptime_seconds := coalesce (server_field hs_uptime_seconds p) (sv_uptime_seconds r),
       sv_last_heartbeat_at := Some now, sv_updated_at := now\<rparr>"

definition agent_audit :: "string \<Rightarrow> string \<Rightarrow> string \<Rightarrow> string \<Rightarrow> time_ms \<Rightarrow> audit_row" where
  "agent_audit org aid action sid now =
     \<lparr>au_organization_id = Some org, au_actor_user_id = None, au_actor_kind = ''agent'', au_actor_label = Some aid,
      au_action = action, au_target_id = Some sid, au_created_at = now\<rparr>"

definition organization_name :: "string \<Rightarrow> db \<Rightarrow> string option" where
  "organization_name org d = map_option og_name (first_row (\<lambda>o'. og_id o' = org) (organizations d))"

(* src agent-gateway/service.ts:93-155 handshake/transaction *)
definition handshake_tx :: "time_ms \<Rightarrow> agent_auth_context \<Rightarrow> handshake_payload \<Rightarrow> db \<Rightarrow>
    (server_row \<times> string option) option result \<times> db" where
  "handshake_tx now ctx p d =
     (let cr = cx_credential ctx; org = rc_organizationId cr; sid = rc_serverId cr; aid = rc_agentId cr in
      case upsert_agent org sid aid (coalesce_default (hp_capabilities p) []) now d of
        (Inl e, d1) \<Rightarrow> (Inl e, d1)
      | (Inr _, d1) \<Rightarrow>
          if \<not> int4_ok (cx_protocolVersion ctx) \<or> \<not> opt_ok int8_ok (server_field hs_uptime_seconds p)
          then (Inl out_of_range, d1)
          else (case update_server org sid (handshake_row ctx p now) d1 of
              (Inl e, d2) \<Rightarrow> (Inl e, d2)
            | (Inr None, d2) \<Rightarrow> (Inr None, d2)
            | (Inr (Some r), d2) \<Rightarrow>
                (Inr (Some (r, organization_name org d2)), append_audit (agent_audit org aid ''agent.handshake'' sid now) d2)))"

(* src agent-gateway/service.ts:170-177 handshake/reply *)
definition handshake_reply :: "agent_auth_context \<Rightarrow> server_row \<Rightarrow> string option \<Rightarrow> (string \<times> json) list" where
  "handshake_reply ctx r oname =
     [(''api_version'', JInt protocol_version), (''min_agent_protocol'', JInt min_agent_protocol),
      (''organization'', j_opt JStr oname), (''server_name'', JStr (sv_name r)),
      (''key_id'', JStr (rc_keyId (cx_credential ctx))),
      (''config'', JObj (obj_spread [(''config_version'', JInt (sv_config_version r))]
                          (spread_fields (sv_remote_config r))))]"

(* src agent-gateway/service.ts:90-178 handshake *)
definition handshake :: "svc_env \<Rightarrow> agent_auth_context \<Rightarrow> handshake_payload \<Rightarrow> world \<Rightarrow>
    (string \<times> json) list option result \<times> world" where
  "handshake x ctx p w =
     (let cr = cx_credential ctx; org = rc_organizationId cr in
      case world_tx org (xe_faults x) (handshake_tx (xe_now x) ctx p) w of
        (Inl e, w1) \<Rightarrow> (Inl e, w1)
      | (Inr None, w1) \<Rightarrow> (Inr None, w1)
      | (Inr (Some (r, oname)), w1) \<Rightarrow>
          (case (if rc_status cr = Cred_pending_rotation
                 then on_db (commitRotation org (rc_keyId cr) (xe_now2 x) (xe_faults2 x)) w1 else (Inr (), w1)) of
             (Inl e, w2) \<Rightarrow> (Inl e, w2)
           | (Inr _, w2) \<Rightarrow>
               (Inr (Some (handshake_reply ctx r oname)),
                publish org ''agent.connected''
                  [(''server_id'', JStr (rc_serverId cr)), (''agent_id'', JStr (rc_agentId cr)),
                   (''agent_version'', JStr (cx_agentVersion ctx))] w2)))"

section \<open>Heartbeat\<close>

(* src agent-gateway/service.ts:189-200 heartbeat/state *)
definition displayed_state :: "agent_state \<Rightarrow> health_state \<Rightarrow> server_state" where
  "displayed_state state health =
     (if health = Health_failed then State_degraded
      else if state = Online then (if health = Health_degraded then State_degraded else State_online)
      else if state = Degraded then State_degraded
      else if state = Stopping \<or> state = Offline then State_offline
      else State_unknown)"

(* src agent-gateway/service.ts:202-231 heartbeat/servers *)
definition heartbeat_row :: "heartbeat_payload \<Rightarrow> time_ms \<Rightarrow> server_row \<Rightarrow> server_row" where
  "heartbeat_row p now r =
     r\<lparr>sv_state := displayed_state (hb_state p) (hb_health p), sv_health := hb_health p,
       sv_last_heartbeat_at := Some now, sv_agent_version := Some (hb_agent_version p),
       sv_protocol_version := Some (hb_protocol_version p), sv_uptime_seconds := Some (hb_uptime_seconds p),
       sv_players_online := coalesce (hb_players_online p) (sv_players_online r),
       sv_queue_size := Some (hb_queue_size p), sv_last_error := coalesce (hb_last_error p) (sv_last_error r),
       sv_last_error_at := (case hb_last_error p of None \<Rightarrow> sv_last_error_at r | Some _ \<Rightarrow> Some now),
       sv_updated_at := now\<rparr>"

(* src agent-gateway/service.ts:238-245 heartbeat/fingerprint *)
definition store_fingerprint :: "string \<Rightarrow> string \<Rightarrow> string option \<Rightarrow> db \<Rightarrow> db" where
  "store_fingerprint org sid fp d =
     (if truthy fp
      then d\<lparr>servers := sql_update (\<lambda>r. sv_organization_id r = org \<and> sv_id r = sid \<and> sv_fingerprint r \<noteq> fp)
               (\<lambda>r. r\<lparr>sv_fingerprint := fp\<rparr>) (servers d)\<rparr>
      else d)"

(* src agent-gateway/service.ts:247-251 heartbeat/agents *)
definition touch_agent :: "string \<Rightarrow> string \<Rightarrow> time_ms \<Rightarrow> db \<Rightarrow> db" where
  "touch_agent org aid now d =
     d\<lparr>agents := sql_update (same_agent org aid) (\<lambda>r. r\<lparr>ag_last_request_at := Some now\<rparr>) (agents d)\<rparr>"

text \<open>A command of the server that is still to be delivered or answered.\<close>

definition open_command :: "string \<Rightarrow> string \<Rightarrow> command_row \<Rightarrow> bool" where
  "open_command org sid c =
     (cm_organization_id c = org \<and> cm_server_id c = sid \<and> (cm_status c = Cmd_pending \<or> cm_status c = Cmd_sent))"

(* src agent-gateway/service.ts:253-260 heartbeat/pending *)
definition commands_pending :: "string \<Rightarrow> string \<Rightarrow> time_ms \<Rightarrow> db \<Rightarrow> nat" where
  "commands_pending org sid now d = row_count (\<lambda>c. open_command org sid c \<and> now < cm_expires_at c) (agent_commands d)"

(* src agent-gateway/service.ts:186-277 heartbeat/transaction *)
definition heartbeat_tx :: "time_ms \<Rightarrow> agent_auth_context \<Rightarrow> heartbeat_payload \<Rightarrow> db \<Rightarrow>
    (nat \<times> int) option result \<times> db" where
  "heartbeat_tx now ctx p d =
     (let org = rc_organizationId (cx_credential ctx); sid = rc_serverId (cx_credential ctx) in
      if \<not> int4_ok (hb_queue_size p) \<or> \<not> int8_ok (hb_uptime_seconds p) then (Inl out_of_range, d)
      else (case update_server org sid (heartbeat_row p now) d of
          (Inl e, d1) \<Rightarrow> (Inl e, d1)
        | (Inr None, d1) \<Rightarrow> (Inr None, d1)
        | (Inr (Some r), d1) \<Rightarrow>
            (let d2 = touch_agent org (cx_agentId ctx) now (store_fingerprint org sid (hb_server_fingerprint p) d1)
             in (Inr (Some (commands_pending org sid now d2, sv_config_version r)), d2))))"

definition some_result :: "'a option result \<Rightarrow> bool" where
  "some_result r = (case r of Inl e \<Rightarrow> False | Inr v \<Rightarrow> v \<noteq> None)"

text \<open>
  The event is published by the function of the transaction itself, before \<open>COMMIT\<close>: it goes out
  whenever the function gets that far, also when the commit then fails.
\<close>

(* src agent-gateway/service.ts:183-278 heartbeat *)
definition heartbeat :: "svc_env \<Rightarrow> agent_auth_context \<Rightarrow> heartbeat_payload \<Rightarrow> world \<Rightarrow>
    (nat \<times> int) option result \<times> world" where
  "heartbeat x ctx p w =
     (let org = rc_organizationId (cx_credential ctx); sid = rc_serverId (cx_credential ctx) in
      case world_tx org (xe_faults x) (heartbeat_tx (xe_now x) ctx p) w of
        (r, w1) \<Rightarrow>
          (r, if tx_enters org (xe_faults x) \<and> some_result (fst (heartbeat_tx (xe_now x) ctx p (wd_db w)))
              then publish org ''server.health_changed''
                [(''server_id'', JStr sid),
                 (''state'', JStr (server_state_name (displayed_state (hb_state p) (hb_health p)))),
                 (''health'', JStr (health_name (hb_health p))),
                 (''players_online'', j_opt JInt (hb_players_online p)), (''queue_size'', JInt (hb_queue_size p))] w1
              else w1))"

section \<open>Rotation\<close>

(* src agent-gateway/service.ts:703-730 rotate *)
definition rotate_credential :: "crypto \<Rightarrow> bytes \<Rightarrow> issue_random \<Rightarrow> svc_env \<Rightarrow> agent_auth_context \<Rightarrow> string option \<Rightarrow> world \<Rightarrow>
    (string \<times> string) result \<times> world" where
  "rotate_credential c key rnd x ctx reason w =
     (let cr = cx_credential ctx; org = rc_organizationId cr in
      case on_db (beginRotation c key rnd (xe_faults x) cr) w of
        (Inl e, w1) \<Rightarrow> (Inl e, w1)
      | (Inr issued, w1) \<Rightarrow>
          (case world_tx org (xe_faults2 x)
             (\<lambda>d. (Inr (), append_audit (agent_audit org (cx_agentId ctx) ''credential.rotation_started'' (rc_serverId cr) (xe_now2 x)) d)) w1 of
             (Inl e, w2) \<Rightarrow> (Inl e, w2)
           | (Inr _, w2) \<Rightarrow> (Inr issued, w2)))"

section \<open>Confinement\<close>

lemma update_server_Inr:
  assumes "update_server org sid f d = (Inr (Some r'), d')"
  obtains r where "first_row (live_server org sid) (servers d) = Some r" "r' = f r" "server_row_ok (f r)"
    "d' = d\<lparr>servers := sql_update (live_server org sid) f (servers d)\<rparr>"
  using assms by (auto simp: update_server_def split: option.splits if_splits)

lemma update_server_None: "update_server org sid f d = (Inr None, d') \<Longrightarrow> d' = d \<and> first_row (live_server org sid) (servers d) = None"
  by (auto simp: update_server_def split: option.splits if_splits)

lemma servers_update_confined:
  assumes "\<And>r. sv_organization_id (f r) = sv_organization_id r" and "\<And>r. P r \<Longrightarrow> sv_organization_id r = org"
  shows "confined org d (d\<lparr>servers := sql_update P f (servers d)\<rparr>)"
  by (rule confined_tables(3)) (rule outside_update, use assms in auto)

lemma agents_update_confined:
  assumes "\<And>r. ag_organization_id (f r) = ag_organization_id r" and "\<And>r. P r \<Longrightarrow> ag_organization_id r = org"
  shows "confined org d (d\<lparr>agents := sql_update P f (agents d)\<rparr>)"
  by (rule confined_tables(4)) (rule outside_update, use assms in auto)

lemma update_server_confined:
  assumes "\<And>r. sv_organization_id (f r) = sv_organization_id r"
  shows "confined org d (snd (update_server org sid f d))"
proof -
  have "confined org d (d\<lparr>servers := sql_update (live_server org sid) f (servers d)\<rparr>)"
    by (rule servers_update_confined) (use assms in \<open>auto simp: live_server_def\<close>)
  then show ?thesis by (simp add: update_server_def split: option.split)
qed

lemma upsert_agent_confined: "confined org d (snd (upsert_agent org sid aid caps now d))"
proof -
  have "confined org d (d\<lparr>agents := sql_update (same_agent org aid) (renew_agent caps now) (agents d)\<rparr>)"
    by (rule agents_update_confined) (auto simp: same_agent_def renew_agent_def)
  moreover have "confined org d (d\<lparr>agents := agents d @ [agent_row_of org sid aid caps now]\<rparr>)"
    by (rule confined_tables(4)) (simp add: outside_simps agent_row_of_def)
  ultimately show ?thesis by (simp add: upsert_agent_def)
qed

lemma agent_audit_confined: "confined org d (append_audit (agent_audit org aid action sid now) d)"
  by (rule confined_audit) (simp add: agent_audit_def)

lemma handshake_row_fields [simp]:
  "sv_organization_id (handshake_row ctx p now r) = sv_organization_id r" "sv_id (handshake_row ctx p now r) = sv_id r"
  "sv_deleted_at (handshake_row ctx p now r) = sv_deleted_at r"
  by (simp_all add: handshake_row_def)

lemma heartbeat_row_fields [simp]:
  "sv_organization_id (heartbeat_row h now r) = sv_organization_id r" "sv_id (heartbeat_row h now r) = sv_id r"
  "sv_deleted_at (heartbeat_row h now r) = sv_deleted_at r"
  by (simp_all add: heartbeat_row_def)

lemma handshake_tx_Inr:
  assumes "handshake_tx now ctx p d = (Inr (Some (r', oname)), d')"
  obtains d1 r where "upsert_agent (rc_organizationId (cx_credential ctx)) (rc_serverId (cx_credential ctx))
      (rc_agentId (cx_credential ctx)) (coalesce_default (hp_capabilities p) []) now d = (Inr (), d1)"
    "first_row (live_server (rc_organizationId (cx_credential ctx)) (rc_serverId (cx_credential ctx))) (servers d1) = Some r"
    "r' = handshake_row ctx p now r"
    "d' = append_audit (agent_audit (rc_organizationId (cx_credential ctx)) (rc_agentId (cx_credential ctx)) ''agent.handshake''
             (rc_serverId (cx_credential ctx)) now)
           (d1\<lparr>servers := sql_update (live_server (rc_organizationId (cx_credential ctx)) (rc_serverId (cx_credential ctx)))
               (handshake_row ctx p now) (servers d1)\<rparr>)"
proof -
  obtain u d1 where u: "upsert_agent (rc_organizationId (cx_credential ctx)) (rc_serverId (cx_credential ctx))
      (rc_agentId (cx_credential ctx)) (coalesce_default (hp_capabilities p) []) now d = (u, d1)" by fastforce
  obtain v d2 where v: "update_server (rc_organizationId (cx_credential ctx)) (rc_serverId (cx_credential ctx))
      (handshake_row ctx p now) d1 = (v, d2)" by fastforce
  have "u = Inr ()" and "v = Inr (Some r')" and d': "d' = append_audit (agent_audit (rc_organizationId (cx_credential ctx))
      (rc_agentId (cx_credential ctx)) ''agent.handshake'' (rc_serverId (cx_credential ctx)) now) d2"
    using assms by (auto simp: handshake_tx_def Let_def u v split: sum.splits if_splits option.splits)
  from update_server_Inr [OF v [unfolded \<open>v = Inr (Some r')\<close>]] obtain r where
    "first_row (live_server (rc_organizationId (cx_credential ctx)) (rc_serverId (cx_credential ctx))) (servers d1) = Some r"
    "r' = handshake_row ctx p now r"
    "d2 = d1\<lparr>servers := sql_update (live_server (rc_organizationId (cx_credential ctx)) (rc_serverId (cx_credential ctx)))
               (handshake_row ctx p now) (servers d1)\<rparr>" by blast
  with u \<open>u = Inr ()\<close> d' show ?thesis by (intro that) simp_all
qed

lemma handshake_tx_confined:
  assumes "handshake_tx now ctx p d = (Inr res, d')"
  shows "confined (rc_organizationId (cx_credential ctx)) d d'"
proof -
  let ?org = "rc_organizationId (cx_credential ctx)"
  obtain u d1 where u: "upsert_agent ?org (rc_serverId (cx_credential ctx))
      (rc_agentId (cx_credential ctx)) (coalesce_default (hp_capabilities p) []) now d = (u, d1)" by fastforce
  obtain v d2 where v: "update_server ?org (rc_serverId (cx_credential ctx)) (handshake_row ctx p now) d1 = (v, d2)"
    by fastforce
  have 1: "confined ?org d d1" using upsert_agent_confined u by (metis snd_conv)
  have 2: "confined ?org d1 d2"
    using update_server_confined [of "handshake_row ctx p now" ?org d1 "rc_serverId (cx_credential ctx)"] v by simp
  have "snd (handshake_tx now ctx p d) \<in> {d1, d2,
      append_audit (agent_audit ?org (rc_agentId (cx_credential ctx)) ''agent.handshake'' (rc_serverId (cx_credential ctx)) now) d2}"
    by (simp add: handshake_tx_def Let_def u v split: sum.split option.split)
  then consider "d' = d1" | "d' = d2"
    | "d' = append_audit (agent_audit ?org (rc_agentId (cx_credential ctx)) ''agent.handshake'' (rc_serverId (cx_credential ctx)) now) d2"
    using assms by auto
  then show ?thesis
    by cases (use 1 2 confined_trans agent_audit_confined in blast)+
qed

lemma store_fingerprint_confined: "confined org d (store_fingerprint org sid fp d)"
proof (cases "truthy fp")
  case True
  have "confined org d (d\<lparr>servers := sql_update (\<lambda>r. sv_organization_id r = org \<and> sv_id r = sid \<and> sv_fingerprint r \<noteq> fp)
      (\<lambda>r. r\<lparr>sv_fingerprint := fp\<rparr>) (servers d)\<rparr>)" by (rule servers_update_confined) auto
  with True show ?thesis by (simp add: store_fingerprint_def)
qed (simp add: store_fingerprint_def)

lemma touch_agent_confined: "confined org d (touch_agent org aid now d)"
  unfolding touch_agent_def by (rule agents_update_confined) (auto simp: same_agent_def)

lemma heartbeat_tx_confined:
  assumes "heartbeat_tx now ctx p d = (Inr res, d')"
  shows "confined (rc_organizationId (cx_credential ctx)) d d'"
proof -
  let ?org = "rc_organizationId (cx_credential ctx)" and ?sid = "rc_serverId (cx_credential ctx)"
  obtain v d1 where v: "update_server ?org ?sid (heartbeat_row p now) d = (v, d1)" by fastforce
  have 1: "confined ?org d d1"
    using update_server_confined [of "heartbeat_row p now" ?org d ?sid] v by simp
  have "snd (heartbeat_tx now ctx p d) \<in> {d, d1,
      touch_agent ?org (cx_agentId ctx) now (store_fingerprint ?org ?sid (hb_server_fingerprint p) d1)}"
    by (simp add: heartbeat_tx_def Let_def v split: sum.split option.split)
  then consider "d' = d" | "d' = d1"
    | "d' = touch_agent ?org (cx_agentId ctx) now (store_fingerprint ?org ?sid (hb_server_fingerprint p) d1)"
    using assms by auto
  then show ?thesis
    by cases (use 1 confined_trans touch_agent_confined store_fingerprint_confined confined_refl in blast)+
qed

lemma commitRotation_confined: "confined org d (snd (commitRotation org k now f d))"
proof -
  have "outside cr_organization_id org (promote org k rows) = outside cr_organization_id org rows" for rows
    unfolding promote_def by (rule outside_update) auto
  moreover have "outside cr_organization_id org (supersede org now old rows) = outside cr_organization_id org rows" for old rows
    unfolding supersede_def by (cases old) (simp, simp, rule outside_update, auto)
  ultimately have "confined org d (d\<lparr>credentials := commit_body org k now p d\<rparr>)" for p
    by (intro confined_tables(5)) (simp add: commit_body_def)
  then show ?thesis using commit_credentials [of org k now f d] by auto
qed

lemma beginRotation_confined: "confined (rc_organizationId cr) d (snd (beginRotation c key rnd f cr d))"
proof -
  have "confined (rc_organizationId cr) d (d\<lparr>credentials := credentials d @ [r]\<rparr>)"
    if "cr_organization_id r = rc_organizationId cr" for r
    by (rule confined_tables(5)) (simp add: outside_simps that)
  then show ?thesis
    using issue_credentials [of c key rnd f "\<lparr>is_organizationId = rc_organizationId cr, is_serverId = rc_serverId cr,
        is_agentId = rc_agentId cr, is_createdBy = None, is_supersedesKeyId = Some (rc_keyId cr),
        is_status = Some Cred_pending_rotation\<rparr>" d]
    by (auto simp: beginRotation_def)
qed

section \<open>Every handler is scoped\<close>

lemma handshake_scoped: "scoped (rc_organizationId (cx_credential ctx)) w (snd (handshake x ctx p w))"
proof -
  let ?org = "rc_organizationId (cx_credential ctx)"
  obtain res w1 where t: "world_tx ?org (xe_faults x) (handshake_tx (xe_now x) ctx p) w = (res, w1)" by fastforce
  have 1: "scoped ?org w w1"
    using scoped_tx [of "handshake_tx (xe_now x) ctx p" w ?org "xe_faults x"] handshake_tx_confined t by (metis snd_conv)
  obtain u w2 where c: "(if rc_status (cx_credential ctx) = Cred_pending_rotation
      then on_db (commitRotation ?org (rc_keyId (cx_credential ctx)) (xe_now2 x) (xe_faults2 x)) w1 else (Inr (), w1)) = (u, w2)"
    by fastforce
  have "scoped ?org w1 w2"
    using scoped_on_db [of ?org w1 "commitRotation ?org (rc_keyId (cx_credential ctx)) (xe_now2 x) (xe_faults2 x)"]
      commitRotation_confined c by (auto split: if_splits)
  with 1 have 2: "scoped ?org w w2" by (rule scoped_trans)
  show ?thesis
    using 1 2 unfolding handshake_def Let_def t
    by (cases res; cases "projr res") (auto simp del: if_split simp: c scoped_publish split: sum.split)
qed

lemma heartbeat_scoped: "scoped (rc_organizationId (cx_credential ctx)) w (snd (heartbeat x ctx p w))"
proof -
  let ?org = "rc_organizationId (cx_credential ctx)"
  have "scoped ?org w (snd (world_tx ?org (xe_faults x) (heartbeat_tx (xe_now x) ctx p) w))"
    by (rule scoped_tx) (rule heartbeat_tx_confined)
  then show ?thesis
    by (cases "world_tx ?org (xe_faults x) (heartbeat_tx (xe_now x) ctx p) w") (simp add: heartbeat_def Let_def scoped_publish)
qed

lemma rotate_scoped: "scoped (rc_organizationId (cx_credential ctx)) w (snd (rotate_credential c key rnd x ctx reason w))"
proof -
  let ?org = "rc_organizationId (cx_credential ctx)"
  let ?fn = "\<lambda>d. (Inr (), append_audit (agent_audit ?org (cx_agentId ctx) ''credential.rotation_started''
      (rc_serverId (cx_credential ctx)) (xe_now2 x)) d) :: unit result \<times> db"
  obtain r w1 where b: "on_db (beginRotation c key rnd (xe_faults x) (cx_credential ctx)) w = (r, w1)" by fastforce
  have 1: "scoped ?org w w1"
    using scoped_on_db [of ?org w "beginRotation c key rnd (xe_faults x) (cx_credential ctx)"] beginRotation_confined b
    by simp
  obtain u w2 where a: "world_tx ?org (xe_faults2 x) ?fn w1 = (u, w2)" by fastforce
  have "scoped ?org w1 (snd (world_tx ?org (xe_faults2 x) ?fn w1))"
    by (rule scoped_tx) (auto simp: agent_audit_confined)
  with a have "scoped ?org w1 w2" by simp
  with 1 have 2: "scoped ?org w w2" by (rule scoped_trans)
  show ?thesis using 1 2 by (simp add: rotate_credential_def Let_def b a split: sum.split)
qed

section \<open>What a heartbeat reports\<close>

lemma displayed_online:
  "displayed_state state health = State_online \<longleftrightarrow> state = Online \<and> health \<noteq> Health_failed \<and> health \<noteq> Health_degraded"
  by (simp add: displayed_state_def)

definition fingerprint_row :: "string option \<Rightarrow> server_row \<Rightarrow> server_row" where
  "fingerprint_row fp r = (if truthy fp then r\<lparr>sv_fingerprint := fp\<rparr> else r)"

text \<open>The rows of a server after a heartbeat that found it.\<close>

lemma heartbeat_tx_Inr:
  assumes "heartbeat_tx now ctx p d = (Inr (Some (n, v)), d')"
  obtains r where "first_row (live_server (rc_organizationId (cx_credential ctx)) (rc_serverId (cx_credential ctx))) (servers d) = Some r"
    "fingerprint_row (hb_server_fingerprint p) (heartbeat_row p now r) \<in> set (servers d')" "v = sv_config_version r"
    "n = commands_pending (rc_organizationId (cx_credential ctx)) (rc_serverId (cx_credential ctx)) now d'"
proof -
  let ?org = "rc_organizationId (cx_credential ctx)" and ?sid = "rc_serverId (cx_credential ctx)"
  obtain u d1 where u: "update_server ?org ?sid (heartbeat_row p now) d = (u, d1)" by fastforce
  obtain r' where u': "u = Inr (Some r')" and v: "v = sv_config_version r'"
    and d': "d' = touch_agent ?org (cx_agentId ctx) now (store_fingerprint ?org ?sid (hb_server_fingerprint p) d1)"
    and n: "n = commands_pending ?org ?sid now d'"
    using assms by (auto simp: heartbeat_tx_def Let_def u split: sum.splits if_splits option.splits)
  obtain r where
    r: "first_row (live_server ?org ?sid) (servers d) = Some r" "r' = heartbeat_row p now r"
    and "d1 = d\<lparr>servers := sql_update (live_server ?org ?sid) (heartbeat_row p now) (servers d)\<rparr>"
    using u [unfolded u'] by (rule update_server_Inr)
  then have d1: "servers d1 = sql_update (live_server ?org ?sid) (heartbeat_row p now) (servers d)" by simp
  have in_d: "r \<in> set (servers d)" and live: "live_server ?org ?sid r" using first_row_SomeD [OF r(1)] by blast+
  have "heartbeat_row p now r \<in> set (servers d1)"
    unfolding d1 in_sql_update using in_d live by (intro bexI [of _ r]) simp_all
  moreover have "live_server ?org ?sid (heartbeat_row p now r)" using live by (simp add: live_server_def)
  ultimately have "fingerprint_row (hb_server_fingerprint p) (heartbeat_row p now r) \<in>
      set (servers (store_fingerprint ?org ?sid (hb_server_fingerprint p) d1))"
    by (force simp: store_fingerprint_def fingerprint_row_def in_sql_update live_server_def
        intro!: bexI [of _ "heartbeat_row p now r"])
  then have "fingerprint_row (hb_server_fingerprint p) (heartbeat_row p now r) \<in> set (servers d')"
    by (simp add: d' touch_agent_def)
  moreover have "v = sv_config_version r" by (simp add: v r(2) heartbeat_row_def)
  ultimately show ?thesis using r(1) n by (intro that)
qed

lemma heartbeat_Inr:
  assumes "heartbeat x ctx p w = (Inr (Some res), w')"
  shows "heartbeat_tx (xe_now x) ctx p (wd_db w) = (Inr (Some res), wd_db w')"
    and "\<exists>fs. wd_events w' = wd_events w @ [\<lparr>pe_organization_id = rc_organizationId (cx_credential ctx),
        pe_type = ''server.health_changed'', pe_payload = JObj fs\<rparr>]"
proof -
  let ?org = "rc_organizationId (cx_credential ctx)"
  obtain r w1 where t: "world_tx ?org (xe_faults x) (heartbeat_tx (xe_now x) ctx p) w = (r, w1)" by fastforce
  with assms have r: "r = Inr (Some res)" by (simp add: heartbeat_def Let_def)
  note w1 = world_tx_Inr [OF t [unfolded r]]
  have "tx_enters ?org (xe_faults x)"
    using t by (auto simp: tx_enters_def r world_tx_def tenant_db_cases split: if_splits)
  moreover have "some_result (fst (heartbeat_tx (xe_now x) ctx p (wd_db w)))"
    by (simp add: w1(1) some_result_def)
  ultimately show "heartbeat_tx (xe_now x) ctx p (wd_db w) = (Inr (Some res), wd_db w')"
    "\<exists>fs. wd_events w' = wd_events w @ [\<lparr>pe_organization_id = ?org, pe_type = ''server.health_changed'', pe_payload = JObj fs\<rparr>]"
    using assms t w1 by (auto simp: heartbeat_def Let_def)
qed

text \<open>A heartbeat that succeeds found the server of the credential, and leaves it with the state deduced
  from what was reported: it is shown online only when the agent is online and its health neither
  failed nor degraded. What the agent did not report keeps its old value, the reply counts the commands
  that wait for it, and one event goes to its own organization.\<close>

theorem heartbeat_reports:
  assumes "heartbeat x ctx p w = (Inr (Some (n, v)), w')"
  shows "(\<exists>r \<in> set (servers (wd_db w)). \<exists>r' \<in> set (servers (wd_db w')).
      live_server (rc_organizationId (cx_credential ctx)) (rc_serverId (cx_credential ctx)) r \<and>
      live_server (rc_organizationId (cx_credential ctx)) (rc_serverId (cx_credential ctx)) r' \<and>
      (sv_state r' = State_online \<longleftrightarrow> hb_state p = Online \<and> hb_health p \<noteq> Health_failed \<and> hb_health p \<noteq> Health_degraded) \<and>
      sv_health r' = hb_health p \<and> sv_last_heartbeat_at r' = Some (xe_now x) \<and>
      sv_players_online r' = coalesce (hb_players_online p) (sv_players_online r) \<and>
      sv_last_error r' = coalesce (hb_last_error p) (sv_last_error r) \<and>
      sv_connected_at r' = sv_connected_at r \<and> sv_remote_config r' = sv_remote_config r \<and>
      v = sv_config_version r) \<and>
    n = commands_pending (rc_organizationId (cx_credential ctx)) (rc_serverId (cx_credential ctx)) (xe_now x) (wd_db w') \<and>
    (\<exists>fs. wd_events w' = wd_events w @ [\<lparr>pe_organization_id = rc_organizationId (cx_credential ctx),
        pe_type = ''server.health_changed'', pe_payload = JObj fs\<rparr>])"
proof -
  let ?org = "rc_organizationId (cx_credential ctx)" and ?sid = "rc_serverId (cx_credential ctx)"
  from heartbeat_tx_Inr [OF heartbeat_Inr(1) [OF assms]] obtain r where
    r: "first_row (live_server ?org ?sid) (servers (wd_db w)) = Some r"
    and r': "fingerprint_row (hb_server_fingerprint p) (heartbeat_row p (xe_now x) r) \<in> set (servers (wd_db w'))"
    and v: "v = sv_config_version r" and n: "n = commands_pending ?org ?sid (xe_now x) (wd_db w')" by blast
  let ?r' = "fingerprint_row (hb_server_fingerprint p) (heartbeat_row p (xe_now x) r)"
  have in_w: "r \<in> set (servers (wd_db w))" and live: "live_server ?org ?sid r" using first_row_SomeD [OF r] by blast+
  moreover have "live_server ?org ?sid ?r'" using live by (simp add: live_server_def fingerprint_row_def)
  moreover have "sv_state ?r' = displayed_state (hb_state p) (hb_health p) \<and> sv_health ?r' = hb_health p \<and>
      sv_last_heartbeat_at ?r' = Some (xe_now x) \<and>
      sv_players_online ?r' = coalesce (hb_players_online p) (sv_players_online r) \<and>
      sv_last_error ?r' = coalesce (hb_last_error p) (sv_last_error r) \<and>
      sv_connected_at ?r' = sv_connected_at r \<and> sv_remote_config ?r' = sv_remote_config r"
    by (simp add: fingerprint_row_def heartbeat_row_def)
  ultimately show ?thesis
    using r' v n heartbeat_Inr(2) [OF assms] displayed_online [of "hb_state p" "hb_health p"]
    by (intro conjI bexI [OF _ in_w] bexI [OF _ r']) simp_all
qed

section \<open>What a handshake completes\<close>

lemma upsert_agent_credentials [simp]: "credentials (snd (upsert_agent org sid aid caps now d)) = credentials d"
  by (simp add: upsert_agent_def)

lemma handshake_tx_credentials:
  assumes "handshake_tx now ctx p d = (Inr (Some res), d')"
  shows "credentials d' = credentials d"
proof -
  obtain r' oname where res: "res = (r', oname)" by fastforce
  from assms [unfolded res] obtain d1 where
    u: "upsert_agent (rc_organizationId (cx_credential ctx)) (rc_serverId (cx_credential ctx))
      (rc_agentId (cx_credential ctx)) (coalesce_default (hp_capabilities p) []) now d = (Inr (), d1)"
    and d': "credentials d' = credentials d1" by (rule handshake_tx_Inr) simp
  have "credentials d1 = credentials d" using upsert_agent_credentials u by (metis snd_conv)
  with d' show ?thesis by simp
qed

lemma handshake_Inr:
  assumes "handshake x ctx p w = (Inr (Some reply), w')" and "rc_status (cx_credential ctx) = Cred_pending_rotation"
  obtains d1 where "credentials d1 = credentials (wd_db w)"
    "commitRotation (rc_organizationId (cx_credential ctx)) (rc_keyId (cx_credential ctx)) (xe_now2 x) (xe_faults2 x) d1
       = (Inr (), wd_db w')"
proof -
  let ?org = "rc_organizationId (cx_credential ctx)"
  obtain t w1 where t: "world_tx ?org (xe_faults x) (handshake_tx (xe_now x) ctx p) w = (t, w1)" by fastforce
  obtain u d2 where c: "commitRotation ?org (rc_keyId (cx_credential ctx)) (xe_now2 x) (xe_faults2 x) (wd_db w1) = (u, d2)"
    by fastforce
  from assms obtain res where t': "t = Inr (Some res)" unfolding handshake_def Let_def t
    by (cases t; cases "projr t") (auto split: sum.splits)
  then have "wd_db w' = d2 \<and> u = Inr ()" using assms unfolding handshake_def Let_def t
    by (cases res) (auto simp: on_db_def c split: sum.splits)
  moreover have "credentials (wd_db w1) = credentials (wd_db w)"
    using world_tx_Inr(1) [OF t [unfolded t']] by (rule handshake_tx_credentials)
  ultimately show ?thesis using c by (intro that [of "wd_db w1"]) simp_all
qed

lemma commitRotation_pending:
  assumes c: "commitRotation org k now f d = (Inr (), d')" and p: "first_row (pending_key org k) (credentials d) = Some p"
  shows "credentials d' = commit_body org k now p d \<and> credentials_unique (credentials d')"
proof -
  have "commit_tx org k now d = (Inr (), d')" using c unfolding commitRotation_def by (rule tenant_db_Inr(1))
  with p show ?thesis
    by (auto simp: commit_tx_def commit_body_def split: prod.splits sum.splits dest!: put_credentials_Inr)
qed

text \<open>A handshake signed with a key that is still pending completes its rotation: when it succeeds the
  key is active, the key it supersedes is retired, and the server has no other active key.\<close>

theorem handshake_commits_rotation:
  assumes ok: "handshake x ctx p w = (Inr (Some reply), w')"
    and st: "rc_status (cx_credential ctx) = Cred_pending_rotation"
    and row: "first_row (pending_key (rc_organizationId (cx_credential ctx)) (rc_keyId (cx_credential ctx)))
      (credentials (wd_db w)) = Some row"
  shows "(\<exists>new \<in> set (credentials (wd_db w')). cr_key_id new = rc_keyId (cx_credential ctx) \<and> cr_status new = Cred_active \<and>
      (\<forall>r \<in> set (credentials (wd_db w')). cr_organization_id r = cr_organization_id new \<and>
         cr_server_id r = cr_server_id new \<and> cr_status r = Cred_active \<longrightarrow> r = new)) \<and>
    (\<forall>old. cr_supersedes_key_id row = Some old \<and> old \<noteq> rc_keyId (cx_credential ctx) \<longrightarrow>
       (\<forall>r \<in> set (credentials (wd_db w')). cr_organization_id r = rc_organizationId (cx_credential ctx) \<and> cr_key_id r = old \<longrightarrow>
          cr_status r = Cred_superseded))"
proof -
  let ?org = "rc_organizationId (cx_credential ctx)" and ?k = "rc_keyId (cx_credential ctx)"
  obtain d1 where d1: "credentials d1 = credentials (wd_db w)"
    and c: "commitRotation ?org ?k (xe_now2 x) (xe_faults2 x) d1 = (Inr (), wd_db w')"
    using ok st by (rule handshake_Inr)
  define rows where "rows = credentials (wd_db w')"
  have rows: "rows = commit_body ?org ?k (xe_now2 x) row d1" and un: "credentials_unique rows"
    using commitRotation_pending [OF c, of row] row d1 unfolding rows_def by auto
  define s where "s = supersede ?org (xe_now2 x) (cr_supersedes_key_id row) (credentials (wd_db w))"
  have rows': "rows = promote ?org ?k s" by (simp add: rows commit_body_def s_def d1)
  have in_w: "row \<in> set (credentials (wd_db w))" and k: "cr_organization_id row = ?org" "cr_key_id row = ?k"
    using first_row_SomeD [OF row] by (auto simp: pending_key_def)
  have "\<exists>r \<in> set s. cr_organization_id r = ?org \<and> cr_key_id r = ?k"
  proof (cases "cr_supersedes_key_id row")
    case None
    with in_w k show ?thesis by (auto simp: s_def supersede_def)
  next
    case (Some old)
    have "\<exists>r \<in> set (credentials (wd_db w)). cr_organization_id r = ?org \<and> cr_key_id r = ?k" using in_w k by blast
    with Some show ?thesis by (simp add: s_def supersede_def) (rule sql_update_ex, auto)
  qed
  then obtain r0 where "r0 \<in> set s" "cr_organization_id r0 = ?org" "cr_key_id r0 = ?k" by blast
  then have "r0\<lparr>cr_status := Cred_active\<rparr> \<in> set rows" "cr_key_id (r0\<lparr>cr_status := Cred_active\<rparr>) = ?k"
    by (auto simp: rows' promote_def in_sql_update intro!: bexI [of _ r0])
  then obtain new where new: "new \<in> set rows" "cr_key_id new = ?k" "cr_status new = Cred_active" by fastforce
  have inj: "inj_on (\<lambda>r. (cr_organization_id r, cr_server_id r)) (set (filter (\<lambda>r. cr_status r = Cred_active) rows))"
    using un by (simp add: credentials_unique_def distinct_map)
  have "r = new" if "r \<in> set rows" "cr_organization_id r = cr_organization_id new"
    "cr_server_id r = cr_server_id new" "cr_status r = Cred_active" for r
    by (rule inj_onD [OF inj]) (use that new in simp_all)
  moreover have "cr_status r = Cred_superseded"
    if sup: "cr_supersedes_key_id row = Some old" and o: "old \<noteq> ?k" "r \<in> set rows" "cr_organization_id r = ?org" "cr_key_id r = old" for old r
  proof -
    from o(2) obtain r1 where r1: "r1 \<in> set s"
      and r: "r = (if cr_organization_id r1 = ?org \<and> cr_key_id r1 = ?k then r1\<lparr>cr_status := Cred_active\<rparr> else r1)"
      unfolding rows' promote_def in_sql_update by blast
    have "cr_key_id r = cr_key_id r1" by (simp add: r)
    with o(1,4) r have "r = r1" by simp
    with r1 obtain r2 where r2: "r = (if cr_organization_id r2 = ?org \<and> cr_key_id r2 = old
        then r2\<lparr>cr_status := Cred_superseded, cr_revoked_at := Some (xe_now2 x)\<rparr> else r2)"
      unfolding s_def supersede_def sup option.case in_sql_update by blast
    have "cr_key_id r = cr_key_id r2" "cr_organization_id r = cr_organization_id r2" by (simp_all add: r2)
    with o(3,4) r2 show ?thesis by simp
  qed
  ultimately show ?thesis
    using new unfolding rows_def [symmetric] by (intro conjI bexI [OF _ new(1)]) simp_all
qed

end
