(* ===== verification/Ingest.thy ===== *)
theory Ingest
  imports Effects Authenticate Schemas
begin

text \<open>
  \<open>apps/api/src/agent-gateway/service.ts\<close>, what an agent sends in batches: \<open>telemetry\<close> and \<open>alerts\<close>,
  with the sanctions an alert proposes. The identifiers \<open>newId\<close> draws are arguments, one pair per
  alert; \<open>now()\<close> is the instant of the transaction, so it is the same for the whole batch.
\<close>

section \<open>Telemetry\<close>

definition telemetry_row_of :: "string \<Rightarrow> string \<Rightarrow> time_ms \<Rightarrow> telemetry_sample \<Rightarrow> telemetry_row" where
  "telemetry_row_of org sid now s =
     \<lparr>tm_organization_id = org, tm_server_id = sid, tm_sampled_at = ts_sampled_at s,
      tm_players_online = ts_players_online s, tm_uptime_seconds = ts_uptime_seconds s,
      tm_memory_mb = map_option (numeric_scale 2) (ts_memory_mb s), tm_tick_ms = map_option (numeric_scale 3) (ts_tick_ms s),
      tm_resource_count = ts_resource_count s, tm_error_count = ts_error_count s, tm_queue_size = ts_queue_size s,
      tm_dependencies = coalesce_default (ts_dependencies s) (JObj []), tm_created_at = now\<rparr>"

definition telemetry_key :: "telemetry_row \<Rightarrow> string \<times> string \<times> int \<times> time_ms" where
  "telemetry_key r = (tm_organization_id r, tm_server_id r, tm_sampled_at r, tm_created_at r)"

text \<open>The number of rows the insert reports: 0 when the primary key is already there.\<close>

(* src agent-gateway/service.ts:289-308 telemetry/insert *)
definition insert_sample :: "string \<Rightarrow> string \<Rightarrow> time_ms \<Rightarrow> telemetry_sample \<Rightarrow> db \<Rightarrow> nat result \<times> db" where
  "insert_sample org sid now s d =
     (let row = telemetry_row_of org sid now s in
      if \<not> opt_ok int4_ok (ts_error_count s) \<or> \<not> opt_ok int4_ok (ts_queue_size s) \<or> \<not> opt_ok int8_ok (ts_uptime_seconds s)
      then (Inl out_of_range, d)
      else if exists_row (\<lambda>r. telemetry_key r = telemetry_key row) (telemetry_samples d) then (Inr 0, d)
      else if \<not> server_exists org sid d then (Inl Foreign_key_violation, d)
      else (Inr 1, d\<lparr>telemetry_samples := telemetry_samples d @ [row]\<rparr>))"

definition same_snapshot :: "string \<Rightarrow> string \<Rightarrow> snapshot_row \<Rightarrow> bool" where
  "same_snapshot org sid r = (sp_organization_id r = org \<and> sp_server_id r = sid)"

(* src agent-gateway/service.ts:311-322 telemetry/protections *)
definition upsert_snapshot :: "string \<Rightarrow> string \<Rightarrow> int \<Rightarrow> json option \<Rightarrow> db \<Rightarrow> unit result \<times> db" where
  "upsert_snapshot org sid sampled_at snapshot d =
     (case snapshot of None \<Rightarrow> (Inr (), d)
      | Some j \<Rightarrow>
          if exists_row (same_snapshot org sid) (server_protections d)
          then (Inr (), d\<lparr>server_protections := sql_update (same_snapshot org sid)
                 (\<lambda>r. r\<lparr>sp_snapshot := j, sp_updated_at := sampled_at\<rparr>) (server_protections d)\<rparr>)
          else if \<not> server_exists org sid d then (Inl Foreign_key_violation, d)
          else (Inr (), d\<lparr>server_protections := server_protections d @
                 [\<lparr>sp_organization_id = org, sp_server_id = sid, sp_updated_at = sampled_at, sp_snapshot = j\<rparr>]\<rparr>))"

(* src agent-gateway/service.ts:287-324 telemetry/for *)
fun telemetry_loop :: "string \<Rightarrow> string \<Rightarrow> time_ms \<Rightarrow> nat \<Rightarrow> telemetry_sample list \<Rightarrow> db \<Rightarrow> nat result \<times> db" where
  "telemetry_loop org sid now accepted [] d = (Inr accepted, d)"
| "telemetry_loop org sid now accepted (s # ss) d =
     (case insert_sample org sid now s d of
        (Inl e, d1) \<Rightarrow> (Inl e, d1)
      | (Inr n, d1) \<Rightarrow>
          (case upsert_snapshot org sid (ts_sampled_at s) (ts_protections s) d1 of
             (Inl e, d2) \<Rightarrow> (Inl e, d2)
           | (Inr _, d2) \<Rightarrow> telemetry_loop org sid now (accepted + n) ss d2))"

(* src agent-gateway/service.ts:283-326 telemetry *)
definition telemetry :: "time_ms \<Rightarrow> faults \<Rightarrow> agent_auth_context \<Rightarrow> telemetry_sample list \<Rightarrow> world \<Rightarrow> nat result \<times> world" where
  "telemetry now f ctx samples w =
     (let org = rc_organizationId (cx_credential ctx); sid = rc_serverId (cx_credential ctx) in
      world_tx org f (telemetry_loop org sid now 0 samples) w)"

section \<open>Alerts\<close>

text \<open>The identifiers drawn for one alert: its own, and that of the ban it may carry.\<close>

type_synonym alert_ids = "string \<times> string"

definition alert_row_of :: "string \<Rightarrow> string \<Rightarrow> time_ms \<Rightarrow> string \<Rightarrow> alert_input \<Rightarrow> alert_row" where
  "alert_row_of org sid now i a =
     \<lparr>al_id = i, al_organization_id = org, al_server_id = sid, al_agent_alert_id = ai_id a, al_severity = ai_severity a,
      al_category = ai_category a, al_status = Alert_open, al_summary = ai_summary a,
      al_metadata = coalesce_default (ai_metadata a) (JObj []), al_reference = ai_reference a, al_origin = ai_origin a,
      al_occurrences = coalesce_default (ai_occurrences a) 1, al_occurred_at = ai_occurred_at a,
      al_last_occurrence_at = ai_last_occurrence_at a, al_incident_id = None, al_acknowledged_by = None,
      al_acknowledged_at = None, al_resolved_by = None, al_resolved_at = None, al_created_at = now\<rparr>"

text \<open>The two unique indexes of the table, both with the instant of creation in their key.\<close>

definition alert_conflict :: "alert_row \<Rightarrow> alert_row \<Rightarrow> bool" where
  "alert_conflict a b =
     (al_organization_id a = al_organization_id b \<and> al_created_at a = al_created_at b \<and>
      (al_id a = al_id b \<or> (al_server_id a = al_server_id b \<and> al_agent_alert_id a = al_agent_alert_id b)))"

(* src agent-gateway/service.ts:341-375 alerts/insert *)
definition insert_alert :: "string \<Rightarrow> string \<Rightarrow> time_ms \<Rightarrow> string \<Rightarrow> alert_input \<Rightarrow> db \<Rightarrow> string option result \<times> db" where
  "insert_alert org sid now i a d =
     (let row = alert_row_of org sid now i a in
      if exists_row (alert_conflict row) (alerts d) then (Inr None, d)
      else if \<not> server_exists org sid d then (Inl Foreign_key_violation, d)
      else (Inr (Some i), d\<lparr>alerts := alerts d @ [row]\<rparr>))"

definition ban_row_of :: "string \<Rightarrow> string \<Rightarrow> time_ms \<Rightarrow> string \<Rightarrow> alert_input \<Rightarrow> sanction \<Rightarrow> ban_status \<Rightarrow> ban_row" where
  "ban_row_of org sid now i a s status =
     \<lparr>bn_id = i, bn_organization_id = org, bn_server_id = Some sid, bn_scope = sn_scope s, bn_identifier = sn_identifier s,
      bn_player_name = sn_player_name s, bn_reason = take 400 (ai_summary a), bn_status = status, bn_issued_by = None,
      bn_issued_by_auto = True, bn_detection_id = None, bn_detector = Some (sn_detector s), bn_risk = sn_risk s, bn_category = Some (ai_category a),
      bn_evidence_kind = sn_evidence_kind s, bn_lifted_by = None, bn_lifted_reason = None, bn_lifted_at = None,
      bn_reviewed_by = None, bn_reviewed_at = None, bn_expires_at = None, bn_created_at = now\<rparr>"

text \<open>The key of the partial unique index on the bans in force.\<close>

definition ban_key :: "ban_row \<Rightarrow> string \<times> ban_scope \<times> string \<times> string" where
  "ban_key r = (bn_organization_id r, bn_scope r, bn_identifier r, coalesce_default (bn_server_id r) [])"

definition bans_unique :: "ban_row list \<Rightarrow> bool" where
  "bans_unique rows =
     (distinct (map bn_id rows) \<and> distinct (map ban_key (filter (\<lambda>r. bn_status r = Ban_active) rows)))"

text \<open>An insert that is not covered by its \<open>ON CONFLICT\<close> raises on the indexes and on the foreign key.\<close>

definition insert_ban :: "ban_row \<Rightarrow> db \<Rightarrow> unit result \<times> db" where
  "insert_ban r d =
     (if \<not> bans_unique (bans d @ [r]) then (Inl Unique_violation, d)
      else if \<not> (case bn_server_id r of None \<Rightarrow> True | Some sid \<Rightarrow> server_exists (bn_organization_id r) sid d)
      then (Inl Foreign_key_violation, d)
      else (Inr (), d\<lparr>bans := bans d @ [r]\<rparr>))"

(* src agent-gateway/service.ts:384-402 alerts/critical *)
definition ban_now :: "ban_row \<Rightarrow> db \<Rightarrow> bool result \<times> db" where
  "ban_now r d =
     (if exists_row (\<lambda>b. bn_status b = Ban_active \<and> ban_key b = ban_key r) (bans d) then (Inr False, d)
      else (case insert_ban r d of (Inl e, d1) \<Rightarrow> (Inl e, d1) | (Inr _, d1) \<Rightarrow> (Inr True, d1)))"

(* src agent-gateway/service.ts:403-425 alerts/pending *)
definition queue_ban :: "ban_row \<Rightarrow> db \<Rightarrow> bool result \<times> db" where
  "queue_ban r d =
     (if exists_row (\<lambda>b. bn_organization_id b = bn_organization_id r \<and> bn_scope b = bn_scope r \<and>
           bn_identifier b = bn_identifier r \<and> bn_detector b = bn_detector r \<and> bn_status b = Ban_pending) (bans d)
      then (Inr False, d)
      else (case insert_ban r d of (Inl e, d1) \<Rightarrow> (Inl e, d1) | (Inr _, d1) \<Rightarrow> (Inr True, d1)))"

record alerts_outcome =
  ao_accepted :: nat
  ao_created :: "(string \<times> alert_input) list"
  ao_sanctions :: "(string \<times> ban_status \<times> string) list"

(* src agent-gateway/service.ts:377-426 alerts/sanction *)
definition sanction_step :: "string \<Rightarrow> string \<Rightarrow> time_ms \<Rightarrow> string \<Rightarrow> alert_input \<Rightarrow> db \<Rightarrow>
    (string \<times> ban_status \<times> string) list result \<times> db" where
  "sanction_step org sid now banId a d =
     (case ai_sanction a of None \<Rightarrow> (Inr [], d)
      | Some s \<Rightarrow>
          (let status = if ai_severity a = Sev_critical then Ban_active else Ban_pending;
               row = ban_row_of org sid now banId a s status
           in case (if ai_severity a = Sev_critical then ban_now row d else queue_ban row d) of
                (Inl e, d1) \<Rightarrow> (Inl e, d1)
              | (Inr inserted, d1) \<Rightarrow> (Inr (if inserted then [(banId, status, sn_identifier s)] else []), d1)))"

(* src agent-gateway/service.ts:340-430 alerts/for *)
fun alerts_loop :: "string \<Rightarrow> string \<Rightarrow> time_ms \<Rightarrow> alerts_outcome \<Rightarrow> (alert_ids \<times> alert_input) list \<Rightarrow> db \<Rightarrow>
    alerts_outcome result \<times> db" where
  "alerts_loop org sid now out [] d = (Inr out, d)"
| "alerts_loop org sid now out (((i, b), a) # as) d =
     (case insert_alert org sid now i a d of
        (Inl e, d1) \<Rightarrow> (Inl e, d1)
      | (Inr inserted, d1) \<Rightarrow>
          (case sanction_step org sid now b a d1 of
             (Inl e, d2) \<Rightarrow> (Inl e, d2)
           | (Inr ss, d2) \<Rightarrow>
               alerts_loop org sid now
                 \<lparr>ao_accepted = ao_accepted out + 1,
                  ao_created = ao_created out @ (case inserted of None \<Rightarrow> [] | Some j \<Rightarrow> [(j, a)]),
                  ao_sanctions = ao_sanctions out @ ss\<rparr> as d2))"

definition no_outcome :: alerts_outcome where
  "no_outcome = \<lparr>ao_accepted = 0, ao_created = [], ao_sanctions = []\<rparr>"

(* src agent-gateway/service.ts:432-443 alerts/publish *)
definition publish_alerts :: "string \<Rightarrow> string \<Rightarrow> alerts_outcome \<Rightarrow> world \<Rightarrow> world" where
  "publish_alerts org sid out w =
     fold (\<lambda>(i, status, ident).
         publish org (if status = Ban_pending then ''sanction.pending'' else ''ban.created'')
           [(''id'', JStr i), (''status'', JStr (ban_status_name status)), (''identifier'', JStr ident), (''server_id'', JStr sid)])
       (ao_sanctions out)
       (fold (\<lambda>(i, a). publish org ''alert.created''
           [(''id'', JStr i), (''severity'', JStr (severity_name (ai_severity a))), (''category'', JStr (ai_category a)),
            (''server_id'', JStr sid)]) (ao_created out) w)"

text \<open>The reply: how many alerts were accepted, and how many sanctions were taken when there are any.\<close>

(* src agent-gateway/service.ts:331-450 alerts *)
definition ingest_alerts :: "time_ms \<Rightarrow> faults \<Rightarrow> agent_auth_context \<Rightarrow> (alert_ids \<times> alert_input) list \<Rightarrow> world \<Rightarrow>
    (string \<times> json) list result \<times> world" where
  "ingest_alerts now f ctx as w =
     (let org = rc_organizationId (cx_credential ctx); sid = rc_serverId (cx_credential ctx) in
      case world_tx org f (alerts_loop org sid now no_outcome as) w of
        (Inl e, w1) \<Rightarrow> (Inl e, w1)
      | (Inr out, w1) \<Rightarrow>
          (Inr ([(''accepted'', JInt (int (ao_accepted out)))] @
                (if ao_sanctions out \<noteq> [] then [(''sanctions'', JInt (int (length (ao_sanctions out))))] else [])),
           publish_alerts org sid out w1))"

section \<open>Confinement\<close>

lemma insert_sample_confined: "confined org d (snd (insert_sample org sid now s d))"
proof -
  have "confined org d (d\<lparr>telemetry_samples := telemetry_samples d @ [telemetry_row_of org sid now s]\<rparr>)"
    by (rule confined_tables(6)) (simp add: outside_simps telemetry_row_of_def)
  then show ?thesis by (simp add: insert_sample_def Let_def)
qed

lemma upsert_snapshot_confined: "confined org d (snd (upsert_snapshot org sid t j d))"
proof (cases j)
  case (Some v)
  have "confined org d (d\<lparr>server_protections := sql_update (same_snapshot org sid)
      (\<lambda>r. r\<lparr>sp_snapshot := v, sp_updated_at := t\<rparr>) (server_protections d)\<rparr>)"
    by (rule confined_tables(7)) (rule outside_update, auto simp: same_snapshot_def)
  moreover have "confined org d (d\<lparr>server_protections := server_protections d @
      [\<lparr>sp_organization_id = org, sp_server_id = sid, sp_updated_at = t, sp_snapshot = v\<rparr>]\<rparr>)"
    by (rule confined_tables(7)) (simp add: outside_simps)
  ultimately show ?thesis using Some by (simp add: upsert_snapshot_def)
qed (simp add: upsert_snapshot_def)

lemma telemetry_loop_confined: "confined org d (snd (telemetry_loop org sid now n ss d))"
proof (induction ss arbitrary: n d)
  case (Cons s ss)
  obtain r d1 where i: "insert_sample org sid now s d = (r, d1)" by fastforce
  obtain u d2 where p: "upsert_snapshot org sid (ts_sampled_at s) (ts_protections s) d1 = (u, d2)" by fastforce
  have 1: "confined org d d1" using insert_sample_confined [of org d sid now s] by (simp add: i)
  have "confined org d1 d2" using upsert_snapshot_confined [of org d1 sid "ts_sampled_at s" "ts_protections s"] by (simp add: p)
  with 1 have 2: "confined org d d2" by (rule confined_trans)
  show ?case
  proof (cases "\<exists>k. r = Inr k \<and> u = Inr ()")
    case True
    then obtain k where "r = Inr k" "u = Inr ()" by blast
    then show ?thesis using confined_trans [OF 2 Cons.IH [of d2 "n + k"]] by (simp add: i p)
  next
    case False
    then show ?thesis using 1 2 by (cases r; cases u) (auto simp: i p)
  qed
qed simp

lemma alert_row_fields [simp]:
  "al_organization_id (alert_row_of org sid now i a) = org" "al_server_id (alert_row_of org sid now i a) = sid"
  "al_id (alert_row_of org sid now i a) = i" "al_agent_alert_id (alert_row_of org sid now i a) = ai_id a"
  "al_created_at (alert_row_of org sid now i a) = now" "al_status (alert_row_of org sid now i a) = Alert_open"
  by (simp_all add: alert_row_of_def)

lemma ban_row_fields [simp]:
  "bn_organization_id (ban_row_of org sid now i a s st) = org" "bn_status (ban_row_of org sid now i a s st) = st"
  "bn_id (ban_row_of org sid now i a s st) = i" "bn_server_id (ban_row_of org sid now i a s st) = Some sid"
  "bn_scope (ban_row_of org sid now i a s st) = sn_scope s" "bn_identifier (ban_row_of org sid now i a s st) = sn_identifier s"
  "bn_detector (ban_row_of org sid now i a s st) = Some (sn_detector s)"
  by (simp_all add: ban_row_of_def)

lemma insert_alert_cases:
  "snd (insert_alert org sid now i a d) \<in> {d, d\<lparr>alerts := alerts d @ [alert_row_of org sid now i a]\<rparr>}"
  by (simp add: insert_alert_def Let_def)

lemma insert_ban_cases: "snd (insert_ban r d) \<in> {d, d\<lparr>bans := bans d @ [r]\<rparr>}"
  by (simp add: insert_ban_def)

lemma ban_step_cases:
  "snd (ban_now r d) \<in> {d, d\<lparr>bans := bans d @ [r]\<rparr>}" "snd (queue_ban r d) \<in> {d, d\<lparr>bans := bans d @ [r]\<rparr>}"
  using insert_ban_cases [of r d] by (auto simp: ban_now_def queue_ban_def split: prod.splits sum.splits)

definition sanction_status :: "alert_input \<Rightarrow> ban_status" where
  "sanction_status a = (if ai_severity a = Sev_critical then Ban_active else Ban_pending)"

lemma sanction_step_cases:
  "snd (sanction_step org sid now b a d) = d \<or>
   (\<exists>s. ai_sanction a = Some s \<and>
      snd (sanction_step org sid now b a d) = d\<lparr>bans := bans d @ [ban_row_of org sid now b a s (sanction_status a)]\<rparr>)"
proof (cases "ai_sanction a")
  case (Some s)
  then show ?thesis
    using ban_step_cases [of "ban_row_of org sid now b a s (sanction_status a)" d]
    by (auto simp: sanction_step_def Let_def sanction_status_def split: prod.splits sum.splits if_splits)
qed (simp add: sanction_step_def)

lemma insert_alert_confined: "confined org d (snd (insert_alert org sid now i a d))"
proof -
  have "confined org d (d\<lparr>alerts := alerts d @ [alert_row_of org sid now i a]\<rparr>)"
    by (rule confined_tables(9)) (simp add: outside_simps)
  then show ?thesis using insert_alert_cases [of org sid now i a d] by auto
qed

lemma sanction_step_confined: "confined org d (snd (sanction_step org sid now b a d))"
proof -
  have "confined org d (d\<lparr>bans := bans d @ [ban_row_of org sid now b a s st]\<rparr>)" for s st
    by (rule confined_tables(12)) (simp add: outside_simps)
  then show ?thesis using sanction_step_cases [of org sid now b a d] by auto
qed

text \<open>The rule for what every alert keeps, by induction on the batch.\<close>

lemma alerts_loop_keeps:
  assumes "\<And>i a d. Q d \<Longrightarrow> Q (snd (insert_alert org sid now i a d))"
    and "\<And>b a d. Q d \<Longrightarrow> Q (snd (sanction_step org sid now b a d))"
  shows "Q d \<Longrightarrow> Q (snd (alerts_loop org sid now out as d))"
proof (induction as arbitrary: out d)
  case (Cons x as)
  obtain i b a where x: "x = ((i, b), a)" by (metis prod.exhaust)
  obtain r d1 where ia: "insert_alert org sid now i a d = (r, d1)" by fastforce
  obtain u d2 where ss: "sanction_step org sid now b a d1 = (u, d2)" by fastforce
  have 1: "Q d1" using assms(1) [OF Cons.prems, of i a] by (simp add: ia)
  have 2: "Q d2" using assms(2) [OF 1, of b a] by (simp add: ss)
  show ?case using 1 2 Cons.IH by (simp add: x ia ss split: sum.split)
qed simp

lemma alerts_loop_confined: "confined org d (snd (alerts_loop org sid now out as d))"
proof (rule alerts_loop_keeps [where Q = "confined org d"])
  fix i a d1 assume "confined org d d1"
  then show "confined org d (snd (insert_alert org sid now i a d1))" using insert_alert_confined by (rule confined_trans)
next
  fix b a d1 assume "confined org d d1"
  then show "confined org d (snd (sanction_step org sid now b a d1))" using sanction_step_confined by (rule confined_trans)
qed simp

lemma fold_scoped: "(\<And>x w. scoped org w (g x w)) \<Longrightarrow> scoped org w (fold g xs w)"
proof (induction xs arbitrary: w)
  case (Cons x xs)
  have "scoped org (g x w) (fold g xs (g x w))" using Cons.IH [OF Cons.prems] .
  with Cons.prems [of w x] show ?case by (simp add: scoped_trans)
qed simp

lemma publish_alerts_scoped: "scoped org w (publish_alerts org sid out w)"
proof -
  have p: "scoped org w (publish org ty fs w)" for ty fs w by (rule scoped_publish) simp
  have "scoped org w (fold (\<lambda>(i, a). publish org ''alert.created''
           [(''id'', JStr i), (''severity'', JStr (severity_name (ai_severity a))), (''category'', JStr (ai_category a)),
            (''server_id'', JStr sid)]) (ao_created out) w)" by (rule fold_scoped) (auto simp: p split: prod.split)
  then show ?thesis unfolding publish_alerts_def
    by (rule scoped_trans) (rule fold_scoped, auto simp: p split: prod.split)
qed

lemma telemetry_scoped: "scoped (rc_organizationId (cx_credential ctx)) w (snd (telemetry now f ctx ss w))"
  unfolding telemetry_def Let_def by (rule scoped_tx) (metis telemetry_loop_confined snd_conv)

lemma alerts_scoped: "scoped (rc_organizationId (cx_credential ctx)) w (snd (ingest_alerts now f ctx as w))"
proof -
  let ?org = "rc_organizationId (cx_credential ctx)" and ?sid = "rc_serverId (cx_credential ctx)"
  obtain r w1 where t: "world_tx ?org f (alerts_loop ?org ?sid now no_outcome as) w = (r, w1)" by fastforce
  have "scoped ?org w (snd (world_tx ?org f (alerts_loop ?org ?sid now no_outcome as) w))"
    by (rule scoped_tx) (metis alerts_loop_confined snd_conv)
  then have 1: "scoped ?org w w1" by (simp add: t)
  show ?thesis
    using 1 scoped_trans [OF 1 publish_alerts_scoped] by (simp add: ingest_alerts_def Let_def t split: sum.split)
qed

section \<open>What a batch of alerts achieves\<close>

definition pending_key_of :: "ban_row \<Rightarrow> string \<times> ban_scope \<times> string \<times> string option" where
  "pending_key_of r = (bn_organization_id r, bn_scope r, bn_identifier r, bn_detector r)"

text \<open>The two rules on sanctions: the index on those in force, and one in review per identifier and detector.\<close>

definition one_pending :: "ban_row list \<Rightarrow> bool" where
  "one_pending rows = distinct (map pending_key_of (filter (\<lambda>r. bn_status r = Ban_pending) rows))"

definition sanctions_ok :: "ban_row list \<Rightarrow> bool" where
  "sanctions_ok rows = (bans_unique rows \<and> one_pending rows)"

definition alert_stored :: "string \<Rightarrow> string \<Rightarrow> alert_input \<Rightarrow> db \<Rightarrow> bool" where
  "alert_stored org sid a d =
     (\<exists>r \<in> set (alerts d). al_organization_id r = org \<and> al_server_id r = sid \<and> al_agent_alert_id r = ai_id a)"

definition sanction_taken :: "string \<Rightarrow> string \<Rightarrow> alert_input \<Rightarrow> db \<Rightarrow> bool" where
  "sanction_taken org sid a d =
     (case ai_sanction a of None \<Rightarrow> True
      | Some s \<Rightarrow>
          if ai_severity a = Sev_critical
          then (\<exists>r \<in> set (bans d). bn_status r = Ban_active \<and> ban_key r = (org, sn_scope s, sn_identifier s, sid))
          else (\<exists>r \<in> set (bans d). bn_status r = Ban_pending \<and>
                  pending_key_of r = (org, sn_scope s, sn_identifier s, Some (sn_detector s))))"

lemma ban_keys_of_row [simp]:
  "ban_key (ban_row_of org sid now i a s st) = (org, sn_scope s, sn_identifier s, sid)"
  "pending_key_of (ban_row_of org sid now i a s st) = (org, sn_scope s, sn_identifier s, Some (sn_detector s))"
  by (simp_all add: ban_key_def pending_key_of_def)

lemma bans_unique_append:
  "bans_unique (rows @ [r]) \<longleftrightarrow> bans_unique rows \<and> bn_id r \<notin> bn_id ` set rows \<and>
     (bn_status r = Ban_active \<longrightarrow> \<not> (\<exists>b \<in> set rows. bn_status b = Ban_active \<and> ban_key b = ban_key r))"
  unfolding bans_unique_def by (auto simp: image_iff)

lemma one_pending_append:
  "one_pending (rows @ [r]) \<longleftrightarrow> one_pending rows \<and>
     (bn_status r = Ban_pending \<longrightarrow> \<not> (\<exists>b \<in> set rows. bn_status b = Ban_pending \<and> pending_key_of b = pending_key_of r))"
  unfolding one_pending_def by (auto simp: image_iff)

lemma ban_now_ok:
  assumes "sanctions_ok (bans d)" and "bn_id r \<notin> bn_id ` set (bans d)" and "bn_status r = Ban_active"
    and "bn_server_id r = Some sid" and "server_exists (bn_organization_id r) sid d"
  shows "\<exists>t d'. ban_now r d = (Inr t, d') \<and> sanctions_ok (bans d') \<and> set (bans d) \<subseteq> set (bans d') \<and>
    (\<exists>b \<in> set (bans d'). bn_status b = Ban_active \<and> ban_key b = ban_key r)"
proof (cases "exists_row (\<lambda>b. bn_status b = Ban_active \<and> ban_key b = ban_key r) (bans d)")
  case True
  then show ?thesis using assms(1) by (auto simp: ban_now_def exists_row_iff)
next
  case False
  with assms show ?thesis
    by (auto simp: ban_now_def insert_ban_def exists_row_iff sanctions_ok_def bans_unique_append one_pending_append)
qed

lemma queue_ban_ok:
  assumes "sanctions_ok (bans d)" and "bn_id r \<notin> bn_id ` set (bans d)" and "bn_status r = Ban_pending"
    and "bn_server_id r = Some sid" and "server_exists (bn_organization_id r) sid d"
  shows "\<exists>t d'. queue_ban r d = (Inr t, d') \<and> sanctions_ok (bans d') \<and> set (bans d) \<subseteq> set (bans d') \<and>
    (\<exists>b \<in> set (bans d'). bn_status b = Ban_pending \<and> pending_key_of b = pending_key_of r)"
proof (cases "exists_row (\<lambda>b. bn_organization_id b = bn_organization_id r \<and> bn_scope b = bn_scope r \<and>
           bn_identifier b = bn_identifier r \<and> bn_detector b = bn_detector r \<and> bn_status b = Ban_pending) (bans d)")
  case True
  then show ?thesis using assms(1) by (auto simp: queue_ban_def exists_row_iff pending_key_of_def)
next
  case False
  with assms show ?thesis
    by (auto simp: queue_ban_def insert_ban_def exists_row_iff sanctions_ok_def bans_unique_append one_pending_append
        pending_key_of_def)
qed

lemma sanction_step_ok:
  assumes "sanctions_ok (bans d)" and "b \<notin> bn_id ` set (bans d)" and "server_exists org sid d"
  shows "\<exists>ss d'. sanction_step org sid now b a d = (Inr ss, d') \<and> sanctions_ok (bans d') \<and>
    set (bans d) \<subseteq> set (bans d') \<and> sanction_taken org sid a d'"
proof (cases "ai_sanction a")
  case (Some s)
  let ?r = "ban_row_of org sid now b a s"
  show ?thesis
  proof (cases "ai_severity a = Sev_critical")
    case True
    with ban_now_ok [of d "?r Ban_active" sid] assms obtain t d' where "ban_now (?r Ban_active) d = (Inr t, d')"
      "sanctions_ok (bans d')" "set (bans d) \<subseteq> set (bans d')"
      "\<exists>r \<in> set (bans d'). bn_status r = Ban_active \<and> ban_key r = ban_key (?r Ban_active)" by auto
    with Some True show ?thesis by (simp add: sanction_step_def sanction_taken_def Let_def)
  next
    case False
    with queue_ban_ok [of d "?r Ban_pending" sid] assms obtain t d' where "queue_ban (?r Ban_pending) d = (Inr t, d')"
      "sanctions_ok (bans d')" "set (bans d) \<subseteq> set (bans d')"
      "\<exists>r \<in> set (bans d'). bn_status r = Ban_pending \<and> pending_key_of r = pending_key_of (?r Ban_pending)" by auto
    with Some False show ?thesis by (simp add: sanction_step_def sanction_taken_def Let_def)
  qed
qed (use assms in \<open>simp add: sanction_step_def sanction_taken_def\<close>)

lemma insert_alert_ok:
  assumes "i \<notin> al_id ` set (alerts d)" and "server_exists org sid d"
  shows "\<exists>x d'. insert_alert org sid now i a d = (Inr x, d') \<and> alert_stored org sid a d' \<and>
    set (alerts d) \<subseteq> set (alerts d') \<and> al_id ` set (alerts d') \<subseteq> insert i (al_id ` set (alerts d)) \<and>
    bans d' = bans d \<and> servers d' = servers d"
proof (cases "exists_row (alert_conflict (alert_row_of org sid now i a)) (alerts d)")
  case True
  then obtain r where "r \<in> set (alerts d)" "alert_conflict (alert_row_of org sid now i a) r" by (auto simp: exists_row_iff)
  with assms(1) have "alert_stored org sid a d" by (force simp: alert_stored_def alert_conflict_def)
  with True show ?thesis by (auto simp: insert_alert_def Let_def)
next
  case False
  with assms show ?thesis by (auto simp: insert_alert_def Let_def alert_stored_def)
qed

lemma sanction_step_frame: "alerts (snd (sanction_step org sid now b a d)) = alerts d \<and>
    servers (snd (sanction_step org sid now b a d)) = servers d \<and>
    bn_id ` set (bans (snd (sanction_step org sid now b a d))) \<subseteq> insert b (bn_id ` set (bans d))"
  using sanction_step_cases [of org sid now b a d] by auto

text \<open>The identifiers of a batch are new: none repeats, none is in the tables.\<close>

definition fresh_batch :: "(alert_ids \<times> alert_input) list \<Rightarrow> db \<Rightarrow> bool" where
  "fresh_batch as d =
     (distinct (map (\<lambda>x. fst (fst x)) as) \<and> distinct (map (\<lambda>x. snd (fst x)) as) \<and>
      list_all (\<lambda>x. fst (fst x) \<notin> al_id ` set (alerts d) \<and> snd (fst x) \<notin> bn_id ` set (bans d)) as)"

lemma fresh_batch_Cons:
  assumes "fresh_batch (((i, b), a) # as) d"
    and "al_id ` set (alerts d') \<subseteq> insert i (al_id ` set (alerts d))"
    and "bn_id ` set (bans d') \<subseteq> insert b (bn_id ` set (bans d))"
  shows "fresh_batch as d'"
proof -
  have "fst (fst x) \<notin> al_id ` set (alerts d') \<and> snd (fst x) \<notin> bn_id ` set (bans d')" if x: "x \<in> set as" for x
  proof -
    have "fst (fst x) \<noteq> i" "snd (fst x) \<noteq> b" using assms(1) x by (auto simp: fresh_batch_def)
    moreover have "fst (fst x) \<notin> al_id ` set (alerts d)" "snd (fst x) \<notin> bn_id ` set (bans d)"
      using assms(1) x by (auto simp: fresh_batch_def list_all_iff)
    ultimately show ?thesis using assms(2,3) by blast
  qed
  with assms(1) show ?thesis by (simp add: fresh_batch_def list_all_iff)
qed

lemma alert_stored_mono: "alert_stored org sid a d \<Longrightarrow> set (alerts d) \<subseteq> set (alerts d') \<Longrightarrow> alert_stored org sid a d'"
  by (auto simp: alert_stored_def)

lemma sanction_taken_mono: "sanction_taken org sid a d \<Longrightarrow> set (bans d) \<subseteq> set (bans d') \<Longrightarrow> sanction_taken org sid a d'"
  unfolding sanction_taken_def by (cases "ai_sanction a") (auto split: if_splits)

definition batch_done :: "string \<Rightarrow> string \<Rightarrow> (alert_ids \<times> alert_input) list \<Rightarrow> db \<Rightarrow> bool" where
  "batch_done org sid as d = list_all (\<lambda>x. alert_stored org sid (snd x) d \<and> sanction_taken org sid (snd x) d) as"

lemma alerts_loop_ok:
  assumes "sanctions_ok (bans d)" and "server_exists org sid d" and "fresh_batch as d"
  shows "\<exists>out' d'. alerts_loop org sid now out as d = (Inr out', d') \<and> ao_accepted out' = ao_accepted out + length as \<and>
    sanctions_ok (bans d') \<and> batch_done org sid as d' \<and>
    set (alerts d) \<subseteq> set (alerts d') \<and> set (bans d) \<subseteq> set (bans d')"
  using assms
proof (induction as arbitrary: out d)
  case Nil
  then show ?case by (simp add: batch_done_def)
next
  case (Cons x as)
  obtain i b a where x: "x = ((i, b), a)" by (metis prod.exhaust)
  have new: "i \<notin> al_id ` set (alerts d)" "b \<notin> bn_id ` set (bans d)"
    using Cons.prems(3) by (simp_all add: x fresh_batch_def)
  obtain r d1 where ia: "insert_alert org sid now i a d = (Inr r, d1)" and st1: "alert_stored org sid a d1"
    and al1: "set (alerts d) \<subseteq> set (alerts d1)" "al_id ` set (alerts d1) \<subseteq> insert i (al_id ` set (alerts d))"
    and fr1: "bans d1 = bans d" "servers d1 = servers d"
    using insert_alert_ok [OF new(1) Cons.prems(2), of now a] by blast
  have srv: "server_exists org sid d1" using Cons.prems(2) fr1 by (simp add: server_exists_def)
  have "sanctions_ok (bans d1)" "b \<notin> bn_id ` set (bans d1)" using Cons.prems(1) new(2) fr1 by simp_all
  from sanction_step_ok [OF this srv, of now a] obtain ss d2 where
    sc: "sanction_step org sid now b a d1 = (Inr ss, d2)" and ok2: "sanctions_ok (bans d2)"
    and b2: "set (bans d1) \<subseteq> set (bans d2)" and tk2: "sanction_taken org sid a d2" by blast
  have fr2: "alerts d2 = alerts d1" "servers d2 = servers d1" "bn_id ` set (bans d2) \<subseteq> insert b (bn_id ` set (bans d1))"
    using sanction_step_frame [of org sid now b a d1] by (simp_all add: sc)
  have "server_exists org sid d2" using srv fr2 by (simp add: server_exists_def)
  moreover have "fresh_batch as d2"
    using Cons.prems(3) al1(2) fr1(1) fr2 unfolding x by (intro fresh_batch_Cons [of i b a as d]) simp_all
  ultimately obtain out' d' where l: "alerts_loop org sid now
      \<lparr>ao_accepted = ao_accepted out + 1, ao_created = ao_created out @ (case r of None \<Rightarrow> [] | Some j \<Rightarrow> [(j, a)]),
       ao_sanctions = ao_sanctions out @ ss\<rparr> as d2 = (Inr out', d')"
    and acc: "ao_accepted out' = ao_accepted out + 1 + length as" and ok: "sanctions_ok (bans d')"
    and bd: "batch_done org sid as d'" and mono: "set (alerts d2) \<subseteq> set (alerts d')" "set (bans d2) \<subseteq> set (bans d')"
    using Cons.IH [OF ok2] by (metis alerts_outcome.select_convs(1))
  have "alert_stored org sid a d'" using st1 mono(1) fr2(1) by (simp add: alert_stored_mono)
  moreover have "sanction_taken org sid a d'" using tk2 mono(2) by (rule sanction_taken_mono)
  ultimately have "batch_done org sid (x # as) d'" using bd by (simp add: batch_done_def x)
  moreover have "set (alerts d) \<subseteq> set (alerts d')" "set (bans d) \<subseteq> set (bans d')" using al1 b2 fr1 fr2 mono by auto
  ultimately show ?case using l acc ok by (simp add: x ia sc)
qed

text \<open>A batch of alerts from a known server is accepted whole, whatever repeats in it and whatever bans
  are already there: every alert is stored, every critical sanction has a ban in force on the server,
  every other one is in the review queue, and still no identifier has two bans in force on a server nor
  two sanctions of one detector in review.\<close>

theorem alerts_batch_accepted:
  assumes "org_id_ok (rc_organizationId (cx_credential ctx))"
    and "server_exists (rc_organizationId (cx_credential ctx)) (rc_serverId (cx_credential ctx)) (wd_db w)"
    and "sanctions_ok (bans (wd_db w))" and "fresh_batch as (wd_db w)"
  shows "\<exists>reply w'. ingest_alerts now no_faults ctx as w = (Inr reply, w') \<and>
    obj_get ''accepted'' reply = Some (JInt (int (length as))) \<and> sanctions_ok (bans (wd_db w')) \<and>
    batch_done (rc_organizationId (cx_credential ctx)) (rc_serverId (cx_credential ctx)) as (wd_db w')"
proof -
  let ?org = "rc_organizationId (cx_credential ctx)" and ?sid = "rc_serverId (cx_credential ctx)"
  obtain out d' where l: "alerts_loop ?org ?sid now no_outcome as (wd_db w) = (Inr out, d')"
    and acc: "ao_accepted out = length as" and ok: "sanctions_ok (bans d')" "batch_done ?org ?sid as d'"
    using alerts_loop_ok [OF assms(3,2,4), of now no_outcome] by (auto simp: no_outcome_def)
  have db: "wd_db (publish_alerts ?org ?sid out w1) = wd_db w1" for w1
  proof -
    have f: "wd_db (fold g xs v) = wd_db v" if "\<And>y v. wd_db (g y v) = wd_db v" for g :: "'q \<Rightarrow> world \<Rightarrow> world" and xs v
      using that by (induction xs arbitrary: v) simp_all
    show ?thesis unfolding publish_alerts_def by (subst f; (subst f)?) (auto split: prod.split)
  qed
  show ?thesis
    using world_tx_ok [of ?org "alerts_loop ?org ?sid now no_outcome as" w out d'] assms(1) l acc ok
    by (simp add: ingest_alerts_def Let_def db obj_get_def)
qed

text \<open>The idempotence of the ingestion ends with the transaction. The index behind
  \<open>ON CONFLICT DO NOTHING\<close> holds the instant of creation, so the same alert sent again at another instant
  is stored a second time.\<close>

theorem alert_resubmission_duplicates:
  assumes "server_exists org sid d" and "\<forall>r \<in> set (alerts d). al_created_at r \<noteq> now"
  shows "insert_alert org sid now i a d = (Inr (Some i), d\<lparr>alerts := alerts d @ [alert_row_of org sid now i a]\<rparr>)"
  using assms by (auto simp: insert_alert_def Let_def exists_row_iff alert_conflict_def)

end
