(* ===== verification/Commands.thy ===== *)
theory Commands
  imports Agent_Session
begin

text \<open>
  \<open>apps/api/src/agent-gateway/service.ts\<close>, the queue of commands: \<open>claimCommands\<close> and
  \<open>commandResults\<close>. The second half gives the life of a command as a small state machine and shows
  that the two operations refine it.
\<close>

section \<open>Delivery\<close>

definition expire_command :: "command_row \<Rightarrow> command_row" where
  "expire_command c = c\<lparr>cm_status := Cmd_expired\<rparr>"

(* src agent-gateway/service.ts:592-600 claimCommands/expire *)
definition expire_commands :: "string \<Rightarrow> string \<Rightarrow> time_ms \<Rightarrow> command_row list \<Rightarrow> command_row list" where
  "expire_commands org sid now rows =
     sql_update (\<lambda>c. open_command org sid c \<and> cm_expires_at c \<le> now) expire_command rows"

text \<open>
  The sub-select: open commands that have not expired, oldest first, those another transaction has
  locked left out (\<open>SKIP LOCKED\<close>), and at most \<open>limit\<close> of them.
\<close>

definition select_commands :: "string \<Rightarrow> string \<Rightarrow> time_ms \<Rightarrow> (string \<Rightarrow> bool) \<Rightarrow> int \<Rightarrow> command_row list \<Rightarrow> string list" where
  "select_commands org sid now locked limit rows =
     take (nat limit) (map cm_id (sort_key cm_created_at
       (filter (\<lambda>c. open_command org sid c \<and> now < cm_expires_at c \<and> \<not> locked (cm_id c)) rows)))"

definition send_command :: "time_ms \<Rightarrow> command_row \<Rightarrow> command_row" where
  "send_command now c =
     c\<lparr>cm_status := Cmd_sent, cm_sent_at := coalesce (cm_sent_at c) (Some now), cm_delivery_count := cm_delivery_count c + 1\<rparr>"

record delivered_command =
  dc_id :: string
  dc_type :: string
  dc_issued_at :: int
  dc_expires_at :: int
  dc_payload :: json

text \<open>\<open>extract(epoch FROM t)::bigint\<close> rounds to the nearest second.\<close>

definition epoch_seconds :: "time_ms \<Rightarrow> int" where
  "epoch_seconds t = (t + 500) div 1000"

(* src agent-gateway/service.ts:629-637 claimCommands/payload *)
definition delivered_payload :: "string \<Rightarrow> string option \<Rightarrow> command_row \<Rightarrow> json" where
  "delivered_payload org baseUrl c =
     (if cm_type c \<noteq> ''capture_request'' then cm_payload c
      else (let fs = spread_fields (cm_payload c); rest = obj_remove ''token'' fs in
        JObj (case (obj_get ''token'' fs, obj_get ''capture_id'' rest) of
            (Some (JStr token), Some (JStr capture)) \<Rightarrow>
              if truthy baseUrl
              then obj_put ''upload_url''
                     (JStr (the baseUrl @ ''/api/evidence/upload/'' @ org @ ''/'' @ capture @ ''?t='' @ token)) rest
              else rest
          | _ \<Rightarrow> rest)))"

(* src agent-gateway/service.ts:638-645 claimCommands/row *)
definition deliver :: "string \<Rightarrow> string option \<Rightarrow> command_row \<Rightarrow> delivered_command" where
  "deliver org baseUrl c =
     \<lparr>dc_id = cm_id c, dc_type = cm_type c, dc_issued_at = epoch_seconds (cm_created_at c),
      dc_expires_at = epoch_seconds (cm_expires_at c), dc_payload = delivered_payload org baseUrl c\<rparr>"

definition claimed :: "string \<Rightarrow> string list \<Rightarrow> command_row \<Rightarrow> bool" where
  "claimed org ids c = (cm_organization_id c = org \<and> cm_id c \<in> set ids)"

(* src agent-gateway/service.ts:591-647 claimCommands/transaction *)
definition claim_tx :: "time_ms \<Rightarrow> (string \<Rightarrow> bool) \<Rightarrow> string \<Rightarrow> string \<Rightarrow> int \<Rightarrow> string option \<Rightarrow> db \<Rightarrow>
    delivered_command list result \<times> db" where
  "claim_tx now locked org sid limit baseUrl d =
     (let rows = expire_commands org sid now (agent_commands d) in
      if limit < 0 then (Inl Bad_limit, d\<lparr>agent_commands := rows\<rparr>)
      else (let ids = select_commands org sid now locked limit rows
            in (Inr (map (deliver org baseUrl) (filter (claimed org ids) rows)),
                d\<lparr>agent_commands := sql_update (claimed org ids) (send_command now) rows\<rparr>)))"

(* src agent-gateway/service.ts:588-648 claimCommands *)
definition claimCommands :: "time_ms \<Rightarrow> (string \<Rightarrow> bool) \<Rightarrow> faults \<Rightarrow> agent_auth_context \<Rightarrow> int \<Rightarrow> string option \<Rightarrow> world \<Rightarrow>
    delivered_command list result \<times> world" where
  "claimCommands now locked f ctx limit baseUrl w =
     (let org = rc_organizationId (cx_credential ctx); sid = rc_serverId (cx_credential ctx) in
      world_tx org f (claim_tx now locked org sid limit baseUrl) w)"

section \<open>Results\<close>

(* src agent-gateway/service.ts:657-680 commandResults/row *)
definition answer_command :: "time_ms \<Rightarrow> result_input \<Rightarrow> command_row \<Rightarrow> command_row" where
  "answer_command now r c =
     c\<lparr>cm_status := (if ri_status r = Res_failed then Cmd_failed else Cmd_acknowledged),
       cm_result := Some (ri_status r), cm_result_detail := Some (coalesce_default (ri_result r) (JObj [])),
       cm_reason := ri_reason r, cm_acknowledged_at := Some now, cm_executed_at := Some (1000 * ri_executed_at r),
       cm_duration_ms := ri_duration_ms r\<rparr>"

definition answerable :: "string \<Rightarrow> string \<Rightarrow> string \<Rightarrow> command_row \<Rightarrow> bool" where
  "answerable org sid i c = (open_command org sid c \<and> cm_id c = i)"

(* src agent-gateway/service.ts:656-686 commandResults/for *)
fun results_loop :: "string \<Rightarrow> string \<Rightarrow> time_ms \<Rightarrow> result_input list \<Rightarrow> command_row list \<Rightarrow> string list \<times> command_row list" where
  "results_loop org sid now [] rows = ([], rows)"
| "results_loop org sid now (r # rs) rows =
     (let hit = exists_row (answerable org sid (ri_id r)) rows;
          (ids, rows') = results_loop org sid now rs (sql_update (answerable org sid (ri_id r)) (answer_command now r) rows)
      in (if hit then ri_id r # ids else ids, rows'))"

definition results_tx :: "string \<Rightarrow> string \<Rightarrow> time_ms \<Rightarrow> result_input list \<Rightarrow> db \<Rightarrow> string list result \<times> db" where
  "results_tx org sid now rs d =
     (case results_loop org sid now rs (agent_commands d) of
        (ids, rows) \<Rightarrow> (Inr ids, d\<lparr>agent_commands := rows\<rparr>))"

(* src agent-gateway/service.ts:689-695 commandResults/publish *)
definition publish_results :: "string \<Rightarrow> string \<Rightarrow> result_input list \<Rightarrow> string list \<Rightarrow> world \<Rightarrow> world" where
  "publish_results org sid rs ids w =
     fold (\<lambda>i. publish org ''command.acknowledged''
         ([(''command_id'', JStr i), (''server_id'', JStr sid)] @
          (case find (\<lambda>r. ri_id r = i) rs of None \<Rightarrow> [] | Some r \<Rightarrow> [(''result'', JStr (command_result_name (ri_status r)))])))
       ids w"

(* src agent-gateway/service.ts:650-698 commandResults *)
definition commandResults :: "time_ms \<Rightarrow> faults \<Rightarrow> agent_auth_context \<Rightarrow> result_input list \<Rightarrow> world \<Rightarrow>
    string list result \<times> world" where
  "commandResults now f ctx rs w =
     (let org = rc_organizationId (cx_credential ctx); sid = rc_serverId (cx_credential ctx) in
      case world_tx org f (results_tx org sid now rs) w of
        (Inl e, w1) \<Rightarrow> (Inl e, w1)
      | (Inr ids, w1) \<Rightarrow> (Inr ids, publish_results org sid rs ids w1))"

section \<open>The life of a command\<close>

text \<open>The abstract machine: what may happen to a command once it is in the table.\<close>

inductive life :: "command_status \<Rightarrow> command_status \<Rightarrow> bool" where
  Deliver: "life Cmd_pending Cmd_sent"
| Deliver_again: "life Cmd_sent Cmd_sent"
| Answer: "s \<in> {Cmd_pending, Cmd_sent} \<Longrightarrow> s' \<in> {Cmd_acknowledged, Cmd_failed} \<Longrightarrow> life s s'"
| Expire: "s \<in> {Cmd_pending, Cmd_sent} \<Longrightarrow> life s Cmd_expired"

inductive_simps life_closed: "life Cmd_acknowledged s" "life Cmd_failed s" "life Cmd_expired s"

definition closed_status :: "command_status \<Rightarrow> bool" where
  "closed_status s = (s \<noteq> Cmd_pending \<and> s \<noteq> Cmd_sent)"

lemma life_closed_status: "life s s' \<Longrightarrow> \<not> closed_status s"
  by (auto simp: closed_status_def elim: life.cases)

text \<open>A row and what became of it: either nothing changed, or its status took steps of the machine.\<close>

definition evolves :: "command_row \<Rightarrow> command_row \<Rightarrow> bool" where
  "evolves c c' =
     (c' = c \<or> (life\<^sup>+\<^sup>+ (cm_status c) (cm_status c') \<and> cm_id c' = cm_id c \<and> cm_organization_id c' = cm_organization_id c \<and>
        cm_server_id c' = cm_server_id c \<and> cm_type c' = cm_type c \<and> cm_payload c' = cm_payload c \<and>
        cm_expires_at c' = cm_expires_at c \<and> cm_created_at c' = cm_created_at c \<and> cm_issued_by c' = cm_issued_by c))"

lemma evolves_refl [simp]: "evolves c c"
  by (simp add: evolves_def)

lemma evolves_trans: "evolves a b \<Longrightarrow> evolves b c \<Longrightarrow> evolves a c"
  unfolding evolves_def by (auto intro: tranclp_trans)

lemma evolves_closed: "evolves c c' \<Longrightarrow> closed_status (cm_status c) \<Longrightarrow> c' = c"
  unfolding evolves_def by (auto dest: tranclpD life_closed_status)

definition queue_evolves :: "command_row list \<Rightarrow> command_row list \<Rightarrow> bool" where
  "queue_evolves rows rows' = list_all2 evolves rows rows'"

lemma queue_refl [simp]: "queue_evolves rows rows"
  by (simp add: queue_evolves_def list_all2_refl)

lemma queue_trans: "queue_evolves a b \<Longrightarrow> queue_evolves b c \<Longrightarrow> queue_evolves a c"
  unfolding queue_evolves_def by (rule list_all2_trans [where ?P1.0 = evolves and ?P2.0 = evolves]) (rule evolves_trans)

lemma queue_update: "(\<And>c. P c \<Longrightarrow> evolves c (f c)) \<Longrightarrow> queue_evolves rows (sql_update P f rows)"
  unfolding queue_evolves_def by (induction rows) auto

lemma expire_evolves: "queue_evolves rows (expire_commands org sid now rows)"
  unfolding expire_commands_def
  by (rule queue_update) (auto simp: open_command_def evolves_def expire_command_def intro!: tranclp.r_into_trancl life.Expire)

lemma in_select:
  assumes "i \<in> set (select_commands org sid now locked limit rows)"
  shows "\<exists>c \<in> set rows. cm_id c = i \<and> open_command org sid c \<and> now < cm_expires_at c \<and> \<not> locked i"
  using assms by (auto simp: select_commands_def dest!: in_set_takeD)

text \<open>Identifiers are unique in the table (its primary key and its index).\<close>

definition commands_keyed :: "command_row list \<Rightarrow> bool" where
  "commands_keyed rows = distinct (map cm_id rows)"

lemma queue_keyed: "queue_evolves rows rows' \<Longrightarrow> map cm_id rows' = map cm_id rows"
  unfolding queue_evolves_def by (induction rule: list_all2_induct) (auto simp: evolves_def)

lemma commands_keyed_inj: "commands_keyed rows \<Longrightarrow> c \<in> set rows \<Longrightarrow> c' \<in> set rows \<Longrightarrow> cm_id c = cm_id c' \<Longrightarrow> c = c'"
  unfolding commands_keyed_def by (auto simp: distinct_map dest: inj_onD)

lemma claimed_open:
  assumes "commands_keyed rows" and "c \<in> set rows" and "claimed org (select_commands org sid now locked limit rows) c"
  shows "open_command org sid c \<and> now < cm_expires_at c \<and> \<not> locked (cm_id c)"
proof -
  from assms(3) have "cm_id c \<in> set (select_commands org sid now locked limit rows)" by (simp add: claimed_def)
  from in_select [OF this] obtain c' where "c' \<in> set rows" "cm_id c' = cm_id c" "open_command org sid c'"
    "now < cm_expires_at c'" "\<not> locked (cm_id c)" by blast
  with commands_keyed_inj [OF assms(1,2), of c'] show ?thesis by simp
qed

lemma send_evolves: "open_command org sid c \<Longrightarrow> evolves c (send_command now c)"
  by (auto simp: evolves_def send_command_def open_command_def intro!: tranclp.r_into_trancl life.Deliver life.Deliver_again)

lemma answer_evolves: "open_command org sid c \<Longrightarrow> evolves c (answer_command now r c)"
  by (auto simp: evolves_def answer_command_def open_command_def intro!: tranclp.r_into_trancl life.Answer)

lemma queue_update_in:
  "(\<And>c. c \<in> set rows \<Longrightarrow> P c \<Longrightarrow> evolves c (f c)) \<Longrightarrow> queue_evolves rows (sql_update P f rows)"
  unfolding queue_evolves_def by (induction rows) auto

lemma claim_evolves:
  assumes "commands_keyed (agent_commands d)"
  shows "queue_evolves (agent_commands d) (agent_commands (snd (claim_tx now locked org sid limit baseUrl d)))"
proof -
  let ?rows = "expire_commands org sid now (agent_commands d)"
  have e: "queue_evolves (agent_commands d) ?rows" by (rule expire_evolves)
  have k: "commands_keyed ?rows" using assms queue_keyed [OF e] by (simp add: commands_keyed_def)
  have "queue_evolves ?rows (sql_update (claimed org (select_commands org sid now locked limit ?rows)) (send_command now) ?rows)"
    by (rule queue_update_in) (use claimed_open [OF k] send_evolves in blast)
  with e show ?thesis by (auto simp: claim_tx_def Let_def intro: queue_trans)
qed

lemma results_evolves: "queue_evolves rows (snd (results_loop org sid now rs rows))"
proof (induction rs arbitrary: rows)
  case (Cons r rs)
  have "queue_evolves rows (sql_update (answerable org sid (ri_id r)) (answer_command now r) rows)"
    by (rule queue_update) (auto simp: answerable_def intro: answer_evolves)
  from queue_trans [OF this Cons.IH] show ?case
    by (cases "results_loop org sid now rs (sql_update (answerable org sid (ri_id r)) (answer_command now r) rows)")
      (simp add: Let_def)
qed simp

section \<open>Confinement\<close>

lemma commands_update_confined:
  assumes "outside cm_organization_id org rows = outside cm_organization_id org (agent_commands d)"
  shows "confined org d (d\<lparr>agent_commands := rows\<rparr>)"
  using assms by (rule confined_tables(8))

lemma claim_confined: "confined org d (snd (claim_tx now locked org sid limit baseUrl d))"
proof -
  let ?rows = "expire_commands org sid now (agent_commands d)"
  have e: "outside cm_organization_id org ?rows = outside cm_organization_id org (agent_commands d)"
    unfolding expire_commands_def by (rule outside_update) (auto simp: open_command_def expire_command_def)
  have "outside cm_organization_id org (sql_update (claimed org ids) (send_command now) ?rows) =
      outside cm_organization_id org (agent_commands d)" for ids
    unfolding e [symmetric] by (rule outside_update) (auto simp: claimed_def send_command_def)
  with e show ?thesis by (simp add: claim_tx_def Let_def commands_update_confined)
qed

lemma results_loop_outside:
  "outside cm_organization_id org (snd (results_loop org sid now rs rows)) = outside cm_organization_id org rows"
proof (induction rs arbitrary: rows)
  case (Cons r rs)
  have "outside cm_organization_id org (sql_update (answerable org sid (ri_id r)) (answer_command now r) rows) =
      outside cm_organization_id org rows"
    by (rule outside_update) (auto simp: answerable_def open_command_def answer_command_def)
  with Cons.IH [of "sql_update (answerable org sid (ri_id r)) (answer_command now r) rows"] show ?case
    by (cases "results_loop org sid now rs (sql_update (answerable org sid (ri_id r)) (answer_command now r) rows)")
      (simp add: Let_def)
qed simp

lemma results_confined: "confined org d (snd (results_tx org sid now rs d))"
  using results_loop_outside [of org sid now rs "agent_commands d"]
  by (cases "results_loop org sid now rs (agent_commands d)") (simp add: results_tx_def commands_update_confined)

lemma claimCommands_scoped:
  "scoped (rc_organizationId (cx_credential ctx)) w (snd (claimCommands now locked f ctx limit baseUrl w))"
  unfolding claimCommands_def Let_def by (rule scoped_tx) (metis claim_confined snd_conv)

lemma publish_results_scoped: "scoped org w (publish_results org sid rs ids w)"
  unfolding publish_results_def by (induction ids arbitrary: w) (auto intro: scoped_trans [OF scoped_publish [OF scoped_refl]])

lemma publish_results_db [simp]: "wd_db (publish_results org sid rs ids w) = wd_db w"
  unfolding publish_results_def by (induction ids arbitrary: w) simp_all

lemma commandResults_scoped:
  "scoped (rc_organizationId (cx_credential ctx)) w (snd (commandResults now f ctx rs w))"
proof -
  let ?org = "rc_organizationId (cx_credential ctx)" and ?sid = "rc_serverId (cx_credential ctx)"
  obtain r w1 where t: "world_tx ?org f (results_tx ?org ?sid now rs) w = (r, w1)" by fastforce
  have "scoped ?org w (snd (world_tx ?org f (results_tx ?org ?sid now rs) w))"
    by (rule scoped_tx) (metis results_confined snd_conv)
  then have 1: "scoped ?org w w1" by (simp add: t)
  show ?thesis using 1 scoped_trans [OF 1 publish_results_scoped]
    by (simp add: commandResults_def Let_def t split: sum.split)
qed

section \<open>Sequences of operations on the queue\<close>

inductive command_step :: "world \<Rightarrow> world \<Rightarrow> bool" where
  Claim: "command_step w (snd (claimCommands now locked f ctx limit baseUrl w))"
| Results: "command_step w (snd (commandResults now f ctx rs w))"
| Issue: "cm_status c = Cmd_pending \<Longrightarrow> cm_id c \<notin> cm_id ` set (agent_commands (wd_db w)) \<Longrightarrow>
    command_step w (w\<lparr>wd_db := (wd_db w)\<lparr>agent_commands := agent_commands (wd_db w) @ [c]\<rparr>\<rparr>)"

definition commands_of :: "world \<Rightarrow> command_row list" where
  "commands_of w = agent_commands (wd_db w)"

lemma claimCommands_evolves:
  assumes "commands_keyed (commands_of w)"
  shows "queue_evolves (commands_of w) (commands_of (snd (claimCommands now locked f ctx limit baseUrl w)))"
  unfolding claimCommands_def Let_def commands_of_def
  by (rule world_tx_keeps [where Q = "\<lambda>d. queue_evolves (agent_commands (wd_db w)) (agent_commands d)"])
    (use claim_evolves assms in \<open>simp, metis commands_of_def snd_conv\<close>)

lemma commandResults_evolves: "queue_evolves (commands_of w) (commands_of (snd (commandResults now f ctx rs w)))"
proof -
  let ?org = "rc_organizationId (cx_credential ctx)" and ?sid = "rc_serverId (cx_credential ctx)"
  have r: "queue_evolves (agent_commands d) (agent_commands (snd (results_tx ?org ?sid now rs d)))" for d
    using results_evolves [of "agent_commands d" ?org ?sid now rs]
    by (cases "results_loop ?org ?sid now rs (agent_commands d)") (simp add: results_tx_def)
  have "queue_evolves (agent_commands (wd_db w)) (agent_commands (wd_db (snd (world_tx ?org f (results_tx ?org ?sid now rs) w))))"
    by (rule world_tx_keeps [where Q = "\<lambda>d. queue_evolves (agent_commands (wd_db w)) (agent_commands d)"])
      (use r in \<open>simp, metis snd_conv\<close>)
  then show ?thesis
    by (cases "world_tx ?org f (results_tx ?org ?sid now rs) w")
      (auto simp: commandResults_def Let_def commands_of_def split: sum.split)
qed

text \<open>Every row of the old queue has its image in the new one.\<close>

definition queue_grows :: "command_row list \<Rightarrow> command_row list \<Rightarrow> bool" where
  "queue_grows rows rows' = (\<exists>mid new. queue_evolves rows mid \<and> rows' = mid @ new)"

lemma command_step_grows:
  assumes "command_step w w'" and "commands_keyed (commands_of w)"
  shows "queue_grows (commands_of w) (commands_of w') \<and> commands_keyed (commands_of w')"
  using assms
proof (induction rule: command_step.induct)
  case (Claim w now locked f ctx limit baseUrl)
  from claimCommands_evolves [OF Claim] queue_keyed [OF claimCommands_evolves [OF Claim]] Claim show ?case
    unfolding queue_grows_def commands_keyed_def by (metis append_Nil2)
next
  case (Results w now f ctx rs)
  from commandResults_evolves queue_keyed [OF commandResults_evolves] Results show ?case
    unfolding queue_grows_def commands_keyed_def by (metis append_Nil2)
next
  case (Issue c w)
  have "queue_grows (commands_of w) (commands_of w @ [c])" unfolding queue_grows_def using queue_refl by blast
  with Issue show ?case by (simp add: commands_of_def commands_keyed_def)
qed

lemma queue_grows_trans: "queue_grows a b \<Longrightarrow> queue_grows b c \<Longrightarrow> queue_grows a c"
proof -
  assume "queue_grows a b" "queue_grows b c"
  then obtain m n m' n' where a: "queue_evolves a m" "b = m @ n" and b: "queue_evolves b m'" "c = m' @ n'"
    unfolding queue_grows_def by blast
  from b(1) a(2) obtain m1 m2 where "m' = m1 @ m2" "queue_evolves m m1"
    unfolding queue_evolves_def by (auto simp: list_all2_append1)
  with a b show ?thesis unfolding queue_grows_def using queue_trans by (metis append.assoc)
qed

text \<open>C28: The queue refines the life of a command. In any sequence of deliveries, answers and new commands,
  of any agents and with any faults, every command stays in the queue under its identifier and with its
  content, its status only takes steps of the machine, and one that was answered or has expired never
  changes again.\<close>

theorem commands_refine_life:
  assumes "command_step\<^sup>*\<^sup>* w w'" and "commands_keyed (agent_commands (wd_db w))" and "c \<in> set (agent_commands (wd_db w))"
  shows "\<exists>c' \<in> set (agent_commands (wd_db w')). cm_id c' = cm_id c \<and> cm_payload c' = cm_payload c \<and>
      life\<^sup>*\<^sup>* (cm_status c) (cm_status c') \<and> (closed_status (cm_status c) \<longrightarrow> c' = c)"
proof -
  from assms(1,2) have "queue_grows (commands_of w) (commands_of w') \<and> commands_keyed (commands_of w')"
  proof (induction rule: rtranclp_induct)
    case base
    show ?case unfolding queue_grows_def commands_of_def using base queue_refl by blast
  next
    case (step y z)
    with command_step_grows [OF step.hyps(2)] show ?case by (blast intro: queue_grows_trans)
  qed
  then obtain mid new where m: "queue_evolves (commands_of w) mid" and w': "commands_of w' = mid @ new"
    unfolding queue_grows_def by blast
  from assms(3) obtain n where n: "n < length (commands_of w)" "commands_of w ! n = c"
    by (auto simp: in_set_conv_nth commands_of_def)
  with m have e: "evolves c (mid ! n)" and l: "n < length mid"
    by (auto simp: queue_evolves_def list_all2_conv_all_nth)
  have "life\<^sup>*\<^sup>* (cm_status c) (cm_status (mid ! n)) \<and> cm_id (mid ! n) = cm_id c \<and> cm_payload (mid ! n) = cm_payload c"
    using e by (auto simp: evolves_def intro: tranclp_into_rtranclp)
  moreover have "mid ! n \<in> set (agent_commands (wd_db w'))" using l w' by (simp add: commands_of_def)
  ultimately show ?thesis using evolves_closed [OF e] by blast
qed

section \<open>What a poll delivers\<close>

lemma expired_rows:
  assumes "c \<in> set (expire_commands org sid now rows)" and "open_command org sid c"
  shows "c \<in> set rows \<and> now < cm_expires_at c"
proof -
  obtain c0 where c0: "c0 \<in> set rows"
    and c: "c = (if open_command org sid c0 \<and> cm_expires_at c0 \<le> now then expire_command c0 else c0)"
    using assms(1) unfolding expire_commands_def in_sql_update by blast
  have "\<not> open_command org sid (expire_command c0)" by (simp add: open_command_def expire_command_def)
  with assms(2) c have "c = c0" "\<not> cm_expires_at c0 \<le> now" by (auto split: if_splits)
  with c0 show ?thesis by simp
qed

lemma take_sorted:
  assumes "c \<in> set xs" and "cm_id c \<notin> set (take n (map cm_id (sort_key cm_created_at xs)))"
    and "x \<in> set (take n (sort_key cm_created_at xs))"
  shows "cm_created_at x \<le> cm_created_at c"
proof -
  let ?s = "sort_key cm_created_at xs"
  have "c \<in> set ?s" using assms(1) by simp
  moreover have "c \<notin> set (take n ?s)" using assms(2) by (auto simp: take_map)
  ultimately have "c \<in> set (drop n ?s)" by (metis append_take_drop_id Un_iff set_append)
  moreover have "sorted (map cm_created_at (take n ?s @ drop n ?s))" by simp
  ultimately show ?thesis using assms(3) unfolding map_append sorted_append by auto
qed

lemma claimed_length:
  assumes "commands_keyed rows"
  shows "length (filter (claimed org ids) rows) \<le> length ids"
proof -
  have "distinct (map cm_id (filter (claimed org ids) rows))"
    using assms by (auto simp: commands_keyed_def distinct_map intro: inj_on_subset)
  then have "length (filter (claimed org ids) rows) = card (cm_id ` set (filter (claimed org ids) rows))"
    by (metis distinct_card length_map set_map)
  also have "\<dots> \<le> card (set ids)" by (rule card_mono) (auto simp: claimed_def)
  finally show ?thesis using card_length le_trans by blast
qed

text \<open>A command that a poll can hand out, and one it leaves for the next.\<close>

definition deliverable :: "string \<Rightarrow> string \<Rightarrow> time_ms \<Rightarrow> (string \<Rightarrow> bool) \<Rightarrow> command_row \<Rightarrow> bool" where
  "deliverable org sid now locked c = (open_command org sid c \<and> now < cm_expires_at c \<and> \<not> locked (cm_id c))"

definition delivered_rows :: "time_ms \<Rightarrow> (string \<Rightarrow> bool) \<Rightarrow> string \<Rightarrow> string \<Rightarrow> int \<Rightarrow> db \<Rightarrow> command_row list" where
  "delivered_rows now locked org sid limit d =
     (let rows = expire_commands org sid now (agent_commands d)
      in filter (claimed org (select_commands org sid now locked limit rows)) rows)"

lemma delivered_rows_ok:
  assumes k: "commands_keyed (agent_commands d)" and c: "c \<in> set (delivered_rows now locked org sid limit d)"
  shows "c \<in> set (agent_commands d) \<and> deliverable org sid now locked c"
    and "\<And>c0. c0 \<in> set (agent_commands d) \<Longrightarrow> deliverable org sid now locked c0 \<Longrightarrow>
      c0 \<notin> set (delivered_rows now locked org sid limit d) \<Longrightarrow> cm_created_at c \<le> cm_created_at c0"
proof -
  let ?rows = "expire_commands org sid now (agent_commands d)"
  let ?cand = "filter (\<lambda>c. open_command org sid c \<and> now < cm_expires_at c \<and> \<not> locked (cm_id c)) ?rows"
  have kr: "commands_keyed ?rows" using k queue_keyed [OF expire_evolves] by (simp add: commands_keyed_def)
  have cr: "c \<in> set ?rows" "claimed org (select_commands org sid now locked limit ?rows) c"
    using c by (simp_all add: delivered_rows_def Let_def)
  note o = claimed_open [OF kr cr]
  then show "c \<in> set (agent_commands d) \<and> deliverable org sid now locked c"
    using expired_rows [OF cr(1)] by (simp add: deliverable_def)
  show "cm_created_at c \<le> cm_created_at c0"
    if c0: "c0 \<in> set (agent_commands d)" "deliverable org sid now locked c0"
      "c0 \<notin> set (delivered_rows now locked org sid limit d)" for c0
  proof -
    have "c0 \<in> set ?rows" using c0(1,2)
      by (auto simp: expire_commands_def in_sql_update deliverable_def intro!: bexI [of _ c0])
    then have in_c: "c0 \<in> set ?cand" using c0(2) by (simp add: deliverable_def)
    have "cm_organization_id c0 = org" using c0(2) by (simp add: deliverable_def open_command_def)
    then have "cm_id c0 \<notin> set (take (nat limit) (map cm_id (sort_key cm_created_at ?cand)))"
      using c0(3) \<open>c0 \<in> set ?rows\<close> by (auto simp: delivered_rows_def Let_def claimed_def select_commands_def)
    moreover have "\<exists>x \<in> set (take (nat limit) (sort_key cm_created_at ?cand)). cm_id x = cm_id c"
      using cr(2) by (auto simp: claimed_def select_commands_def take_map)
    then obtain x where x: "x \<in> set (take (nat limit) (sort_key cm_created_at ?cand))" "cm_id x = cm_id c" by blast
    have "x \<in> set ?rows" using in_set_takeD [OF x(1)] by simp
    then have "x = c" using commands_keyed_inj [OF kr _ cr(1) x(2)] by simp
    ultimately show ?thesis using take_sorted [OF in_c _ x(1)] by simp
  qed
qed

text \<open>A poll returns at most \<open>limit\<close> commands, all of its own server, still open, not expired and not
  held by another poll, the oldest first: what it leaves behind is not older than what it hands out. A
  poll with a negative limit never succeeds.\<close>

theorem poll_delivers:
  assumes "commands_keyed (agent_commands (wd_db w))"
    and "claimCommands now locked f ctx limit baseUrl w = (Inr cs, w')"
  shows "0 \<le> limit \<and> int (length cs) \<le> limit \<and>
    (\<exists>rows. cs = map (deliver (rc_organizationId (cx_credential ctx)) baseUrl) rows \<and>
       (\<forall>c \<in> set rows. c \<in> set (agent_commands (wd_db w)) \<and>
          deliverable (rc_organizationId (cx_credential ctx)) (rc_serverId (cx_credential ctx)) now locked c \<and>
          (\<forall>c0 \<in> set (agent_commands (wd_db w)).
             deliverable (rc_organizationId (cx_credential ctx)) (rc_serverId (cx_credential ctx)) now locked c0 \<and>
             c0 \<notin> set rows \<longrightarrow> cm_created_at c \<le> cm_created_at c0)))"
proof -
  let ?org = "rc_organizationId (cx_credential ctx)" and ?sid = "rc_serverId (cx_credential ctx)"
  let ?rows = "delivered_rows now locked ?org ?sid limit (wd_db w)"
  have t: "claim_tx now locked ?org ?sid limit baseUrl (wd_db w) = (Inr cs, wd_db w')"
    using assms(2) unfolding claimCommands_def Let_def by (rule world_tx_Inr(1))
  then have l: "0 \<le> limit" and cs: "cs = map (deliver ?org baseUrl) ?rows"
    by (auto simp: claim_tx_def delivered_rows_def Let_def split: if_splits)
  have k: "commands_keyed (expire_commands ?org ?sid now (agent_commands (wd_db w)))"
    using assms(1) queue_keyed [OF expire_evolves] by (simp add: commands_keyed_def)
  have "length cs \<le> length (select_commands ?org ?sid now locked limit (expire_commands ?org ?sid now (agent_commands (wd_db w))))"
    using claimed_length [OF k] by (simp add: cs delivered_rows_def Let_def)
  also have "\<dots> \<le> nat limit" by (simp add: select_commands_def)
  finally have "int (length cs) \<le> limit" using l by simp
  with l cs show ?thesis
    using delivered_rows_ok [OF assms(1), of _ now locked ?org ?sid limit] by (intro conjI exI [of _ ?rows]) blast+
qed

section \<open>What an answer acknowledges\<close>

definition settled :: "string \<Rightarrow> string \<Rightarrow> string \<Rightarrow> command_row list \<Rightarrow> bool" where
  "settled org sid i rows = (\<not> exists_row (answerable org sid i) rows)"

lemma settled_answer: "settled org sid (ri_id r) (sql_update (answerable org sid (ri_id r)) (answer_command now r) rows)"
  by (induction rows) (auto simp: settled_def exists_row_iff answerable_def open_command_def answer_command_def)

lemma settled_update: "settled org sid i rows \<Longrightarrow> settled org sid i (sql_update (answerable org sid j) (answer_command now r) rows)"
  by (induction rows) (auto simp: settled_def exists_row_iff answerable_def open_command_def answer_command_def)

lemma settled_not_acknowledged:
  "settled org sid i rows \<Longrightarrow> i \<notin> set (fst (results_loop org sid now rs rows)) \<and>
     settled org sid i (snd (results_loop org sid now rs rows))"
proof (induction rs arbitrary: rows)
  case (Cons r rs)
  let ?rows = "sql_update (answerable org sid (ri_id r)) (answer_command now r) rows"
  have "\<not> (exists_row (answerable org sid (ri_id r)) rows \<and> ri_id r = i)" using Cons.prems by (auto simp: settled_def)
  with Cons.IH [OF settled_update [OF Cons.prems, of "ri_id r" now r]] show ?case
    by (cases "results_loop org sid now rs ?rows") (auto simp: Let_def)
qed simp

lemma results_loop_once:
  "distinct (fst (results_loop org sid now rs rows)) \<and>
   (\<forall>i \<in> set (fst (results_loop org sid now rs rows)). \<not> settled org sid i rows) \<and>
   (\<forall>r \<in> set rs. settled org sid (ri_id r) (snd (results_loop org sid now rs rows)))"
proof (induction rs arbitrary: rows)
  case (Cons r rs)
  let ?rows = "sql_update (answerable org sid (ri_id r)) (answer_command now r) rows"
  obtain ids rows' where l: "results_loop org sid now rs ?rows = (ids, rows')" by fastforce
  have s: "settled org sid (ri_id r) ?rows" by (rule settled_answer)
  with settled_not_acknowledged [OF s, of now rs] l have "ri_id r \<notin> set ids" "settled org sid (ri_id r) rows'" by simp_all
  moreover have "\<not> settled org sid i rows" if "i \<in> set ids" for i
    using Cons.IH [of ?rows] l that settled_update [of org sid i rows "ri_id r" now r] by auto
  ultimately show ?case using Cons.IH [of ?rows] l by (auto simp: Let_def settled_def)
qed simp

text \<open>An answer acknowledges each command at most once. Only open commands of the server are
  acknowledged, none of them twice in one batch, and sending the same results again acknowledges nothing.\<close>

theorem results_acknowledged_once:
  assumes "commandResults now f ctx rs w = (Inr ids, w1)"
    and "commandResults now' f' ctx rs w1 = (Inr ids', w2)"
  shows "distinct ids \<and> set ids \<subseteq> ri_id ` set rs \<and>
    (\<forall>i \<in> set ids. \<exists>c \<in> set (agent_commands (wd_db w)). cm_id c = i \<and>
       open_command (rc_organizationId (cx_credential ctx)) (rc_serverId (cx_credential ctx)) c) \<and> ids' = []"
proof -
  let ?org = "rc_organizationId (cx_credential ctx)" and ?sid = "rc_serverId (cx_credential ctx)"
  have tx: "fst (results_loop ?org ?sid n rs (agent_commands (wd_db v))) = is \<and>
      agent_commands (wd_db v') = snd (results_loop ?org ?sid n rs (agent_commands (wd_db v)))"
    if "commandResults n g ctx rs v = (Inr is, v')" for n g v "is" v'
  proof -
    obtain r v1 where t: "world_tx ?org g (results_tx ?org ?sid n rs) v = (r, v1)" by fastforce
    with that have r: "r = Inr is" and v': "v' = publish_results ?org ?sid rs is v1"
      by (auto simp: commandResults_def Let_def split: sum.splits)
    from world_tx_Inr(1) [OF t [unfolded r]] show ?thesis
      by (cases "results_loop ?org ?sid n rs (agent_commands (wd_db v))")
        (auto simp: results_tx_def v' dest!: arg_cong [where f = agent_commands])
  qed
  note 1 = tx [OF assms(1)] and 2 = tx [OF assms(2)]
  have s: "settled ?org ?sid (ri_id r) (agent_commands (wd_db w1))" if "r \<in> set rs" for r
    using results_loop_once [of ?org ?sid now rs "agent_commands (wd_db w)"] 1 that by simp
  have sub: "set (fst (results_loop ?org ?sid n rs' rows)) \<subseteq> ri_id ` set rs'" for n rs' rows
    by (induction rs' arbitrary: rows) (auto simp: Let_def split: prod.splits, metis fst_conv imageE subsetD)
  have "ids' = []"
  proof (rule ccontr)
    assume "ids' \<noteq> []"
    then obtain i where i: "i \<in> set ids'" by (cases ids') auto
    then obtain r where "r \<in> set rs" "ri_id r = i" using sub [of now' rs "agent_commands (wd_db w1)"] 2 by auto
    with settled_not_acknowledged [OF s, of r now' rs] 2 i show False by simp
  qed
  moreover have "\<exists>c \<in> set (agent_commands (wd_db w)). cm_id c = i \<and> open_command ?org ?sid c" if "i \<in> set ids" for i
    using results_loop_once [of ?org ?sid now rs "agent_commands (wd_db w)"] 1 that
    by (auto simp: settled_def exists_row_iff answerable_def)
  ultimately show ?thesis
    using results_loop_once [of ?org ?sid now rs "agent_commands (wd_db w)"] 1 sub [of now rs "agent_commands (wd_db w)"]
    by simp
qed

end
