(* ===== verification/Agent_Config.thy ===== *)
theory Agent_Config
  imports Effects Authenticate Schemas Catalog
begin

text \<open>
  \<open>apps/api/src/agent-gateway/service.ts\<close>, the configuration an agent reads (\<open>config\<close>) and the live
  view it feeds (\<open>live\<close>, \<open>aggregateHeatmap\<close>). The live view is in Redis only: a store of snapshots and
  of counters, each call of which may fail.
\<close>

section \<open>Configuration\<close>

definition mode_name :: "protection_mode \<Rightarrow> string" where
  "mode_name m = (case m of Watch \<Rightarrow> ''watch'' | Block \<Rightarrow> ''block'')"

definition saved_settings :: "string \<Rightarrow> string \<Rightarrow> db \<Rightarrow> setting_row list" where
  "saved_settings org sid d = filter (\<lambda>r. st_organization_id r = org \<and> st_server_id r = sid) (protection_settings d)"

text \<open>The choice of the client where there is one (the last of them in a \<open>Map\<close>), else the default.\<close>

(* src agent-gateway/service.ts:500-510 config/protections *)
definition effective_setting :: "setting_row list \<Rightarrow> protection_def \<Rightarrow> bool \<times> string" where
  "effective_setting saved it =
     (case map_of (rev (map (\<lambda>r. (st_protection_id r, r)) saved)) (pd_id it) of
        Some s \<Rightarrow> (st_enabled s, st_mode s)
      | None \<Rightarrow> (pd_defaultEnabled it, mode_name (pd_defaultMode it)))"

definition setting_json :: "setting_row list \<Rightarrow> protection_def \<Rightarrow> json" where
  "setting_json saved it =
     JObj [(''id'', JStr (pd_id it)), (''enabled'', JBool (fst (effective_setting saved it))),
           (''mode'', JStr (snd (effective_setting saved it)))]"

datatype config_result = Config_invalid | Config_ok "(string \<times> json) list"

(* src agent-gateway/service.ts:512-520 config/reply *)
definition config_document :: "server_row \<Rightarrow> (string \<times> json) list \<Rightarrow> string option \<Rightarrow> setting_row list \<Rightarrow> (string \<times> json) list" where
  "config_document r parsed license saved =
     obj_put ''protections'' (JArr (map (setting_json saved) catalog_items))
       (obj_spread (obj_spread [(''config_version'', JInt (sv_config_version r))] parsed)
         (if truthy license then [(''license'', JStr (the license))] else []))"

(* src agent-gateway/service.ts:458-521 config/transaction *)
definition config_tx :: "string \<Rightarrow> string \<Rightarrow> db \<Rightarrow> config_result option result \<times> db" where
  "config_tx org sid d =
     (case first_row (live_server org sid) (servers d) of
        None \<Rightarrow> (Inr None, d)
      | Some r \<Rightarrow>
          (case remoteConfigSchema (sv_remote_config r) of
             None \<Rightarrow> (Inr (Some Config_invalid), d)
           | Some parsed \<Rightarrow>
               (let license = map_option li_token
                      (first_row (\<lambda>l. li_organization_id l = org \<and> li_server_id l = sid) (licenses d))
                in (Inr (Some (Config_ok (config_document r parsed license (saved_settings org sid d)))), d))))"

(* src agent-gateway/service.ts:455-522 config *)
definition agent_config :: "faults \<Rightarrow> agent_auth_context \<Rightarrow> world \<Rightarrow> config_result option result \<times> world" where
  "agent_config f ctx w =
     (let org = rc_organizationId (cx_credential ctx); sid = rc_serverId (cx_credential ctx) in
      world_tx org f (config_tx org sid) w)"

lemma config_tx_snd [simp]: "snd (config_tx org sid d) = d"
  by (simp add: config_tx_def Let_def split: option.split)

lemma agent_config_scoped: "scoped (rc_organizationId (cx_credential ctx)) w (snd (agent_config f ctx w))"
  unfolding agent_config_def Let_def by (rule scoped_tx) (metis config_tx_snd confined_refl snd_conv)

lemma obj_get_spread:
  "obj_get k (obj_spread fs gs) = (case map_of (rev gs) k of Some v \<Rightarrow> Some v | None \<Rightarrow> obj_get k fs)"
proof (induction gs arbitrary: fs)
  case Nil
  then show ?case by (simp add: obj_spread_def)
next
  case (Cons g gs)
  obtain k' v' where g: "g = (k', v')" by fastforce
  have "obj_spread fs (g # gs) = obj_spread (obj_put k' v' fs) gs" by (simp add: obj_spread_def g)
  then show ?case using Cons.IH by (simp add: g map_add_def split: option.split)
qed

text \<open>The document an agent receives is the effective state: every protection of the catalogue exactly
  once and in order, with the choice saved for this server where there is one and the default where there
  is none, next to the stored configuration, which has passed the strict schema again on its way out.\<close>

theorem config_is_effective:
  assumes "agent_config f ctx w = (Inr (Some (Config_ok fs)), w')"
  shows "(\<exists>ps. obj_get ''protections'' fs = Some (JArr ps) \<and> length ps = length catalog_items \<and>
      (\<forall>i < length catalog_items. ps ! i = setting_json (saved_settings (rc_organizationId (cx_credential ctx))
         (rc_serverId (cx_credential ctx)) (wd_db w)) (catalog_items ! i))) \<and>
    (\<exists>r \<in> set (servers (wd_db w)). live_server (rc_organizationId (cx_credential ctx)) (rc_serverId (cx_credential ctx)) r \<and>
      obj_get ''config_version'' fs = Some (JInt (sv_config_version r)) \<and>
      (\<exists>rc. sv_remote_config r = JObj rc \<and> remoteConfigSchema (JObj rc) = Some rc)) \<and> w' = w"
proof -
  let ?org = "rc_organizationId (cx_credential ctx)" and ?sid = "rc_serverId (cx_credential ctx)"
  have t: "world_tx ?org f (config_tx ?org ?sid) w = (Inr (Some (Config_ok fs)), w')"
    using assms by (simp add: agent_config_def Let_def)
  note c = world_tx_Inr(1) [OF t]
  then obtain r parsed where r: "first_row (live_server ?org ?sid) (servers (wd_db w)) = Some r"
    and p: "remoteConfigSchema (sv_remote_config r) = Some parsed"
    and fs: "fs = config_document r parsed (map_option li_token
                      (first_row (\<lambda>l. li_organization_id l = ?org \<and> li_server_id l = ?sid) (licenses (wd_db w))))
                 (saved_settings ?org ?sid (wd_db w))"
    by (auto simp: config_tx_def Let_def split: option.splits)
  have rc: "sv_remote_config r = JObj parsed" and keys: "fst ` set parsed \<subseteq> {''telemetry_enabled'', ''heartbeat_interval'',
      ''telemetry_interval'', ''alert_batch_size'', ''alert_flush_interval'', ''log_level'', ''metrics''}"
    using p by (auto simp: remoteConfigSchema_def dest!: z_object_keys)
  then have "map_of (rev parsed) ''config_version'' = None" by (auto simp: map_of_eq_None_iff)
  then have "obj_get ''config_version'' fs = Some (JInt (sv_config_version r))"
    unfolding fs config_document_def by (simp add: obj_get_spread) (simp add: obj_get_def)
  moreover have "obj_get ''protections'' fs = Some (JArr (map (setting_json (saved_settings ?org ?sid (wd_db w))) catalog_items))"
    unfolding fs config_document_def by simp
  moreover have "w' = w" using world_tx_Inr(4) [OF t] c config_tx_snd [of ?org ?sid "wd_db w"] by (metis snd_conv world.surjective world.update_convs(1))
  ultimately show ?thesis using first_row_SomeD [OF r] rc p by auto
qed

section \<open>Live view and heat map\<close>

record live_store =
  ls_snapshots :: "string \<Rightarrow> (json \<times> time_ms \<times> int) option"
  ls_heat :: "string \<Rightarrow> string \<Rightarrow> int"
  ls_heat_ttl :: "string \<Rightarrow> int option"

(* src agent-gateway/service.ts:39-39 LIVE_TTL_SECONDS *)
definition live_ttl_seconds :: int where "live_ttl_seconds = 20"
(* src agent-gateway/service.ts:40-41 liveKey *)
definition liveKey :: "string \<Rightarrow> string \<Rightarrow> string" where
  "liveKey org sid = ''zs:live:'' @ org @ '':'' @ sid"
(* src agent-gateway/service.ts:49-49 HEATMAP_CELL_SIZE *)
definition heatmap_cell_size :: rat where "heatmap_cell_size = 50"
(* src agent-gateway/service.ts:50-50 HEATMAP_BUCKET_SECONDS *)
definition heatmap_bucket_seconds :: int where "heatmap_bucket_seconds = 60"
(* src agent-gateway/service.ts:51-51 HEATMAP_RETENTION_BUCKETS *)
definition heatmap_retention_buckets :: int where "heatmap_retention_buckets = 30"
(* src agent-gateway/service.ts:52-53 heatmapKey *)
definition heatmapKey :: "string \<Rightarrow> string \<Rightarrow> int \<Rightarrow> string" where
  "heatmapKey org sid bucket = ''zs:heatmap:'' @ org @ '':'' @ sid @ '':'' @ string_of_int bucket"
(* src agent-gateway/service.ts:54-55 heatmapBucket *)
definition heatmapBucket :: "time_ms \<Rightarrow> int" where
  "heatmapBucket now = now div (heatmap_bucket_seconds * 1000)"

text \<open>\<open>Math.round\<close>, on exact quotients: the rounding of the division to a double is not modelled.\<close>

definition js_round :: "rat \<Rightarrow> int" where "js_round q = \<lfloor>q + 1 / 2\<rfloor>"

(* src agent-gateway/service.ts:568-570 aggregateHeatmap/field *)
definition heat_cell :: "live_player \<Rightarrow> string" where
  "heat_cell p = string_of_int (js_round (lp_x p / heatmap_cell_size)) @ '':'' @
     string_of_int (js_round (lp_y p / heatmap_cell_size))"

fun bump :: "string \<Rightarrow> (string \<times> int) list \<Rightarrow> (string \<times> int) list" where
  "bump k [] = [(k, 1)]"
| "bump k ((k', n) # cs) = (if k = k' then (k', n + 1) # cs else (k', n) # bump k cs)"

(* src agent-gateway/service.ts:566-572 aggregateHeatmap/counts *)
definition cell_counts :: "live_player list \<Rightarrow> (string \<times> int) list" where
  "cell_counts ps = fold (\<lambda>p. bump (heat_cell p)) ps []"

text \<open>The answers of Redis and of the pool to one call; a failed \<open>EXEC\<close> has counted nothing.\<close>

record live_env =
  le_now :: time_ms
  le_now_bucket :: time_ms
  le_set_ok :: bool
  le_query_ok :: bool
  le_exec_ok :: bool

(* src agent-gateway/service.ts:554-580 aggregateHeatmap *)
definition aggregateHeatmap :: "live_env \<Rightarrow> string \<Rightarrow> string \<Rightarrow> live_player list \<Rightarrow> db \<Rightarrow> live_store \<Rightarrow> live_store" where
  "aggregateHeatmap e org sid players d s =
     (if players = [] then s
      else if \<not> le_query_ok e then s
      else if map_option og_heatmap_enabled (first_row (\<lambda>o'. og_id o' = org) (organizations d)) \<noteq> Some True then s
      else (let counts = cell_counts players; key = heatmapKey org sid (heatmapBucket (le_now_bucket e)) in
        if counts = [] \<or> \<not> le_exec_ok e then s
        else s\<lparr>ls_heat := fold (\<lambda>(field, n) h. h(key := (h key)(field := h key field + n))) counts (ls_heat s),
               ls_heat_ttl := (ls_heat_ttl s)(key \<mapsto> heatmap_bucket_seconds * (heatmap_retention_buckets + 1))\<rparr>))"

(* src agent-gateway/service.ts:531-545 live *)
definition live_view :: "live_env \<Rightarrow> agent_auth_context \<Rightarrow> live_payload \<Rightarrow> db \<Rightarrow> live_store \<Rightarrow> (string \<times> json) list \<times> live_store" where
  "live_view e ctx p d s =
     (let org = rc_organizationId (cx_credential ctx); sid = rc_serverId (cx_credential ctx);
          doc = JObj [(''at'', JInt (le_now e)), (''sampled_at'', JInt (lv_sampled_at p)), (''players'', JArr (map lp_json (lv_players p)))]
      in ([(''accepted'', JInt (int (length (lv_players p))))],
          if \<not> le_set_ok e then s
          else aggregateHeatmap e org sid (lv_players p) d
                 (s\<lparr>ls_snapshots := (ls_snapshots s)(liveKey org sid \<mapsto> (doc, le_now e, live_ttl_seconds))\<rparr>)))"

definition count_of :: "string \<Rightarrow> (string \<times> int) list \<Rightarrow> int" where
  "count_of k cs = coalesce_default (map_of cs k) 0"

lemma count_bump: "count_of k (bump k' cs) = count_of k cs + (if k = k' then 1 else 0)"
  by (induction k' cs rule: bump.induct) (auto simp: count_of_def)

lemma keys_bump: "distinct (map fst cs) \<Longrightarrow> distinct (map fst (bump k cs)) \<and> set (map fst (bump k cs)) = insert k (set (map fst cs))"
  by (induction k cs rule: bump.induct) auto

lemma counts_fold:
  "distinct (map fst cs) \<Longrightarrow>
   count_of k (fold (\<lambda>p. bump (heat_cell p)) ps cs) = count_of k cs + int (length (filter (\<lambda>p. heat_cell p = k) ps)) \<and>
   distinct (map fst (fold (\<lambda>p. bump (heat_cell p)) ps cs))"
  by (induction ps arbitrary: cs) (simp_all add: count_bump keys_bump)

lemma heat_fold:
  "distinct (map fst cs) \<Longrightarrow>
   fold (\<lambda>(field, n) h. h(key := (h key)(field := h key field + n))) cs h k f =
     h k f + (if k = key then count_of f cs else 0)"
proof (induction cs arbitrary: h)
  case (Cons c cs)
  obtain field n where c: "c = (field, n)" by fastforce
  have "map_of cs field = None" using Cons.prems by (simp add: c map_of_eq_None_iff)
  then show ?case using Cons by (auto simp: c count_of_def)
qed (simp add: count_of_def)

text \<open>The heat map only counts. For an organization that opted in, each cell of the current minute
  grows by the number of players in it and nothing else changes, so the sum does not depend on who they
  are nor on their order; for one that did not, or when Redis or the pool fails, no counter moves. The
  agent is answered in every case.\<close>

theorem heatmap_counts:
  "(let org = rc_organizationId (cx_credential ctx); sid = rc_serverId (cx_credential ctx);
        s' = snd (live_view e ctx p d s);
        on = (le_set_ok e \<and> le_query_ok e \<and> le_exec_ok e \<and>
              map_option og_heatmap_enabled (first_row (\<lambda>o'. og_id o' = org) (organizations d)) = Some True)
    in ls_heat s' k cell = ls_heat s k cell +
         (if on \<and> k = heatmapKey org sid (heatmapBucket (le_now_bucket e))
          then int (length (filter (\<lambda>q. heat_cell q = cell) (lv_players p))) else 0)) \<and>
   fst (live_view e ctx p d s) = [(''accepted'', JInt (int (length (lv_players p))))]"
proof -
  have "count_of cell (cell_counts ps) = int (length (filter (\<lambda>q. heat_cell q = cell) ps)) \<and> distinct (map fst (cell_counts ps))"
    for ps
    using counts_fold [of "[]" cell ps] by (simp add: cell_counts_def count_of_def)
  moreover have "cell_counts ps = [] \<Longrightarrow> ps = []" for ps
  proof (cases ps)
    case (Cons q qs)
    have "int (length (filter (\<lambda>p. heat_cell p = heat_cell q) (q # qs))) \<noteq> 0" by simp
    moreover assume "cell_counts ps = []"
    ultimately show ?thesis using counts_fold [of "[]" "heat_cell q" "q # qs"] Cons by (simp add: cell_counts_def count_of_def)
  qed simp
  ultimately show ?thesis
    by (cases "lv_players p = []") (auto simp: live_view_def aggregateHeatmap_def Let_def heat_fold)
qed

end
