(* ===== verification/Gateway.thy ===== *)
theory Gateway
  imports Agent_Session Ingest Commands Agent_Config Respond
begin

text \<open>
  \<open>apps/api/src/agent-gateway/routes.ts\<close>: the surface the agents call. A request is authenticated on
  its raw body (\<open>guard\<close>), its envelope is checked against the signed headers (\<open>parseEnvelope\<close>), the
  handler runs (\<open>serve\<close>), and its result is answered signed (\<open>handle\<close>). The texts of the schema
  library in the messages are an argument.
\<close>

section \<open>The platform and what a request brings\<close>

text \<open>\<open>Number(s)\<close>: a finite number, or one of the three other values.\<close>

datatype js_number = JsNumber rat | JsNaN | JsPosInf | JsNegInf

definition to_number :: "(string \<Rightarrow> js_number) \<Rightarrow> string \<Rightarrow> js_number" where
  "to_number other s =
     (if s \<noteq> [] \<and> length s \<le> 15 \<and> all_in digit_chars s then JsNumber (of_nat (value_of_digits s)) else other s)"

record 's platform =
  pf_world :: world
  pf_redis :: 's
  pf_live :: live_store
  pf_unhandled :: "exn list"

record 's gateway =
  gx_js :: js_lib
  gx_crypto :: crypto
  gx_redis :: "'s redis"
  gx_config :: gateway_config
  gx_number :: "string \<Rightarrow> js_number"

record request_env =
  rx_clock :: auth_clock
  rx_auth_faults :: faults
  rx_touch_now :: time_ms
  rx_touch_faults :: faults
  rx_svc :: svc_env
  rx_live :: live_env
  rx_locked :: "string \<Rightarrow> bool"
  rx_reply :: reply_env
  rx_rnd :: issue_random
  rx_ids :: "nat \<Rightarrow> alert_ids"
  rx_origin :: string
  rx_query :: "(string \<times> string) list"
  rx_issue :: string

datatype endpoint =
    Ep_handshake | Ep_heartbeat | Ep_telemetry | Ep_live | Ep_alerts | Ep_config | Ep_commands | Ep_results | Ep_rotate

section \<open>Authentication\<close>

(* src agent-gateway/routes.ts:105-128 guard/catch *)
definition auth_failure_reply :: "js_lib \<Rightarrow> reply_env \<Rightarrow> auth_failure \<Rightarrow> http_reply" where
  "auth_failure_reply js re e =
     (case e of
        Agent_auth_error status code message retryAfter \<Rightarrow> sendUnsignableError js re status code message retryAfter
      | Other_exception x \<Rightarrow> sendUnsignableError js re 500 E_INTERNAL ''internal error'' (Some 30))"

text \<open>
  \<open>void credentials.touch(\<dots>)\<close>: nobody awaits the promise, so its rejection is handled nowhere. It runs
  beside the handler; here it comes first.
\<close>

(* src agent-gateway/routes.ts:103-103 guard/touch *)
definition fire_touch :: "request_env \<Rightarrow> agent_auth_context \<Rightarrow> 's platform \<Rightarrow> 's platform" where
  "fire_touch x ctx p =
     (case touch (rc_organizationId (cx_credential ctx)) (cx_keyId ctx) (rx_touch_now x) (rx_touch_faults x)
             (wd_db (pf_world p)) of
        (Inl e, d) \<Rightarrow> p\<lparr>pf_unhandled := pf_unhandled p @ [e]\<rparr>
      | (Inr _, d) \<Rightarrow> p\<lparr>pf_world := (pf_world p)\<lparr>wd_db := d\<rparr>\<rparr>)"

(* src agent-gateway/routes.ts:95-129 guard *)
definition guard :: "'s gateway \<Rightarrow> request_env \<Rightarrow> agent_request \<Rightarrow> bytes \<Rightarrow> 's platform \<Rightarrow>
    (http_reply + agent_auth_context) \<times> 's platform" where
  "guard g x q body p =
     (case gateway_auth (gx_js g) (gx_crypto g) (gx_redis g) (gx_config g) (rx_clock x) (rx_auth_faults x) q body
             \<lparr>gw_db = wd_db (pf_world p), gw_redis = pf_redis p\<rparr> of
        (Inl e, w) \<Rightarrow> (Inl (auth_failure_reply (gx_js g) (rx_reply x) e), p\<lparr>pf_redis := gw_redis w\<rparr>)
      | (Inr ctx, w) \<Rightarrow> (Inr ctx, fire_touch x ctx (p\<lparr>pf_redis := gw_redis w\<rparr>)))"

section \<open>Envelope\<close>

(* src agent-gateway/routes.ts:200-203 signableOf *)
definition signableOf :: "agent_auth_context \<Rightarrow> signable_context" where
  "signableOf ctx = \<lparr>sg_secret = rc_secret (cx_credential ctx), sg_requestId = cx_requestId ctx\<rparr>"

definition refuse :: "'s gateway \<Rightarrow> request_env \<Rightarrow> agent_auth_context \<Rightarrow> string \<Rightarrow> http_reply" where
  "refuse g x ctx message =
     sendSignedError (gx_js g) (gx_crypto g) (rx_reply x) 400 E_VALIDATION message (signableOf ctx) None"

text \<open>The document, when the body is JSON and its envelope is the one the headers announce.\<close>

(* src agent-gateway/routes.ts:132-198 parseEnvelope *)
definition parseEnvelope :: "'s gateway \<Rightarrow> request_env \<Rightarrow> agent_auth_context \<Rightarrow> string \<Rightarrow> (json \<Rightarrow> 'p option) \<Rightarrow>
    http_reply + 'p" where
  "parseEnvelope g x ctx kind schema =
     (case json_parse (gx_js g) (utf8_decode (cx_rawBody ctx)) of
        None \<Rightarrow> Inl (refuse g x ctx ''body is not valid JSON'')
      | Some decoded \<Rightarrow>
          (case envelopeSchema decoded of
             None \<Rightarrow> Inl (refuse g x ctx (''invalid envelope: '' @ rx_issue x))
           | Some envelope \<Rightarrow>
               if ev_server_id envelope \<noteq> cx_serverId ctx \<or> ev_agent_id envelope \<noteq> cx_agentId ctx
               then Inl (refuse g x ctx ''envelope identity does not match signed headers'')
               else if ev_kind envelope \<noteq> kind then Inl (refuse g x ctx ''envelope kind mismatch'')
               else (case schema (JObj (ev_payload envelope)) of
                   None \<Rightarrow> Inl (refuse g x ctx (''invalid payload: '' @ rx_issue x))
                 | Some payload \<Rightarrow> Inr payload)))"

section \<open>Handlers\<close>

text \<open>A call that passed the checks, with its parsed payload.\<close>

datatype agent_call =
    Do_handshake svc_env handshake_payload
  | Do_heartbeat svc_env heartbeat_payload
  | Do_telemetry svc_env "telemetry_sample list"
  | Do_live live_env live_payload
  | Do_alerts svc_env "(alert_ids \<times> alert_input) list"
  | Do_config svc_env
  | Do_commands svc_env "string \<Rightarrow> bool" int "string option"
  | Do_results svc_env "result_input list"
  | Do_rotate svc_env issue_random "string option"

definition delivered_json :: "delivered_command \<Rightarrow> json" where
  "delivered_json c =
     JObj [(''id'', JStr (dc_id c)), (''type'', JStr (dc_type c)), (''issued_at'', JInt (dc_issued_at c)),
           (''expires_at'', JInt (dc_expires_at c)), (''payload'', dc_payload c)]"

definition on_result :: "('a \<Rightarrow> 'b result) \<Rightarrow> 'a result \<times> 'w \<Rightarrow> 'b result \<times> 'w" where
  "on_result h rw = (case rw of (Inl e, w) \<Rightarrow> (Inl e, w) | (Inr v, w) \<Rightarrow> (h v, w))"

(* src agent-gateway/routes.ts:294-310 config/work *)
definition config_work :: "config_result option \<Rightarrow> (string \<times> json) list option result" where
  "config_work r =
     (case r of
        None \<Rightarrow> Inr None
      | Some Config_invalid \<Rightarrow> Inl (Thrown ''stored remote configuration is invalid'')
      | Some (Config_ok fs) \<Rightarrow> Inr (Some [(''config'', JObj fs)]))"

text \<open>The live view writes no table: its effect on Redis is \<open>serve_live\<close>.\<close>

fun serve :: "crypto \<Rightarrow> bytes \<Rightarrow> agent_auth_context \<times> agent_call \<Rightarrow> world \<Rightarrow> (string \<times> json) list option result \<times> world" where
  "serve c key (ctx, Do_handshake x p) w = handshake x ctx p w"
| "serve c key (ctx, Do_heartbeat x p) w =
     on_result (\<lambda>r. Inr (map_option (\<lambda>(n, v). [(''commands_pending'', JInt (int n)), (''config_version'', JInt v)]) r)) (heartbeat x ctx p w)"
| "serve c key (ctx, Do_telemetry x ss) w =
     on_result (\<lambda>n. Inr (Some [(''accepted'', JInt (int n))])) (telemetry (xe_now x) (xe_faults x) ctx ss w)"
| "serve c key (ctx, Do_live e p) w = (Inr (Some [(''accepted'', JInt (int (length (lv_players p))))]), w)"
| "serve c key (ctx, Do_alerts x as) w = on_result (\<lambda>r. Inr (Some r)) (ingest_alerts (xe_now x) (xe_faults x) ctx as w)"
| "serve c key (ctx, Do_config x) w = on_result config_work (agent_config (xe_faults x) ctx w)"
| "serve c key (ctx, Do_commands x locked limit baseUrl) w =
     on_result (\<lambda>cs. Inr (Some [(''commands'', JArr (map delivered_json cs))]))
       (claimCommands (xe_now x) locked (xe_faults x) ctx limit baseUrl w)"
| "serve c key (ctx, Do_results x rs) w =
     on_result (\<lambda>ids. Inr (Some [(''acknowledged'', JArr (map JStr ids))])) (commandResults (xe_now x) (xe_faults x) ctx rs w)"
| "serve c key (ctx, Do_rotate x rnd reason) w =
     on_result (\<lambda>(k, s). Inr (Some [(''key_id'', JStr k), (''secret'', JStr s)])) (rotate_credential c key rnd x ctx reason w)"

definition serve_live :: "agent_auth_context \<Rightarrow> agent_call \<Rightarrow> db \<Rightarrow> live_store \<Rightarrow> live_store" where
  "serve_live ctx call d s = (case call of Do_live e p \<Rightarrow> snd (live_view e ctx p d s) | _ \<Rightarrow> s)"

lemma on_result_snd [simp]: "snd (on_result h rw) = snd rw"
  by (cases rw; cases "fst rw") (auto simp: on_result_def)

text \<open>The interface of the handlers, on the model's own: each of them stays within the organization of its key.\<close>

interpretation agents: scoped_handler "\<lambda>x. rc_organizationId (cx_credential (fst x))" "serve c key" for c key
proof
  fix x :: "agent_auth_context \<times> agent_call" and w
  obtain ctx call where x: "x = (ctx, call)" by fastforce
  show "scoped (rc_organizationId (cx_credential (fst x))) w (snd (serve c key x w))"
    by (cases call)
      (simp_all add: x handshake_scoped heartbeat_scoped telemetry_scoped alerts_scoped agent_config_scoped
        claimCommands_scoped commandResults_scoped rotate_scoped)
qed

section \<open>Routes\<close>

(* src agent-gateway/schemas.ts:332-336 configQuerySchema *)
definition configQuerySchema :: "(string \<Rightarrow> js_number) \<Rightarrow> (string \<times> string) list \<Rightarrow> bool" where
  "configQuerySchema other query =
     (list_all (\<lambda>(k, v). k = ''version'') query \<and>
      (case map_of query ''version'' of
         None \<Rightarrow> True
       | Some v \<Rightarrow> (case to_number other v of JsNumber q \<Rightarrow> q = of_int \<lfloor>q\<rfloor> \<and> 0 \<le> q | _ \<Rightarrow> False)))"

text \<open>
  \<open>Math.min(Number(raw ?? 25) || 25, 25)\<close>. The result goes to \<open>LIMIT\<close> as it is; a value that is no
  integer makes the statement raise like a negative one, and stands as -1.
\<close>

(* src agent-gateway/routes.ts:317-318 commands/limit *)
definition poll_limit :: "(string \<Rightarrow> js_number) \<Rightarrow> string option \<Rightarrow> int" where
  "poll_limit other raw =
     (case raw of None \<Rightarrow> max_commands_per_poll
      | Some s \<Rightarrow>
          (case to_number other s of
             JsNaN \<Rightarrow> max_commands_per_poll
           | JsPosInf \<Rightarrow> max_commands_per_poll
           | JsNegInf \<Rightarrow> -1
           | JsNumber q \<Rightarrow>
               if q = 0 \<or> of_int max_commands_per_poll \<le> q then max_commands_per_poll
               else if q = of_int \<lfloor>q\<rfloor> then \<lfloor>q\<rfloor> else -1))"

(* src agent-gateway/routes.ts:206-231 handle *)
definition handle :: "'s gateway \<Rightarrow> request_env \<Rightarrow> agent_auth_context \<Rightarrow> (string \<times> json) list option result \<Rightarrow> http_reply" where
  "handle g x ctx res =
     (case res of
        Inr None \<Rightarrow> sendSignedError (gx_js g) (gx_crypto g) (rx_reply x) 404 E_AUTH_CREDENTIAL_REVOKED
                      ''server no longer exists'' (signableOf ctx) None
      | Inr (Some data) \<Rightarrow> sendSignedOk (gx_js g) (gx_crypto g) (rx_reply x) data (signableOf ctx)
      | Inl e \<Rightarrow> sendSignedError (gx_js g) (gx_crypto g) (rx_reply x) 500 E_INTERNAL ''internal error'' (signableOf ctx) (Some 30))"

definition parsed :: "('p \<Rightarrow> agent_call) \<Rightarrow> http_reply + 'p \<Rightarrow> http_reply + agent_call" where
  "parsed f r = (case r of Inl e \<Rightarrow> Inl e | Inr p \<Rightarrow> Inr (f p))"

definition with_ids :: "(nat \<Rightarrow> alert_ids) \<Rightarrow> alert_input list \<Rightarrow> (alert_ids \<times> alert_input) list" where
  "with_ids ids as = zip (map ids [0..<length as]) as"

text \<open>What each route checks before its handler runs: the refusal, or the call.\<close>

(* src agent-gateway/routes.ts:234-355 agentGatewayRoutes/routes *)
primrec decode_call :: "endpoint \<Rightarrow> 's gateway \<Rightarrow> request_env \<Rightarrow> agent_auth_context \<Rightarrow> http_reply + agent_call" where
  "decode_call Ep_handshake g x ctx =
     parsed (Do_handshake (rx_svc x)) (parseEnvelope g x ctx ''handshake'' handshakePayloadSchema)"
| "decode_call Ep_heartbeat g x ctx =
     parsed (Do_heartbeat (rx_svc x)) (parseEnvelope g x ctx ''heartbeat'' heartbeatPayloadSchema)"
| "decode_call Ep_telemetry g x ctx =
     parsed (Do_telemetry (rx_svc x)) (parseEnvelope g x ctx ''telemetry'' telemetryPayloadSchema)"
| "decode_call Ep_live g x ctx =
     parsed (Do_live (rx_live x)) (parseEnvelope g x ctx ''live'' livePayloadSchema)"
| "decode_call Ep_alerts g x ctx =
     parsed (\<lambda>as. Do_alerts (rx_svc x) (with_ids (rx_ids x) as)) (parseEnvelope g x ctx ''alerts'' alertsPayloadSchema)"
| "decode_call Ep_config g x ctx =
     (if \<not> configQuerySchema (gx_number g) (rx_query x) then Inl (refuse g x ctx ''invalid query'')
      else Inr (Do_config (rx_svc x)))"
| "decode_call Ep_commands g x ctx =
     Inr (Do_commands (rx_svc x) (rx_locked x) (poll_limit (gx_number g) (map_of (rx_query x) ''limit'')) (Some (rx_origin x)))"
| "decode_call Ep_results g x ctx =
     parsed (Do_results (rx_svc x)) (parseEnvelope g x ctx ''command.results'' commandResultsPayloadSchema)"
| "decode_call Ep_rotate g x ctx =
     (case parseEnvelope g x ctx ''credential.rotate'' rotatePayloadSchema of
        Inl r \<Rightarrow> Inl r
      | Inr p \<Rightarrow>
          if rt_current_key_id p \<noteq> cx_keyId ctx then Inl (refuse g x ctx ''current_key_id does not match the signing key'')
          else Inr (Do_rotate (rx_svc x) (rx_rnd x) (rt_reason p)))"

text \<open>A request that was authenticated.\<close>

definition answer :: "endpoint \<Rightarrow> 's gateway \<Rightarrow> request_env \<Rightarrow> agent_auth_context \<Rightarrow> 's platform \<Rightarrow> http_reply \<times> 's platform" where
  "answer ep g x ctx p =
     (case decode_call ep g x ctx of
        Inl r \<Rightarrow> (r, p)
      | Inr call \<Rightarrow>
          (case serve (gx_crypto g) (gc_key (gx_config g)) (ctx, call) (pf_world p) of
             (res, w) \<Rightarrow> (handle g x ctx res,
                p\<lparr>pf_world := w, pf_live := serve_live ctx call (wd_db (pf_world p)) (pf_live p)\<rparr>)))"

(* src agent-gateway/routes.ts:44-51 agentGatewayRoutes *)
definition agent_route :: "endpoint \<Rightarrow> 's gateway \<Rightarrow> request_env \<Rightarrow> agent_request \<Rightarrow> bytes \<Rightarrow> 's platform \<Rightarrow>
    http_reply \<times> 's platform" where
  "agent_route ep g x q body p =
     (case guard g x q body p of
        (Inl r, p1) \<Rightarrow> (r, p1)
      | (Inr ctx, p1) \<Rightarrow> answer ep g x ctx p1)"

section \<open>Signed or not at all\<close>

definition accepted_as :: "'s gateway \<Rightarrow> request_env \<Rightarrow> agent_request \<Rightarrow> bytes \<Rightarrow> 's platform \<Rightarrow> agent_auth_context option" where
  "accepted_as g x q body p =
     (case fst (gateway_auth (gx_js g) (gx_crypto g) (gx_redis g) (gx_config g) (rx_clock x) (rx_auth_faults x) q body
             \<lparr>gw_db = wd_db (pf_world p), gw_redis = pf_redis p\<rparr>) of
        Inl e \<Rightarrow> None | Inr ctx \<Rightarrow> Some ctx)"

lemma guard_accepted: "(\<exists>p1. guard g x q body p = (Inr ctx, p1)) \<longleftrightarrow> accepted_as g x q body p = Some ctx"
  by (auto simp: guard_def accepted_as_def split: prod.splits sum.splits)

lemma refuse_verifies: "reply_verifies (gx_crypto g) (rc_secret (cx_credential ctx)) (cx_requestId ctx) (refuse g x ctx m)"
  using sendSignedError_verifies [of "gx_crypto g" "signableOf ctx"] by (simp add: refuse_def signableOf_def)

lemma handle_verifies: "reply_verifies (gx_crypto g) (rc_secret (cx_credential ctx)) (cx_requestId ctx) (handle g x ctx res)"
  using sendSignedError_verifies [of "gx_crypto g" "signableOf ctx"] sendSignedOk_verifies [of "gx_crypto g" "signableOf ctx"]
  by (auto simp: handle_def signableOf_def split: sum.split option.split)

lemma parse_refuses: "parseEnvelope g x ctx kind schema = Inl r \<Longrightarrow> \<exists>m. r = refuse g x ctx m"
  by (auto simp: parseEnvelope_def split: option.splits if_splits)

lemma parsed_Inl: "parsed f r = Inl e \<longleftrightarrow> r = Inl e"
  by (cases r) (simp_all add: parsed_def)

lemma decode_refuses: "decode_call ep g x ctx = Inl r \<Longrightarrow> \<exists>m. r = refuse g x ctx m"
  by (cases ep) (auto simp: parsed_Inl dest: parse_refuses split: if_splits sum.splits)

lemma auth_reply_unsigned: "\<not> signed_reply (auth_failure_reply js re e)"
  by (cases e) (simp_all add: auth_failure_reply_def unsignable_unsigned)


section \<open>Isolation\<close>

lemma touch_confined: "confined org d (snd (touch org k now f d))"
proof -
  have "confined org d (d\<lparr>credentials := sql_update (\<lambda>r. cr_organization_id r = org \<and> cr_key_id r = k)
      (\<lambda>r. r\<lparr>cr_last_seen_at := Some now\<rparr>) (credentials d)\<rparr>)"
    by (rule confined_tables(5)) (rule outside_update, auto)
  then show ?thesis using touch_cases [of org k now f d] by auto
qed

lemma fire_touch_scoped: "scoped (rc_organizationId (cx_credential ctx)) (pf_world p) (pf_world (fire_touch x ctx p))"
  using touch_confined [of "rc_organizationId (cx_credential ctx)" "wd_db (pf_world p)" "cx_keyId ctx" "rx_touch_now x" "rx_touch_faults x"]
  by (auto simp: fire_touch_def scoped_def own_events_same split: prod.split sum.split)

lemma answer_scoped: "scoped (rc_organizationId (cx_credential ctx)) (pf_world p) (pf_world (snd (answer ep g x ctx p)))"
proof (cases "decode_call ep g x ctx")
  case (Inr call)
  then show ?thesis using agents.scoped [of "(ctx, call)" "pf_world p" "gx_crypto g" "gc_key (gx_config g)"]
    by (cases "serve (gx_crypto g) (gc_key (gx_config g)) (ctx, call) (pf_world p)") (simp add: answer_def)
qed (simp add: answer_def)


text \<open>The same over time. However many calls the agents of other organizations make, in any order and
  with any failures, an organization finds its rows as it left them.\<close>

theorem agents_never_cross:
  assumes "\<forall>x \<in> set calls. rc_organizationId (cx_credential (fst x)) \<noteq> o'"
  shows "owned o' (wd_db (run_all (serve c key) calls w)) = owned o' (wd_db w)"
  using assms by (rule agents.run_all_owned)

section \<open>Refusals\<close>

lemma check_headers_json [simp]: "check_headers (js\<lparr>json_parse := f\<rparr>) q = check_headers js q"
proof -
  have "number_other (js\<lparr>json_parse := f\<rparr>) = number_other js" by simp
  then show ?thesis unfolding check_headers_def by (rule arg_cong)
qed

lemma gateway_auth_json [simp]:
  "gateway_auth (js\<lparr>json_parse := f\<rparr>) c rd cfg k fl q body w = gateway_auth js c rd cfg k fl q body w"
  by (simp add: gateway_auth_def authenticate_def)

text \<open>Nothing of a body is parsed before its signature is verified: a request that is not accepted is
  answered the same, and leaves the same state, whatever the parser would make of its body.\<close>

theorem no_parsing_before_authentication:
  assumes "accepted_as g x q body p = None"
  shows "agent_route ep (g\<lparr>gx_js := (gx_js g)\<lparr>json_parse := f\<rparr>\<rparr>) x q body p = agent_route ep g x q body p"
proof -
  obtain e w where a: "gateway_auth (gx_js g) (gx_crypto g) (gx_redis g) (gx_config g) (rx_clock x) (rx_auth_faults x) q body
             \<lparr>gw_db = wd_db (pf_world p), gw_redis = pf_redis p\<rparr> = (Inl e, w)"
    using assms by (auto simp: accepted_as_def split: sum.splits) (metis prod.collapse)
  have "auth_failure_reply ((gx_js g)\<lparr>json_parse := f\<rparr>) re e = auth_failure_reply (gx_js g) re e" for re
    by (cases e) (simp_all add: auth_failure_reply_def sendUnsignableError_def)
  then show ?thesis by (simp add: agent_route_def guard_def a)
qed

lemma fire_touch_frame:
  "wd_db (pf_world (fire_touch x ctx p)) = (wd_db (pf_world p))\<lparr>credentials := credentials (wd_db (pf_world (fire_touch x ctx p)))\<rparr> \<and>
   wd_events (pf_world (fire_touch x ctx p)) = wd_events (pf_world p) \<and> pf_live (fire_touch x ctx p) = pf_live p"
  using touch_cases [of "rc_organizationId (cx_credential ctx)" "cx_keyId ctx" "rx_touch_now x" "rx_touch_faults x" "wd_db (pf_world p)"]
  by (auto simp: fire_touch_def split: prod.split sum.split)

lemma parse_mismatch:
  assumes "json_parse (gx_js g) (utf8_decode (cx_rawBody ctx)) = Some j" and "envelopeSchema j = Some env"
    and "ev_server_id env \<noteq> cx_serverId ctx \<or> ev_agent_id env \<noteq> cx_agentId ctx"
  shows "parseEnvelope g x ctx kind schema = Inl (refuse g x ctx ''envelope identity does not match signed headers'')"
  using assms by (auto simp: parseEnvelope_def)


text \<open>The trace of use is a promise nobody awaits: when its transaction fails, the request goes on, and
  the rejection is left without a handler.\<close>

theorem touch_rejection_unhandled:
  assumes "guard g x q body p = (Inr ctx, p1)" and "f_connect (rx_touch_faults x)"
    and "org_id_ok (rc_organizationId (cx_credential ctx))"
  shows "pf_unhandled p1 = pf_unhandled p @ [Thrown ''connect'']"
proof -
  have "touch (rc_organizationId (cx_credential ctx)) (cx_keyId ctx) (rx_touch_now x) (rx_touch_faults x) (wd_db (pf_world p)) =
      (Inl (Thrown ''connect''), wd_db (pf_world p))"
    using assms(2,3) by (simp add: touch_def tenant_db_cases)
  with assms(1) show ?thesis by (auto simp: guard_def fire_touch_def split: prod.splits sum.splits)
qed

end
