(* ===== verification/Agent_Witnesses.thy ===== *)
theory Agent_Witnesses
  imports Gateway_Samples Gateway
begin

text \<open>
  Applications of the properties of the agent service and of its routes to the sample server, its
  credential and the request it signs.
\<close>

section \<open>A request context and a world\<close>

definition sample_ctx :: agent_auth_context where
  "sample_ctx =
     \<lparr>cx_credential = sample_current, cx_agentId = sample_agent_id, cx_serverId = sample_server_id,
      cx_keyId = sample_key 0, cx_requestId = ''r'', cx_nonce = [], cx_timestamp = 5, cx_agentVersion = ''1'',
      cx_protocolVersion = 1, cx_rawBody = []\<rparr>"

definition sample_world :: world where
  "sample_world = \<lparr>wd_db = sample_db, wd_events = []\<rparr>"

definition sample_svc :: svc_env where
  "sample_svc = \<lparr>xe_now = 5000, xe_faults = no_faults, xe_now2 = 5000, xe_faults2 = no_faults\<rparr>"

lemma sample_ctx_ids [simp]:
  "rc_organizationId (cx_credential sample_ctx) = sample_org" "rc_serverId (cx_credential sample_ctx) = sample_server_id"
  by (simp_all add: sample_ctx_def sample_current_def)

lemma sample_db_facts: "server_exists sample_org sample_server_id sample_db" "bans sample_db = []" "alerts sample_db = []"
  by code_simp+

section \<open>Session of an agent\<close>

definition sample_heartbeat :: heartbeat_payload where
  "sample_heartbeat =
     \<lparr>hb_state = Online, hb_agent_version = ''1'', hb_protocol_version = 1, hb_uptime_seconds = 60,
      hb_players_online = Some 3, hb_config_version = 0, hb_queue_size = 0, hb_health = Healthy,
      hb_last_error = None, hb_server_fingerprint = None\<rparr>"

theorem heartbeat_reports_witness:
  "\<exists>w' r'. heartbeat sample_svc sample_ctx sample_heartbeat sample_world = (Inr (Some (0, 0)), w') \<and>
     r' \<in> set (servers (wd_db w')) \<and> sv_state r' = State_online \<and> sv_last_heartbeat_at r' = Some 5000"
proof -
  have "fst (heartbeat sample_svc sample_ctx sample_heartbeat sample_world) = Inr (Some (0, 0))" by code_simp
  then obtain w' where h: "heartbeat sample_svc sample_ctx sample_heartbeat sample_world = (Inr (Some (0, 0)), w')"
    by (metis prod.collapse)
  from heartbeat_reports [OF h] h show ?thesis by (auto simp: sample_heartbeat_def sample_svc_def)
qed

definition rotating_ctx :: agent_auth_context where
  "rotating_ctx = sample_ctx\<lparr>cx_keyId := sample_key 1, cx_credential := sample_current
     \<lparr>rc_keyId := sample_key 1, rc_status := Cred_pending_rotation\<rparr>\<rparr>"

definition empty_handshake :: handshake_payload where
  "empty_handshake = \<lparr>hp_server = None, hp_capabilities = None\<rparr>"

theorem handshake_commits_rotation_witness:
  "\<exists>reply w' new. handshake sample_svc rotating_ctx empty_handshake \<lparr>wd_db = snd sample_begin, wd_events = []\<rparr> = (Inr (Some reply), w') \<and>
     new \<in> set (credentials (wd_db w')) \<and> cr_key_id new = sample_key 1 \<and> cr_status new = Cred_active"
proof -
  let ?w = "\<lparr>wd_db = snd sample_begin, wd_events = []\<rparr>"
  have "(case fst (handshake sample_svc rotating_ctx empty_handshake ?w) of Inr (Some r) \<Rightarrow> True | _ \<Rightarrow> False)" by code_simp
  then obtain reply w' where h: "handshake sample_svc rotating_ctx empty_handshake ?w = (Inr (Some reply), w')"
    by (auto split: sum.splits option.splits) (metis prod.collapse)
  have "rc_status (cx_credential rotating_ctx) = Cred_pending_rotation" by (simp add: rotating_ctx_def)
  moreover have "first_row (pending_key (rc_organizationId (cx_credential rotating_ctx)) (rc_keyId (cx_credential rotating_ctx)))
      (credentials (wd_db ?w)) \<noteq> None" by code_simp
  ultimately have "\<exists>new \<in> set (credentials (wd_db w')). cr_key_id new = sample_key 1 \<and> cr_status new = Cred_active"
    using handshake_commits_rotation [OF h] by (auto simp: rotating_ctx_def)
  with h show ?thesis by blast
qed

section \<open>Alerts\<close>

definition sample_sanction :: sanction where
  "sample_sanction = \<lparr>sn_scope = Scope_license, sn_identifier = ''license:1'', sn_player_name = None,
     sn_detector = ''aim'', sn_risk = None, sn_evidence_kind = None\<rparr>"

definition sample_alert :: alert_input where
  "sample_alert = \<lparr>ai_id = ''a1'', ai_category = ''weapon'', ai_severity = Sev_critical, ai_summary = ''s'',
     ai_metadata = None, ai_reference = None, ai_occurrences = None, ai_occurred_at = 5, ai_last_occurrence_at = None,
     ai_origin = None, ai_sanction = Some sample_sanction\<rparr>"

definition sample_batch :: "(alert_ids \<times> alert_input) list" where
  "sample_batch = [((''alt_1'', ''ban_1''), sample_alert), ((''alt_2'', ''ban_2''), sample_alert\<lparr>ai_severity := Sev_high\<rparr>)]"

theorem alerts_batch_accepted_witness:
  "\<exists>reply w'. ingest_alerts 5000 no_faults sample_ctx sample_batch sample_world = (Inr reply, w') \<and>
     obj_get ''accepted'' reply = Some (JInt 2) \<and> batch_done sample_org sample_server_id sample_batch (wd_db w')"
proof -
  have f: "fresh_batch sample_batch sample_db" "sanctions_ok (bans sample_db)" by code_simp+
  have l: "length sample_batch = 2" by (simp add: sample_batch_def)
  show ?thesis
    using alerts_batch_accepted [of sample_ctx sample_world sample_batch 5000] f sample_org_ok sample_db_facts(1)
    by (auto simp: sample_world_def l)
qed

theorem alert_resubmission_duplicates_witness:
  "insert_alert sample_org sample_server_id 5000 ''alt_1'' sample_alert sample_db =
     (Inr (Some ''alt_1''), sample_db\<lparr>alerts := [alert_row_of sample_org sample_server_id 5000 ''alt_1'' sample_alert]\<rparr>)"
  using alert_resubmission_duplicates [OF sample_db_facts(1), of 5000 "''alt_1''" sample_alert] by (simp add: sample_db_facts)

section \<open>Commands\<close>

definition sample_command :: command_row where
  "sample_command =
     \<lparr>cm_id = ''cmd_1'', cm_organization_id = sample_org, cm_server_id = sample_server_id, cm_type = ''ping'',
      cm_payload = JObj [], cm_status = Cmd_pending, cm_result = None, cm_result_detail = None, cm_reason = None,
      cm_issued_by = None, cm_sent_at = None, cm_delivery_count = 0, cm_acknowledged_at = None, cm_executed_at = None,
      cm_duration_ms = None, cm_expires_at = 9000, cm_created_at = 1000\<rparr>"

definition queued_world :: world where
  "queued_world = \<lparr>wd_db = sample_db\<lparr>agent_commands := [sample_command]\<rparr>, wd_events = []\<rparr>"

definition sample_claim :: "delivered_command list result \<times> world" where
  "sample_claim = claimCommands 5000 (\<lambda>i. False) no_faults sample_ctx 25 None queued_world"

lemma sample_claim_ok: "\<exists>c w'. sample_claim = (Inr [c], w')"
proof -
  have "(case fst sample_claim of Inr cs \<Rightarrow> length cs = 1 | Inl _ \<Rightarrow> False)" by code_simp
  then show ?thesis by (auto simp: length_Suc_conv split: sum.splits) (metis prod.collapse)
qed

lemma queued_keyed: "commands_keyed (agent_commands (wd_db queued_world))"
  by (simp add: commands_keyed_def queued_world_def)

theorem poll_delivers_witness: "\<exists>c w'. sample_claim = (Inr [c], w') \<and> dc_id c = ''cmd_1''"
proof -
  obtain c w' where s: "sample_claim = (Inr [c], w')" using sample_claim_ok by blast
  from poll_delivers [OF queued_keyed s [unfolded sample_claim_def]]
  obtain r where "c = deliver sample_org None r" "r = sample_command" by (auto simp: queued_world_def)
  then have "dc_id c = ''cmd_1''" by (simp add: deliver_def sample_command_def)
  with s show ?thesis by blast
qed

theorem commands_refine_life_witness:
  "\<exists>c' \<in> set (agent_commands (wd_db (snd sample_claim))). cm_id c' = ''cmd_1'' \<and> life\<^sup>*\<^sup>* Cmd_pending (cm_status c')"
proof -
  have "command_step queued_world (snd sample_claim)" unfolding sample_claim_def by (rule command_step.Claim)
  then have "command_step\<^sup>*\<^sup>* queued_world (snd sample_claim)" by blast
  from commands_refine_life [OF this queued_keyed, of sample_command] show ?thesis
    by (auto simp: queued_world_def sample_command_def)
qed

definition sample_result :: result_input where
  "sample_result = \<lparr>ri_id = ''cmd_1'', ri_status = Res_completed, ri_result = None, ri_reason = None,
     ri_executed_at = 6, ri_duration_ms = None\<rparr>"

theorem results_acknowledged_once_witness:
  "\<exists>w1 w2. commandResults 5000 no_faults sample_ctx [sample_result] queued_world = (Inr [''cmd_1''], w1) \<and>
     commandResults 6000 no_faults sample_ctx [sample_result] w1 = (Inr [], w2)"
proof -
  let ?r1 = "commandResults 5000 no_faults sample_ctx [sample_result] queued_world"
  let ?r2 = "commandResults 6000 no_faults sample_ctx [sample_result] (snd ?r1)"
  have a: "fst ?r1 = Inr [''cmd_1'']" by code_simp
  have "(case fst ?r2 of Inr ids \<Rightarrow> True | Inl _ \<Rightarrow> False)" by code_simp
  then obtain ids where b: "fst ?r2 = Inr ids" by (auto split: sum.splits)
  have 1: "?r1 = (Inr [''cmd_1''], snd ?r1)" using a by (metis prod.collapse)
  have 2: "?r2 = (Inr ids, snd ?r2)" using b by (metis prod.collapse)
  from results_acknowledged_once [OF 1 2] 1 2 show ?thesis by fastforce
qed

section \<open>Configuration\<close>

theorem config_is_effective_witness:
  "\<exists>fs w'. agent_config no_faults sample_ctx sample_world = (Inr (Some (Config_ok fs)), w') \<and>
     (\<exists>ps. obj_get ''protections'' fs = Some (JArr ps) \<and> length ps = length catalog_items)"
proof -
  have "(case config_tx sample_org sample_server_id sample_db of (Inr (Some (Config_ok fs)), d) \<Rightarrow> True | _ \<Rightarrow> False)"
  proof -
    have "first_row (live_server sample_org sample_server_id) (servers sample_db) = Some sample_server" by code_simp
    moreover have "remoteConfigSchema (sv_remote_config sample_server) = Some []" by code_simp
    ultimately show ?thesis by (simp add: config_tx_def Let_def)
  qed
  then obtain fs d where "config_tx sample_org sample_server_id (wd_db sample_world) = (Inr (Some (Config_ok fs)), d)"
    by (auto simp: sample_world_def split: prod.splits sum.splits option.splits config_result.splits)
  from world_tx_ok [where fn = "config_tx sample_org sample_server_id", OF sample_org_ok this]
  have c: "agent_config no_faults sample_ctx sample_world = (Inr (Some (Config_ok fs)), sample_world\<lparr>wd_db := d\<rparr>)"
    by (simp add: agent_config_def)
  from config_is_effective [OF c] c show ?thesis by blast
qed

section \<open>Requests\<close>

definition sample_gx :: "json option \<Rightarrow> key_store gateway" where
  "sample_gx j = \<lparr>gx_js = sample_js\<lparr>json_parse := (\<lambda>s. j)\<rparr>, gx_crypto = sample_crypto, gx_redis = sample_redis,
     gx_config = sample_config, gx_number = (\<lambda>s. JsNaN)\<rparr>"

definition sample_rx :: "faults \<Rightarrow> request_env" where
  "sample_rx f =
     \<lparr>rx_clock = sample_clock 5000, rx_auth_faults = no_faults, rx_touch_now = 5000, rx_touch_faults = f,
      rx_svc = sample_svc, rx_live = \<lparr>le_now = 5000, le_now_bucket = 5000, le_set_ok = True, le_query_ok = True, le_exec_ok = True\<rparr>,
      rx_locked = (\<lambda>i. False), rx_reply = \<lparr>re_now = 5000, re_random16 = replicate 16 1\<rparr>, rx_rnd = sample_random 2,
      rx_ids = (\<lambda>n. (''alt_1'', ''ban_1'')), rx_origin = ''https://z'', rx_query = [], rx_issue = []\<rparr>"

definition sample_platform :: "key_store platform" where
  "sample_platform = \<lparr>pf_world = sample_world, pf_redis = [],
     pf_live = \<lparr>ls_snapshots = (\<lambda>k. None), ls_heat = (\<lambda>k c. 0), ls_heat_ttl = (\<lambda>k. None)\<rparr>, pf_unhandled = []\<rparr>"

abbreviation (input) heartbeat_request :: agent_request where
  "heartbeat_request \<equiv> sample_request ''/agent/v1/heartbeat''"

lemma sample_accepted_as:
  "\<exists>ctx. accepted_as (sample_gx j) (sample_rx f) heartbeat_request [] sample_platform = Some ctx \<and>
     cx_credential ctx = sample_current \<and> cx_serverId ctx = sample_server_id"
proof -
  have "accepted_as (sample_gx j) (sample_rx f) heartbeat_request [] sample_platform =
      (case fst (sample_gateway ''/agent/v1/heartbeat'') of Inl e \<Rightarrow> None | Inr ctx \<Rightarrow> Some ctx)"
    by (simp add: accepted_as_def sample_gx_def sample_rx_def sample_platform_def sample_world_def sample_gateway_def)
  with sample_gateway_ok show ?thesis by force
qed


theorem agents_never_cross_witness:
  "owned ''org_b'' (wd_db (run_all (serve sample_crypto sample_master)
      [(sample_ctx, Do_heartbeat sample_svc sample_heartbeat), (sample_ctx, Do_config sample_svc)] sample_world)) =
   owned ''org_b'' (wd_db sample_world)"
proof -
  have "sample_org \<noteq> ''org_b''" by code_simp
  then show ?thesis by (intro agents_never_cross) simp
qed

definition bare_request :: agent_request where
  "bare_request = \<lparr>aq_headers = (\<lambda>n. H_absent), aq_method = ''POST'', aq_raw_url = None, aq_url = ''/agent/v1/heartbeat''\<rparr>"

theorem no_parsing_before_authentication_witness:
  "agent_route Ep_heartbeat ((sample_gx None)\<lparr>gx_js := (gx_js (sample_gx None))\<lparr>json_parse := (\<lambda>s. Some (JObj []))\<rparr>\<rparr>)
     (sample_rx no_faults) bare_request [1, 2] sample_platform =
   agent_route Ep_heartbeat (sample_gx None) (sample_rx no_faults) bare_request [1, 2] sample_platform"
proof -
  have "accepted_as (sample_gx None) (sample_rx no_faults) bare_request [1, 2] sample_platform = None"
    by code_simp
  then show ?thesis by (rule no_parsing_before_authentication)
qed

definition forged_envelope :: json where
  "forged_envelope = JObj [(''protocol_version'', JInt 1), (''agent_version'', JStr ''1''), (''kind'', JStr ''heartbeat''),
     (''server_id'', JStr ''srv_other''), (''agent_id'', JStr sample_agent_id), (''environment'', JStr ''production''),
     (''sent_at'', JInt 1700000000), (''payload'', JObj [])]"


theorem touch_rejection_unhandled_witness:
  "\<exists>ctx p1. guard (sample_gx None) (sample_rx (no_faults\<lparr>f_connect := True\<rparr>)) heartbeat_request [] sample_platform = (Inr ctx, p1) \<and>
     pf_unhandled p1 = [Thrown ''connect'']"
proof -
  let ?f = "no_faults\<lparr>f_connect := True\<rparr>"
  obtain ctx where "accepted_as (sample_gx None) (sample_rx ?f) heartbeat_request [] sample_platform = Some ctx"
    and c: "cx_credential ctx = sample_current" using sample_accepted_as by blast
  then obtain p1 where g: "guard (sample_gx None) (sample_rx ?f) heartbeat_request [] sample_platform = (Inr ctx, p1)"
    using guard_accepted by blast
  have "f_connect (rx_touch_faults (sample_rx ?f))" by (simp add: sample_rx_def)
  moreover have "org_id_ok (rc_organizationId (cx_credential ctx))" using sample_org_ok by (simp add: c sample_current_def)
  ultimately have "pf_unhandled p1 = pf_unhandled sample_platform @ [Thrown ''connect'']"
    by (rule touch_rejection_unhandled [OF g])
  with g show ?thesis by (auto simp: sample_platform_def)
qed

end
