(* ===== verification/Statements.thy ===== *)
theory Statements
  imports Tables
begin

text \<open>
  Sequences of statements that may throw, statements outside a transaction, transactions opened by
  hand, and how a table may change: rows keep their key, what is ended stays so, and the rows
  that come in have a key of their own.
\<close>

section \<open>Sequences\<close>

definition give :: "'a \<Rightarrow> 's \<Rightarrow> 'a result \<times> 's" where
  "give x s = (Inr x, s)"

definition throw :: "exn \<Rightarrow> 's \<Rightarrow> 'a result \<times> 's" where
  "throw e s = (Inl e, s)"

definition and_then :: "('s \<Rightarrow> 'a result \<times> 's) \<Rightarrow> ('a \<Rightarrow> 's \<Rightarrow> 'b result \<times> 's) \<Rightarrow> 's \<Rightarrow> 'b result \<times> 's" where
  "and_then m k s = (case m s of (Inl e, s1) \<Rightarrow> (Inl e, s1) | (Inr x, s1) \<Rightarrow> k x s1)"

definition query_failed :: exn where "query_failed = Thrown ''query''"

text \<open>\<open>pool.query(\<dots>)\<close>: one statement, with a transaction of its own.\<close>

definition statement :: "bool \<Rightarrow> ('d \<Rightarrow> 'a result \<times> 'd) \<Rightarrow> 'd \<Rightarrow> 'a result \<times> 'd" where
  "statement fails f d =
     (if fails then (Inl query_failed, d) else (case f d of (Inl e, d1) \<Rightarrow> (Inl e, d) | (Inr x, d1) \<Rightarrow> (Inr x, d1)))"

text \<open>A statement that only updates rows.\<close>

definition command :: "bool \<Rightarrow> ('d \<Rightarrow> 'd) \<Rightarrow> 'd \<Rightarrow> unit result \<times> 'd" where
  "command fails f = statement fails (\<lambda>d. (Inr (), f d))"

text \<open>
  \<open>connect\<close>, \<open>BEGIN\<close>, statements, \<open>COMMIT\<close> written out, with \<open>ROLLBACK\<close> on any error; a body that gives
  \<open>None\<close> has asked for \<open>ROLLBACK\<close> itself.
\<close>

definition by_hand :: "faults \<Rightarrow> ('d \<Rightarrow> 'a option result \<times> 'd) \<Rightarrow> 'd \<Rightarrow> 'a option result \<times> 'd" where
  "by_hand f body d =
     (if f_connect f then (Inl (Thrown ''connect''), d)
      else if f_begin f then (Inl (Thrown ''begin''), d)
      else (case body d of
          (Inl e, d1) \<Rightarrow> (Inl e, d)
        | (Inr None, d1) \<Rightarrow> (Inr None, d)
        | (Inr (Some x), d1) \<Rightarrow> if f_commit f then (Inl (Thrown ''commit''), d) else (Inr (Some x), d1)))"

lemma and_then_give [simp]: "and_then (give x) k s = k x s"
  by (simp add: and_then_def give_def)

lemma and_then_Inr:
  assumes "and_then m k s = (Inr y, s')"
  obtains x s1 where "m s = (Inr x, s1)" "k x s1 = (Inr y, s')"
  using assms by (auto simp: and_then_def split: prod.splits sum.splits)

lemma and_then_ok: "m s = (Inr x, s1) \<Longrightarrow> and_then m k s = k x s1"
  by (simp add: and_then_def)

lemma statement_Inr: "statement b f d = (Inr x, d') \<Longrightarrow> f d = (Inr x, d') \<and> \<not> b"
  by (auto simp: statement_def split: if_splits prod.splits sum.splits)

lemma statement_Inl: "statement b f d = (Inl e, d') \<Longrightarrow> d' = d"
  by (auto simp: statement_def split: if_splits prod.splits sum.splits)

lemma command_Inr: "command b f d = (Inr x, d') \<longleftrightarrow> d' = f d \<and> \<not> b"
  by (auto simp: command_def statement_def)

lemma command_ok [simp]: "command False f d = (Inr (), f d)"
  by (simp add: command_def statement_def)

lemma by_hand_Inr: "by_hand f body d = (Inr (Some x), d') \<Longrightarrow> body d = (Inr (Some x), d')"
  by (auto simp: by_hand_def split: if_splits prod.splits sum.splits option.splits)

lemma by_hand_None: "by_hand f body d = (Inr None, d') \<Longrightarrow> d' = d"
  by (auto simp: by_hand_def split: if_splits prod.splits sum.splits option.splits)

lemma by_hand_Inl: "by_hand f body d = (Inl e, d') \<Longrightarrow> d' = d"
  by (auto simp: by_hand_def split: if_splits prod.splits sum.splits option.splits)

lemma by_hand_cases:
  "snd (by_hand f body d) = d \<or> (\<exists>x. by_hand f body d = (Inr (Some x), snd (by_hand f body d)) \<and>
     body d = (Inr (Some x), snd (by_hand f body d)))"
  by (auto simp: by_hand_def split: if_splits prod.splits sum.splits option.splits)

lemma by_hand_ok: "body d = (Inr (Some x), d') \<Longrightarrow> by_hand no_faults body d = (Inr (Some x), d')"
  by (simp add: by_hand_def no_faults_def)

section \<open>A relation every step keeps\<close>

text \<open>\<open>R\<close> is kept by a step when the state it leaves is related to the one it found.\<close>

definition keeps_rel :: "('s \<Rightarrow> 's \<Rightarrow> bool) \<Rightarrow> ('s \<Rightarrow> 'a result \<times> 's) \<Rightarrow> bool" where
  "keeps_rel R m = (\<forall>s. R s (snd (m s)))"

lemma keeps_relI: "(\<And>s. R s (snd (m s))) \<Longrightarrow> keeps_rel R m"
  by (simp add: keeps_rel_def)

lemma keeps_relD: "keeps_rel R m \<Longrightarrow> R s (snd (m s))"
  by (simp add: keeps_rel_def)

locale step_relation =
  fixes R :: "'s \<Rightarrow> 's \<Rightarrow> bool"
  assumes R_refl: "R s s" and R_trans: "R s t \<Longrightarrow> R t u \<Longrightarrow> R s u"
begin

lemma give_keeps: "keeps_rel R (give x)"
  by (simp add: keeps_rel_def give_def R_refl)

lemma throw_keeps: "keeps_rel R (throw e)"
  by (simp add: keeps_rel_def throw_def R_refl)

lemma and_then_keeps:
  assumes "keeps_rel R m" and "\<And>x. keeps_rel R (k x)"
  shows "keeps_rel R (and_then m k)"
proof (rule keeps_relI)
  fix s
  obtain r s1 where m: "m s = (r, s1)" by fastforce
  with assms(1) have 1: "R s s1" using keeps_relD [of R m s] by simp
  show "R s (snd (and_then m k s))"
  proof (cases r)
    case (Inr x)
    from assms(2) have "R s1 (snd (k x s1))" by (rule keeps_relD)
    with 1 have "R s (snd (k x s1))" by (rule R_trans)
    then show ?thesis by (simp add: and_then_def m Inr)
  qed (simp add: and_then_def m 1)
qed

lemma statement_keeps: "keeps_rel R f \<Longrightarrow> keeps_rel R (statement b f)"
  unfolding keeps_rel_def statement_def
  by (auto simp: R_refl split: prod.split sum.split dest: spec) (metis snd_conv)

lemma command_keeps: "(\<And>s. R s (f s)) \<Longrightarrow> keeps_rel R (command b f)"
  unfolding command_def by (rule statement_keeps) (simp add: keeps_rel_def)

lemma by_hand_keeps: "keeps_rel R body \<Longrightarrow> keeps_rel R (by_hand f body)"
proof (rule keeps_relI)
  fix s
  assume "keeps_rel R body"
  from keeps_relD [OF this, of s] by_hand_cases [of f body s] show "R s (snd (by_hand f body s))"
    by (metis R_refl snd_conv)
qed

lemma if_keeps: "keeps_rel R m \<Longrightarrow> keeps_rel R n \<Longrightarrow> keeps_rel R (\<lambda>s. if b s then m s else n s)"
  by (simp add: keeps_rel_def)

end

section \<open>How a table changes\<close>

definition table_grows :: "('r \<Rightarrow> 'k) \<Rightarrow> ('r \<Rightarrow> bool) \<Rightarrow> 'r list \<Rightarrow> 'r list \<Rightarrow> bool" where
  "table_grows key ended rows rows' =
     (\<exists>f new. rows' = map f rows @ new \<and>
        (\<forall>r \<in> set rows. key (f r) = key r \<and> (ended r \<longrightarrow> ended (f r))) \<and>
        distinct (map key new) \<and> (\<forall>r \<in> set new. key r \<notin> key ` set rows))"

lemma table_grows_refl [simp]: "table_grows key ended rows rows"
  unfolding table_grows_def by (intro exI [of _ id] exI [of _ "[]"]) simp

lemma table_grows_update:
  "(\<And>r. key (f r) = key r) \<Longrightarrow> (\<And>r. ended r \<Longrightarrow> ended (f r)) \<Longrightarrow> table_grows key ended rows (sql_update P f rows)"
  unfolding table_grows_def sql_update_def
  by (intro exI [of _ "\<lambda>r. if P r then f r else r"] exI [of _ "[]"]) simp

lemma table_grows_insert: "key r \<notin> key ` set rows \<Longrightarrow> table_grows key ended rows (rows @ [r])"
  unfolding table_grows_def by (intro exI [of _ id] exI [of _ "[r]"]) simp

lemma keyed_map: "\<forall>r \<in> set rows. key (f r) = key r \<Longrightarrow> map key (map f rows) = map key rows"
  by simp

lemma table_grows_keys:
  assumes "table_grows key ended rows rows'"
  obtains new where "map key rows' = map key rows @ map key new" "distinct (map key new)"
    "key ` set new \<inter> key ` set rows = {}"
proof -
  obtain f new where "rows' = map f rows @ new" "\<forall>r \<in> set rows. key (f r) = key r"
    "distinct (map key new)" "\<forall>r \<in> set new. key r \<notin> key ` set rows"
    using assms unfolding table_grows_def by blast
  then show ?thesis using keyed_map [of rows key f] by (intro that [of new]) auto
qed

lemma table_grows_trans:
  assumes "table_grows key ended xs ys" and "table_grows key ended ys zs"
  shows "table_grows key ended xs zs"
proof -
  obtain f n where ys: "ys = map f xs @ n" and f: "\<forall>r \<in> set xs. key (f r) = key r \<and> (ended r \<longrightarrow> ended (f r))"
    and n: "distinct (map key n)" "\<forall>r \<in> set n. key r \<notin> key ` set xs"
    using assms(1) unfolding table_grows_def by blast
  obtain g m where zs: "zs = map g ys @ m" and g: "\<forall>r \<in> set ys. key (g r) = key r \<and> (ended r \<longrightarrow> ended (g r))"
    and m: "distinct (map key m)" "\<forall>r \<in> set m. key r \<notin> key ` set ys"
    using assms(2) unfolding table_grows_def by blast
  have kn: "map key (map g n) = map key n" using g by (intro keyed_map) (simp add: ys)
  have kf: "key ` set (map f xs) = key ` set xs"
    using f by (auto simp: image_image intro: image_cong)
  have kg: "key ` set (map g n) = key ` set n" using arg_cong [OF kn, of set] by (simp add: image_image)
  have dis: "key ` set n \<inter> key ` set m = {}" "key ` set m \<inter> key ` set xs = {}"
  proof -
    have "key ` set ys = key ` set xs \<union> key ` set n" unfolding ys set_append image_Un kf ..
    moreover have "key ` set m \<inter> key ` set ys = {}" unfolding disjoint_iff
    proof (intro allI impI)
      fix v
      assume "v \<in> key ` set m"
      then obtain r where "r \<in> set m" "v = key r" by (rule imageE)
      then show "v \<notin> key ` set ys" using m(2) by simp
    qed
    ultimately show "key ` set n \<inter> key ` set m = {}" "key ` set m \<inter> key ` set xs = {}"
      by (simp_all only: Int_Un_distrib Int_commute [of "key ` set n"] Un_empty)
  qed
  have "zs = map (g \<circ> f) xs @ (map g n @ m)" by (simp add: zs ys)
  moreover have "\<forall>r \<in> set xs. key ((g \<circ> f) r) = key r \<and> (ended r \<longrightarrow> ended ((g \<circ> f) r))" using f g by (simp add: ys)
  moreover have "distinct (map key (map g n @ m))"
    unfolding map_append kn distinct_append using n(1) m(1) dis(1) by simp
  moreover have "\<forall>r \<in> set (map g n @ m). key r \<notin> key ` set xs"
  proof
    fix r
    assume "r \<in> set (map g n @ m)"
    then have "key r \<in> key ` set n \<or> key r \<in> key ` set m" unfolding set_append using kg by blast
    moreover have "v \<notin> key ` set xs" if "v \<in> key ` set n" for v using that n(2) by (elim imageE) simp
    ultimately show "key r \<notin> key ` set xs" using dis(2) by blast
  qed
  ultimately show ?thesis unfolding table_grows_def by blast
qed

lemma table_grows_distinct:
  assumes "table_grows key ended rows rows'" and "distinct (map key rows)"
  shows "distinct (map key rows')"
proof -
  obtain new where k: "map key rows' = map key rows @ map key new" "distinct (map key new)"
    "key ` set new \<inter> key ` set rows = {}" using assms(1) by (rule table_grows_keys)
  show ?thesis unfolding k(1) distinct_append using assms(2) k(2,3) by auto
qed

text \<open>A key whose rows are all ended, and that has one: it stays so.\<close>

definition shut :: "('r \<Rightarrow> 'k) \<Rightarrow> ('r \<Rightarrow> bool) \<Rightarrow> 'k \<Rightarrow> 'r list \<Rightarrow> bool" where
  "shut key ended k rows = ((\<exists>r \<in> set rows. key r = k) \<and> (\<forall>r \<in> set rows. key r = k \<longrightarrow> ended r))"

lemma shut_grows:
  assumes "table_grows key ended rows rows'" and "shut key ended k rows"
  shows "shut key ended k rows'"
proof -
  obtain f new where r: "rows' = map f rows @ new"
    and f: "\<forall>r \<in> set rows. key (f r) = key r \<and> (ended r \<longrightarrow> ended (f r))"
    and n: "\<forall>r \<in> set new. key r \<notin> key ` set rows"
    using assms(1) unfolding table_grows_def by blast
  obtain q where q: "q \<in> set rows" "key q = k" using assms(2) by (auto simp: shut_def)
  then have "f q \<in> set rows'" "key (f q) = k" using f by (auto simp: r)
  moreover have "ended x" if "x \<in> set rows'" "key x = k" for x
  proof -
    have all: "\<forall>r \<in> set rows. key r = k \<longrightarrow> ended r" using assms(2) by (simp add: shut_def)
    have "x \<notin> set new" using that(2) n q by (metis image_eqI)
    moreover have "x \<in> f ` set rows \<or> x \<in> set new" using that(1) unfolding r by simp
    ultimately obtain y where y: "y \<in> set rows" "x = f y" by blast
    with f that(2) all show ?thesis by metis
  qed
  ultimately show ?thesis unfolding shut_def by blast
qed

lemma shut_update:
  assumes "distinct (map key rows)" and "r \<in> set rows" and "P r"
    and "\<And>r. key (f r) = key r" and "\<And>r. ended (f r)"
  shows "shut key ended (key r) (sql_update P f rows)"
proof -
  have one: "q = r" if "q \<in> set rows" "key q = key r" for q
    using assms(1,2) that by (auto simp: distinct_map dest: inj_onD)
  have "f r \<in> set (sql_update P f rows)" using assms(2,3) unfolding in_sql_update by auto
  moreover have "ended x" if x: "x \<in> set (sql_update P f rows)" "key x = key r" for x
  proof -
    obtain q where q: "q \<in> set rows" and xq: "x = (if P q then f q else q)" using x(1) unfolding in_sql_update by blast
    have "key q = key r" using x(2) assms(4) by (simp add: xq split: if_splits)
    with one [OF q] assms(3,5) show ?thesis by (simp add: xq)
  qed
  ultimately show ?thesis unfolding shut_def using assms(4) by blast
qed

end
