(* ===== verification/Sessions.thy ===== *)
theory Sessions
  imports Statements Effects Crypto
begin

text \<open>
  \<open>apps/api/src/auth/sessions.ts\<close>, the class \<open>AuthService\<close>: registration, login with its lockout,
  opaque sessions, the change of organization, the reset of a password and the login by Discord. The
  columns \<open>ip\<close> and \<open>user_agent\<close> are not kept.
\<close>

section \<open>What a call brings\<close>

text \<open>
  The successive readings of the two clocks, the statements outside a transaction that fail, the
  failures of the transactions, and what the random generators give.
\<close>

record auth_env =
  ae_js :: "nat \<Rightarrow> time_ms"
  ae_db :: "nat \<Rightarrow> time_ms"
  ae_fail :: "nat \<Rightarrow> bool"
  ae_faults :: faults
  ae_session_faults :: faults
  ae_ids :: "nat \<Rightarrow> string"
  ae_session_id :: string
  ae_random32 :: bytes
  ae_salt :: bytes

(* src auth/sessions.ts:29-29 SESSION_TTL_SECONDS *)
definition session_ttl_seconds :: int where "session_ttl_seconds = 60 * 60 * 12"

(* src auth/sessions.ts:30-30 MAX_FAILED_LOGINS *)
definition max_failed_logins :: int where "max_failed_logins = 8"

(* src auth/sessions.ts:31-31 LOCKOUT_SECONDS *)
definition lockout_seconds :: int where "lockout_seconds = 15 * 60"

(* src auth/sessions.ts:33-39 SessionRecord *)
record session_record =
  sr_id :: string
  sr_userId :: string
  sr_organizationId :: "string option"
  sr_mfaSatisfied :: bool
  sr_expiresAt :: time_ms

(* src auth/sessions.ts:41-47 AuthenticatedUser *)
record authenticated_user =
  aw_userId :: string
  aw_email :: string
  aw_displayName :: string
  aw_emailVerified :: bool
  aw_mfaEnforced :: bool

(* src auth/sessions.ts:49-52 SessionContext *)
record session_context =
  sc_session :: session_record
  sc_user :: authenticated_user

(* src auth/sessions.ts:54-58 LoginOutcome *)
datatype login_outcome =
    Login_ok string session_record
  | Login_mfa_required string session_record
  | Login_invalid
  | Login_locked int

(* src auth/sessions.ts:60-66 DiscordLoginOutcome *)
datatype discord_reason = No_email | Email_taken | Already_linked | Account_disabled
datatype discord_outcome =
    Discord_ok string session_record
  | Discord_mfa_required string session_record
  | Discord_error discord_reason

section \<open>Constraints of the tables\<close>

definition btrim :: "string \<Rightarrow> string" where
  "btrim s = rev (dropWhile (\<lambda>c. c = CHR '' '') (rev (dropWhile (\<lambda>c. c = CHR '' '') s)))"

definition trimmed_ok :: "nat \<Rightarrow> string \<Rightarrow> bool" where
  "trimmed_ok n s = (1 \<le> length (btrim s) \<and> length (btrim s) \<le> n)"

definition slug_chars :: string where "slug_chars = CHR ''-'' # lower_alnum"

(* src db/migrations/0001_init.sql:57-57 organizations.slug *)
definition slug_ok :: "string \<Rightarrow> bool" where
  "slug_ok s =
     (case to_lower s of
        [] \<Rightarrow> False
      | c # cs \<Rightarrow> c \<in> set lower_alnum \<and> 1 \<le> length cs \<and> length cs \<le> 48 \<and> all_in slug_chars cs)"

definition user_exists :: "string \<Rightarrow> db \<Rightarrow> bool" where
  "user_exists uid d = exists_row (\<lambda>u. u_id u = uid) (users d)"

definition organization_exists :: "string \<Rightarrow> db \<Rightarrow> bool" where
  "organization_exists org d = exists_row (\<lambda>o'. og_id o' = org) (organizations d)"

definition insert_user :: "user_row \<Rightarrow> db \<Rightarrow> unit result \<times> db" where
  "insert_user u d =
     (if \<not> user_id_ok (u_id u) \<or> \<not> trimmed_ok 80 (u_display_name u) then (Inl Check_violation, d)
      else if exists_row (\<lambda>r. u_id r = u_id u \<or> citext_eq (u_email r) (u_email u)) (users d) then (Inl Unique_violation, d)
      else (Inr (), d\<lparr>users := users d @ [u]\<rparr>))"

definition insert_organization :: "organization_row \<Rightarrow> db \<Rightarrow> unit result \<times> db" where
  "insert_organization og d =
     (if \<not> org_id_ok (og_id og) \<or> \<not> trimmed_ok 120 (og_name og) \<or> \<not> slug_ok (og_slug og) then (Inl Check_violation, d)
      else if exists_row (\<lambda>r. og_id r = og_id og \<or> citext_eq (og_slug r) (og_slug og)) (organizations d)
      then (Inl Unique_violation, d)
      else (Inr (), d\<lparr>organizations := organizations d @ [og]\<rparr>))"

definition insert_membership :: "membership_row \<Rightarrow> db \<Rightarrow> unit result \<times> db" where
  "insert_membership m d =
     (if exists_row (\<lambda>r. me_id r = me_id m \<or>
           (me_organization_id r = me_organization_id m \<and> me_user_id r = me_user_id m)) (memberships d)
      then (Inl Unique_violation, d)
      else if \<not> organization_exists (me_organization_id m) d \<or> \<not> user_exists (me_user_id m) d
      then (Inl Foreign_key_violation, d)
      else (Inr (), d\<lparr>memberships := memberships d @ [m]\<rparr>))"

definition insert_subscription :: "subscription_row \<Rightarrow> db \<Rightarrow> unit result \<times> db" where
  "insert_subscription s d =
     (if exists_row (\<lambda>r. sb_id r = sb_id s \<or> sb_organization_id r = sb_organization_id s) (subscriptions d)
      then (Inl Unique_violation, d)
      else if \<not> organization_exists (sb_organization_id s) d then (Inl Foreign_key_violation, d)
      else (Inr (), d\<lparr>subscriptions := subscriptions d @ [s]\<rparr>))"

definition insert_session :: "session_row \<Rightarrow> db \<Rightarrow> unit result \<times> db" where
  "insert_session s d =
     (if exists_row (\<lambda>r. se_id r = se_id s \<or> se_token_hash r = se_token_hash s) (sessions d) then (Inl Unique_violation, d)
      else if \<not> user_exists (se_user_id s) d \<or>
              (case se_organization_id s of None \<Rightarrow> False | Some org \<Rightarrow> \<not> organization_exists org d)
      then (Inl Foreign_key_violation, d)
      else (Inr (), d\<lparr>sessions := sessions d @ [s]\<rparr>))"

(* src db/migrations/0002_password_resets_and_rls_gaps.sql:30-45 password_resets *)
definition insert_reset :: "reset_row \<Rightarrow> db \<Rightarrow> unit result \<times> db" where
  "insert_reset p d =
     (if exists_row (\<lambda>r. pr_id r = pr_id p \<or> pr_token_hash r = pr_token_hash p \<or>
           (pr_user_id r = pr_user_id p \<and> pr_purpose r = pr_purpose p \<and> pr_consumed_at r = None)) (password_resets d)
      then (Inl Unique_violation, d)
      else if \<not> user_exists (pr_user_id p) d then (Inl Foreign_key_violation, d)
      else (Inr (), d\<lparr>password_resets := password_resets d @ [p]\<rparr>))"

(* src db/migrations/0011_discord_identities.sql:21-32 discord_identities *)
definition insert_discord :: "discord_row \<Rightarrow> db \<Rightarrow> unit result \<times> db" where
  "insert_discord i d =
     (if \<not> matches_class digit_chars 5 32 (di_discord_user_id i) then (Inl Check_violation, d)
      else if exists_row (\<lambda>r. di_discord_user_id r = di_discord_user_id i \<or> di_user_id r = di_user_id i) (discord_identities d)
      then (Inl Unique_violation, d)
      else if \<not> user_exists (di_user_id i) d then (Inl Foreign_key_violation, d)
      else (Inr (), d\<lparr>discord_identities := discord_identities d @ [i]\<rparr>))"

definition user_audit :: "string option \<Rightarrow> string \<Rightarrow> string \<Rightarrow> time_ms \<Rightarrow> audit_row" where
  "user_audit org uid action now =
     \<lparr>au_organization_id = org, au_actor_user_id = Some uid, au_actor_kind = ''user'', au_actor_label = None,
      au_action = action, au_target_id = org, au_created_at = now\<rparr>"

section \<open>Registration\<close>

text \<open>
  \<open>toLowerCase().normalize('NFD')\<close> and the removal of the combining marks: on an ASCII text it is
  the change of case; what it gives on any other is an argument.
\<close>

definition slug_fold :: "(string \<Rightarrow> string) \<Rightarrow> string \<Rightarrow> string" where
  "slug_fold other s = (if list_all (\<lambda>c. (of_char c :: nat) < 128) s then to_lower s else other s)"

fun dash_runs :: "bool \<Rightarrow> string \<Rightarrow> string" where
  "dash_runs inside_run [] = []"
| "dash_runs inside_run (c # cs) =
     (if c \<in> set lower_alnum then c # dash_runs False cs
      else if inside_run then dash_runs True cs
      else CHR ''-'' # dash_runs True cs)"

definition trim_dashes :: "string \<Rightarrow> string" where
  "trim_dashes s = rev (dropWhile (\<lambda>c. c = CHR ''-'') (rev (dropWhile (\<lambda>c. c = CHR ''-'') s)))"

(* src auth/sessions.ts:159-166 uniqueSlug/base *)
definition slug_base :: "(string \<Rightarrow> string) \<Rightarrow> string \<Rightarrow> string" where
  "slug_base other name =
     (let s = take 40 (trim_dashes (dash_runs False (slug_fold other name))) in if s = [] then ''org'' else s)"

definition slug_candidate :: "string \<Rightarrow> nat \<Rightarrow> string" where
  "slug_candidate base n = (if n = 0 then base else base @ ''-'' @ string_of_nat n)"

(* src auth/sessions.ts:168-173 uniqueSlug/for *)
fun slug_loop :: "(string \<Rightarrow> bool) \<Rightarrow> string \<Rightarrow> nat list \<Rightarrow> string option" where
  "slug_loop taken base [] = None"
| "slug_loop taken base (n # ns) =
     (if length (slug_candidate base n) < 2 then slug_loop taken base ns
      else if taken (slug_candidate base n) then slug_loop taken base ns
      else Some (slug_candidate base n))"

text \<open>\<open>n.toString(36)\<close>.\<close>

fun base36 :: "nat \<Rightarrow> string" where
  "base36 n = (if n < 36 then [lower_alnum ! n] else base36 (n div 36) @ [lower_alnum ! (n mod 36)])"

declare base36.simps [simp del]

(* src auth/sessions.ts:155-175 uniqueSlug *)
definition uniqueSlug :: "(string \<Rightarrow> string) \<Rightarrow> time_ms \<Rightarrow> string \<Rightarrow> db \<Rightarrow> string" where
  "uniqueSlug other now name d =
     (let base = slug_base other name in
      case slug_loop (\<lambda>s. exists_row (\<lambda>o'. citext_eq (og_slug o') s) (organizations d)) base [0..<20] of
        Some s \<Rightarrow> s
      | None \<Rightarrow> base @ ''-'' @ base36 (nat now))"

record register_input =
  rg_email :: string
  rg_password :: string
  rg_displayName :: string
  rg_organizationName :: string

definition new_user :: "string \<Rightarrow> string \<Rightarrow> string \<Rightarrow> string \<Rightarrow> time_ms option \<Rightarrow> user_row" where
  "new_user uid email hash name verified =
     \<lparr>u_id = uid, u_email = email, u_password_hash = hash, u_display_name = name, u_email_verified_at = verified,
      u_mfa_enforced = False, u_failed_logins = 0, u_locked_until = None, u_last_login_at = None,
      u_deleted_at = None, u_is_platform_admin = False\<rparr>"

definition new_organization :: "string \<Rightarrow> string \<Rightarrow> string \<Rightarrow> organization_row" where
  "new_organization org name slug =
     \<lparr>og_id = org, og_name = name, og_slug = slug, og_heatmap_enabled = False, og_share_bans = False\<rparr>"

text \<open>\<open>newId('usr').replace('usr_', 'mem_')\<close>.\<close>

definition member_id :: "string \<Rightarrow> string" where
  "member_id i = ''mem_'' @ drop 4 i"

definition owner_membership :: "string \<Rightarrow> string \<Rightarrow> string \<Rightarrow> time_ms \<Rightarrow> membership_row" where
  "owner_membership i org uid now =
     \<lparr>me_id = member_id i, me_organization_id = org, me_user_id = uid, me_role = OWNER, me_invited_by = None,
      me_accepted_at = Some now, me_created_at = now\<rparr>"

definition trial :: "string \<Rightarrow> string \<Rightarrow> time_ms \<Rightarrow> subscription_row" where
  "trial i org now =
     \<lparr>sb_id = i, sb_organization_id = org, sb_plan_code = ''free'', sb_trial_ends_at = Some (now + 14 * 86400000)\<rparr>"

definition set_local :: "faults \<Rightarrow> 'd \<Rightarrow> unit result \<times> 'd" where
  "set_local f = (if f_set f then throw (Thrown ''set'') else give ())"

(* src auth/sessions.ts:97-146 register/try *)
definition register_tx :: "(string \<Rightarrow> string) \<Rightarrow> auth_env \<Rightarrow> register_input \<Rightarrow> string \<Rightarrow> db \<Rightarrow>
    (string \<times> string) option result \<times> db" where
  "register_tx other e i hash d =
     (if exists_row (\<lambda>u. citext_eq (u_email u) (rg_email i)) (users d) then (Inr None, d)
      else (let uid = ae_ids e 0; org = ae_ids e 1; now = ae_db e 0;
                slug = uniqueSlug other (ae_js e 0) (rg_organizationName i) d in
        and_then (insert_user (new_user uid (rg_email i) hash (rg_displayName i) None)) (\<lambda>_.
        and_then (insert_organization (new_organization org (rg_organizationName i) slug)) (\<lambda>_.
        and_then (set_local (ae_faults e)) (\<lambda>_.
        and_then (insert_membership (owner_membership (ae_ids e 2) org uid now)) (\<lambda>_.
        and_then (insert_subscription (trial (ae_ids e 3) org now)) (\<lambda>_ d.
        (Inr (Some (uid, org)), append_audit (user_audit (Some org) uid ''organization.created'' now) d)))))) d))"

(* src auth/sessions.ts:88-153 register *)
definition register :: "(string \<Rightarrow> string) \<Rightarrow> crypto \<Rightarrow> auth_env \<Rightarrow> register_input \<Rightarrow> db \<Rightarrow>
    (string \<times> string) option result \<times> db" where
  "register other c e i d =
     (case hashPassword c (ae_salt e) (rg_password i) of
        Inl x \<Rightarrow> (Inl x, d)
      | Inr hash \<Rightarrow> by_hand (ae_faults e) (register_tx other e i hash) d)"

section \<open>Sessions\<close>

definition accepted_membership :: "string \<Rightarrow> membership_row \<Rightarrow> bool" where
  "accepted_membership uid m = (me_user_id m = uid \<and> me_accepted_at m \<noteq> None)"

(* src auth/sessions.ts:289-291 createSession/coalesce *)
definition first_organization :: "string \<Rightarrow> db \<Rightarrow> string option" where
  "first_organization uid d =
     (case sort_key me_created_at (filter (accepted_membership uid) (memberships d)) of
        [] \<Rightarrow> None | m # ms \<Rightarrow> Some (me_organization_id m))"

definition session_row_of :: "crypto \<Rightarrow> auth_env \<Rightarrow> string \<Rightarrow> string option \<Rightarrow> bool \<Rightarrow> session_row" where
  "session_row_of c e uid org mfa =
     \<lparr>se_id = ae_session_id e, se_user_id = uid, se_token_hash = hashToken c (newOpaqueToken (ae_random32 e)),
      se_organization_id = org, se_mfa_satisfied = mfa, se_last_seen_at = ae_db e 9,
      se_expires_at = ae_js e 9 + session_ttl_seconds * 1000, se_revoked_at = None\<rparr>"

definition record_of :: "session_row \<Rightarrow> session_record" where
  "record_of s = \<lparr>sr_id = se_id s, sr_userId = se_user_id s, sr_organizationId = se_organization_id s,
     sr_mfaSatisfied = se_mfa_satisfied s, sr_expiresAt = se_expires_at s\<rparr>"

(* src auth/sessions.ts:266-317 createSession *)
definition createSession :: "crypto \<Rightarrow> auth_env \<Rightarrow> string \<Rightarrow> bool \<Rightarrow> string option \<Rightarrow> db \<Rightarrow>
    (string \<times> session_record) result \<times> db" where
  "createSession c e uid mfa org =
     user_db uid (ae_session_faults e) (\<lambda>s d.
       (let row = session_row_of c e uid (coalesce org (first_organization uid d)) mfa in
        case insert_session row d of
          (Inl x, d1) \<Rightarrow> (Inl x, d1)
        | (Inr _, d1) \<Rightarrow> (Inr (newOpaqueToken (ae_random32 e), record_of row), d1)))"

definition usable_session :: "time_ms \<Rightarrow> bytes \<Rightarrow> db \<Rightarrow> session_row \<Rightarrow> bool" where
  "usable_session now h d s =
     (se_token_hash s = h \<and> se_revoked_at s = None \<and> now < se_expires_at s \<and>
      exists_row (\<lambda>u. u_id u = se_user_id s \<and> u_deleted_at u = None) (users d))"

definition context_of :: "session_row \<Rightarrow> user_row \<Rightarrow> session_context" where
  "context_of s u =
     \<lparr>sc_session = record_of s,
      sc_user = \<lparr>aw_userId = se_user_id s, aw_email = u_email u, aw_displayName = u_display_name u,
                 aw_emailVerified = (u_email_verified_at u \<noteq> None), aw_mfaEnforced = u_mfa_enforced u\<rparr>\<rparr>"

definition see_session :: "string \<Rightarrow> time_ms \<Rightarrow> db \<Rightarrow> db" where
  "see_session i now d =
     d\<lparr>sessions := sql_update (\<lambda>s. se_id s = i) (\<lambda>s. s\<lparr>se_last_seen_at := now\<rparr>) (sessions d)\<rparr>"

text \<open>The trace of activity is a promise nobody awaits; it comes first here, and is lost when it fails.\<close>

(* src auth/sessions.ts:320-365 resolveSession *)
definition resolveSession :: "crypto \<Rightarrow> auth_env \<Rightarrow> string \<Rightarrow> db \<Rightarrow> session_context option result \<times> db" where
  "resolveSession c e token d =
     (if ae_fail e 0 then (Inl query_failed, d)
      else (case first_row (usable_session (ae_db e 0) (hashToken c token) d) (sessions d) of
          None \<Rightarrow> (Inr None, d)
        | Some s \<Rightarrow>
            (Inr (map_option (context_of s) (first_row (\<lambda>u. u_id u = se_user_id s \<and> u_deleted_at u = None) (users d))),
             if ae_fail e 1 then d else see_session (se_id s) (ae_db e 1) d)))"

(* src auth/sessions.ts:373-382 resolveRole *)
definition resolveRole :: "auth_env \<Rightarrow> string \<Rightarrow> string \<Rightarrow> db \<Rightarrow> role option result \<times> db" where
  "resolveRole e uid org =
     user_db uid (ae_session_faults e) (\<lambda>s d.
       (Inr (map_option me_role (first_row (\<lambda>m. accepted_membership uid m \<and> me_organization_id m = org) (memberships d))), d))"

(* src auth/sessions.ts:384-386 markMfaSatisfied *)
definition markMfaSatisfied :: "auth_env \<Rightarrow> string \<Rightarrow> db \<Rightarrow> unit result \<times> db" where
  "markMfaSatisfied e i =
     command (ae_fail e 0) (\<lambda>d. d\<lparr>sessions := sql_update (\<lambda>s. se_id s = i) (\<lambda>s. s\<lparr>se_mfa_satisfied := True\<rparr>) (sessions d)\<rparr>)"

definition revoke_sessions :: "(session_row \<Rightarrow> bool) \<Rightarrow> time_ms \<Rightarrow> db \<Rightarrow> db" where
  "revoke_sessions P now d =
     d\<lparr>sessions := sql_update (\<lambda>s. P s \<and> se_revoked_at s = None) (\<lambda>s. s\<lparr>se_revoked_at := Some now\<rparr>) (sessions d)\<rparr>"

(* src auth/sessions.ts:398-403 revokeSession *)
definition revokeSession :: "auth_env \<Rightarrow> string \<Rightarrow> db \<Rightarrow> unit result \<times> db" where
  "revokeSession e i = command (ae_fail e 0) (revoke_sessions (\<lambda>s. se_id s = i) (ae_db e 0))"

(* src auth/sessions.ts:405-412 revokeAllSessions *)
definition revokeAllSessions :: "auth_env \<Rightarrow> string \<Rightarrow> string option \<Rightarrow> db \<Rightarrow> nat result \<times> db" where
  "revokeAllSessions e uid except =
     statement (ae_fail e 0) (\<lambda>d.
       (let P = (\<lambda>s. se_user_id s = uid \<and> except \<noteq> Some (se_id s)) in
        (Inr (row_count (\<lambda>s. P s \<and> se_revoked_at s = None) (sessions d)), revoke_sessions P (ae_db e 0) d)))"

(* src auth/sessions.ts:389-396 rotateSession *)
definition rotateSession :: "crypto \<Rightarrow> auth_env \<Rightarrow> session_context \<Rightarrow> db \<Rightarrow> (string \<times> session_record) result \<times> db" where
  "rotateSession c e ctx =
     and_then (revokeSession e (sr_id (sc_session ctx))) (\<lambda>_.
       createSession c e (sr_userId (sc_session ctx)) True (sr_organizationId (sc_session ctx)))"

(* src auth/sessions.ts:415-427 switchOrganization *)
definition switchOrganization :: "auth_env \<Rightarrow> string \<Rightarrow> string \<Rightarrow> string \<Rightarrow> db \<Rightarrow> bool result \<times> db" where
  "switchOrganization e i uid org =
     user_db uid (ae_session_faults e) (\<lambda>s d.
       (if \<not> exists_row (\<lambda>m. accepted_membership uid m \<and> me_organization_id m = org) (memberships d) then (Inr False, d)
        else (Inr (exists_row (\<lambda>s. se_id s = i) (sessions d)),
              d\<lparr>sessions := sql_update (\<lambda>s. se_id s = i) (\<lambda>s. s\<lparr>se_organization_id := Some org\<rparr>) (sessions d)\<rparr>)))"

section \<open>Login\<close>

definition has_mfa :: "string \<Rightarrow> db \<Rightarrow> bool" where
  "has_mfa uid d = exists_row (\<lambda>f. mf_user_id f = uid \<and> mf_confirmed_at f \<noteq> None) (mfa_factors d)"

text \<open>\<open>Math.ceil((until - now) / 1000)\<close>.\<close>

definition seconds_until :: "time_ms \<Rightarrow> time_ms \<Rightarrow> int" where
  "seconds_until until now = - ((now - until) div 1000)"

(* src auth/sessions.ts:223-237 login/failure *)
definition note_failure :: "time_ms \<Rightarrow> user_row \<Rightarrow> db \<Rightarrow> unit result \<times> db" where
  "note_failure now u d =
     (let n = u_failed_logins u + 1 in
      if \<not> int4_ok n then (Inl out_of_range, d)
      else (Inr (), d\<lparr>users := sql_update (\<lambda>r. u_id r = u_id u)
         (\<lambda>r. r\<lparr>u_failed_logins := n,
                u_locked_until := (if max_failed_logins \<le> n then Some (now + lockout_seconds * 1000) else u_locked_until r)\<rparr>)
         (users d)\<rparr>))"

(* src auth/sessions.ts:241-245 login/success *)
definition note_success :: "time_ms \<Rightarrow> string \<Rightarrow> db \<Rightarrow> db" where
  "note_success now uid d =
     d\<lparr>users := sql_update (\<lambda>r. u_id r = uid)
       (\<lambda>r. r\<lparr>u_failed_logins := 0, u_locked_until := None, u_last_login_at := Some now\<rparr>) (users d)\<rparr>"

(* src auth/sessions.ts:702-713 audit *)
definition auth_audit :: "bool \<Rightarrow> time_ms \<Rightarrow> string \<Rightarrow> string \<Rightarrow> db \<Rightarrow> unit result \<times> db" where
  "auth_audit fails now uid action = command fails (append_audit (user_audit None uid action now))"

definition dummy_record :: string where "dummy_record = ''scrypt$32768$8$1$AAAA$AAAA''"

(* src auth/sessions.ts:206-211 login/unknown *)
definition login_unknown :: "js_lib \<Rightarrow> crypto \<Rightarrow> string \<Rightarrow> db \<Rightarrow> login_outcome result \<times> db" where
  "login_unknown js c password d =
     (case verifyPassword js c password dummy_record of Inl x \<Rightarrow> (Inl x, d) | Inr _ \<Rightarrow> (Inr Login_invalid, d))"

definition mfa_required :: "user_row \<Rightarrow> db \<Rightarrow> bool" where
  "mfa_required u d = (has_mfa (u_id u) d \<or> u_mfa_enforced u)"

(* src auth/sessions.ts:241-263 login/open *)
definition login_open :: "crypto \<Rightarrow> auth_env \<Rightarrow> string \<Rightarrow> bool \<Rightarrow> db \<Rightarrow> login_outcome result \<times> db" where
  "login_open c e uid mfa =
     and_then (command (ae_fail e 1) (note_success (ae_db e 1) uid)) (\<lambda>_.
     and_then (createSession c e uid (\<not> mfa) None) (\<lambda>(token, session).
     and_then (auth_audit (ae_fail e 2) (ae_db e 2) uid (if mfa then ''auth.login_mfa_pending'' else ''auth.login'')) (\<lambda>_.
     give (if mfa then Login_mfa_required token session else Login_ok token session))))"

(* src auth/sessions.ts:181-264 login *)
definition login :: "js_lib \<Rightarrow> crypto \<Rightarrow> auth_env \<Rightarrow> string \<Rightarrow> string \<Rightarrow> db \<Rightarrow> login_outcome result \<times> db" where
  "login js c e email password d =
     (if ae_fail e 0 then (Inl query_failed, d)
      else (case first_row (\<lambda>u. citext_eq (u_email u) email) (users d) of
          None \<Rightarrow> login_unknown js c password d
        | Some u \<Rightarrow>
            if u_deleted_at u \<noteq> None then login_unknown js c password d
            else if (case u_locked_until u of None \<Rightarrow> False | Some t \<Rightarrow> ae_js e 0 < t)
            then (Inr (Login_locked (seconds_until (the (u_locked_until u)) (ae_js e 1))), d)
            else (case verifyPassword js c password (u_password_hash u) of
                Inl x \<Rightarrow> (Inl x, d)
              | Inr False \<Rightarrow> and_then (statement (ae_fail e 1) (note_failure (ae_db e 1) u)) (\<lambda>_. give Login_invalid) d
              | Inr True \<Rightarrow> login_open c e (u_id u) (mfa_required u d) d)))"

section \<open>Reset of a password\<close>

definition live_reset :: "string \<Rightarrow> reset_row \<Rightarrow> bool" where
  "live_reset uid r = (pr_user_id r = uid \<and> pr_purpose r = ''password_reset'' \<and> pr_consumed_at r = None)"

definition consume_resets :: "(reset_row \<Rightarrow> bool) \<Rightarrow> time_ms \<Rightarrow> db \<Rightarrow> db" where
  "consume_resets P now d =
     d\<lparr>password_resets := sql_update P (\<lambda>r. r\<lparr>pr_consumed_at := Some now\<rparr>) (password_resets d)\<rparr>"

definition reset_of :: "crypto \<Rightarrow> auth_env \<Rightarrow> string \<Rightarrow> reset_row" where
  "reset_of c e uid =
     \<lparr>pr_id = ae_ids e 0, pr_user_id = uid, pr_token_hash = hashToken c (newOpaqueToken (ae_random32 e)),
      pr_purpose = ''password_reset'', pr_expires_at = ae_db e 2 + 3600000, pr_consumed_at = None\<rparr>"

(* src auth/sessions.ts:441-466 createPasswordReset *)
definition createPasswordReset :: "crypto \<Rightarrow> auth_env \<Rightarrow> string \<Rightarrow> db \<Rightarrow> string option result \<times> db" where
  "createPasswordReset c e email d =
     (if ae_fail e 0 then (Inl query_failed, d)
      else (case first_row (\<lambda>u. citext_eq (u_email u) email \<and> u_deleted_at u = None) (users d) of
          None \<Rightarrow> (Inr None, d)
        | Some u \<Rightarrow>
            and_then (command (ae_fail e 1) (consume_resets (live_reset (u_id u)) (ae_db e 1))) (\<lambda>_.
            and_then (statement (ae_fail e 2) (insert_reset (reset_of c e (u_id u)))) (\<lambda>_.
            give (Some (newOpaqueToken (ae_random32 e))))) d))"

definition usable_reset :: "time_ms \<Rightarrow> bytes \<Rightarrow> reset_row \<Rightarrow> bool" where
  "usable_reset now h r =
     (pr_token_hash r = h \<and> pr_purpose r = ''password_reset'' \<and> pr_consumed_at r = None \<and> now < pr_expires_at r)"

definition set_password :: "string \<Rightarrow> string \<Rightarrow> db \<Rightarrow> db" where
  "set_password uid hash d =
     d\<lparr>users := sql_update (\<lambda>u. u_id u = uid)
       (\<lambda>u. u\<lparr>u_password_hash := hash, u_failed_logins := 0, u_locked_until := None\<rparr>) (users d)\<rparr>"

(* src auth/sessions.ts:479-513 completePasswordReset/try *)
definition reset_tx :: "crypto \<Rightarrow> auth_env \<Rightarrow> string \<Rightarrow> string \<Rightarrow> db \<Rightarrow> unit option result \<times> db" where
  "reset_tx c e token hash d =
     (let now = ae_db e 0 in
      case first_row (usable_reset now (hashToken c token)) (password_resets d) of
        None \<Rightarrow> (Inr None, d)
      | Some r \<Rightarrow>
          (Inr (Some ()),
           append_audit (user_audit None (pr_user_id r) ''auth.password_reset'' now)
             (revoke_sessions (\<lambda>s. se_user_id s = pr_user_id r) now
               (set_password (pr_user_id r) hash (consume_resets (\<lambda>q. pr_id q = pr_id r) now d)))))"

(* src auth/sessions.ts:475-520 completePasswordReset *)
definition completePasswordReset :: "crypto \<Rightarrow> auth_env \<Rightarrow> string \<Rightarrow> string \<Rightarrow> db \<Rightarrow> bool result \<times> db" where
  "completePasswordReset c e token password d =
     (case hashPassword c (ae_salt e) password of
        Inl x \<Rightarrow> (Inl x, d)
      | Inr hash \<Rightarrow>
          and_then (by_hand (ae_faults e) (reset_tx c e token hash)) (\<lambda>r. give (r \<noteq> None)) d)"

section \<open>Login by Discord\<close>

record discord_input =
  dn_discordUserId :: string
  dn_email :: "string option"
  dn_emailVerified :: bool
  dn_username :: "string option"
  dn_displayName :: string

definition see_identity :: "discord_input \<Rightarrow> time_ms \<Rightarrow> db \<Rightarrow> db" where
  "see_identity i now d =
     d\<lparr>discord_identities := sql_update (\<lambda>r. di_discord_user_id r = dn_discordUserId i)
       (\<lambda>r. r\<lparr>di_last_login_at := Some now, di_username := dn_username i\<rparr>) (discord_identities d)\<rparr>"

definition see_user :: "string \<Rightarrow> time_ms \<Rightarrow> db \<Rightarrow> db" where
  "see_user uid now d =
     d\<lparr>users := sql_update (\<lambda>u. u_id u = uid) (\<lambda>u. u\<lparr>u_last_login_at := Some now\<rparr>) (users d)\<rparr>"

(* src auth/sessions.ts:547-573 loginWithDiscord/finalize *)
definition discord_finalize :: "crypto \<Rightarrow> auth_env \<Rightarrow> discord_input \<Rightarrow> string \<Rightarrow> bool \<Rightarrow> string \<Rightarrow> db \<Rightarrow>
    discord_outcome result \<times> db" where
  "discord_finalize c e i uid mfa action =
     and_then (createSession c e uid (\<not> mfa) None) (\<lambda>(token, session).
     and_then (command (ae_fail e 4) (see_identity i (ae_db e 4))) (\<lambda>_.
     and_then (command (ae_fail e 5) (see_user uid (ae_db e 5))) (\<lambda>_.
     and_then (auth_audit (ae_fail e 6) (ae_db e 6) uid (if mfa then action @ ''_mfa_pending'' else action)) (\<lambda>_.
     give (if mfa then Discord_mfa_required token session else Discord_ok token session)))))"

definition identity_of :: "discord_input \<Rightarrow> string \<Rightarrow> discord_row" where
  "identity_of i uid =
     \<lparr>di_discord_user_id = dn_discordUserId i, di_user_id = uid, di_username = dn_username i, di_last_login_at = None\<rparr>"

(* src auth/sessions.ts:645-690 loginWithDiscord/provision *)
definition discord_tx :: "(string \<Rightarrow> string) \<Rightarrow> auth_env \<Rightarrow> discord_input \<Rightarrow> string \<Rightarrow> string \<Rightarrow> db \<Rightarrow>
    string option result \<times> db" where
  "discord_tx other e i email hash d =
     (let uid = ae_ids e 0; org = ae_ids e 1; now = ae_db e 3;
          orgName = take 120 (''Organisation de '' @ dn_displayName i);
          slug = uniqueSlug other (ae_js e 0) orgName d in
      and_then (insert_user (new_user uid email hash (take 80 (dn_displayName i)) (if dn_emailVerified i then Some now else None))) (\<lambda>_.
      and_then (insert_organization (new_organization org orgName slug)) (\<lambda>_.
      and_then (set_local (ae_faults e)) (\<lambda>_.
      and_then (insert_membership (owner_membership (ae_ids e 2) org uid now)) (\<lambda>_.
      and_then (insert_subscription (trial (ae_ids e 3) org now)) (\<lambda>_.
      and_then (insert_discord (identity_of i uid)) (\<lambda>_ d.
      (Inr (Some uid), append_audit (user_audit (Some org) uid ''organization.created_discord'' now) d))))))) d)"

text \<open>
  The password nobody knows is hashed within the transaction, from \<open>ae_random32\<close> under another draw
  \<open>unusable\<close>; a failure there rolls back like any other.
\<close>

(* src auth/sessions.ts:631-699 loginWithDiscord/new *)
definition discord_provision :: "(string \<Rightarrow> string) \<Rightarrow> crypto \<Rightarrow> auth_env \<Rightarrow> bytes \<Rightarrow> discord_input \<Rightarrow> db \<Rightarrow>
    discord_outcome result \<times> db" where
  "discord_provision other c e unusable i d =
     (case dn_email i of
        None \<Rightarrow> (Inr (Discord_error No_email), d)
      | Some [] \<Rightarrow> (Inr (Discord_error No_email), d)
      | Some email \<Rightarrow>
          if ae_fail e 2 then (Inl query_failed, d)
          else if exists_row (\<lambda>u. citext_eq (u_email u) email) (users d) then (Inr (Discord_error Email_taken), d)
          else and_then
            (by_hand (ae_faults e) (\<lambda>d.
               case hashPassword c (ae_salt e) (newOpaqueToken unusable) of
                 Inl x \<Rightarrow> (Inl x, d)
               | Inr hash \<Rightarrow> discord_tx other e i email hash d))
            (\<lambda>r. case r of None \<Rightarrow> throw (Thrown ''unreachable'')
                 | Some uid \<Rightarrow> discord_finalize c e i uid False ''auth.register_discord'') d)"

(* src auth/sessions.ts:600-629 loginWithDiscord/link *)
definition discord_link :: "(string \<Rightarrow> string) \<Rightarrow> crypto \<Rightarrow> auth_env \<Rightarrow> bytes \<Rightarrow> discord_input \<Rightarrow> db \<Rightarrow>
    discord_outcome result \<times> db" where
  "discord_link other c e unusable i d =
     (if dn_email i = None \<or> dn_email i = Some [] \<or> \<not> dn_emailVerified i then discord_provision other c e unusable i d
      else if ae_fail e 1 then (Inl query_failed, d)
      else (case first_row (\<lambda>u. citext_eq (u_email u) (the (dn_email i))) (users d) of
          None \<Rightarrow> discord_provision other c e unusable i d
        | Some u \<Rightarrow>
            if u_deleted_at u \<noteq> None then (Inr (Discord_error Account_disabled), d)
            else (case statement (ae_fail e 3) (insert_discord (identity_of i (u_id u))) d of
                (Inl x, d1) \<Rightarrow> (Inr (Discord_error Already_linked), d1)
              | (Inr _, d1) \<Rightarrow>
                  discord_finalize c e i (u_id u) (mfa_required u d) ''auth.login_discord_linked'' d1)))"

(* src auth/sessions.ts:537-700 loginWithDiscord *)
definition loginWithDiscord :: "(string \<Rightarrow> string) \<Rightarrow> crypto \<Rightarrow> auth_env \<Rightarrow> bytes \<Rightarrow> discord_input \<Rightarrow> db \<Rightarrow>
    discord_outcome result \<times> db" where
  "loginWithDiscord other c e unusable i d =
     (if ae_fail e 0 then (Inl query_failed, d)
      else (case first_row (\<lambda>r. di_discord_user_id r = dn_discordUserId i \<and> user_exists (di_user_id r) d) (discord_identities d) of
          None \<Rightarrow> discord_link other c e unusable i d
        | Some r \<Rightarrow>
            (case first_row (\<lambda>u. u_id u = di_user_id r) (users d) of
               None \<Rightarrow> discord_link other c e unusable i d
             | Some u \<Rightarrow>
                 if u_deleted_at u \<noteq> None then (Inr (Discord_error Account_disabled), d)
                 else discord_finalize c e i (u_id u) (mfa_required u d) ''auth.login_discord'' d)))"

end
