(* ===== verification/Session_Facts.thy ===== *)
theory Session_Facts
  imports Sessions
begin

text \<open>
  What the operations of \<open>AuthService\<close> promise: tokens that are dead stay dead, a reset works once,
  a login that succeeds is one that had to.
\<close>

section \<open>Revoked and consumed tokens\<close>

definition auth_kept :: "db \<Rightarrow> db \<Rightarrow> bool" where
  "auth_kept d d' =
     (table_grows se_token_hash (\<lambda>s. se_revoked_at s \<noteq> None) (sessions d) (sessions d') \<and>
      table_grows pr_token_hash (\<lambda>r. pr_consumed_at r \<noteq> None) (password_resets d) (password_resets d'))"

lemma auth_kept_same: "sessions d' = sessions d \<Longrightarrow> password_resets d' = password_resets d \<Longrightarrow> auth_kept d d'"
  by (simp add: auth_kept_def)

interpretation auth: step_relation auth_kept
  by unfold_locales (auto simp: auth_kept_def intro: table_grows_trans)

lemma user_db_keeps_rel:
  assumes "keeps_rel auth_kept body"
  shows "keeps_rel auth_kept (user_db uid f (\<lambda>s. body))"
proof (rule keeps_relI)
  fix d
  show "auth_kept d (snd (user_db uid f (\<lambda>s. body) d))"
  proof (rule user_db_keeps)
    show "auth_kept d d'" if "body d = (Inr r, d')" for r d' using keeps_relD [OF assms, of d] that by simp
  qed (rule auth.R_refl)
qed

lemma insert_session_kept: "keeps_rel auth_kept (insert_session s)"
  by (rule keeps_relI)
    (auto simp: insert_session_def auth_kept_def exists_row_iff intro!: table_grows_insert)

lemma insert_reset_kept: "keeps_rel auth_kept (insert_reset r)"
  by (rule keeps_relI)
    (auto simp: insert_reset_def auth_kept_def exists_row_iff intro!: table_grows_insert)

lemma other_inserts_kept:
  "keeps_rel auth_kept (insert_user u)" "keeps_rel auth_kept (insert_organization og)"
  "keeps_rel auth_kept (insert_membership m)" "keeps_rel auth_kept (insert_subscription sb)"
  "keeps_rel auth_kept (insert_discord i)"
  by (rule keeps_relI, rule auth_kept_same,
      simp_all add: insert_user_def insert_organization_def insert_membership_def insert_subscription_def insert_discord_def)+

lemma createSession_kept: "keeps_rel auth_kept (createSession c e uid mfa org)"
  unfolding createSession_def
proof (rule user_db_keeps_rel, rule keeps_relI)
  fix d
  let ?row = "session_row_of c e uid (coalesce org (first_organization uid d)) mfa"
  show "auth_kept d (snd (let row = ?row in case insert_session row d of
        (Inl x, d1) \<Rightarrow> (Inl x, d1) | (Inr _, d1) \<Rightarrow> (Inr (newOpaqueToken (ae_random32 e), record_of row), d1)))"
    using keeps_relD [OF insert_session_kept, of d ?row]
    by (cases "insert_session ?row d"; cases "fst (insert_session ?row d)") (auto simp: Let_def)
qed

lemma revoke_sessions_kept: "auth_kept d (revoke_sessions P now d)"
  by (simp add: auth_kept_def revoke_sessions_def table_grows_update)

lemma sessions_update_kept:
  "(\<And>s. se_token_hash (f s) = se_token_hash s) \<Longrightarrow> (\<And>s. se_revoked_at (f s) = se_revoked_at s) \<Longrightarrow>
   auth_kept d (d\<lparr>sessions := sql_update P f (sessions d)\<rparr>)"
  by (simp add: auth_kept_def table_grows_update)

lemma consume_resets_kept: "auth_kept d (consume_resets P now d)"
  by (simp add: auth_kept_def consume_resets_def table_grows_update)

lemma auth_audit_kept: "keeps_rel auth_kept (auth_audit b now uid action)"
  unfolding auth_audit_def by (rule auth.command_keeps) (rule auth_kept_same, simp_all)

lemma revokeSession_kept: "keeps_rel auth_kept (revokeSession e i)"
  unfolding revokeSession_def by (rule auth.command_keeps) (rule revoke_sessions_kept)

lemma revokeAllSessions_kept: "keeps_rel auth_kept (revokeAllSessions e uid ex)"
  unfolding revokeAllSessions_def
  by (rule auth.statement_keeps) (simp add: keeps_rel_def Let_def revoke_sessions_kept)

lemma markMfaSatisfied_kept: "keeps_rel auth_kept (markMfaSatisfied e i)"
  unfolding markMfaSatisfied_def by (rule auth.command_keeps) (rule sessions_update_kept, simp_all)

lemma rotateSession_kept: "keeps_rel auth_kept (rotateSession c e ctx)"
  unfolding rotateSession_def by (intro auth.and_then_keeps revokeSession_kept createSession_kept)

lemma switchOrganization_kept: "keeps_rel auth_kept (switchOrganization e i uid org)"
  unfolding switchOrganization_def
  by (rule user_db_keeps_rel, rule keeps_relI) (auto intro!: sessions_update_kept simp: auth.R_refl)

lemma resolveSession_kept: "keeps_rel auth_kept (resolveSession c e token)"
  by (rule keeps_relI)
    (auto simp: resolveSession_def see_session_def auth.R_refl intro!: sessions_update_kept split: option.split)

lemma login_open_kept: "keeps_rel auth_kept (login_open c e uid mfa)"
  unfolding login_open_def
  by (intro auth.and_then_keeps auth.command_keeps)
    (auto simp: note_success_def auth_kept_same
      intro!: auth.and_then_keeps createSession_kept auth_audit_kept auth.give_keeps split: prod.split)

lemma note_failure_kept: "keeps_rel auth_kept (note_failure now u)"
  by (rule keeps_relI) (simp add: note_failure_def Let_def auth.R_refl auth_kept_same)

lemma login_unknown_kept: "auth_kept d (snd (login_unknown js c pw d))"
  by (simp add: login_unknown_def auth.R_refl split: sum.split)

lemma login_kept: "keeps_rel auth_kept (login js c e email pw)"
proof (rule keeps_relI)
  fix d
  have f: "auth_kept d (snd (and_then (statement b (note_failure now u)) (\<lambda>_. give Login_invalid) d))" for b now u
    by (rule keeps_relD) (intro auth.and_then_keeps auth.statement_keeps note_failure_kept auth.give_keeps)
  show "auth_kept d (snd (login js c e email pw d))"
    unfolding login_def
    by (auto simp: login_unknown_kept auth.R_refl f keeps_relD [OF login_open_kept] split: option.split sum.split bool.split)
qed

lemma set_local_kept: "keeps_rel auth_kept (set_local f)"
  by (simp add: set_local_def auth.throw_keeps auth.give_keeps)

lemma audit_end_kept: "keeps_rel auth_kept (\<lambda>d. (Inr x, append_audit a d))"
  by (simp add: keeps_rel_def auth_kept_same)

lemma register_kept: "keeps_rel auth_kept (register other c e i)"
proof (rule keeps_relI)
  fix d
  have "keeps_rel auth_kept (register_tx other e i hash)" for hash
  proof (rule keeps_relI)
    fix d
    show "auth_kept d (snd (register_tx other e i hash d))"
    proof (cases "exists_row (\<lambda>u. citext_eq (u_email u) (rg_email i)) (users d)")
      case False
      then show ?thesis unfolding register_tx_def Let_def if_False not_True_eq_False
        by (simp only: if_False) (rule keeps_relD,
          intro auth.and_then_keeps other_inserts_kept set_local_kept audit_end_kept)
    qed (simp add: register_tx_def auth.R_refl)
  qed
  from keeps_relD [OF auth.by_hand_keeps [OF this]] show "auth_kept d (snd (register other c e i d))"
    by (simp add: register_def auth.R_refl split: sum.split)
qed

lemma createPasswordReset_kept: "keeps_rel auth_kept (createPasswordReset c e email)"
proof (rule keeps_relI)
  fix d
  have "auth_kept d (snd (and_then (command b1 (consume_resets P now)) (\<lambda>_.
      and_then (statement b2 (insert_reset r)) (\<lambda>_. give x)) d))" for b1 b2 P now r and x :: "string option"
    by (rule keeps_relD)
      (intro auth.and_then_keeps auth.command_keeps auth.statement_keeps insert_reset_kept auth.give_keeps consume_resets_kept)
  then show "auth_kept d (snd (createPasswordReset c e email d))"
    by (simp add: createPasswordReset_def auth.R_refl split: option.split)
qed

lemma set_password_kept: "auth_kept d (set_password uid hash d)"
  by (simp add: set_password_def auth_kept_same)

lemma reset_tx_kept: "keeps_rel auth_kept (reset_tx c e token hash)"
proof (rule keeps_relI)
  fix d
  have "auth_kept d (append_audit a (revoke_sessions P now (set_password uid hash (consume_resets Q now d))))" for a P Q now uid
  proof -
    have 1: "auth_kept d (set_password uid hash (consume_resets Q now d))"
      by (rule auth.R_trans [OF consume_resets_kept set_password_kept])
    have 2: "auth_kept d (revoke_sessions P now (set_password uid hash (consume_resets Q now d)))"
      by (rule auth.R_trans [OF 1 revoke_sessions_kept])
    show ?thesis by (rule auth.R_trans [OF 2]) (rule auth_kept_same, simp_all)
  qed
  then show "auth_kept d (snd (reset_tx c e token hash d))"
    by (simp add: reset_tx_def Let_def auth.R_refl split: option.split)
qed

lemma completePasswordReset_kept: "keeps_rel auth_kept (completePasswordReset c e token pw)"
proof (rule keeps_relI)
  fix d
  have "auth_kept d (snd (and_then (by_hand f (reset_tx c e token h)) (\<lambda>r. give (r \<noteq> None)) d))" for f h
    by (rule keeps_relD) (intro auth.and_then_keeps auth.by_hand_keeps reset_tx_kept auth.give_keeps)
  then show "auth_kept d (snd (completePasswordReset c e token pw d))"
    by (simp add: completePasswordReset_def auth.R_refl split: sum.split)
qed

lemma discord_finalize_kept: "keeps_rel auth_kept (discord_finalize c e i uid mfa action)"
proof -
  have "keeps_rel auth_kept (and_then (command (ae_fail e 4) (see_identity i (ae_db e 4))) (\<lambda>_.
     and_then (command (ae_fail e 5) (see_user uid (ae_db e 5))) (\<lambda>_.
     and_then (auth_audit b now uid a) (\<lambda>_. give x))))" for b now a and x :: discord_outcome
    by (intro auth.and_then_keeps auth.command_keeps auth_audit_kept auth.give_keeps)
      (simp_all add: see_identity_def see_user_def auth_kept_same)
  then show ?thesis
    unfolding discord_finalize_def by (intro auth.and_then_keeps createSession_kept) (simp split: prod.split)
qed

lemma discord_tx_kept: "keeps_rel auth_kept (discord_tx other e i email hash)"
proof (rule keeps_relI)
  fix d
  show "auth_kept d (snd (discord_tx other e i email hash d))"
    unfolding discord_tx_def Let_def
    by (rule keeps_relD) (intro auth.and_then_keeps other_inserts_kept set_local_kept audit_end_kept)
qed

lemma discord_provision_kept: "keeps_rel auth_kept (discord_provision other c e unusable i)"
proof (rule keeps_relI)
  fix d
  have h: "keeps_rel auth_kept (\<lambda>d. case hashPassword c salt tok of Inl x \<Rightarrow> (Inl x, d) | Inr hash \<Rightarrow> discord_tx other e i email hash d)"
    for salt tok email by (rule keeps_relI) (simp add: auth.R_refl keeps_relD [OF discord_tx_kept] split: sum.split)
  have k: "keeps_rel auth_kept (case r of None \<Rightarrow> throw (Thrown ''unreachable'')
      | Some uid \<Rightarrow> discord_finalize c e i uid False ''auth.register_discord'')" for r
    by (simp add: auth.throw_keeps discord_finalize_kept split: option.split)
  note auth.and_then_keeps [OF auth.by_hand_keeps [OF h] k, THEN keeps_relD]
  then show "auth_kept d (snd (discord_provision other c e unusable i d))"
    by (auto simp: discord_provision_def auth.R_refl split: option.split list.split)
qed

lemma discord_link_kept: "keeps_rel auth_kept (discord_link other c e unusable i)"
proof (rule keeps_relI)
  fix d
  have "auth_kept d (snd (case statement b (insert_discord x) d of
      (Inl y, d1) \<Rightarrow> (Inr (Discord_error Already_linked), d1)
    | (Inr _, d1) \<Rightarrow> discord_finalize c e i uid mfa action d1))" for b x uid mfa action
  proof -
    obtain r d1 where s: "statement b (insert_discord x) d = (r, d1)" by fastforce
    then have 1: "auth_kept d d1" using keeps_relD [OF auth.statement_keeps [OF other_inserts_kept(5)], of d b x] by simp
    have "auth_kept d (snd (discord_finalize c e i uid mfa action d1))"
      by (rule auth.R_trans [OF 1 keeps_relD [OF discord_finalize_kept]])
    with 1 show ?thesis by (simp add: s split: sum.split)
  qed
  then show "auth_kept d (snd (discord_link other c e unusable i d))"
    by (simp add: discord_link_def auth.R_refl keeps_relD [OF discord_provision_kept] split: option.split)
qed

lemma loginWithDiscord_kept: "keeps_rel auth_kept (loginWithDiscord other c e unusable i)"
  by (rule keeps_relI)
    (simp add: loginWithDiscord_def auth.R_refl keeps_relD [OF discord_link_kept] keeps_relD [OF discord_finalize_kept]
      split: option.split)

text \<open>Any call of the service, with any argument, at any time, failing or not.\<close>

inductive auth_step :: "db \<Rightarrow> db \<Rightarrow> bool" where
  Register: "auth_step d (snd (register other c e ri d))"
| Login: "auth_step d (snd (login js c e email pw d))"
| Create: "auth_step d (snd (createSession c e uid mfa org d))"
| Resolve: "auth_step d (snd (resolveSession c e token d))"
| Mfa: "auth_step d (snd (markMfaSatisfied e i d))"
| Rotate: "auth_step d (snd (rotateSession c e ctx d))"
| Revoke: "auth_step d (snd (revokeSession e i d))"
| Revoke_all: "auth_step d (snd (revokeAllSessions e uid ex d))"
| Switch: "auth_step d (snd (switchOrganization e i uid o' d))"
| Ask_reset: "auth_step d (snd (createPasswordReset c e email d))"
| Reset: "auth_step d (snd (completePasswordReset c e token pw d))"
| Discord: "auth_step d (snd (loginWithDiscord other c e unusable di d))"

lemma auth_step_kept: "auth_step d d' \<Longrightarrow> auth_kept d d'"
  by (induction rule: auth_step.induct)
    (rule keeps_relD, rule register_kept login_kept createSession_kept resolveSession_kept markMfaSatisfied_kept
      rotateSession_kept revokeSession_kept revokeAllSessions_kept switchOrganization_kept createPasswordReset_kept
      completePasswordReset_kept loginWithDiscord_kept)+

lemma auth_steps_kept: "auth_step\<^sup>*\<^sup>* d d' \<Longrightarrow> auth_kept d d'"
  by (induction rule: rtranclp_induct) (auto intro: auth.R_refl auth.R_trans auth_step_kept)

definition tokens_keyed :: "db \<Rightarrow> bool" where
  "tokens_keyed d = (distinct (map se_token_hash (sessions d)) \<and> distinct (map pr_token_hash (password_resets d)))"

lemma tokens_keyed_kept: "auth_kept d d' \<Longrightarrow> tokens_keyed d \<Longrightarrow> tokens_keyed d'"
  unfolding auth_kept_def tokens_keyed_def using table_grows_distinct by metis

definition dead_token :: "bytes \<Rightarrow> db \<Rightarrow> bool" where
  "dead_token h d = shut se_token_hash (\<lambda>s. se_revoked_at s \<noteq> None) h (sessions d)"

lemma dead_token_kept: "auth_kept d d' \<Longrightarrow> dead_token h d \<Longrightarrow> dead_token h d'"
  unfolding auth_kept_def dead_token_def by (elim conjE) (rule shut_grows)

lemma dead_token_unresolved: "dead_token (hashToken c token) d \<Longrightarrow> fst (resolveSession c e token d) \<noteq> Inr (Some ctx)"
  unfolding dead_token_def shut_def
  by (auto simp: resolveSession_def usable_session_def split: option.splits dest!: first_row_SomeD)

lemma resolveSession_Some:
  assumes "resolveSession c e token d = (Inr (Some ctx), d')"
  obtains s u where "s \<in> set (sessions d)" "usable_session (ae_db e 0) (hashToken c token) d s" "u \<in> set (users d)"
    "u_id u = se_user_id s" "u_deleted_at u = None" "ctx = context_of s u"
    "d' = d \<or> d' = see_session (se_id s) (ae_db e 1) d"
  using assms by (auto simp: resolveSession_def split: if_splits option.splits dest!: first_row_SomeD)

text \<open>C17: Logging out is final. Once the session a cookie resolves to is revoked, the cookie resolves to
  nothing, whatever calls follow: no later login, rotation, change of organization or creation of a
  session brings it back, since its hash stays in the table.\<close>

theorem revoked_cookie_stays_dead:
  assumes "tokens_keyed d" and "resolveSession c e0 token d = (Inr (Some ctx), d0)"
    and "revokeSession e1 (sr_id (sc_session ctx)) d0 = (Inr (), d1)" and "auth_step\<^sup>*\<^sup>* d1 d2"
  shows "fst (resolveSession c e token d2) \<noteq> Inr (Some ctx')"
proof -
  obtain s u where s: "s \<in> set (sessions d)" "se_token_hash s = hashToken c token" "ctx = context_of s u"
    and d0: "d0 = d \<or> d0 = see_session (se_id s) (ae_db e0 1) d"
    using assms(2) by (rule resolveSession_Some) (simp add: usable_session_def)
  have k: "tokens_keyed d0" using assms(1) d0 by (auto simp: see_session_def tokens_keyed_def map_key_sql_update)
  have i: "sr_id (sc_session ctx) = se_id s" by (simp add: s(3) context_of_def record_of_def)
  obtain s0 where s0: "s0 \<in> set (sessions d0)" "se_token_hash s0 = hashToken c token" "se_id s0 = se_id s"
  proof (cases "d0 = d")
    case False
    then have "s\<lparr>se_last_seen_at := ae_db e0 1\<rparr> \<in> set (sessions d0)" using d0 s(1) by (force simp: see_session_def in_sql_update)
    with s(2) show ?thesis by (intro that [of "s\<lparr>se_last_seen_at := ae_db e0 1\<rparr>"]) simp_all
  qed (use s that in blast)
  have d1: "d1 = revoke_sessions (\<lambda>s. se_id s = sr_id (sc_session ctx)) (ae_db e1 0) d0"
    using assms(3) by (simp add: revokeSession_def command_Inr)
  have "dead_token (hashToken c token) d1"
  proof (cases "se_revoked_at s0 = None")
    case True
    have "shut se_token_hash (\<lambda>s. se_revoked_at s \<noteq> None) (se_token_hash s0)
        (sql_update (\<lambda>q. se_id q = se_id s \<and> se_revoked_at q = None) (\<lambda>q. q\<lparr>se_revoked_at := Some (ae_db e1 0)\<rparr>) (sessions d0))"
      using k s0 True by (intro shut_update) (simp_all add: tokens_keyed_def)
    then show ?thesis by (simp add: dead_token_def d1 revoke_sessions_def i s0(2))
  next
    case False
    have "shut se_token_hash (\<lambda>s. se_revoked_at s \<noteq> None) (se_token_hash s0) (sessions d0)"
      using k s0(1) False unfolding shut_def tokens_keyed_def distinct_map by (auto dest: inj_onD)
    then have "dead_token (hashToken c token) d0" by (simp add: dead_token_def s0(2))
    then show ?thesis unfolding d1 by (rule dead_token_kept [OF revoke_sessions_kept])
  qed
  then have "dead_token (hashToken c token) d2" using auth_steps_kept [OF assms(4)] dead_token_kept by blast
  then show ?thesis by (rule dead_token_unresolved)
qed

end
