(* ===== verification/Login_Facts.thy ===== *)
theory Login_Facts
  imports Session_Facts
begin

text \<open>
  Logging in: what a token that was given resolves to, when a login succeeds, and how failures lock
  an account.
\<close>

section \<open>A token resolves to its session\<close>

lemma createSession_Inr:
  assumes "createSession c e uid mfa org d = (Inr (token, r), d')"
  defines "row \<equiv> session_row_of c e uid (coalesce org (first_organization uid d)) mfa"
  shows "token = newOpaqueToken (ae_random32 e)" "r = record_of row" "d' = d\<lparr>sessions := sessions d @ [row]\<rparr>"
    "\<forall>s \<in> set (sessions d). se_token_hash s \<noteq> hashToken c token \<and> se_id s \<noteq> se_id row" "user_exists uid d"
proof -
  from user_db_Inr [OF assms(1) [unfolded createSession_def]]
  have i: "insert_session row d = (Inr (), d')" and t: "token = newOpaqueToken (ae_random32 e)" and r: "r = record_of row"
    by (auto simp: Let_def row_def split: prod.splits sum.splits)
  have h: "se_token_hash row = hashToken c token" "se_user_id row = uid" by (simp_all add: row_def session_row_of_def t)
  from i show "d' = d\<lparr>sessions := sessions d @ [row]\<rparr>" by (auto simp: insert_session_def split: if_splits)
  from i h show "\<forall>s \<in> set (sessions d). se_token_hash s \<noteq> hashToken c token \<and> se_id s \<noteq> se_id row" "user_exists uid d"
    by (auto simp: insert_session_def exists_row_iff split: if_splits)
  show "token = newOpaqueToken (ae_random32 e)" "r = record_of row" by (rule t, rule r)
qed

lemma first_row_append: "first_row P (xs @ ys) = (case first_row P xs of None \<Rightarrow> first_row P ys | Some r \<Rightarrow> Some r)"
  by (induction xs) auto

lemma first_row_none: "\<forall>r \<in> set rows. \<not> P r \<Longrightarrow> first_row P rows = None"
  by (simp add: first_row_None_iff)

lemma resolve_fresh:
  assumes "\<forall>s \<in> set (sessions d). se_token_hash s \<noteq> hashToken c token" and "sessions d' = sessions d @ [row]"
    and "se_token_hash row = hashToken c token" and "se_revoked_at row = None" and "ae_db e' 0 < se_expires_at row"
    and "\<not> ae_fail e' 0" and "first_row (\<lambda>u. u_id u = se_user_id row \<and> u_deleted_at u = None) (users d') = Some u"
  shows "fst (resolveSession c e' token d') = Inr (Some (context_of row u))"
proof -
  have "first_row (usable_session (ae_db e' 0) (hashToken c token) d') (sessions d) = None"
    using assms(1) by (intro first_row_none) (simp add: usable_session_def)
  moreover have "usable_session (ae_db e' 0) (hashToken c token) d' row"
    using assms(3-5,7) first_row_SomeD [OF assms(7)] by (auto simp: usable_session_def exists_row_iff)
  ultimately have "first_row (usable_session (ae_db e' 0) (hashToken c token) d') (sessions d') = Some row"
    by (simp add: assms(2) first_row_append)
  then show ?thesis using assms(6,7) by (simp add: resolveSession_def)
qed

text \<open>The round trip of a session. The token handed out resolves, until it expires, to the very
  session that was created: its user, the organization asked for or else the first one the user is an
  accepted member of, and the state of the second factor.\<close>

theorem session_token_roundtrip:
  assumes ok: "createSession c e uid mfa org d = (Inr (token, r), d')"
    and user: "\<exists>u \<in> set (users d). u_id u = uid \<and> u_deleted_at u = None"
    and time: "ae_db e' 0 < sr_expiresAt r" and up: "\<not> ae_fail e' 0"
  shows "(\<exists>ctx. fst (resolveSession c e' token d') = Inr (Some ctx) \<and> sc_session ctx = r \<and> aw_userId (sc_user ctx) = uid) \<and>
    sr_userId r = uid \<and> sr_mfaSatisfied r = mfa \<and> sr_organizationId r = coalesce org (first_organization uid d) \<and>
    sr_expiresAt r = ae_js e 9 + 12 * 3600 * 1000"
proof -
  note cr = createSession_Inr [OF ok]
  define row where "row = session_row_of c e uid (coalesce org (first_organization uid d)) mfa"
  note cr = cr [folded row_def]
  have f: "se_user_id row = uid" "se_token_hash row = hashToken c token" "se_revoked_at row = None"
    "se_organization_id row = coalesce org (first_organization uid d)" "se_mfa_satisfied row = mfa"
    "se_expires_at row = ae_js e 9 + 12 * 3600 * 1000"
    by (simp_all add: row_def session_row_of_def cr(1) session_ttl_seconds_def)
  obtain u where u: "first_row (\<lambda>u. u_id u = uid \<and> u_deleted_at u = None) (users d') = Some u"
    using user first_row_exists [of "\<lambda>u. u_id u = uid \<and> u_deleted_at u = None" "users d'"] by (auto simp: cr(3) exists_row_iff)
  have "fst (resolveSession c e' token d') = Inr (Some (context_of row u))"
    using cr(3,4) f u time up by (intro resolve_fresh [of d]) (simp_all add: cr(2) record_of_def)
  then show ?thesis using f by (simp add: context_of_def cr(2) record_of_def)
qed

section \<open>When a login succeeds\<close>

definition granted :: "login_outcome \<Rightarrow> (string \<times> session_record) option" where
  "granted out = (case out of Login_ok t r \<Rightarrow> Some (t, r) | Login_mfa_required t r \<Rightarrow> Some (t, r) | _ \<Rightarrow> None)"

definition account :: "string \<Rightarrow> db \<Rightarrow> user_row option" where
  "account email d = first_row (\<lambda>u. citext_eq (u_email u) email) (users d)"

definition locked_at :: "time_ms \<Rightarrow> user_row \<Rightarrow> bool" where
  "locked_at now u = (case u_locked_until u of None \<Rightarrow> False | Some t \<Rightarrow> now < t)"

lemma login_granted:
  assumes "login js c e email pw d = (Inr out, d')" and "granted out = Some (token, r)"
  obtains u where "account email d = Some u" "u_deleted_at u = None" "\<not> locked_at (ae_js e 0) u"
    "verifyPassword js c pw (u_password_hash u) = Inr True"
    "login_open c e (u_id u) (mfa_required u d) d = (Inr out, d')"
proof -
  have unknown: "login_unknown js c pw d \<noteq> (Inr out, d')"
    using assms(2) by (auto simp: login_unknown_def granted_def split: sum.split)
  have failed: "and_then (statement b (note_failure now u)) (\<lambda>_. give Login_invalid) d \<noteq> (Inr out, d')" for b now u
    using assms(2) by (auto simp: granted_def give_def elim!: and_then_Inr)
  obtain u where u: "account email d = Some u" "u_deleted_at u = None"
    using assms(1) unknown by (auto simp: login_def account_def split: if_splits option.splits)
  have nl: "\<not> locked_at (ae_js e 0) u"
    using assms u by (auto simp: login_def account_def locked_at_def granted_def split: if_splits option.splits)
  show ?thesis
  proof (cases "verifyPassword js c pw (u_password_hash u)")
    case (Inr b)
    with assms(1) u nl failed show ?thesis
      by (cases b) (auto simp: login_def account_def locked_at_def split: if_splits option.splits intro: that)
  qed (use assms(1) u nl in \<open>auto simp: login_def account_def locked_at_def split: if_splits option.splits\<close>)
qed

lemma login_open_Inr:
  assumes "login_open c e uid mfa d = (Inr out, d')"
  obtains token r d2 where "createSession c e uid (\<not> mfa) None (note_success (ae_db e 1) uid d) = (Inr (token, r), d2)"
    "out = (if mfa then Login_mfa_required token r else Login_ok token r)" "sessions d' = sessions d2" "users d' = users d2"
proof -
  from assms obtain x d1 where 1: "command (ae_fail e 1) (note_success (ae_db e 1) uid) d = (Inr x, d1)"
    and 2: "and_then (createSession c e uid (\<not> mfa) None) (\<lambda>(token, session).
      and_then (auth_audit (ae_fail e 2) (ae_db e 2) uid (if mfa then ''auth.login_mfa_pending'' else ''auth.login'')) (\<lambda>_.
      give (if mfa then Login_mfa_required token session else Login_ok token session))) d1 = (Inr out, d')"
    unfolding login_open_def by (rule and_then_Inr)
  from 2 obtain tr d2 where 3: "createSession c e uid (\<not> mfa) None d1 = (Inr tr, d2)"
    and 4: "(case tr of (token, session) \<Rightarrow>
      and_then (auth_audit (ae_fail e 2) (ae_db e 2) uid (if mfa then ''auth.login_mfa_pending'' else ''auth.login'')) (\<lambda>_.
      give (if mfa then Login_mfa_required token session else Login_ok token session))) d2 = (Inr out, d')"
    by (rule and_then_Inr)
  obtain token r where tr: "tr = (token, r)" by fastforce
  have "d1 = note_success (ae_db e 1) uid d" using 1 by (simp add: command_Inr)
  moreover have "out = (if mfa then Login_mfa_required token r else Login_ok token r)" "sessions d' = sessions d2" "users d' = users d2"
    using 4 by (auto simp: tr auth_audit_def command_Inr give_def elim!: and_then_Inr)
  ultimately show ?thesis using 3 by (intro that) (simp_all add: tr)
qed

text \<open>What a login that gives a token went through. The account has that address, is not deleted and
  not locked, and the password verifies against its record; the session belongs to it, and its second
  factor counts as satisfied exactly when the account has none confirmed and none enforced. The token
  resolves to that session until it expires.\<close>

theorem login_grants_only_verified:
  assumes l: "login js c e email pw d = (Inr out, d')" and g: "granted out = Some (token, r)"
    and time: "ae_db e' 0 < sr_expiresAt r" and up: "\<not> ae_fail e' 0"
  shows "\<exists>u. u \<in> set (users d) \<and> citext_eq (u_email u) email \<and> u_deleted_at u = None \<and> \<not> locked_at (ae_js e 0) u \<and>
    verifyPassword js c pw (u_password_hash u) = Inr True \<and> sr_userId r = u_id u \<and>
    (sr_mfaSatisfied r \<longleftrightarrow> \<not> has_mfa (u_id u) d \<and> \<not> u_mfa_enforced u) \<and>
    (out = Login_ok token r \<longleftrightarrow> sr_mfaSatisfied r) \<and>
    (\<exists>ctx. fst (resolveSession c e' token d') = Inr (Some ctx) \<and> sc_session ctx = r)"
proof -
  obtain u where u: "account email d = Some u" "u_deleted_at u = None" "\<not> locked_at (ae_js e 0) u"
    "verifyPassword js c pw (u_password_hash u) = Inr True" and o: "login_open c e (u_id u) (mfa_required u d) d = (Inr out, d')"
    using l g by (rule login_granted)
  have in_d: "u \<in> set (users d)" "citext_eq (u_email u) email"
    using first_row_SomeD [OF u(1) [unfolded account_def]] by auto
  let ?d1 = "note_success (ae_db e 1) (u_id u) d"
  obtain t0 r0 d2 where cs: "createSession c e (u_id u) (\<not> mfa_required u d) None ?d1 = (Inr (t0, r0), d2)"
    and out: "out = (if mfa_required u d then Login_mfa_required t0 r0 else Login_ok t0 r0)"
    and d': "sessions d' = sessions d2" "users d' = users d2" using o by (rule login_open_Inr)
  have tr: "t0 = token" "r0 = r" using g by (auto simp: out granted_def split: if_splits)
  have "\<exists>v \<in> set (users ?d1). u_id v = u_id u \<and> u_deleted_at v = None"
    using in_d(1) u(2) by (intro bexI [of _ "u\<lparr>u_failed_logins := 0, u_locked_until := None, u_last_login_at := Some (ae_db e 1)\<rparr>"])
      (auto simp: note_success_def in_sql_update intro!: bexI [of _ u])
  from session_token_roundtrip [OF cs [unfolded tr] this time up]
  obtain ctx where ctx: "fst (resolveSession c e' token d2) = Inr (Some ctx)" "sc_session ctx = r"
    and r: "sr_userId r = u_id u" "sr_mfaSatisfied r = (\<not> mfa_required u d)" by blast
  have "fst (resolveSession c e' token d') = fst (resolveSession c e' token d2)"
    by (simp add: resolveSession_def usable_session_def [abs_def] d' split: option.split)
  with ctx r u in_d show ?thesis by (intro exI [of _ u]) (auto simp: out tr mfa_required_def)
qed

section \<open>Lockout\<close>

lemma first_row_update:
  "(\<And>r. P (f r) = P r) \<Longrightarrow> first_row P (sql_update Q f rows) = map_option (\<lambda>r. if Q r then f r else r) (first_row P rows)"
  by (induction rows) auto

definition failed_row :: "time_ms \<Rightarrow> user_row \<Rightarrow> user_row" where
  "failed_row now u =
     u\<lparr>u_failed_logins := u_failed_logins u + 1,
       u_locked_until := (if max_failed_logins \<le> u_failed_logins u + 1 then Some (now + lockout_seconds * 1000)
                          else u_locked_until u)\<rparr>"

text \<open>A try with a wrong password on an account that is not locked.\<close>

lemma login_wrong:
  assumes "account email d = Some u" and "u_deleted_at u = None" and "\<not> locked_at (ae_js e 0) u"
    and "verifyPassword js c pw (u_password_hash u) = Inr False" and "int4_ok (u_failed_logins u + 1)"
    and "\<not> ae_fail e 0" and "\<not> ae_fail e 1"
  shows "fst (login js c e email pw d) = Inr Login_invalid \<and>
    account email (snd (login js c e email pw d)) = Some (failed_row (ae_db e 1) u)"
proof -
  let ?f = "\<lambda>r. r\<lparr>u_failed_logins := u_failed_logins u + 1,
      u_locked_until := (if max_failed_logins \<le> u_failed_logins u + 1 then Some (ae_db e 1 + lockout_seconds * 1000)
        else u_locked_until r)\<rparr>"
  have n: "note_failure (ae_db e 1) u d = (Inr (), d\<lparr>users := sql_update (\<lambda>r. u_id r = u_id u) ?f (users d)\<rparr>)"
    using assms(5) by (simp add: note_failure_def Let_def del: One_nat_def)
  have "login js c e email pw d = (Inr Login_invalid, d\<lparr>users := sql_update (\<lambda>r. u_id r = u_id u) ?f (users d)\<rparr>)"
    using assms(1-4,6,7) n
    by (simp add: login_def account_def locked_at_def and_then_def statement_def give_def del: One_nat_def split: option.splits)
  moreover have "account email (d\<lparr>users := sql_update (\<lambda>r. u_id r = u_id u) ?f (users d)\<rparr>) = Some (?f u)"
    using assms(1) by (simp add: account_def first_row_update)
  ultimately show ?thesis by (simp add: failed_row_def)
qed

lemma login_locked:
  assumes "account email d = Some u" and "u_deleted_at u = None" and "locked_at (ae_js e 0) u" and "\<not> ae_fail e 0"
  shows "\<exists>n. login js c e email pw d = (Inr (Login_locked n), d)"
  using assms by (simp add: login_def account_def locked_at_def split: option.splits)

fun login_tries :: "js_lib \<Rightarrow> crypto \<Rightarrow> string \<Rightarrow> (auth_env \<times> string) list \<Rightarrow> db \<Rightarrow> db" where
  "login_tries js c email [] d = d"
| "login_tries js c email ((e, pw) # ts) d = login_tries js c email ts (snd (login js c e email pw d))"

lemma login_tries_snoc:
  "login_tries js c email (ts @ [(e, pw)]) d = snd (login js c e email pw (login_tries js c email ts d))"
  by (induction ts arbitrary: d) auto

text \<open>The lock of an account is set by failures alone, and wrong tries only add to them.\<close>

definition lock_earned :: "user_row \<Rightarrow> bool" where
  "lock_earned u = (u_locked_until u \<noteq> None \<longrightarrow> max_failed_logins \<le> u_failed_logins u)"

definition wrong_try :: "js_lib \<Rightarrow> crypto \<Rightarrow> string \<Rightarrow> auth_env \<times> string \<Rightarrow> bool" where
  "wrong_try js c hash t =
     (verifyPassword js c (snd t) hash = Inr False \<and> \<not> ae_fail (fst t) 0 \<and> \<not> ae_fail (fst t) 1 \<and>
      ae_js (fst t) 0 < ae_db (fst t) 1 + lockout_seconds * 1000)"

lemma wrong_tries:
  assumes "account email d = Some u" and "u_deleted_at u = None" and "lock_earned u" and "0 \<le> u_failed_logins u"
    and "u_failed_logins u + int (length ts) < 2 ^ 31" and "list_all (wrong_try js c (u_password_hash u)) ts"
  shows "\<exists>v. account email (login_tries js c email ts d) = Some v \<and> u_deleted_at v = None \<and> lock_earned v \<and>
    u_password_hash v = u_password_hash u \<and> min 8 (int (length ts)) \<le> u_failed_logins v \<and>
    u_failed_logins v \<le> u_failed_logins u + int (length ts) \<and>
    (8 \<le> length ts \<longrightarrow> locked_at (ae_js (fst (last ts)) 0) v)"
  using assms(5,6)
proof (induction ts rule: rev_induct)
  case Nil
  with assms show ?case by auto
next
  case (snoc t ts)
  obtain e pw where t: "t = (e, pw)" by fastforce
  let ?d = "login_tries js c email ts d"
  obtain v where v: "account email ?d = Some v" "u_deleted_at v = None" "lock_earned v" "u_password_hash v = u_password_hash u"
    "min 8 (int (length ts)) \<le> u_failed_logins v" "u_failed_logins v \<le> u_failed_logins u + int (length ts)"
    using snoc by auto
  have w: "wrong_try js c (u_password_hash u) (e, pw)" using snoc.prems(2) by (simp add: t)
  show ?case
  proof (cases "locked_at (ae_js e 0) v")
    case True
    then have "8 \<le> u_failed_logins v" using v(3)
      by (auto simp: locked_at_def lock_earned_def max_failed_logins_def split: option.splits)
    moreover have "snd (login js c e email pw ?d) = ?d"
      using login_locked [of email ?d v e js c pw] v(1,2) True w by (auto simp: wrong_try_def)
    ultimately show ?thesis using v True by (intro exI [of _ v]) (simp add: t login_tries_snoc)
  next
    case False
    have i: "int4_ok (u_failed_logins v + 1)"
      using v(5,6) snoc.prems(1) by (simp add: int4_ok_def)
    have a: "account email (snd (login js c e email pw ?d)) = Some (failed_row (ae_db e 1) v)"
      using login_wrong [OF v(1,2) False _ i, of js c pw] w v(4) by (simp add: wrong_try_def)
    let ?v = "failed_row (ae_db e 1) v"
    have "lock_earned ?v" using v(3) by (auto simp: lock_earned_def failed_row_def)
    moreover have "locked_at (ae_js e 0) ?v" if "8 \<le> length (ts @ [t])"
    proof -
      have "max_failed_logins \<le> u_failed_logins v + 1" using that v(5) by (simp add: max_failed_logins_def)
      then show ?thesis using w by (simp add: locked_at_def failed_row_def wrong_try_def)
    qed
    ultimately show ?thesis using a v by (intro exI [of _ ?v]) (simp add: t login_tries_snoc failed_row_def)
  qed
qed


end
