(* ===== verification/Account_Facts.thy ===== *)
theory Account_Facts
  imports Login_Facts
begin

text \<open>
  Accounts: what a registration leaves, the address an organization gets, a reset of the password,
  and who a login by Discord lets in.
\<close>

section \<open>The address of an organization\<close>

lemma dash_runs_class: "set (dash_runs b s) \<subseteq> set slug_chars"
  by (induction b s rule: dash_runs.induct) (auto simp: slug_chars_def)

lemma trim_dashes_sub: "set (trim_dashes s) \<subseteq> set s"
  unfolding trim_dashes_def by (auto dest!: set_dropWhileD)

lemma trim_dashes_hd:
  assumes "trim_dashes s \<noteq> []"
  shows "hd (trim_dashes s) \<noteq> CHR ''-''"
proof -
  let ?t = "dropWhile (\<lambda>c. c = CHR ''-'') s"
  obtain v where v: "?t = trim_dashes s @ v"
    using takeWhile_dropWhile_id [of "\<lambda>c. c = CHR ''-''" "rev ?t"]
    by (metis trim_dashes_def rev_append rev_rev_ident)
  then have "?t \<noteq> []" and "hd ?t = hd (trim_dashes s)" using assms by auto
  then show ?thesis using hd_dropWhile [of "\<lambda>c. c = CHR ''-''" s] by simp
qed

lemma alnum_facts:
  "length lower_alnum = 36" "CHR ''o'' \<in> set lower_alnum" "CHR ''r'' \<in> set lower_alnum" "CHR ''g'' \<in> set lower_alnum"
  "set digit_chars \<subseteq> set lower_alnum"
  by (simp_all add: lower_alnum_def digit_chars_def)

lemma slug_base_shape:
  "slug_base other name \<noteq> [] \<and> length (slug_base other name) \<le> 40 \<and> hd (slug_base other name) \<in> set lower_alnum \<and>
   set (slug_base other name) \<subseteq> set slug_chars"
proof -
  define t where "t = trim_dashes (dash_runs False (slug_fold other name))"
  have c: "set t \<subseteq> set slug_chars" unfolding t_def using trim_dashes_sub dash_runs_class by blast
  show ?thesis
  proof (cases "take 40 t = []")
    case True
    then show ?thesis using alnum_facts by (simp add: slug_base_def t_def [symmetric] Let_def slug_chars_def)
  next
    case False
    then have "t \<noteq> []" by auto
    then have "hd t \<noteq> CHR ''-''" unfolding t_def by (rule trim_dashes_hd)
    moreover have "hd t \<in> set slug_chars" using c \<open>t \<noteq> []\<close> hd_in_set by blast
    ultimately have "hd t \<in> set lower_alnum" by (simp add: slug_chars_def)
    moreover have "hd (take 40 t) = hd t" using \<open>t \<noteq> []\<close> by (cases t) simp_all
    moreover have "set (take 40 t) \<subseteq> set slug_chars" by (rule subset_trans [OF set_take_subset c])
    ultimately show ?thesis using False by (simp add: slug_base_def t_def [symmetric] Let_def)
  qed
qed

lemma base36_class: "set (base36 n) \<subseteq> set lower_alnum"
proof (induction n rule: base36.induct)
  case (1 n)
  have "lower_alnum ! (n mod 36) \<in> set lower_alnum" using alnum_facts(1) by (intro nth_mem) simp
  moreover have "lower_alnum ! n \<in> set lower_alnum" if "n < 36" using alnum_facts(1) that by (intro nth_mem) simp
  ultimately show ?case using 1 by (subst base36.simps) auto
qed

lemma base36_length: "n < 36 ^ Suc k \<Longrightarrow> length (base36 n) \<le> Suc k"
proof (induction k arbitrary: n)
  case 0
  then show ?case by (subst base36.simps) simp
next
  case (Suc k)
  have "n div 36 < 36 ^ Suc k" using Suc.prems by (simp add: less_mult_imp_div_less mult.commute)
  from Suc.IH [OF this] show ?case by (subst base36.simps) simp
qed

lemma to_lower_id: "set s \<subseteq> set slug_chars \<Longrightarrow> to_lower s = s"
proof -
  have "\<forall>c \<in> set slug_chars. map_of (zip upper_letters lower_letters) c = None" by code_simp
  then show "set s \<subseteq> set slug_chars \<Longrightarrow> to_lower s = s"
    unfolding to_lower_def by (intro map_idI) auto
qed

lemma slug_okI:
  assumes "s \<noteq> []" and "hd s \<in> set lower_alnum" and "set s \<subseteq> set slug_chars" and "2 \<le> length s" and "length s \<le> 49"
  shows "slug_ok s"
  using assms to_lower_id [OF assms(3)] by (cases s) (auto simp: slug_ok_def all_in_iff)

lemma slug_candidate_ok:
  assumes "2 \<le> length (slug_candidate (slug_base other name) n)" and "n < 20"
  shows "slug_ok (slug_candidate (slug_base other name) n)"
proof -
  let ?b = "slug_base other name"
  have d: "length (string_of_nat n) \<le> 2" using length_string_of_nat [of n 2] assms(2) by simp
  have "set (string_of_nat n) \<subseteq> set slug_chars" using string_of_nat_digits [of n] alnum_facts(5) by (auto simp: slug_chars_def)
  then show ?thesis
    using slug_base_shape [of other name] d assms(1)
    by (intro slug_okI) (auto simp: slug_candidate_def slug_chars_def split: if_splits)
qed

lemma slug_loop_Some:
  "slug_loop taken b ns = Some s \<Longrightarrow> \<exists>n \<in> set ns. s = slug_candidate b n \<and> 2 \<le> length s \<and> \<not> taken s"
  by (induction taken b ns rule: slug_loop.induct) (auto split: if_splits)

lemma slug_loop_None:
  "slug_loop taken b ns = None \<Longrightarrow> n \<in> set ns \<Longrightarrow> 2 \<le> length (slug_candidate b n) \<Longrightarrow> taken (slug_candidate b n)"
  by (induction taken b ns rule: slug_loop.induct) (auto split: if_splits)

definition slug_taken :: "db \<Rightarrow> string \<Rightarrow> bool" where
  "slug_taken d s = exists_row (\<lambda>o'. citext_eq (og_slug o') s) (organizations d)"

lemma uniqueSlug_eq:
  "uniqueSlug other now name d =
     (case slug_loop (slug_taken d) (slug_base other name) [0..<20] of
        Some s \<Rightarrow> s | None \<Rightarrow> slug_base other name @ ''-'' @ base36 (nat now))"
  unfolding uniqueSlug_def Let_def slug_taken_def ..

text \<open>The address made from a name always fits the constraint of its column, whatever the name and
  the clock (until 2059, when the time takes nine digits in base 36), and it is one no organization has,
  unless all of the numbered addresses are taken.\<close>

theorem unique_slug_valid:
  assumes "0 \<le> now" and "now < 36 ^ 8"
  shows "slug_ok (uniqueSlug other now name d) \<and>
    (slug_taken d (uniqueSlug other now name d) \<longrightarrow> (\<forall>n < 20. 1 \<le> n \<longrightarrow> slug_taken d (slug_candidate (slug_base other name) n)))"
proof -
  let ?b = "slug_base other name"
  show ?thesis
  proof (cases "slug_loop (slug_taken d) ?b [0..<20]")
    case (Some s)
    then obtain n where n: "n < 20" "s = slug_candidate ?b n" "2 \<le> length s" "\<not> slug_taken d s" using slug_loop_Some [OF Some] unfolding set_upt by auto
    have "uniqueSlug other now name d = s" unfolding uniqueSlug_eq Some by simp
    with slug_candidate_ok [of other name n] n show ?thesis by simp
  next
    case None
    have "nat now < 36 ^ Suc 7" using assms by simp
    then have l: "length (base36 (nat now)) \<le> 8" using base36_length by fastforce
    have "slug_ok (?b @ ''-'' @ base36 (nat now))"
      using slug_base_shape [of other name] base36_class [of "nat now"] l
      by (intro slug_okI) (auto simp: slug_chars_def Suc_le_eq)
    moreover have "slug_taken d (slug_candidate ?b n)" if "n < 20" "1 \<le> n" for n
    proof (rule slug_loop_None [OF None])
      show "n \<in> set [0..<20]" unfolding set_upt using that(1) by simp
      have "1 \<le> length ?b" using slug_base_shape [of other name] by (simp add: Suc_le_eq)
      then show "2 \<le> length (slug_candidate ?b n)" using that(2) by (simp add: slug_candidate_def)
    qed
    moreover have "uniqueSlug other now name d = ?b @ ''-'' @ base36 (nat now)" unfolding uniqueSlug_eq None by simp
    ultimately show ?thesis by simp
  qed
qed

section \<open>Registration\<close>

lemma inserts_Inr:
  "insert_user u d = (Inr x, d') \<Longrightarrow> d' = d\<lparr>users := users d @ [u]\<rparr>"
  "insert_organization og d = (Inr x, d') \<Longrightarrow> d' = d\<lparr>organizations := organizations d @ [og]\<rparr> \<and> slug_ok (og_slug og) \<and> \<not> slug_taken d (og_slug og)"
  "insert_membership m d = (Inr x, d') \<Longrightarrow> d' = d\<lparr>memberships := memberships d @ [m]\<rparr>"
  "insert_subscription sb d = (Inr x, d') \<Longrightarrow> d' = d\<lparr>subscriptions := subscriptions d @ [sb]\<rparr>"
  "insert_discord di d = (Inr x, d') \<Longrightarrow> d' = d\<lparr>discord_identities := discord_identities d @ [di]\<rparr>"
  "set_local f d = (Inr x, d') \<Longrightarrow> d' = d"
  by (auto simp: insert_user_def insert_organization_def insert_membership_def insert_subscription_def insert_discord_def
      set_local_def throw_def give_def slug_taken_def exists_row_iff split: if_splits)

text \<open>What a founding adds.\<close>

definition founded :: "user_row \<Rightarrow> organization_row \<Rightarrow> string \<Rightarrow> string \<Rightarrow> time_ms \<Rightarrow> db \<Rightarrow> db" where
  "founded u og mid sid now d =
     d\<lparr>users := users d @ [u], organizations := organizations d @ [og],
       memberships := memberships d @ [owner_membership mid (og_id og) (u_id u) now],
       subscriptions := subscriptions d @ [trial sid (og_id og) now]\<rparr>"

lemma register_tx_Some:
  assumes "register_tx other e i hash d = (Inr (Some (uid, org)), d')"
  shows "d' = append_audit (user_audit (Some org) uid ''organization.created'' (ae_db e 0))
      (founded (new_user uid (rg_email i) hash (rg_displayName i) None)
         (new_organization org (rg_organizationName i) (uniqueSlug other (ae_js e 0) (rg_organizationName i) d))
         (ae_ids e 2) (ae_ids e 3) (ae_db e 0) d) \<and>
    slug_ok (uniqueSlug other (ae_js e 0) (rg_organizationName i) d) \<and>
    \<not> slug_taken d (uniqueSlug other (ae_js e 0) (rg_organizationName i) d) \<and> account (rg_email i) d = None"
proof -
  have n: "\<not> exists_row (\<lambda>u. citext_eq (u_email u) (rg_email i)) (users d)" using assms by (auto simp: register_tx_def split: if_splits)
  then have a: "account (rg_email i) d = None" by (simp add: account_def first_row_None_iff exists_row_iff)
  from assms n show ?thesis
    unfolding register_tx_def Let_def
    by (auto elim!: and_then_Inr dest!: inserts_Inr simp: a founded_def new_user_def new_organization_def slug_taken_def)
qed

text \<open>A registration does all of its work or none. When it reports an account, the address of the
  mail was free, the organization exists with a valid address no other has, and its one new member is
  the new account, as an accepted owner, whose password verifies; in every other case, the mail already
  known or a failure at any point, the database is as it was.\<close>

theorem register_all_or_nothing:
  assumes "scrypt_laws c" and "ae_salt e \<noteq> []"
  shows "case register other c e i d of
      (Inr (Some (uid, org)), d') \<Rightarrow>
        account (rg_email i) d = None \<and>
        (\<exists>u og. users d' = users d @ [u] \<and> organizations d' = organizations d @ [og] \<and>
           memberships d' = memberships d @ [owner_membership (ae_ids e 2) org uid (ae_db e 0)] \<and>
           u_id u = uid \<and> u_email u = rg_email i \<and> verifyPassword js c (rg_password i) (u_password_hash u) = Inr True \<and>
           og_id og = org \<and> og_name og = rg_organizationName i \<and> slug_ok (og_slug og) \<and> \<not> slug_taken d (og_slug og))
    | (_, d') \<Rightarrow> d' = d"
proof (cases "hashPassword c (ae_salt e) (rg_password i)")
  case (Inr hash)
  obtain r d' where b: "by_hand (ae_faults e) (register_tx other e i hash) d = (r, d')" by fastforce
  then have reg: "register other c e i d = (r, d')" by (simp add: register_def Inr)
  show ?thesis
  proof (cases "\<exists>uid org. r = Inr (Some (uid, org))")
    case True
    then obtain uid org where r: "r = Inr (Some (uid, org))" by blast
    note t = register_tx_Some [OF by_hand_Inr [OF b [unfolded r]]]
    have "verifyPassword js c (rg_password i) hash = Inr True"
      using password_parts [OF Inr] verify_hashed [OF assms Inr, of js "rg_password i"] by fastforce
    with t show ?thesis by (simp add: reg r founded_def new_user_def new_organization_def append_audit_def)
  next
    case False
    have "d' = d"
    proof (cases r)
      case (Inr v)
      with False have "v = None" by (cases v) auto
      with b Inr show ?thesis by (auto dest: by_hand_None)
    qed (use b in \<open>auto dest: by_hand_Inl\<close>)
    with False show ?thesis by (auto simp: reg split: sum.split option.split)
  qed
qed (simp add: register_def)

section \<open>Reset of a password\<close>

lemma complete_True:
  assumes "completePasswordReset c e token pw d = (Inr True, d')"
  obtains hash where "hashPassword c (ae_salt e) pw = Inr hash" "reset_tx c e token hash d = (Inr (Some ()), d')"
proof -
  obtain hash where h: "hashPassword c (ae_salt e) pw = Inr hash"
    using assms by (auto simp: completePasswordReset_def split: sum.splits)
  with assms obtain r d1 where b: "by_hand (ae_faults e) (reset_tx c e token hash) d = (Inr r, d1)"
    and g: "give (r \<noteq> None) d1 = (Inr True, d')" by (auto simp: completePasswordReset_def elim!: and_then_Inr)
  then have "r = Some ()" "d1 = d'" by (auto simp: give_def)
  with b h by_hand_Inr show ?thesis by (metis that)
qed

lemma reset_tx_Some:
  assumes "reset_tx c e token hash d = (Inr (Some ()), d')"
  obtains r where "r \<in> set (password_resets d)" "usable_reset (ae_db e 0) (hashToken c token) r"
    "d' = append_audit (user_audit None (pr_user_id r) ''auth.password_reset'' (ae_db e 0))
             (revoke_sessions (\<lambda>s. se_user_id s = pr_user_id r) (ae_db e 0)
               (set_password (pr_user_id r) hash (consume_resets (\<lambda>q. pr_id q = pr_id r) (ae_db e 0) d)))"
  using assms by (auto simp: reset_tx_def Let_def split: option.splits dest!: first_row_SomeD)

lemma set_password_logs_in:
  assumes laws: "scrypt_laws c" "salt \<noteq> []" and h: "hashPassword c salt pw = Inr hash"
  shows "list_all (\<lambda>u. u_id u = i \<longrightarrow> u_locked_until u = None \<and> verifyPassword js c pw (u_password_hash u) = Inr True)
    (users (set_password i hash d))"
proof -
  have v: "verifyPassword js c pw hash = Inr True"
    using password_parts [OF h] verify_hashed [OF laws h, of js pw] by fastforce
  show ?thesis unfolding set_password_def list_all_iff
  proof (intro ballI impI)
    fix u
    assume "u \<in> set (users (d\<lparr>users := sql_update (\<lambda>u. u_id u = i)
        (\<lambda>u. u\<lparr>u_password_hash := hash, u_failed_logins := 0, u_locked_until := None\<rparr>) (users d)\<rparr>))"
      and i: "u_id u = i"
    then obtain q where q: "u = (if u_id q = i then q\<lparr>u_password_hash := hash, u_failed_logins := 0, u_locked_until := None\<rparr> else q)"
      by (auto simp: in_sql_update)
    with i have "u_id q = i" by (simp split: if_splits)
    with q v show "u_locked_until u = None \<and> verifyPassword js c pw (u_password_hash u) = Inr True" by simp
  qed
qed

text \<open>C7: A link to reset a password works once, and takes the account back. When it works, it was a
  live link; every session of the account is revoked, the account is unlocked and the new password
  verifies; and the link never works again, whatever calls follow.\<close>

theorem password_reset_once:
  assumes k: "tokens_keyed d" and laws: "scrypt_laws c" "ae_salt e \<noteq> []"
    and ok: "completePasswordReset c e token pw d = (Inr True, d1)" and steps: "auth_step\<^sup>*\<^sup>* d1 d2"
  shows "fst (completePasswordReset c e' token pw' d2) \<noteq> Inr True \<and>
    (\<exists>r \<in> set (password_resets d). usable_reset (ae_db e 0) (hashToken c token) r \<and>
       list_all (\<lambda>s. se_user_id s = pr_user_id r \<longrightarrow> se_revoked_at s \<noteq> None) (sessions d1) \<and>
       list_all (\<lambda>u. u_id u = pr_user_id r \<longrightarrow> u_locked_until u = None \<and>
          verifyPassword js c pw (u_password_hash u) = Inr True) (users d1))"
proof -
  obtain hash where h: "hashPassword c (ae_salt e) pw = Inr hash" and t: "reset_tx c e token hash d = (Inr (Some ()), d1)"
    using ok by (rule complete_True)
  obtain r where r: "r \<in> set (password_resets d)" "usable_reset (ae_db e 0) (hashToken c token) r"
    and d1: "d1 = append_audit (user_audit None (pr_user_id r) ''auth.password_reset'' (ae_db e 0))
             (revoke_sessions (\<lambda>s. se_user_id s = pr_user_id r) (ae_db e 0)
               (set_password (pr_user_id r) hash (consume_resets (\<lambda>q. pr_id q = pr_id r) (ae_db e 0) d)))"
    using t by (rule reset_tx_Some)
  have th: "pr_token_hash r = hashToken c token" using r(2) by (simp add: usable_reset_def)
  have "shut pr_token_hash (\<lambda>r. pr_consumed_at r \<noteq> None) (pr_token_hash r) (password_resets d1)"
    using k r(1) unfolding d1 by (simp add: revoke_sessions_def set_password_def consume_resets_def shut_update tokens_keyed_def)
  then have s: "shut pr_token_hash (\<lambda>r. pr_consumed_at r \<noteq> None) (hashToken c token) (password_resets d2)"
    using auth_steps_kept [OF steps] shut_grows unfolding auth_kept_def th by metis
  have no: "fst (completePasswordReset c e' token pw' d2) \<noteq> Inr True"
  proof
    assume "fst (completePasswordReset c e' token pw' d2) = Inr True"
    then obtain d3 where "completePasswordReset c e' token pw' d2 = (Inr True, d3)" by (metis prod.collapse)
    then obtain hash' where "reset_tx c e' token hash' d2 = (Inr (Some ()), d3)" by (rule complete_True)
    then obtain r' where "r' \<in> set (password_resets d2)" "usable_reset (ae_db e' 0) (hashToken c token) r'" by (rule reset_tx_Some)
    with s show False by (auto simp: shut_def usable_reset_def)
  qed
  have ss: "list_all (\<lambda>s. se_user_id s = pr_user_id r \<longrightarrow> se_revoked_at s \<noteq> None) (sessions d1)"
    by (auto simp: d1 revoke_sessions_def set_password_def consume_resets_def list_all_iff in_sql_update)
  have us: "users d1 = users (set_password (pr_user_id r) hash d)"
    by (simp add: d1 revoke_sessions_def set_password_def consume_resets_def)
  have "list_all (\<lambda>u. u_id u = pr_user_id r \<longrightarrow> u_locked_until u = None \<and>
      verifyPassword js c pw (u_password_hash u) = Inr True) (users d1)"
    unfolding us using laws h by (rule set_password_logs_in)
  with no ss r show ?thesis by blast
qed

section \<open>Login by Discord\<close>

definition discord_granted :: "discord_outcome \<Rightarrow> (string \<times> session_record) option" where
  "discord_granted out = (case out of Discord_ok t r \<Rightarrow> Some (t, r) | Discord_mfa_required t r \<Rightarrow> Some (t, r) | _ \<Rightarrow> None)"

lemma discord_finalize_Inr:
  assumes "discord_finalize c e i uid mfa action d = (Inr out, d')" and "discord_granted out = Some (token, r)"
  shows "sr_userId r = uid \<and> sr_mfaSatisfied r = (\<not> mfa)"
proof -
  from assms(1) obtain tr d1 where cs: "createSession c e uid (\<not> mfa) None d = (Inr tr, d1)"
    and k: "(case tr of (token, session) \<Rightarrow>
     and_then (command (ae_fail e 4) (see_identity i (ae_db e 4))) (\<lambda>_.
     and_then (command (ae_fail e 5) (see_user uid (ae_db e 5))) (\<lambda>_.
     and_then (auth_audit (ae_fail e 6) (ae_db e 6) uid (if mfa then action @ ''_mfa_pending'' else action)) (\<lambda>_.
     give (if mfa then Discord_mfa_required token session else Discord_ok token session))))) d1 = (Inr out, d')"
    unfolding discord_finalize_def by (rule and_then_Inr)
  obtain t0 r0 where tr: "tr = (t0, r0)" by fastforce
  have "out = (if mfa then Discord_mfa_required t0 r0 else Discord_ok t0 r0)"
    using k by (auto simp: tr give_def elim!: and_then_Inr)
  then have "r0 = r" using assms(2) by (auto simp: discord_granted_def split: if_splits)
  with createSession_Inr(2) [OF cs [unfolded tr]] show ?thesis by (simp add: record_of_def session_row_of_def)
qed

text \<open>The three ways in: an identity linked before, a verified address, a new account.\<close>

definition discord_entitled :: "discord_input \<Rightarrow> db \<Rightarrow> string \<Rightarrow> bool \<Rightarrow> bool" where
  "discord_entitled i d uid mfa =
     ((\<exists>x \<in> set (discord_identities d). \<exists>u \<in> set (users d). di_discord_user_id x = dn_discordUserId i \<and> di_user_id x = uid \<and>
         u_id u = uid \<and> u_deleted_at u = None \<and> mfa = mfa_required u d) \<or>
      (\<exists>u \<in> set (users d). \<exists>m. u_id u = uid \<and> u_deleted_at u = None \<and> dn_email i = Some m \<and> dn_emailVerified i \<and>
         citext_eq (u_email u) m \<and> mfa = mfa_required u d) \<or>
      (\<exists>m. dn_email i = Some m \<and> m \<noteq> [] \<and> account m d = None \<and> \<not> user_exists uid d \<and> \<not> mfa))"

lemma discord_tx_Some:
  assumes "discord_tx other e i email hash d = (Inr (Some uid), d')"
  shows "\<not> user_exists uid d"
  using assms unfolding discord_tx_def Let_def
  by (auto elim!: and_then_Inr simp: insert_user_def new_user_def user_exists_def exists_row_iff split: if_splits)

lemma discord_provision_granted:
  assumes "discord_provision other c e unusable i d = (Inr out, d')" and g: "discord_granted out = Some (token, r)"
  shows "discord_entitled i d (sr_userId r) (\<not> sr_mfaSatisfied r)"
proof -
  obtain m where m: "dn_email i = Some m" "m \<noteq> []" and a: "account m d = None"
    and run: "and_then
            (by_hand (ae_faults e) (\<lambda>d.
               case hashPassword c (ae_salt e) (newOpaqueToken unusable) of
                 Inl x \<Rightarrow> (Inl x, d)
               | Inr hash \<Rightarrow> discord_tx other e i m hash d))
            (\<lambda>r. case r of None \<Rightarrow> throw (Thrown ''unreachable'')
                 | Some uid \<Rightarrow> discord_finalize c e i uid False ''auth.register_discord'') d = (Inr out, d')"
    using assms
    by (auto simp: discord_provision_def discord_granted_def account_def first_row_None_iff exists_row_iff
        split: option.splits list.splits if_splits)
  from run obtain x d1 where b: "by_hand (ae_faults e) (\<lambda>d.
               case hashPassword c (ae_salt e) (newOpaqueToken unusable) of
                 Inl x \<Rightarrow> (Inl x, d)
               | Inr hash \<Rightarrow> discord_tx other e i m hash d) d = (Inr x, d1)"
    and k: "(case x of None \<Rightarrow> throw (Thrown ''unreachable'')
                 | Some uid \<Rightarrow> discord_finalize c e i uid False ''auth.register_discord'') d1 = (Inr out, d')"
    by (rule and_then_Inr)
  obtain uid where x: "x = Some uid" using k by (cases x) (simp_all add: throw_def)
  from by_hand_Inr [OF b [unfolded x]] have "\<not> user_exists uid d"
    by (auto split: sum.splits dest: discord_tx_Some)
  moreover have "discord_finalize c e i uid False ''auth.register_discord'' d1 = (Inr out, d')" using k by (simp add: x)
  from discord_finalize_Inr [OF this g] have "sr_userId r = uid \<and> sr_mfaSatisfied r" by simp
  ultimately show ?thesis using m a unfolding discord_entitled_def by auto
qed

lemma discord_link_granted:
  assumes "discord_link other c e unusable i d = (Inr out, d')" and g: "discord_granted out = Some (token, r)"
  shows "discord_entitled i d (sr_userId r) (\<not> sr_mfaSatisfied r)"
proof (cases "discord_provision other c e unusable i d = (Inr out, d')")
  case True
  then show ?thesis using g by (rule discord_provision_granted)
next
  case False
  then obtain m u where m: "dn_email i = Some m" "dn_emailVerified i" and u: "account m d = Some u" "u_deleted_at u = None"
    and run: "(case statement (ae_fail e 3) (insert_discord (identity_of i (u_id u))) d of
                (Inl x, d1) \<Rightarrow> (Inr (Discord_error Already_linked), d1)
              | (Inr _, d1) \<Rightarrow>
                  discord_finalize c e i (u_id u) (mfa_required u d) ''auth.login_discord_linked'' d1) = (Inr out, d')"
    using assms by (auto simp: discord_link_def discord_granted_def account_def split: if_splits option.splits)
  obtain y d1 where "statement (ae_fail e 3) (insert_discord (identity_of i (u_id u))) d = (y, d1)" by fastforce
  with run g have "discord_finalize c e i (u_id u) (mfa_required u d) ''auth.login_discord_linked'' d1 = (Inr out, d')"
    by (cases y) (auto simp: discord_granted_def)
  from discord_finalize_Inr [OF this g] have "sr_userId r = u_id u \<and> sr_mfaSatisfied r = (\<not> mfa_required u d)" .
  moreover have "u \<in> set (users d)" "citext_eq (u_email u) m" using first_row_SomeD [OF u(1) [unfolded account_def]] by auto
  ultimately show ?thesis using m u(2) unfolding discord_entitled_def by auto
qed

text \<open>A login by Discord opens a session only for an account it is entitled to: one this identity was
  linked to before, one whose address is the address Discord says it verified, or one it has just created
  for an address no account had. An address that is not verified never reaches an existing account, a
  deleted account is never entered, and the second factor an existing account has is still asked for.\<close>

theorem discord_enters_only_entitled:
  assumes "loginWithDiscord other c e unusable i d = (Inr out, d')" and "discord_granted out = Some (token, r)"
  shows "discord_entitled i d (sr_userId r) (\<not> sr_mfaSatisfied r)"
proof (cases "discord_link other c e unusable i d = (Inr out, d')")
  case True
  then show ?thesis using assms(2) by (rule discord_link_granted)
next
  case False
  then obtain x u where x: "first_row (\<lambda>r. di_discord_user_id r = dn_discordUserId i \<and> user_exists (di_user_id r) d) (discord_identities d) = Some x"
    and u: "first_row (\<lambda>u. u_id u = di_user_id x) (users d) = Some u" "u_deleted_at u = None"
    and run: "discord_finalize c e i (u_id u) (mfa_required u d) ''auth.login_discord'' d = (Inr out, d')"
    using assms by (auto simp: loginWithDiscord_def discord_granted_def split: if_splits option.splits)
  from discord_finalize_Inr [OF run assms(2)] have "sr_userId r = u_id u \<and> sr_mfaSatisfied r = (\<not> mfa_required u d)" .
  then show ?thesis using first_row_SomeD [OF x] first_row_SomeD [OF u(1)] u(2) unfolding discord_entitled_def by auto
qed

end
