(* ===== verification/Middleware.thy ===== *)
theory Middleware
  imports Account_Facts Rbac
begin

text \<open>
  \<open>apps/api/src/api/middleware.ts\<close>: the guard of the routes under \<open>/api\<close>. It rests on two operations
  of \<open>AuthService\<close>, which are its arguments; what it needs of them is the locale
  \<open>session_authority\<close>, interpreted on their models.
\<close>

section \<open>Requests and refusals\<close>

record http_request =
  hq_method :: string
  hq_cookies :: "string \<Rightarrow> string option"
  hq_headers :: "string \<Rightarrow> string option"

(* src api/middleware.ts:28-28 SESSION_COOKIE *)
definition session_cookie :: string where "session_cookie = ''zshield_session''"

(* src api/middleware.ts:29-29 CSRF_COOKIE *)
definition csrf_cookie :: string where "csrf_cookie = ''zshield_csrf''"

(* src api/middleware.ts:30-30 CSRF_HEADER *)
definition csrf_header :: string where "csrf_header = ''x-csrf-token''"

text \<open>The error classes of the file, \<open>ForbiddenError\<close>, and any other exception.\<close>

(* src api/middleware.ts:32-51 UnauthorizedError *)
datatype access_error =
    Unauthorized string
  | Mfa_needed
  | Csrf_failed
  | Forbidden_access
  | Other_access exn

(* src api/middleware.ts:53-58 RequestActor *)
record request_actor =
  ra_session :: session_record
  ra_user :: authenticated_user
  ra_organizationId :: string
  ra_role :: role

section \<open>Cookies\<close>

record cookie_options =
  co_httpOnly :: bool
  co_sameSite :: string
  co_secure :: bool
  co_path :: string
  co_maxAge :: int

(* src api/middleware.ts:60-70 cookieOptions *)
definition cookieOptions :: "bool \<Rightarrow> int \<Rightarrow> cookie_options" where
  "cookieOptions isProduction maxAgeSeconds =
     \<lparr>co_httpOnly = True, co_sameSite = ''lax'', co_secure = isProduction, co_path = ''/'', co_maxAge = maxAgeSeconds\<rparr>"

text \<open>The token, and the cookie set on the reply.\<close>

(* src api/middleware.ts:72-84 issueCsrfToken *)
definition issueCsrfToken :: "bool \<Rightarrow> bytes \<Rightarrow> string \<times> (string \<times> string \<times> cookie_options)" where
  "issueCsrfToken isProduction random32 =
     (let token = to_base64url random32 in
      (token, csrf_cookie, token, (cookieOptions isProduction (60 * 60 * 12))\<lparr>co_httpOnly := False\<rparr>))"

(* src api/middleware.ts:86-86 SAFE_METHODS *)
definition safe_methods :: "string list" where "safe_methods = [''GET'', ''HEAD'', ''OPTIONS'']"

(* src api/middleware.ts:88-98 verifyCsrf *)
definition verifyCsrf :: "crypto \<Rightarrow> http_request \<Rightarrow> access_error + unit" where
  "verifyCsrf c q =
     (if hq_method q \<in> set safe_methods then Inr ()
      else (case (hq_cookies q csrf_cookie, hq_headers q csrf_header) of
          (Some cookie, Some header) \<Rightarrow>
            if length cookie < 16 then Inl Csrf_failed
            else if \<not> constantTimeEqual c cookie header then Inl Csrf_failed
            else Inr ()
        | _ \<Rightarrow> Inl Csrf_failed))"

section \<open>The guard\<close>

type_synonym 's resolver = "string \<Rightarrow> 's \<Rightarrow> session_context option result \<times> 's"
type_synonym 's role_lookup = "string \<Rightarrow> string \<Rightarrow> 's \<Rightarrow> role option result \<times> 's"

(* src api/middleware.ts:110-132 Guard.actor *)
definition actor :: "'s resolver \<Rightarrow> 's role_lookup \<Rightarrow> http_request \<Rightarrow> 's \<Rightarrow> (access_error + request_actor) \<times> 's" where
  "actor resolve role_of q s =
     (case hq_cookies q session_cookie of
        None \<Rightarrow> (Inl (Unauthorized ''authentication required''), s)
      | Some token \<Rightarrow>
          if length token < 16 then (Inl (Unauthorized ''authentication required''), s)
          else (case resolve token s of
              (Inl e, s1) \<Rightarrow> (Inl (Other_access e), s1)
            | (Inr None, s1) \<Rightarrow> (Inl (Unauthorized ''authentication required''), s1)
            | (Inr (Some ctx), s1) \<Rightarrow>
                if \<not> sr_mfaSatisfied (sc_session ctx) then (Inl Mfa_needed, s1)
                else (case sr_organizationId (sc_session ctx) of
                    None \<Rightarrow> (Inl (Unauthorized ''session is not attached to an organization''), s1)
                  | Some [] \<Rightarrow> (Inl (Unauthorized ''session is not attached to an organization''), s1)
                  | Some org \<Rightarrow>
                      (case role_of (sr_userId (sc_session ctx)) org s1 of
                         (Inl e, s2) \<Rightarrow> (Inl (Other_access e), s2)
                       | (Inr None, s2) \<Rightarrow> (Inl (Unauthorized ''membership no longer exists''), s2)
                       | (Inr (Some r), s2) \<Rightarrow>
                           (Inr \<lparr>ra_session = sc_session ctx, ra_user = sc_user ctx, ra_organizationId = org, ra_role = r\<rparr>, s2)))))"

(* src api/middleware.ts:135-142 Guard.pendingActor *)
definition pendingActor :: "'s resolver \<Rightarrow> http_request \<Rightarrow> 's \<Rightarrow> (access_error + session_context) \<times> 's" where
  "pendingActor resolve q s =
     (case hq_cookies q session_cookie of
        None \<Rightarrow> (Inl (Unauthorized ''authentication required''), s)
      | Some token \<Rightarrow>
          (case resolve token s of
             (Inl e, s1) \<Rightarrow> (Inl (Other_access e), s1)
           | (Inr None, s1) \<Rightarrow> (Inl (Unauthorized ''authentication required''), s1)
           | (Inr (Some ctx), s1) \<Rightarrow> (Inr ctx, s1)))"

(* src api/middleware.ts:152-156 Guard.requireRead *)
definition requireRead :: "'s resolver \<Rightarrow> 's role_lookup \<Rightarrow> http_request \<Rightarrow> permission \<Rightarrow> 's \<Rightarrow>
    (access_error + request_actor) \<times> 's" where
  "requireRead resolve role_of q permission s =
     (case actor resolve role_of q s of
        (Inl e, s1) \<Rightarrow> (Inl e, s1)
      | (Inr a, s1) \<Rightarrow>
          (case assertCan (ra_role a) permission of Inl x \<Rightarrow> (Inl Forbidden_access, s1) | Inr _ \<Rightarrow> (Inr a, s1)))"

(* src api/middleware.ts:144-149 Guard.require *)
definition require :: "crypto \<Rightarrow> 's resolver \<Rightarrow> 's role_lookup \<Rightarrow> http_request \<Rightarrow> permission \<Rightarrow> 's \<Rightarrow>
    (access_error + request_actor) \<times> 's" where
  "require c resolve role_of q permission s =
     (case verifyCsrf c q of
        Inl e \<Rightarrow> (Inl e, s)
      | Inr _ \<Rightarrow> requireRead resolve role_of q permission s)"

(* src api/middleware.ts:170-184 toHttpError *)
definition toHttpError :: "access_error \<Rightarrow> int \<times> string" where
  "toHttpError e =
     (case e of
        Unauthorized m \<Rightarrow> (401, ''unauthorized'')
      | Mfa_needed \<Rightarrow> (403, ''mfa_required'')
      | Csrf_failed \<Rightarrow> (403, ''csrf_failed'')
      | Forbidden_access \<Rightarrow> (403, ''forbidden'')
      | Other_access x \<Rightarrow> (500, ''internal''))"

section \<open>What the guard needs of the sessions\<close>

text \<open>
  \<open>live token s ctx\<close>: the token has a live session in \<open>s\<close>, with this context; \<open>member u o s\<close>: the role
  of an accepted member.
\<close>

locale session_authority =
  fixes resolve :: "'s resolver" and role_of :: "'s role_lookup"
    and live :: "string \<Rightarrow> 's \<Rightarrow> session_context \<Rightarrow> bool" and member :: "string \<Rightarrow> string \<Rightarrow> 's \<Rightarrow> role option"
  assumes resolve_live: "resolve token s = (Inr (Some ctx), s') \<Longrightarrow> live token s ctx"
    and resolve_member: "member u o' (snd (resolve token s)) = member u o' s"
    and role_member: "role_of u o' s = (Inr r, s') \<Longrightarrow> r = member u o' s"
    and role_state: "snd (role_of u o' s) = s"
begin

lemma actor_Inr:
  assumes "actor resolve role_of q s = (Inr a, s')"
  obtains token ctx where "hq_cookies q session_cookie = Some token" "16 \<le> length token" "live token s ctx"
    "sr_mfaSatisfied (sc_session ctx)" "ra_session a = sc_session ctx" "ra_user a = sc_user ctx"
    "sr_organizationId (sc_session ctx) = Some (ra_organizationId a)"
    "member (sr_userId (sc_session ctx)) (ra_organizationId a) s = Some (ra_role a)"
    "s' = snd (resolve token s)"
proof -
  obtain token where t: "hq_cookies q session_cookie = Some token" "16 \<le> length token"
    using assms by (auto simp: actor_def split: option.splits if_splits)
  obtain r s1 where r: "resolve token s = (r, s1)" by fastforce
  obtain ctx where ctx: "r = Inr (Some ctx)" "sr_mfaSatisfied (sc_session ctx)"
    using assms t r by (auto simp: actor_def split: option.splits sum.splits if_splits)
  obtain org where org: "sr_organizationId (sc_session ctx) = Some org" "org \<noteq> []"
    using assms t r ctx by (auto simp: actor_def split: option.splits list.splits)
  obtain rr s2 where rr: "role_of (sr_userId (sc_session ctx)) org s1 = (rr, s2)" by fastforce
  obtain ro where ro: "rr = Inr (Some ro)" "s' = s2"
    and a: "a = \<lparr>ra_session = sc_session ctx, ra_user = sc_user ctx, ra_organizationId = org, ra_role = ro\<rparr>"
    using assms t r ctx org rr by (cases org) (auto simp: actor_def split: option.splits sum.splits)
  have "member (sr_userId (sc_session ctx)) org s = Some ro"
    using role_member [OF rr [unfolded ro(1)]] resolve_member [of _ _ token s] r by simp
  moreover have "s2 = s1" using role_state [of "sr_userId (sc_session ctx)" org s1] rr by simp
  moreover have "s1 = snd (resolve token s)" using r by simp
  ultimately show ?thesis
    using t ctx org a ro resolve_live [OF r [unfolded ctx(1)]] by (intro that [of token ctx]) simp_all
qed

lemma requireRead_Inr:
  assumes "requireRead resolve role_of q p s = (Inr a, s')"
  shows "actor resolve role_of q s = (Inr a, s') \<and> can (ra_role a) p"
  using assms by (auto simp: requireRead_def assertCan_def split: prod.splits sum.splits if_splits)

end

definition live_session :: "crypto \<Rightarrow> time_ms \<Rightarrow> string \<Rightarrow> db \<Rightarrow> session_context \<Rightarrow> bool" where
  "live_session c now token d ctx =
     (\<exists>s \<in> set (sessions d). \<exists>u \<in> set (users d). usable_session now (hashToken c token) d s \<and>
        u_id u = se_user_id s \<and> u_deleted_at u = None \<and> ctx = context_of s u)"

definition accepted_role :: "string \<Rightarrow> string \<Rightarrow> db \<Rightarrow> role option" where
  "accepted_role uid org d =
     map_option me_role (first_row (\<lambda>m. accepted_membership uid m \<and> me_organization_id m = org) (memberships d))"

lemma resolveSession_frame: "memberships (snd (resolveSession c e token d)) = memberships d"
  by (simp add: resolveSession_def see_session_def split: option.split)

lemma resolveRole_state: "snd (resolveRole e uid org d) = d"
  by (auto simp: resolveRole_def user_db_cases)

interpretation authority: session_authority "resolveSession c e" "resolveRole e'" "live_session c (ae_db e 0)" accepted_role
  for c e e'
proof
  fix token d ctx d'
  assume "resolveSession c e token d = (Inr (Some ctx), d')"
  then show "live_session c (ae_db e 0) token d ctx"
    by (rule resolveSession_Some) (auto simp: live_session_def)
next
  fix uid org token d
  show "accepted_role uid org (snd (resolveSession c e token d)) = accepted_role uid org d"
    by (simp add: accepted_role_def resolveSession_frame)
next
  fix uid org d r d'
  assume "resolveRole e' uid org d = (Inr r, d')"
  from user_db_Inr [OF this [unfolded resolveRole_def]] show "r = accepted_role uid org d"
    by (auto simp: accepted_role_def)
next
  fix uid org d
  show "snd (resolveRole e' uid org d) = d" by (rule resolveRole_state)
qed

section \<open>What passes\<close>


end
