(* ===== verification/Auth_Witnesses.thy ===== *)
theory Auth_Witnesses
  imports Samples Middleware
begin

text \<open>
  Applications of the properties of the accounts, the sessions and the guard to an account that
  registers, logs in, mistypes its password, resets it and comes back by Discord. The record of its
  password is a variable wherever its value does not matter.
\<close>

section \<open>An account\<close>

definition sample_user_id :: string where "sample_user_id = sample_id ''usr_'' (CHR ''a'')"
definition sample_password :: string where "sample_password = ''correct horse''"
definition sample_email :: string where "sample_email = ''ann@z.io''"

definition sample_auth :: "time_ms \<Rightarrow> byte \<Rightarrow> auth_env" where
  "sample_auth t b =
     \<lparr>ae_js = (\<lambda>n. t), ae_db = (\<lambda>n. t), ae_fail = (\<lambda>n. False), ae_faults = no_faults, ae_session_faults = no_faults,
      ae_ids = (\<lambda>n. if n = 0 then sample_user_id else if n = 1 then sample_org
                else if n = 2 then sample_id ''usr_'' (CHR ''m'') else ''sub_1''),
      ae_session_id = ''ses_'' @ [char_of (unat b + 48)], ae_random32 = replicate 32 b, ae_salt = [1]\<rparr>"

definition sample_register :: register_input where
  "sample_register = \<lparr>rg_email = sample_email, rg_password = sample_password, rg_displayName = ''Ann'',
     rg_organizationName = ''Main City''\<rparr>"

definition sample_hash :: string where
  "sample_hash = projr (hashPassword sample_crypto [1] sample_password)"

lemma sample_hash: "hashPassword sample_crypto [1] sample_password = Inr sample_hash"
  by (simp add: sample_hash_def hashPassword_def sample_crypto_def sample_password_def)

lemma sample_verify: "verifyPassword sample_js sample_crypto sample_password sample_hash = Inr True"
  using password_record_verifies [OF sample_crypto_laws(3) _ sample_hash, of sample_js undefined undefined] by simp

lemma wrong_verify: "verifyPassword sample_js sample_crypto ''wrong'' sample_hash = Inr False"
  using verify_hashed [OF sample_crypto_laws(3) _ sample_hash, of sample_js "''wrong''"]
  by (simp add: sample_crypto_def sample_password_def pad_to_def scrypt_keylen_def utf8_def)

lemma sample_auth_fields [simp]:
  "ae_salt (sample_auth t b) = [1]" "ae_fail (sample_auth t b) n = False" "ae_db (sample_auth t b) n = t"
  "ae_js (sample_auth t b) n = t" "ae_faults (sample_auth t b) = no_faults"
  by (simp_all add: sample_auth_def)

theorem register_all_or_nothing_witness:
  "\<exists>d u. register (\<lambda>s. s) sample_crypto (sample_auth 1000 1) sample_register empty_db = (Inr (Some (sample_user_id, sample_org)), d) \<and>
     users d = [u] \<and> memberships d = [owner_membership (sample_id ''usr_'' (CHR ''m'')) sample_org sample_user_id 1000] \<and>
     u_id u = sample_user_id \<and> verifyPassword sample_js sample_crypto sample_password (u_password_hash u) = Inr True"
proof -
  let ?t = "register_tx (\<lambda>s. s) (sample_auth 1000 1) sample_register sample_hash empty_db"
  have "fst (register_tx (\<lambda>s. s) (sample_auth 1000 1) sample_register h empty_db) = Inr (Some (sample_user_id, sample_org))" for h
    by code_simp
  then have "?t = (Inr (Some (sample_user_id, sample_org)), snd ?t)" by (metis prod.collapse)
  from by_hand_ok [where body = "register_tx (\<lambda>s. s) (sample_auth 1000 1) sample_register sample_hash" and d = empty_db, OF this]
  have reg: "register (\<lambda>s. s) sample_crypto (sample_auth 1000 1) sample_register empty_db =
      (Inr (Some (sample_user_id, sample_org)), snd ?t)"
    using sample_hash by (simp add: register_def sample_register_def)
  have "ae_salt (sample_auth 1000 1) \<noteq> []" by simp
  note r = register_all_or_nothing [OF sample_crypto_laws(3) this, where other = "\<lambda>s. s" and i = sample_register and d = empty_db and js = sample_js, unfolded reg]
  have "ae_ids (sample_auth 1000 1) 2 = sample_id ''usr_'' (CHR ''m'')" by (simp add: sample_auth_def)
  with r show ?thesis unfolding reg by (auto simp: empty_db_def sample_register_def)
qed

definition account_user :: "string \<Rightarrow> user_row" where
  "account_user h = new_user sample_user_id sample_email h ''Ann'' None"

definition account_db :: "string \<Rightarrow> db" where
  "account_db h = empty_db
     \<lparr>users := [account_user h], organizations := [new_organization sample_org ''Main City'' ''main-city''],
      memberships := [owner_membership (sample_id ''usr_'' (CHR ''m'')) sample_org sample_user_id 1000],
      password_resets := [\<lparr>pr_id = ''inv_1'', pr_user_id = sample_user_id, pr_token_hash = hashToken sample_crypto ''reset'',
        pr_purpose = ''password_reset'', pr_expires_at = 3600000, pr_consumed_at = None\<rparr>]\<rparr>"

theorem unique_slug_valid_witness: "slug_ok (uniqueSlug (\<lambda>s. s) 1000 ''Main City'' (account_db []))"
  using unique_slug_valid [of 1000 "\<lambda>s. s" "''Main City''" "account_db []"] by simp

section \<open>A session\<close>

definition sample_created :: "string \<Rightarrow> (string \<times> session_record) result \<times> db" where
  "sample_created h = createSession sample_crypto (sample_auth 2000 2) sample_user_id True None (account_db h)"

definition sample_token :: string where "sample_token = newOpaqueToken (replicate 32 2)"

lemma sample_created_ok:
  "\<exists>r d. sample_created h = (Inr (sample_token, r), d) \<and> sr_expiresAt r = 43202000 \<and> sr_id r = ''ses_2''"
proof -
  have "(case fst (sample_created h) of Inr (t, r) \<Rightarrow> t = sample_token \<and> sr_expiresAt r = 43202000 \<and> sr_id r = ''ses_2'' | Inl _ \<Rightarrow> False)"
    by code_simp
  then show ?thesis by (auto split: sum.splits) (metis prod.collapse)
qed

theorem session_token_roundtrip_witness:
  "\<exists>ctx. fst (resolveSession sample_crypto (sample_auth 3000 3) sample_token (snd (sample_created []))) = Inr (Some ctx) \<and>
     sr_userId (sc_session ctx) = sample_user_id"
proof -
  obtain r d where c: "sample_created [] = (Inr (sample_token, r), d)" and x: "sr_expiresAt r = 43202000"
    using sample_created_ok by blast
  have u: "\<exists>u \<in> set (users (account_db [])). u_id u = sample_user_id \<and> u_deleted_at u = None"
    by (simp add: account_db_def account_user_def new_user_def)
  have "ae_db (sample_auth 3000 3) 0 < sr_expiresAt r" "\<not> ae_fail (sample_auth 3000 3) 0" by (simp_all add: x)
  from session_token_roundtrip [OF c [unfolded sample_created_def] u this] show ?thesis by (auto simp: c)
qed

definition session_db :: "string \<Rightarrow> db" where "session_db h = snd (sample_created h)"

definition sample_resolved :: "string \<Rightarrow> session_context option result \<times> db" where
  "sample_resolved h = resolveSession sample_crypto (sample_auth 3000 3) sample_token (session_db h)"

definition sample_revoked :: "string \<Rightarrow> unit result \<times> db" where
  "sample_revoked h = revokeSession (sample_auth 4000 4) ''ses_2'' (snd (sample_resolved h))"

definition sample_relogin :: "string \<Rightarrow> login_outcome result \<times> db" where
  "sample_relogin h = login sample_js sample_crypto (sample_auth 5000 5) sample_email sample_password (snd (sample_revoked h))"

lemma session_db_keyed: "tokens_keyed (session_db [])"
  by code_simp

lemma sample_resolved_ok:
  "\<exists>ctx. sample_resolved [] = (Inr (Some ctx), snd (sample_resolved [])) \<and> sr_id (sc_session ctx) = ''ses_2''"
proof -
  have "(case fst (sample_resolved []) of Inr (Some ctx) \<Rightarrow> sr_id (sc_session ctx) = ''ses_2'' | _ \<Rightarrow> False)" by code_simp
  then show ?thesis by (auto split: sum.splits option.splits) (metis prod.collapse)
qed

theorem revoked_cookie_stays_dead_witness:
  "\<forall>ctx'. fst (resolveSession sample_crypto (sample_auth 6000 6) sample_token (snd (sample_relogin []))) \<noteq> Inr (Some ctx')"
proof -
  obtain ctx where r: "resolveSession sample_crypto (sample_auth 3000 3) sample_token (session_db []) = (Inr (Some ctx), snd (sample_resolved []))"
    and i: "sr_id (sc_session ctx) = ''ses_2''" using sample_resolved_ok unfolding sample_resolved_def by blast
  have v: "revokeSession (sample_auth 4000 4) (sr_id (sc_session ctx)) (snd (sample_resolved [])) = (Inr (), snd (sample_revoked []))"
    by (simp add: i sample_revoked_def revokeSession_def command_def statement_def)
  have "auth_step\<^sup>*\<^sup>* (snd (sample_revoked [])) (snd (sample_relogin []))"
    unfolding sample_relogin_def by (rule r_into_rtranclp) (rule auth_step.Login)
  from revoked_cookie_stays_dead [OF session_db_keyed r v this] show ?thesis by blast
qed

section \<open>Logging in\<close>

lemma sample_account: "account sample_email (account_db h) = Some (account_user h)"
  by (simp add: account_def account_db_def account_user_def new_user_def citext_eq_def)

lemma account_user_fields [simp]:
  "u_id (account_user h) = sample_user_id" "u_password_hash (account_user h) = h" "u_deleted_at (account_user h) = None"
  "u_locked_until (account_user h) = None" "u_failed_logins (account_user h) = 0" "u_mfa_enforced (account_user h) = False"
  by (simp_all add: account_user_def new_user_def)

definition sample_login :: "login_outcome result \<times> db" where
  "sample_login = login sample_js sample_crypto (sample_auth 2000 2) sample_email sample_password (account_db sample_hash)"

lemma sample_login_open: "\<exists>r d. login_open sample_crypto (sample_auth 2000 2) sample_user_id False (account_db h) = (Inr (Login_ok sample_token r), d) \<and>
    sr_expiresAt r = 43202000"
proof -
  have "(case fst (login_open sample_crypto (sample_auth 2000 2) sample_user_id False (account_db h)) of
      Inr (Login_ok t r) \<Rightarrow> t = sample_token \<and> sr_expiresAt r = 43202000 | _ \<Rightarrow> False)" by code_simp
  then show ?thesis by (auto split: sum.splits login_outcome.splits) (metis prod.collapse)
qed

theorem login_grants_only_verified_witness:
  "\<exists>r d. sample_login = (Inr (Login_ok sample_token r), d) \<and> sr_userId r = sample_user_id \<and> sr_mfaSatisfied r"
proof -
  obtain r d where o: "login_open sample_crypto (sample_auth 2000 2) sample_user_id False (account_db sample_hash) = (Inr (Login_ok sample_token r), d)"
    and x: "sr_expiresAt r = 43202000" using sample_login_open by blast
  have "mfa_required (account_user sample_hash) (account_db sample_hash) = False"
    by (simp add: mfa_required_def has_mfa_def exists_row_iff account_db_def empty_db_def)
  then have l: "sample_login = (Inr (Login_ok sample_token r), d)"
    using sample_account [of sample_hash] sample_verify o by (simp add: sample_login_def login_def account_def)
  have "granted (Login_ok sample_token r) = Some (sample_token, r)" by (simp add: granted_def)
  from login_grants_only_verified [OF l [unfolded sample_login_def] this, of "sample_auth 3000 3"] l
  have "sr_mfaSatisfied r \<and> (\<exists>u \<in> set (users (account_db sample_hash)). sr_userId r = u_id u)" by (auto simp: x)
  with l show ?thesis by (auto simp: account_db_def)
qed


section \<open>The password forgotten\<close>

theorem password_reset_once_witness:
  "\<exists>d1. completePasswordReset sample_crypto (sample_auth 4000 4) ''reset'' sample_password (account_db []) = (Inr True, d1) \<and>
     fst (completePasswordReset sample_crypto (sample_auth 4000 5) ''reset'' sample_password d1) \<noteq> Inr True"
proof -
  let ?t = "reset_tx sample_crypto (sample_auth 4000 4) ''reset'' sample_hash (account_db [])"
  have "fst (reset_tx sample_crypto (sample_auth 4000 4) ''reset'' h (account_db [])) = Inr (Some ())" for h by code_simp
  then have "?t = (Inr (Some ()), snd ?t)" by (metis prod.collapse)
  from by_hand_ok [where body = "reset_tx sample_crypto (sample_auth 4000 4) ''reset'' sample_hash" and d = "account_db []", OF this]
  have ok: "completePasswordReset sample_crypto (sample_auth 4000 4) ''reset'' sample_password (account_db []) = (Inr True, snd ?t)"
    using sample_hash by (simp add: completePasswordReset_def and_then_def give_def)
  have k: "tokens_keyed (account_db [])" by (simp add: tokens_keyed_def account_db_def empty_db_def)
  have "ae_salt (sample_auth 4000 4) \<noteq> []" by simp
  from password_reset_once [OF k sample_crypto_laws(3) this ok rtranclp.rtrancl_refl, of "sample_auth 4000 5"] ok
  show ?thesis by blast
qed

section \<open>Discord\<close>

definition sample_discord :: discord_input where
  "sample_discord = \<lparr>dn_discordUserId = ''123456'', dn_email = Some ''ANN@z.io'', dn_emailVerified = True, dn_username = None,
     dn_displayName = ''Ann''\<rparr>"

theorem discord_enters_only_entitled_witness:
  "\<exists>r d'. loginWithDiscord (\<lambda>s. s) sample_crypto (sample_auth 2000 2) [] sample_discord (account_db []) = (Inr (Discord_ok sample_token r), d') \<and>
     discord_entitled sample_discord (account_db []) (sr_userId r) (\<not> sr_mfaSatisfied r)"
proof -
  have "(case fst (loginWithDiscord (\<lambda>s. s) sample_crypto (sample_auth 2000 2) [] sample_discord (account_db [])) of
      Inr (Discord_ok t r) \<Rightarrow> t = sample_token | _ \<Rightarrow> False)" by code_simp
  then obtain r d' where l: "loginWithDiscord (\<lambda>s. s) sample_crypto (sample_auth 2000 2) [] sample_discord (account_db []) =
      (Inr (Discord_ok sample_token r), d')"
    by (auto split: sum.splits discord_outcome.splits) (metis prod.collapse)
  have "discord_granted (Discord_ok sample_token r) = Some (sample_token, r)" by (simp add: discord_granted_def)
  from discord_enters_only_entitled [OF l this] l show ?thesis by blast
qed

section \<open>A request\<close>

definition sample_post :: http_request where
  "sample_post = \<lparr>hq_method = ''POST'',
     hq_cookies = (\<lambda>n. if n = session_cookie then Some sample_token else Some (replicate 16 (CHR ''x''))),
     hq_headers = (\<lambda>n. Some (replicate 16 (CHR ''x'')))\<rparr>"


end
