(* ===== verification/Api_Base.thy ===== *)
theory Api_Base
  imports Middleware Effects
begin

text \<open>
  \<open>apps/api/src/api/routes.ts\<close>, what all of its routes share: a reply, what a request brings, the
  envelope that turns an error into a reply, the guard over the state of the platform, the journal.
  The organization of a route is the one of the session of its actor.
\<close>

section \<open>Replies\<close>

record api_reply =
  ar_status :: int
  ar_body :: "(string \<times> json) list"
  ar_cookies :: "(string \<times> string \<times> cookie_options) list"

definition reply :: "int \<Rightarrow> (string \<times> json) list \<Rightarrow> api_reply" where
  "reply st body = \<lparr>ar_status = st, ar_body = body, ar_cookies = []\<rparr>"

definition fault_reply :: "int \<Rightarrow> string \<Rightarrow> api_reply" where
  "fault_reply st code = reply st [(''error'', JStr code)]"

definition not_found :: api_reply where "not_found = fault_reply 404 ''not_found''"
definition invalid :: api_reply where "invalid = fault_reply 400 ''validation''"
definition status_ok :: api_reply where "status_ok = reply 200 [(''status'', JStr ''ok'')]"

section \<open>What a request brings\<close>

text \<open>
  The instants and the failures of the statements and transactions the route opens beyond its guard,
  in order; what the generators give; the texts of the schema library.
\<close>

record api_env =
  px_auth :: auth_env
  px_js :: "nat \<Rightarrow> time_ms"
  px_now :: "nat \<Rightarrow> time_ms"
  px_faults :: "nat \<Rightarrow> faults"
  px_fail :: "nat \<Rightarrow> bool"
  px_ids :: "nat \<Rightarrow> string"
  px_random32 :: bytes
  px_salt :: bytes
  px_csrf32 :: bytes
  px_issue :: "(string \<times> json) list"

record api_request =
  pq_http :: http_request
  pq_body :: json
  pq_id :: string
  pq_id2 :: string
  pq_query :: "(string \<times> string) list"
  pq_ip :: string

text \<open>\<open>request.body ?? {}\<close>\<close>

definition body_or_empty :: "api_request \<Rightarrow> json" where
  "body_or_empty q = (if pq_body q = JNull then JObj [] else pq_body q)"

text \<open>The libraries, the key of the credentials, the secret of the licences, the mode of the process.\<close>

record api_deps =
  pd_js :: js_lib
  pd_crypto :: crypto
  pd_key :: bytes
  pd_license_secret :: string
  pd_production :: bool
  pd_email_ok :: "string \<Rightarrow> bool"
  pd_slug_fold :: "string \<Rightarrow> string"

section \<open>Transactions of a route\<close>

definition tenant_step :: "api_env \<Rightarrow> nat \<Rightarrow> string \<Rightarrow> (db \<Rightarrow> 'a result \<times> db) \<Rightarrow> world \<Rightarrow> 'a result \<times> world" where
  "tenant_step x n org = world_tx org (px_faults x n)"

definition plain_step :: "api_env \<Rightarrow> nat \<Rightarrow> (db \<Rightarrow> 'a result \<times> db) \<Rightarrow> world \<Rightarrow> 'a result \<times> world" where
  "plain_step x n f = on_db (statement (px_fail x n) f)"

definition platform_step :: "api_env \<Rightarrow> nat \<Rightarrow> (db \<Rightarrow> 'a result \<times> db) \<Rightarrow> world \<Rightarrow> 'a result \<times> world" where
  "platform_step x n f = on_db (platform_db (px_faults x n) (\<lambda>s. f))"

definition by_hand_step :: "api_env \<Rightarrow> nat \<Rightarrow> (db \<Rightarrow> 'a result \<times> db) \<Rightarrow> world \<Rightarrow> 'a option result \<times> world" where
  "by_hand_step x n f =
     on_db (by_hand (px_faults x n) (\<lambda>d. case f d of (Inl e, d1) \<Rightarrow> (Inl e, d1) | (Inr y, d1) \<Rightarrow> (Inr (Some y), d1)))"

text \<open>\<open>try { m } catch { log }\<close>, and a promise that is not awaited.\<close>

definition swallowed :: "(world \<Rightarrow> 'a result \<times> world) \<Rightarrow> world \<Rightarrow> unit result \<times> world" where
  "swallowed m w = (Inr (), snd (m w))"

definition actor_audit :: "request_actor \<Rightarrow> string \<Rightarrow> string \<Rightarrow> time_ms \<Rightarrow> audit_row" where
  "actor_audit a action target now =
     \<lparr>au_organization_id = Some (ra_organizationId a), au_actor_user_id = Some (aw_userId (ra_user a)),
      au_actor_kind = ''user'', au_actor_label = Some (aw_email (ra_user a)), au_action = action,
      au_target_id = Some target, au_created_at = now\<rparr>"

text \<open>The journal bounds the label of the author and the identifier of the target.\<close>

definition journal :: "audit_row \<Rightarrow> db \<Rightarrow> unit result \<times> db" where
  "journal r d =
     (if length (coalesce_default (au_actor_label r) []) \<le> 200 \<and> length (coalesce_default (au_target_id r) []) \<le> 64
      then (Inr (), append_audit r d) else (Inl Check_violation, d))"

(* src api/routes.ts:145-169 audit *)
definition audit :: "api_env \<Rightarrow> nat \<Rightarrow> request_actor \<Rightarrow> string \<Rightarrow> string \<Rightarrow> world \<Rightarrow> unit result \<times> world" where
  "audit x n a action target =
     tenant_step x n (ra_organizationId a) (journal (actor_audit a action target (px_now x n)))"

section \<open>The envelope of a route\<close>

definition refused :: "access_error \<Rightarrow> api_reply" where
  "refused e = (case toHttpError e of (st, code) \<Rightarrow> fault_reply st code)"

definition resolve_world :: "crypto \<Rightarrow> api_env \<Rightarrow> string \<Rightarrow> world \<Rightarrow> session_context option result \<times> world" where
  "resolve_world c x token = on_db (resolveSession c (px_auth x) token)"

definition role_world :: "api_env \<Rightarrow> string \<Rightarrow> string \<Rightarrow> world \<Rightarrow> role option result \<times> world" where
  "role_world x uid org = on_db (resolveRole (px_auth x) uid org)"

text \<open>The work of a route, once its guard gave an actor: an exception becomes a 500.\<close>

(* src api/routes.ts:127-143 handle *)
definition settle :: "api_reply result \<times> world \<Rightarrow> api_reply \<times> world" where
  "settle rw = (case rw of (Inl e, w) \<Rightarrow> (refused (Other_access e), w) | (Inr r, w) \<Rightarrow> (r, w))"

definition handle_with :: "(access_error + request_actor) \<times> world \<Rightarrow>
    (request_actor \<Rightarrow> world \<Rightarrow> api_reply result \<times> world) \<Rightarrow> api_reply \<times> world" where
  "handle_with g work =
     (case g of
        (Inl e, w) \<Rightarrow> (refused e, w)
      | (Inr a, w) \<Rightarrow> settle (work a w))"

definition writes :: "api_deps \<Rightarrow> api_env \<Rightarrow> api_request \<Rightarrow> permission \<Rightarrow> world \<Rightarrow> (access_error + request_actor) \<times> world" where
  "writes v x q p = require (pd_crypto v) (resolve_world (pd_crypto v) x) (role_world x) (pq_http q) p"

definition reads :: "api_deps \<Rightarrow> api_env \<Rightarrow> api_request \<Rightarrow> permission \<Rightarrow> world \<Rightarrow> (access_error + request_actor) \<times> world" where
  "reads v x q p = requireRead (resolve_world (pd_crypto v) x) (role_world x) (pq_http q) p"

text \<open>\<open>guard.actor\<close>, with or without \<open>verifyCsrf\<close> before it.\<close>

definition acts :: "bool \<Rightarrow> api_deps \<Rightarrow> api_env \<Rightarrow> api_request \<Rightarrow> world \<Rightarrow> (access_error + request_actor) \<times> world" where
  "acts csrf v x q w =
     (case (if csrf then verifyCsrf (pd_crypto v) (pq_http q) else Inr ()) of
        Inl e \<Rightarrow> (Inl e, w)
      | Inr _ \<Rightarrow> actor (resolve_world (pd_crypto v) x) (role_world x) (pq_http q) w)"

section \<open>Scope\<close>

lemma resolveSession_confined: "confined o' d (snd (resolveSession c e token d))"
  by (simp add: resolveSession_def see_session_def split: option.split)

lemma resolve_world_scoped: "scoped o' w (snd (resolve_world c x token w))"
  unfolding resolve_world_def by (rule scoped_on_db) (rule resolveSession_confined)

lemma role_world_state: "snd (role_world x uid org w) = w"
  using resolveRole_state [of "px_auth x" uid org "wd_db w"]
  by (cases "resolveRole (px_auth x) uid org (wd_db w)") (simp add: role_world_def on_db_def)

lemma and_then_scoped:
  assumes "scoped org w (snd (m w))" and "\<And>y. scoped org (snd (m w)) (snd (k y (snd (m w))))"
  shows "scoped org w (snd (and_then m k w))"
proof -
  obtain r w1 where m: "m w = (r, w1)" by fastforce
  show ?thesis
  proof (cases r)
    case (Inr y)
    have "scoped org w (snd (k y w1))" by (rule scoped_trans [of org w w1]) (use assms m in auto)
    then show ?thesis by (simp add: and_then_def m Inr)
  qed (use assms(1) m in \<open>simp add: and_then_def\<close>)
qed

lemma give_scoped: "scoped org w (snd (give y w))"
  by (simp add: give_def)

lemma tenant_step_scoped:
  "(\<And>r d'. f (wd_db w) = (Inr r, d') \<Longrightarrow> confined org (wd_db w) d') \<Longrightarrow> scoped org w (snd (tenant_step x n org f w))"
  unfolding tenant_step_def by (rule scoped_tx)

lemma audit_scoped: "scoped (ra_organizationId a) w (snd (audit x n a action target w))"
  unfolding audit_def
  by (rule tenant_step_scoped) (auto simp: journal_def actor_audit_def intro!: confined_audit split: if_splits)

lemma plain_step_scoped:
  assumes "\<And>r d'. f (wd_db w) = (Inr r, d') \<Longrightarrow> confined org (wd_db w) d'"
  shows "scoped org w (snd (plain_step x n f w))"
  unfolding plain_step_def
proof (rule scoped_on_db)
  obtain r d' where "statement (px_fail x n) f (wd_db w) = (r, d')" by fastforce
  then show "confined org (wd_db w) (snd (statement (px_fail x n) f (wd_db w)))"
    using assms statement_Inr statement_Inl by (cases r) fastforce+
qed

text \<open>The contract of the guard, over the state of the platform.\<close>

interpretation platform_authority: session_authority "resolve_world c x" "role_world x"
    "\<lambda>t w. live_session c (ae_db (px_auth x) 0) t (wd_db w)" "\<lambda>u o' w. accepted_role u o' (wd_db w)" for c x
proof
  fix token w ctx w'
  assume r: "resolve_world c x token w = (Inr (Some ctx), w')"
  obtain r0 d' where "resolveSession c (px_auth x) token (wd_db w) = (r0, d')" by fastforce
  with r show "live_session c (ae_db (px_auth x) 0) token (wd_db w) ctx"
    using authority.resolve_live by (auto simp: resolve_world_def on_db_def)
next
  fix u o' token w
  show "accepted_role u o' (wd_db (snd (resolve_world c x token w))) = accepted_role u o' (wd_db w)"
    using authority.resolve_member [of u o' c "px_auth x" token "wd_db w"]
    by (cases "resolveSession c (px_auth x) token (wd_db w)") (simp add: resolve_world_def on_db_def)
next
  fix u o' w r w'
  assume "role_world x u o' w = (Inr r, w')"
  then show "r = accepted_role u o' (wd_db w)"
    using authority.role_member [of "px_auth x" u o' "wd_db w"]
    by (cases "resolveRole (px_auth x) u o' (wd_db w)") (simp add: role_world_def on_db_def)
next
  fix u o' w
  show "snd (role_world x u o' w) = w" by (rule role_world_state)
qed

lemma actor_scoped: "scoped o' w (snd (actor (resolve_world c x) (role_world x) q w))"
proof (cases "hq_cookies q session_cookie")
  case (Some token)
  obtain r w1 where r: "resolve_world c x token w = (r, w1)" by fastforce
  have s: "scoped o' w w1" using resolve_world_scoped [of o' w c x token] r by simp
  have "snd (case role_world x u org w1 of (Inl e, w2) \<Rightarrow> (Inl (Other_access e), w2)
      | (Inr None, w2) \<Rightarrow> (Inl (Unauthorized m), w2) | (Inr (Some ro), w2) \<Rightarrow> (Inr (f ro), w2)) = w1" for u org m and f :: "role \<Rightarrow> request_actor"
    using role_world_state [of x u org w1] by (auto split: prod.split sum.split option.split)
  then have "snd (actor (resolve_world c x) (role_world x) q w) = w \<or> snd (actor (resolve_world c x) (role_world x) q w) = w1"
    using Some r by (auto simp: actor_def split: sum.split option.split list.split)
  with s show ?thesis by auto
qed (simp add: actor_def)

lemma guards_scoped:
  "scoped o' w (snd (writes v x q p w))" "scoped o' w (snd (reads v x q p w))" "scoped o' w (snd (acts b v x q w))"
proof -
  have r: "snd (requireRead (resolve_world (pd_crypto v) x) (role_world x) (pq_http q) p w) =
      snd (actor (resolve_world (pd_crypto v) x) (role_world x) (pq_http q) w)"
    by (simp add: requireRead_def split: prod.split sum.split)
  show "scoped o' w (snd (reads v x q p w))" by (simp add: reads_def r actor_scoped)
  then show "scoped o' w (snd (writes v x q p w))"
    by (simp add: writes_def require_def reads_def split: sum.split)
  show "scoped o' w (snd (acts b v x q w))" by (simp add: acts_def actor_scoped split: sum.split)
qed

lemma settle_snd [simp]: "snd (settle rw) = snd rw"
  by (cases rw; cases "fst rw") (auto simp: settle_def)

text \<open>A route whose work is scoped to the organization of its actor.\<close>

lemma handle_with_scoped:
  assumes "scoped o' w (snd g)" and "\<And>a w1. g = (Inr a, w1) \<Longrightarrow> ra_organizationId a = o' \<Longrightarrow> scoped o' w1 (snd (work a w1))"
    and "\<And>a w1. g = (Inr a, w1) \<Longrightarrow> ra_organizationId a = o'"
  shows "scoped o' w (snd (handle_with g work))"
proof -
  obtain r w1 where g: "g = (r, w1)" by fastforce
  show ?thesis
  proof (cases r)
    case (Inr a)
    have "scoped o' w (snd (work a w1))"
      by (rule scoped_trans [of o' w w1]) (use assms g Inr in auto)
    then show ?thesis by (simp add: handle_with_def g Inr)
  qed (use assms(1) g in \<open>simp add: handle_with_def\<close>)
qed


section \<open>Reading a route backwards\<close>

text \<open>From the reply of a route to its steps: the collection the proofs on routes share.\<close>

definition only_sessions :: "world \<Rightarrow> world \<Rightarrow> bool" where
  "only_sessions w w' = (\<exists>ss. w' = w\<lparr>wd_db := (wd_db w)\<lparr>sessions := ss\<rparr>\<rparr>)"

lemma only_sessions_refl [simp]: "only_sessions w w"
  unfolding only_sessions_def by (intro exI [of _ "sessions (wd_db w)"]) simp

lemma resolve_world_sessions: "only_sessions w (snd (resolve_world c x token w))"
proof -
  have "\<exists>ss. snd (resolveSession c e token d) = d\<lparr>sessions := ss\<rparr>" for e d
  proof (cases "resolveSession c e token d")
    case (Pair r d')
    then show ?thesis
      by (auto simp: resolveSession_def see_session_def split: option.splits if_splits intro: exI [of _ "sessions d"])
  qed
  then obtain ss where ss: "snd (resolveSession c (px_auth x) token (wd_db w)) = (wd_db w)\<lparr>sessions := ss\<rparr>" by blast
  show ?thesis unfolding only_sessions_def
    by (rule exI [of _ ss]) (cases "resolveSession c (px_auth x) token (wd_db w)", use ss in \<open>simp add: resolve_world_def on_db_def\<close>)
qed

lemma actor_sessions: "only_sessions w (snd (actor (resolve_world c x) (role_world x) q w))"
proof (cases "hq_cookies q session_cookie")
  case (Some token)
  obtain r w1 where r: "resolve_world c x token w = (r, w1)" by fastforce
  have s: "only_sessions w w1" using resolve_world_sessions [of w c x token] r by simp
  have "snd (case role_world x u org w1 of (Inl e, w2) \<Rightarrow> (Inl (Other_access e), w2)
      | (Inr None, w2) \<Rightarrow> (Inl (Unauthorized m), w2) | (Inr (Some ro), w2) \<Rightarrow> (Inr (f ro), w2)) = w1" for u org m and f :: "role \<Rightarrow> request_actor"
    using role_world_state [of x u org w1] by (auto split: prod.split sum.split option.split)
  then have "snd (actor (resolve_world c x) (role_world x) q w) = w \<or> snd (actor (resolve_world c x) (role_world x) q w) = w1"
    using Some r by (auto simp: actor_def split: sum.split option.split list.split)
  with s show ?thesis by auto
qed (simp add: actor_def)

lemma guards_sessions:
  "only_sessions w (snd (writes v x q p w))" "only_sessions w (snd (reads v x q p w))" "only_sessions w (snd (acts b v x q w))"
proof -
  have r: "snd (requireRead (resolve_world (pd_crypto v) x) (role_world x) (pq_http q) p w) =
      snd (actor (resolve_world (pd_crypto v) x) (role_world x) (pq_http q) w)"
    by (simp add: requireRead_def split: prod.split sum.split)
  show "only_sessions w (snd (reads v x q p w))" by (simp add: reads_def r actor_sessions)
  then show "only_sessions w (snd (writes v x q p w))"
    by (simp add: writes_def require_def reads_def split: sum.split)
  show "only_sessions w (snd (acts b v x q w))" by (simp add: acts_def actor_sessions split: sum.split)
qed

lemma writes_can: "writes v x q p w = (Inr a, w1) \<Longrightarrow> can (ra_role a) p"
  by (auto simp: writes_def require_def requireRead_def assertCan_def split: sum.splits prod.splits if_splits)

lemma refused_status: "ar_status (refused e) \<in> {401, 403, 500}"
  by (cases e) (simp_all add: refused_def toHttpError_def fault_reply_def reply_def)

text \<open>
  \<open>wp m Q E w\<close>: run in \<open>w\<close>, \<open>m\<close> ends in a result and a world that satisfy \<open>Q\<close>, or throws in a world
  that satisfies \<open>E\<close>. The equations of the collection \<open>wp\<close> walk through the steps of a route.
\<close>

named_theorems wp

definition wp :: "(world \<Rightarrow> 'a result \<times> world) \<Rightarrow> ('a \<Rightarrow> world \<Rightarrow> bool) \<Rightarrow> (world \<Rightarrow> bool) \<Rightarrow> world \<Rightarrow> bool" where
  "wp m Q E w = (case m w of (Inl e, w') \<Rightarrow> E w' | (Inr x, w') \<Rightarrow> Q x w')"

lemma wp_and_then [wp]: "wp (and_then m k) Q E w = wp m (\<lambda>x. wp (k x) Q E) E w"
  by (simp add: wp_def and_then_def split: prod.split sum.split)

lemma wp_give [wp]: "wp (give y) Q E w = Q y w"
  by (simp add: wp_def give_def)

lemma wp_if [wp]: "wp (if b then m else n) Q E w = (if b then wp m Q E w else wp n Q E w)"
  by simp

lemma wp_case_option [wp]:
  "wp (case y of None \<Rightarrow> m | Some z \<Rightarrow> k z) Q E w = (case y of None \<Rightarrow> wp m Q E w | Some z \<Rightarrow> wp (k z) Q E w)"
  by (cases y) simp_all

lemma wp_case_prod [wp]: "wp (case y of (z1, z2) \<Rightarrow> k z1 z2) Q E w = (case y of (z1, z2) \<Rightarrow> wp (k z1 z2) Q E w)"
  by (cases y) simp

lemma wp_tenant:
  assumes "E w" and "\<And>r d'. org_id_ok org \<Longrightarrow> f (wd_db w) = (Inr r, d') \<Longrightarrow> Q r (w\<lparr>wd_db := d'\<rparr>)"
  shows "wp (tenant_step x n org f) Q E w"
proof -
  obtain r w' where t: "world_tx org (px_faults x n) f w = (r, w')" by fastforce
  show ?thesis
  proof (cases r)
    case (Inl e)
    with t world_tx_Inl assms(1) show ?thesis by (fastforce simp: wp_def tenant_step_def)
  next
    case (Inr y)
    note wr = world_tx_Inr [OF t [unfolded Inr]]
    from assms(2) [OF wr(2,1)] wr(4) show ?thesis by (simp add: wp_def tenant_step_def t Inr)
  qed
qed

lemma wp_plain:
  assumes "E w" and "\<And>r d'. f (wd_db w) = (Inr r, d') \<Longrightarrow> Q r (w\<lparr>wd_db := d'\<rparr>)"
  shows "wp (plain_step x n f) Q E w"
proof -
  obtain r d' where t: "statement (px_fail x n) f (wd_db w) = (r, d')" by fastforce
  show ?thesis
  proof (cases r)
    case (Inl e)
    from statement_Inl [OF t [unfolded Inl]] assms(1) show ?thesis by (simp add: wp_def plain_step_def on_db_def t Inl)
  next
    case (Inr y)
    from statement_Inr [OF t [unfolded Inr]] have "Q y (w\<lparr>wd_db := d'\<rparr>)" by (blast intro: assms(2))
    then show ?thesis by (simp add: wp_def plain_step_def on_db_def t Inr)
  qed
qed

lemma wp_on_db:
  assumes "\<And>e d'. op (wd_db w) = (Inl e, d') \<Longrightarrow> E (w\<lparr>wd_db := d'\<rparr>)"
    and "\<And>r d'. op (wd_db w) = (Inr r, d') \<Longrightarrow> Q r (w\<lparr>wd_db := d'\<rparr>)"
  shows "wp (on_db op) Q E w"
  using assms by (simp add: wp_def on_db_def split: prod.split sum.split)

lemma wp_platform:
  assumes "E w" and "\<And>r d'. f (wd_db w) = (Inr r, d') \<Longrightarrow> Q r (w\<lparr>wd_db := d'\<rparr>)"
  shows "wp (platform_step x n f) Q E w"
proof -
  obtain r d' where t: "platform_db (px_faults x n) (\<lambda>s. f) (wd_db w) = (r, d')" by fastforce
  show ?thesis
  proof (cases r)
    case (Inl e)
    from platform_db_Inl [OF t [unfolded Inl]] assms(1) show ?thesis
      by (simp add: wp_def platform_step_def on_db_def t Inl)
  next
    case (Inr y)
    from platform_db_Inr [OF t [unfolded Inr]] have "Q y (w\<lparr>wd_db := d'\<rparr>)" by (blast intro: assms(2))
    then show ?thesis by (simp add: wp_def platform_step_def on_db_def t Inr)
  qed
qed

lemma wp_by_hand:
  assumes "E w" and "\<And>r d'. f (wd_db w) = (Inr r, d') \<Longrightarrow> Q (Some r) (w\<lparr>wd_db := d'\<rparr>)"
  shows "wp (by_hand_step x n f) Q E w"
proof (cases "f (wd_db w)")
  case (Pair r d')
  have same: "w\<lparr>wd_db := wd_db w\<rparr> = w" by simp
  show ?thesis
    using assms Pair by (cases r) (simp_all add: wp_def by_hand_step_def on_db_def by_hand_def same)
qed

lemma wp_swallowed [wp]: "wp (swallowed m) Q E w = wp m (\<lambda>_. Q ()) (Q ()) w"
  by (simp add: wp_def swallowed_def split: prod.split sum.split)

text \<open>The journal is written, or its transaction fails and nothing is.\<close>

lemma wp_audit:
  assumes "E w" and "Q () (w\<lparr>wd_db := append_audit (actor_audit a action target (px_now x n)) (wd_db w)\<rparr>)"
  shows "wp (audit x n a action target) Q E w"
  unfolding audit_def by (rule wp_tenant) (use assms in \<open>auto simp: journal_def split: if_splits\<close>)

lemma routed:
  assumes "handle_with g work = (r, w')" and "\<And>e w1. g = (Inl e, w1) \<Longrightarrow> Q (refused e) w1"
    and "\<And>a w1. g = (Inr a, w1) \<Longrightarrow> wp (work a) Q (\<lambda>w2. \<forall>e. Q (refused (Other_access e)) w2) w1"
  shows "Q r w'"
proof -
  obtain y w1 where g: "g = (y, w1)" by fastforce
  show ?thesis
  proof (cases y)
    case (Inl e)
    with assms g show ?thesis by (simp add: handle_with_def)
  next
    case (Inr a)
    obtain z w2 where k: "work a w1 = (z, w2)" by fastforce
    with assms(1,3) g Inr show ?thesis by (cases z) (auto simp: handle_with_def settle_def wp_def)
  qed
qed

text \<open>A refusal is none of the replies of a route that did its work.\<close>

lemma refused_not [simp]:
  "ar_status (refused e) \<noteq> 200" "ar_status (refused e) \<noteq> 201" "ar_status (refused e) \<noteq> 202" "ar_status (refused e) \<noteq> 402"
  "ar_status (refused e) \<noteq> 404"
  using refused_status [of e] by auto

lemma replies_status [simp]:
  "ar_status (reply n b) = n" "ar_status (fault_reply n s) = n" "ar_status not_found = 404" "ar_status invalid = 400"
  "ar_status status_ok = 200"
  by (simp_all add: reply_def fault_reply_def not_found_def invalid_def status_ok_def)

lemma tenant_step_runs:
  "org_id_ok org \<Longrightarrow> px_faults x n = no_faults \<Longrightarrow> f (wd_db w) = (Inr r, d') \<Longrightarrow>
   tenant_step x n org f w = (Inr r, w\<lparr>wd_db := d'\<rparr>)"
  by (simp add: tenant_step_def world_tx_ok)

text \<open>The journal, when its transaction does not fail and the row fits.\<close>

lemma audit_runs:
  "org_id_ok (ra_organizationId a) \<Longrightarrow> px_faults x n = no_faults \<Longrightarrow> length (aw_email (ra_user a)) \<le> 200 \<Longrightarrow> length target \<le> 64 \<Longrightarrow>
   audit x n a action target w = (Inr (), w\<lparr>wd_db := append_audit (actor_audit a action target (px_now x n)) (wd_db w)\<rparr>)"
  unfolding audit_def by (rule tenant_step_runs) (simp_all add: journal_def actor_audit_def)

end
