(* ===== verification/Api_Members.thy ===== *)
theory Api_Members
  imports Api_Base Schemas
begin

text \<open>
  \<open>apps/api/src/api/routes.ts\<close>: authentication, sessions, members and invitations. The login by
  Discord is \<open>Api_Discord\<close>.
\<close>

section \<open>Schemas\<close>

definition z_email :: "(string \<Rightarrow> bool) \<Rightarrow> json \<Rightarrow> string option" where
  "z_email email_ok = z_matching (\<lambda>s. email_ok s \<and> length s \<le> 254)"

definition z_default :: "string \<Rightarrow> (json \<Rightarrow> 'a option) \<Rightarrow> 'a \<Rightarrow> (string \<times> json) list \<Rightarrow> 'a option" where
  "z_default k p dflt fs = (case obj_get k fs of None \<Rightarrow> Some dflt | Some v \<Rightarrow> p v)"

(* src api/routes.ts:64-71 registerSchema *)
definition registerSchema :: "(string \<Rightarrow> bool) \<Rightarrow> json \<Rightarrow> register_input option" where
  "registerSchema email_ok j = do {
     fs \<leftarrow> z_object [''email'', ''password'', ''display_name'', ''organization_name''] j;
     email \<leftarrow> z_field ''email'' (z_email email_ok) fs;
     password \<leftarrow> z_field ''password'' (z_string 12 256) fs;
     name \<leftarrow> z_field ''display_name'' (z_string 1 80) fs;
     org \<leftarrow> z_field ''organization_name'' (z_string 1 120) fs;
     Some \<lparr>rg_email = email, rg_password = password, rg_displayName = name, rg_organizationName = org\<rparr>
   }"

(* src api/routes.ts:73-75 loginSchema *)
definition loginSchema :: "(string \<Rightarrow> bool) \<Rightarrow> json \<Rightarrow> (string \<times> string) option" where
  "loginSchema email_ok j = do {
     fs \<leftarrow> z_object [''email'', ''password''] j;
     email \<leftarrow> z_field ''email'' (z_email email_ok) fs;
     password \<leftarrow> z_field ''password'' (z_string 1 256) fs;
     Some (email, password)
   }"

definition z_role :: "role list \<Rightarrow> json \<Rightarrow> role option" where
  "z_role rs = z_enum (map (\<lambda>r. (role_name r, r)) rs)"

definition roleSchema :: "json \<Rightarrow> role option" where
  "roleSchema j = do { fs \<leftarrow> z_object [''role''] j; z_field ''role'' (z_role [OWNER, ADMIN, STAFF, VIEWER]) fs }"

(* src api/routes.ts:638-641 inviteCreateSchema *)
definition inviteCreateSchema :: "(string \<Rightarrow> bool) \<Rightarrow> json \<Rightarrow> (string \<times> role) option" where
  "inviteCreateSchema email_ok j = do {
     fs \<leftarrow> z_object [''email'', ''role''] j;
     email \<leftarrow> z_field ''email'' (z_email email_ok) fs;
     r \<leftarrow> z_default ''role'' (z_role [ADMIN, STAFF, VIEWER]) STAFF fs;
     Some (email, r)
   }"

record accept_input =
  ac_code :: string
  ac_display_name :: string
  ac_password :: string

(* src api/routes.ts:642-648 inviteAcceptSchema *)
definition inviteAcceptSchema :: "json \<Rightarrow> accept_input option" where
  "inviteAcceptSchema j = do {
     fs \<leftarrow> z_object [''code'', ''display_name'', ''password''] j;
     code \<leftarrow> z_field ''code'' (z_string 10 400) fs;
     name \<leftarrow> z_field ''display_name'' (z_string 1 80) fs;
     password \<leftarrow> z_field ''password'' (z_string 12 256) fs;
     Some \<lparr>ac_code = code, ac_display_name = name, ac_password = password\<rparr>
   }"

section \<open>Authentication\<close>

(* src api/routes.ts:62-62 SESSION_TTL *)
definition session_ttl :: int where "session_ttl = 60 * 60 * 12"

text \<open>The two cookies of a session that opens.\<close>

definition opened :: "api_deps \<Rightarrow> api_env \<Rightarrow> int \<Rightarrow> string \<Rightarrow> (string \<times> json) list \<Rightarrow> api_reply" where
  "opened v x st token body =
     \<lparr>ar_status = st, ar_body = body,
      ar_cookies = [(session_cookie, token, cookieOptions (pd_production v) session_ttl),
                    snd (issueCsrfToken (pd_production v) (px_csrf32 x))]\<rparr>"

definition csrf_field :: "api_deps \<Rightarrow> api_env \<Rightarrow> string \<times> json" where
  "csrf_field v x = (''csrf_token'', JStr (fst (issueCsrfToken (pd_production v) (px_csrf32 x))))"

(* src api/routes.ts:175-200 register *)
definition registerRoute :: "bool \<Rightarrow> api_deps \<Rightarrow> api_env \<Rightarrow> api_request \<Rightarrow> world \<Rightarrow> api_reply \<times> world" where
  "registerRoute allowed v x q w =
     (if \<not> allowed then (fault_reply 403 ''registration_disabled'', w)
      else (case registerSchema (pd_email_ok v) (pq_body q) of
          None \<Rightarrow> (reply 400 ((''error'', JStr ''validation'') # px_issue x), w)
        | Some i \<Rightarrow> settle (and_then (on_db (register (pd_slug_fold v) (pd_crypto v) (px_auth x) i))
            (\<lambda>_. give (reply 202 [(''status'', JStr ''pending_verification'')])) w)))"

(* src api/routes.ts:202-233 login *)
definition loginRoute :: "api_deps \<Rightarrow> api_env \<Rightarrow> api_request \<Rightarrow> world \<Rightarrow> api_reply \<times> world" where
  "loginRoute v x q w =
     (case loginSchema (pd_email_ok v) (pq_body q) of
        None \<Rightarrow> (invalid, w)
      | Some (email, password) \<Rightarrow>
          settle (and_then (on_db (login (pd_js v) (pd_crypto v) (px_auth x) email password)) (\<lambda>out.
            give (case out of
                Login_locked n \<Rightarrow> reply 429 [(''error'', JStr ''account_locked''), (''retry_after'', JInt n)]
              | Login_invalid \<Rightarrow> fault_reply 401 ''invalid_credentials''
              | Login_mfa_required token s \<Rightarrow>
                  opened v x 200 token [(''status'', JStr ''mfa_required''), csrf_field v x,
                    (''organization_id'', j_opt JStr (sr_organizationId s))]
              | Login_ok token s \<Rightarrow>
                  opened v x 200 token [(''status'', JStr ''ok''), csrf_field v x,
                    (''organization_id'', j_opt JStr (sr_organizationId s))])) w))"

definition cleared_session :: "string \<times> string \<times> cookie_options" where
  "cleared_session = (session_cookie, [], (cookieOptions False 0))"

(* src api/routes.ts:235-241 logout *)
definition logoutRoute :: "api_deps \<Rightarrow> api_env \<Rightarrow> api_request \<Rightarrow> world \<Rightarrow> api_reply \<times> world" where
  "logoutRoute v x q w =
     (case verifyCsrf (pd_crypto v) (pq_http q) of
        Inl e \<Rightarrow> (refused e, w)
      | Inr _ \<Rightarrow>
          (case pendingActor (resolve_world (pd_crypto v) x) (pq_http q) w of
             (Inl e, w1) \<Rightarrow> (refused e, w1)
           | (Inr ctx, w1) \<Rightarrow>
               settle (and_then (plain_step x 0 (\<lambda>d. (Inr (), revoke_sessions (\<lambda>s. se_id s = sr_id (sc_session ctx)) (px_now x 0) d)))
                 (\<lambda>_. give (status_ok\<lparr>ar_cookies := [cleared_session]\<rparr>)) w1)))"

(* src api/routes.ts:403-424 switch-organization *)
definition switchRoute :: "api_deps \<Rightarrow> api_env \<Rightarrow> api_request \<Rightarrow> world \<Rightarrow> api_reply \<times> world" where
  "switchRoute v x q w =
     handle_with (acts True v x q w) (\<lambda>a.
       case (do { fs \<leftarrow> z_object [''organization_id''] (pq_body q); z_field ''organization_id'' (z_string 0 64) fs }) of
         None \<Rightarrow> give invalid
       | Some org \<Rightarrow>
           and_then (on_db (switchOrganization (px_auth x) (sr_id (ra_session a)) (aw_userId (ra_user a)) org))
             (\<lambda>switched. give (if switched then status_ok else not_found)))"

(* src api/routes.ts:439-459 sessions/delete *)
definition revokeSessionRoute :: "api_deps \<Rightarrow> api_env \<Rightarrow> api_request \<Rightarrow> world \<Rightarrow> api_reply \<times> world" where
  "revokeSessionRoute v x q w =
     handle_with (acts True v x q w) (\<lambda>a.
       (let P = (\<lambda>s. se_id s = pq_id q \<and> se_user_id s = aw_userId (ra_user a)) in
        and_then (plain_step x 0 (\<lambda>d. (Inr (exists_row (\<lambda>s. P s \<and> se_revoked_at s = None) (sessions d)),
                                        revoke_sessions P (px_now x 0) d)))
          (\<lambda>found. give (if found then status_ok else not_found))))"

section \<open>Members\<close>

datatype member_outcome = Member_missing | Member_refused role_change_refusal | Member_done role string

definition owner_count :: "string \<Rightarrow> db \<Rightarrow> nat" where
  "owner_count org d = row_count (\<lambda>m. me_organization_id m = org \<and> me_role m = OWNER) (memberships d)"

definition the_member :: "string \<Rightarrow> string \<Rightarrow> membership_row \<Rightarrow> bool" where
  "the_member org mid m = (me_id m = mid \<and> me_organization_id m = org)"

primrec refusal_name :: "role_change_refusal \<Rightarrow> string" where
  "refusal_name Self_elevation = ''self_elevation''"
| "refusal_name Self_demotion_last_owner = ''self_demotion_last_owner''"
| "refusal_name Owner_requires_owner = ''owner_requires_owner''"
| "refusal_name Last_owner_removal = ''last_owner_removal''"
| "refusal_name Insufficient_permission = ''insufficient_permission''"

(* src api/routes.ts:516-551 memberships/patch/transaction *)
definition member_role_tx :: "request_actor \<Rightarrow> string \<Rightarrow> role \<Rightarrow> db \<Rightarrow> member_outcome result \<times> db" where
  "member_role_tx a mid new d =
     (let org = ra_organizationId a in
      case first_row (the_member org mid) (memberships d) of
        None \<Rightarrow> (Inr Member_missing, d)
      | Some t \<Rightarrow>
          (case checkRoleChange \<lparr>rc_actorRole = ra_role a, rc_actorUserId = aw_userId (ra_user a),
                  rc_targetUserId = me_user_id t, rc_targetCurrentRole = me_role t, rc_targetNewRole = new,
                  rc_ownerCount = owner_count org d\<rparr> of
             Some r \<Rightarrow> (Inr (Member_refused r), d)
           | None \<Rightarrow> (Inr (Member_done (me_role t) (me_user_id t)),
               d\<lparr>memberships := sql_update (the_member org mid) (\<lambda>m. m\<lparr>me_role := new\<rparr>) (memberships d)\<rparr>)))"

definition member_answer :: "(role \<Rightarrow> string \<Rightarrow> world \<Rightarrow> api_reply result \<times> world) \<Rightarrow> member_outcome \<Rightarrow>
    world \<Rightarrow> api_reply result \<times> world" where
  "member_answer k out =
     (case out of
        Member_missing \<Rightarrow> give not_found
      | Member_refused r \<Rightarrow> give (reply 403 [(''error'', JStr ''forbidden''), (''reason'', JStr (refusal_name r))])
      | Member_done previous uid \<Rightarrow> k previous uid)"

(* src api/routes.ts:507-568 memberships/patch *)
definition patchMembership :: "api_deps \<Rightarrow> api_env \<Rightarrow> api_request \<Rightarrow> world \<Rightarrow> api_reply \<times> world" where
  "patchMembership v x q w =
     handle_with (writes v x q Member_manage w) (\<lambda>a.
       case roleSchema (pq_body q) of
         None \<Rightarrow> give invalid
       | Some new \<Rightarrow>
           and_then (tenant_step x 0 (ra_organizationId a) (member_role_tx a (pq_id q) new)) (member_answer (\<lambda>previous uid.
             and_then (audit x 1 a ''member.role_changed'' (pq_id q)) (\<lambda>_. give status_ok))))"

(* src api/routes.ts:574-603 memberships/delete/transaction *)
definition member_removal_tx :: "request_actor \<Rightarrow> string \<Rightarrow> db \<Rightarrow> member_outcome result \<times> db" where
  "member_removal_tx a mid d =
     (let org = ra_organizationId a in
      case first_row (the_member org mid) (memberships d) of
        None \<Rightarrow> (Inr Member_missing, d)
      | Some t \<Rightarrow>
          (case checkMemberRemoval \<lparr>mr_actorRole = ra_role a, mr_actorUserId = aw_userId (ra_user a),
                  mr_targetUserId = me_user_id t, mr_targetRole = me_role t, mr_ownerCount = owner_count org d\<rparr> of
             Some r \<Rightarrow> (Inr (Member_refused r), d)
           | None \<Rightarrow> (Inr (Member_done (me_role t) (me_user_id t)),
               d\<lparr>memberships := sql_delete (the_member org mid) (memberships d)\<rparr>)))"

(* src api/routes.ts:570-625 memberships/delete *)
definition deleteMembership :: "api_deps \<Rightarrow> api_env \<Rightarrow> api_request \<Rightarrow> world \<Rightarrow> api_reply \<times> world" where
  "deleteMembership v x q w =
     handle_with (writes v x q Member_manage w) (\<lambda>a.
       and_then (tenant_step x 0 (ra_organizationId a) (member_removal_tx a (pq_id q))) (member_answer (\<lambda>previous uid.
         and_then (plain_step x 1 (\<lambda>d. (Inr (),
             revoke_sessions (\<lambda>s. se_user_id s = uid \<and> se_organization_id s = Some (ra_organizationId a)) (px_now x 1) d))) (\<lambda>_.
         and_then (audit x 2 a ''member.removed'' (pq_id q)) (\<lambda>_. give status_ok)))))"

section \<open>Invitations\<close>

(* src api/routes.ts:649-649 INVITE_TTL_DAYS *)
definition invite_ttl_days :: int where "invite_ttl_days = 7"

definition same_invitation :: "string \<Rightarrow> string \<Rightarrow> invitation_row \<Rightarrow> bool" where
  "same_invitation org email r = (iv_organization_id r = org \<and> citext_eq (iv_email r) email)"

text \<open>\<open>INSERT \<dots> ON CONFLICT (organization_id, email) DO UPDATE\<close>; the hash stays unique.\<close>

(* src api/routes.ts:675-686 invitations/post/insert *)
definition upsert_invitation :: "invitation_row \<Rightarrow> db \<Rightarrow> unit result \<times> db" where
  "upsert_invitation i d =
     (let same = same_invitation (iv_organization_id i) (iv_email i) in
      if exists_row (\<lambda>r. iv_token_hash r = iv_token_hash i \<and> \<not> same r) (invitations d) then (Inl Unique_violation, d)
      else if exists_row same (invitations d)
      then (Inr (), d\<lparr>invitations := sql_update same
             (\<lambda>r. r\<lparr>iv_role := iv_role i, iv_token_hash := iv_token_hash i, iv_invited_by := iv_invited_by i,
                    iv_expires_at := iv_expires_at i, iv_accepted_at := None\<rparr>) (invitations d)\<rparr>)
      else if exists_row (\<lambda>r. iv_id r = iv_id i) (invitations d) then (Inl Unique_violation, d)
      else if \<not> organization_exists (iv_organization_id i) d then (Inl Foreign_key_violation, d)
      else (Inr (), d\<lparr>invitations := invitations d @ [i]\<rparr>))"

(* src api/routes.ts:664-693 invitations/post *)
definition createInvitation :: "api_deps \<Rightarrow> api_env \<Rightarrow> api_request \<Rightarrow> world \<Rightarrow> api_reply \<times> world" where
  "createInvitation v x q w =
     handle_with (writes v x q Member_manage w) (\<lambda>a.
       case inviteCreateSchema (pd_email_ok v) (pq_body q) of
         None \<Rightarrow> give (reply 400 ((''error'', JStr ''validation'') # px_issue x))
       | Some (email, r) \<Rightarrow>
           (let code = newOpaqueToken (px_random32 x); i = px_ids x 0;
                expiresAt = px_js x 0 + invite_ttl_days * 24 * 3600 * 1000;
                row = \<lparr>iv_id = i, iv_organization_id = ra_organizationId a, iv_email = email, iv_role = r,
                       iv_token_hash = hashToken (pd_crypto v) code, iv_invited_by = Some (aw_userId (ra_user a)),
                       iv_expires_at = expiresAt, iv_accepted_at = None\<rparr>
            in and_then (tenant_step x 0 (ra_organizationId a) (upsert_invitation row)) (\<lambda>_.
               and_then (audit x 1 a ''invitation.created'' i) (\<lambda>_.
               give (reply 201 [(''code'', JStr code), (''email'', JStr email), (''role'', JStr (role_name r)),
                                (''expires_at'', JInt expiresAt)])))))"

(* src api/routes.ts:695-711 invitations/delete *)
definition deleteInvitation :: "api_deps \<Rightarrow> api_env \<Rightarrow> api_request \<Rightarrow> world \<Rightarrow> api_reply \<times> world" where
  "deleteInvitation v x q w =
     handle_with (writes v x q Member_manage w) (\<lambda>a.
       (let P = (\<lambda>i. iv_organization_id i = ra_organizationId a \<and> iv_id i = pq_id q \<and> iv_accepted_at i = None) in
        and_then (tenant_step x 0 (ra_organizationId a)
            (\<lambda>d. (Inr (exists_row P (invitations d)), d\<lparr>invitations := sql_delete P (invitations d)\<rparr>))) (\<lambda>found.
          if \<not> found then give not_found
          else and_then (audit x 1 a ''invitation.revoked'' (pq_id q)) (\<lambda>_. give status_ok))))"

(* src api/routes.ts:715-749 invitations/lookup *)
definition lookupInvitation :: "api_deps \<Rightarrow> api_env \<Rightarrow> api_request \<Rightarrow> world \<Rightarrow> api_reply \<times> world" where
  "lookupInvitation v x q w =
     (case map_of (pq_query q) ''code'' of
        None \<Rightarrow> (reply 400 [(''valid'', JBool False), (''error'', JStr ''validation'')], w)
      | Some code \<Rightarrow>
          if length code < 10 then (reply 400 [(''valid'', JBool False), (''error'', JStr ''validation'')], w)
          else settle (on_db (\<lambda>d.
            and_then (by_hand (px_faults x 0) (and_then (set_local (px_faults x 0)) (\<lambda>_.
                \<lambda>d. (Inr (Some (first_row (\<lambda>i. iv_token_hash i = hashToken (pd_crypto v) code \<and>
                       organization_exists (iv_organization_id i) d) (invitations d))), d)))) (\<lambda>found.
              give (case found of
                  Some (Some i) \<Rightarrow>
                    if iv_accepted_at i \<noteq> None then reply 200 [(''valid'', JBool False), (''error'', JStr ''already_accepted'')]
                    else if iv_expires_at i < px_js x 0 then reply 200 [(''valid'', JBool False), (''error'', JStr ''expired'')]
                    else reply 200 [(''valid'', JBool True),
                      (''organization_name'', j_opt JStr (map_option og_name
                         (first_row (\<lambda>o'. og_id o' = iv_organization_id i) (organizations d)))),
                      (''email'', JStr (iv_email i)), (''role'', JStr (role_name (iv_role i)))]
                | _ \<Rightarrow> reply 404 [(''valid'', JBool False), (''error'', JStr ''not_found'')])) d) w))"

text \<open>The account with the address of the invitation, or a new one.\<close>

(* src api/routes.ts:786-798 invitations/accept/user *)
definition invited_user :: "api_env \<Rightarrow> string \<Rightarrow> string \<Rightarrow> string \<Rightarrow> db \<Rightarrow> string result \<times> db" where
  "invited_user x email name hash d =
     (case account email d of
        Some u \<Rightarrow> (Inr (u_id u), d)
      | None \<Rightarrow>
          and_then (insert_user (new_user (px_ids x 0) email hash name (Some (px_now x 0)))) (\<lambda>_. give (px_ids x 0)) d)"

definition same_member :: "string \<Rightarrow> string \<Rightarrow> membership_row \<Rightarrow> bool" where
  "same_member org uid m = (me_organization_id m = org \<and> me_user_id m = uid)"

(* src api/routes.ts:803-809 invitations/accept/membership *)
definition upsert_membership :: "string \<Rightarrow> string \<Rightarrow> string \<Rightarrow> role \<Rightarrow> time_ms \<Rightarrow> db \<Rightarrow> unit result \<times> db" where
  "upsert_membership mid org uid r now d =
     (if exists_row (same_member org uid) (memberships d)
      then (Inr (), d\<lparr>memberships := sql_update (same_member org uid)
             (\<lambda>m. m\<lparr>me_role := r, me_accepted_at := Some now\<rparr>) (memberships d)\<rparr>)
      else insert_membership
             \<lparr>me_id = mid, me_organization_id = org, me_user_id = uid, me_role = r, me_invited_by = None,
              me_accepted_at = Some now, me_created_at = now\<rparr> d)"

(* src api/routes.ts:763-816 invitations/accept/transaction *)
definition accept_tx :: "crypto \<Rightarrow> api_env \<Rightarrow> accept_input \<Rightarrow> string \<Rightarrow> db \<Rightarrow> (string \<times> string) option result \<times> db" where
  "accept_tx c x i hash =
     and_then (set_local (px_faults x 0)) (\<lambda>_ d.
       case first_row (\<lambda>r. iv_token_hash r = hashToken c (ac_code i)) (invitations d) of
         None \<Rightarrow> (Inr None, d)
       | Some iv \<Rightarrow>
           if iv_accepted_at iv \<noteq> None \<or> iv_expires_at iv < px_js x 0 then (Inr None, d)
           else
             and_then (invited_user x (iv_email iv) (ac_display_name i) hash) (\<lambda>uid.
             and_then (upsert_membership (member_id (px_ids x 1)) (iv_organization_id iv) uid (iv_role iv) (px_now x 0)) (\<lambda>_ d.
             (Inr (Some (uid, iv_organization_id iv)),
              append_audit ((user_audit (Some (iv_organization_id iv)) uid ''invitation.accepted'' (px_now x 0))\<lparr>au_target_id := Some (iv_id iv)\<rparr>)
                (d\<lparr>invitations := sql_update (\<lambda>r. iv_id r = iv_id iv)
                   (\<lambda>r. r\<lparr>iv_accepted_at := Some (px_now x 0)\<rparr>) (invitations d)\<rparr>)))) d)"

(* src api/routes.ts:751-836 invitations/accept *)
definition acceptInvitation :: "api_deps \<Rightarrow> api_env \<Rightarrow> api_request \<Rightarrow> world \<Rightarrow> api_reply \<times> world" where
  "acceptInvitation v x q w =
     (case inviteAcceptSchema (pq_body q) of
        None \<Rightarrow> (reply 400 ((''error'', JStr ''validation'') # px_issue x), w)
      | Some i \<Rightarrow>
          (case hashPassword (pd_crypto v) (px_salt x) (ac_password i) of
             Inl e \<Rightarrow> (refused (Other_access e), w)
           | Inr hash \<Rightarrow>
               settle (on_db (and_then (by_hand (px_faults x 0) (accept_tx (pd_crypto v) x i hash)) (\<lambda>r.
                 case r of
                   None \<Rightarrow> give (fault_reply 400 ''invalid_or_expired'')
                 | Some (uid, org) \<Rightarrow>
                     and_then (createSession (pd_crypto v) (px_auth x) uid True (Some org)) (\<lambda>(token, s).
                     give (opened v x 201 token [(''status'', JStr ''ok''), csrf_field v x, (''organization_id'', JStr org)])))) w)))"

end
