(* ===== verification/Member_Facts.thy ===== *)
theory Member_Facts
  imports Api_Members
begin

text \<open>
  The routes on members, over the tables, refine the machine of \<open>Rbac\<close>: what they do to the roles of an
  organization is a step the two checks allow. The routes on invitations do not.
\<close>

section \<open>What the guard establishes\<close>

lemma writes_members: "memberships (wd_db (snd (writes v x q p w))) = memberships (wd_db w)"
  using guards_sessions(1) [of w v x q p] by (auto simp: only_sessions_def)

lemma writes_Inr:
  assumes "writes v x q p w = (Inr a, w1)"
  shows "memberships (wd_db w1) = memberships (wd_db w)"
    and "accepted_role (aw_userId (ra_user a)) (ra_organizationId a) (wd_db w) = Some (ra_role a)"
    and "can (ra_role a) p"
proof -
  have r: "requireRead (resolve_world (pd_crypto v) x) (role_world x) (pq_http q) p w = (Inr a, w1)"
    using assms by (auto simp: writes_def require_def split: sum.splits)
  note act = platform_authority.requireRead_Inr [OF r]
  show "can (ra_role a) p" using act by simp
  show "memberships (wd_db w1) = memberships (wd_db w)"
    using writes_members [of v x q p w] assms by simp
  from act [THEN conjunct1] obtain token ctx where l: "live_session (pd_crypto v) (ae_db (px_auth x) 0) token (wd_db w) ctx"
    and "ra_user a = sc_user ctx" and "accepted_role (sr_userId (sc_session ctx)) (ra_organizationId a) (wd_db w) = Some (ra_role a)"
    by (rule platform_authority.actor_Inr)
  then show "accepted_role (aw_userId (ra_user a)) (ra_organizationId a) (wd_db w) = Some (ra_role a)"
    by (auto simp: live_session_def context_of_def record_of_def)
qed

lemma writes_Inl: "writes v x q p w = (Inl e, w1) \<Longrightarrow> memberships (wd_db w1) = memberships (wd_db w)"
  using writes_members [of v x q p w] by simp

section \<open>The roles of an organization\<close>

definition members_of :: "string \<Rightarrow> db \<Rightarrow> members" where
  "members_of org d = map_of (map (\<lambda>m. (me_user_id m, me_role m)) (inside me_organization_id org (memberships d)))"

definition members_keyed :: "db \<Rightarrow> bool" where
  "members_keyed d =
     (distinct (map me_id (memberships d)) \<and> distinct (map (\<lambda>m. (me_organization_id m, me_user_id m)) (memberships d)))"

lemma members_keyed_inside:
  assumes "members_keyed d"
  shows "distinct (map me_user_id (inside me_organization_id org (memberships d)))"
proof -
  have "inj_on (\<lambda>m. (me_organization_id m, me_user_id m)) (set (memberships d))" "distinct (memberships d)"
    using assms by (simp_all add: members_keyed_def distinct_map)
  then show ?thesis unfolding distinct_map inside_def by (auto simp: inj_on_def)
qed

lemma members_of_Some:
  assumes "members_keyed d"
  shows "members_of org d u = Some r \<longleftrightarrow>
    (\<exists>m \<in> set (memberships d). me_organization_id m = org \<and> me_user_id m = u \<and> me_role m = r)"
proof -
  have "distinct (map fst (map (\<lambda>m. (me_user_id m, me_role m)) (inside me_organization_id org (memberships d))))"
    using members_keyed_inside [OF assms, of org] by (simp add: comp_def)
  from map_of_eq_Some_iff [OF this] show ?thesis unfolding members_of_def by (auto simp: inside_def)
qed

lemma members_of_same: "memberships d' = memberships d \<Longrightarrow> members_of org d' = members_of org d"
  by (simp add: members_of_def)

lemma map_eqI: "(\<And>u r. f u = Some r \<longleftrightarrow> g u = Some r) \<Longrightarrow> f = g"
proof
  fix u
  assume "\<And>u r. f u = Some r \<longleftrightarrow> g u = Some r"
  then show "f u = g u" by (cases "g u") (auto, metis not_None_eq)
qed

lemma owner_count_card:
  assumes "members_keyed d"
  shows "owner_count org d = card (owners (members_of org d))"
proof -
  let ?F = "filter (\<lambda>m. me_organization_id m = org \<and> me_role m = OWNER) (memberships d)"
  have "owners (members_of org d) = me_user_id ` set ?F"
    by (auto simp: owners_def members_of_Some [OF assms])
  moreover have "inj_on me_user_id (set ?F)"
    using members_keyed_inside [OF assms, of org] by (auto simp: distinct_map inside_def inj_on_def)
  moreover have "distinct ?F" using assms by (simp add: members_keyed_def distinct_map)
  ultimately have "card (owners (members_of org d)) = length ?F" by (simp only: card_image distinct_card)
  then show ?thesis by (simp only: owner_count_def row_count_def)
qed

lemma accepted_member:
  assumes "accepted_role uid org d = Some r" and "members_keyed d"
  shows "members_of org d uid = Some r"
  using assms unfolding accepted_role_def
  by (auto simp: members_of_Some accepted_membership_def dest!: first_row_SomeD)

lemma the_member_unique:
  assumes "members_keyed d" and "t \<in> set (memberships d)" and "the_member org mid t" and "m \<in> set (memberships d)"
  shows "the_member org mid m \<longleftrightarrow> m = t"
  using assms by (auto simp: members_keyed_def distinct_map the_member_def dest: inj_onD)

section \<open>Simulation\<close>

lemma members_update:
  fixes new :: role
  assumes k: "members_keyed d" and t: "t \<in> set (memberships d)" "the_member org mid t"
  defines "d' \<equiv> d\<lparr>memberships := sql_update (the_member org mid) (\<lambda>m. m\<lparr>me_role := new\<rparr>) (memberships d)\<rparr>"
  shows "members_keyed d'" and "members_of org d' = (members_of org d)(me_user_id t \<mapsto> new)"
    and "o' \<noteq> org \<Longrightarrow> members_of o' d' = members_of o' d"
proof -
  have k': "members_keyed d'" using k by (simp add: d'_def members_keyed_def map_key_sql_update)
  then show "members_keyed d'" .
  have in_d': "m' \<in> set (memberships d') \<longleftrightarrow> (\<exists>m \<in> set (memberships d). m' = (if m = t then m\<lparr>me_role := new\<rparr> else m))" for m'
    using the_member_unique [OF k t] by (auto simp: d'_def in_sql_update)
  have one: "m = t" if "m \<in> set (memberships d)" "me_organization_id m = org" "me_user_id m = me_user_id t" for m
    using k t that by (auto simp: members_keyed_def distinct_map the_member_def dest: inj_onD)
  have torg: "me_organization_id t = org" using t(2) by (simp add: the_member_def)
  show "members_of org d' = (members_of org d)(me_user_id t \<mapsto> new)"
  proof (rule map_eqI)
    fix u r
    show "members_of org d' u = Some r \<longleftrightarrow> ((members_of org d)(me_user_id t \<mapsto> new)) u = Some r"
    proof (cases "u = me_user_id t")
      case True
      have n: "t\<lparr>me_role := new\<rparr> \<in> set (memberships d')" using in_d' t(1) by auto
      have "members_of org d' u = Some new"
        unfolding members_of_Some [OF k'] using True torg by (intro bexI [OF _ n]) simp
      then show ?thesis using True by simp
    next
      case False
      have "x \<in> set (memberships d') \<longleftrightarrow> x \<in> set (memberships d)" if "me_user_id x = u" for x
        unfolding in_d' using that False by auto
      then have "members_of org d' u = Some r \<longleftrightarrow> members_of org d u = Some r"
        unfolding members_of_Some [OF k'] members_of_Some [OF k] by blast
      with False show ?thesis by simp
    qed
  qed
  show "members_of o' d' = members_of o' d" if "o' \<noteq> org"
  proof (rule map_eqI)
    fix u r
    have "x \<in> set (memberships d') \<longleftrightarrow> x \<in> set (memberships d)" if "me_organization_id x = o'" for x
      unfolding in_d' using that \<open>o' \<noteq> org\<close> torg by auto
    then show "members_of o' d' u = Some r \<longleftrightarrow> members_of o' d u = Some r"
      unfolding members_of_Some [OF k'] members_of_Some [OF k] by blast
  qed
qed

lemma members_delete:
  assumes k: "members_keyed d" and t: "t \<in> set (memberships d)" "the_member org mid t"
  defines "d' \<equiv> d\<lparr>memberships := sql_delete (the_member org mid) (memberships d)\<rparr>"
  shows "members_keyed d'" and "members_of org d' = (members_of org d)(me_user_id t := None)"
    and "o' \<noteq> org \<Longrightarrow> members_of o' d' = members_of o' d"
proof -
  have k': "members_keyed d'" using k
    by (auto simp: d'_def members_keyed_def sql_delete_def distinct_map intro: inj_on_subset)
  then show "members_keyed d'" .
  have in_d': "m \<in> set (memberships d') \<longleftrightarrow> m \<in> set (memberships d) \<and> m \<noteq> t" for m
    using the_member_unique [OF k t] by (auto simp: d'_def)
  have one: "m = t" if "m \<in> set (memberships d)" "me_organization_id m = org" "me_user_id m = me_user_id t" for m
    using k t that by (auto simp: members_keyed_def distinct_map the_member_def dest: inj_onD)
  have torg: "me_organization_id t = org" using t(2) by (simp add: the_member_def)
  show "members_of org d' = (members_of org d)(me_user_id t := None)"
  proof (rule map_eqI)
    fix u r
    show "members_of org d' u = Some r \<longleftrightarrow> ((members_of org d)(me_user_id t := None)) u = Some r"
      using one by (auto simp: members_of_Some [OF k'] members_of_Some [OF k] in_d')
  qed
  show "members_of o' d' = members_of o' d" if "o' \<noteq> org"
    by (rule map_eqI) (use that torg in \<open>auto simp: members_of_Some [OF k'] members_of_Some [OF k] in_d'\<close>)
qed

definition members_move :: "db \<Rightarrow> db \<Rightarrow> bool" where
  "members_move d d' =
     (members_keyed d' \<and> (\<forall>o'. members_of o' d' = members_of o' d \<or> member_step (members_of o' d) (members_of o' d')))"

lemma members_move_same: "members_keyed d \<Longrightarrow> memberships d' = memberships d \<Longrightarrow> members_move d d'"
  by (simp add: members_move_def members_keyed_def members_of_def)

lemma member_role_tx_moves:
  assumes k: "members_keyed d" and a: "accepted_role (aw_userId (ra_user a)) (ra_organizationId a) d = Some (ra_role a)"
    and tx: "member_role_tx a mid new d = (Inr r, d')"
  shows "members_move d d'"
proof (cases "d' = d")
  case False
  with tx obtain t where t: "first_row (the_member (ra_organizationId a) mid) (memberships d) = Some t"
    and ok: "checkRoleChange \<lparr>rc_actorRole = ra_role a, rc_actorUserId = aw_userId (ra_user a),
                  rc_targetUserId = me_user_id t, rc_targetCurrentRole = me_role t, rc_targetNewRole = new,
                  rc_ownerCount = owner_count (ra_organizationId a) d\<rparr> = None"
    and d': "d' = d\<lparr>memberships := sql_update (the_member (ra_organizationId a) mid) (\<lambda>m. m\<lparr>me_role := new\<rparr>) (memberships d)\<rparr>"
    by (auto simp: member_role_tx_def Let_def split: option.splits)
  note in_d = first_row_SomeD [OF t]
  have "members_of (ra_organizationId a) d (me_user_id t) = Some (me_role t)"
    using in_d by (auto simp: members_of_Some [OF k] the_member_def)
  from member_step.Change [OF accepted_member [OF a k] this] ok
  have "member_step (members_of (ra_organizationId a) d) ((members_of (ra_organizationId a) d)(me_user_id t \<mapsto> new))"
    by (simp add: owner_count_card [OF k])
  with members_update [OF k, where t = t and org = "ra_organizationId a" and mid = mid and new = new] in_d show ?thesis
    unfolding members_move_def d' by (metis (no_types))
qed (use k members_move_same in blast)

lemma member_removal_tx_moves:
  assumes k: "members_keyed d" and a: "accepted_role (aw_userId (ra_user a)) (ra_organizationId a) d = Some (ra_role a)"
    and tx: "member_removal_tx a mid d = (Inr r, d')"
  shows "members_move d d'"
proof (cases "d' = d")
  case False
  with tx obtain t where t: "first_row (the_member (ra_organizationId a) mid) (memberships d) = Some t"
    and ok: "checkMemberRemoval \<lparr>mr_actorRole = ra_role a, mr_actorUserId = aw_userId (ra_user a),
                  mr_targetUserId = me_user_id t, mr_targetRole = me_role t, mr_ownerCount = owner_count (ra_organizationId a) d\<rparr> = None"
    and d': "d' = d\<lparr>memberships := sql_delete (the_member (ra_organizationId a) mid) (memberships d)\<rparr>"
    by (auto simp: member_removal_tx_def Let_def split: option.splits)
  note in_d = first_row_SomeD [OF t]
  have "members_of (ra_organizationId a) d (me_user_id t) = Some (me_role t)"
    using in_d by (auto simp: members_of_Some [OF k] the_member_def)
  from member_step.Remove [OF accepted_member [OF a k] this] ok
  have "member_step (members_of (ra_organizationId a) d) ((members_of (ra_organizationId a) d)(me_user_id t := None))"
    by (simp add: owner_count_card [OF k])
  with members_delete [OF k, where t = t and org = "ra_organizationId a" and mid = mid] in_d show ?thesis
    unfolding members_move_def d' by (metis (no_types))
qed (use k members_move_same in blast)

text \<open>What comes before and after the transaction leaves the members as they are.\<close>

lemma members_move_cong:
  "memberships d1 = memberships d \<Longrightarrow> memberships d2 = memberships d' \<Longrightarrow> members_move d1 d' \<Longrightarrow> members_move d d2"
  by (simp add: members_move_def members_keyed_def members_of_def)

lemma patch_moves:
  assumes k: "members_keyed (wd_db w)" and run: "patchMembership v x q w = (r, w')"
  shows "members_move (wd_db w) (wd_db w')"
  using run unfolding patchMembership_def
proof (rule routed [where Q = "\<lambda>_ w'. members_move (wd_db w) (wd_db w')"])
  fix e w1
  assume "writes v x q Member_manage w = (Inl e, w1)"
  then show "members_move (wd_db w) (wd_db w1)" using writes_Inl k members_move_same by blast
next
  fix a w1
  assume g: "writes v x q Member_manage w = (Inr a, w1)"
  note wr = writes_Inr [OF g]
  have k1: "members_keyed (wd_db w1)" using k wr(1) by (simp add: members_keyed_def)
  have a1: "accepted_role (aw_userId (ra_user a)) (ra_organizationId a) (wd_db w1) = Some (ra_role a)"
    using wr(1,2) by (simp add: accepted_role_def)
  have m: "members_move (wd_db w) d2" if "member_role_tx a mid new (wd_db w1) = (Inr y, d')" "memberships d2 = memberships d'" for mid new y d' d2
    using members_move_cong [OF wr(1) that(2) member_role_tx_moves [OF k1 a1 that(1)]] .
  have same: "members_move (wd_db w) (wd_db w1)" by (rule members_move_same [OF k wr(1)])
  show "wp (case roleSchema (pq_body q) of None \<Rightarrow> give invalid
       | Some new \<Rightarrow> and_then (tenant_step x 0 (ra_organizationId a) (member_role_tx a (pq_id q) new)) (member_answer (\<lambda>previous uid.
           and_then (audit x 1 a ''member.role_changed'' (pq_id q)) (\<lambda>_. give status_ok))))
     (\<lambda>_ w'. members_move (wd_db w) (wd_db w')) (\<lambda>w2. \<forall>e. members_move (wd_db w) (wd_db w2)) w1"
    unfolding wp using same
    by (auto simp: wp member_answer_def m split: option.split member_outcome.split intro!: wp_tenant wp_audit)
qed

lemma remove_moves:
  assumes k: "members_keyed (wd_db w)" and run: "deleteMembership v x q w = (r, w')"
  shows "members_move (wd_db w) (wd_db w')"
  using run unfolding deleteMembership_def
proof (rule routed [where Q = "\<lambda>_ w'. members_move (wd_db w) (wd_db w')"])
  fix e w1
  assume "writes v x q Member_manage w = (Inl e, w1)"
  then show "members_move (wd_db w) (wd_db w1)" using writes_Inl k members_move_same by blast
next
  fix a w1
  assume g: "writes v x q Member_manage w = (Inr a, w1)"
  note wr = writes_Inr [OF g]
  have k1: "members_keyed (wd_db w1)" using k wr(1) by (simp add: members_keyed_def)
  have a1: "accepted_role (aw_userId (ra_user a)) (ra_organizationId a) (wd_db w1) = Some (ra_role a)"
    using wr(1,2) by (simp add: accepted_role_def)
  have m: "members_move (wd_db w) d2" if "member_removal_tx a mid (wd_db w1) = (Inr y, d')" "memberships d2 = memberships d'" for mid y d' d2
    using members_move_cong [OF wr(1) that(2) member_removal_tx_moves [OF k1 a1 that(1)]] .
  have same: "members_move (wd_db w) (wd_db w1)" by (rule members_move_same [OF k wr(1)])
  show "wp (and_then (tenant_step x 0 (ra_organizationId a) (member_removal_tx a (pq_id q))) (member_answer (\<lambda>previous uid.
         and_then (plain_step x 1 (\<lambda>d. (Inr (),
             revoke_sessions (\<lambda>s. se_user_id s = uid \<and> se_organization_id s = Some (ra_organizationId a)) (px_now x 1) d))) (\<lambda>_.
         and_then (audit x 2 a ''member.removed'' (pq_id q)) (\<lambda>_. give status_ok)))))
     (\<lambda>_ w'. members_move (wd_db w) (wd_db w')) (\<lambda>w2. \<forall>e. members_move (wd_db w) (wd_db w2)) w1"
    unfolding wp using same
    by (auto simp: wp member_answer_def m revoke_sessions_def split: member_outcome.split intro!: wp_tenant wp_plain wp_audit)
qed

section \<open>An organization over time\<close>

inductive member_route :: "world \<Rightarrow> world \<Rightarrow> bool" where
  Patch: "member_route w (snd (patchMembership v x q w))"
| Remove: "member_route w (snd (deleteMembership v x q w))"

lemma member_route_moves: "member_route w w' \<Longrightarrow> members_keyed (wd_db w) \<Longrightarrow> members_move (wd_db w) (wd_db w')"
  by (erule member_route.cases) (metis patch_moves remove_moves prod.collapse)+

text \<open>C25: The routes that change a role and remove a member, from the session of the actor to the rows,
  refine the machine of the two checks: whatever the request, the fault or the answer, the members of
  every organization stay as they were or take one step of it.\<close>

theorem member_routes_refine:
  assumes "member_route w w'" and "members_keyed (wd_db w)"
  shows "members_keyed (wd_db w') \<and>
    (members_of org (wd_db w') = members_of org (wd_db w) \<or>
     member_step (members_of org (wd_db w)) (members_of org (wd_db w')))"
  using member_route_moves [OF assms] by (simp add: members_move_def)

lemma finite_members_of: "finite (dom (members_of org d))"
  unfolding members_of_def by (rule finite_dom_map_of)

text \<open>C18: Through any sequence of requests that change roles and remove members, by any actors, with any
  faults, an organization that has an owner still has one.\<close>

theorem organization_keeps_owner:
  assumes "member_route\<^sup>*\<^sup>* w w'" and "members_keyed (wd_db w)" and "owners (members_of org (wd_db w)) \<noteq> {}"
  shows "owners (members_of org (wd_db w')) \<noteq> {}"
proof -
  from assms have "members_keyed (wd_db w') \<and> owners (members_of org (wd_db w')) \<noteq> {}"
  proof (induction rule: rtranclp_induct)
    case (step w1 w2)
    then have "members_move (wd_db w1) (wd_db w2)" by (simp add: member_route_moves)
    then show ?case using step member_step_owner [OF _ _ finite_members_of] unfolding members_move_def by metis
  qed simp
  then show ?thesis ..
qed

section \<open>Invitations\<close>

lemma upsert_membership_Inr:
  assumes "upsert_membership mid org uid r now d = (Inr u, d')"
  shows "accepted_role uid org d' = Some r"
    and "users d' = users d" "invitations d' = invitations d" "sessions d' = sessions d"
proof -
  have "(\<exists>m \<in> set (memberships d'). accepted_membership uid m \<and> me_organization_id m = org) \<and>
    (\<forall>m \<in> set (memberships d'). me_organization_id m = org \<and> me_user_id m = uid \<longrightarrow> me_role m = r)"
  proof (cases "exists_row (same_member org uid) (memberships d)")
    case True
    then obtain m where m: "m \<in> set (memberships d)" "same_member org uid m" by (auto simp: exists_row_iff)
    from True assms have d': "memberships d' = sql_update (same_member org uid) (\<lambda>m. m\<lparr>me_role := r, me_accepted_at := Some now\<rparr>) (memberships d)"
      by (auto simp: upsert_membership_def)
    have "m\<lparr>me_role := r, me_accepted_at := Some now\<rparr> \<in> set (memberships d')" using m unfolding d' in_sql_update by auto
    then have "\<exists>m \<in> set (memberships d'). accepted_membership uid m \<and> me_organization_id m = org"
      by (rule rev_bexI) (use m(2) in \<open>simp add: accepted_membership_def same_member_def\<close>)
    moreover have "me_role x = r" if x: "x \<in> set (memberships d')" "me_organization_id x = org" "me_user_id x = uid" for x
    proof -
      obtain y where y: "x = (if same_member org uid y then y\<lparr>me_role := r, me_accepted_at := Some now\<rparr> else y)"
        using x(1) unfolding d' in_sql_update by blast
      then show ?thesis using x(2,3) by (auto simp: same_member_def split: if_splits)
    qed
    ultimately show ?thesis by blast
  next
    case False
    then have "me_organization_id m = org \<and> me_user_id m = uid \<longrightarrow> me_role m = r" if "m \<in> set (memberships d)" for m
      using that by (auto simp: exists_row_iff same_member_def)
    moreover obtain row where "memberships d' = memberships d @ [row]" "me_organization_id row = org" "me_user_id row = uid"
      "me_role row = r" "me_accepted_at row = Some now"
      using False assms by (auto simp: upsert_membership_def insert_membership_def split: if_splits)
    ultimately show ?thesis by (auto simp: accepted_membership_def)
  qed
  then show "accepted_role uid org d' = Some r" unfolding accepted_role_def
    by (cases "first_row (\<lambda>m. accepted_membership uid m \<and> me_organization_id m = org) (memberships d')")
      (auto simp: first_row_None_iff accepted_membership_def dest!: first_row_SomeD)
  show "users d' = users d" "invitations d' = invitations d" "sessions d' = sessions d"
    using assms by (auto simp: upsert_membership_def insert_membership_def split: if_splits)
qed


lemma invited_user_Inr:
  assumes "invited_user x email name hash d = (Inr uid, d')"
  shows "memberships d' = memberships d" "invitations d' = invitations d" "sessions d' = sessions d"
    and "case account email d of
           Some u \<Rightarrow> uid = u_id u \<and> users d' = users d
         | None \<Rightarrow> uid = px_ids x 0 \<and> users d' = users d @ [new_user uid email hash name (Some (px_now x 0))]"
  using assms
  by (auto simp: invited_user_def insert_user_def give_def split: option.splits if_splits elim!: and_then_Inr)

definition offered :: "crypto \<Rightarrow> string \<Rightarrow> db \<Rightarrow> invitation_row option" where
  "offered c code d = first_row (\<lambda>r. iv_token_hash r = hashToken c code) (invitations d)"

lemma set_local_Inr: "set_local f d = (Inr u, d') \<Longrightarrow> d' = d"
  by (auto simp: set_local_def throw_def give_def split: if_splits)

lemma accept_tx_Inr:
  assumes "accept_tx c x i hash d = (Inr (Some (uid, org)), d1)"
  obtains iv where "offered c (ac_code i) d = Some iv" "iv_accepted_at iv = None" "\<not> iv_expires_at iv < px_js x 0"
    "org = iv_organization_id iv" "accepted_role uid org d1 = Some (iv_role iv)" "sessions d1 = sessions d"
    "invitations d1 = sql_update (\<lambda>r. iv_id r = iv_id iv) (\<lambda>r. r\<lparr>iv_accepted_at := Some (px_now x 0)\<rparr>) (invitations d)"
    "case account (iv_email iv) d of
       Some u \<Rightarrow> uid = u_id u \<and> users d1 = users d
     | None \<Rightarrow> uid = px_ids x 0 \<and> users d1 = users d @ [new_user uid (iv_email iv) hash (ac_display_name i) (Some (px_now x 0))]"
proof -
  from assms obtain iv where iv: "offered c (ac_code i) d = Some iv" and ok: "iv_accepted_at iv = None" "\<not> iv_expires_at iv < px_js x 0"
    and rest: "and_then (invited_user x (iv_email iv) (ac_display_name i) hash) (\<lambda>uid.
             and_then (upsert_membership (member_id (px_ids x 1)) (iv_organization_id iv) uid (iv_role iv) (px_now x 0)) (\<lambda>_ d.
             (Inr (Some (uid, iv_organization_id iv)),
              append_audit ((user_audit (Some (iv_organization_id iv)) uid ''invitation.accepted'' (px_now x 0))\<lparr>au_target_id := Some (iv_id iv)\<rparr>)
                (d\<lparr>invitations := sql_update (\<lambda>r. iv_id r = iv_id iv)
                   (\<lambda>r. r\<lparr>iv_accepted_at := Some (px_now x 0)\<rparr>) (invitations d)\<rparr>)))) d = (Inr (Some (uid, org)), d1)"
    by (auto simp: accept_tx_def offered_def split: option.splits if_splits elim!: and_then_Inr dest!: set_local_Inr)
  from rest obtain y d2 where u0: "invited_user x (iv_email iv) (ac_display_name i) hash d = (Inr y, d2)"
    and k: "and_then (upsert_membership (member_id (px_ids x 1)) (iv_organization_id iv) y (iv_role iv) (px_now x 0)) (\<lambda>_ d.
             (Inr (Some (y, iv_organization_id iv)),
              append_audit ((user_audit (Some (iv_organization_id iv)) y ''invitation.accepted'' (px_now x 0))\<lparr>au_target_id := Some (iv_id iv)\<rparr>)
                (d\<lparr>invitations := sql_update (\<lambda>r. iv_id r = iv_id iv)
                   (\<lambda>r. r\<lparr>iv_accepted_at := Some (px_now x 0)\<rparr>) (invitations d)\<rparr>))) d2 = (Inr (Some (uid, org)), d1)"
    by (rule and_then_Inr)
  from k obtain z d3 where m0: "upsert_membership (member_id (px_ids x 1)) (iv_organization_id iv) y (iv_role iv) (px_now x 0) d2 = (Inr z, d3)"
    and e: "(Inr (Some (y, iv_organization_id iv)),
              append_audit ((user_audit (Some (iv_organization_id iv)) y ''invitation.accepted'' (px_now x 0))\<lparr>au_target_id := Some (iv_id iv)\<rparr>)
                (d3\<lparr>invitations := sql_update (\<lambda>r. iv_id r = iv_id iv)
                   (\<lambda>r. r\<lparr>iv_accepted_at := Some (px_now x 0)\<rparr>) (invitations d3)\<rparr>)) = (Inr (Some (uid, org)) :: (string \<times> string) option result, d1)"
    by (rule and_then_Inr)
  have y: "y = uid" and org: "org = iv_organization_id iv" using e by simp_all
  have d1: "d1 = append_audit ((user_audit (Some (iv_organization_id iv)) uid ''invitation.accepted'' (px_now x 0))\<lparr>au_target_id := Some (iv_id iv)\<rparr>)
                (d3\<lparr>invitations := sql_update (\<lambda>r. iv_id r = iv_id iv)
                   (\<lambda>r. r\<lparr>iv_accepted_at := Some (px_now x 0)\<rparr>) (invitations d3)\<rparr>)"
    using e unfolding y by (elim Pair_inject) (rule sym)
  note u = u0 [unfolded y] and m = m0 [unfolded y]
  note uf = invited_user_Inr [OF u] and mf = upsert_membership_Inr [OF m]
  show ?thesis
    by (rule that [OF iv ok org]; cases "account (iv_email iv) d")
      (use uf mf in \<open>simp_all add: d1 org append_audit_def accepted_role_def\<close>)
qed


lemma offered_accepted:
  assumes "offered c code d = Some iv" and "invitations d1 = sql_update (\<lambda>r. iv_id r = iv_id iv) (\<lambda>r. r\<lparr>iv_accepted_at := Some now\<rparr>) (invitations d)"
  shows "offered c code d1 = Some (iv\<lparr>iv_accepted_at := Some now\<rparr>)"
  using assms unfolding offered_def assms(2)
  by (subst first_row_update) (auto dest: first_row_SomeD)

lemma acceptInvitation_201:
  assumes "acceptInvitation v x q w = (r, w1)" and "ar_status r = 201" and "inviteAcceptSchema (pq_body q) = Some i"
  obtains hash uid org d1 token s where "accept_tx (pd_crypto v) x i hash (wd_db w) = (Inr (Some (uid, org)), d1)"
    "createSession (pd_crypto v) (px_auth x) uid True (Some org) d1 = (Inr (token, s), wd_db w1)"
    "map_of (map (\<lambda>(k, t, _). (k, t)) (ar_cookies r)) session_cookie = Some token" "wd_events w1 = wd_events w"
proof -
  obtain hash where h: "hashPassword (pd_crypto v) (px_salt x) (ac_password i) = Inr hash"
    using assms by (auto simp: acceptInvitation_def refused_def fault_reply_def reply_def toHttpError_def split: sum.splits)
  let ?tx = "by_hand (px_faults x 0) (accept_tx (pd_crypto v) x i hash)"
  let ?open = "\<lambda>y. case y of None \<Rightarrow> give (fault_reply 400 ''invalid_or_expired'')
    | Some (uid, org) \<Rightarrow> and_then (createSession (pd_crypto v) (px_auth x) uid True (Some org)) (\<lambda>(token, s).
        give (opened v x 201 token [(''status'', JStr ''ok''), csrf_field v x, (''organization_id'', JStr org)]))"
  obtain res d2 where t: "and_then ?tx ?open (wd_db w) = (res, d2)" by fastforce
  have run: "(r, w1) = settle (res, w\<lparr>wd_db := d2\<rparr>)"
    using assms(1) unfolding acceptInvitation_def assms(3) by (simp add: h on_db_def t)
  then have "res = Inr r" "w1 = w\<lparr>wd_db := d2\<rparr>" using assms(2)
    by (cases res; simp add: settle_def refused_def fault_reply_def reply_def toHttpError_def)+
  from and_then_Inr [OF t [unfolded this(1)]] obtain y d1 where tx: "?tx (wd_db w) = (Inr y, d1)" and k: "?open y d1 = (Inr r, d2)" .
  show ?thesis
  proof (cases y)
    case None
    with k assms(2) show ?thesis by (auto simp: give_def fault_reply_def reply_def)
  next
    case (Some p)
    obtain uid org where p: "p = (uid, org)" by fastforce
    from k [unfolded Some p] have "and_then (createSession (pd_crypto v) (px_auth x) uid True (Some org)) (\<lambda>(token, s).
        give (opened v x 201 token [(''status'', JStr ''ok''), csrf_field v x, (''organization_id'', JStr org)])) d1 = (Inr r, d2)" by simp
    then obtain ts d3 where c: "createSession (pd_crypto v) (px_auth x) uid True (Some org) d1 = (Inr ts, d3)"
      and g: "(case ts of (token, s) \<Rightarrow> give (opened v x 201 token [(''status'', JStr ''ok''), csrf_field v x, (''organization_id'', JStr org)])) d3 = (Inr r, d2)"
      by (rule and_then_Inr)
    obtain token s where ts: "ts = (token, s)" by fastforce
    from g have "d3 = d2" "r = opened v x 201 token [(''status'', JStr ''ok''), csrf_field v x, (''organization_id'', JStr org)]"
      by (simp_all add: ts give_def)
    with c show ?thesis
      by (intro that [OF by_hand_Inr [OF tx [unfolded Some p]]]) (simp_all add: ts opened_def \<open>w1 = _\<close> )
  qed
qed

lemma by_hand_refused:
  assumes "\<And>p. fst (body d) \<noteq> Inr (Some p)"
  shows "(\<exists>e. by_hand f body d = (Inl e, d)) \<or> by_hand f body d = (Inr None, d)"
  using assms by (cases "body d"; cases "fst (body d)") (auto simp: by_hand_def split: option.splits)



text \<open>Accepting an invitation for an address that has an account opens a session for that account, its
  second factor marked as given: no password is compared, the one in the request is dropped, and the
  role of the invitation replaces the one the member had, an owner included.\<close>

theorem invitation_enters_existing_account:
  assumes "acceptInvitation v x q w = (r, w1)" and "ar_status r = 201" and "inviteAcceptSchema (pq_body q) = Some i"
    and "offered (pd_crypto v) (ac_code i) (wd_db w) = Some iv" and "account (iv_email iv) (wd_db w) = Some u"
  shows "users (wd_db w1) = users (wd_db w) \<and>
    accepted_role (u_id u) (iv_organization_id iv) (wd_db w1) = Some (iv_role iv) \<and>
    (\<exists>token. \<exists>s \<in> set (sessions (wd_db w1)). map_of (map (\<lambda>(k, t, _). (k, t)) (ar_cookies r)) session_cookie = Some token \<and>
       se_token_hash s = hashToken (pd_crypto v) token \<and> se_user_id s = u_id u \<and> se_mfa_satisfied s \<and>
       se_organization_id s = Some (iv_organization_id iv))"
proof -
  from acceptInvitation_201 [OF assms(1-3)] obtain hash uid org d1 token s
    where tx: "accept_tx (pd_crypto v) x i hash (wd_db w) = (Inr (Some (uid, org)), d1)"
      and cs: "createSession (pd_crypto v) (px_auth x) uid True (Some org) d1 = (Inr (token, s), wd_db w1)"
      and ck: "map_of (map (\<lambda>(k, t, _). (k, t)) (ar_cookies r)) session_cookie = Some token" .
  from tx obtain iv' where "offered (pd_crypto v) (ac_code i) (wd_db w) = Some iv'" and org: "org = iv_organization_id iv'"
    and role: "accepted_role uid org d1 = Some (iv_role iv')"
    and us: "case account (iv_email iv') (wd_db w) of
       Some u \<Rightarrow> uid = u_id u \<and> users d1 = users (wd_db w)
     | None \<Rightarrow> uid = px_ids x 0 \<and> users d1 = users (wd_db w) @ [new_user uid (iv_email iv') hash (ac_display_name i) (Some (px_now x 0))]"
    by (rule accept_tx_Inr)
  then have iv: "iv' = iv" using assms(4) by simp
  with us assms(5) have u: "uid = u_id u" "users d1 = users (wd_db w)" by simp_all
  let ?row = "session_row_of (pd_crypto v) (px_auth x) uid (coalesce (Some org) (first_organization uid d1)) True"
  note c = createSession_Inr [OF cs]
  have "?row \<in> set (sessions (wd_db w1))" using c(3) by simp
  moreover have "se_token_hash ?row = hashToken (pd_crypto v) token" "se_user_id ?row = u_id u" "se_mfa_satisfied ?row"
    "se_organization_id ?row = Some (iv_organization_id iv)"
    by (simp_all add: session_row_of_def c(1) u(1) org iv coalesce_def)
  moreover have "users (wd_db w1) = users (wd_db w)" "memberships (wd_db w1) = memberships d1" using c(3) u(2) by simp_all
  ultimately show ?thesis using ck role by (auto simp: accepted_role_def u(1) org iv)
qed

end
