(* ===== verification/Api_Servers.thy ===== *)
theory Api_Servers
  imports Api_Members Agent_Session
begin

text \<open>
  \<open>apps/api/src/api/routes.ts\<close>: the servers of an organization, the credentials of their agents, the
  file an operator installs, the remote configuration. The order of names is that of their characters.
  The metadata of the journal and the address of the caller are not kept.
\<close>

section \<open>Servers\<close>

definition open_alerts :: "string \<Rightarrow> string \<Rightarrow> db \<Rightarrow> nat" where
  "open_alerts org sid d =
     row_count (\<lambda>a. al_organization_id a = org \<and> al_server_id a = sid \<and> al_status a = Alert_open) (alerts d)"

definition server_view :: "db \<Rightarrow> server_row \<Rightarrow> json" where
  "server_view d s = JObj
     [(''id'', JStr (sv_id s)), (''name'', JStr (sv_name s)), (''environment'', JStr (sv_environment s)),
      (''state'', JStr (server_state_name (sv_state s))), (''health'', JStr (health_name (sv_health s))),
      (''agent_version'', j_opt JStr (sv_agent_version s)), (''protocol_version'', j_opt JInt (sv_protocol_version s)),
      (''last_heartbeat_at'', j_opt JInt (sv_last_heartbeat_at s)), (''connected_at'', j_opt JInt (sv_connected_at s)),
      (''uptime_seconds'', j_opt JInt (sv_uptime_seconds s)), (''players_online'', j_opt JInt (sv_players_online s)),
      (''max_players'', j_opt JInt (sv_max_players s)), (''queue_size'', j_opt JInt (sv_queue_size s)),
      (''last_error'', j_opt JStr (sv_last_error s)), (''last_error_at'', j_opt JInt (sv_last_error_at s)),
      (''config_version'', JInt (sv_config_version s)),
      (''open_alerts'', JInt (int (open_alerts (sv_organization_id s) (sv_id s) d)))]"

definition live_in :: "string \<Rightarrow> server_row \<Rightarrow> bool" where
  "live_in org s = (sv_organization_id s = org \<and> sv_deleted_at s = None)"

(* src api/routes.ts:842-860 servers/get *)
definition listServers :: "api_deps \<Rightarrow> api_env \<Rightarrow> api_request \<Rightarrow> world \<Rightarrow> api_reply \<times> world" where
  "listServers v x q w =
     handle_with (reads v x q Server_read w) (\<lambda>a.
       tenant_step x 0 (ra_organizationId a) (\<lambda>d.
         (Inr (reply 200 [(''servers'',
            JArr (map (server_view d) (sort_key sv_name (filter (live_in (ra_organizationId a)) (servers d)))))]), d)))"

(* src api/routes.ts:77-82 createServerSchema *)
definition createServerSchema :: "json \<Rightarrow> (string \<times> string) option" where
  "createServerSchema j = do {
     fs \<leftarrow> z_object [''name'', ''environment''] j;
     name \<leftarrow> z_field ''name'' (z_string 1 120) fs;
     env \<leftarrow> z_default ''environment'' z_environment ''production'' fs;
     Some (name, env)
   }"

text \<open>The plans as the first migration fills them; the number of servers each gives.\<close>

(* src db/migrations/0001_init.sql:594-613 plan_entitlements/servers.max *)
definition plan_servers_max :: "string \<Rightarrow> int option" where
  "plan_servers_max =
     map_of [(''free'', 1), (''starter'', 3), (''pro'', 15), (''enterprise'', 1000)]"

(* src api/routes.ts:875-889 servers/post/allowed *)
definition allowed_servers :: "string \<Rightarrow> db \<Rightarrow> int" where
  "allowed_servers org d =
     (case Option.bind (first_row (\<lambda>e. en_organization_id e = org \<and> en_key e = ''servers.max'') (entitlements d)) en_int_value of
        Some n \<Rightarrow> n
      | None \<Rightarrow>
          (case Option.bind (first_row (\<lambda>s. sb_organization_id s = org) (subscriptions d)) (\<lambda>s. plan_servers_max (sb_plan_code s)) of
             Some n \<Rightarrow> n
           | None \<Rightarrow> 1))"

definition used_servers :: "string \<Rightarrow> db \<Rightarrow> int" where
  "used_servers org d = int (row_count (live_in org) (servers d))"

definition server_id_ok :: "string \<Rightarrow> bool" where
  "server_id_ok s = matches_prefixed ''srv_'' lower_alnum 26 s"

definition new_server :: "string \<Rightarrow> string \<Rightarrow> string \<Rightarrow> string \<Rightarrow> time_ms \<Rightarrow> server_row" where
  "new_server sid org name env now =
     \<lparr>sv_id = sid, sv_organization_id = org, sv_name = name, sv_environment = env, sv_state = State_unknown,
      sv_health = Health_unknown, sv_connected_at = None, sv_last_heartbeat_at = None, sv_last_error = None,
      sv_last_error_at = None, sv_agent_version = None, sv_protocol_version = None, sv_uptime_seconds = None,
      sv_players_online = None, sv_max_players = None, sv_fxserver_version = None, sv_onesync = None,
      sv_queue_size = None, sv_config_version = 0, sv_remote_config = JObj [], sv_fingerprint = None,
      sv_updated_at = now, sv_created_at = now, sv_deleted_at = None\<rparr>"

definition insert_server :: "server_row \<Rightarrow> db \<Rightarrow> unit result \<times> db" where
  "insert_server s d =
     (if \<not> server_id_ok (sv_id s) \<or> \<not> trimmed_ok 120 (sv_name s) then (Inl Check_violation, d)
      else if exists_row (\<lambda>r. sv_id r = sv_id s) (servers d) then (Inl Unique_violation, d)
      else if \<not> organization_exists (sv_organization_id s) d then (Inl Foreign_key_violation, d)
      else (Inr (), d\<lparr>servers := servers d @ [s]\<rparr>))"

text \<open>\<open>Some (used, allowed)\<close>: the quota is reached.\<close>

(* src api/routes.ts:872-898 servers/post/quota *)
definition create_server_tx :: "server_row \<Rightarrow> db \<Rightarrow> (int \<times> int) option result \<times> db" where
  "create_server_tx s d =
     (let used = used_servers (sv_organization_id s) d; allowed = allowed_servers (sv_organization_id s) d in
      if allowed \<le> used then (Inr (Some (used, allowed)), d)
      else and_then (insert_server s) (\<lambda>_. give None) d)"

(* src api/routes.ts:862-911 servers/post *)
definition createServer :: "api_deps \<Rightarrow> api_env \<Rightarrow> api_request \<Rightarrow> world \<Rightarrow> api_reply \<times> world" where
  "createServer v x q w =
     handle_with (writes v x q Server_write w) (\<lambda>a.
       case createServerSchema (pq_body q) of
         None \<Rightarrow> give invalid
       | Some (name, env) \<Rightarrow>
           (let sid = px_ids x 0 in
            and_then (tenant_step x 0 (ra_organizationId a)
                (create_server_tx (new_server sid (ra_organizationId a) name env (px_now x 0)))) (\<lambda>quota.
              case quota of
                Some (used, allowed) \<Rightarrow>
                  give (reply 402 [(''error'', JStr ''entitlement_exceeded''), (''limit'', JInt allowed), (''used'', JInt used)])
              | None \<Rightarrow>
                  and_then (audit x 1 a ''server.created'' sid) (\<lambda>_.
                  give (reply 201 [(''server'', JObj [(''id'', JStr sid), (''name'', JStr name), (''state'', JStr ''UNKNOWN'')])])))))"

definition revoke_server_keys :: "string \<Rightarrow> string \<Rightarrow> string option \<Rightarrow> string \<Rightarrow> time_ms \<Rightarrow> credential_row list \<Rightarrow> credential_row list" where
  "revoke_server_keys org sid admin reason now =
     sql_update (\<lambda>r. cr_organization_id r = org \<and> cr_server_id r = sid \<and> cr_status r \<noteq> Cred_revoked)
       (\<lambda>r. r\<lparr>cr_status := Cred_revoked, cr_revoked_at := Some now, cr_revoked_by := coalesce admin (cr_revoked_by r),
              cr_revoke_reason := Some reason\<rparr>)"

(* src api/routes.ts:917-937 servers/delete/transaction *)
definition delete_server_tx :: "string \<Rightarrow> string \<Rightarrow> time_ms \<Rightarrow> db \<Rightarrow> bool result \<times> db" where
  "delete_server_tx org sid now d =
     (if \<not> exists_row (live_server org sid) (servers d) then (Inr False, d)
      else (Inr True, d\<lparr>servers := sql_update (live_server org sid)
                 (\<lambda>r. r\<lparr>sv_deleted_at := Some now, sv_state := State_offline\<rparr>) (servers d),
               credentials := revoke_server_keys org sid None ''server deleted'' now (credentials d)\<rparr>))"

(* src api/routes.ts:913-946 servers/delete *)
definition deleteServer :: "api_deps \<Rightarrow> api_env \<Rightarrow> api_request \<Rightarrow> world \<Rightarrow> api_reply \<times> world" where
  "deleteServer v x q w =
     handle_with (writes v x q Server_delete w) (\<lambda>a.
       and_then (tenant_step x 0 (ra_organizationId a) (delete_server_tx (ra_organizationId a) (pq_id q) (px_now x 0))) (\<lambda>deleted.
         if \<not> deleted then give not_found
         else and_then (audit x 1 a ''server.deleted'' (pq_id q)) (\<lambda>_. give status_ok)))"

section \<open>Credentials\<close>

definition find_server :: "string \<Rightarrow> string \<Rightarrow> db \<Rightarrow> server_row option result \<times> db" where
  "find_server org sid d = (Inr (first_row (live_server org sid) (servers d)), d)"

text \<open>The agent of a server, or a new one.\<close>

(* src api/routes.ts:970-983 credentials/post/agent *)
definition ensure_agent :: "string \<Rightarrow> string \<Rightarrow> string \<Rightarrow> db \<Rightarrow> string result \<times> db" where
  "ensure_agent org sid created d =
     (case first_row (\<lambda>r. ag_organization_id r = org \<and> ag_server_id r = sid) (agents d) of
        Some r \<Rightarrow> (Inr (ag_id r), d)
      | None \<Rightarrow>
          if \<not> agent_id_ok created then (Inl Check_violation, d)
          else if exists_row (\<lambda>r. ag_id r = created) (agents d) then (Inl Unique_violation, d)
          else if \<not> server_exists org sid d then (Inl Foreign_key_violation, d)
          else (Inr created, d\<lparr>agents := agents d @
              [\<lparr>ag_id = created, ag_organization_id = org, ag_server_id = sid, ag_handshake_at = None,
                ag_handshake_count = 0, ag_capabilities = [], ag_last_request_at = None\<rparr>]\<rparr>))"

text \<open>
  The keys of the server are revoked, then a new one is issued, each in a transaction of its own: the
  transactions \<open>n\<close>, \<open>n + 1\<close> and the one of \<open>issue\<close>, \<open>n + 2\<close>.
\<close>

(* src api/routes.ts:985-1003 credentials/post/replace *)
definition replace_key :: "api_deps \<Rightarrow> api_env \<Rightarrow> issue_random \<Rightarrow> nat \<Rightarrow> request_actor \<Rightarrow> string \<Rightarrow> string \<Rightarrow>
    world \<Rightarrow> (string \<times> string \<times> string) result \<times> world" where
  "replace_key v x rnd n a sid reason =
     (let org = ra_organizationId a; admin = Some (aw_userId (ra_user a)) in
      and_then (tenant_step x n org (ensure_agent org sid (px_ids x 0))) (\<lambda>agentId.
      and_then (tenant_step x (n + 1) org (\<lambda>d. (Inr (), d\<lparr>credentials :=
          revoke_server_keys org sid admin reason (px_now x (n + 1)) (credentials d)\<rparr>))) (\<lambda>_.
      and_then (on_db (issue (pd_crypto v) (pd_key v) rnd (px_faults x (n + 2))
          \<lparr>is_organizationId = org, is_serverId = sid, is_agentId = agentId, is_createdBy = admin,
           is_supersedesKeyId = None, is_status = None\<rparr>)) (\<lambda>(keyId, secret).
      give (agentId, keyId, secret)))))"

definition setting_line :: "string \<Rightarrow> string \<Rightarrow> string" where
  "setting_line name val = ''set '' @ name @ '' \"'' @ val @ ''\"''"

definition agent_lines :: "string \<Rightarrow> string \<Rightarrow> string \<Rightarrow> string \<Rightarrow> string list" where
  "agent_lines agentId sid keyId secret =
     [setting_line ''zshield_agent_id'' agentId, setting_line ''zshield_server_id'' sid,
      setting_line ''zshield_key_id'' keyId, setting_line ''zshield_agent_secret'' secret]"

(* src api/routes.ts:952-1027 credentials/post *)
definition createCredential :: "api_deps \<Rightarrow> api_env \<Rightarrow> issue_random \<Rightarrow> api_request \<Rightarrow> world \<Rightarrow> api_reply \<times> world" where
  "createCredential v x rnd q w =
     handle_with (writes v x q Credential_manage w) (\<lambda>a.
       and_then (tenant_step x 0 (ra_organizationId a) (find_server (ra_organizationId a) (pq_id q))) (\<lambda>server.
         if server = None then give not_found
         else and_then (replace_key v x rnd 1 a (pq_id q) ''replaced by a newly generated credential'') (\<lambda>(agentId, keyId, secret).
           and_then (audit x 4 a ''credential.created'' (pq_id q)) (\<lambda>_.
           give (reply 201
             [(''key_id'', JStr keyId), (''secret'', JStr secret), (''agent_id'', JStr agentId), (''server_id'', JStr (pq_id q)),
              (''installation'', JObj [(''lines'', JArr (map JStr (agent_lines agentId (pq_id q) keyId secret)))])])))))"

text \<open>The lines of the installed file that a server reads: comments and blank lines are left out.\<close>

(* src api/routes.ts:1096-1136 build/cfg *)
definition build_lines :: "string \<Rightarrow> string \<Rightarrow> string \<Rightarrow> string \<Rightarrow> string \<Rightarrow> string \<Rightarrow> string list" where
  "build_lines agentId sid keyId secret license url =
     [''set onesync on'', ''setr sv_stateBagStrictMode true'', ''set rateLimiter_netEvent_rate 50'',
      ''set rateLimiter_netEvent_burst 200'', ''set rateLimiter_netEventFlood_rate 75'',
      ''set rateLimiter_netEventFlood_burst 300'', ''set rateLimiter_stateBag_rate 75'',
      ''set rateLimiter_stateBag_burst 125'', ''set rateLimiter_stateBagFlood_rate 150'',
      ''set rateLimiter_stateBagFlood_burst 175'', ''set sv_filterRequestControl 2'', ''sv_scriptHookAllowed false'',
      ''set sv_endpointPrivacy true'', ''set sv_enableNetworkedPhoneExplosions false''] @
     agent_lines agentId sid keyId secret @
     [setting_line ''zshield_license_key'' license, setting_line ''zshield_dashboard_url'' url,
      ''ensure zshield-agent'', ''ensure zshield-ac'']"

(* src api/routes.ts:1053-1062 build/license *)
definition build_license :: "string \<Rightarrow> string \<Rightarrow> time_ms \<Rightarrow> db \<Rightarrow> string option result \<times> db" where
  "build_license org sid now d =
     (Inr (case first_row (\<lambda>l. li_organization_id l = org \<and> li_server_id l = sid) (licenses d) of
        None \<Rightarrow> None
      | Some l \<Rightarrow> if li_expires_at l < now then None else Some (li_token l)), d)"

(* src api/routes.ts:1039-1147 build *)
definition buildServer :: "api_deps \<Rightarrow> api_env \<Rightarrow> issue_random \<Rightarrow> string \<Rightarrow> api_request \<Rightarrow> world \<Rightarrow> api_reply \<times> world" where
  "buildServer v x rnd url q w =
     handle_with (writes v x q Credential_manage w) (\<lambda>a.
       (let org = ra_organizationId a; sid = pq_id q in
        and_then (tenant_step x 0 org (find_server org sid)) (\<lambda>server.
          if server = None then give not_found
          else and_then (tenant_step x 1 org (build_license org sid (px_js x 0))) (\<lambda>license.
            if \<not> truthy license then give (fault_reply 409 ''no_license'')
            else and_then (replace_key v x rnd 2 a sid ''replaced by a freshly generated build'') (\<lambda>(agentId, keyId, secret).
              and_then (audit x 5 a ''server.build_generated'' sid) (\<lambda>_.
              give (reply 201
                [(''filename'', JStr (''zshield-'' @ sid @ ''.cfg'')),
                 (''cfg'', JArr (map JStr (build_lines agentId sid keyId secret (the license) url)))])))))))"

(* src api/routes.ts:1149-1172 credentials/delete *)
definition revokeCredential :: "api_deps \<Rightarrow> api_env \<Rightarrow> api_request \<Rightarrow> world \<Rightarrow> api_reply \<times> world" where
  "revokeCredential v x q w =
     handle_with (writes v x q Credential_manage w) (\<lambda>a.
       (let org = ra_organizationId a;
            P = (\<lambda>r. cr_organization_id r = org \<and> cr_server_id r = pq_id q \<and> cr_key_id r = pq_id2 q \<and> cr_status r \<noteq> Cred_revoked) in
        and_then (tenant_step x 0 org (\<lambda>d. (Inr (exists_row P (credentials d)),
            d\<lparr>credentials := sql_update P (\<lambda>r. r\<lparr>cr_status := Cred_revoked, cr_revoked_at := Some (px_now x 0),
                cr_revoked_by := Some (aw_userId (ra_user a)),
                cr_revoke_reason := Some ''revoked by an administrator''\<rparr>) (credentials d)\<rparr>))) (\<lambda>found.
          if \<not> found then give not_found
          else and_then (audit x 1 a ''credential.revoked'' (pq_id q)) (\<lambda>_. give status_ok))))"

section \<open>Remote configuration\<close>

(* src api/routes.ts:1196-1205 configuration/put/update *)
definition configure_tx :: "string \<Rightarrow> string \<Rightarrow> (string \<times> json) list \<Rightarrow> time_ms \<Rightarrow> db \<Rightarrow> int option result \<times> db" where
  "configure_tx org sid fs now d =
     (case first_row (live_server org sid) (servers d) of
        None \<Rightarrow> (Inr None, d)
      | Some r \<Rightarrow>
          if \<not> int4_ok (sv_config_version r + 1) then (Inl out_of_range, d)
          else (Inr (Some (sv_config_version r + 1)), d\<lparr>servers := sql_update (live_server org sid)
                 (\<lambda>r. r\<lparr>sv_remote_config := JObj fs, sv_config_version := sv_config_version r + 1, sv_updated_at := now\<rparr>)
                 (servers d)\<rparr>))"

(* src api/routes.ts:1178-1220 configuration/put *)
definition putConfiguration :: "api_deps \<Rightarrow> api_env \<Rightarrow> api_request \<Rightarrow> world \<Rightarrow> api_reply \<times> world" where
  "putConfiguration v x q w =
     handle_with (writes v x q Configuration_write w) (\<lambda>a.
       case remoteConfigSchema (pq_body q) of
         None \<Rightarrow> give (reply 400 ((''error'', JStr ''validation'') # px_issue x))
       | Some fs \<Rightarrow>
           and_then (tenant_step x 0 (ra_organizationId a) (configure_tx (ra_organizationId a) (pq_id q) fs (px_now x 0))) (\<lambda>updated.
             case updated of
               None \<Rightarrow> give not_found
             | Some n \<Rightarrow>
                 and_then (audit x 1 a ''configuration.updated'' (pq_id q)) (\<lambda>_. give (reply 200 [(''config_version'', JInt n)]))))"

end
