(* ===== verification/Server_Facts.thy ===== *)
theory Server_Facts
  imports Api_Servers Agent_Config
begin

text \<open>
  What the routes on servers guarantee: a key that is generated replaces every other one, a server that
  is deleted has no key left, the quota holds, what an operator writes is what the agent reads.
\<close>

section \<open>Keys\<close>

lemma revoke_server_keys_unique:
  "credentials_unique rows \<Longrightarrow> credentials_unique (revoke_server_keys org sid admin reason now rows)"
  unfolding revoke_server_keys_def by (rule credentials_unique_update) simp_all

lemma revoke_server_keys_done:
  assumes "r \<in> set (revoke_server_keys org sid admin reason now rows)" and "cr_organization_id r = org" and "cr_server_id r = sid"
  shows "cr_status r = Cred_revoked"
proof -
  let ?P = "\<lambda>r. cr_organization_id r = org \<and> cr_server_id r = sid \<and> cr_status r \<noteq> Cred_revoked"
  obtain q where "r = (if ?P q then q\<lparr>cr_status := Cred_revoked, cr_revoked_at := Some now, cr_revoked_by := coalesce admin (cr_revoked_by q),
      cr_revoke_reason := Some reason\<rparr> else q)"
    using assms(1) unfolding revoke_server_keys_def in_sql_update by blast
  with assms(2,3) show ?thesis by (cases "?P q") auto
qed

lemma ensure_agent_credentials: "ensure_agent org sid created d = (Inr a, d') \<Longrightarrow> credentials d' = credentials d"
  by (auto simp: ensure_agent_def split: option.splits if_splits)

text \<open>\<open>sole_key\<close>: of the keys of the server, only this one resolves, and to this secret.\<close>

definition sole_key :: "crypto \<Rightarrow> bytes \<Rightarrow> string \<Rightarrow> string \<Rightarrow> string \<Rightarrow> string \<Rightarrow> string \<Rightarrow> db \<Rightarrow> bool" where
  "sole_key c key org sid agentId keyId secret d =
     ((\<forall>now. resolve c key now no_faults agentId keyId d =
         Inr (Some \<lparr>rc_keyId = keyId, rc_organizationId = org, rc_serverId = sid, rc_agentId = agentId, rc_secret = secret,
                    rc_status = Cred_active\<rparr>)) \<and>
      (\<forall>now f a k cr. resolve c key now f a k d = Inr (Some cr) \<longrightarrow> rc_organizationId cr = org \<longrightarrow> rc_serverId cr = sid \<longrightarrow> k = keyId))"

text \<open>What the insertion of the new key leaves, after the others are revoked.\<close>

lemma issued_sole:
  assumes laws: "gcm_laws c" and iv: "length (ir_iv rnd) = gcm_iv_bytes"
    and rows: "credentials d = revoke_server_keys org sid admin reason t rows"
    and run: "issue c key rnd f \<lparr>is_organizationId = org, is_serverId = sid, is_agentId = agentId, is_createdBy = admin,
        is_supersedesKeyId = None, is_status = None\<rparr> d = (Inr (keyId, secret), d')"
  shows "sole_key c key org sid agentId keyId secret d'"
proof -
  let ?row = "\<lambda>env. \<lparr>cr_key_id = ir_keyId rnd, cr_organization_id = org, cr_server_id = sid, cr_agent_id = agentId,
        cr_secret_encrypted = env,
        cr_secret_hint = drop (length (newAgentSecret (ir_random36 rnd)) - 4) (newAgentSecret (ir_random36 rnd)),
        cr_status = Cred_active, cr_supersedes_key_id = None, cr_created_by = admin,
        cr_revoked_by = None, cr_revoke_reason = None, cr_last_seen_at = None, cr_expires_at = None, cr_revoked_at = None\<rparr>"
  obtain env where env: "encryptSecret c (ir_iv rnd) (newAgentSecret (ir_random36 rnd)) key = Inr env"
    and res: "(keyId, secret) = (ir_keyId rnd, newAgentSecret (ir_random36 rnd))"
    and ins: "insert_credential (?row env) d = (Inr (), d')"
    by (rule issue_Inr [OF run]) (simp add: coalesce_default_def)
  have cw: "credentials d' = credentials d @ [?row env]" and u: "credentials_unique (credentials d')"
    using insert_credential_Inr [OF ins] by simp_all
  have "?row env \<in> set (credentials d')" by (simp add: cw)
  from resolve_row [OF u this, where c = c and key = key and secret = secret] decrypt_encrypt [OF laws iv env] res
  have one: "resolve c key now no_faults agentId keyId d' =
      Inr (Some \<lparr>rc_keyId = keyId, rc_organizationId = org, rc_serverId = sid, rc_agentId = agentId, rc_secret = secret,
                 rc_status = Cred_active\<rparr>)" for now
    by (simp add: usable_def resolved_def)
  have "k = keyId" if "resolve c key now f aid k d' = Inr (Some cr)" "rc_organizationId cr = org" "rc_serverId cr = sid"
    for now f aid k cr
  proof -
    from that(1) obtain row where row: "row \<in> set (credentials d')" "usable row" "cr_key_id row = k"
      "rc_serverId cr = cr_server_id row" "rc_organizationId cr = cr_organization_id row" by (rule resolve_SomeD)
    then have "row \<in> set (credentials d) \<longrightarrow> cr_status row = Cred_revoked"
      unfolding rows using revoke_server_keys_done that(2,3) by (metis (no_types))
    with row(2) have "row \<notin> set (credentials d)" by (auto simp: usable_def)
    with row(1,3) res show ?thesis by (simp add: cw)
  qed
  with one show ?thesis unfolding sole_key_def by blast
qed

lemma replace_key_sole:
  assumes laws: "gcm_laws (pd_crypto v)" and iv: "length (ir_iv rnd) = gcm_iv_bytes" and e: "\<And>w. E w"
    and q: "\<And>agentId keyId secret w'. sole_key (pd_crypto v) (pd_key v) (ra_organizationId a) sid agentId keyId secret (wd_db w') \<Longrightarrow>
      Q (agentId, keyId, secret) w'"
  shows "wp (replace_key v x rnd n a sid reason) Q E w"
  unfolding replace_key_def Let_def wp
proof (intro wp_tenant wp_on_db e)
  fix agentId d1 u d2 ks d3
  assume "(Inr (), wd_db (w\<lparr>wd_db := d1\<rparr>)\<lparr>credentials := revoke_server_keys (ra_organizationId a) sid (Some (aw_userId (ra_user a)))
      reason (px_now x (n + 1)) (credentials (wd_db (w\<lparr>wd_db := d1\<rparr>)))\<rparr>) = (Inr u, d2)"
  then have c2: "credentials d2 = revoke_server_keys (ra_organizationId a) sid (Some (aw_userId (ra_user a))) reason
      (px_now x (n + 1)) (credentials d1)" by auto
  assume "issue (pd_crypto v) (pd_key v) rnd (px_faults x (n + 2))
        \<lparr>is_organizationId = ra_organizationId a, is_serverId = sid, is_agentId = agentId, is_createdBy = Some (aw_userId (ra_user a)),
         is_supersedesKeyId = None, is_status = None\<rparr> (wd_db (w\<lparr>wd_db := d1\<rparr>\<lparr>wd_db := d2\<rparr>)) = (Inr ks, d3)"
  then show "case ks of (keyId, secret) \<Rightarrow> Q (agentId, keyId, secret) (w\<lparr>wd_db := d1\<rparr>\<lparr>wd_db := d2\<rparr>\<lparr>wd_db := d3\<rparr>)"
    using issued_sole [OF laws iv c2] by (cases ks) (auto intro: q)
qed

lemma sole_key_audit: "sole_key c key org sid aid k secret d \<Longrightarrow> sole_key c key org sid aid k secret (append_audit e d)"
proof -
  have "resolve c key now f a k (append_audit e d) = resolve c key now f a k d" for now f a k
    by (simp add: resolve_def lookup_db_cases select_credential_def)
  then show "sole_key c key org sid aid k secret d \<Longrightarrow> sole_key c key org sid aid k secret (append_audit e d)"
    by (simp add: sole_key_def)
qed

definition installed_lines :: "api_reply \<Rightarrow> json option" where
  "installed_lines r =
     (case map_of (ar_body r) ''cfg'' of
        Some ls \<Rightarrow> Some ls
      | None \<Rightarrow> (case map_of (ar_body r) ''installation'' of Some (JObj fs) \<Rightarrow> map_of fs ''lines'' | _ \<Rightarrow> None))"

lemma delivered:
  "sole_key c key org sid agentId keyId secret d \<Longrightarrow> set (agent_lines agentId sid keyId secret) \<subseteq> set ls \<Longrightarrow>
   \<exists>org agentId keyId secret ls'. map JStr ls = map JStr ls' \<and> set (agent_lines agentId sid keyId secret) \<subseteq> set ls' \<and>
     sole_key c key org sid agentId keyId secret d"
  by blast

lemma agent_lines_built: "line \<in> set (agent_lines agentId sid keyId secret) \<Longrightarrow>
    line \<in> set (build_lines agentId sid keyId secret license url)"
  by (simp add: build_lines_def)

text \<open>A key that is generated, alone or in a file to install, works at once with the secret shown, and
  it is the only one of its server that works: every key the server had before is dead.\<close>

theorem generated_key_replaces:
  assumes laws: "gcm_laws (pd_crypto v)" and iv: "length (ir_iv rnd) = gcm_iv_bytes"
    and run: "createCredential v x rnd q w = (r, w') \<or> buildServer v x rnd url q w = (r, w')" and ok: "ar_status r = 201"
  shows "\<exists>org agentId keyId secret ls. installed_lines r = Some (JArr (map JStr ls)) \<and>
    set (agent_lines agentId (pq_id q) keyId secret) \<subseteq> set ls \<and>
    sole_key (pd_crypto v) (pd_key v) org (pq_id q) agentId keyId secret (wd_db w')"
proof -
  let ?Q = "\<lambda>r w'. ar_status r = 201 \<longrightarrow> (\<exists>org agentId keyId secret ls. installed_lines r = Some (JArr (map JStr ls)) \<and>
    set (agent_lines agentId (pq_id q) keyId secret) \<subseteq> set ls \<and>
    sole_key (pd_crypto v) (pd_key v) org (pq_id q) agentId keyId secret (wd_db w'))"
  note steps = wp_tenant replace_key_sole [OF laws iv] wp_audit
  have "?Q r w'" using run
  proof
    assume "createCredential v x rnd q w = (r, w')"
    then show ?thesis unfolding createCredential_def
      by (rule routed)
        (auto simp: wp installed_lines_def reply_def [of 201] intro!: steps delivered sole_key_audit)
  next
    assume "buildServer v x rnd url q w = (r, w')"
    then show ?thesis unfolding buildServer_def Let_def
      by (rule routed)
        (auto simp: wp installed_lines_def reply_def [of 201] intro!: steps delivered sole_key_audit agent_lines_built)
  qed
  with ok show ?thesis by blast
qed


section \<open>Deletion\<close>

lemma revoke_server_keys_dead:
  assumes "r \<in> set rows" and "cr_organization_id r = org" and "cr_server_id r = sid"
  shows "dead_in (cr_key_id r) (revoke_server_keys org sid admin reason now rows)"
proof -
  let ?P = "\<lambda>r. cr_organization_id r = org \<and> cr_server_id r = sid \<and> cr_status r \<noteq> Cred_revoked"
  let ?f = "\<lambda>r. r\<lparr>cr_status := Cred_revoked, cr_revoked_at := Some now, cr_revoked_by := coalesce admin (cr_revoked_by r),
      cr_revoke_reason := Some reason\<rparr>"
  have "(if ?P r then ?f r else r) \<in> set (revoke_server_keys org sid admin reason now rows)"
    using assms(1) unfolding revoke_server_keys_def in_sql_update by blast
  moreover have "cr_key_id (if ?P r then ?f r else r) = cr_key_id r" "\<not> usable (if ?P r then ?f r else r)"
    using assms(2,3) by (auto simp: usable_def)
  ultimately show ?thesis unfolding dead_in_def by blast
qed

lemma same_credentials: "only_sessions w w1 \<Longrightarrow> credentials (wd_db w1) = credentials (wd_db w) \<and> servers (wd_db w1) = servers (wd_db w) \<and>
    entitlements (wd_db w1) = entitlements (wd_db w) \<and> subscriptions (wd_db w1) = subscriptions (wd_db w)"
  by (auto simp: only_sessions_def)

lemma writes_same:
  assumes "writes v x q p w = (g, w1)"
  shows "credentials (wd_db w1) = credentials (wd_db w)" "servers (wd_db w1) = servers (wd_db w)"
    "entitlements (wd_db w1) = entitlements (wd_db w)" "subscriptions (wd_db w1) = subscriptions (wd_db w)"
  using same_credentials guards_sessions(1) [of w v x q p] assms by (metis snd_conv)+

definition emptied :: "string \<Rightarrow> string \<Rightarrow> db \<Rightarrow> db \<Rightarrow> bool" where
  "emptied org sid d d' =
     ((\<exists>s \<in> set (servers d). live_server org sid s) \<and> (\<forall>s \<in> set (servers d'). \<not> live_server org sid s) \<and>
      (credentials_inv d \<longrightarrow> credentials_inv d') \<and>
      (\<forall>r \<in> set (credentials d). cr_organization_id r = org \<and> cr_server_id r = sid \<longrightarrow> dead_key (cr_key_id r) d'))"

lemma emptied_cong:
  "credentials d1 = credentials d \<Longrightarrow> servers d1 = servers d \<Longrightarrow> credentials d2 = credentials d' \<Longrightarrow> servers d2 = servers d' \<Longrightarrow>
   emptied org sid d1 d' \<Longrightarrow> emptied org sid d d2"
  by (simp add: emptied_def credentials_inv_def dead_key_def)

lemma delete_server_emptied:
  assumes "delete_server_tx org sid now d = (Inr True, d')"
  shows "emptied org sid d d'"
proof -
  have ex: "exists_row (live_server org sid) (servers d)"
    and d': "d' = d\<lparr>servers := sql_update (live_server org sid) (\<lambda>r. r\<lparr>sv_deleted_at := Some now, sv_state := State_offline\<rparr>) (servers d),
               credentials := revoke_server_keys org sid None ''server deleted'' now (credentials d)\<rparr>"
    using assms by (auto simp: delete_server_tx_def split: if_splits)
  have "\<not> live_server org sid s" if "s \<in> set (servers d')" for s
  proof -
    obtain r where "s = (if live_server org sid r then r\<lparr>sv_deleted_at := Some now, sv_state := State_offline\<rparr> else r)"
      using \<open>s \<in> _\<close> by (auto simp: d' in_sql_update)
    then show ?thesis by (cases "live_server org sid r") (simp_all add: live_server_def)
  qed
  then show ?thesis using ex revoke_server_keys_unique revoke_server_keys_dead
    by (simp add: emptied_def exists_row_iff credentials_inv_def dead_key_in d')
qed

text \<open>Deleting a server cuts its agents off for good: the server is no longer live, and whatever the
  store of credentials does afterwards, none of the keys the server had resolves again.\<close>

theorem deleted_server_cut_off:
  assumes run: "deleteServer v x q w = (r, w')" and ok: "ar_status r = 200" and inv: "credentials_inv (wd_db w)"
  shows "\<exists>org. (\<exists>s \<in> set (servers (wd_db w)). live_server org (pq_id q) s) \<and>
    (\<forall>s \<in> set (servers (wd_db w')). \<not> live_server org (pq_id q) s) \<and>
    (\<forall>k c key d2 now f a cr. (\<exists>r \<in> set (credentials (wd_db w)). cr_organization_id r = org \<and> cr_server_id r = pq_id q \<and> cr_key_id r = k) \<and>
       (cred_step c key)\<^sup>*\<^sup>* (wd_db w') d2 \<longrightarrow> resolve c key now f a k d2 \<noteq> Inr (Some cr))"
proof -
  let ?Q = "\<lambda>r w'. ar_status r = 200 \<longrightarrow> (\<exists>org. emptied org (pq_id q) (wd_db w) (wd_db w'))"
  have "?Q r w'" using run unfolding deleteServer_def
  proof (rule routed)
    fix a w1
    assume g: "writes v x q Server_delete w = (Inr a, w1)"
    note same = writes_same [OF g]
    have "emptied (ra_organizationId a) (pq_id q) (wd_db w) (append_audit au d')"
      if "delete_server_tx (ra_organizationId a) (pq_id q) (px_now x 0) (wd_db w1) = (Inr True, d')" for d' au
      using delete_server_emptied [OF that] by (rule emptied_cong [rotated 4]) (simp_all add: same)
    then have "\<exists>org. emptied org (pq_id q) (wd_db w) (append_audit au d')"
      if "delete_server_tx (ra_organizationId a) (pq_id q) (px_now x 0) (wd_db w1) = (Inr True, d')" for d' au
      using that by blast
    then show "wp (and_then (tenant_step x 0 (ra_organizationId a) (delete_server_tx (ra_organizationId a) (pq_id q) (px_now x 0))) (\<lambda>deleted.
         if \<not> deleted then give not_found
         else and_then (audit x 1 a ''server.deleted'' (pq_id q)) (\<lambda>_. give status_ok))) ?Q (\<lambda>w2. \<forall>e. ?Q (refused (Other_access e)) w2) w1"
      by (auto simp: wp intro!: wp_tenant wp_audit)
  qed simp
  with ok obtain org where e: "emptied org (pq_id q) (wd_db w) (wd_db w')" by blast
  have dead: "resolve c key now f a k d2 \<noteq> Inr (Some cr)"
    if "r \<in> set (credentials (wd_db w))" "cr_organization_id r = org" "cr_server_id r = pq_id q" "cr_key_id r = k"
      "(cred_step c key)\<^sup>*\<^sup>* (wd_db w') d2" for r k c key d2 now f a cr
    using cred_steps_dead [OF that(5), of k] dead_key_resolve e that(1-4) inv unfolding emptied_def by metis
  show ?thesis using e dead unfolding emptied_def by (intro exI [of _ org]) blast
qed

section \<open>Quota\<close>

definition within_quota :: "string \<Rightarrow> db \<Rightarrow> bool" where
  "within_quota org d = (used_servers org d \<le> allowed_servers org d)"

lemma allowed_same: "entitlements d' = entitlements d \<Longrightarrow> subscriptions d' = subscriptions d \<Longrightarrow>
    allowed_servers org d' = allowed_servers org d"
  by (simp only: allowed_servers_def)

lemma used_same: "servers d' = servers d \<Longrightarrow> used_servers org d' = used_servers org d"
  by (simp only: used_servers_def)

lemma create_server_quota:
  assumes "create_server_tx s d = (Inr y, d')" and "sv_deleted_at s = None"
  shows "within_quota org d \<longrightarrow> within_quota org d'"
    and "y = None \<longrightarrow> used_servers (sv_organization_id s) d' = used_servers (sv_organization_id s) d + 1 \<and>
      used_servers (sv_organization_id s) d' \<le> allowed_servers (sv_organization_id s) d'"
    and "y \<noteq> None \<longrightarrow> d' = d \<and> allowed_servers (sv_organization_id s) d \<le> used_servers (sv_organization_id s) d"
proof -
  have "(\<exists>n. y = Some n) \<and> d' = d \<and> allowed_servers (sv_organization_id s) d \<le> used_servers (sv_organization_id s) d \<or>
      y = None \<and> d' = d\<lparr>servers := servers d @ [s]\<rparr> \<and> used_servers (sv_organization_id s) d < allowed_servers (sv_organization_id s) d"
    using assms(1) by (auto simp: create_server_tx_def Let_def insert_server_def give_def split: if_splits elim!: and_then_Inr)
  moreover have "used_servers o' (d\<lparr>servers := servers d @ [s]\<rparr>) = used_servers o' d + (if o' = sv_organization_id s then 1 else 0)" for o'
    using assms(2) by (simp add: used_servers_def row_count_def live_in_def)
  moreover have "allowed_servers o' (d\<lparr>servers := ss\<rparr>) = allowed_servers o' d" for o' ss
    by (rule allowed_same) simp_all
  ultimately show "within_quota org d \<longrightarrow> within_quota org d'"
    and "y = None \<longrightarrow> used_servers (sv_organization_id s) d' = used_servers (sv_organization_id s) d + 1 \<and>
      used_servers (sv_organization_id s) d' \<le> allowed_servers (sv_organization_id s) d'"
    and "y \<noteq> None \<longrightarrow> d' = d \<and> allowed_servers (sv_organization_id s) d \<le> used_servers (sv_organization_id s) d"
    by (auto simp: within_quota_def)
qed




section \<open>Configuration\<close>

lemma config_document_reads:
  assumes "remoteConfigSchema (JObj cfg) = Some cfg" and "distinct (map fst cfg)" and "(k, u) \<in> set cfg"
  shows "obj_get k (config_document r cfg license saved) = Some u"
proof -
  have "k \<in> {''telemetry_enabled'', ''heartbeat_interval'', ''telemetry_interval'', ''alert_batch_size'',
      ''alert_flush_interval'', ''log_level'', ''metrics''}"
    using assms(1,3) by (auto simp: remoteConfigSchema_def image_iff dest!: z_object_keys)
  then have k: "k \<noteq> ''protections''" "k \<noteq> ''license''" by auto
  have "map_of (rev cfg) k = Some u"
    using assms(2,3) by (simp add: rev_map [symmetric] del: rev_map)
  with k show ?thesis by (simp add: config_document_def obj_get_spread)
qed

lemma remoteConfigSchema_same: "remoteConfigSchema j = Some fs \<Longrightarrow> j = JObj fs"
  by (auto simp: remoteConfigSchema_def dest!: z_object_keys)

text \<open>What an operator writes is what the agent reads: after an accepted write, the next configuration
  the agent of that server asks for carries every field as it was given, with the version in the reply.\<close>

theorem written_configuration_reaches_agent:
  assumes run: "putConfiguration v x q w = (r, w')" and ok: "ar_status r = 200"
    and body: "pq_body q = JObj cfg" "distinct (map fst cfg)"
  shows "\<exists>org n. map_of (ar_body r) ''config_version'' = Some (JInt n) \<and>
    (\<forall>ctx. rc_organizationId (cx_credential ctx) = org \<and> rc_serverId (cx_credential ctx) = pq_id q \<longrightarrow>
      (\<exists>fs. agent_config no_faults ctx w' = (Inr (Some (Config_ok fs)), w') \<and>
        obj_get ''config_version'' fs = Some (JInt n) \<and> (\<forall>k u. (k, u) \<in> set cfg \<longrightarrow> obj_get k fs = Some u)))"
proof -
  let ?R = "\<lambda>org n w'. \<forall>ctx. rc_organizationId (cx_credential ctx) = org \<and> rc_serverId (cx_credential ctx) = pq_id q \<longrightarrow>
      (\<exists>fs. agent_config no_faults ctx w' = (Inr (Some (Config_ok fs)), w') \<and>
        obj_get ''config_version'' fs = Some (JInt n) \<and> (\<forall>k u. (k, u) \<in> set cfg \<longrightarrow> obj_get k fs = Some u))"
  let ?Q = "\<lambda>r w'. ar_status r = 200 \<longrightarrow> (\<exists>org n. map_of (ar_body r) ''config_version'' = Some (JInt n) \<and> ?R org n w')"
  have reads: "?R org n w2"
    if tx: "configure_tx org (pq_id q) cfg now d = (Inr (Some n), d')" and sv: "servers (wd_db w2) = servers d'"
      and schema: "remoteConfigSchema (JObj cfg) = Some cfg" and org: "org_id_ok org" for org now d n d' w2
  proof (intro allI impI)
    fix ctx :: agent_auth_context
    assume c: "rc_organizationId (cx_credential ctx) = org \<and> rc_serverId (cx_credential ctx) = pq_id q"
    let ?f = "\<lambda>r. r\<lparr>sv_remote_config := JObj cfg, sv_config_version := sv_config_version r + 1, sv_updated_at := now\<rparr>"
    obtain s where s: "first_row (live_server org (pq_id q)) (servers d) = Some s" and n: "n = sv_config_version s + 1"
      and d': "d' = d\<lparr>servers := sql_update (live_server org (pq_id q)) ?f (servers d)\<rparr>"
      using tx by (auto simp: configure_tx_def split: option.splits if_splits)
    have "first_row (live_server org (pq_id q)) (servers (wd_db w2)) = Some (?f s)"
      unfolding sv d' using first_row_SomeD [OF s] by (simp add: first_row_update s live_server_def)
    then obtain lic sav where "config_tx org (pq_id q) (wd_db w2) = (Inr (Some (Config_ok (config_document (?f s) cfg lic sav))), wd_db w2)"
      by (simp add: config_tx_def Let_def schema)
    from world_tx_ok [where fn = "config_tx org (pq_id q)" and w = w2, OF org this] c have "agent_config no_faults ctx w2 = (Inr (Some (Config_ok (config_document (?f s) cfg lic sav))), w2)"
      by (simp add: agent_config_def Let_def)
    moreover have "map_of (rev cfg) ''config_version'' = None"
      using schema by (auto simp: remoteConfigSchema_def map_of_eq_None_iff dest!: z_object_keys)
    then have "obj_get ''config_version'' (config_document (?f s) cfg lic sav) = Some (JInt n)"
      unfolding config_document_def by (simp add: obj_get_spread n) (simp add: obj_get_def)
    ultimately show "\<exists>fs. agent_config no_faults ctx w2 = (Inr (Some (Config_ok fs)), w2) \<and>
        obj_get ''config_version'' fs = Some (JInt n) \<and> (\<forall>k u. (k, u) \<in> set cfg \<longrightarrow> obj_get k fs = Some u)"
      using config_document_reads [OF schema body(2)] by blast
  qed
  have "?Q r w'" using run unfolding putConfiguration_def
  proof (rule routed [where Q = ?Q])
    fix a w1
    show "wp (case remoteConfigSchema (pq_body q) of
         None \<Rightarrow> give (reply 400 ((''error'', JStr ''validation'') # px_issue x))
       | Some fs \<Rightarrow>
           and_then (tenant_step x 0 (ra_organizationId a) (configure_tx (ra_organizationId a) (pq_id q) fs (px_now x 0))) (\<lambda>updated.
             case updated of
               None \<Rightarrow> give not_found
             | Some n \<Rightarrow>
                 and_then (audit x 1 a ''configuration.updated'' (pq_id q)) (\<lambda>_. give (reply 200 [(''config_version'', JInt n)]))))
      ?Q (\<lambda>w2. \<forall>e. ?Q (refused (Other_access e)) w2) w1"
    proof (cases "remoteConfigSchema (pq_body q)")
      case (Some fs)
      with body remoteConfigSchema_same have fs: "fs = cfg" "remoteConfigSchema (JObj cfg) = Some cfg" by fastforce+
      show ?thesis unfolding Some option.case wp fs(1)
      proof (rule wp_tenant)
        fix y d'
        assume org: "org_id_ok (ra_organizationId a)"
          and tx: "configure_tx (ra_organizationId a) (pq_id q) cfg (px_now x 0) (wd_db w1) = (Inr y, d')"
        show "case y of None \<Rightarrow> ?Q not_found (w1\<lparr>wd_db := d'\<rparr>)
          | Some n \<Rightarrow> wp (audit x 1 a ''configuration.updated'' (pq_id q)) (\<lambda>_. ?Q (reply 200 [(''config_version'', JInt n)]))
              (\<lambda>w2. \<forall>e. ?Q (refused (Other_access e)) w2) (w1\<lparr>wd_db := d'\<rparr>)"
        proof (cases y)
          case (Some n)
          have "?R (ra_organizationId a) n (w1\<lparr>wd_db := append_audit au d'\<rparr>)" for au
            by (rule reads [OF tx [unfolded Some] _ fs(2) org]) simp
          then show ?thesis unfolding Some option.case
            by (intro wp_audit) (simp, intro impI exI [of _ "ra_organizationId a"] exI [of _ n], simp add: reply_def)
        qed simp
      qed simp
    qed (simp add: wp)
  qed simp
  with ok show ?thesis by blast
qed

end
