(* ===== verification/Api_Incidents.thy ===== *)
theory Api_Incidents
  imports Api_Members
begin

text \<open>
  \<open>apps/api/src/api/routes.ts\<close>: alerts and incidents. The columns of a reply are those the tables
  keep here; an instant is a number. \<open>z.coerce.number()\<close> on a text of the query is \<open>Number\<close>.
\<close>

section \<open>Schemas\<close>

definition z_alert_status :: "json \<Rightarrow> alert_status option" where
  "z_alert_status = z_enum [(''OPEN'', Alert_open), (''ACKNOWLEDGED'', Alert_acknowledged), (''RESOLVED'', Alert_resolved)]"

definition z_incident_status :: "json \<Rightarrow> incident_status option" where
  "z_incident_status = z_enum [(''OPEN'', Inc_open), (''INVESTIGATING'', Inc_investigating), (''MITIGATED'', Inc_mitigated),
     (''RESOLVED'', Inc_resolved), (''CLOSED'', Inc_closed)]"

primrec alert_status_name :: "alert_status \<Rightarrow> string" where
  "alert_status_name Alert_open = ''OPEN''"
| "alert_status_name Alert_acknowledged = ''ACKNOWLEDGED''"
| "alert_status_name Alert_resolved = ''RESOLVED''"

primrec incident_status_name :: "incident_status \<Rightarrow> string" where
  "incident_status_name Inc_open = ''OPEN''"
| "incident_status_name Inc_investigating = ''INVESTIGATING''"
| "incident_status_name Inc_mitigated = ''MITIGATED''"
| "incident_status_name Inc_resolved = ''RESOLVED''"
| "incident_status_name Inc_closed = ''CLOSED''"

(* src api/routes.ts:84-89 alertPatchSchema *)
definition alertPatchSchema :: "json \<Rightarrow> (alert_status \<times> string option) option" where
  "alertPatchSchema j = do {
     fs \<leftarrow> z_object [''status'', ''incident_id''] j;
     st \<leftarrow> z_field ''status'' z_alert_status fs;
     inc \<leftarrow> z_nullish ''incident_id'' (z_string 0 64) fs;
     Some (st, inc)
   }"

record incident_input =
  ii_title :: string
  ii_description :: "string option"
  ii_severity :: severity
  ii_server_id :: "string option"
  ii_alert_ids :: "string list"

text \<open>An absent list and an empty one are not told apart by the code.\<close>

(* src api/routes.ts:91-99 incidentCreateSchema *)
definition incidentCreateSchema :: "json \<Rightarrow> incident_input option" where
  "incidentCreateSchema j = do {
     fs \<leftarrow> z_object [''title'', ''description'', ''severity'', ''server_id'', ''alert_ids''] j;
     title \<leftarrow> z_field ''title'' (z_string 1 200) fs;
     descr \<leftarrow> z_optional ''description'' (z_string 0 20000) fs;
     sev \<leftarrow> z_default ''severity'' z_severity Sev_medium fs;
     sid \<leftarrow> z_optional ''server_id'' (z_string 0 64) fs;
     ids \<leftarrow> z_optional ''alert_ids'' (z_array 0 200 (z_string 0 64)) fs;
     Some \<lparr>ii_title = title, ii_description = descr, ii_severity = sev, ii_server_id = sid,
           ii_alert_ids = coalesce_default ids []\<rparr>
   }"

record incident_patch =
  ip_title :: "string option"
  ip_description :: "string option"
  ip_severity :: "severity option"
  ip_status :: "incident_status option"
  ip_assigned_to :: "string option"

(* src api/routes.ts:101-109 incidentPatchSchema *)
definition incidentPatchSchema :: "json \<Rightarrow> incident_patch option" where
  "incidentPatchSchema j = do {
     fs \<leftarrow> z_object [''title'', ''description'', ''severity'', ''status'', ''assigned_to''] j;
     title \<leftarrow> z_optional ''title'' (z_string 1 200) fs;
     descr \<leftarrow> z_optional ''description'' (z_string 0 20000) fs;
     sev \<leftarrow> z_optional ''severity'' z_severity fs;
     st \<leftarrow> z_optional ''status'' z_incident_status fs;
     asg \<leftarrow> z_nullish ''assigned_to'' (z_string 0 64) fs;
     Some \<lparr>ip_title = title, ip_description = descr, ip_severity = sev, ip_status = st, ip_assigned_to = asg\<rparr>
   }"

record alert_query =
  aq_server_id :: "string option"
  aq_severity :: "severity option"
  aq_category :: "string option"
  aq_status :: "alert_status option"
  aq_since :: "int option"
  aq_limit :: int
  aq_cursor :: "string option"

definition query_object :: "(string \<times> string) list \<Rightarrow> json" where
  "query_object qs = JObj (map (\<lambda>(k, v). (k, JStr v)) qs)"

definition z_coerced :: "js_lib \<Rightarrow> (int \<Rightarrow> bool) \<Rightarrow> json \<Rightarrow> int option" where
  "z_coerced js ok j =
     (case j of
        JStr s \<Rightarrow> (case js_integer (number_other js) s of Some i \<Rightarrow> if ok i then Some i else None | None \<Rightarrow> None)
      | _ \<Rightarrow> None)"

(* src api/routes.ts:111-121 alertQuerySchema *)
definition alertQuerySchema :: "js_lib \<Rightarrow> (string \<times> string) list \<Rightarrow> alert_query option" where
  "alertQuerySchema js qs = do {
     fs \<leftarrow> z_object [''server_id'', ''severity'', ''category'', ''status'', ''since'', ''limit'', ''cursor''] (query_object qs);
     sid \<leftarrow> z_optional ''server_id'' (z_string 0 64) fs;
     sev \<leftarrow> z_optional ''severity'' z_severity fs;
     cat \<leftarrow> z_optional ''category'' (z_string 0 32) fs;
     st \<leftarrow> z_optional ''status'' z_alert_status fs;
     since \<leftarrow> z_optional ''since'' (z_coerced js (\<lambda>i. 0 \<le> i)) fs;
     lim \<leftarrow> z_default ''limit'' (z_coerced js (\<lambda>i. 1 \<le> i \<and> i \<le> 200)) 50 fs;
     cur \<leftarrow> z_optional ''cursor'' (z_string 0 64) fs;
     Some \<lparr>aq_server_id = sid, aq_severity = sev, aq_category = cat, aq_status = st, aq_since = since, aq_limit = lim, aq_cursor = cur\<rparr>
   }"

section \<open>Alerts\<close>

definition alert_view :: "alert_row \<Rightarrow> json" where
  "alert_view r = JObj
     [(''id'', JStr (al_id r)), (''server_id'', JStr (al_server_id r)), (''severity'', JStr (severity_name (al_severity r))),
      (''category'', JStr (al_category r)), (''status'', JStr (alert_status_name (al_status r))), (''summary'', JStr (al_summary r)),
      (''metadata'', al_metadata r), (''occurrences'', JInt (al_occurrences r)), (''occurred_at'', JInt (al_occurred_at r)),
      (''last_occurrence_at'', j_opt JInt (al_last_occurrence_at r)), (''incident_id'', j_opt JStr (al_incident_id r)),
      (''acknowledged_at'', j_opt JInt (al_acknowledged_at r)), (''resolved_at'', j_opt JInt (al_resolved_at r)),
      (''created_at'', JInt (al_created_at r)), (''origin'', j_opt JStr (al_origin r))]"

definition unless_given :: "'a option \<Rightarrow> ('a \<Rightarrow> bool) \<Rightarrow> bool" where
  "unless_given x P = (case x of None \<Rightarrow> True | Some v \<Rightarrow> P v)"

text \<open>\<open>id < $7\<close> is the order of the text; the rows come newest first, then by descending identifier.\<close>

(* src api/routes.ts:1241-1247 alerts/get/where *)
definition alert_matches :: "string \<Rightarrow> alert_query \<Rightarrow> alert_row \<Rightarrow> bool" where
  "alert_matches org f r =
     (al_organization_id r = org \<and> unless_given (aq_server_id f) (\<lambda>v. al_server_id r = v) \<and>
      unless_given (aq_severity f) (\<lambda>v. al_severity r = v) \<and> unless_given (aq_status f) (\<lambda>v. al_status r = v) \<and>
      unless_given (aq_category f) (\<lambda>v. al_category r = v) \<and>
      unless_given (aq_since f) (\<lambda>v. v * 1000 \<le> al_created_at r) \<and> unless_given (aq_cursor f) (\<lambda>v. al_id r < v))"

definition newest_first :: "alert_row list \<Rightarrow> alert_row list" where
  "newest_first rows = rev (sort_key (\<lambda>r. al_created_at r) (sort_key al_id rows))"

definition alert_page :: "string \<Rightarrow> alert_query \<Rightarrow> db \<Rightarrow> alert_row list" where
  "alert_page org f d = take (nat (aq_limit f)) (newest_first (filter (alert_matches org f) (alerts d)))"

definition next_cursor :: "alert_query \<Rightarrow> alert_row list \<Rightarrow> string option" where
  "next_cursor f rows = (if int (length rows) = aq_limit f then Some (al_id (last rows)) else None)"

definition alert_categories :: "string list" where
  "alert_categories = [''event'', ''entity'', ''movement'', ''economy'', ''weapon'', ''resource'', ''admin'', ''agent'', ''other'']"

text \<open>The category is only bounded in length; the cast to the enumeration raises on any other text.\<close>

(* src api/routes.ts:1226-1263 alerts/get *)
definition listAlerts :: "api_deps \<Rightarrow> api_env \<Rightarrow> api_request \<Rightarrow> world \<Rightarrow> api_reply \<times> world" where
  "listAlerts v x q w =
     handle_with (reads v x q Alert_read w) (\<lambda>a.
       case alertQuerySchema (pd_js v) (pq_query q) of
         None \<Rightarrow> give invalid
       | Some f \<Rightarrow>
           tenant_step x 0 (ra_organizationId a) (\<lambda>d.
             if \<not> unless_given (aq_category f) (\<lambda>c. c \<in> set alert_categories) then (Inl (Thrown ''invalid enum''), d)
             else (let rows = alert_page (ra_organizationId a) f d in
               (Inr (reply 200 [(''alerts'', JArr (map alert_view rows)), (''next_cursor'', j_opt JStr (next_cursor f rows))]), d))))"

(* src api/routes.ts:1276-1282 alerts/patch/set *)
definition triaged :: "alert_status \<Rightarrow> string \<Rightarrow> string option \<Rightarrow> time_ms \<Rightarrow> alert_row \<Rightarrow> alert_row" where
  "triaged st uid inc now r =
     r\<lparr>al_status := st,
       al_acknowledged_by := (if st = Alert_acknowledged then Some uid else al_acknowledged_by r),
       al_acknowledged_at := (if st = Alert_acknowledged then Some now else al_acknowledged_at r),
       al_resolved_by := (if st = Alert_resolved then Some uid else al_resolved_by r),
       al_resolved_at := (if st = Alert_resolved then Some now else al_resolved_at r),
       al_incident_id := coalesce inc (al_incident_id r)\<rparr>"

definition incident_exists :: "string \<Rightarrow> string \<Rightarrow> db \<Rightarrow> bool" where
  "incident_exists org i d = exists_row (\<lambda>r. in_organization_id r = org \<and> in_id r = i) (incidents d)"

(* src api/routes.ts:1274-1287 alerts/patch/transaction *)
definition triage_tx :: "string \<Rightarrow> string \<Rightarrow> string \<Rightarrow> alert_status \<Rightarrow> string option \<Rightarrow> time_ms \<Rightarrow> db \<Rightarrow> bool result \<times> db" where
  "triage_tx org uid aid st inc now d =
     (let P = (\<lambda>r. al_organization_id r = org \<and> al_id r = aid) in
      if exists_row P (alerts d) \<and> \<not> unless_given inc (\<lambda>i. incident_exists org i d) then (Inl Foreign_key_violation, d)
      else (Inr (exists_row P (alerts d)), d\<lparr>alerts := sql_update P (triaged st uid inc now) (alerts d)\<rparr>))"

definition emits :: "string \<Rightarrow> string \<Rightarrow> (string \<times> json) list \<Rightarrow> 'a \<Rightarrow> world \<Rightarrow> 'a result \<times> world" where
  "emits org kind payload y w = (Inr y, publish org kind payload w)"

lemma wp_emits [wp]: "wp (emits org kind payload y) Q E w = Q y (publish org kind payload w)"
  by (simp add: wp_def emits_def)

(* src api/routes.ts:1265-1302 alerts/patch *)
definition patchAlert :: "api_deps \<Rightarrow> api_env \<Rightarrow> api_request \<Rightarrow> world \<Rightarrow> api_reply \<times> world" where
  "patchAlert v x q w =
     handle_with (writes v x q Alert_triage w) (\<lambda>a.
       case alertPatchSchema (pq_body q) of
         None \<Rightarrow> give invalid
       | Some (st, inc) \<Rightarrow>
           and_then (tenant_step x 0 (ra_organizationId a)
               (triage_tx (ra_organizationId a) (aw_userId (ra_user a)) (pq_id q) st inc (px_now x 0))) (\<lambda>updated.
             if \<not> updated then give not_found
             else emits (ra_organizationId a) ''alert.updated''
                    [(''id'', JStr (pq_id q)), (''status'', JStr (alert_status_name st))] status_ok))"

section \<open>Incidents\<close>

definition incident_view :: "incident_row \<Rightarrow> json" where
  "incident_view r = JObj
     [(''id'', JStr (in_id r)), (''title'', JStr (in_title r)), (''description'', j_opt JStr (in_description r)),
      (''severity'', JStr (severity_name (in_severity r))), (''status'', JStr (incident_status_name (in_status r))),
      (''server_id'', j_opt JStr (in_server_id r)), (''assigned_to'', j_opt JStr (in_assigned_to r)),
      (''alert_count'', JInt (in_alert_count r)), (''first_alert_at'', j_opt JInt (in_first_alert_at r)),
      (''last_alert_at'', j_opt JInt (in_last_alert_at r)), (''resolved_at'', j_opt JInt (in_resolved_at r)),
      (''created_at'', JInt (in_created_at r))]"

(* src api/routes.ts:1308-1322 incidents/get *)
definition listIncidents :: "api_deps \<Rightarrow> api_env \<Rightarrow> api_request \<Rightarrow> world \<Rightarrow> api_reply \<times> world" where
  "listIncidents v x q w =
     handle_with (reads v x q Incident_read w) (\<lambda>a.
       tenant_step x 0 (ra_organizationId a) (\<lambda>d.
         (Inr (reply 200 [(''incidents'', JArr (map incident_view
            (take 100 (rev (sort_key in_created_at (inside in_organization_id (ra_organizationId a) (incidents d)))))))]), d)))"

text \<open>The level of proof of an incident, from the alerts attached to it.\<close>

(* src api/routes.ts:1363-1373 incidents/evidenceLevel *)
definition evidence_level :: "alert_row list \<Rightarrow> string" where
  "evidence_level rows =
     (let categories = card (al_category ` set rows);
          critical = (Sev_critical \<in> al_severity ` set rows);
          high = (critical \<or> Sev_high \<in> al_severity ` set rows) in
      if rows = [] then ''E0''
      else if 2 \<le> categories \<and> critical then ''E4''
      else if 2 \<le> categories then ''E3''
      else if high then ''E2''
      else ''E1'')"

definition attached :: "string \<Rightarrow> string \<Rightarrow> alert_row \<Rightarrow> bool" where
  "attached org i r = (al_organization_id r = org \<and> al_incident_id r = Some i)"

definition timeline_view :: "db \<Rightarrow> incident_event_row \<Rightarrow> json" where
  "timeline_view d e = JObj
     [(''kind'', JStr (ie_kind e)), (''body'', j_opt JStr (ie_body e)), (''metadata'', ie_metadata e),
      (''created_at'', JInt (ie_created_at e)),
      (''actor_name'', j_opt JStr (map_option u_display_name
         (first_row (\<lambda>u. Some (u_id u) = ie_actor_user_id e) (users d))))]"

(* src api/routes.ts:1327-1382 incidents/detail *)
definition incidentDetail :: "api_deps \<Rightarrow> api_env \<Rightarrow> api_request \<Rightarrow> world \<Rightarrow> api_reply \<times> world" where
  "incidentDetail v x q w =
     handle_with (reads v x q Incident_read w) (\<lambda>a.
       tenant_step x 0 (ra_organizationId a) (\<lambda>d.
         let org = ra_organizationId a in
         case first_row (\<lambda>r. in_organization_id r = org \<and> in_id r = pq_id q) (incidents d) of
           None \<Rightarrow> (Inr not_found, d)
         | Some inc \<Rightarrow>
             (let rows = take 200 (sort_key al_occurred_at (filter (attached org (pq_id q)) (alerts d))) in
              (Inr (reply 200
                 [(''incident'', incident_view inc),
                  (''timeline'', JArr (map (timeline_view d) (sort_key ie_created_at
                     (filter (\<lambda>e. ie_organization_id e = org \<and> ie_incident_id e = pq_id q) (incident_events d))))),
                  (''alerts'', JArr (map alert_view rows)), (''evidence_level'', JStr (evidence_level rows))]), d))))"

definition incident_event :: "string \<Rightarrow> string \<Rightarrow> string \<Rightarrow> string \<Rightarrow> string option \<Rightarrow> json \<Rightarrow> time_ms \<Rightarrow> incident_event_row" where
  "incident_event org i uid kind body meta now =
     \<lparr>ie_organization_id = org, ie_incident_id = i, ie_actor_user_id = Some uid, ie_kind = kind, ie_body = body,
      ie_metadata = meta, ie_created_at = now\<rparr>"

definition append_event :: "incident_event_row \<Rightarrow> db \<Rightarrow> db" where
  "append_event e d = d\<lparr>incident_events := incident_events d @ [e]\<rparr>"

(* src api/routes.ts:1394-1406 incidents/comment/transaction *)
definition comment_tx :: "string \<Rightarrow> string \<Rightarrow> string \<Rightarrow> string \<Rightarrow> time_ms \<Rightarrow> db \<Rightarrow> bool result \<times> db" where
  "comment_tx org uid i body now d =
     (if \<not> incident_exists org i d then (Inr False, d)
      else (Inr True, append_event (incident_event org i uid ''comment'' (Some body) (JObj []) now) d))"

(* src api/routes.ts:1386-1414 incidents/comment *)
definition commentIncident :: "api_deps \<Rightarrow> api_env \<Rightarrow> api_request \<Rightarrow> world \<Rightarrow> api_reply \<times> world" where
  "commentIncident v x q w =
     handle_with (writes v x q Incident_write w) (\<lambda>a.
       case (do { fs \<leftarrow> z_object [''body''] (pq_body q); z_field ''body'' (z_string 1 8000) fs }) of
         None \<Rightarrow> give invalid
       | Some body \<Rightarrow>
           and_then (tenant_step x 0 (ra_organizationId a)
               (comment_tx (ra_organizationId a) (aw_userId (ra_user a)) (pq_id q) body (px_now x 0))) (\<lambda>written.
             if \<not> written then give not_found
             else and_then (audit x 1 a ''incident.comment'' (pq_id q)) (\<lambda>_. give (reply 201 [(''ok'', JBool True)]))))"

definition incident_id_ok :: "string \<Rightarrow> bool" where
  "incident_id_ok s = matches_prefixed ''inc_'' lower_alnum 26 s"

definition final_status :: "incident_status \<Rightarrow> bool" where
  "final_status s = (s = Inc_resolved \<or> s = Inc_closed)"

text \<open>The checks of the table, \<open>incidents_resolved_consistency\<close> among them.\<close>

(* src db/migrations/0001_init.sql:236-266 incidents *)
definition incident_row_ok :: "incident_row \<Rightarrow> bool" where
  "incident_row_ok r =
     (incident_id_ok (in_id r) \<and> trimmed_ok 200 (in_title r) \<and> opt_ok (\<lambda>s. length s \<le> 20000) (in_description r) \<and>
      0 \<le> in_alert_count r \<and> (final_status (in_status r) = (in_resolved_at r \<noteq> None)))"

definition insert_incident :: "incident_row \<Rightarrow> db \<Rightarrow> unit result \<times> db" where
  "insert_incident r d =
     (if \<not> incident_row_ok r then (Inl Check_violation, d)
      else if exists_row (\<lambda>o'. in_id o' = in_id r) (incidents d) then (Inl Unique_violation, d)
      else if \<not> unless_given (in_server_id r) (\<lambda>s. server_exists (in_organization_id r) s d) then (Inl Foreign_key_violation, d)
      else (Inr (), d\<lparr>incidents := incidents d @ [r]\<rparr>))"

definition earliest :: "int list \<Rightarrow> int option" where
  "earliest xs = (if xs = [] then None else Some (Min (set xs)))"

definition latest :: "int list \<Rightarrow> int option" where
  "latest xs = (if xs = [] then None else Some (Max (set xs)))"

(* src api/routes.ts:1448-1468 incidents/post/alerts *)
definition attach_alerts :: "string \<Rightarrow> string \<Rightarrow> string list \<Rightarrow> db \<Rightarrow> db" where
  "attach_alerts org i ids d =
     (let P = (\<lambda>r. al_organization_id r = org \<and> al_id r \<in> set ids);
          n = row_count P (alerts d);
          d1 = d\<lparr>alerts := sql_update P (\<lambda>r. r\<lparr>al_incident_id := Some i\<rparr>) (alerts d)\<rparr>;
          times = map al_occurred_at (filter (attached org i) (alerts d1))
      in d1\<lparr>incidents := sql_update (\<lambda>r. in_organization_id r = org \<and> in_id r = i)
              (\<lambda>r. r\<lparr>in_alert_count := int n, in_first_alert_at := earliest times, in_last_alert_at := latest times\<rparr>) (incidents d1)\<rparr>)"

definition new_incident :: "string \<Rightarrow> string \<Rightarrow> string \<Rightarrow> incident_input \<Rightarrow> time_ms \<Rightarrow> incident_row" where
  "new_incident org uid i p now =
     \<lparr>in_id = i, in_organization_id = org, in_server_id = ii_server_id p, in_title = ii_title p,
      in_description = ii_description p, in_severity = ii_severity p, in_status = Inc_open, in_assigned_to = None,
      in_opened_by = Some uid, in_alert_count = 0, in_first_alert_at = None, in_last_alert_at = None,
      in_resolved_at = None, in_created_at = now\<rparr>"

(* src api/routes.ts:1426-1471 incidents/post/transaction *)
definition open_incident_tx :: "string \<Rightarrow> string \<Rightarrow> string \<Rightarrow> incident_input \<Rightarrow> time_ms \<Rightarrow> db \<Rightarrow> unit result \<times> db" where
  "open_incident_tx org uid i p now =
     and_then (insert_incident (new_incident org uid i p now)) (\<lambda>_ d.
       (let d1 = append_event (incident_event org i uid ''created'' None (JObj []) now) d in
        (Inr (), if ii_alert_ids p = [] then d1 else attach_alerts org i (ii_alert_ids p) d1)))"

(* src api/routes.ts:1416-1481 incidents/post *)
definition createIncident :: "api_deps \<Rightarrow> api_env \<Rightarrow> api_request \<Rightarrow> world \<Rightarrow> api_reply \<times> world" where
  "createIncident v x q w =
     handle_with (writes v x q Incident_write w) (\<lambda>a.
       case incidentCreateSchema (pq_body q) of
         None \<Rightarrow> give invalid
       | Some p \<Rightarrow>
           (let i = px_ids x 0 in
            and_then (tenant_step x 0 (ra_organizationId a)
                (open_incident_tx (ra_organizationId a) (aw_userId (ra_user a)) i p (px_now x 0))) (\<lambda>_.
            and_then (audit x 1 a ''incident.created'' i) (\<lambda>_.
            give (reply 201 [(''incident'', JObj [(''id'', JStr i)])])))))"

(* src api/routes.ts:1494-1506 incidents/patch/set *)
definition patched_incident :: "incident_patch \<Rightarrow> time_ms \<Rightarrow> incident_row \<Rightarrow> incident_row" where
  "patched_incident p now r =
     r\<lparr>in_title := coalesce_default (ip_title p) (in_title r),
       in_description := coalesce (ip_description p) (in_description r),
       in_severity := coalesce_default (ip_severity p) (in_severity r),
       in_status := coalesce_default (ip_status p) (in_status r),
       in_assigned_to := coalesce (ip_assigned_to p) (in_assigned_to r),
       in_resolved_at := (case ip_status p of
            None \<Rightarrow> in_resolved_at r
          | Some s \<Rightarrow> if final_status s then coalesce (in_resolved_at r) (Some now) else None)\<rparr>"

(* src api/routes.ts:1492-1528 incidents/patch/transaction *)
definition patch_incident_tx :: "string \<Rightarrow> string \<Rightarrow> string \<Rightarrow> incident_patch \<Rightarrow> time_ms \<Rightarrow> db \<Rightarrow> bool result \<times> db" where
  "patch_incident_tx org uid i p now d =
     (case first_row (\<lambda>r. in_organization_id r = org \<and> in_id r = i) (incidents d) of
        None \<Rightarrow> (Inr False, d)
      | Some r \<Rightarrow>
          if \<not> incident_row_ok (patched_incident p now r) then (Inl Check_violation, d)
          else if \<not> unless_given (ip_assigned_to p) (\<lambda>u. user_exists u d) then (Inl Foreign_key_violation, d)
          else (let d1 = d\<lparr>incidents := sql_update (\<lambda>r. in_organization_id r = org \<and> in_id r = i) (patched_incident p now) (incidents d)\<rparr> in
            (Inr True, case ip_status p of
               None \<Rightarrow> d1
             | Some s \<Rightarrow> append_event (incident_event org i uid ''status_changed'' None
                           (JObj [(''to'', JStr (incident_status_name s))]) now) d1)))"

(* src api/routes.ts:1483-1537 incidents/patch *)
definition patchIncident :: "api_deps \<Rightarrow> api_env \<Rightarrow> api_request \<Rightarrow> world \<Rightarrow> api_reply \<times> world" where
  "patchIncident v x q w =
     handle_with (writes v x q Incident_write w) (\<lambda>a.
       case incidentPatchSchema (pq_body q) of
         None \<Rightarrow> give invalid
       | Some p \<Rightarrow>
           and_then (tenant_step x 0 (ra_organizationId a)
               (patch_incident_tx (ra_organizationId a) (aw_userId (ra_user a)) (pq_id q) p (px_now x 0))) (\<lambda>updated.
             if \<not> updated then give not_found
             else and_then (audit x 1 a ''incident.updated'' (pq_id q)) (\<lambda>_. give status_ok)))"

end
