(* ===== verification/Incident_Facts.thy ===== *)
theory Incident_Facts
  imports Api_Incidents Api_Servers
begin

text \<open>
  Alerts and incidents: what a triage leaves, when an incident has an instant of resolution, how the
  level of proof grows, and what the pages of alerts miss.
\<close>

section \<open>Triage\<close>

text \<open>A triage that succeeds leaves every alert with that identifier in the status asked for, with its
  author and instant where the status calls for them, tells it on the channel of its own organization
  and touches no other alert; any other answer leaves the alerts alone and says nothing.\<close>

theorem triage_recorded:
  assumes run: "patchAlert v x q w = (r, w')"
  shows "if ar_status r = 200 then
      (\<exists>org uid st inc. alertPatchSchema (pq_body q) = Some (st, inc) \<and>
        (\<exists>al \<in> set (alerts (wd_db w)). al_organization_id al = org \<and> al_id al = pq_id q) \<and>
        alerts (wd_db w') = map (\<lambda>al. if al_organization_id al = org \<and> al_id al = pq_id q then triaged st uid inc (px_now x 0) al else al)
          (alerts (wd_db w)) \<and>
        wd_events w' = wd_events w @ [\<lparr>pe_organization_id = org, pe_type = ''alert.updated'',
          pe_payload = JObj [(''id'', JStr (pq_id q)), (''status'', JStr (alert_status_name st))]\<rparr>])
    else alerts (wd_db w') = alerts (wd_db w) \<and> wd_events w' = wd_events w" (is "?Q r w'")
  using run unfolding patchAlert_def
proof (rule routed [where Q = ?Q])
  fix e w1
  assume "writes v x q Alert_triage w = (Inl e, w1)"
  then show "?Q (refused e) w1" using guards_sessions(1) [of w v x q Alert_triage] by (auto simp: only_sessions_def)
next
  fix a w1
  assume g: "writes v x q Alert_triage w = (Inr a, w1)"
  have same: "alerts (wd_db w1) = alerts (wd_db w)" "wd_events w1 = wd_events w"
    using guards_sessions(1) [of w v x q Alert_triage] g by (auto simp: only_sessions_def)
  let ?P = "\<lambda>al. al_organization_id al = ra_organizationId a \<and> al_id al = pq_id q"
  have tx: "(y \<longrightarrow> (\<exists>al \<in> set (alerts (wd_db w)). ?P al)) \<and>
      alerts d' = map (\<lambda>al. if ?P al then triaged st uid inc now al else al) (alerts (wd_db w)) \<and>
      (\<not> y \<longrightarrow> alerts d' = alerts (wd_db w))"
    if "triage_tx (ra_organizationId a) uid (pq_id q) st inc now (wd_db w1) = (Inr y, d')" for y d' uid st inc now
    using that by (auto simp: triage_tx_def Let_def exists_row_iff same sql_update_def split: if_splits intro!: map_idI)
  show "wp (case alertPatchSchema (pq_body q) of
         None \<Rightarrow> give invalid
       | Some (st, inc) \<Rightarrow>
           and_then (tenant_step x 0 (ra_organizationId a)
               (triage_tx (ra_organizationId a) (aw_userId (ra_user a)) (pq_id q) st inc (px_now x 0))) (\<lambda>updated.
             if \<not> updated then give not_found
             else emits (ra_organizationId a) ''alert.updated''
                    [(''id'', JStr (pq_id q)), (''status'', JStr (alert_status_name st))] status_ok))
      ?Q (\<lambda>w2. \<forall>e. ?Q (refused (Other_access e)) w2) w1"
  proof (cases "alertPatchSchema (pq_body q)")
    case (Some p)
    obtain st inc where p: "p = (st, inc)" by fastforce
    define Q where "Q = ?Q"
    have done_Q: "Q status_ok (publish (ra_organizationId a) ''alert.updated''
            [(''id'', JStr (pq_id q)), (''status'', JStr (alert_status_name st))] (w1\<lparr>wd_db := d'\<rparr>))"
      if "\<exists>al \<in> set (alerts (wd_db w)). ?P al"
        "alerts d' = map (\<lambda>al. if ?P al then triaged st (aw_userId (ra_user a)) inc (px_now x 0) al else al) (alerts (wd_db w))" for d'
      unfolding Q_def
      by (subst if_P, simp) (rule exI [of _ "ra_organizationId a"], rule exI [of _ "aw_userId (ra_user a)"], rule exI [of _ st],
          rule exI [of _ inc], use that in \<open>simp add: Some p same\<close>)
    have none_Q: "Q r (w1\<lparr>wd_db := d'\<rparr>)" if "ar_status r \<noteq> 200" "alerts d' = alerts (wd_db w)" for r d'
      using that by (simp add: Q_def same)
    have "wp (and_then (tenant_step x 0 (ra_organizationId a)
               (triage_tx (ra_organizationId a) (aw_userId (ra_user a)) (pq_id q) st inc (px_now x 0))) (\<lambda>updated.
             if \<not> updated then give not_found
             else emits (ra_organizationId a) ''alert.updated''
                    [(''id'', JStr (pq_id q)), (''status'', JStr (alert_status_name st))] status_ok))
        Q (\<lambda>w2. \<forall>e. Q (refused (Other_access e)) w2) w1"
      unfolding wp
    proof (rule wp_tenant)
      have "w1 = w1\<lparr>wd_db := wd_db w1\<rparr>" by simp
      then show "\<forall>e. Q (refused (Other_access e)) w1" using none_Q same(1) by (metis refused_not(1))
      fix y d'
      assume "triage_tx (ra_organizationId a) (aw_userId (ra_user a)) (pq_id q) st inc (px_now x 0) (wd_db w1) = (Inr y, d')"
      note t = tx [OF this]
      show "if \<not> y then Q not_found (w1\<lparr>wd_db := d'\<rparr>)
        else Q status_ok (publish (ra_organizationId a) ''alert.updated''
            [(''id'', JStr (pq_id q)), (''status'', JStr (alert_status_name st))] (w1\<lparr>wd_db := d'\<rparr>))"
      proof (cases y)
        case False
        then have "alerts d' = alerts (wd_db w)" using t by blast
        with False none_Q show ?thesis by simp
      qed (use t done_Q in simp)
    qed
    then show ?thesis unfolding Q_def Some p option.case prod.case .
  qed (simp add: wp same)
qed

section \<open>Resolution\<close>

definition incidents_ok :: "db \<Rightarrow> bool" where
  "incidents_ok d = (distinct (map in_id (incidents d)) \<and> list_all incident_row_ok (incidents d))"

inductive incident_route :: "world \<Rightarrow> world \<Rightarrow> bool" where
  Opened: "incident_route w (snd (createIncident v x q w))"
| Patched: "incident_route w (snd (patchIncident v x q w))"
| Commented: "incident_route w (snd (commentIncident v x q w))"
| Triaged: "incident_route w (snd (patchAlert v x q w))"

lemma incidents_ok_same: "incidents d' = incidents d \<Longrightarrow> incidents_ok d' = incidents_ok d"
  by (simp add: incidents_ok_def)

lemma incidents_ok_update:
  assumes "incidents d' = sql_update P f (incidents d)" and "incidents_ok d"
    and "\<And>r. r \<in> set (incidents d) \<Longrightarrow> P r \<Longrightarrow> incident_row_ok (f r)" and "\<And>r. in_id (f r) = in_id r"
  shows "incidents_ok d'"
proof -
  have "incident_row_ok r" if "r \<in> set (sql_update P f (incidents d))" for r
    using that assms(2,3) unfolding incidents_ok_def list_all_iff in_sql_update by (metis (full_types))
  with assms show ?thesis by (simp add: incidents_ok_def list_all_iff map_key_sql_update)
qed

lemma open_incident_ok:
  assumes "open_incident_tx org uid i p now d = (Inr u, d')" and "incidents_ok d"
  shows "incidents_ok d'"
proof -
  let ?r = "new_incident org uid i p now"
  from assms(1) have ins: "incident_row_ok ?r" "\<not> exists_row (\<lambda>o'. in_id o' = in_id ?r) (incidents d)"
    and d': "d' = (let d1 = append_event (incident_event org i uid ''created'' None (JObj []) now) (d\<lparr>incidents := incidents d @ [?r]\<rparr>) in
        if ii_alert_ids p = [] then d1 else attach_alerts org i (ii_alert_ids p) d1)"
    by (auto simp: open_incident_tx_def insert_incident_def Let_def split: if_splits elim!: and_then_Inr)
  let ?d1 = "append_event (incident_event org i uid ''created'' None (JObj []) now) (d\<lparr>incidents := incidents d @ [?r]\<rparr>)"
  have ok1: "incidents_ok ?d1" using assms(2) ins by (auto simp: incidents_ok_def append_event_def exists_row_iff)
  have "incidents_ok (attach_alerts org i ids ?d1)" for ids
  proof (rule incidents_ok_update [OF _ ok1])
    show "incidents (attach_alerts org i ids ?d1) = sql_update (\<lambda>r. in_organization_id r = org \<and> in_id r = i)
        (\<lambda>r. r\<lparr>in_alert_count := int (row_count (\<lambda>r. al_organization_id r = org \<and> al_id r \<in> set ids) (alerts ?d1)),
          in_first_alert_at := earliest (map al_occurred_at (filter (attached org i)
            (sql_update (\<lambda>r. al_organization_id r = org \<and> al_id r \<in> set ids) (\<lambda>r. r\<lparr>al_incident_id := Some i\<rparr>) (alerts ?d1)))),
          in_last_alert_at := latest (map al_occurred_at (filter (attached org i)
            (sql_update (\<lambda>r. al_organization_id r = org \<and> al_id r \<in> set ids) (\<lambda>r. r\<lparr>al_incident_id := Some i\<rparr>) (alerts ?d1))))\<rparr>)
        (incidents ?d1)"
      by (simp add: attach_alerts_def Let_def)
  qed (use ok1 in \<open>auto simp: incidents_ok_def list_all_iff incident_row_ok_def\<close>)
  with ok1 show ?thesis by (simp add: d' Let_def)
qed

lemma patch_incident_ok:
  assumes "patch_incident_tx org uid i p now d = (Inr y, d')" and "incidents_ok d"
  shows "incidents_ok d'"
proof (cases "first_row (\<lambda>r. in_organization_id r = org \<and> in_id r = i) (incidents d)")
  case (Some r)
  from assms(1) Some have ok: "incident_row_ok (patched_incident p now r)"
    and d': "incidents d' = sql_update (\<lambda>r. in_organization_id r = org \<and> in_id r = i) (patched_incident p now) (incidents d)"
    by (auto simp: patch_incident_tx_def Let_def append_event_def split: if_splits option.splits)
  note in_d = first_row_SomeD [OF Some]
  have "incident_row_ok (patched_incident p now q)" if "q \<in> set (incidents d)" "in_organization_id q = org \<and> in_id q = i" for q
  proof -
    have "q = r" using assms(2) in_d that by (auto simp: incidents_ok_def distinct_map dest: inj_onD)
    with ok show ?thesis by simp
  qed
  moreover have "in_id (patched_incident p now q) = in_id q" for q by (simp add: patched_incident_def)
  ultimately show ?thesis by (rule incidents_ok_update [OF d' assms(2)])
qed (use assms in \<open>auto simp: patch_incident_tx_def\<close>)

lemma guard_incidents: "writes v x q p w = (g, w1) \<Longrightarrow> incidents (wd_db w1) = incidents (wd_db w)"
  using guards_sessions(1) [of w v x q p] by (auto simp: only_sessions_def)

lemma incident_route_ok:
  assumes "incident_route w w'" and "incidents_ok (wd_db w)"
  shows "incidents_ok (wd_db w')"
proof -
  let ?Q = "\<lambda>(_ :: api_reply) w'. incidents_ok (wd_db w')"
  have same: "incidents_ok (wd_db w1)" if "writes v x q p w = (g, w1)" for v x q p g w1
    using incidents_ok_same [OF guard_incidents [OF that]] assms(2) by simp
  have aud: "incidents_ok (append_audit au d) = incidents_ok d" for au d by (rule incidents_ok_same) simp
  have com: "comment_tx org uid i body now d = (Inr y, d') \<Longrightarrow> incidents_ok d' = incidents_ok d" for org uid i body now d y d'
    by (rule incidents_ok_same) (auto simp: comment_tx_def append_event_def split: if_splits)
  have tri: "triage_tx org uid i st inc now d = (Inr y, d') \<Longrightarrow> incidents_ok d' = incidents_ok d" for org uid i st inc now d y d'
    by (rule incidents_ok_same) (auto simp: triage_tx_def Let_def split: if_splits)
  have opened: "open_incident_tx org uid i p now d = (Inr (), d') \<Longrightarrow> incidents_ok d \<longrightarrow> incidents_ok d'"
    and patched: "patch_incident_tx org uid i p' now d = (Inr z, d') \<Longrightarrow> incidents_ok d \<longrightarrow> incidents_ok d'" for org uid i p p' now d z d'
    using open_incident_ok patch_incident_ok by blast+
  note steps = wp_tenant wp_audit
  have "?Q r w2" if "createIncident v x q w = (r, w2)" for v x q r w2
    using that unfolding createIncident_def
    by (rule routed) (auto simp: wp aud Let_def dest: same intro!: steps split: option.split, (metis opened same)+)
  moreover have "?Q r w2" if "patchIncident v x q w = (r, w2)" for v x q r w2
    using that unfolding patchIncident_def
    by (rule routed) (auto simp: wp aud dest: same intro!: steps split: option.split, (metis patched same)+)
  moreover have "?Q r w2" if "commentIncident v x q w = (r, w2)" for v x q r w2
    using that unfolding commentIncident_def
    by (rule routed) (auto simp: wp aud com dest: same intro!: steps split: option.split, (metis same)+)
  moreover have "?Q r w2" if "patchAlert v x q w = (r, w2)" for v x q r w2
    using that unfolding patchAlert_def
    by (rule routed) (auto simp: wp aud tri dest: same intro!: steps split: option.split)
  ultimately show ?thesis using assms(1) by (elim incident_route.cases) (metis prod.collapse)+
qed

text \<open>However incidents are opened, commented, patched and their alerts triaged, by anybody and with any
  fault, an incident has an instant of resolution exactly while its status is a final one, and no two
  incidents share an identifier.\<close>

theorem resolved_exactly_when_final:
  assumes "incident_route\<^sup>*\<^sup>* w w'" and "incidents_ok (wd_db w)"
  shows "distinct (map in_id (incidents (wd_db w'))) \<and>
    (\<forall>r \<in> set (incidents (wd_db w')). (in_status r = Inc_resolved \<or> in_status r = Inc_closed) = (in_resolved_at r \<noteq> None))"
proof -
  from assms have "incidents_ok (wd_db w')"
    by (induction rule: rtranclp_induct) (auto dest: incident_route_ok)
  then show ?thesis by (simp add: incidents_ok_def list_all_iff incident_row_ok_def final_status_def)
qed


section \<open>The level of proof\<close>

definition evidence_rank :: "string \<Rightarrow> nat" where
  "evidence_rank s = (if s = ''E0'' then 0 else if s = ''E1'' then 1 else if s = ''E2'' then 2 else if s = ''E3'' then 3 else 4)"

lemma evidence_rank_level:
  "evidence_rank (evidence_level rows) =
     (if rows = [] then 0
      else if 2 \<le> card (al_category ` set rows) then (if Sev_critical \<in> al_severity ` set rows then 4 else 3)
      else if Sev_critical \<in> al_severity ` set rows \<or> Sev_high \<in> al_severity ` set rows then 2 else 1)"
  by (simp add: evidence_level_def evidence_rank_def Let_def)

text \<open>Proof never weakens as alerts are added: the level of a larger set of alerts is at least the level
  of a smaller one, it is \<open>E0\<close> exactly for no alert, and above \<open>E2\<close> exactly when two categories agree.\<close>

theorem evidence_grows:
  "(set rows \<subseteq> set rows' \<longrightarrow> evidence_rank (evidence_level rows) \<le> evidence_rank (evidence_level rows')) \<and>
   (evidence_level rows = ''E0'' \<longleftrightarrow> rows = []) \<and>
   (evidence_level rows \<in> {''E3'', ''E4''} \<longleftrightarrow> (\<exists>a \<in> set rows. \<exists>b \<in> set rows. al_category a \<noteq> al_category b))"
proof -
  have two: "2 \<le> card (al_category ` set rows) \<longleftrightarrow> (\<exists>a \<in> set rows. \<exists>b \<in> set rows. al_category a \<noteq> al_category b)" for rows :: "alert_row list"
  proof -
    let ?C = "al_category ` set rows"
    have "2 \<le> card ?C \<longleftrightarrow> \<not> card ?C \<le> Suc 0" by linarith
    also have "\<dots> \<longleftrightarrow> (\<exists>a \<in> set rows. \<exists>b \<in> set rows. al_category a \<noteq> al_category b)"
      by (simp add: card_le_Suc0_iff_eq)
    finally show ?thesis .
  qed
  have "evidence_rank (evidence_level rows) \<le> evidence_rank (evidence_level rows')" if sub: "set rows \<subseteq> set rows'"
  proof (cases "rows = []")
    case False
    with sub have ne: "rows' \<noteq> []" by auto
    have c: "card (al_category ` set rows) \<le> card (al_category ` set rows')"
      by (rule card_mono) (use sub in auto)
    have s: "al_severity ` set rows \<subseteq> al_severity ` set rows'" using sub by auto
    show ?thesis unfolding evidence_rank_level using False ne c s by auto
  qed (simp add: evidence_rank_level)
  moreover have "evidence_level rows = ''E0'' \<longleftrightarrow> rows = []" by (simp add: evidence_level_def Let_def)
  moreover have "rows \<noteq> []" if "2 \<le> card (al_category ` set rows)" using that by auto
  then have "evidence_level rows \<in> {''E3'', ''E4''} \<longleftrightarrow> 2 \<le> card (al_category ` set rows)"
    by (auto simp: evidence_level_def Let_def)
  ultimately show ?thesis unfolding two by blast
qed

section \<open>Pages of alerts\<close>

lemma set_newest_first [simp]: "set (newest_first rows) = set rows"
  by (simp add: newest_first_def)

lemma length_newest_first [simp]: "length (newest_first rows) = length rows"
  by (simp add: newest_first_def)

text \<open>A page holds alerts of the organization that fit the filters, newest first, at most as many as
  asked for; a page that is not full holds all of them, and then there is no cursor.\<close>

theorem alert_page_sound:
  assumes "1 \<le> aq_limit f"
  shows "(\<forall>r \<in> set (alert_page org f d). r \<in> set (alerts d) \<and> alert_matches org f r) \<and>
    sorted (rev (map al_created_at (alert_page org f d))) \<and> int (length (alert_page org f d)) \<le> aq_limit f \<and>
    (next_cursor f (alert_page org f d) = None \<longrightarrow> set (alert_page org f d) = {r \<in> set (alerts d). alert_matches org f r})"
proof -
  let ?all = "newest_first (filter (alert_matches org f) (alerts d))"
  have "sorted (map al_created_at (sort_key al_created_at (sort_key al_id (filter (alert_matches org f) (alerts d)))))"
    by (rule sorted_sort_key)
  then have "sorted (rev (map al_created_at ?all))" by (simp add: newest_first_def rev_map)
  moreover have "rev (map al_created_at ?all) = rev (drop (nat (aq_limit f)) (map al_created_at ?all)) @ rev (map al_created_at (alert_page org f d))"
    unfolding alert_page_def take_map [symmetric] rev_append [symmetric] by simp
  ultimately have "sorted (rev (map al_created_at (alert_page org f d)))" by (metis sorted_append)
  moreover have "length ?all < nat (aq_limit f)" if "next_cursor f (alert_page org f d) = None"
    using that assms by (auto simp: next_cursor_def alert_page_def min_def split: if_splits)
  then have "next_cursor f (alert_page org f d) = None \<longrightarrow> set (alert_page org f d) = {r \<in> set (alerts d). alert_matches org f r}"
    by (auto simp: alert_page_def)
  ultimately show ?thesis using assms by (auto simp: alert_page_def dest: in_set_takeD)
qed

text \<open>Following the cursor does not walk through the alerts: the cursor compares identifiers, which are
  random, while the pages are ordered by instant. An alert that matches can be on no page.\<close>

definition page_alert :: "string \<Rightarrow> time_ms \<Rightarrow> alert_row" where
  "page_alert i t =
     \<lparr>al_id = i, al_organization_id = ''o'', al_server_id = ''s'', al_agent_alert_id = i, al_severity = Sev_low,
      al_category = ''event'', al_status = Alert_open, al_summary = ''x'', al_metadata = JObj [], al_reference = None,
      al_origin = None, al_occurrences = 1, al_occurred_at = 0, al_last_occurrence_at = None, al_incident_id = None,
      al_acknowledged_by = None, al_acknowledged_at = None, al_resolved_by = None, al_resolved_at = None, al_created_at = t\<rparr>"

definition page_query :: "string option \<Rightarrow> alert_query" where
  "page_query cur = \<lparr>aq_server_id = None, aq_severity = None, aq_category = None, aq_status = None, aq_since = None,
     aq_limit = 1, aq_cursor = cur\<rparr>"

theorem cursor_skips_alerts:
  "\<exists>d c. alert_page ''o'' (page_query None) d \<noteq> [] \<and>
     next_cursor (page_query None) (alert_page ''o'' (page_query None) d) = Some c \<and>
     alert_page ''o'' (page_query (Some c)) d = [] \<and> length (filter (alert_matches ''o'' (page_query None)) (alerts d)) = 2"
proof -
  let ?d = "empty_db\<lparr>alerts := [page_alert ''al_b'' 1000, page_alert ''al_a'' 2000]\<rparr>"
  have "map al_id (alert_page ''o'' (page_query None) ?d) = [''al_a'']"
    "next_cursor (page_query None) (alert_page ''o'' (page_query None) ?d) = Some ''al_a''"
    "alert_page ''o'' (page_query (Some ''al_a'')) ?d = []"
    "length (filter (alert_matches ''o'' (page_query None)) (alerts ?d)) = 2"
    by code_simp+
  then show ?thesis by (intro exI [of _ ?d] exI [of _ "''al_a''"]) auto
qed

end
