(* ===== verification/Api_Witnesses.thy ===== *)
theory Api_Witnesses
  imports Member_Facts Server_Facts Incident_Facts Auth_Witnesses
begin

text \<open>
  Applications of the properties of the routes of the user interface: an owner, whose cookie is live,
  acts on an organization with a second member, a server with a key, an alert and an invitation.
\<close>

section \<open>An organization\<close>

definition second_user :: string where "second_user = sample_id ''usr_'' (CHR ''b'')"

definition second_member :: membership_row where
  "second_member = \<lparr>me_id = ''mem_b'', me_organization_id = sample_org, me_user_id = second_user, me_role = STAFF,
     me_invited_by = None, me_accepted_at = Some 1000, me_created_at = 1000\<rparr>"

definition sample_code :: string where "sample_code = ''0123456789''"

definition sample_invitation :: invitation_row where
  "sample_invitation = \<lparr>iv_id = ''inv_1'', iv_organization_id = sample_org, iv_email = ''cid@z.io'', iv_role = VIEWER,
     iv_token_hash = hashToken sample_crypto sample_code, iv_invited_by = None, iv_expires_at = 9000, iv_accepted_at = None\<rparr>"

definition sample_alert :: alert_row where
  "sample_alert = (page_alert ''al_1'' 1000)\<lparr>al_organization_id := sample_org, al_server_id := sample_server_id\<rparr>"

definition owner_session :: session_row where
  "owner_session = \<lparr>se_id = ''ses_2'', se_user_id = sample_user_id, se_token_hash = hashToken sample_crypto sample_token,
     se_organization_id = Some sample_org, se_mfa_satisfied = True, se_last_seen_at = 2000, se_expires_at = 43202000,
     se_revoked_at = None\<rparr>"

definition api_db :: db where
  "api_db = (account_db [])
     \<lparr>memberships := memberships (account_db []) @ [second_member],
      users := users (account_db []) @ [new_user second_user ''bob@z.io'' [] ''Bob'' None],
      sessions := [owner_session],
      subscriptions := [\<lparr>sb_id = ''sub_1'', sb_organization_id = sample_org, sb_plan_code = ''pro'', sb_trial_ends_at = None\<rparr>],
      servers := [sample_server], alerts := [sample_alert], invitations := [sample_invitation]\<rparr>"

definition api_world :: world where "api_world = \<lparr>wd_db = api_db, wd_events = []\<rparr>"

definition sample_deps :: api_deps where
  "sample_deps = \<lparr>pd_js = sample_js, pd_crypto = sample_crypto, pd_key = sample_master, pd_license_secret = ''signing'', pd_production = True,
     pd_email_ok = (\<lambda>s. True), pd_slug_fold = (\<lambda>s. s)\<rparr>"

definition sample_env :: "(nat \<Rightarrow> string) \<Rightarrow> api_env" where
  "sample_env ids = \<lparr>px_auth = sample_auth 3000 3, px_js = (\<lambda>n. 3000), px_now = (\<lambda>n. 3000), px_faults = (\<lambda>n. no_faults),
     px_fail = (\<lambda>n. False), px_ids = ids, px_random32 = replicate 32 9, px_salt = [1], px_csrf32 = replicate 32 8, px_issue = []\<rparr>"

definition sample_call :: "string \<Rightarrow> json \<Rightarrow> api_request" where
  "sample_call i body = \<lparr>pq_http = sample_post, pq_body = body, pq_id = i, pq_id2 = [], pq_query = [], pq_ip = ''10.0.0.1''\<rparr>"

section \<open>Members\<close>

definition promotion :: "api_reply \<times> world" where
  "promotion = patchMembership sample_deps (sample_env (\<lambda>n. [])) (sample_call ''mem_b'' (JObj [(''role'', JStr ''ADMIN'')])) api_world"

lemma api_members_keyed: "members_keyed (wd_db api_world)"
  by code_simp

lemma promotion_roles:
  "members_of sample_org (wd_db api_world) second_user = Some STAFF" "members_of sample_org (wd_db (snd promotion)) second_user = Some ADMIN"
  by code_simp+

theorem member_routes_refine_witness:
  "member_step (members_of sample_org (wd_db api_world)) (members_of sample_org (wd_db (snd promotion)))"
proof -
  have "member_route api_world (snd promotion)" unfolding promotion_def by (rule member_route.Patch)
  from member_routes_refine [OF this api_members_keyed, of sample_org] promotion_roles show ?thesis by auto
qed

theorem organization_keeps_owner_witness: "owners (members_of sample_org (wd_db (snd promotion))) \<noteq> {}"
proof -
  have "members_of sample_org (wd_db api_world) sample_user_id = Some OWNER" by code_simp
  then have o: "owners (members_of sample_org (wd_db api_world)) \<noteq> {}" by (auto simp: owners_def)
  have "member_route api_world (snd promotion)" unfolding promotion_def by (rule member_route.Patch)
  from organization_keeps_owner [OF r_into_rtranclp [of member_route, OF this] api_members_keyed o] show ?thesis .
qed

section \<open>Invitations\<close>

definition arrival_env :: api_env where
  "arrival_env = sample_env (\<lambda>n. if n = 0 then sample_id ''usr_'' (CHR ''c'') else sample_id ''usr_'' (CHR ''n''))"

definition arrival_call :: api_request where
  "arrival_call = sample_call [] (JObj [(''code'', JStr sample_code), (''display_name'', JStr ''Cid''), (''password'', JStr sample_password)])"

definition arrival :: "string \<Rightarrow> api_reply \<times> world" where
  "arrival hash = settle (on_db (and_then (by_hand no_faults (accept_tx sample_crypto arrival_env
       \<lparr>ac_code = sample_code, ac_display_name = ''Cid'', ac_password = sample_password\<rparr> hash)) (\<lambda>r.
     case r of
       None \<Rightarrow> give (fault_reply 400 ''invalid_or_expired'')
     | Some (uid, org) \<Rightarrow>
         and_then (createSession sample_crypto (px_auth arrival_env) uid True (Some org)) (\<lambda>(token, s).
         give (opened sample_deps arrival_env 201 token
           [(''status'', JStr ''ok''), csrf_field sample_deps arrival_env, (''organization_id'', JStr org)])))) api_world)"

lemma arrival_ok: "ar_status (fst (arrival hash)) = 201"
  by code_simp

lemma arrival_input: "inviteAcceptSchema (pq_body arrival_call) = Some \<lparr>ac_code = sample_code, ac_display_name = ''Cid'', ac_password = sample_password\<rparr>"
  by code_simp

lemma arrival_run: "acceptInvitation sample_deps arrival_env arrival_call api_world = arrival sample_hash"
proof -
  have "px_salt arrival_env = [1]" "px_faults arrival_env 0 = no_faults" "pd_crypto sample_deps = sample_crypto"
    by (simp_all add: arrival_env_def sample_env_def sample_deps_def)
  then show ?thesis by (simp add: acceptInvitation_def arrival_input sample_hash arrival_def)
qed



section \<open>Servers\<close>

definition creation :: "api_reply \<times> world" where
  "creation = createServer sample_deps (sample_env (\<lambda>n. sample_id ''srv_'' (CHR ''b''))) (sample_call [] (JObj [(''name'', JStr ''second'')])) api_world"


section \<open>Alerts and incidents\<close>

theorem evidence_grows_witness:
  "evidence_rank (evidence_level [sample_alert]) \<le> evidence_rank (evidence_level [sample_alert, sample_alert\<lparr>al_category := ''weapon''\<rparr>])"
  using evidence_grows [of "[sample_alert]" "[sample_alert, sample_alert\<lparr>al_category := ''weapon''\<rparr>]"] by simp

theorem alert_page_sound_witness:
  "set (alert_page ''o'' (page_query None) (empty_db\<lparr>alerts := [page_alert ''al_a'' 2000]\<rparr>)) \<subseteq> {page_alert ''al_a'' 2000}"
proof -
  have "1 \<le> aq_limit (page_query None)" by (simp add: page_query_def)
  from alert_page_sound [OF this, of "''o''" "empty_db\<lparr>alerts := [page_alert ''al_a'' 2000]\<rparr>"] show ?thesis by auto
qed

end
