(* ===== verification/Api_Bans.thy ===== *)
theory Api_Bans
  imports Api_Incidents Ingest
begin

text \<open>
  \<open>apps/api/src/api/routes.ts\<close>: bans and their review, appeals, the network of shared bans. The bans an
  agent proposes are in the theory \<open>Ingest\<close>, over the same table.
\<close>

section \<open>Schemas\<close>

record ban_input =
  bi_scope :: ban_scope
  bi_identifier :: string
  bi_reason :: string
  bi_server_id :: "string option"
  bi_detection_id :: "string option"
  bi_player_name :: "string option"
  bi_duration_days :: "int option"
  bi_pending :: bool
  bi_risk :: "int option"
  bi_category :: "string option"
  bi_detector :: "string option"
  bi_evidence_kind :: "string option"

(* src api/routes.ts:2400-2417 banCreateSchema *)
definition banCreateSchema :: "json \<Rightarrow> ban_input option" where
  "banCreateSchema j = do {
     fs \<leftarrow> z_object [''scope'', ''identifier'', ''reason'', ''server_id'', ''detection_id'', ''player_name'', ''duration_days'',
            ''pending'', ''risk'', ''detection_category'', ''detector'', ''evidence_kind''] j;
     sc \<leftarrow> z_field ''scope'' z_scope fs;
     ident \<leftarrow> z_field ''identifier'' (z_string 1 128) fs;
     reason \<leftarrow> z_field ''reason'' (z_string 1 400) fs;
     sid \<leftarrow> z_nullish ''server_id'' (z_string 0 64) fs;
     det \<leftarrow> z_nullish ''detection_id'' (z_string 0 64) fs;
     name \<leftarrow> z_nullish ''player_name'' (z_string 0 64) fs;
     days \<leftarrow> z_nullish ''duration_days'' (z_int 1 3650) fs;
     pending \<leftarrow> z_optional ''pending'' z_bool fs;
     risk \<leftarrow> z_nullish ''risk'' (z_int 0 100) fs;
     cat \<leftarrow> z_nullish ''detection_category'' (z_string 0 40) fs;
     detector \<leftarrow> z_nullish ''detector'' (z_string 0 64) fs;
     ev \<leftarrow> z_nullish ''evidence_kind'' (z_enum [(''clip'', ''clip''), (''screenshot'', ''screenshot'')]) fs;
     Some \<lparr>bi_scope = sc, bi_identifier = ident, bi_reason = reason, bi_server_id = sid, bi_detection_id = det,
           bi_player_name = name, bi_duration_days = days, bi_pending = (pending = Some True), bi_risk = risk,
           bi_category = cat, bi_detector = detector, bi_evidence_kind = ev\<rparr>
   }"

definition liftSchema :: "json \<Rightarrow> string option option" where
  "liftSchema j = do { fs \<leftarrow> z_object [''reason''] j; z_optional ''reason'' (z_string 0 400) fs }"

record appeal_input =
  pi_identifier :: string
  pi_contact :: "string option"
  pi_message :: string

(* src api/routes.ts:2659-2665 appealSubmitSchema *)
definition appealSubmitSchema :: "json \<Rightarrow> appeal_input option" where
  "appealSubmitSchema j = do {
     fs \<leftarrow> z_object [''identifier'', ''contact'', ''message''] j;
     ident \<leftarrow> z_field ''identifier'' (z_string 1 128) fs;
     contact \<leftarrow> z_optional ''contact'' (z_string 0 200) fs;
     message \<leftarrow> z_field ''message'' (z_string 1 2000) fs;
     Some \<lparr>pi_identifier = ident, pi_contact = contact, pi_message = message\<rparr>
   }"

(* src api/routes.ts:2730-2730 appealResolveSchema *)
definition appealResolveSchema :: "json \<Rightarrow> bool option" where
  "appealResolveSchema j = do {
     fs \<leftarrow> z_object [''decision''] j;
     z_field ''decision'' (z_enum [(''approve'', True), (''reject'', False)]) fs
   }"

section \<open>Bans\<close>

definition ban_scope_name :: "ban_scope \<Rightarrow> string" where
  "ban_scope_name s = (case s of Scope_license \<Rightarrow> ''license'' | Scope_discord \<Rightarrow> ''discord'' | Scope_steam \<Rightarrow> ''steam''
     | Scope_ip \<Rightarrow> ''ip'' | Scope_fivem \<Rightarrow> ''fivem'')"

definition ban_view :: "db \<Rightarrow> ban_row \<Rightarrow> json" where
  "ban_view d b = JObj
     [(''id'', JStr (bn_id b)), (''scope'', JStr (ban_scope_name (bn_scope b))), (''identifier'', JStr (bn_identifier b)),
      (''player_name'', j_opt JStr (bn_player_name b)), (''reason'', JStr (bn_reason b)),
      (''status'', JStr (ban_status_name (bn_status b))), (''server_id'', j_opt JStr (bn_server_id b)),
      (''issued_by_auto'', JBool (bn_issued_by_auto b)), (''expires_at'', j_opt JInt (bn_expires_at b)),
      (''created_at'', JInt (bn_created_at b)), (''risk'', j_opt JInt (bn_risk b)),
      (''detection_category'', j_opt JStr (bn_category b)), (''detector'', j_opt JStr (bn_detector b)),
      (''evidence_kind'', j_opt JStr (bn_evidence_kind b)), (''reviewed_at'', j_opt JInt (bn_reviewed_at b)),
      (''issued_by_email'', j_opt JStr (map_option u_email (first_row (\<lambda>u. Some (u_id u) = bn_issued_by b) (users d))))]"

text \<open>Those to review first, then the newest.\<close>

definition review_order :: "ban_row list \<Rightarrow> ban_row list" where
  "review_order rows =
     (let newest = rev (sort_key bn_created_at rows) in
      filter (\<lambda>b. bn_status b = Ban_pending) newest @ filter (\<lambda>b. bn_status b \<noteq> Ban_pending) newest)"

(* src api/routes.ts:2419-2435 bans/get *)
definition listBans :: "api_deps \<Rightarrow> api_env \<Rightarrow> api_request \<Rightarrow> world \<Rightarrow> api_reply \<times> world" where
  "listBans v x q w =
     handle_with (reads v x q Ban_read w) (\<lambda>a.
       tenant_step x 0 (ra_organizationId a) (\<lambda>d.
         (Inr (reply 200 [(''bans'', JArr (map (ban_view d)
            (take 200 (review_order (inside bn_organization_id (ra_organizationId a) (bans d))))))]), d)))"

text \<open>The row of a route: in review, or in force from now on for the days given.\<close>

definition manual_ban :: "string \<Rightarrow> string \<Rightarrow> string \<Rightarrow> ban_input \<Rightarrow> time_ms \<Rightarrow> ban_row" where
  "manual_ban org uid i p now =
     \<lparr>bn_id = i, bn_organization_id = org, bn_server_id = bi_server_id p, bn_scope = bi_scope p, bn_identifier = bi_identifier p,
      bn_player_name = bi_player_name p, bn_reason = bi_reason p,
      bn_status = (if bi_pending p then Ban_pending else Ban_active), bn_issued_by = Some uid, bn_issued_by_auto = bi_pending p,
      bn_detection_id = bi_detection_id p,
      bn_detector = (if bi_pending p then bi_detector p else None), bn_risk = (if bi_pending p then bi_risk p else None),
      bn_category = (if bi_pending p then bi_category p else None),
      bn_evidence_kind = (if bi_pending p then bi_evidence_kind p else None),
      bn_lifted_by = None, bn_lifted_reason = None, bn_lifted_at = None, bn_reviewed_by = None, bn_reviewed_at = None,
      bn_expires_at = (if bi_pending p then None else map_option (\<lambda>n. now + n * 86400000) (bi_duration_days p)),
      bn_created_at = now\<rparr>"

definition in_force_as :: "ban_row \<Rightarrow> ban_row \<Rightarrow> bool" where
  "in_force_as r b = (bn_status b = Ban_active \<and> ban_key b = ban_key r)"

text \<open>\<open>INSERT\<close>, or the ban in force takes the reason, the term and, when there is one, the name.\<close>

(* src api/routes.ts:2448-2499 bans/post/transaction *)
definition create_ban_tx :: "ban_row \<Rightarrow> db \<Rightarrow> string result \<times> db" where
  "create_ban_tx r d =
     (case (if bn_status r = Ban_pending then None else first_row (in_force_as r) (bans d)) of
        Some b \<Rightarrow>
          (Inr (bn_id b), d\<lparr>bans := sql_update (in_force_as r)
             (\<lambda>b. b\<lparr>bn_reason := bn_reason r, bn_expires_at := bn_expires_at r,
                    bn_player_name := coalesce (bn_player_name r) (bn_player_name b)\<rparr>) (bans d)\<rparr>)
      | None \<Rightarrow> (case insert_ban r d of (Inl e, d1) \<Rightarrow> (Inl e, d1) | (Inr _, d1) \<Rightarrow> (Inr (bn_id r), d1)))"

section \<open>The network of shared bans\<close>

(* src api/routes.ts:2780-2781 banHash *)
definition banHash :: "api_deps \<Rightarrow> string \<Rightarrow> string" where
  "banHash v ident = hmacSha256Hex (pd_crypto v) (pd_license_secret v) (''sharedban:'' @ ident)"

(* src api/routes.ts:2783-2787 orgSharesBans *)
definition orgSharesBans :: "api_env \<Rightarrow> nat \<Rightarrow> string \<Rightarrow> world \<Rightarrow> bool result \<times> world" where
  "orgSharesBans x n org =
     plain_step x n (\<lambda>d. (Inr (map_option og_share_bans (first_row (\<lambda>r. og_id r = org) (organizations d)) = Some True), d))"

(* src api/routes.ts:2797-2813 contributeSharedBan/transaction *)
definition report_tx :: "string \<Rightarrow> string \<Rightarrow> time_ms \<Rightarrow> db \<Rightarrow> unit result \<times> db" where
  "report_tx h org now d =
     (if \<not> exists_row (\<lambda>r. og_id r = org) (organizations d) then (Inl Foreign_key_violation, d)
      else (let fresh = ((h, org) \<notin> set (global_ban_reporters d));
                d1 = (if fresh then d\<lparr>global_ban_reporters := global_ban_reporters d @ [(h, org)]\<rparr> else d);
                P = (\<lambda>s. gs_identifier_hash s = h) in
       (Inr (), d1\<lparr>global_ban_signals :=
          (if exists_row P (global_ban_signals d1)
           then sql_update P (\<lambda>s. s\<lparr>gs_report_count := gs_report_count s + 1,
                  gs_org_count := gs_org_count s + (if fresh then 1 else 0), gs_last_reported_at := now\<rparr>) (global_ban_signals d1)
           else global_ban_signals d1 @ [\<lparr>gs_identifier_hash = h, gs_org_count = 1, gs_report_count = 1, gs_last_reported_at = now\<rparr>])\<rparr>)))"

(* src api/routes.ts:2790-2823 contributeSharedBan *)
definition contributeSharedBan :: "api_deps \<Rightarrow> api_env \<Rightarrow> nat \<Rightarrow> string \<Rightarrow> string \<Rightarrow> world \<Rightarrow> unit result \<times> world" where
  "contributeSharedBan v x n org ident =
     swallowed (and_then (orgSharesBans x n org) (\<lambda>shares.
       if \<not> shares then give None
       else by_hand_step x (n + 1) (report_tx (banHash v ident) org (px_now x (n + 1)))))"

text \<open>The contribution is not awaited and cannot fail for the caller.\<close>

(* src api/routes.ts:2437-2514 bans/post *)
definition createBan :: "api_deps \<Rightarrow> api_env \<Rightarrow> api_request \<Rightarrow> world \<Rightarrow> api_reply \<times> world" where
  "createBan v x q w =
     handle_with (writes v x q Ban_manage w) (\<lambda>a.
       case banCreateSchema (pq_body q) of
         None \<Rightarrow> give invalid
       | Some p \<Rightarrow>
           (let org = ra_organizationId a in
            and_then (tenant_step x 0 org (create_ban_tx (manual_ban org (aw_userId (ra_user a)) (px_ids x 0) p (px_now x 0)))) (\<lambda>i.
            and_then (audit x 1 a (if bi_pending p then ''ban.pending_created'' else ''ban.created'') i) (\<lambda>_.
            and_then (if bi_pending p then give () else contributeSharedBan v x 2 org (bi_identifier p)) (\<lambda>_.
            give (reply 201 [(''ban'', JObj [(''id'', JStr i),
               (''status'', JStr (if bi_pending p then ''PENDING'' else ''ACTIVE''))])]))))))"

(* src api/routes.ts:2521-2530 bans/lift/transaction *)
definition lift_tx :: "string \<Rightarrow> string \<Rightarrow> string \<Rightarrow> string option \<Rightarrow> time_ms \<Rightarrow> db \<Rightarrow> bool result \<times> db" where
  "lift_tx org uid i reason now d =
     (let P = (\<lambda>b. bn_organization_id b = org \<and> bn_id b = i \<and> bn_status b = Ban_active) in
      (Inr (exists_row P (bans d)), d\<lparr>bans := sql_update P (\<lambda>b. b\<lparr>bn_status := Ban_lifted, bn_lifted_at := Some now,
         bn_lifted_by := Some uid, bn_lifted_reason := reason\<rparr>) (bans d)\<rparr>))"

(* src api/routes.ts:2516-2539 bans/lift *)
definition liftBan :: "api_deps \<Rightarrow> api_env \<Rightarrow> api_request \<Rightarrow> world \<Rightarrow> api_reply \<times> world" where
  "liftBan v x q w =
     handle_with (writes v x q Ban_manage w) (\<lambda>a.
       and_then (tenant_step x 0 (ra_organizationId a) (lift_tx (ra_organizationId a) (aw_userId (ra_user a)) (pq_id q)
           (coalesce_default (liftSchema (body_or_empty q)) None) (px_now x 0))) (\<lambda>lifted.
         if \<not> lifted then give not_found
         else and_then (audit x 1 a ''ban.lifted'' (pq_id q)) (\<lambda>_. give status_ok)))"

section \<open>Review\<close>

definition put_bans :: "ban_row list \<Rightarrow> db \<Rightarrow> unit result \<times> db" where
  "put_bans rows d = (if bans_unique rows then (Inr (), d\<lparr>bans := rows\<rparr>) else (Inl Unique_violation, d))"

(* src api/routes.ts:2546-2563 reviewFeedback *)
definition reviewFeedback :: "string \<Rightarrow> string \<Rightarrow> string \<Rightarrow> ban_row \<Rightarrow> string \<Rightarrow> time_ms \<Rightarrow> db \<Rightarrow> unit result \<times> db" where
  "reviewFeedback org uid fid b verdict now d =
     (case bn_detector b of
        None \<Rightarrow> (Inr (), d)
      | Some det \<Rightarrow>
          if det = [] then (Inr (), d)
          else if exists_row (\<lambda>f. fb_organization_id f = org \<and> fb_id f = fid) (detection_feedback d) then (Inl Unique_violation, d)
          else if \<not> unless_given (bn_server_id b) (\<lambda>s. server_exists org s d) then (Inl Foreign_key_violation, d)
          else (Inr (), d\<lparr>detection_feedback := detection_feedback d @
             [\<lparr>fb_id = fid, fb_organization_id = org, fb_server_id = bn_server_id b, fb_detector = det, fb_scope = bn_scope b,
               fb_identifier = bn_identifier b, fb_verdict = verdict, fb_ban_id = bn_id b, fb_created_by = Some uid,
               fb_created_at = now\<rparr>]\<rparr>))"

definition in_review :: "string \<Rightarrow> string \<Rightarrow> ban_row \<Rightarrow> bool" where
  "in_review org i b = (bn_organization_id b = org \<and> bn_id b = i \<and> bn_status b = Ban_pending)"

(* src api/routes.ts:2565-2583 loadPendingBan *)
definition loadPendingBan :: "string \<Rightarrow> string \<Rightarrow> db \<Rightarrow> ban_row option" where
  "loadPendingBan org i d = first_row (in_review org i) (bans d)"

definition decided :: "ban_status \<Rightarrow> string \<Rightarrow> time_ms \<Rightarrow> ban_row \<Rightarrow> ban_row" where
  "decided st uid now b = b\<lparr>bn_status := st, bn_reviewed_by := Some uid, bn_reviewed_at := Some now\<rparr>"

text \<open>The ban in force on the same identifier makes way; only its status changes.\<close>

(* src api/routes.ts:2588-2609 bans/confirm/transaction *)
definition confirm_tx :: "string \<Rightarrow> string \<Rightarrow> string \<Rightarrow> string \<Rightarrow> time_ms \<Rightarrow> db \<Rightarrow> bool result \<times> db" where
  "confirm_tx org uid i fid now d =
     (case loadPendingBan org i d of
        None \<Rightarrow> (Inr False, d)
      | Some b \<Rightarrow>
          and_then (put_bans (sql_update (\<lambda>o'. bn_organization_id o' = org \<and> bn_scope o' = bn_scope b \<and>
              bn_identifier o' = bn_identifier b \<and>
              coalesce_default (bn_server_id o') [] = coalesce_default (bn_server_id b) [] \<and> bn_status o' = Ban_active)
            (\<lambda>o'. o'\<lparr>bn_status := Ban_lifted\<rparr>) (bans d))) (\<lambda>_ d1.
          and_then (put_bans (sql_update (in_review org i) (decided Ban_active uid now) (bans d1))) (\<lambda>_.
          and_then (reviewFeedback org uid fid b ''confirmed'' now) (\<lambda>_.
          give True)) d1) d)"

(* src api/routes.ts:2618-2630 bans/kick/transaction *)
definition kick_tx :: "string \<Rightarrow> string \<Rightarrow> string \<Rightarrow> string \<Rightarrow> time_ms \<Rightarrow> db \<Rightarrow> bool result \<times> db" where
  "kick_tx org uid i fid now d =
     (case loadPendingBan org i d of
        None \<Rightarrow> (Inr False, d)
      | Some b \<Rightarrow>
          and_then (put_bans (sql_update (in_review org i) (decided Ban_kicked uid now) (bans d))) (\<lambda>_.
          and_then (reviewFeedback org uid fid b ''confirmed'' now) (\<lambda>_. give True)) d)"

(* src api/routes.ts:2639-2650 bans/false-positive/transaction *)
definition false_positive_tx :: "string \<Rightarrow> string \<Rightarrow> string \<Rightarrow> string \<Rightarrow> time_ms \<Rightarrow> db \<Rightarrow> bool result \<times> db" where
  "false_positive_tx org uid i fid now d =
     (case loadPendingBan org i d of
        None \<Rightarrow> (Inr False, d)
      | Some b \<Rightarrow>
          and_then (put_bans (sql_update (in_review org i) (decided Ban_dismissed uid now) (bans d))) (\<lambda>_.
          and_then (reviewFeedback org uid fid b ''false_positive'' now) (\<lambda>_. give True)) d)"

definition reviews :: "(string \<Rightarrow> string \<Rightarrow> string \<Rightarrow> string \<Rightarrow> time_ms \<Rightarrow> db \<Rightarrow> bool result \<times> db) \<Rightarrow> string \<Rightarrow> ban_status \<Rightarrow>
    api_deps \<Rightarrow> api_env \<Rightarrow> api_request \<Rightarrow> world \<Rightarrow> api_reply \<times> world" where
  "reviews tx action st v x q w =
     handle_with (writes v x q Ban_manage w) (\<lambda>a.
       and_then (tenant_step x 0 (ra_organizationId a)
           (tx (ra_organizationId a) (aw_userId (ra_user a)) (pq_id q) (px_ids x 0) (px_now x 0))) (\<lambda>ok.
         if \<not> ok then give not_found
         else and_then (audit x 1 a action (pq_id q)) (\<lambda>_.
           give (reply 200 [(''status'', JStr ''ok''), (''ban_status'', JStr (ban_status_name st))]))))"

(* src api/routes.ts:2585-2613 bans/confirm *)
definition confirmBan :: "api_deps \<Rightarrow> api_env \<Rightarrow> api_request \<Rightarrow> world \<Rightarrow> api_reply \<times> world" where
  "confirmBan = reviews confirm_tx ''ban.confirmed'' Ban_active"

(* src api/routes.ts:2615-2634 bans/kick *)
definition kickBan :: "api_deps \<Rightarrow> api_env \<Rightarrow> api_request \<Rightarrow> world \<Rightarrow> api_reply \<times> world" where
  "kickBan = reviews kick_tx ''ban.reduced_kick'' Ban_kicked"

(* src api/routes.ts:2636-2654 bans/false-positive *)
definition dismissBan :: "api_deps \<Rightarrow> api_env \<Rightarrow> api_request \<Rightarrow> world \<Rightarrow> api_reply \<times> world" where
  "dismissBan = reviews false_positive_tx ''ban.false_positive'' Ban_dismissed"

section \<open>Appeals\<close>

type_synonym appeal_clock = "string \<Rightarrow> time_ms option"

text \<open>The newest ban in force on the identifier, in whichever organization.\<close>

(* src api/routes.ts:2689-2701 appeals/post/transaction *)
definition submit_appeal_tx :: "string \<Rightarrow> string \<Rightarrow> appeal_input \<Rightarrow> time_ms \<Rightarrow> db \<Rightarrow> unit result \<times> db" where
  "submit_appeal_tx i ip p now d =
     (case rev (sort_key bn_created_at (filter (\<lambda>b. bn_identifier b = pi_identifier p \<and> bn_status b = Ban_active) (bans d))) of
        [] \<Rightarrow> (Inr (), d)
      | b # _ \<Rightarrow>
          if exists_row (\<lambda>r. ap_id r = i) (ban_appeals d) then (Inl Unique_violation, d)
          else (Inr (), d\<lparr>ban_appeals := ban_appeals d @
             [\<lparr>ap_id = i, ap_organization_id = bn_organization_id b, ap_ban_id = Some (bn_id b), ap_identifier = pi_identifier p,
               ap_contact = pi_contact p, ap_message = pi_message p, ap_status = Ap_pending, ap_ip = ip, ap_created_at = now,
               ap_resolved_by = None, ap_resolved_at = None\<rparr>]\<rparr>))"

definition received :: "int \<Rightarrow> api_reply" where "received st = reply st [(''status'', JStr ''received'')]"

(* src api/routes.ts:2672-2710 appeals/post *)
definition submitAppeal :: "api_env \<Rightarrow> api_request \<Rightarrow> appeal_clock \<times> world \<Rightarrow> api_reply \<times> appeal_clock \<times> world" where
  "submitAppeal x q = (\<lambda>(clock, w).
     case appealSubmitSchema (body_or_empty q) of
       None \<Rightarrow> (invalid, clock, w)
     | Some p \<Rightarrow>
         if px_js x 0 - coalesce_default (clock (pq_ip q)) 0 < 60000 then (received 429, clock, w)
         else (received 202, clock(pq_ip q \<mapsto> px_js x 0),
               snd (swallowed (platform_step x 0 (submit_appeal_tx (px_ids x 0) (pq_ip q) p (px_now x 0))) w)))"

definition appeal_status_name :: "appeal_status \<Rightarrow> string" where
  "appeal_status_name s = (case s of Ap_pending \<Rightarrow> ''PENDING'' | Ap_approved \<Rightarrow> ''APPROVED'' | Ap_rejected \<Rightarrow> ''REJECTED'')"

definition appeal_view :: "appeal_row \<Rightarrow> json" where
  "appeal_view r = JObj
     [(''id'', JStr (ap_id r)), (''ban_id'', j_opt JStr (ap_ban_id r)), (''identifier'', JStr (ap_identifier r)),
      (''contact'', j_opt JStr (ap_contact r)), (''message'', JStr (ap_message r)),
      (''status'', JStr (appeal_status_name (ap_status r))), (''created_at'', JInt (ap_created_at r)),
      (''resolved_at'', j_opt JInt (ap_resolved_at r))]"

(* src api/routes.ts:2713-2727 appeals/get *)
definition listAppeals :: "api_deps \<Rightarrow> api_env \<Rightarrow> api_request \<Rightarrow> world \<Rightarrow> api_reply \<times> world" where
  "listAppeals v x q w =
     handle_with (reads v x q Ban_read w) (\<lambda>a.
       tenant_step x 0 (ra_organizationId a) (\<lambda>d.
         (let newest = rev (sort_key ap_created_at (inside ap_organization_id (ra_organizationId a) (ban_appeals d))) in
          (Inr (reply 200 [(''appeals'', JArr (map appeal_view (take 200
             (filter (\<lambda>r. ap_status r = Ap_pending) newest @ filter (\<lambda>r. ap_status r \<noteq> Ap_pending) newest))))]), d))))"

definition appeal_lift_reason :: string where "appeal_lift_reason = ''appel de ban accept'' @ [CHR 0xE9]"

text \<open>The status of the reply: 404, 409 or 200.\<close>

(* src api/routes.ts:2741-2767 appeals/resolve/transaction *)
definition resolve_appeal_tx :: "string \<Rightarrow> string \<Rightarrow> string \<Rightarrow> bool \<Rightarrow> time_ms \<Rightarrow> db \<Rightarrow> int result \<times> db" where
  "resolve_appeal_tx org uid i approve now d =
     (case first_row (\<lambda>r. ap_id r = i \<and> ap_organization_id r = org) (ban_appeals d) of
        None \<Rightarrow> (Inr 404, d)
      | Some r \<Rightarrow>
          if ap_status r \<noteq> Ap_pending then (Inr 409, d)
          else (let d1 = d\<lparr>ban_appeals := sql_update (\<lambda>r. ap_id r = i \<and> ap_organization_id r = org)
                  (\<lambda>r. r\<lparr>ap_status := (if approve then Ap_approved else Ap_rejected), ap_resolved_by := Some uid,
                         ap_resolved_at := Some now\<rparr>) (ban_appeals d)\<rparr> in
            (Inr 200, case ap_ban_id r of
               None \<Rightarrow> d1
             | Some b \<Rightarrow> if approve \<and> b \<noteq> [] then snd (lift_tx org uid b (Some appeal_lift_reason) now d1) else d1)))"

(* src api/routes.ts:2731-2774 appeals/resolve *)
definition resolveAppeal :: "api_deps \<Rightarrow> api_env \<Rightarrow> api_request \<Rightarrow> world \<Rightarrow> api_reply \<times> world" where
  "resolveAppeal v x q w =
     handle_with (writes v x q Ban_manage w) (\<lambda>a.
       case appealResolveSchema (body_or_empty q) of
         None \<Rightarrow> give invalid
       | Some approve \<Rightarrow>
           and_then (tenant_step x 0 (ra_organizationId a)
               (resolve_appeal_tx (ra_organizationId a) (aw_userId (ra_user a)) (pq_id q) approve (px_now x 0))) (\<lambda>st.
             if st = 404 then give not_found
             else if st = 409 then give (fault_reply 409 ''already_resolved'')
             else and_then (audit x 1 a (if approve then ''appeal.approved'' else ''appeal.rejected'') (pq_id q)) (\<lambda>_.
               give (reply 200 [(''status'', JStr ''ok''), (''decision'', JStr (if approve then ''approve'' else ''reject''))]))))"

section \<open>Routes of the network\<close>

(* src api/routes.ts:2826-2829 network/status *)
definition networkStatus :: "api_deps \<Rightarrow> api_env \<Rightarrow> api_request \<Rightarrow> world \<Rightarrow> api_reply \<times> world" where
  "networkStatus v x q w =
     handle_with (reads v x q Ban_read w) (\<lambda>a.
       and_then (orgSharesBans x 0 (ra_organizationId a)) (\<lambda>b. give (reply 200 [(''enabled'', JBool b)])))"

definition enabledSchema :: "json \<Rightarrow> bool option" where
  "enabledSchema j = do { fs \<leftarrow> z_object [''enabled''] j; z_field ''enabled'' z_bool fs }"

(* src api/routes.ts:2832-2841 network/optin *)
definition optInNetwork :: "api_deps \<Rightarrow> api_env \<Rightarrow> api_request \<Rightarrow> world \<Rightarrow> api_reply \<times> world" where
  "optInNetwork v x q w =
     handle_with (writes v x q Ban_manage w) (\<lambda>a.
       case enabledSchema (body_or_empty q) of
         None \<Rightarrow> give invalid
       | Some b \<Rightarrow>
           and_then (plain_step x 0 (\<lambda>d. (Inr (), d\<lparr>organizations := sql_update (\<lambda>r. og_id r = ra_organizationId a)
               (\<lambda>r. r\<lparr>og_share_bans := b\<rparr>) (organizations d)\<rparr>))) (\<lambda>_.
           and_then (audit x 1 a ''network.optin'' (ra_organizationId a)) (\<lambda>_.
           give (reply 200 [(''status'', JStr ''ok''), (''enabled'', JBool b)]))))"

definition check_query :: "(string \<times> string) list \<Rightarrow> string option" where
  "check_query qs = (case query_object qs of JObj fs \<Rightarrow> z_field ''identifier'' (z_string 1 128) fs | _ \<Rightarrow> None)"

(* src api/routes.ts:2845-2866 network/check *)
definition checkNetwork :: "api_deps \<Rightarrow> api_env \<Rightarrow> api_request \<Rightarrow> world \<Rightarrow> api_reply \<times> world" where
  "checkNetwork v x q w =
     handle_with (reads v x q Ban_read w) (\<lambda>a.
       case check_query (pq_query q) of
         None \<Rightarrow> give (reply 200 [(''enabled'', JBool False), (''error'', JStr ''validation'')])
       | Some ident \<Rightarrow>
           and_then (orgSharesBans x 0 (ra_organizationId a)) (\<lambda>shares.
             if \<not> shares then give (reply 200 [(''enabled'', JBool False)])
             else and_then (plain_step x 1 (\<lambda>d. (Inr (first_row (\<lambda>s. gs_identifier_hash s = banHash v ident) (global_ban_signals d)), d)))
               (\<lambda>row. give (reply 200
                  [(''enabled'', JBool True), (''found'', JBool (row \<noteq> None)),
                   (''org_count'', JInt (coalesce_default (map_option gs_org_count row) 0)),
                   (''report_count'', JInt (coalesce_default (map_option gs_report_count row) 0)),
                   (''last_reported_at'', j_opt JInt (map_option gs_last_reported_at row))]))))"

end
