(* ===== verification/Histories.thy ===== *)
theory Histories
  imports Api_Base
begin

text \<open>
  What becomes of the rows of a table along a sequence of requests: the rows that were there evolve
  one by one, new rows come after them. Two interfaces: a relation on rows that composes, and
  a relation on databases that the statements of a route keep, so that the route does.
\<close>

section \<open>Rows\<close>

definition rows_evolve :: "('r \<Rightarrow> 'r \<Rightarrow> bool) \<Rightarrow> 'r list \<Rightarrow> 'r list \<Rightarrow> bool" where
  "rows_evolve R rows rows' = (\<exists>f new. rows' = map f rows @ new \<and> (\<forall>r \<in> set rows. R r (f r)))"

locale row_history =
  fixes R :: "'r \<Rightarrow> 'r \<Rightarrow> bool"
  assumes row_refl: "R r r" and row_trans: "R r s \<Longrightarrow> R s t \<Longrightarrow> R r t"
begin

lemma evolve_refl: "rows_evolve R rows rows"
  unfolding rows_evolve_def by (intro exI [of _ id] exI [of _ "[]"]) (simp add: row_refl)

lemma evolve_update: "(\<And>r. r \<in> set rows \<Longrightarrow> P r \<Longrightarrow> R r (f r)) \<Longrightarrow> rows_evolve R rows (sql_update P f rows)"
  unfolding rows_evolve_def sql_update_def
  by (intro exI [of _ "\<lambda>r. if P r then f r else r"] exI [of _ "[]"]) (simp add: row_refl)

lemma evolve_append: "rows_evolve R rows (rows @ new)"
  unfolding rows_evolve_def by (intro exI [of _ id] exI [of _ new]) (simp add: row_refl)

lemma evolve_trans:
  assumes "rows_evolve R xs ys" and "rows_evolve R ys zs"
  shows "rows_evolve R xs zs"
proof -
  obtain f n g m where "ys = map f xs @ n" "\<forall>r \<in> set xs. R r (f r)" "zs = map g ys @ m" "\<forall>r \<in> set ys. R r (g r)"
    using assms unfolding rows_evolve_def by blast
  then have "zs = map (g \<circ> f) xs @ (map g n @ m)" "\<forall>r \<in> set xs. R r ((g \<circ> f) r)" by (auto intro: row_trans)
  then show ?thesis unfolding rows_evolve_def by blast
qed

end

lemma evolve_row: "rows_evolve R rows rows' \<Longrightarrow> r \<in> set rows \<Longrightarrow> \<exists>r' \<in> set rows'. R r r'"
  unfolding rows_evolve_def by auto

section \<open>Routes\<close>

text \<open>Every step of a route leaves the database in the relation to what it was.\<close>

definition db_keeps :: "(db \<Rightarrow> db \<Rightarrow> bool) \<Rightarrow> (world \<Rightarrow> 'a result \<times> world) \<Rightarrow> bool" where
  "db_keeps S m = keeps_rel (\<lambda>w w'. S (wd_db w) (wd_db w')) m"

definition tx_keeps :: "(db \<Rightarrow> db \<Rightarrow> bool) \<Rightarrow> (db \<Rightarrow> 'a result \<times> db) \<Rightarrow> bool" where
  "tx_keeps S f = (\<forall>d r d'. f d = (Inr r, d') \<longrightarrow> S d d')"

lemma tx_keepsI: "(\<And>d r d'. f d = (Inr r, d') \<Longrightarrow> S d d') \<Longrightarrow> tx_keeps S f"
  by (simp add: tx_keeps_def)

locale db_relation =
  fixes S :: "db \<Rightarrow> db \<Rightarrow> bool"
  assumes S_refl: "S d d" and S_trans: "S d e \<Longrightarrow> S e g \<Longrightarrow> S d g"
    and S_sessions: "S d (d\<lparr>sessions := ss\<rparr>)" and S_audit: "S d (append_audit a d)"
begin

lemma keeps_give: "db_keeps S (give y)"
  by (simp add: db_keeps_def keeps_rel_def give_def S_refl)

lemma keeps_and_then:
  assumes "db_keeps S m" and "\<And>y. db_keeps S (k y)"
  shows "db_keeps S (and_then m k)"
  unfolding db_keeps_def keeps_rel_def
proof
  fix w
  obtain r w1 where m: "m w = (r, w1)" by fastforce
  with assms(1) have 1: "S (wd_db w) (wd_db w1)" by (metis db_keeps_def keeps_relD snd_conv)
  have "S (wd_db w1) (wd_db (snd (k y w1)))" for y using assms(2) by (metis db_keeps_def keeps_relD)
  with 1 have "S (wd_db w) (wd_db (snd (k y w1)))" for y by (rule S_trans)
  with 1 show "S (wd_db w) (wd_db (snd (and_then m k w)))" by (simp add: and_then_def m split: sum.split)
qed

lemma keeps_if: "(b \<Longrightarrow> db_keeps S m) \<Longrightarrow> (\<not> b \<Longrightarrow> db_keeps S n) \<Longrightarrow> db_keeps S (if b then m else n)"
  by simp

lemma keeps_case_option:
  "db_keeps S m \<Longrightarrow> (\<And>z. db_keeps S (k z)) \<Longrightarrow> db_keeps S (case y of None \<Rightarrow> m | Some z \<Rightarrow> k z)"
  by (cases y) simp_all

lemma keeps_case_prod: "(\<And>y z. db_keeps S (k y z)) \<Longrightarrow> db_keeps S (case p of (y, z) \<Rightarrow> k y z)"
  by (cases p) simp

lemma keeps_tenant: "tx_keeps S f \<Longrightarrow> db_keeps S (tenant_step x n org f)"
  unfolding db_keeps_def keeps_rel_def tx_keeps_def tenant_step_def
  by (intro allI world_tx_keeps [where Q = "S d" for d]) (auto simp: S_refl)

lemma keeps_plain: "tx_keeps S f \<Longrightarrow> db_keeps S (plain_step x n f)"
  by (auto simp: db_keeps_def keeps_rel_def tx_keeps_def plain_step_def on_db_def statement_def S_refl split: prod.splits sum.splits)

lemma keeps_platform:
  assumes "tx_keeps S f"
  shows "db_keeps S (platform_step x n f)"
  unfolding db_keeps_def keeps_rel_def platform_step_def on_db_def
proof
  fix w
  obtain r d where t: "platform_db (px_faults x n) (\<lambda>s. f) (wd_db w) = (r, d)" by fastforce
  have "S (wd_db w) d"
  proof (cases r)
    case (Inl e)
    with platform_db_Inl t have "d = wd_db w" by fastforce
    then show ?thesis by (simp add: S_refl)
  next
    case (Inr y)
    from platform_db_Inr [OF t [unfolded Inr]] assms show ?thesis by (auto simp: tx_keeps_def)
  qed
  then show "S (wd_db w) (wd_db (snd (case platform_db (px_faults x n) (\<lambda>s. f) (wd_db w) of (r, d) \<Rightarrow> (r, w\<lparr>wd_db := d\<rparr>))))"
    by (simp add: t)
qed

lemma keeps_by_hand: "tx_keeps S f \<Longrightarrow> db_keeps S (by_hand_step x n f)"
  by (auto simp: db_keeps_def keeps_rel_def tx_keeps_def by_hand_step_def on_db_def by_hand_def S_refl
      split: prod.splits sum.splits option.splits)

lemma keeps_audit: "db_keeps S (audit x n a action target)"
  unfolding audit_def by (rule keeps_tenant) (auto simp: tx_keeps_def journal_def S_audit)

lemma keeps_swallowed: "db_keeps S m \<Longrightarrow> db_keeps S (swallowed m)"
  by (simp add: db_keeps_def keeps_rel_def swallowed_def)

lemma keeps_on_db: "(\<And>d. S d (snd (op d))) \<Longrightarrow> db_keeps S (on_db op)"
  unfolding db_keeps_def keeps_rel_def on_db_def by (auto split: prod.split) (metis snd_conv)

lemmas keeps = keeps_and_then keeps_if keeps_case_option keeps_case_prod keeps_give keeps_audit keeps_swallowed

lemma guard_keeps: "only_sessions w w' \<Longrightarrow> S (wd_db w) (wd_db w')"
  by (auto simp: only_sessions_def S_sessions)

lemma keeps_handle:
  assumes "only_sessions w (snd g)" and "\<And>a. db_keeps S (work a)"
  shows "S (wd_db w) (wd_db (snd (handle_with g work)))"
proof -
  obtain r w1 where g: "g = (r, w1)" by fastforce
  have 1: "S (wd_db w) (wd_db w1)" using assms(1) by (simp add: g guard_keeps)
  have "S (wd_db w1) (wd_db (snd (work a w1)))" for a using assms(2) by (metis db_keeps_def keeps_relD)
  with 1 have "S (wd_db w) (wd_db (snd (work a w1)))" for a by (rule S_trans)
  with 1 show ?thesis by (simp add: handle_with_def g split: sum.split)
qed

lemma route_keeps:
  assumes "\<And>a. db_keeps S (work a)"
  shows "S (wd_db w) (wd_db (snd (handle_with (writes v x q p w) work)))"
    and "S (wd_db w) (wd_db (snd (handle_with (reads v x q p w) work)))"
    and "S (wd_db w) (wd_db (snd (handle_with (acts b v x q w) work)))"
  by (rule keeps_handle [OF guards_sessions(1) assms], rule keeps_handle [OF guards_sessions(2) assms],
      rule keeps_handle [OF guards_sessions(3) assms])

end

end
