(* ===== verification/Ban_Facts.thy ===== *)
theory Ban_Facts
  imports Api_Bans Histories
begin

text \<open>
  The operations on bans, agents included, and what they keep in whatever order they come; the life of a
  ban; what a confirmation achieves.
\<close>

section \<open>The operations on bans\<close>

text \<open>Every operation that writes to the table of bans.\<close>

inductive ban_route :: "world \<Rightarrow> world \<Rightarrow> bool" where
  Created: "ban_route w (snd (createBan v x q w))"
| Lifted: "ban_route w (snd (liftBan v x q w))"
| Confirmed: "ban_route w (snd (confirmBan v x q w))"
| Kicked: "ban_route w (snd (kickBan v x q w))"
| Dismissed: "ban_route w (snd (dismissBan v x q w))"
| Appealed: "ban_route w (snd (snd (submitAppeal x q (clock, w))))"
| Resolved: "ban_route w (snd (resolveAppeal v x q w))"
| Reported: "ban_route w (snd (ingest_alerts now f ctx as w))"

text \<open>A relation the transactions of these operations keep is kept by the operations, in any order.\<close>

locale ban_relation = db_relation S for S :: "db \<Rightarrow> db \<Rightarrow> bool" +
  assumes S_create: "tx_keeps S (create_ban_tx row)"
    and S_lift: "tx_keeps S (lift_tx org uid i reason now)"
    and S_confirm: "tx_keeps S (confirm_tx org uid i fid now)"
    and S_kick: "tx_keeps S (kick_tx org uid i fid now)"
    and S_dismiss: "tx_keeps S (false_positive_tx org uid i fid now)"
    and S_submit: "tx_keeps S (submit_appeal_tx i ip p now)"
    and S_resolve: "tx_keeps S (resolve_appeal_tx org uid i approve now)"
    and S_contribute: "db_keeps S (contributeSharedBan v x n org ident)"
    and S_alert: "S d (snd (insert_alert org sid now i a d))"
    and S_sanction: "S d (snd (sanction_step org sid now i a d))"
begin

lemma ingest_keeps: "S (wd_db w) (wd_db (snd (ingest_alerts now f ctx as w)))"
proof -
  let ?org = "rc_organizationId (cx_credential ctx)" and ?sid = "rc_serverId (cx_credential ctx)"
  have step: "S e (snd (alerts_loop ?org ?sid now no_outcome as e))" for e
    by (rule alerts_loop_keeps [where Q = "S e"]) (blast intro: S_refl S_trans S_alert S_sanction)+
  have tx: "S (wd_db w) (wd_db (snd (world_tx ?org f (alerts_loop ?org ?sid now no_outcome as) w)))"
    by (rule world_tx_keeps [where Q = "S (wd_db w)"]) (use step in \<open>auto simp: S_refl dest: sym\<close>, metis snd_conv)
  have db: "wd_db (publish_alerts ?org ?sid out w1) = wd_db w1" for out w1
  proof -
    have f: "wd_db (fold g xs v) = wd_db v" if "\<And>y v. wd_db (g y v) = wd_db v" for g :: "'q \<Rightarrow> world \<Rightarrow> world" and xs v
      using that by (induction xs arbitrary: v) simp_all
    show ?thesis unfolding publish_alerts_def by (subst f; (subst f)?) (auto split: prod.split)
  qed
  show ?thesis using tx
    by (cases "world_tx ?org f (alerts_loop ?org ?sid now no_outcome as) w") (auto simp: ingest_alerts_def Let_def db split: sum.splits)
qed

lemma ban_route_keeps: "ban_route w w' \<Longrightarrow> S (wd_db w) (wd_db w')"
proof (induction rule: ban_route.induct)
  case (Created w v x q)
  show ?case unfolding createBan_def Let_def
    by (intro route_keeps keeps keeps_tenant S_create S_contribute)
next
  case (Lifted w v x q)
  show ?case unfolding liftBan_def by (intro route_keeps keeps keeps_tenant S_lift)
next
  case (Appealed w x q clock)
  have "db_keeps S (swallowed (platform_step x 0 (submit_appeal_tx i ip p now)))" for i ip p now
    by (intro keeps keeps_platform S_submit)
  then have "S (wd_db w) (wd_db (snd (swallowed (platform_step x 0 (submit_appeal_tx i ip p now)) w)))" for i ip p now
    by (metis db_keeps_def keeps_relD)
  then show ?case by (auto simp: submitAppeal_def S_refl split: option.split)
next
  case (Resolved w v x q)
  show ?case unfolding resolveAppeal_def by (intro route_keeps keeps keeps_tenant S_resolve)
next
  case (Reported w now f ctx as)
  show ?case by (rule ingest_keeps)
qed (simp_all only: confirmBan_def kickBan_def dismissBan_def reviews_def,
     (intro route_keeps keeps keeps_tenant S_confirm S_kick S_dismiss)+)

lemma ban_routes_keep: "ban_route\<^sup>*\<^sup>* w w' \<Longrightarrow> S (wd_db w) (wd_db w')"
  by (induction rule: rtranclp_induct) (auto intro: S_refl S_trans ban_route_keeps)

end

section \<open>The life of a ban\<close>

inductive ban_life :: "ban_status \<Rightarrow> ban_status \<Rightarrow> bool" where
  Confirm: "ban_life Ban_pending Ban_active"
| Kick: "ban_life Ban_pending Ban_kicked"
| Dismiss: "ban_life Ban_pending Ban_dismissed"
| Lift: "ban_life Ban_active Ban_lifted"

inductive_simps ban_life_end: "ban_life Ban_lifted s" "ban_life Ban_kicked s" "ban_life Ban_dismissed s" "ban_life Ban_expired s"

lemma ban_life_ended: "ban_life\<^sup>*\<^sup>* s s' \<Longrightarrow> s \<in> {Ban_lifted, Ban_kicked, Ban_dismissed, Ban_expired} \<Longrightarrow> s' = s"
  by (induction rule: converse_rtranclp_induct) (auto simp: ban_life_end)

definition ban_evolves :: "ban_row \<Rightarrow> ban_row \<Rightarrow> bool" where
  "ban_evolves b b' =
     (ban_life\<^sup>*\<^sup>* (bn_status b) (bn_status b') \<and> bn_id b' = bn_id b \<and> ban_key b' = ban_key b \<and>
      bn_detector b' = bn_detector b \<and> bn_created_at b' = bn_created_at b)"

interpretation ban_rows: row_history ban_evolves
  by unfold_locales (auto simp: ban_evolves_def intro: rtranclp_trans)

definition bans_evolve :: "db \<Rightarrow> db \<Rightarrow> bool" where
  "bans_evolve d d' = rows_evolve ban_evolves (bans d) (bans d')"

interpretation ban_db: db_relation bans_evolve
  by unfold_locales (auto simp: bans_evolve_def intro: ban_rows.evolve_refl ban_rows.evolve_trans)

lemma insert_ban_evolves: "insert_ban r d = (Inr u, d') \<Longrightarrow> bans_evolve d d'"
  by (auto simp: insert_ban_def bans_evolve_def ban_rows.evolve_append split: if_splits)

lemma bans_evolve_same: "bans d' = bans d \<Longrightarrow> bans_evolve d d'"
  by (simp add: bans_evolve_def ban_rows.evolve_refl)

lemma put_bans_evolves: "put_bans rows d = (Inr u, d') \<Longrightarrow> rows_evolve ban_evolves (bans d) rows \<Longrightarrow> bans_evolve d d'"
  by (auto simp: put_bans_def bans_evolve_def split: if_splits)

lemma status_evolves:
  "ban_life (bn_status b) st \<Longrightarrow> ban_evolves b (b\<lparr>bn_status := st, bn_reviewed_by := y1, bn_reviewed_at := z1\<rparr>)"
  "ban_life (bn_status b) st \<Longrightarrow> ban_evolves b (b\<lparr>bn_status := st\<rparr>)"
  "ban_life (bn_status b) st \<Longrightarrow> ban_evolves b (b\<lparr>bn_status := st, bn_lifted_at := y2, bn_lifted_by := z2, bn_lifted_reason := t2\<rparr>)"
  "ban_evolves b (b\<lparr>bn_reason := s, bn_expires_at := y3, bn_player_name := z3\<rparr>)"
  by (auto simp: ban_evolves_def ban_key_def)

lemma feedback_bans: "reviewFeedback org uid fid b v now d = (Inr u, d') \<Longrightarrow> bans d' = bans d"
  by (auto simp: reviewFeedback_def split: option.splits if_splits)

lemma create_ban_evolves: "tx_keeps bans_evolve (create_ban_tx r)"
proof (rule tx_keepsI)
  fix d y d'
  assume "create_ban_tx r d = (Inr y, d')"
  then show "bans_evolve d d'"
    by (auto simp: create_ban_tx_def bans_evolve_def dest: insert_ban_evolves split: option.splits prod.splits sum.splits if_splits
        intro!: ban_rows.evolve_update status_evolves(4) intro: insert_ban_evolves [unfolded bans_evolve_def])
qed

lemma lift_evolves: "bans_evolve d (snd (lift_tx org uid i reason now d))"
  by (auto simp: lift_tx_def Let_def bans_evolve_def intro!: ban_rows.evolve_update status_evolves(3) ban_life.Lift)

lemma decide_evolves:
  "put_bans (sql_update (in_review org i) (decided st uid now) (bans d)) d = (Inr u, d') \<Longrightarrow> ban_life Ban_pending st \<Longrightarrow> bans_evolve d d'"
  by (erule put_bans_evolves) (auto simp: in_review_def decided_def intro!: ban_rows.evolve_update status_evolves(1))

lemma decision_evolves:
  assumes "and_then (put_bans (sql_update (in_review org i) (decided st uid now) (bans d))) (\<lambda>_.
          and_then (reviewFeedback org uid fid b v now) (\<lambda>_. give True)) d = (Inr y, d')" and "ban_life Ban_pending st"
  shows "bans_evolve d d'"
  using assms(1)
proof (rule and_then_Inr)
  fix u d1
  assume p: "put_bans (sql_update (in_review org i) (decided st uid now) (bans d)) d = (Inr u, d1)"
    and "and_then (reviewFeedback org uid fid b v now) (\<lambda>_. give True) d1 = (Inr y, d')"
  then have "bans d' = bans d1" by (auto simp: give_def dest: feedback_bans elim!: and_then_Inr)
  with decide_evolves [OF p assms(2)] show ?thesis by (simp add: bans_evolve_def)
qed

lemma review_txs_evolve:
  "tx_keeps bans_evolve (confirm_tx org uid i fid now)" "tx_keeps bans_evolve (kick_tx org uid i fid now)"
  "tx_keeps bans_evolve (false_positive_tx org uid i fid now)"
proof -
  show "tx_keeps bans_evolve (kick_tx org uid i fid now)" "tx_keeps bans_evolve (false_positive_tx org uid i fid now)"
    by (auto simp: tx_keeps_def kick_tx_def false_positive_tx_def bans_evolve_same ban_life.intros
        split: option.splits dest!: decision_evolves)
  show "tx_keeps bans_evolve (confirm_tx org uid i fid now)"
  proof (rule tx_keepsI)
    fix d y d'
    assume run: "confirm_tx org uid i fid now d = (Inr y, d')"
    show "bans_evolve d d'"
    proof (cases "loadPendingBan org i d")
      case (Some b)
      let ?f = "\<lambda>o'. bn_organization_id o' = org \<and> bn_scope o' = bn_scope b \<and> bn_identifier o' = bn_identifier b \<and>
          coalesce_default (bn_server_id o') [] = coalesce_default (bn_server_id b) [] \<and> bn_status o' = Ban_active"
      from run obtain u d1 where p: "put_bans (sql_update ?f (\<lambda>o'. o'\<lparr>bn_status := Ban_lifted\<rparr>) (bans d)) d = (Inr u, d1)"
        and rest: "and_then (put_bans (sql_update (in_review org i) (decided Ban_active uid now) (bans d1)))
          (\<lambda>_. and_then (reviewFeedback org uid fid b ''confirmed'' now) (\<lambda>_. give True)) d1 = (Inr y, d')"
        unfolding confirm_tx_def Some option.case by (rule and_then_Inr)
      have "bans_evolve d d1"
        by (rule put_bans_evolves [OF p]) (auto intro!: ban_rows.evolve_update status_evolves(2) ban_life.Lift)
      with decision_evolves [OF rest ban_life.Confirm] show ?thesis by (metis ban_db.S_trans)
    qed (use run in \<open>simp add: confirm_tx_def bans_evolve_same\<close>)
  qed
qed

lemma submit_appeal_evolves: "tx_keeps bans_evolve (submit_appeal_tx i ip p now)"
  by (auto simp: tx_keeps_def submit_appeal_tx_def bans_evolve_same split: list.splits if_splits)

lemma resolve_appeal_evolves: "tx_keeps bans_evolve (resolve_appeal_tx org uid i approve now)"
proof (rule tx_keepsI)
  fix d y d'
  assume "resolve_appeal_tx org uid i approve now d = (Inr y, d')"
  moreover have "bans_evolve d (snd (lift_tx org uid b r now (d\<lparr>ban_appeals := as\<rparr>)))" for b r as
    using lift_evolves [of "d\<lparr>ban_appeals := as\<rparr>" org uid b r now] by (simp add: bans_evolve_def)
  ultimately show "bans_evolve d d'"
    by (auto simp: resolve_appeal_tx_def Let_def bans_evolve_same split: option.splits if_splits)
qed

lemma report_evolves: "tx_keeps bans_evolve (report_tx h org now)"
  by (auto simp: tx_keeps_def report_tx_def Let_def bans_evolve_same split: if_splits)

lemma contribute_keeps: "db_keeps bans_evolve (contributeSharedBan v x n org ident)"
  unfolding contributeSharedBan_def orgSharesBans_def
  by (intro ban_db.keeps ban_db.keeps_plain ban_db.keeps_by_hand report_evolves) (auto simp: tx_keeps_def bans_evolve_same)

lemma alerts_evolve: "bans_evolve d (snd (insert_alert org sid now i a d))" "bans_evolve d (snd (sanction_step org sid now i a d))"
  using insert_alert_cases [of org sid now i a d] sanction_step_cases [of org sid now i a d]
  by (auto simp: bans_evolve_def ban_rows.evolve_refl ban_rows.evolve_append)

lemma lift_tx_evolves: "tx_keeps bans_evolve (lift_tx org uid i reason now)"
  unfolding tx_keeps_def using lift_evolves by (metis snd_conv)

interpretation ban_history: ban_relation bans_evolve
  by unfold_locales (rule create_ban_evolves lift_tx_evolves review_txs_evolve submit_appeal_evolves resolve_appeal_evolves
      contribute_keeps alerts_evolve)+

text \<open>C14: Whatever the routes of the operators, the appeals and the alerts of the agents do, in any order, a
  ban keeps its identifier, its target and its detector, and its status follows the life of a ban:
  from review to in force, expulsion or dismissal, from in force to lifted. A sanction that was
  dismissed, reduced or lifted never comes back.\<close>

theorem bans_follow_life:
  assumes "ban_route\<^sup>*\<^sup>* w w'" and "b \<in> set (bans (wd_db w))"
  shows "\<exists>b' \<in> set (bans (wd_db w')). bn_id b' = bn_id b \<and> ban_key b' = ban_key b \<and> bn_detector b' = bn_detector b \<and>
    ban_life\<^sup>*\<^sup>* (bn_status b) (bn_status b') \<and>
    (bn_status b \<in> {Ban_dismissed, Ban_kicked, Ban_lifted} \<longrightarrow> bn_status b' = bn_status b)"
proof -
  from evolve_row [OF ban_history.ban_routes_keep [OF assms(1), unfolded bans_evolve_def] assms(2)] obtain b' where b': "b' \<in> set (bans (wd_db w'))"
    "ban_evolves b b'" by blast
  then have "bn_status b' = bn_status b" if "bn_status b \<in> {Ban_dismissed, Ban_kicked, Ban_lifted}"
    using that ban_life_ended [of "bn_status b" "bn_status b'"] by (auto simp: ban_evolves_def)
  with b' show ?thesis by (intro bexI [of _ b']) (simp_all add: ban_evolves_def)
qed

section \<open>Confirmation\<close>

text \<open>The rows a decision rests on: a sanction in review whose server, if any, is there.\<close>

definition reviewable :: "string \<Rightarrow> ban_row \<Rightarrow> db \<Rightarrow> bool" where
  "reviewable org b d =
     (b \<in> set (bans d) \<and> bn_organization_id b = org \<and> bn_status b = Ban_pending \<and>
      unless_given (bn_server_id b) (\<lambda>s. server_exists org s d))"

lemma bans_unique_iff:
  "bans_unique rows \<longleftrightarrow> distinct (map bn_id rows) \<and>
     (\<forall>r \<in> set rows. \<forall>o' \<in> set rows. in_force_as r o' \<and> bn_status r = Ban_active \<longrightarrow> o' = r)"
proof -
  have "distinct (map ban_key (filter (\<lambda>r. bn_status r = Ban_active) rows)) \<longleftrightarrow>
      (\<forall>r \<in> set rows. \<forall>o' \<in> set rows. in_force_as r o' \<and> bn_status r = Ban_active \<longrightarrow> o' = r)" if "distinct (map bn_id rows)"
    using that by (auto simp: distinct_map inj_on_def in_force_as_def)
  then show ?thesis unfolding bans_unique_def by blast
qed

lemma swap_unique:
  assumes u: "bans_unique rows" and b: "b \<in> set rows" "bn_status b = Ban_pending" "bn_organization_id b = org"
    and mid: "mid = sql_update (in_force_as b) (\<lambda>o'. o'\<lparr>bn_status := Ban_lifted\<rparr>) rows"
    and fin: "fin = sql_update (in_review org (bn_id b)) (decided Ban_active uid now) mid"
  shows "bans_unique mid" "bans_unique fin" "decided Ban_active uid now b \<in> set fin"
    "\<And>o'. o' \<in> set fin \<Longrightarrow> in_force_as b o' \<Longrightarrow> o' = decided Ban_active uid now b"
proof -
  have ids: "map bn_id mid = map bn_id rows" "map bn_id fin = map bn_id mid"
    unfolding mid fin by (simp_all add: map_key_sql_update decided_def)
  have inj: "r = b" if "r \<in> set rows" "bn_id r = bn_id b" for r
    using u b(1) that by (auto simp: bans_unique_iff distinct_map dest: inj_onD)
  have mid_in: "(r \<in> set rows \<and> \<not> in_force_as b r) \<or> bn_status r = Ban_lifted" if m: "r \<in> set mid" for r
  proof -
    obtain r' where "r' \<in> set rows" "r = (if in_force_as b r' then r'\<lparr>bn_status := Ban_lifted\<rparr> else r')"
      using m unfolding mid in_sql_update by blast
    then show ?thesis by (cases "in_force_as b r'") simp_all
  qed
  have b_mid: "b \<in> set mid" using b(1,2) unfolding mid in_sql_update by (intro bexI [of _ b]) (simp_all add: in_force_as_def)
  show um: "bans_unique mid"
    using u mid_in ids(1) unfolding bans_unique_iff in_force_as_def by (metis ban_status.distinct(3))
  have only: "r = b" if "r \<in> set mid" "in_review org (bn_id b) r" for r
    using that mid_in [of r] inj by (auto simp: in_review_def)
  show fin_b: "decided Ban_active uid now b \<in> set fin"
    using b_mid b(2,3) unfolding fin in_sql_update by (intro bexI [of _ b]) (simp_all add: in_review_def)
  have fin_in: "r \<in> set fin \<Longrightarrow> r = decided Ban_active uid now b \<or> r \<in> set mid" for r
    using only b(2,3) unfolding fin in_sql_update by (auto simp: in_review_def split: if_splits)
  show sole: "o' = decided Ban_active uid now b" if "o' \<in> set fin" "in_force_as b o'" for o'
    using fin_in [OF that(1)] mid_in [of o'] that(2) by (auto simp: in_force_as_def)
  have key: "in_force_as (decided Ban_active uid now b) = in_force_as b"
    by (auto simp: fun_eq_iff in_force_as_def decided_def ban_key_def)
  show "bans_unique fin" unfolding bans_unique_iff
  proof (intro conjI ballI impI)
    show "distinct (map bn_id fin)" using u ids by (simp add: bans_unique_def)
    fix r o'
    assume r: "r \<in> set fin" "o' \<in> set fin" "in_force_as r o' \<and> bn_status r = Ban_active"
    show "o' = r"
    proof (cases "ban_key r = ban_key b")
      case True
      with r sole [of r] sole [of o'] show ?thesis by (simp add: in_force_as_def)
    next
      case False
      with r fin_in [of r] fin_in [of o'] key have "r \<in> set mid" "o' \<in> set mid"
        by (auto simp: in_force_as_def decided_def ban_key_def)
      with um r(3) show ?thesis unfolding bans_unique_iff by blast
    qed
  qed
qed

lemma load_reviewable:
  assumes "reviewable org b d" and "bans_unique (bans d)"
  shows "loadPendingBan org (bn_id b) d = Some b"
proof -
  have "loadPendingBan org (bn_id b) d \<noteq> None"
    using assms(1) by (auto simp: loadPendingBan_def first_row_None_iff reviewable_def in_review_def)
  then obtain b' where b': "loadPendingBan org (bn_id b) d = Some b'" by blast
  then have "b' \<in> set (bans d)" "bn_id b' = bn_id b" using first_row_SomeD by (force simp: loadPendingBan_def in_review_def)+
  moreover have "b \<in> set (bans d)" using assms(1) by (simp add: reviewable_def)
  moreover have "inj_on bn_id (set (bans d))" using assms(2) by (simp add: bans_unique_def distinct_map)
  ultimately have "b' = b" by (metis inj_onD)
  with b' show ?thesis by simp
qed

lemma feedback_ok:
  assumes "unless_given (bn_server_id b) (\<lambda>s. server_exists org s d)" and "fid \<notin> fb_id ` set (detection_feedback d)"
  shows "\<exists>d'. reviewFeedback org uid fid b v now d = (Inr (), d') \<and> bans d' = bans d"
  using assms by (auto simp: reviewFeedback_def exists_row_iff split: option.split)

lemma confirm_tx_ok:
  assumes r: "reviewable org b d" and u: "bans_unique (bans d)" and f: "fid \<notin> fb_id ` set (detection_feedback d)"
  shows "\<exists>d'. confirm_tx org uid (bn_id b) fid now d = (Inr True, d') \<and> bans_unique (bans d') \<and>
    decided Ban_active uid now b \<in> set (bans d') \<and>
    (\<forall>o' \<in> set (bans d'). in_force_as b o' \<longrightarrow> o' = decided Ban_active uid now b)"
proof -
  have b: "b \<in> set (bans d)" "bn_status b = Ban_pending" "bn_organization_id b = org"
    "unless_given (bn_server_id b) (\<lambda>s. server_exists org s d)" using r by (simp_all add: reviewable_def)
  have P: "(\<lambda>o'. bn_organization_id o' = org \<and> bn_scope o' = bn_scope b \<and> bn_identifier o' = bn_identifier b \<and>
      coalesce_default (bn_server_id o') [] = coalesce_default (bn_server_id b) [] \<and> bn_status o' = Ban_active) = in_force_as b"
    using b(3) by (auto simp: fun_eq_iff in_force_as_def ban_key_def)
  define mid where "mid = sql_update (in_force_as b) (\<lambda>o'. o'\<lparr>bn_status := Ban_lifted\<rparr>) (bans d)"
  define fin where "fin = sql_update (in_review org (bn_id b)) (decided Ban_active uid now) mid"
  note swap = swap_unique [OF u b(1-3) mid_def fin_def]
  let ?d2 = "d\<lparr>bans := mid\<rparr>\<lparr>bans := fin\<rparr>"
  have "server_exists org s ?d2 = server_exists org s d" for s by (simp add: server_exists_def)
  with feedback_ok [of b org ?d2 fid uid "''confirmed''" now] b(4) f obtain d' where
    "reviewFeedback org uid fid b ''confirmed'' now ?d2 = (Inr (), d')" "bans d' = fin" by auto
  then have "confirm_tx org uid (bn_id b) fid now d = (Inr True, d')"
    using swap(1,2) by (simp add: confirm_tx_def load_reviewable [OF r u] P and_then_def put_bans_def give_def flip: mid_def fin_def)
  with swap \<open>bans d' = fin\<close> show ?thesis by auto
qed

text \<open>C13: A confirmation by someone who may manage bans never runs into the index on the bans in force: the
  sanction is in force from then on, with its author and instant, and it is the only one on its target;
  one that was in force there has made way.\<close>

theorem confirmed_ban_is_the_one_in_force:
  assumes guard: "writes v x q Ban_manage w = (Inr a, w1)" and org: "org_id_ok (ra_organizationId a)"
    and faults: "px_faults x 0 = no_faults" "px_faults x 1 = no_faults"
    and b: "reviewable (ra_organizationId a) b (wd_db w)" "pq_id q = bn_id b" and u: "bans_unique (bans (wd_db w))"
    and f: "px_ids x 0 \<notin> fb_id ` set (detection_feedback (wd_db w))"
    and fits: "length (aw_email (ra_user a)) \<le> 200" "length (bn_id b) \<le> 64"
  shows "\<exists>r w'. confirmBan v x q w = (r, w') \<and> ar_status r = 200 \<and> bans_unique (bans (wd_db w')) \<and>
    decided Ban_active (aw_userId (ra_user a)) (px_now x 0) b \<in> set (bans (wd_db w')) \<and>
    (\<forall>o' \<in> set (bans (wd_db w')). in_force_as b o' \<longrightarrow> o' = decided Ban_active (aw_userId (ra_user a)) (px_now x 0) b)"
proof -
  obtain ss where w1: "w1 = w\<lparr>wd_db := (wd_db w)\<lparr>sessions := ss\<rparr>\<rparr>"
    using guards_sessions(1) [of w v x q Ban_manage] guard by (auto simp: only_sessions_def)
  have "reviewable (ra_organizationId a) b (wd_db w1)" "bans_unique (bans (wd_db w1))"
    "px_ids x 0 \<notin> fb_id ` set (detection_feedback (wd_db w1))"
    using b(1) u f by (simp_all add: w1 reviewable_def server_exists_def)
  from confirm_tx_ok [OF this] obtain d' where
    run: "confirm_tx (ra_organizationId a) (aw_userId (ra_user a)) (bn_id b) (px_ids x 0) (px_now x 0) (wd_db w1) = (Inr True, d')"
    and d': "bans_unique (bans d')" "decided Ban_active (aw_userId (ra_user a)) (px_now x 0) b \<in> set (bans d')"
      "\<forall>o' \<in> set (bans d'). in_force_as b o' \<longrightarrow> o' = decided Ban_active (aw_userId (ra_user a)) (px_now x 0) b" by blast
  let ?d2 = "append_audit (actor_audit a ''ban.confirmed'' (pq_id q) (px_now x 1)) d'"
  have "confirmBan v x q w = (reply 200 [(''status'', JStr ''ok''), (''ban_status'', JStr (ban_status_name Ban_active))], w1\<lparr>wd_db := ?d2\<rparr>)"
    using tenant_step_runs [where f = "confirm_tx (ra_organizationId a) (aw_userId (ra_user a)) (bn_id b) (px_ids x 0) (px_now x 0)"
        and w = w1, OF org faults(1) run] audit_runs [OF org faults(2) fits]
    by (simp add: confirmBan_def reviews_def handle_with_def guard and_then_def b(2) settle_def give_def)
  with d' show ?thesis by simp
qed

end
