(* ===== verification/Appeal_Facts.thy ===== *)
theory Appeal_Facts
  imports Ban_Facts
begin

text \<open>
  What an appeal shows to the one who files it, how it is decided, and what the counters of the shared network count.
\<close>

section \<open>Appeals\<close>

lemma submitted_rows:
  assumes "submit_appeal_tx i ip p now d = (Inr u, d')"
  shows "bans d' = bans d \<and> (ban_appeals d' = ban_appeals d \<or>
    (\<exists>ap. \<exists>b \<in> set (bans d). ban_appeals d' = ban_appeals d @ [ap] \<and> bn_status b = Ban_active \<and> bn_identifier b = pi_identifier p \<and>
      ap_organization_id ap = bn_organization_id b \<and> ap_ban_id ap = Some (bn_id b) \<and> ap_status ap = Ap_pending \<and>
      ap_message ap = pi_message p \<and> ap_id ap \<notin> ap_id ` set (ban_appeals d)))"
proof -
  let ?bs = "rev (sort_key bn_created_at (filter (\<lambda>b. bn_identifier b = pi_identifier p \<and> bn_status b = Ban_active) (bans d)))"
  show ?thesis
  proof (cases ?bs)
    case (Cons b bs)
    then have "b \<in> set ?bs" by simp
    then have "b \<in> set (bans d)" "bn_status b = Ban_active" "bn_identifier b = pi_identifier p" by auto
    moreover have "\<not> exists_row (\<lambda>r. ap_id r = i) (ban_appeals d) \<longleftrightarrow> i \<notin> ap_id ` set (ban_appeals d)"
      by (auto simp: exists_row_iff)
    ultimately show ?thesis
      using assms Cons by (auto simp: submit_appeal_tx_def split: if_splits intro!: bexI [of _ b])
  qed (use assms in \<open>auto simp: submit_appeal_tx_def\<close>)
qed

text \<open>C32: The public answer to an appeal, and what the process remembers of the caller, do not depend on the
  data of the platform, so they do not tell whether the identifier is banned. No ban changes; at most
  one appeal is filed, open, and in the organization whose ban in force it contests.\<close>

theorem appeal_reveals_nothing:
  "(\<forall>w2. fst (submitAppeal x q (clock, w2)) = fst (submitAppeal x q (clock, w)) \<and>
      fst (snd (submitAppeal x q (clock, w2))) = fst (snd (submitAppeal x q (clock, w)))) \<and>
   bans (wd_db (snd (snd (submitAppeal x q (clock, w))))) = bans (wd_db w) \<and>
   (ban_appeals (wd_db (snd (snd (submitAppeal x q (clock, w))))) = ban_appeals (wd_db w) \<or>
    (\<exists>ap. \<exists>b \<in> set (bans (wd_db w)). ban_appeals (wd_db (snd (snd (submitAppeal x q (clock, w))))) = ban_appeals (wd_db w) @ [ap] \<and>
      bn_status b = Ban_active \<and> bn_identifier b = ap_identifier ap \<and> ap_organization_id ap = bn_organization_id b \<and>
      ap_ban_id ap = Some (bn_id b) \<and> ap_status ap = Ap_pending))"
proof -
  define Q where "Q = (\<lambda>w' :: world. bans (wd_db w') = bans (wd_db w) \<and> (ban_appeals (wd_db w') = ban_appeals (wd_db w) \<or>
    (\<exists>ap. \<exists>b \<in> set (bans (wd_db w)). ban_appeals (wd_db w') = ban_appeals (wd_db w) @ [ap] \<and>
      bn_status b = Ban_active \<and> bn_identifier b = ap_identifier ap \<and> ap_organization_id ap = bn_organization_id b \<and>
      ap_ban_id ap = Some (bn_id b) \<and> ap_status ap = Ap_pending)))"
  have "wp (swallowed (platform_step x 0 (submit_appeal_tx i ip p now))) (\<lambda>_. Q) Q w" for i ip p now
    unfolding wp
  proof (rule wp_platform)
    fix u d'
    assume t: "submit_appeal_tx i ip p now (wd_db w) = (Inr u, d')"
    then have "ap_identifier ap = pi_identifier p" if "ban_appeals d' = ban_appeals (wd_db w) @ [ap]" for ap
      using that by (auto simp: submit_appeal_tx_def split: list.splits if_splits)
    with submitted_rows [OF t] show "Q (w\<lparr>wd_db := d'\<rparr>)" by (auto simp: Q_def)
  qed (simp add: Q_def)
  then have "Q (snd (swallowed (platform_step x 0 (submit_appeal_tx i ip p now)) w))" for i ip p now
    by (simp add: wp_def swallowed_def)
  then have "Q (snd (snd (submitAppeal x q (clock, w))))" by (auto simp: submitAppeal_def Q_def split: option.split)
  moreover have "fst (submitAppeal x q (clock, w2)) = fst (submitAppeal x q (clock, w)) \<and>
      fst (snd (submitAppeal x q (clock, w2))) = fst (snd (submitAppeal x q (clock, w)))" for w2
    by (simp add: submitAppeal_def split: option.split)
  ultimately show ?thesis by (simp add: Q_def)
qed

text \<open>What may become of an appeal: nothing, or one decision.\<close>

definition appeal_evolves :: "appeal_row \<Rightarrow> appeal_row \<Rightarrow> bool" where
  "appeal_evolves r r' = (r' = r \<or> (ap_status r = Ap_pending \<and> ap_status r' \<noteq> Ap_pending \<and> ap_id r' = ap_id r \<and>
     ap_organization_id r' = ap_organization_id r \<and> ap_ban_id r' = ap_ban_id r \<and> ap_message r' = ap_message r))"

interpretation appeal_rows: row_history appeal_evolves
  by unfold_locales (auto simp: appeal_evolves_def)

definition appeals_keyed :: "db \<Rightarrow> bool" where "appeals_keyed d = distinct (map ap_id (ban_appeals d))"

definition appeals_evolve :: "db \<Rightarrow> db \<Rightarrow> bool" where
  "appeals_evolve d d' =
     (appeals_keyed d \<longrightarrow> appeals_keyed d' \<and> rows_evolve appeal_evolves (ban_appeals d) (ban_appeals d'))"

interpretation appeal_db: db_relation appeals_evolve
  by unfold_locales (auto simp: appeals_evolve_def appeals_keyed_def intro: appeal_rows.evolve_refl appeal_rows.evolve_trans)

lemma appeals_evolve_same: "ban_appeals d' = ban_appeals d \<Longrightarrow> appeals_evolve d d'"
  by (simp add: appeals_evolve_def appeals_keyed_def appeal_rows.evolve_refl)

lemma put_bans_Inr: "put_bans rows d = (Inr u, d') \<Longrightarrow> d' = d\<lparr>bans := rows\<rparr>"
  by (simp add: put_bans_def split: if_splits)

lemma submit_appeals_evolve: "tx_keeps appeals_evolve (submit_appeal_tx i ip p now)"
proof (rule tx_keepsI)
  fix d u d'
  assume "submit_appeal_tx i ip p now d = (Inr u, d')"
  from submitted_rows [OF this] show "appeals_evolve d d'"
    by (auto simp: appeals_evolve_def appeals_keyed_def intro: appeal_rows.evolve_refl appeal_rows.evolve_append)
qed

lemma lift_appeals [simp]: "ban_appeals (snd (lift_tx org uid i reason now d)) = ban_appeals d"
  by (simp add: lift_tx_def Let_def)

lemma resolve_appeals_evolve: "tx_keeps appeals_evolve (resolve_appeal_tx org uid i approve now)"
proof (rule tx_keepsI)
  fix d y d'
  assume run: "resolve_appeal_tx org uid i approve now d = (Inr y, d')"
  let ?P = "\<lambda>r. ap_id r = i \<and> ap_organization_id r = org"
  let ?f = "\<lambda>r. r\<lparr>ap_status := (if approve then Ap_approved else Ap_rejected), ap_resolved_by := Some uid, ap_resolved_at := Some now\<rparr>"
  show "appeals_evolve d d'"
  proof (cases "\<exists>r. first_row ?P (ban_appeals d) = Some r \<and> ap_status r = Ap_pending")
    case True
    then obtain r where r: "first_row ?P (ban_appeals d) = Some r" "ap_status r = Ap_pending" by blast
    with run have rows: "ban_appeals d' = sql_update ?P ?f (ban_appeals d)"
      by (auto simp: resolve_appeal_tx_def Let_def split: option.splits if_splits)
    have "r' = r" if "appeals_keyed d" "r' \<in> set (ban_appeals d)" "?P r'" for r'
      using that first_row_SomeD [OF r(1)] by (auto simp: appeals_keyed_def distinct_map dest: inj_onD)
    with r(2) have "rows_evolve appeal_evolves (ban_appeals d) (sql_update ?P ?f (ban_appeals d))" if "appeals_keyed d"
      using that by (intro appeal_rows.evolve_update) (auto simp: appeal_evolves_def)
    then show ?thesis by (simp add: appeals_evolve_def appeals_keyed_def rows map_key_sql_update)
  next
    case False
    with run have "d' = d" by (auto simp: resolve_appeal_tx_def split: option.splits if_splits)
    then show ?thesis by (simp add: appeals_evolve_same)
  qed
qed

lemma appeals_same:
  "tx_keeps appeals_evolve (create_ban_tx r)" "tx_keeps appeals_evolve (lift_tx org uid i reason now)"
  "tx_keeps appeals_evolve (confirm_tx org uid i fid now)" "tx_keeps appeals_evolve (kick_tx org uid i fid now)"
  "tx_keeps appeals_evolve (false_positive_tx org uid i fid now)" "tx_keeps appeals_evolve (report_tx h org now)"
proof -
  have fb: "reviewFeedback org uid fid b v now d = (Inr u, d') \<Longrightarrow> ban_appeals d' = ban_appeals d" for b v d u d'
    by (auto simp: reviewFeedback_def split: option.splits if_splits)
  have dec: "and_then (put_bans rows) (\<lambda>_. and_then (reviewFeedback org uid fid b v now) (\<lambda>_. give True)) d = (Inr y, d') \<Longrightarrow>
      ban_appeals d' = ban_appeals d" for rows b v d y d'
    by (auto simp: give_def elim!: and_then_Inr dest!: fb put_bans_Inr)
  show "tx_keeps appeals_evolve (create_ban_tx r)"
    by (auto simp: tx_keeps_def create_ban_tx_def insert_ban_def intro!: appeals_evolve_same split: option.splits prod.splits sum.splits if_splits)
  show "tx_keeps appeals_evolve (lift_tx org uid i reason now)" "tx_keeps appeals_evolve (report_tx h org now)"
    by (auto simp: tx_keeps_def lift_tx_def report_tx_def Let_def intro!: appeals_evolve_same split: if_splits)
  show "tx_keeps appeals_evolve (kick_tx org uid i fid now)" "tx_keeps appeals_evolve (false_positive_tx org uid i fid now)"
    by (auto simp: tx_keeps_def kick_tx_def false_positive_tx_def intro!: appeals_evolve_same split: option.splits dest: dec)
  show "tx_keeps appeals_evolve (confirm_tx org uid i fid now)"
  proof (rule tx_keepsI)
    fix d y d'
    assume run: "confirm_tx org uid i fid now d = (Inr y, d')"
    show "appeals_evolve d d'"
    proof (cases "loadPendingBan org i d")
      case (Some b)
      show ?thesis
        by (rule appeals_evolve_same, use run in \<open>simp only: confirm_tx_def Some option.case\<close>, erule and_then_Inr)
          (auto dest!: dec put_bans_Inr)
    qed (use run in \<open>simp add: confirm_tx_def appeals_evolve_same\<close>)
  qed
qed

lemma contribute_appeals: "db_keeps appeals_evolve (contributeSharedBan v x n org ident)"
  unfolding contributeSharedBan_def orgSharesBans_def
  by (intro appeal_db.keeps appeal_db.keeps_plain appeal_db.keeps_by_hand appeals_same) (auto simp: tx_keeps_def appeals_evolve_same)

lemma alerts_appeals: "appeals_evolve d (snd (insert_alert org sid now i a d))" "appeals_evolve d (snd (sanction_step org sid now i a d))"
  using insert_alert_cases [of org sid now i a d] sanction_step_cases [of org sid now i a d]
  by (auto intro!: appeals_evolve_same)

interpretation appeal_history: ban_relation appeals_evolve
  by unfold_locales (rule appeals_same submit_appeals_evolve resolve_appeals_evolve contribute_appeals alerts_appeals)+

lemma lift_rows:
  "bans (snd (lift_tx org uid i reason now d)) = sql_update (\<lambda>b. bn_organization_id b = org \<and> bn_id b = i \<and> bn_status b = Ban_active)
     (\<lambda>b. b\<lparr>bn_status := Ban_lifted, bn_lifted_at := Some now, bn_lifted_by := Some uid, bn_lifted_reason := reason\<rparr>) (bans d)"
  by (simp add: lift_tx_def Let_def)

lemma lifted_none:
  assumes "b \<in> set (bans (snd (lift_tx org uid i reason now d)))" and "bn_organization_id b = org" and "bn_id b = i"
  shows "bn_status b \<noteq> Ban_active"
proof -
  let ?P = "\<lambda>b. bn_organization_id b = org \<and> bn_id b = i \<and> bn_status b = Ban_active"
  obtain b0 where "b = (if ?P b0 then b0\<lparr>bn_status := Ban_lifted, bn_lifted_at := Some now, bn_lifted_by := Some uid,
      bn_lifted_reason := reason\<rparr> else b0)"
    using assms(1) unfolding lift_rows in_sql_update by blast
  with assms(2,3) show ?thesis by (cases "?P b0") auto
qed

lemma resolve_answers: "resolve_appeal_tx org uid i approve now d = (Inr st, d') \<Longrightarrow> st \<in> {200, 404, 409}"
  by (auto simp: resolve_appeal_tx_def Let_def split: option.splits if_splits)

lemma resolved_tx:
  assumes "resolve_appeal_tx org uid i approve now d = (Inr 200, d')"
  shows "\<exists>ap \<in> set (ban_appeals d). ap_id ap = i \<and> ap_organization_id ap = org \<and> ap_status ap = Ap_pending \<and>
    (\<exists>ap' \<in> set (ban_appeals d'). ap_id ap' = i \<and> ap_status ap' = (if approve then Ap_approved else Ap_rejected)) \<and>
    (\<forall>b \<in> set (bans d'). approve \<and> bn_organization_id b = org \<and> Some (bn_id b) = ap_ban_id ap \<and> bn_id b \<noteq> [] \<longrightarrow> bn_status b \<noteq> Ban_active)"
proof -
  let ?P = "\<lambda>r. ap_id r = i \<and> ap_organization_id r = org"
  let ?f = "\<lambda>r. r\<lparr>ap_status := (if approve then Ap_approved else Ap_rejected), ap_resolved_by := Some uid, ap_resolved_at := Some now\<rparr>"
  let ?d1 = "d\<lparr>ban_appeals := sql_update ?P ?f (ban_appeals d)\<rparr>"
  obtain ap where ap: "first_row ?P (ban_appeals d) = Some ap"
    using assms by (cases "first_row ?P (ban_appeals d)") (simp_all add: resolve_appeal_tx_def)
  with assms have st: "ap_status ap = Ap_pending" by (simp add: resolve_appeal_tx_def split: if_splits)
  with ap assms have d': "d' = (case ap_ban_id ap of None \<Rightarrow> ?d1
      | Some b \<Rightarrow> if approve \<and> b \<noteq> [] then snd (lift_tx org uid b (Some appeal_lift_reason) now ?d1) else ?d1)"
    by (simp add: resolve_appeal_tx_def Let_def)
  from first_row_SomeD [OF ap] have m: "ap \<in> set (ban_appeals d)" "?P ap" by auto
  have rows: "ban_appeals d' = sql_update ?P ?f (ban_appeals d)" by (simp add: d' split: option.split)
  have "?f ap \<in> set (ban_appeals d')" using m unfolding rows in_sql_update by (intro bexI [of _ ap]) simp_all
  then have "\<exists>ap' \<in> set (ban_appeals d'). ap_id ap' = i \<and> ap_status ap' = (if approve then Ap_approved else Ap_rejected)"
    using m(2) by (intro bexI [of _ "?f ap"]) simp_all
  moreover have "bn_status b \<noteq> Ban_active"
    if b: "b \<in> set (bans d')" "approve" "bn_organization_id b = org" "Some (bn_id b) = ap_ban_id ap" "bn_id b \<noteq> []" for b
  proof -
    have "d' = snd (lift_tx org uid (bn_id b) (Some appeal_lift_reason) now ?d1)"
      using b(2,5) unfolding d' b(4) [symmetric] by simp
    with lifted_none b(1,3) show ?thesis by blast
  qed
  ultimately show ?thesis using m st by (intro bexI [of _ ap]) auto
qed

lemma resolveAppeal_200:
  assumes run: "resolveAppeal v x q w = (r, w1)" and ok: "ar_status r = 200"
  shows "\<exists>org approve. appealResolveSchema (body_or_empty q) = Some approve \<and>
    (\<exists>ap \<in> set (ban_appeals (wd_db w)). ap_id ap = pq_id q \<and> ap_organization_id ap = org \<and> ap_status ap = Ap_pending \<and>
    (\<exists>ap' \<in> set (ban_appeals (wd_db w1)). ap_id ap' = pq_id q \<and> ap_status ap' = (if approve then Ap_approved else Ap_rejected)) \<and>
    (\<forall>b \<in> set (bans (wd_db w1)). approve \<and> bn_organization_id b = org \<and> Some (bn_id b) = ap_ban_id ap \<and> bn_id b \<noteq> [] \<longrightarrow>
       bn_status b \<noteq> Ban_active))"
proof -
  define Q where "Q = (\<lambda>(r :: api_reply) (w1 :: world). ar_status r = 200 \<longrightarrow> (\<exists>org approve. appealResolveSchema (body_or_empty q) = Some approve \<and>
    (\<exists>ap \<in> set (ban_appeals (wd_db w)). ap_id ap = pq_id q \<and> ap_organization_id ap = org \<and> ap_status ap = Ap_pending \<and>
    (\<exists>ap' \<in> set (ban_appeals (wd_db w1)). ap_id ap' = pq_id q \<and> ap_status ap' = (if approve then Ap_approved else Ap_rejected)) \<and>
    (\<forall>b \<in> set (bans (wd_db w1)). approve \<and> bn_organization_id b = org \<and> Some (bn_id b) = ap_ban_id ap \<and> bn_id b \<noteq> [] \<longrightarrow>
       bn_status b \<noteq> Ban_active))))"
  have "Q r w1" using run unfolding resolveAppeal_def
  proof (rule routed)
    fix a w2
    assume "writes v x q Ban_manage w = (Inr a, w2)"
    then have same: "ban_appeals (wd_db w2) = ban_appeals (wd_db w)"
      using guards_sessions(1) [of w v x q Ban_manage] by (auto simp: only_sessions_def)
    show "wp (case appealResolveSchema (body_or_empty q) of
         None \<Rightarrow> give invalid
       | Some approve \<Rightarrow>
           and_then (tenant_step x 0 (ra_organizationId a)
               (resolve_appeal_tx (ra_organizationId a) (aw_userId (ra_user a)) (pq_id q) approve (px_now x 0))) (\<lambda>st.
             if st = 404 then give not_found
             else if st = 409 then give (fault_reply 409 ''already_resolved'')
             else and_then (audit x 1 a (if approve then ''appeal.approved'' else ''appeal.rejected'') (pq_id q)) (\<lambda>_.
               give (reply 200 [(''status'', JStr ''ok''), (''decision'', JStr (if approve then ''approve'' else ''reject''))]))))
      Q (\<lambda>w3. \<forall>e. Q (refused (Other_access e)) w3) w2"
    proof (cases "appealResolveSchema (body_or_empty q)")
      case (Some approve)
      have Q0: "ar_status r0 \<noteq> 200 \<Longrightarrow> Q r0 w3" for r0 w3 by (simp add: Q_def)
      have Q1: "Q (reply 200 b) (w2\<lparr>wd_db := append_audit e d'\<rparr>)"
        if "resolve_appeal_tx (ra_organizationId a) (aw_userId (ra_user a)) (pq_id q) approve (px_now x 0) (wd_db w2) = (Inr 200, d')" for b e d'
        using resolved_tx [OF that] unfolding Q_def Some
        by (intro impI exI [of _ "ra_organizationId a"] exI [of _ approve]) (simp add: same)
      show ?thesis unfolding Some option.case wp
      proof (rule wp_tenant)
        fix st d'
        assume t: "resolve_appeal_tx (ra_organizationId a) (aw_userId (ra_user a)) (pq_id q) approve (px_now x 0) (wd_db w2) = (Inr st, d')"
        from resolve_answers [OF t] t Q1 show "if st = 404 then Q not_found (w2\<lparr>wd_db := d'\<rparr>)
          else if st = 409 then Q (fault_reply 409 ''already_resolved'') (w2\<lparr>wd_db := d'\<rparr>)
          else wp (audit x 1 a (if approve then ''appeal.approved'' else ''appeal.rejected'') (pq_id q))
             (\<lambda>_. Q (reply 200 [(''status'', JStr ''ok''), (''decision'', JStr (if approve then ''approve'' else ''reject''))]))
             (\<lambda>w3. \<forall>e. Q (refused (Other_access e)) w3) (w2\<lparr>wd_db := d'\<rparr>)"
          by (auto simp: Q0 intro!: wp_audit)
      qed (simp add: Q0)
    qed (simp add: wp Q_def)
  qed (simp add: Q_def)
  with ok show ?thesis unfolding Q_def by blast
qed


section \<open>The shared network\<close>

text \<open>The counter of an identifier is the number of organizations that reported it, each counted once.\<close>

definition reporters_of :: "string \<Rightarrow> db \<Rightarrow> string set" where
  "reporters_of h d = {o'. (h, o') \<in> set (global_ban_reporters d)}"

definition signals_ok :: "db \<Rightarrow> bool" where
  "signals_ok d =
     (distinct (map gs_identifier_hash (global_ban_signals d)) \<and>
      (\<forall>s \<in> set (global_ban_signals d). gs_org_count s = int (card (reporters_of (gs_identifier_hash s) d)) \<and>
         gs_org_count s \<le> gs_report_count s) \<and>
      fst ` set (global_ban_reporters d) \<subseteq> gs_identifier_hash ` set (global_ban_signals d))"

definition sharing :: "db \<Rightarrow> string set" where
  "sharing d = {o'. \<exists>r \<in> set (organizations d). og_id r = o' \<and> og_share_bans r}"

definition counted :: "db \<Rightarrow> db \<Rightarrow> bool" where
  "counted d d' =
     (organizations d' = organizations d \<and> (signals_ok d \<longrightarrow> signals_ok d') \<and>
      snd ` set (global_ban_reporters d') \<subseteq> snd ` set (global_ban_reporters d) \<union> sharing d)"

lemma finite_reporters [simp]: "finite (reporters_of h d)"
proof -
  have "reporters_of h d \<subseteq> snd ` set (global_ban_reporters d)" by (force simp: reporters_of_def)
  then show ?thesis by (rule finite_subset) simp
qed

lemma signals_ok_same:
  "global_ban_reporters d' = global_ban_reporters d \<Longrightarrow> global_ban_signals d' = global_ban_signals d \<Longrightarrow> signals_ok d' = signals_ok d"
  by (simp add: signals_ok_def reporters_of_def)

lemma counted_same:
  "organizations d' = organizations d \<Longrightarrow> global_ban_reporters d' = global_ban_reporters d \<Longrightarrow>
   global_ban_signals d' = global_ban_signals d \<Longrightarrow> counted d d'"
  using signals_ok_same [of d' d] by (simp add: counted_def)

interpretation count_db: db_relation counted
proof
  show "counted d g" if "counted d e" "counted e g" for d e g
  proof -
    have "sharing e = sharing d" using that(1) by (simp add: counted_def sharing_def)
    with that have "snd ` set (global_ban_reporters g) \<subseteq> snd ` set (global_ban_reporters d) \<union> sharing d"
      unfolding counted_def by blast
    with that show ?thesis by (simp add: counted_def)
  qed
  show "counted d (append_audit a d)" "counted d (d\<lparr>sessions := ss\<rparr>)" "counted d d" for d a ss by (rule counted_same; simp)+
qed

lemma report_counts:
  assumes run: "report_tx h org now d = (Inr u, d')" and ok: "signals_ok d"
  shows "signals_ok d'"
proof -
  let ?fresh = "(h, org) \<notin> set (global_ban_reporters d)"
  let ?P = "\<lambda>s. gs_identifier_hash s = h"
  let ?f = "\<lambda>s. s\<lparr>gs_report_count := gs_report_count s + 1, gs_org_count := gs_org_count s + (if ?fresh then 1 else 0), gs_last_reported_at := now\<rparr>"
  have reps: "global_ban_reporters d' = global_ban_reporters d @ (if ?fresh then [(h, org)] else [])"
    and sigs: "global_ban_signals d' = (if exists_row ?P (global_ban_signals d) then sql_update ?P ?f (global_ban_signals d)
      else global_ban_signals d @ [\<lparr>gs_identifier_hash = h, gs_org_count = 1, gs_report_count = 1, gs_last_reported_at = now\<rparr>])"
    using run by (auto simp: report_tx_def Let_def split: if_splits)
  have rep: "reporters_of k d' = (if k = h then insert org (reporters_of h d) else reporters_of k d)" for k
    by (auto simp: reporters_of_def reps)
  have card: "int (card (reporters_of h d')) = int (card (reporters_of h d)) + (if ?fresh then 1 else 0)"
    by (auto simp: rep card_insert_if) (simp_all add: reporters_of_def)
  show ?thesis
  proof (cases "exists_row ?P (global_ban_signals d)")
    case True
    have keys: "map gs_identifier_hash (global_ban_signals d') = map gs_identifier_hash (global_ban_signals d)"
      by (simp add: sigs True map_key_sql_update)
    have each: "\<forall>s \<in> set (global_ban_signals d'). gs_org_count s = int (card (reporters_of (gs_identifier_hash s) d')) \<and>
        gs_org_count s \<le> gs_report_count s"
    proof
      fix s
      assume s: "s \<in> set (global_ban_signals d')"
      obtain s0 where s0: "s0 \<in> set (global_ban_signals d)" "s = (if ?P s0 then ?f s0 else s0)"
        using s True unfolding sigs by (auto simp: in_sql_update)
      with ok have "gs_org_count s0 = int (card (reporters_of (gs_identifier_hash s0) d))" "gs_org_count s0 \<le> gs_report_count s0"
        by (auto simp: signals_ok_def)
      with s0(2) card show "gs_org_count s = int (card (reporters_of (gs_identifier_hash s) d')) \<and> gs_org_count s \<le> gs_report_count s"
        by (cases "?P s0") (auto simp: rep)
    qed
    have "gs_identifier_hash ` set (global_ban_signals d') = gs_identifier_hash ` set (global_ban_signals d)"
      by (metis keys list.set_map)
    moreover have "h \<in> gs_identifier_hash ` set (global_ban_signals d)" using True by (auto simp: exists_row_iff)
    ultimately have "fst ` set (global_ban_reporters d') \<subseteq> gs_identifier_hash ` set (global_ban_signals d')"
      using ok by (auto simp: signals_ok_def reps)
    with each ok show ?thesis unfolding signals_ok_def keys by blast
  next
    case False
    then have h: "h \<notin> gs_identifier_hash ` set (global_ban_signals d)" by (auto simp: exists_row_iff)
    with ok have none: "reporters_of h d = {}" by (force simp: signals_ok_def reporters_of_def)
    have "gs_org_count s = int (card (reporters_of (gs_identifier_hash s) d')) \<and> gs_org_count s \<le> gs_report_count s"
      if s: "s \<in> set (global_ban_signals d)" for s
      using ok s h by (auto simp: signals_ok_def rep)
    with ok h none show ?thesis by (auto simp: signals_ok_def sigs False rep reps split: if_splits)
  qed
qed

lemma counted_txs:
  "tx_keeps counted (create_ban_tx r)" "tx_keeps counted (lift_tx org uid i reason now)"
  "tx_keeps counted (confirm_tx org uid i fid now)" "tx_keeps counted (kick_tx org uid i fid now)"
  "tx_keeps counted (false_positive_tx org uid i fid now)" "tx_keeps counted (submit_appeal_tx i ip p now)"
  "tx_keeps counted (resolve_appeal_tx org uid i approve now)"
  "counted d (snd (insert_alert org sid now i al d))" "counted d (snd (sanction_step org sid now i al d))"
proof -
  have fb: "reviewFeedback org uid fid b v now d = (Inr u, d') \<Longrightarrow> counted d d'" for b v d u d'
    by (auto simp: reviewFeedback_def intro!: counted_same split: option.splits if_splits)
  have put: "put_bans rows d = (Inr u, d') \<Longrightarrow> counted d d'" for rows d u d'
    by (auto dest!: put_bans_Inr intro!: counted_same)
  have dec: "and_then (put_bans rows) (\<lambda>_. and_then (reviewFeedback org uid fid b v now) (\<lambda>_. give True)) d = (Inr y, d') \<Longrightarrow>
      counted d d'" for rows b v d y d'
    by (auto simp: give_def elim!: and_then_Inr dest!: fb put intro: count_db.S_trans)
  have lift: "counted d (snd (lift_tx org uid i reason now d))" for i reason d
    by (auto simp: lift_tx_def Let_def intro!: counted_same)
  show "tx_keeps counted (create_ban_tx r)"
    by (auto simp: tx_keeps_def create_ban_tx_def insert_ban_def intro!: counted_same split: option.splits prod.splits sum.splits if_splits)
  show "tx_keeps counted (lift_tx org uid i reason now)" unfolding tx_keeps_def using lift by (metis snd_conv)
  show "tx_keeps counted (submit_appeal_tx i ip p now)"
    by (auto simp: tx_keeps_def submit_appeal_tx_def intro!: counted_same split: list.splits if_splits)
  show "tx_keeps counted (kick_tx org uid i fid now)" "tx_keeps counted (false_positive_tx org uid i fid now)"
    by (auto simp: tx_keeps_def kick_tx_def false_positive_tx_def count_db.S_refl split: option.splits dest: dec)
  show "tx_keeps counted (confirm_tx org uid i fid now)"
    by (auto simp: tx_keeps_def confirm_tx_def count_db.S_refl split: option.splits elim!: and_then_Inr [of "put_bans rows" for rows]
        dest!: fb put intro: count_db.S_trans simp: give_def elim!: and_then_Inr)
  show "tx_keeps counted (resolve_appeal_tx org uid i approve now)"
  proof (rule tx_keepsI)
    fix d y d'
    assume run: "resolve_appeal_tx org uid i approve now d = (Inr y, d')"
    have "counted d (d\<lparr>ban_appeals := as\<rparr>)" for as by (rule counted_same) simp_all
    then have "counted d (snd (lift_tx org uid b r now (d\<lparr>ban_appeals := as\<rparr>)))" for b r as
      using lift by (metis count_db.S_trans)
    with run \<open>\<And>as. counted d (d\<lparr>ban_appeals := as\<rparr>)\<close> show "counted d d'"
      by (auto simp: resolve_appeal_tx_def Let_def count_db.S_refl split: option.splits if_splits)
  qed
  show "counted d (snd (insert_alert org sid now i al d))" "counted d (snd (sanction_step org sid now i al d))"
    using insert_alert_cases [of org sid now i al d] sanction_step_cases [of org sid now i al d] by (auto intro!: counted_same)
qed

lemma contribute_counted: "db_keeps counted (contributeSharedBan v x n org ident)"
  unfolding db_keeps_def
proof (rule keeps_relI)
  fix w :: world
  define Q where "Q = (\<lambda>w' :: world. counted (wd_db w) (wd_db w'))"
  have "wp (contributeSharedBan v x n org ident) (\<lambda>_. Q) Q w"
    unfolding contributeSharedBan_def orgSharesBans_def wp
  proof (rule wp_plain)
    show "Q w" by (simp add: Q_def count_db.S_refl)
    fix shares d'
    assume "(Inr (map_option og_share_bans (first_row (\<lambda>r. og_id r = org) (organizations (wd_db w))) = Some True), wd_db w) = (Inr shares, d')"
    then have d': "d' = wd_db w" and sh: "shares \<Longrightarrow> org \<in> sharing (wd_db w)"
      by (auto simp: sharing_def dest!: first_row_SomeD)
    have "counted (wd_db w) d2" if t: "report_tx h org now (wd_db w) = (Inr u, d2)" and "shares" for h now u d2
    proof -
      have "organizations d2 = organizations (wd_db w)"
        "snd ` set (global_ban_reporters d2) \<subseteq> insert org (snd ` set (global_ban_reporters (wd_db w)))"
        using t by (auto simp: report_tx_def Let_def split: if_splits)
      with sh [OF that(2)] report_counts [OF t] show ?thesis by (auto simp: counted_def)
    qed
    then show "if \<not> shares then Q (w\<lparr>wd_db := d'\<rparr>)
        else wp (by_hand_step x (n + 1) (report_tx (banHash v ident) org (px_now x (n + 1)))) (\<lambda>_. Q) Q (w\<lparr>wd_db := d'\<rparr>)"
      by (auto simp: wp d' Q_def count_db.S_refl intro!: wp_by_hand)
  qed
  then show "counted (wd_db w) (wd_db (snd (contributeSharedBan v x n org ident w)))"
    by (auto simp: wp_def Q_def split: prod.splits sum.splits)
qed

interpretation count_history: ban_relation counted
  by unfold_locales (rule counted_txs contribute_counted)+

text \<open>Whatever happens to the bans, the number of organizations the network gives for an identifier is the
  number of organizations that banned it while they shared, each counted once, and an organization
  that does not share never appears in it.\<close>

theorem network_counts_organizations:
  assumes "ban_route\<^sup>*\<^sup>* w w'" and "signals_ok (wd_db w)"
  shows "signals_ok (wd_db w') \<and> snd ` set (global_ban_reporters (wd_db w')) \<subseteq> snd ` set (global_ban_reporters (wd_db w)) \<union> sharing (wd_db w)"
  using count_history.ban_routes_keep [OF assms(1)] assms(2) by (simp add: counted_def)

end
