(* ===== verification/Ban_Witnesses.thy ===== *)
theory Ban_Witnesses
  imports Api_Witnesses Ban_Facts Appeal_Facts
begin

text \<open>
  Applications of the properties of bans and appeals: in the organization of the samples, a ban waits for
  review beside one in force on the same identifier, whose player appeals.
\<close>

definition sample_ban :: "string \<Rightarrow> ban_status \<Rightarrow> ban_row" where
  "sample_ban i st =
     \<lparr>bn_id = i, bn_organization_id = sample_org, bn_server_id = None, bn_scope = Scope_license, bn_identifier = ''license:1'',
      bn_player_name = None, bn_reason = ''aim'', bn_status = st, bn_issued_by = None, bn_issued_by_auto = True,
      bn_detection_id = None, bn_detector = Some ''aim'', bn_risk = Some 80, bn_category = None, bn_evidence_kind = None,
      bn_lifted_by = None, bn_lifted_reason = None, bn_lifted_at = None, bn_reviewed_by = None, bn_reviewed_at = None,
      bn_expires_at = None, bn_created_at = 1000\<rparr>"

definition sample_appeal :: appeal_row where
  "sample_appeal = \<lparr>ap_id = ''app_1'', ap_organization_id = sample_org, ap_ban_id = Some ''ban_1'', ap_identifier = ''license:1'',
     ap_contact = None, ap_message = ''not me'', ap_status = Ap_pending, ap_ip = ''10.0.0.9'', ap_created_at = 1500,
     ap_resolved_by = None, ap_resolved_at = None\<rparr>"

definition ban_world :: world where
  "ban_world = \<lparr>wd_db = api_db\<lparr>bans := [sample_ban ''ban_1'' Ban_active, sample_ban ''ban_2'' Ban_pending], ban_appeals := [sample_appeal]\<rparr>,
     wd_events = []\<rparr>"

definition review_env :: api_env where "review_env = sample_env (\<lambda>n. ''fb_1'')"

definition dismissal :: "api_reply \<times> world" where
  "dismissal = dismissBan sample_deps review_env (sample_call ''ban_2'' JNull) ban_world"

theorem bans_follow_life_witness:
  "ar_status (fst dismissal) = 200 \<and> (\<exists>b \<in> set (bans (wd_db (snd dismissal))). bn_id b = ''ban_2'' \<and> ban_life\<^sup>*\<^sup>* Ban_pending (bn_status b))"
proof -
  have "ban_route ban_world (snd dismissal)" unfolding dismissal_def by (rule ban_route.Dismissed)
  then have r: "ban_route\<^sup>*\<^sup>* ban_world (snd dismissal)" by blast
  have "sample_ban ''ban_2'' Ban_pending \<in> set (bans (wd_db ban_world))" by (simp add: ban_world_def)
  from bans_follow_life [OF r this] have "\<exists>b \<in> set (bans (wd_db (snd dismissal))). bn_id b = ''ban_2'' \<and> ban_life\<^sup>*\<^sup>* Ban_pending (bn_status b)"
    by (simp add: sample_ban_def) blast
  moreover have "ar_status (fst dismissal) = 200" by code_simp
  ultimately show ?thesis by blast
qed

theorem confirmed_ban_is_the_one_in_force_witness:
  "\<exists>r w'. confirmBan sample_deps review_env (sample_call ''ban_2'' JNull) ban_world = (r, w') \<and> ar_status r = 200 \<and>
     bans_unique (bans (wd_db w'))"
proof -
  let ?g = "writes sample_deps review_env (sample_call ''ban_2'' JNull) Ban_manage ban_world"
  have "(case fst ?g of Inl _ \<Rightarrow> False | Inr a \<Rightarrow> ra_organizationId a = sample_org \<and> length (aw_email (ra_user a)) \<le> 200)" by code_simp
  then obtain a w1 where g: "?g = (Inr a, w1)" "ra_organizationId a = sample_org" "length (aw_email (ra_user a)) \<le> 200"
    by (auto split: sum.splits) (metis prod.collapse)
  have rev: "reviewable (ra_organizationId a) (sample_ban ''ban_2'' Ban_pending) (wd_db ban_world)"
    using g(2) by (simp add: reviewable_def ban_world_def sample_ban_def unless_given_def)
  have u: "bans_unique (bans (wd_db ban_world))" by code_simp
  have f: "px_ids review_env 0 \<notin> fb_id ` set (detection_feedback (wd_db ban_world))" by code_simp
  have faults: "px_faults review_env 0 = no_faults" "px_faults review_env 1 = no_faults" by (simp_all add: review_env_def sample_env_def)
  have org: "org_id_ok (ra_organizationId a)" using g(2) sample_org_ok by simp
  have b: "pq_id (sample_call ''ban_2'' JNull) = bn_id (sample_ban ''ban_2'' Ban_pending)" "length (bn_id (sample_ban ''ban_2'' Ban_pending)) \<le> 64"
    by (simp_all add: sample_call_def sample_ban_def)
  from confirmed_ban_is_the_one_in_force [OF g(1) org faults rev b(1) u f g(3) b(2)] show ?thesis by blast
qed

definition appeal_approval :: "api_reply \<times> world" where
  "appeal_approval = resolveAppeal sample_deps review_env (sample_call ''app_1'' (JObj [(''decision'', JStr ''approve'')])) ban_world"


end
