(* ===== verification/Api_Commands.thy ===== *)
theory Api_Commands
  imports Api_Servers Api_Incidents Agent_Config Commands
begin

text \<open>
  \<open>apps/api/src/api/routes.ts\<close>: commands for the agents, observation of a player, live view and heat map,
  captures of the game. What Redis answers to a read is an argument: the snapshot of a key, the fields
  of a hash in the order it gives them; \<open>None\<close> when the read throws or finds nothing.
\<close>

section \<open>Commands\<close>

definition live_server_exists :: "string \<Rightarrow> string \<Rightarrow> db \<Rightarrow> bool" where
  "live_server_exists org sid d = exists_row (live_server org sid) (servers d)"

definition new_command :: "string \<Rightarrow> string \<Rightarrow> string \<Rightarrow> string \<Rightarrow> string \<Rightarrow> json \<Rightarrow> int \<Rightarrow> time_ms \<Rightarrow> command_row" where
  "new_command org uid sid i ty payload ttl now =
     \<lparr>cm_id = i, cm_organization_id = org, cm_server_id = sid, cm_type = ty, cm_payload = payload, cm_status = Cmd_pending,
      cm_result = None, cm_result_detail = None, cm_reason = None, cm_issued_by = Some uid, cm_sent_at = None,
      cm_delivery_count = 0, cm_acknowledged_at = None, cm_executed_at = None, cm_duration_ms = None,
      cm_expires_at = now + ttl * 1000, cm_created_at = now\<rparr>"

definition insert_command :: "command_row \<Rightarrow> db \<Rightarrow> unit result \<times> db" where
  "insert_command c d =
     (if exists_row (\<lambda>o'. cm_id o' = cm_id c) (agent_commands d) then (Inl Unique_violation, d)
      else if \<not> server_exists (cm_organization_id c) (cm_server_id c) d then (Inl Foreign_key_violation, d)
      else (Inr (), d\<lparr>agent_commands := agent_commands d @ [c]\<rparr>))"

(* src api/routes.ts:1555-1572 commands/post/transaction *)
definition queue_command :: "command_row \<Rightarrow> db \<Rightarrow> bool result \<times> db" where
  "queue_command c d =
     (if \<not> live_server_exists (cm_organization_id c) (cm_server_id c) d then (Inr False, d)
      else and_then (insert_command c) (\<lambda>_. give True) d)"

definition pending_command :: "string \<Rightarrow> string \<Rightarrow> json" where
  "pending_command i ty = JObj [(''id'', JStr i), (''type'', JStr ty), (''status'', JStr ''PENDING'')]"

(* src api/routes.ts:1543-1589 commands/post *)
definition issueCommand :: "api_deps \<Rightarrow> api_env \<Rightarrow> api_request \<Rightarrow> world \<Rightarrow> api_reply \<times> world" where
  "issueCommand v x q w =
     handle_with (writes v x q Command_issue w) (\<lambda>a.
       case issueCommandSchema (pq_body q) of
         None \<Rightarrow> give invalid
       | Some p \<Rightarrow>
           (let org = ra_organizationId a; i = px_ids x 0 in
            and_then (tenant_step x 0 org (queue_command (new_command org (aw_userId (ra_user a)) (pq_id q) i (ic_type p)
                (coalesce_default (ic_payload p) (JObj [])) (ic_ttl_seconds p) (px_now x 0)))) (\<lambda>queued.
              if \<not> queued then give not_found
              else and_then (audit x 1 a ''command.issued'' (pq_id q)) (\<lambda>_.
                give (reply 202 [(''command'', pending_command i (ic_type p))])))))"

definition command_status_name :: "command_status \<Rightarrow> string" where
  "command_status_name s = (case s of Cmd_pending \<Rightarrow> ''PENDING'' | Cmd_sent \<Rightarrow> ''SENT'' | Cmd_acknowledged \<Rightarrow> ''ACKNOWLEDGED''
     | Cmd_failed \<Rightarrow> ''FAILED'' | Cmd_expired \<Rightarrow> ''EXPIRED'')"

definition command_view :: "command_row \<Rightarrow> json" where
  "command_view c = JObj
     [(''id'', JStr (cm_id c)), (''type'', JStr (cm_type c)), (''status'', JStr (command_status_name (cm_status c))),
      (''result'', j_opt (\<lambda>r. JStr (command_result_name r)) (cm_result c)), (''reason'', j_opt JStr (cm_reason c)),
      (''created_at'', JInt (cm_created_at c)), (''sent_at'', j_opt JInt (cm_sent_at c)),
      (''acknowledged_at'', j_opt JInt (cm_acknowledged_at c)), (''executed_at'', j_opt JInt (cm_executed_at c)),
      (''duration_ms'', j_opt JInt (cm_duration_ms c)), (''delivery_count'', JInt (cm_delivery_count c)),
      (''expires_at'', JInt (cm_expires_at c))]"

(* src api/routes.ts:1591-1606 commands/get *)
definition listCommands :: "api_deps \<Rightarrow> api_env \<Rightarrow> api_request \<Rightarrow> world \<Rightarrow> api_reply \<times> world" where
  "listCommands v x q w =
     handle_with (reads v x q Server_read w) (\<lambda>a.
       tenant_step x 0 (ra_organizationId a) (\<lambda>d.
         (Inr (reply 200 [(''commands'', JArr (map command_view (take 50 (rev (sort_key cm_created_at
            (filter (\<lambda>c. cm_organization_id c = ra_organizationId a \<and> cm_server_id c = pq_id q) (agent_commands d)))))))]), d)))"

(* src api/routes.ts:1612-1614 spectateSchema *)
definition spectateSchema :: "json \<Rightarrow> (string \<times> bool) option" where
  "spectateSchema j = do {
     fs \<leftarrow> z_object [''identifier'', ''stop''] j;
     ident \<leftarrow> z_field ''identifier'' (z_string 1 128) fs;
     stop \<leftarrow> z_optional ''stop'' z_bool fs;
     Some (ident, stop = Some True)
   }"

(* src api/routes.ts:1616-1653 spectate/post *)
definition spectate :: "api_deps \<Rightarrow> api_env \<Rightarrow> api_request \<Rightarrow> world \<Rightarrow> api_reply \<times> world" where
  "spectate v x q w =
     handle_with (writes v x q Command_issue w) (\<lambda>a.
       case spectateSchema (pq_body q) of
         None \<Rightarrow> give invalid
       | Some (ident, stop) \<Rightarrow>
           (let org = ra_organizationId a; uid = aw_userId (ra_user a); i = px_ids x 0;
                ty = (if stop then ''spectate_stop'' else ''spectate_request'') in
            and_then (tenant_step x 0 org (queue_command (new_command org uid (pq_id q) i ty
                (JObj [(''target'', JStr ident), (''admin'', JStr uid)]) 300 (px_now x 0)))) (\<lambda>queued.
              if \<not> queued then give not_found
              else and_then (audit x 1 a ''spectate.requested'' (pq_id q)) (\<lambda>_.
                give (reply 202 [(''command'', pending_command i ty)])))))"

section \<open>Live view and heat map\<close>

record live_snapshot =
  sn_at :: time_ms
  sn_sampled_at :: json
  sn_players :: json

(* src api/routes.ts:1660-1683 live/get *)
definition getLive :: "api_deps \<Rightarrow> api_env \<Rightarrow> (string \<Rightarrow> live_snapshot option) \<Rightarrow> api_request \<Rightarrow> world \<Rightarrow> api_reply \<times> world" where
  "getLive v x snapshots q w =
     handle_with (reads v x q Server_read w) (\<lambda>a.
       and_then (tenant_step x 0 (ra_organizationId a) (\<lambda>d. (Inr (live_server_exists (ra_organizationId a) (pq_id q) d), d))) (\<lambda>there.
         if \<not> there then give not_found
         else (case snapshots (liveKey (ra_organizationId a) (pq_id q)) of
             None \<Rightarrow> give (reply 200 [(''live'', JBool False)])
           | Some s \<Rightarrow> give (reply 200 [(''live'', JBool True), (''age_ms'', JInt (max 0 (px_js x 0 - sn_at s))),
               (''sampled_at'', sn_sampled_at s), (''players'', sn_players s)]))))"

fun add_total :: "string \<Rightarrow> int \<Rightarrow> (string \<times> int) list \<Rightarrow> (string \<times> int) list" where
  "add_total k n [] = [(k, n)]"
| "add_total k n ((k', m) # cs) = (if k = k' then (k', m + n) # cs else (k', m) # add_total k n cs)"

text \<open>The last half hour, the newest minute first.\<close>

(* src api/routes.ts:1707-1716 heatmap/totals *)
definition heat_totals :: "(string \<Rightarrow> (string \<times> int) list option) \<Rightarrow> string \<Rightarrow> string \<Rightarrow> int \<Rightarrow> (string \<times> int) list" where
  "heat_totals hashes org sid bucket =
     fold (\<lambda>i acc. fold (\<lambda>(f, n). add_total f n) (coalesce_default (hashes (heatmapKey org sid (bucket - i))) []) acc)
       [0..heatmap_retention_buckets - 1] []"

definition cell_json :: "js_lib \<Rightarrow> string \<times> int \<Rightarrow> json" where
  "cell_json js c =
     (let part = (\<lambda>n. j_opt JInt (Option.bind (if n < length (split_on (CHR '':'') (fst c)) then Some (split_on (CHR '':'') (fst c) ! n) else None)
            (js_integer (number_other js)))) in
      JObj [(''gx'', part 0), (''gy'', part 1), (''count'', JInt (snd c))])"

definition heatmap_on :: "string \<Rightarrow> db \<Rightarrow> bool" where
  "heatmap_on org d = (map_option og_heatmap_enabled (first_row (\<lambda>o'. og_id o' = org) (organizations d)) = Some True)"

(* src api/routes.ts:1689-1728 heatmap/get *)
definition getHeatmap :: "api_deps \<Rightarrow> api_env \<Rightarrow> (string \<Rightarrow> (string \<times> int) list option) \<Rightarrow> api_request \<Rightarrow> world \<Rightarrow> api_reply \<times> world" where
  "getHeatmap v x hashes q w =
     handle_with (reads v x q Server_read w) (\<lambda>a.
       and_then (tenant_step x 0 (ra_organizationId a) (\<lambda>d. (Inr (live_server_exists (ra_organizationId a) (pq_id q) d), d))) (\<lambda>there.
         if \<not> there then give not_found
         else and_then (plain_step x 1 (\<lambda>d. (Inr (heatmap_on (ra_organizationId a) d), d))) (\<lambda>on.
           if \<not> on then give (reply 200 [(''enabled'', JBool False), (''cells'', JArr [])])
           else give (reply 200 [(''enabled'', JBool True), (''cell_size'', JNum heatmap_cell_size),
             (''window_seconds'', JInt (heatmap_bucket_seconds * heatmap_retention_buckets)),
             (''cells'', JArr (map (cell_json (pd_js v))
                (heat_totals hashes (ra_organizationId a) (pq_id q) (heatmapBucket (px_js x 0)))))]))))"

definition enabled_body :: "json \<Rightarrow> bool option" where
  "enabled_body j = do { fs \<leftarrow> z_object [''enabled''] j; z_field ''enabled'' z_bool fs }"

(* src api/routes.ts:1731-1740 heatmap-optin/post *)
definition optInHeatmap :: "api_deps \<Rightarrow> api_env \<Rightarrow> api_request \<Rightarrow> world \<Rightarrow> api_reply \<times> world" where
  "optInHeatmap v x q w =
     handle_with (writes v x q Server_write w) (\<lambda>a.
       case enabled_body (body_or_empty q) of
         None \<Rightarrow> give invalid
       | Some b \<Rightarrow>
           and_then (plain_step x 0 (\<lambda>d. (Inr (), d\<lparr>organizations := sql_update (\<lambda>r. og_id r = ra_organizationId a)
               (\<lambda>r. r\<lparr>og_heatmap_enabled := b\<rparr>) (organizations d)\<rparr>))) (\<lambda>_.
           and_then (audit x 1 a ''heatmap.optin'' (ra_organizationId a)) (\<lambda>_.
           give (reply 200 [(''status'', JStr ''ok''), (''enabled'', JBool b)]))))"

section \<open>Captures\<close>

record capture_input =
  ci_slot :: int
  ci_identifier :: "string option"
  ci_name :: "string option"

(* src api/routes.ts:1745-1751 captureSchema *)
definition captureSchema :: "json \<Rightarrow> capture_input option" where
  "captureSchema j = do {
     fs \<leftarrow> z_object [''slot'', ''identifier'', ''name''] j;
     slot \<leftarrow> z_field ''slot'' (z_int 0 65535) fs;
     ident \<leftarrow> z_optional ''identifier'' (z_string 0 128) fs;
     name \<leftarrow> z_optional ''name'' (z_string 0 64) fs;
     Some \<lparr>ci_slot = slot, ci_identifier = ident, ci_name = name\<rparr>
   }"

(* src api/routes.ts:1788-1797 capture/post/insert *)
definition new_capture :: "string \<Rightarrow> string \<Rightarrow> string \<Rightarrow> string \<Rightarrow> string \<Rightarrow> bytes \<Rightarrow> capture_input \<Rightarrow> time_ms \<Rightarrow> capture_row" where
  "new_capture org uid sid i cmd hash p now =
     \<lparr>cp_id = i, cp_organization_id = org, cp_server_id = sid, cp_target_slot = Some (ci_slot p),
      cp_target_identifier = ci_identifier p, cp_target_name = ci_name p, cp_requested_by = Some uid, cp_command_id = Some cmd,
      cp_token_hash = hash, cp_status = Cap_pending, cp_mime = None, cp_bytes = None, cp_image = None, cp_created_at = now,
      cp_expires_at = now + 300000, cp_received_at = None\<rparr>"

(* src api/routes.ts:1772-1776 capture/post/recent *)
definition recent_captures :: "string \<Rightarrow> string \<Rightarrow> time_ms \<Rightarrow> db \<Rightarrow> nat" where
  "recent_captures org uid now d =
     row_count (\<lambda>c. cp_organization_id c = org \<and> cp_requested_by c = Some uid \<and> now - 60000 < cp_created_at c) (captures d)"

definition thirty_days :: int where "thirty_days = 30 * 86400000"

text \<open>All but the newest 300, and what is older than thirty days.\<close>

(* src api/routes.ts:1779-1786 capture/post/retention *)
definition retain_captures :: "string \<Rightarrow> time_ms \<Rightarrow> capture_row list \<Rightarrow> capture_row list" where
  "retain_captures org now rows =
     (let surplus = map cp_id (drop 300 (rev (sort_key cp_created_at (inside cp_organization_id org rows)))) in
      sql_delete (\<lambda>c. cp_organization_id c = org \<and> (cp_created_at c < now - thirty_days \<or> cp_id c \<in> set surplus)) rows)"

definition insert_capture :: "capture_row \<Rightarrow> db \<Rightarrow> unit result \<times> db" where
  "insert_capture r d =
     (if exists_row (\<lambda>c. cp_organization_id c = cp_organization_id r \<and> cp_id c = cp_id r) (captures d) then (Inl Unique_violation, d)
      else if \<not> server_exists (cp_organization_id r) (cp_server_id r) d then (Inl Foreign_key_violation, d)
      else (Inr (), d\<lparr>captures := captures d @ [r]\<rparr>))"

datatype capture_outcome = Capture_not_found | Capture_limited | Capture_ok

(* src api/routes.ts:1764-1807 capture/post/transaction *)
definition request_capture_tx :: "capture_row \<Rightarrow> command_row \<Rightarrow> time_ms \<Rightarrow> db \<Rightarrow> capture_outcome result \<times> db" where
  "request_capture_tx r c now d =
     (let org = cp_organization_id r in
      if \<not> live_server_exists org (cp_server_id r) d then (Inr Capture_not_found, d)
      else if 6 \<le> recent_captures org (coalesce_default (cp_requested_by r) []) now d then (Inr Capture_limited, d)
      else and_then (insert_capture r) (\<lambda>_. and_then (insert_command c) (\<lambda>_. give Capture_ok))
        (d\<lparr>captures := retain_captures org now (captures d)\<rparr>))"

definition capture_command :: "string \<Rightarrow> string \<Rightarrow> string \<Rightarrow> string \<Rightarrow> string \<Rightarrow> string \<Rightarrow> int \<Rightarrow> time_ms \<Rightarrow> command_row" where
  "capture_command org uid sid i cap token slot now =
     new_command org uid sid i ''capture_request''
       (JObj [(''target'', JStr (string_of_int slot)), (''capture_id'', JStr cap), (''token'', JStr token), (''admin'', JStr uid)]) 300 now"

(* src api/routes.ts:1753-1818 capture/post *)
definition requestCapture :: "api_deps \<Rightarrow> api_env \<Rightarrow> api_request \<Rightarrow> world \<Rightarrow> api_reply \<times> world" where
  "requestCapture v x q w =
     handle_with (writes v x q Command_issue w) (\<lambda>a.
       case captureSchema (pq_body q) of
         None \<Rightarrow> give invalid
       | Some p \<Rightarrow>
           (let org = ra_organizationId a; uid = aw_userId (ra_user a); sid = pq_id q; cap = px_ids x 0; cmd = px_ids x 1;
                token = newOpaqueToken (px_random32 x); now = px_now x 0 in
            and_then (tenant_step x 0 org (request_capture_tx
                (new_capture org uid sid cap cmd (hashToken (pd_crypto v) token) p now)
                (capture_command org uid sid cmd cap token (ci_slot p) now) now)) (\<lambda>oc.
              case oc of
                Capture_not_found \<Rightarrow> give not_found
              | Capture_limited \<Rightarrow> give (fault_reply 429 ''rate_limited'')
              | Capture_ok \<Rightarrow>
                  and_then (audit x 1 a ''capture.requested'' sid) (\<lambda>_.
                  give (reply 202 [(''capture'', JObj [(''id'', JStr cap), (''status'', JStr ''PENDING'')]),
                                   (''command'', JObj [(''id'', JStr cmd)])])))))"

definition shown_status :: "time_ms \<Rightarrow> capture_row \<Rightarrow> string" where
  "shown_status now c =
     (case cp_status c of Cap_pending \<Rightarrow> if cp_expires_at c \<le> now then ''EXPIRED'' else ''PENDING''
      | Cap_received \<Rightarrow> ''RECEIVED'' | Cap_expired \<Rightarrow> ''EXPIRED'')"

definition capture_view :: "time_ms \<Rightarrow> db \<Rightarrow> capture_row \<Rightarrow> json" where
  "capture_view now d c = JObj
     [(''id'', JStr (cp_id c)), (''status'', JStr (shown_status now c)), (''target_slot'', j_opt JInt (cp_target_slot c)),
      (''target_identifier'', j_opt JStr (cp_target_identifier c)), (''target_name'', j_opt JStr (cp_target_name c)),
      (''bytes'', j_opt JInt (cp_bytes c)), (''mime'', j_opt JStr (cp_mime c)), (''created_at'', JInt (cp_created_at c)),
      (''received_at'', j_opt JInt (cp_received_at c)),
      (''requested_by_name'', j_opt JStr (map_option u_display_name (first_row (\<lambda>u. Some (u_id u) = cp_requested_by c) (users d))))]"

text \<open>\<open>Math.min(Math.max(Number(q.limit ?? 30) || 30, 1), 100)\<close> on the texts \<open>Number\<close> reads as an integer.\<close>

(* src api/routes.ts:1824-1826 captures/get/limit *)
definition captures_limit :: "js_lib \<Rightarrow> (string \<times> string) list \<Rightarrow> int" where
  "captures_limit js qs =
     (let n = (case map_of qs ''limit'' of None \<Rightarrow> 30 | Some s \<Rightarrow> coalesce_default (js_integer (number_other js) s) 30) in
      min (max (if n = 0 then 30 else n) 1) 100)"

(* src api/routes.ts:1821-1842 captures/get *)
definition listCaptures :: "api_deps \<Rightarrow> api_env \<Rightarrow> api_request \<Rightarrow> world \<Rightarrow> api_reply \<times> world" where
  "listCaptures v x q w =
     handle_with (reads v x q Detection_read w) (\<lambda>a.
       let limit = captures_limit (pd_js v) (pq_query q);
           ident = (case map_of (pq_query q) ''identifier'' of Some s \<Rightarrow> if length s \<le> 128 then Some s else None | None \<Rightarrow> None) in
       tenant_step x 0 (ra_organizationId a) (\<lambda>d.
         (Inr (reply 200 [(''captures'', JArr (map (capture_view (px_now x 0) d) (take (nat limit) (rev (sort_key cp_created_at
            (filter (\<lambda>c. cp_organization_id c = ra_organizationId a \<and> cp_server_id c = pq_id q \<and>
               unless_given ident (\<lambda>s. cp_target_identifier c = Some s)) (captures d)))))))]), d)))"

(* src evidence/upload.ts:21-21 CAP_RE *)
definition capture_id_ok :: "string \<Rightarrow> bool" where
  "capture_id_ok s = matches_prefixed ''cap_'' lower_alnum 26 s"

text \<open>An image is sent as it is stored, with its type.\<close>

datatype image_reply = Image_reply string bytes | Json_reply api_reply

definition stored_image :: "string \<Rightarrow> string \<Rightarrow> db \<Rightarrow> (string \<times> bytes) option" where
  "stored_image org i d =
     map_option (\<lambda>c. (coalesce_default (cp_mime c) [], coalesce_default (cp_image c) []))
       (first_row (\<lambda>c. cp_organization_id c = org \<and> cp_id c = i \<and> cp_status c = Cap_received) (captures d))"

(* src api/routes.ts:1844-1864 image/get *)
definition captureImage :: "api_deps \<Rightarrow> api_env \<Rightarrow> api_request \<Rightarrow> world \<Rightarrow> image_reply \<times> world" where
  "captureImage v x q w =
     (case reads v x q Detection_read w of
        (Inl e, w1) \<Rightarrow> (Json_reply (refused e), w1)
      | (Inr a, w1) \<Rightarrow>
          if \<not> capture_id_ok (pq_id q) then (Json_reply not_found, w1)
          else (case tenant_step x 0 (ra_organizationId a) (\<lambda>d. (Inr (stored_image (ra_organizationId a) (pq_id q) d), d)) w1 of
              (Inl e, w2) \<Rightarrow> (Json_reply (refused (Other_access e)), w2)
            | (Inr None, w2) \<Rightarrow> (Json_reply not_found, w2)
            | (Inr (Some (mime, img)), w2) \<Rightarrow> (Image_reply mime img, w2)))"

(* src api/routes.ts:1866-1883 captures/delete *)
definition deleteCapture :: "api_deps \<Rightarrow> api_env \<Rightarrow> api_request \<Rightarrow> world \<Rightarrow> api_reply \<times> world" where
  "deleteCapture v x q w =
     handle_with (writes v x q Command_issue w) (\<lambda>a.
       if \<not> capture_id_ok (pq_id q) then give not_found
       else and_then (tenant_step x 0 (ra_organizationId a) (\<lambda>d.
           (let P = (\<lambda>c. cp_organization_id c = ra_organizationId a \<and> cp_id c = pq_id q) in
            (Inr (exists_row P (captures d)), d\<lparr>captures := sql_delete P (captures d)\<rparr>)))) (\<lambda>removed.
         if \<not> removed then give not_found
         else and_then (audit x 1 a ''capture.deleted'' (pq_id q)) (\<lambda>_. give (reply 204 []))))"

end
