(* ===== verification/Upload.thy ===== *)
theory Upload
  imports Api_Commands Totp "HOL-Library.AList"
begin

text \<open>
  \<open>apps/api/src/evidence/upload.ts\<close>: the image a game client sends for a capture. The body is bytes, the
  type is that of the header; the counters of the callers are the state the process keeps.
\<close>

section \<open>The image in a body\<close>

(* src evidence/upload.ts:19-19 MAX_IMAGE_BYTES *)
definition max_image_bytes :: nat where "max_image_bytes = 1572864"

(* src evidence/upload.ts:28-36 sniff *)
definition sniff :: "bytes \<Rightarrow> string option" where
  "sniff xs =
     (if 3 < length xs \<and> take 3 xs = [0xFF, 0xD8, 0xFF] then Some ''image/jpeg''
      else if 8 < length xs \<and> take 8 xs = [0x89, 0x50, 0x4E, 0x47, 0x0D, 0x0A, 0x1A, 0x0A] then Some ''image/png''
      else None)"

text \<open>\<open>buffer.indexOf(needle, from)\<close>, \<open>None\<close> for -1.\<close>

fun find_sub :: "'a list \<Rightarrow> 'a list \<Rightarrow> nat option" where
  "find_sub n [] = (if n = [] then Some 0 else None)"
| "find_sub n (x # xs) = (if take (length n) (x # xs) = n then Some 0 else map_option Suc (find_sub n xs))"

definition index_from :: "'a list \<Rightarrow> 'a list \<Rightarrow> nat \<Rightarrow> nat option" where
  "index_from n xs from = (if length xs < from then None else map_option ((+) from) (find_sub n (drop from xs)))"

text \<open>\<open>buffer.subarray(from, to)\<close>\<close>

definition subarray :: "'a list \<Rightarrow> nat \<Rightarrow> nat \<Rightarrow> 'a list" where
  "subarray xs from to = take (to - from) (drop from xs)"

definition crlf2 :: bytes where "crlf2 = [13, 10, 13, 10]"

lemma find_sub_Some:
  "find_sub n xs = Some i \<Longrightarrow> i + length n \<le> length xs \<and> take (length n) (drop i xs) = n"
proof (induction xs arbitrary: i)
  case (Cons x xs)
  show ?case
  proof (cases "take (length n) (x # xs) = n")
    case True
    then have "length n \<le> length (x # xs)" by (metis length_take min.cobounded1)
    with True Cons.prems show ?thesis by auto
  next
    case False
    then obtain j where "find_sub n xs = Some j" "i = Suc j" using Cons.prems by auto
    with Cons.IH [of j] show ?thesis by simp
  qed
qed (auto split: if_splits)

lemma index_from_Some:
  assumes "index_from n xs from = Some i"
  shows "from \<le> i \<and> i + length n \<le> length xs \<and> take (length n) (drop i xs) = n"
proof -
  from assms obtain j where "find_sub n (drop from xs) = Some j" "i = from + j" "from \<le> length xs"
    by (auto simp: index_from_def split: if_splits)
  with find_sub_Some [of n "drop from xs" j] show ?thesis by (auto simp: add.commute)
qed

text \<open>The first part that is an image of an accepted size, from the delimiter at \<open>pos\<close> on.\<close>

(* src evidence/upload.ts:49-60 parseUpload/while *)
function next_image :: "bytes \<Rightarrow> bytes \<Rightarrow> nat \<Rightarrow> (string \<times> bytes) option" where
  "next_image boundary body pos =
     (let after = pos + length boundary in
      if subarray body after (after + 2) = [45, 45] then None
      else (case index_from crlf2 body (after + 2) of
          None \<Rightarrow> None
        | Some headEnd \<Rightarrow>
            (case index_from boundary body (headEnd + 4) of
               None \<Rightarrow> None
             | Some nxt \<Rightarrow>
                 (let part = subarray body (headEnd + 4) (nxt - 2) in
                  case sniff part of
                    Some mime \<Rightarrow> if length part \<le> max_image_bytes then Some (mime, part) else next_image boundary body nxt
                  | None \<Rightarrow> next_image boundary body nxt))))"
  by pat_completeness auto
termination
  by (relation "measure (\<lambda>(boundary, body, pos). length body - pos)") (auto dest!: index_from_Some)

declare next_image.simps [simp del]

text \<open>\<open>/boundary=(?:"([^"]+)"|([^;]+))/i\<close>, the leftmost match; the quoted form is tried first.\<close>

definition boundary_value :: "string \<Rightarrow> string option" where
  "boundary_value r =
     (let q = takeWhile (\<lambda>c. c \<noteq> CHR 0x22) (tl r); plain = takeWhile (\<lambda>c. c \<noteq> CHR '';'') r in
      if r \<noteq> [] \<and> hd r = CHR 0x22 \<and> q \<noteq> [] \<and> length q < length (tl r) then Some q
      else if plain \<noteq> [] then Some plain else None)"

(* src evidence/upload.ts:46-46 parseUpload/boundary *)
fun boundary_of :: "string \<Rightarrow> string option" where
  "boundary_of [] = None"
| "boundary_of (c # cs) =
     (if to_lower (take 9 (c # cs)) = ''boundary=''
      then (case boundary_value (drop 9 (c # cs)) of Some b \<Rightarrow> Some b | None \<Rightarrow> boundary_of cs)
      else boundary_of cs)"

definition is_multipart :: "string \<Rightarrow> bool" where
  "is_multipart ct = (find_sub ''multipart/form-data'' (to_lower ct) \<noteq> None)"

(* src evidence/upload.ts:42-67 parseUpload *)
definition parseUpload :: "bytes \<Rightarrow> string option \<Rightarrow> (string \<times> bytes) option" where
  "parseUpload body contentType =
     (if body = [] \<or> max_image_bytes + 4096 < length body then None
      else (let ct = coalesce_default contentType [] in
        case (if is_multipart ct then boundary_of ct else None) of
          Some b \<Rightarrow>
            (let boundary = utf8 (''--'' @ js_trim b) in
             case index_from boundary body 0 of None \<Rightarrow> None | Some pos \<Rightarrow> next_image boundary body pos)
        | None \<Rightarrow>
            (case sniff body of
               Some mime \<Rightarrow> if length body \<le> max_image_bytes then Some (mime, body) else None
             | None \<Rightarrow> None)))"

section \<open>The route\<close>

type_synonym hits = "(string \<times> int \<times> time_ms) list"

(* src evidence/upload.ts:84-94 limited *)
definition limited :: "time_ms \<Rightarrow> string \<Rightarrow> hits \<Rightarrow> bool \<times> hits" where
  "limited now ip h =
     (let restart = (let h1 = AList.update ip (1, now) h in if 5000 < length h1 then [] else h1) in
      case map_of h ip of
        None \<Rightarrow> (False, restart)
      | Some (n, start) \<Rightarrow>
          if 60000 < now - start then (False, restart) else (30 < n + 1, AList.update ip (n + 1, start) h))"

record upload_request =
  up_org :: string
  up_id :: string
  up_token :: "string option"
  up_body :: bytes
  up_content_type :: "string option"
  up_ip :: string

definition received_as :: "string \<Rightarrow> bytes \<Rightarrow> time_ms \<Rightarrow> capture_row \<Rightarrow> capture_row" where
  "received_as mime img now r =
     r\<lparr>cp_status := Cap_received, cp_mime := Some mime, cp_bytes := Some (int (length img)), cp_image := Some img,
       cp_received_at := Some now\<rparr>"

(* src evidence/upload.ts:127-147 upload/transaction *)
definition store_capture_tx :: "string \<Rightarrow> string \<Rightarrow> bytes \<Rightarrow> string \<Rightarrow> bytes \<Rightarrow> time_ms \<Rightarrow> db \<Rightarrow> bool result \<times> db" where
  "store_capture_tx org i presented mime img now d =
     (let P = (\<lambda>c. cp_organization_id c = org \<and> cp_id c = i) in
      case first_row P (captures d) of
        None \<Rightarrow> (Inr False, d)
      | Some r \<Rightarrow>
          if cp_status r \<noteq> Cap_pending \<or> \<not> now < cp_expires_at r then (Inr False, d)
          else if length (cp_token_hash r) \<noteq> length presented \<or> cp_token_hash r \<noteq> presented then (Inr False, d)
          else (Inr True, d\<lparr>captures := sql_update P (received_as mime img now) (captures d)\<rparr>))"

definition token_shaped :: "string option \<Rightarrow> bool" where
  "token_shaped t = (case t of None \<Rightarrow> False | Some s \<Rightarrow> 20 \<le> length s \<and> length s \<le> 100)"

text \<open>An error of the transaction is the 500 of the server.\<close>

(* src evidence/upload.ts:96-155 upload *)
definition upload :: "crypto \<Rightarrow> api_env \<Rightarrow> upload_request \<Rightarrow> hits \<times> world \<Rightarrow> api_reply \<times> hits \<times> world" where
  "upload c x u = (\<lambda>(h, w).
     case limited (px_js x 0) (up_ip u) h of (over, h1) \<Rightarrow>
       if over then (fault_reply 429 ''rate_limited'', h1, w)
       else if \<not> org_id_ok (up_org u) \<or> \<not> capture_id_ok (up_id u) \<or> \<not> token_shaped (up_token u) then (not_found, h1, w)
       else (case parseUpload (up_body u) (up_content_type u) of
           None \<Rightarrow> (fault_reply 400 ''invalid_image'', h1, w)
         | Some (mime, img) \<Rightarrow>
             (case tenant_step x 0 (up_org u) (store_capture_tx (up_org u) (up_id u)
                 (hashToken c (coalesce_default (up_token u) [])) mime img (px_now x 0)) w of
                (Inl e, w1) \<Rightarrow> (fault_reply 500 ''internal'', h1, w1)
              | (Inr stored, w1) \<Rightarrow> if stored then (reply 200 [(''ok'', JBool True)], h1, w1) else (not_found, h1, w1))))"

section \<open>What the parser accepts\<close>

lemma subarray_take: "from \<le> to \<Longrightarrow> to \<le> length xs \<Longrightarrow> take from xs @ subarray xs from to @ drop to xs = xs"
  by (metis subarray_def append_take_drop_id drop_drop le_add_diff_inverse2)

definition accepted_image :: "bytes \<Rightarrow> string \<times> bytes \<Rightarrow> bool" where
  "accepted_image body r =
     (sniff (snd r) = Some (fst r) \<and> length (snd r) \<le> max_image_bytes \<and> (\<exists>pre post. body = pre @ snd r @ post))"

lemma subarray_part: "\<exists>pre post. xs = pre @ subarray xs from to @ post"
  unfolding subarray_def by (metis append_take_drop_id)

lemma next_image_step:
  assumes "next_image boundary body pos = Some r"
  obtains headEnd nxt where "subarray body (pos + length boundary) (pos + length boundary + 2) \<noteq> [45, 45]"
    "index_from crlf2 body (pos + length boundary + 2) = Some headEnd" "index_from boundary body (headEnd + 4) = Some nxt"
    "(sniff (subarray body (headEnd + 4) (nxt - 2)) = Some (fst r) \<and> length (snd r) \<le> max_image_bytes \<and>
        snd r = subarray body (headEnd + 4) (nxt - 2)) \<or> next_image boundary body nxt = Some r"
proof -
  note eq = next_image.simps [of boundary body pos]
  from assms eq have m: "subarray body (pos + length boundary) (pos + length boundary + 2) \<noteq> [45, 45]"
    by (cases "subarray body (pos + length boundary) (pos + length boundary + 2) = [45, 45]") (simp_all add: Let_def)
  from assms eq m obtain headEnd where h: "index_from crlf2 body (pos + length boundary + 2) = Some headEnd"
    by (cases "index_from crlf2 body (pos + length boundary + 2)") (simp_all add: Let_def)
  from assms eq m h obtain nxt where n: "index_from boundary body (headEnd + 4) = Some nxt"
    by (cases "index_from boundary body (headEnd + 4)") (simp_all add: Let_def)
  let ?part = "subarray body (headEnd + 4) (nxt - 2)"
  from assms eq m h n have "(case sniff ?part of
      Some mime \<Rightarrow> if length ?part \<le> max_image_bytes then Some (mime, ?part) else next_image boundary body nxt
    | None \<Rightarrow> next_image boundary body nxt) = Some r" by (simp add: Let_def)
  then have "(sniff ?part = Some (fst r) \<and> length (snd r) \<le> max_image_bytes \<and> snd r = ?part) \<or> next_image boundary body nxt = Some r"
    by (cases "sniff ?part"; cases "length ?part \<le> max_image_bytes") auto
  with m h n that show thesis by blast
qed

lemma next_image_ok: "next_image boundary body pos = Some r \<Longrightarrow> accepted_image body r"
proof (induction "length body - pos" arbitrary: pos rule: less_induct)
  case less
  from less.prems show ?case
  proof (rule next_image_step)
    fix headEnd nxt
    assume n: "index_from crlf2 body (pos + length boundary + 2) = Some headEnd" "index_from boundary body (headEnd + 4) = Some nxt"
      and r: "(sniff (subarray body (headEnd + 4) (nxt - 2)) = Some (fst r) \<and> length (snd r) \<le> max_image_bytes \<and>
        snd r = subarray body (headEnd + 4) (nxt - 2)) \<or> next_image boundary body nxt = Some r"
    from index_from_Some [OF n(1)] index_from_Some [OF n(2)] have "length body - nxt < length body - pos" by linarith
    from r show ?thesis
    proof
      assume "next_image boundary body nxt = Some r"
      with less.hyps [OF \<open>length body - nxt < length body - pos\<close>] show ?thesis .
    next
      assume "sniff (subarray body (headEnd + 4) (nxt - 2)) = Some (fst r) \<and> length (snd r) \<le> max_image_bytes \<and>
        snd r = subarray body (headEnd + 4) (nxt - 2)"
      with subarray_part [of body "headEnd + 4" "nxt - 2"] show ?thesis by (metis accepted_image_def)
    qed
  qed
qed

text \<open>What the parser takes out of a body is a piece of it, whose first bytes are those of a JPEG or a PNG, of
  at most a megabyte and a half, whatever the header of the request says.\<close>

theorem parsed_upload_is_an_image:
  assumes "parseUpload body contentType = Some (mime, img)"
  shows "accepted_image body (mime, img) \<and> mime \<in> {''image/jpeg'', ''image/png''} \<and> img \<noteq> []"
proof -
  let ?b = "if is_multipart (coalesce_default contentType []) then boundary_of (coalesce_default contentType []) else None"
  have "accepted_image body (mime, img)"
  proof (cases ?b)
    case None
    with assms have "sniff body = Some mime" "length body \<le> max_image_bytes" "img = body"
      by (simp_all add: parseUpload_def Let_def split: if_splits option.splits)
    then show ?thesis unfolding accepted_image_def by (metis append_Nil append_Nil2 fst_conv snd_conv)
  next
    case (Some b)
    with assms obtain pos where "next_image (utf8 (''--'' @ js_trim b)) body pos = Some (mime, img)"
      by (simp add: parseUpload_def Let_def split: if_splits option.splits)
    then show ?thesis by (rule next_image_ok)
  qed
  then show ?thesis by (auto simp: accepted_image_def sniff_def split: if_splits)
qed

section \<open>What a client sends is what is read\<close>

lemma find_sub_first:
  "i + length n \<le> length xs \<Longrightarrow> take (length n) (drop i xs) = n \<Longrightarrow> (\<And>j. j < i \<Longrightarrow> take (length n) (drop j xs) \<noteq> n) \<Longrightarrow>
   find_sub n xs = Some i"
proof (induction xs arbitrary: i)
  case (Cons x xs)
  show ?case
  proof (cases i)
    case (Suc k)
    have "find_sub n xs = Some k"
    proof (rule Cons.IH)
      fix j
      assume "j < k"
      then show "take (length n) (drop j xs) \<noteq> n" using Cons.prems(3) [of "Suc j"] Suc by simp
    qed (use Cons.prems(1,2) Suc in simp_all)
    with Cons.prems(3) [of 0] Suc show ?thesis by simp
  qed (use Cons.prems(2) in simp)
qed simp

lemma find_sub_None: "find_sub n xs = None \<Longrightarrow> take (length n) (drop j xs) \<noteq> n"
proof (induction xs arbitrary: j)
  case (Cons x xs)
  then show ?case by (cases j) (auto split: if_splits)
qed (auto split: if_splits)

lemma find_sub_prefix: "find_sub n xs = Some i \<Longrightarrow> find_sub n (xs @ ys) = Some i"
proof (induction xs arbitrary: i)
  case (Cons x xs)
  show ?case
  proof (cases "take (length n) (x # xs) = n")
    case True
    then have "length n \<le> length (x # xs)" by (metis length_take min.cobounded1)
    then have "take (length n) ((x # xs) @ ys) = n" using True by (metis append.right_neutral diff_is_0_eq take0 take_append)
    with True Cons.prems show ?thesis by simp
  next
    case False
    with Cons.prems obtain k where k: "find_sub n xs = Some k" "i = Suc k" by auto
    then have "length n \<le> length xs" using find_sub_Some by fastforce
    then have "take (length n) ((x # xs) @ ys) = take (length n) (x # xs)" by (simp add: take_Cons')
    with False k Cons.IH show ?thesis by simp
  qed
next
  case Nil
  then show ?case by (cases ys) (auto split: if_splits)
qed

text \<open>A body of one part, as a client writes it: delimiter, header, image, closing delimiter.\<close>

definition multipart :: "bytes \<Rightarrow> bytes \<Rightarrow> bytes \<Rightarrow> bytes" where
  "multipart b hdr img = b @ [13, 10] @ hdr @ crlf2 @ img @ [13, 10] @ b @ [45, 45, 13, 10]"

lemma next_delimiter:
  assumes b: "b \<noteq> []" "13 \<notin> set b" "10 \<notin> set b" and img: "find_sub b img = None"
  shows "find_sub b (img @ [13, 10] @ b @ post) = Some (length img + 2)"
proof (rule find_sub_first)
  fix j
  assume j: "j < length img + 2"
  let ?xs = "img @ [13, 10] @ b @ post"
  show "take (length b) (drop j ?xs) \<noteq> b"
  proof (cases "j + length b \<le> length img")
    case True
    then have "j \<le> length img" "length b \<le> length img - j" by simp_all
    then have same: "take (length b) (drop j ?xs) = take (length b) (drop j img)" by (simp only: drop_append take_append) simp
    show ?thesis unfolding same by (rule find_sub_None [OF img])
  next
    case False
    let ?k = "if j \<le> length img then length img else length img + 1"
    have k: "j \<le> ?k" "?k - j < length b" "?k < length ?xs" using j b(1) False by (auto simp: Suc_diff_le)
    have "?xs ! ?k \<in> {13, 10}" by (auto simp: nth_append)
    moreover have "j \<le> length ?xs" using k by linarith
    then have "take (length b) (drop j ?xs) ! (?k - j) = ?xs ! ?k"
      by (simp only: nth_take [OF k(2)] nth_drop le_add_diff_inverse [OF k(1)])
    ultimately have "b ! (?k - j) \<in> {13, 10}" if "take (length b) (drop j ?xs) = b" using that by metis
    moreover have "b ! (?k - j) \<in> set b" using k(2) by simp
    ultimately show ?thesis using b(2,3) by auto
  qed
qed simp_all

lemma multipart_read:
  assumes b: "b \<noteq> []" "13 \<notin> set b" "10 \<notin> set b" and hdr: "find_sub crlf2 (hdr @ crlf2) = Some (length hdr)"
    and img: "find_sub b img = None" "sniff img = Some mime" "length img \<le> max_image_bytes"
  shows "next_image b (multipart b hdr img) 0 = Some (mime, img)"
proof -
  let ?body = "multipart b hdr img" and ?h = "length b + 2 + length hdr"
  have s: "subarray ?body (length b) (length b + 2) = [13, 10]" by (simp add: subarray_def multipart_def)
  have "find_sub crlf2 (drop (length b + 2) ?body) = Some (length hdr)"
    using find_sub_prefix [OF hdr, of "img @ [13, 10] @ b @ [45, 45, 13, 10]"] by (simp add: multipart_def)
  then have h: "index_from crlf2 ?body (length b + 2) = Some ?h" by (simp add: index_from_def multipart_def)
  have "?body = (b @ [13, 10] @ hdr @ crlf2) @ img @ [13, 10] @ b @ [45, 45, 13, 10]" "?h + 4 = length (b @ [13, 10] @ hdr @ crlf2)"
    by (simp_all add: multipart_def crlf2_def)
  then have d: "drop (?h + 4) ?body = img @ [13, 10] @ b @ [45, 45, 13, 10]" by (simp only: append_eq_conv_conj drop_append) simp
  have n: "index_from b ?body (?h + 4) = Some (?h + 4 + (length img + 2))"
    using next_delimiter [OF b img(1), of "[45, 45, 13, 10]"] unfolding index_from_def d by (simp add: multipart_def crlf2_def)
  have "subarray ?body (?h + 4) (?h + 4 + (length img + 2) - 2) = img" unfolding subarray_def d by simp
  with s h n img(2,3) show ?thesis by (subst next_image.simps) (simp add: Let_def)
qed

end
