(* ===== verification/Capture_Facts.thy ===== *)
theory Capture_Facts
  imports Upload Histories
begin

text \<open>
  The life of a capture, from its request by an operator to the image an operator looks at: what a
  client sends is what is read, a capture is filled once, requests are bounded.
\<close>

section \<open>The parser reads what a client writes\<close>

lemma js_trim_id: "s \<noteq> [] \<Longrightarrow> \<not> js_space (hd s) \<Longrightarrow> \<not> js_space (last s) \<Longrightarrow> js_trim s = s"
proof -
  assume s: "s \<noteq> []" "\<not> js_space (hd s)" "\<not> js_space (last s)"
  then have "dropWhile js_space s = s" "dropWhile js_space (rev s) = rev s" by (simp_all add: dropWhile_eq_self_iff hd_rev)
  then show ?thesis by (simp add: js_trim_def)
qed

lemma boundary_value_plain: "s \<noteq> [] \<Longrightarrow> hd s \<noteq> CHR 0x22 \<Longrightarrow> CHR '';'' \<notin> set s \<Longrightarrow> boundary_value s = Some s"
proof -
  assume s: "s \<noteq> []" "hd s \<noteq> CHR 0x22" "CHR '';'' \<notin> set s"
  then have "takeWhile (\<lambda>c. c \<noteq> CHR '';'') s = s" by (auto simp: takeWhile_eq_all_conv)
  then show ?thesis using s by (simp only: boundary_value_def Let_def) simp
qed

definition form_data :: "string \<Rightarrow> string" where
  "form_data name = ''multipart/form-data; boundary='' @ name"

lemma form_data_boundary:
  "name \<noteq> [] \<Longrightarrow> hd name \<noteq> CHR 0x22 \<Longrightarrow> CHR '';'' \<notin> set name \<Longrightarrow> boundary_of (form_data name) = Some name"
  by (simp add: form_data_def to_lower_def upper_letters_def lower_letters_def boundary_value_plain)

lemma form_data_multipart: "is_multipart (form_data name)"
proof -
  have "find_sub ''multipart/form-data'' (to_lower (form_data name)) = Some 0"
    by (simp add: form_data_def to_lower_def upper_letters_def lower_letters_def)
  then show ?thesis by (simp add: is_multipart_def)
qed

lemma in_utf8: "of_nat (of_char c) \<in> set (utf8 s) \<longleftrightarrow> c \<in> set s"
proof -
  have "of_nat (of_char c) = (of_nat (of_char d) :: 8 word) \<Longrightarrow> c = d" for d
    using utf8_inject [of "[c]" "[d]"] by (simp add: utf8_def)
  then show ?thesis unfolding utf8_def by auto
qed

lemma multipart_starts: "b \<noteq> [] \<Longrightarrow> index_from b (multipart b hdr img) 0 = Some 0"
  by (cases b) (simp_all add: index_from_def multipart_def)

text \<open>C33: A body of one part, delimited by a name without quotes, spaces, semicolons or line ends, that occurs
  neither in its header nor in the image, is read as exactly the image and the type of its first bytes.\<close>

theorem multipart_upload_read:
  assumes name: "name \<noteq> []" "hd name \<noteq> CHR 0x22" "CHR '';'' \<notin> set name" "\<not> js_space (hd name)" "\<not> js_space (last name)"
      "CHR 0x0A \<notin> set name" "CHR 0x0D \<notin> set name"
    and header: "find_sub crlf2 (hdr @ crlf2) = Some (length hdr)"
    and img: "find_sub (utf8 (''--'' @ name)) img = None" "sniff img = Some mime" "length img \<le> max_image_bytes"
    and fits: "length hdr + length img + 2 * length name + 16 \<le> max_image_bytes + 4096"
  shows "parseUpload (multipart (utf8 (''--'' @ name)) hdr img) (Some (form_data name)) = Some (mime, img)"
proof -
  let ?b = "utf8 (''--'' @ name)"
  have b: "?b \<noteq> []" "13 \<notin> set ?b" "10 \<notin> set ?b"
    using name(6,7) in_utf8 [of "CHR 0x0D" "''--'' @ name"] in_utf8 [of "CHR 0x0A" "''--'' @ name"] by (auto simp: utf8_def)
  have start: "index_from ?b (multipart ?b hdr img) 0 = Some 0"
    by (rule multipart_starts) (rule b(1))
  have len: "length (multipart ?b hdr img) = length hdr + length img + 2 * length name + 16"
    by (simp add: multipart_def crlf2_def)
  moreover have "multipart ?b hdr img \<noteq> []" by (simp add: multipart_def)
  ultimately show ?thesis
    using multipart_read [OF b header img] start fits
    by (simp add: parseUpload_def coalesce_default_def form_data_multipart form_data_boundary name js_trim_id)
qed

section \<open>A capture is filled once\<close>

definition capture_at :: "string \<Rightarrow> string \<Rightarrow> capture_row \<Rightarrow> bool" where
  "capture_at org i c = (cp_organization_id c = org \<and> cp_id c = i)"

text \<open>What may happen to the captures afterwards: any upload, any request that names another capture, any deletion.\<close>

inductive capture_step :: "string \<Rightarrow> world \<Rightarrow> world \<Rightarrow> bool" for i where
  Uploaded: "capture_step i w (snd (snd (upload c x u (h, w))))"
| Requested: "px_ids x 0 \<noteq> i \<Longrightarrow> capture_step i w (snd (requestCapture v x q w))"
| Deleted: "capture_step i w (snd (deleteCapture v x q w))"

text \<open>The rows of a received capture stay as they are, or go.\<close>

definition rows_at :: "string \<Rightarrow> string \<Rightarrow> db \<Rightarrow> capture_row set" where
  "rows_at org i d = {r \<in> set (captures d). capture_at org i r}"

definition received_all :: "string \<Rightarrow> string \<Rightarrow> db \<Rightarrow> bool" where
  "received_all org i d = (\<forall>r \<in> rows_at org i d. cp_status r = Cap_received)"

definition frozen :: "string \<Rightarrow> string \<Rightarrow> db \<Rightarrow> db \<Rightarrow> bool" where
  "frozen org i d d' = (received_all org i d \<longrightarrow> rows_at org i d' \<subseteq> rows_at org i d)"

lemma frozen_received: "frozen org i d d' \<Longrightarrow> received_all org i d \<Longrightarrow> received_all org i d'"
  unfolding frozen_def received_all_def by blast

lemma frozen_subset: "rows_at org i d' \<subseteq> rows_at org i d \<Longrightarrow> frozen org i d d'"
  by (simp add: frozen_def)

interpretation frozen_db: db_relation "frozen org i" for org i
proof
  fix d e g
  assume "frozen org i d e" "frozen org i e g"
  then show "frozen org i d g" using frozen_received [of org i d e] by (auto simp: frozen_def)
qed (simp_all add: frozen_def rows_at_def)

lemma store_capture_cases:
  assumes "store_capture_tx org i presented mime img now d = (r, d')"
  obtains (stored) row where "r = Inr True" "first_row (capture_at org i) (captures d) = Some row" "cp_status row = Cap_pending"
      "now < cp_expires_at row" "cp_token_hash row = presented"
      "d' = d\<lparr>captures := sql_update (capture_at org i) (received_as mime img now) (captures d)\<rparr>"
  | (kept) "r = Inr False" "d' = d"
proof -
  have P: "(\<lambda>c. cp_organization_id c = org \<and> cp_id c = i) = capture_at org i" by (simp add: capture_at_def fun_eq_iff)
  note eq = assms [unfolded store_capture_tx_def Let_def P]
  show thesis
  proof (cases "first_row (capture_at org i) (captures d)")
    case None
    with eq kept show thesis by simp
  next
    case (Some row)
    show thesis
    proof (cases "cp_status row = Cap_pending \<and> now < cp_expires_at row \<and> cp_token_hash row = presented")
      case True
      with eq Some stored show thesis by simp
    next
      case False
      with eq Some have "r = Inr False" "d' = d" by (simp_all split: if_splits)
      then show thesis by (rule kept)
    qed
  qed
qed

lemma received_at: "capture_at org i (received_as mime img now r) = capture_at org i r"
  by (simp add: capture_at_def received_as_def)

lemma store_frozen: "tx_keeps (frozen org i) (store_capture_tx o' j presented mime img now)"
proof (rule tx_keepsI)
  fix d r d'
  assume "store_capture_tx o' j presented mime img now d = (Inr r, d')"
  then show "frozen org i d d'"
  proof (cases rule: store_capture_cases)
    case (stored row)
    then have row: "row \<in> set (captures d)" "capture_at o' j row" by (auto dest: first_row_SomeD)
    show ?thesis
    proof (cases "o' = org \<and> j = i")
      case True
      then have "\<not> received_all org i d" using row stored(3) by (auto simp: received_all_def rows_at_def intro!: bexI [of _ row])
      then show ?thesis by (simp add: frozen_def)
    next
      case False
      then have "\<not> capture_at org i b" if "capture_at o' j b" for b using that by (auto simp: capture_at_def)
      then show ?thesis
        by (intro frozen_subset) (auto simp: rows_at_def stored(6) set_sql_update received_at split: if_splits)
    qed
  qed (simp add: frozen_def)
qed

lemma request_frozen: "cp_id r \<noteq> i \<Longrightarrow> tx_keeps (frozen org i) (request_capture_tx r c now)"
  by (auto simp: tx_keeps_def request_capture_tx_def insert_capture_def insert_command_def retain_captures_def give_def
      rows_at_def capture_at_def Let_def split: if_splits elim!: and_then_Inr intro!: frozen_subset)

lemma capture_step_frozen: "capture_step i w w' \<Longrightarrow> frozen org i (wd_db w) (wd_db w')"
proof (induction rule: capture_step.induct)
  case (Uploaded w c x u h)
  have "db_keeps (frozen org i) (tenant_step x 0 o' (store_capture_tx o' j t mime img now))" for o' j t mime img now
    by (rule frozen_db.keeps_tenant [OF store_frozen])
  then have "frozen org i (wd_db w) (wd_db (snd (tenant_step x 0 o' (store_capture_tx o' j t mime img now) w)))" for o' j t mime img now
    by (metis db_keeps_def keeps_relD)
  then have "frozen org i (wd_db w) (wd_db w1)"
    if "tenant_step x 0 o' (store_capture_tx o' j t mime img now) w = (r, w1)" for o' j t mime img now r w1
    using that by (metis snd_conv)
  then show ?case by (auto simp: upload_def frozen_db.S_refl split: prod.split sum.split option.split)
next
  case (Requested x w v q)
  show ?case unfolding requestCapture_def Let_def
    by (intro frozen_db.route_keeps frozen_db.keeps_case_option frozen_db.keeps frozen_db.keeps_tenant request_frozen)
      (use Requested in \<open>auto simp: new_capture_def split: capture_outcome.split intro!: frozen_db.keeps\<close>)
next
  case (Deleted w v x q)
  show ?case unfolding deleteCapture_def Let_def
    by (intro frozen_db.route_keeps frozen_db.keeps frozen_db.keeps_tenant)
      (auto simp: tx_keeps_def rows_at_def intro!: frozen_subset)
qed

lemma capture_steps_frozen: "(capture_step i)\<^sup>*\<^sup>* w w' \<Longrightarrow> frozen org i (wd_db w) (wd_db w')"
  by (induction rule: rtranclp_induct) (blast intro: frozen_db.S_refl frozen_db.S_trans capture_step_frozen)+

lemma upload_stored:
  assumes "upload c x u (h, w) = (r, h', w')" and "ar_status r = 200"
  obtains mime img where "parseUpload (up_body u) (up_content_type u) = Some (mime, img)"
    "tenant_step x 0 (up_org u) (store_capture_tx (up_org u) (up_id u) (hashToken c (coalesce_default (up_token u) []))
        mime img (px_now x 0)) w = (Inr True, w')"
proof -
  obtain over h1 where l: "limited (px_js x 0) (up_ip u) h = (over, h1)" by fastforce
  show thesis
  proof (cases "over \<or> \<not> org_id_ok (up_org u) \<or> \<not> capture_id_ok (up_id u) \<or> \<not> token_shaped (up_token u)")
    case True
    then have "r \<in> {fault_reply 429 ''rate_limited'', not_found}" using assms(1) l by (simp add: upload_def split: if_splits)
    with assms(2) show thesis by auto
  next
    case False
    then have go: "\<not> over" "org_id_ok (up_org u)" "capture_id_ok (up_id u)" "token_shaped (up_token u)" by simp_all
    show thesis
    proof (cases "parseUpload (up_body u) (up_content_type u)")
      case (Some mi)
      obtain mime img where mi: "mi = (mime, img)" by fastforce
      obtain y w1 where t: "tenant_step x 0 (up_org u) (store_capture_tx (up_org u) (up_id u)
          (hashToken c (coalesce_default (up_token u) [])) mime img (px_now x 0)) w = (y, w1)" by fastforce
      from assms(1) have "(case y of Inl e \<Rightarrow> (fault_reply 500 ''internal'', h1, w1)
          | Inr st \<Rightarrow> if st then (reply 200 [(''ok'', JBool True)], h1, w1) else (not_found, h1, w1)) = (r, h', w')"
        by (simp add: upload_def l go Some mi t)
      with assms(2) have "y = Inr True" "w1 = w'" by (auto split: sum.splits if_splits)
      with that [of mime img] Some mi t show thesis by simp
    qed (use assms l go in \<open>auto simp: upload_def\<close>)
  qed
qed

lemma first_row_updated:
  "(\<And>r. P (f r) = P r) \<Longrightarrow> first_row P (sql_update P f rows) = map_option f (first_row P rows)"
  by (induction rows) auto

lemma upload_200:
  assumes "upload c x u (h, w) = (r, h', w')" and "ar_status r = 200"
  obtains mime img row where "parseUpload (up_body u) (up_content_type u) = Some (mime, img)"
    "first_row (capture_at (up_org u) (up_id u)) (captures (wd_db w)) = Some row" "cp_status row = Cap_pending"
    "px_now x 0 < cp_expires_at row" "cp_token_hash row = hashToken c (coalesce_default (up_token u) [])"
    "captures (wd_db w') = sql_update (capture_at (up_org u) (up_id u)) (received_as mime img (px_now x 0)) (captures (wd_db w))"
proof -
  obtain mime img w1 where p: "parseUpload (up_body u) (up_content_type u) = Some (mime, img)"
    and t: "tenant_step x 0 (up_org u) (store_capture_tx (up_org u) (up_id u) (hashToken c (coalesce_default (up_token u) []))
        mime img (px_now x 0)) w = (Inr True, w')"
    by (rule upload_stored [OF assms])
  from world_tx_Inr(1) [OF t [unfolded tenant_step_def]] show thesis
    by (cases rule: store_capture_cases) (use p that in simp_all)
qed

text \<open>C11: An upload is accepted when its capture waits for an image, is not over, and carries the hash of the
  token of the request. The image is what the parser found. From then on, whatever uploads, other requests and
  deletions come, the capture stays as it is or goes, and no upload for it is accepted again.\<close>

theorem capture_filled_once:
  assumes "upload c x u (h, w) = (r, h', w')" and "ar_status r = 200"
  shows "(\<exists>mime img row. parseUpload (up_body u) (up_content_type u) = Some (mime, img) \<and>
      first_row (capture_at (up_org u) (up_id u)) (captures (wd_db w)) = Some row \<and> cp_status row = Cap_pending \<and>
      px_now x 0 < cp_expires_at row \<and> cp_token_hash row = hashToken c (coalesce_default (up_token u) []) \<and>
      first_row (capture_at (up_org u) (up_id u)) (captures (wd_db w')) = Some (received_as mime img (px_now x 0) row)) \<and>
    (\<forall>w''. (capture_step (up_id u))\<^sup>*\<^sup>* w' w'' \<longrightarrow>
      rows_at (up_org u) (up_id u) (wd_db w'') \<subseteq> rows_at (up_org u) (up_id u) (wd_db w') \<and>
      (\<forall>c2 x2 u2 h2. up_org u2 = up_org u \<and> up_id u2 = up_id u \<longrightarrow> ar_status (fst (upload c2 x2 u2 (h2, w''))) \<noteq> 200))"
proof -
  let ?P = "capture_at (up_org u) (up_id u)"
  from upload_200 [OF assms] obtain mime img row where up: "parseUpload (up_body u) (up_content_type u) = Some (mime, img)"
    "first_row ?P (captures (wd_db w)) = Some row" "cp_status row = Cap_pending" "px_now x 0 < cp_expires_at row"
    "cp_token_hash row = hashToken c (coalesce_default (up_token u) [])"
    "captures (wd_db w') = sql_update ?P (received_as mime img (px_now x 0)) (captures (wd_db w))" .
  have same: "?P (received_as mime img (px_now x 0) b) = ?P b" for b by (simp add: capture_at_def received_as_def)
  have first: "first_row ?P (captures (wd_db w')) = Some (received_as mime img (px_now x 0) row)"
    unfolding up(6) by (subst first_row_updated) (simp_all add: same up(2))
  have "received_all (up_org u) (up_id u) (wd_db w')"
    unfolding received_all_def rows_at_def up(6) set_sql_update by (auto simp: same received_as_def)
  then have later: "received_all (up_org u) (up_id u) (wd_db w'') \<and> rows_at (up_org u) (up_id u) (wd_db w'') \<subseteq> rows_at (up_org u) (up_id u) (wd_db w')"
    if "(capture_step (up_id u))\<^sup>*\<^sup>* w' w''" for w''
    using capture_steps_frozen [OF that, of "up_org u"] frozen_received by (auto simp: frozen_def)
  have refused: "ar_status (fst (upload c2 x2 u2 (h2, w''))) \<noteq> 200"
    if all: "received_all (up_org u) (up_id u) (wd_db w'')" and same: "up_org u2 = up_org u" "up_id u2 = up_id u" for w'' c2 x2 u2 h2
  proof
    assume ok: "ar_status (fst (upload c2 x2 u2 (h2, w''))) = 200"
    obtain r2 h3 w3 where eq: "upload c2 x2 u2 (h2, w'') = (r2, h3, w3)" by (metis prod_cases3)
    with ok have "ar_status r2 = 200" by simp
    from upload_200 [OF eq this] obtain row2 where "first_row ?P (captures (wd_db w'')) = Some row2" "cp_status row2 = Cap_pending"
      unfolding same by metis
    with all show False by (auto simp: received_all_def rows_at_def dest!: first_row_SomeD)
  qed
  from up first have now: "\<exists>mime img row. parseUpload (up_body u) (up_content_type u) = Some (mime, img) \<and>
      first_row ?P (captures (wd_db w)) = Some row \<and> cp_status row = Cap_pending \<and>
      px_now x 0 < cp_expires_at row \<and> cp_token_hash row = hashToken c (coalesce_default (up_token u) []) \<and>
      first_row ?P (captures (wd_db w')) = Some (received_as mime img (px_now x 0) row)" by blast
  show ?thesis by (intro conjI now allI impI) (use later refused in blast)+
qed

section \<open>From the request to the image\<close>

lemma first_row_appended: "\<forall>b \<in> set rows. \<not> P b \<Longrightarrow> P r \<Longrightarrow> first_row P (rows @ [r]) = Some r"
  by (induction rows) auto

lemma insert_capture_Inr:
  "insert_capture r d = (Inr u, d') \<Longrightarrow> captures d' = captures d @ [r] \<and> agent_commands d' = agent_commands d \<and>
     first_row (capture_at (cp_organization_id r) (cp_id r)) (captures d') = Some r"
proof -
  assume i: "insert_capture r d = (Inr u, d')"
  then have n: "\<not> exists_row (\<lambda>c. cp_organization_id c = cp_organization_id r \<and> cp_id c = cp_id r) (captures d)"
    and d': "d' = d\<lparr>captures := captures d @ [r]\<rparr>" by (auto simp: insert_capture_def split: if_splits)
  from n have "first_row (capture_at (cp_organization_id r) (cp_id r)) (captures d @ [r]) = Some r"
    by (intro first_row_appended) (auto simp: capture_at_def sql_simps)
  with d' show ?thesis by simp
qed

lemma request_capture_ok:
  assumes "request_capture_tx r c now d = (Inr Capture_ok, d')"
  shows "recent_captures (cp_organization_id r) (coalesce_default (cp_requested_by r) []) now d < 6"
    and "captures d' = retain_captures (cp_organization_id r) now (captures d) @ [r]"
    and "agent_commands d' = agent_commands d @ [c]"
    and "first_row (capture_at (cp_organization_id r) (cp_id r)) (captures d') = Some r"
proof -
  let ?d0 = "d\<lparr>captures := retain_captures (cp_organization_id r) now (captures d)\<rparr>"
  from assms have rec: "recent_captures (cp_organization_id r) (coalesce_default (cp_requested_by r) []) now d < 6"
    and run: "and_then (insert_capture r) (\<lambda>_. and_then (insert_command c) (\<lambda>_. give Capture_ok)) ?d0 = (Inr Capture_ok, d')"
    by (auto simp: request_capture_tx_def Let_def split: if_splits)
  from run obtain u d1 where i: "insert_capture r ?d0 = (Inr u, d1)"
    and k: "and_then (insert_command c) (\<lambda>_. give Capture_ok) d1 = (Inr Capture_ok, d')" by (rule and_then_Inr)
  from k have d': "d' = d1\<lparr>agent_commands := agent_commands d1 @ [c]\<rparr>"
    by (auto simp: insert_command_def give_def elim!: and_then_Inr split: if_splits)
  note c = insert_capture_Inr [OF i]
  show "recent_captures (cp_organization_id r) (coalesce_default (cp_requested_by r) []) now d < 6" by (rule rec)
  show "captures d' = retain_captures (cp_organization_id r) now (captures d) @ [r]" "agent_commands d' = agent_commands d @ [c]"
    "first_row (capture_at (cp_organization_id r) (cp_id r)) (captures d') = Some r" using c by (auto simp: d')
qed

text \<open>What the routes of the captures read and change is neither the sessions nor the journal.\<close>

definition same_captures :: "db \<Rightarrow> db \<Rightarrow> bool" where
  "same_captures d d' = (captures d' = captures d \<and> agent_commands d' = agent_commands d)"

lemma requestCapture_202:
  assumes "requestCapture v x q w = (r, w1)" and "ar_status r = 202" and "captureSchema (pq_body q) = Some p"
  obtains a w0 d1 where "writes v x q Command_issue w = (Inr a, w0)" "same_captures (wd_db w) (wd_db w0)"
    "org_id_ok (ra_organizationId a)" "same_captures d1 (wd_db w1)"
    "request_capture_tx (new_capture (ra_organizationId a) (aw_userId (ra_user a)) (pq_id q) (px_ids x 0) (px_ids x 1)
        (hashToken (pd_crypto v) (newOpaqueToken (px_random32 x))) p (px_now x 0))
      (capture_command (ra_organizationId a) (aw_userId (ra_user a)) (pq_id q) (px_ids x 1) (px_ids x 0)
        (newOpaqueToken (px_random32 x)) (ci_slot p) (px_now x 0)) (px_now x 0) (wd_db w0) = (Inr Capture_ok, d1)"
proof -
  define Q where "Q = (\<lambda>(r :: api_reply) (w' :: world). ar_status r = 202 \<longrightarrow> (\<exists>a w0 d1. writes v x q Command_issue w = (Inr a, w0) \<and>
    same_captures (wd_db w) (wd_db w0) \<and> org_id_ok (ra_organizationId a) \<and> same_captures d1 (wd_db w') \<and>
    request_capture_tx (new_capture (ra_organizationId a) (aw_userId (ra_user a)) (pq_id q) (px_ids x 0) (px_ids x 1)
        (hashToken (pd_crypto v) (newOpaqueToken (px_random32 x))) p (px_now x 0))
      (capture_command (ra_organizationId a) (aw_userId (ra_user a)) (pq_id q) (px_ids x 1) (px_ids x 0)
        (newOpaqueToken (px_random32 x)) (ci_slot p) (px_now x 0)) (px_now x 0) (wd_db w0) = (Inr Capture_ok, d1)))"
  have "Q r w1"
  proof (rule routed [OF assms(1) [unfolded requestCapture_def]])
    fix a w0
    assume g: "writes v x q Command_issue w = (Inr a, w0)"
    then have s: "same_captures (wd_db w) (wd_db w0)"
      using guards_sessions(1) [of w v x q Command_issue] by (auto simp: only_sessions_def same_captures_def)
    show "wp (case captureSchema (pq_body q) of None \<Rightarrow> give invalid | Some p \<Rightarrow>
           (let org = ra_organizationId a; uid = aw_userId (ra_user a); sid = pq_id q; cap = px_ids x 0; cmd = px_ids x 1;
                token = newOpaqueToken (px_random32 x); now = px_now x 0 in
            and_then (tenant_step x 0 org (request_capture_tx
                (new_capture org uid sid cap cmd (hashToken (pd_crypto v) token) p now)
                (capture_command org uid sid cmd cap token (ci_slot p) now) now)) (\<lambda>oc.
              case oc of
                Capture_not_found \<Rightarrow> give not_found
              | Capture_limited \<Rightarrow> give (fault_reply 429 ''rate_limited'')
              | Capture_ok \<Rightarrow>
                  and_then (audit x 1 a ''capture.requested'' sid) (\<lambda>_.
                  give (reply 202 [(''capture'', JObj [(''id'', JStr cap), (''status'', JStr ''PENDING'')]),
                                   (''command'', JObj [(''id'', JStr cmd)])]))))) Q (\<lambda>w2. \<forall>e. Q (refused (Other_access e)) w2) w0"
      unfolding assms(3) option.case Let_def wp
    proof (rule wp_tenant)
      fix oc d1
      assume org: "org_id_ok (ra_organizationId a)" and tx: "request_capture_tx (new_capture (ra_organizationId a) (aw_userId (ra_user a)) (pq_id q) (px_ids x 0) (px_ids x 1)
        (hashToken (pd_crypto v) (newOpaqueToken (px_random32 x))) p (px_now x 0))
      (capture_command (ra_organizationId a) (aw_userId (ra_user a)) (pq_id q) (px_ids x 1) (px_ids x 0)
        (newOpaqueToken (px_random32 x)) (ci_slot p) (px_now x 0)) (px_now x 0) (wd_db w0) = (Inr oc, d1)"
      show "wp (case oc of Capture_not_found \<Rightarrow> give not_found | Capture_limited \<Rightarrow> give (fault_reply 429 ''rate_limited'')
          | Capture_ok \<Rightarrow> and_then (audit x 1 a ''capture.requested'' (pq_id q)) (\<lambda>_.
              give (reply 202 [(''capture'', JObj [(''id'', JStr (px_ids x 0)), (''status'', JStr ''PENDING'')]),
                               (''command'', JObj [(''id'', JStr (px_ids x 1))])]))) Q (\<lambda>w2. \<forall>e. Q (refused (Other_access e)) w2) (w0\<lparr>wd_db := d1\<rparr>)"
      proof (cases oc)
        case Capture_ok
        show ?thesis unfolding Capture_ok capture_outcome.case wp
          by (rule wp_audit, simp add: Q_def)
            (unfold Q_def, intro impI exI [of _ a] exI [of _ w0] exI [of _ d1],
             use g s org tx Capture_ok in \<open>simp add: same_captures_def\<close>)
      qed (simp_all add: wp Q_def)
    qed (simp add: Q_def)
  qed (simp add: Q_def)
  with assms(2) that show thesis unfolding Q_def by blast
qed

lemma requestCapture_parsed:
  assumes "requestCapture v x q w = (r, w1)" and "ar_status r = 202"
  obtains p where "captureSchema (pq_body q) = Some p"
proof (cases "captureSchema (pq_body q)")
  case None
  define Q where "Q = (\<lambda>(r :: api_reply) (w' :: world). ar_status r \<noteq> 202)"
  have "Q r w1"
    by (rule routed [OF assms(1) [unfolded requestCapture_def]]) (simp_all add: None wp Q_def)
  with assms(2) show thesis by (simp add: Q_def)
qed (rule that)

section \<open>How much is kept\<close>

lemma length_filter_mset: "mset xs = mset ys \<Longrightarrow> length (filter P xs) = length (filter P ys)"
  by (metis mset_filter size_mset)

lemma retained_length: "length (inside cp_organization_id org (retain_captures org now rows)) \<le> 300"
proof -
  let ?s = "rev (sort_key cp_created_at (inside cp_organization_id org rows))"
  let ?old = "\<lambda>c. cp_id c \<in> set (map cp_id (drop 300 ?s))"
  have "inside cp_organization_id org (retain_captures org now rows) =
      filter (\<lambda>c. \<not> cp_created_at c < now - thirty_days) (filter (\<lambda>c. \<not> ?old c) (inside cp_organization_id org rows))"
    by (auto simp: inside_def retain_captures_def sql_delete_def Let_def intro!: filter_cong)
  then have "length (inside cp_organization_id org (retain_captures org now rows)) \<le> length (filter (\<lambda>c. \<not> ?old c) (inside cp_organization_id org rows))"
    by (metis length_filter_le)
  also have "\<dots> = length (filter (\<lambda>c. \<not> ?old c) (take 300 ?s @ drop 300 ?s))"
    by (rule length_filter_mset) simp
  also have "\<dots> = length (filter (\<lambda>c. \<not> ?old c) (take 300 ?s)) + length (filter (\<lambda>c. \<not> ?old c) (drop 300 ?s))"
    by (simp only: filter_append length_append)
  also have "filter (\<lambda>c. \<not> ?old c) (drop 300 ?s) = []" unfolding filter_empty_conv by simp
  also have "length (filter (\<lambda>c. \<not> ?old c) (take 300 ?s)) + length ([] :: capture_row list) \<le> 300"
    using length_filter_le [of "\<lambda>c. \<not> ?old c" "take 300 ?s"] by simp
  finally show ?thesis .
qed

lemma row_count_delete: "row_count P (sql_delete Q rows) \<le> row_count P rows"
  by (induction rows) (auto simp: sql_delete_def)

text \<open>C34: After a request for a capture was taken, its author has at most six of them younger than a minute, and the
  organization keeps at most 301 captures, none older than thirty days.\<close>

theorem capture_requests_bounded:
  assumes "requestCapture v x q w = (r, w1)" and "ar_status r = 202"
  shows "\<exists>a w0. writes v x q Command_issue w = (Inr a, w0) \<and>
    recent_captures (ra_organizationId a) (aw_userId (ra_user a)) (px_now x 0) (wd_db w1) \<le> 6 \<and>
    length (inside cp_organization_id (ra_organizationId a) (captures (wd_db w1))) \<le> 301 \<and>
    (\<forall>c \<in> set (inside cp_organization_id (ra_organizationId a) (captures (wd_db w1))). px_now x 0 - thirty_days \<le> cp_created_at c)"
proof -
  obtain p where p: "captureSchema (pq_body q) = Some p" by (rule requestCapture_parsed [OF assms])
  from requestCapture_202 [OF assms p] obtain a w0 d1 where g: "writes v x q Command_issue w = (Inr a, w0)"
    and s: "same_captures d1 (wd_db w1)"
    and tx: "request_capture_tx (new_capture (ra_organizationId a) (aw_userId (ra_user a)) (pq_id q) (px_ids x 0) (px_ids x 1)
        (hashToken (pd_crypto v) (newOpaqueToken (px_random32 x))) p (px_now x 0))
      (capture_command (ra_organizationId a) (aw_userId (ra_user a)) (pq_id q) (px_ids x 1) (px_ids x 0)
        (newOpaqueToken (px_random32 x)) (ci_slot p) (px_now x 0)) (px_now x 0) (wd_db w0) = (Inr Capture_ok, d1)" .
  let ?org = "ra_organizationId a" and ?now = "px_now x 0"
  let ?kept = "retain_captures ?org ?now (captures (wd_db w0))"
  note ok = request_capture_ok [OF tx]
  obtain c where c: "captures (wd_db w1) = ?kept @ [c]" "cp_organization_id c = ?org" "cp_created_at c = ?now"
    using ok(2) s by (auto simp: same_captures_def new_capture_def)
  have rec: "recent_captures ?org (aw_userId (ra_user a)) ?now (wd_db w0) < 6"
    using ok(1) by (simp add: new_capture_def coalesce_default_def)
  have "recent_captures ?org (aw_userId (ra_user a)) ?now (wd_db w1) \<le> Suc (recent_captures ?org (aw_userId (ra_user a)) ?now (wd_db w0))"
    unfolding recent_captures_def c(1) retain_captures_def Let_def
    by (auto intro!: le_SucI row_count_delete)
  moreover have "length (inside cp_organization_id ?org (captures (wd_db w1))) \<le> 301"
    using retained_length [of ?org ?now "captures (wd_db w0)"] c by (simp add: inside_def)
  moreover have "?now - thirty_days \<le> cp_created_at b" if "b \<in> set (inside cp_organization_id ?org (captures (wd_db w1)))" for b
    using that c by (auto simp: inside_def retain_captures_def thirty_days_def Let_def)
  ultimately show ?thesis using g rec by (intro exI [of _ a] exI [of _ w0]) simp
qed

section \<open>The whole way\<close>

lemma capture_command_ok:
  "t < now + 300000 \<Longrightarrow> deliverable org sid t (\<lambda>i. False) (capture_command org uid sid i cap token slot now)"
  "base \<noteq> [] \<Longrightarrow> \<exists>fs. delivered_payload org (Some base) (capture_command org uid sid i cap token slot now) = JObj fs \<and>
     obj_get ''upload_url'' fs = Some (JStr (base @ ''/api/evidence/upload/'' @ org @ ''/'' @ cap @ ''?t='' @ token)) \<and>
     obj_get ''token'' fs = None"
  by (simp_all add: deliverable_def open_command_def capture_command_def new_command_def delivered_payload_def spread_fields_def
      truthy_def obj_get_def obj_remove_def)

text \<open>The image of a capture that was filled.\<close>

lemma filled_row:
  assumes "first_row (capture_at org i) rows = Some row"
  shows "first_row (\<lambda>c. cp_organization_id c = org \<and> cp_id c = i \<and> cp_status c = Cap_received)
      (sql_update (capture_at org i) (received_as mime img now) rows) = Some (received_as mime img now row)"
  using assms by (induction rows) (auto simp: capture_at_def received_as_def split: if_splits)


end
