(* ===== verification/Capture_Witnesses.thy ===== *)
theory Capture_Witnesses
  imports Api_Witnesses Capture_Facts
begin

text \<open>
  Applications of the properties of captures: the owner of the samples asks for the screen of a player, the
  game client sends a small image in a form, the owner reads it.
\<close>

definition sample_image :: bytes where "sample_image = [0xFF, 0xD8, 0xFF, 0xE0, 1, 2]"

definition sample_part :: bytes where "sample_part = utf8 ''Content-Type: image/jpeg''"

definition sample_form :: bytes where "sample_form = multipart (utf8 ''--zs7'') sample_part sample_image"

theorem multipart_upload_read_witness: "parseUpload sample_form (Some (form_data ''zs7'')) = Some (''image/jpeg'', sample_image)"
proof -
  have "find_sub crlf2 (sample_part @ crlf2) = Some (length sample_part)" "find_sub (utf8 (''--'' @ ''zs7'')) sample_image = None"
    "sniff sample_image = Some ''image/jpeg''" by code_simp+
  moreover have "length sample_image = 6" "length sample_part = 24" by code_simp+
  then have "length sample_image \<le> max_image_bytes"
    "length sample_part + length sample_image + 2 * length ''zs7'' + 16 \<le> max_image_bytes + 4096" by (simp_all add: max_image_bytes_def)
  ultimately have "find_sub crlf2 (sample_part @ crlf2) = Some (length sample_part)" "find_sub (utf8 (''--'' @ ''zs7'')) sample_image = None"
    "sniff sample_image = Some ''image/jpeg''" "length sample_image \<le> max_image_bytes"
    "length sample_part + length sample_image + 2 * length ''zs7'' + 16 \<le> max_image_bytes + 4096" by blast+
  from multipart_upload_read [OF _ _ _ _ _ _ _ this] show ?thesis by (simp add: sample_form_def js_space_def)
qed

definition capture_env :: api_env where
  "capture_env = sample_env (\<lambda>n. if n = 0 then sample_id ''cap_'' (CHR ''a'') else sample_id ''cmd_'' (CHR ''a''))"

definition capture_call :: api_request where
  "capture_call = sample_call sample_server_id (JObj [(''slot'', JInt 3)])"

definition captured :: "api_reply \<times> world" where
  "captured = requestCapture sample_deps capture_env capture_call api_world"

definition sample_upload :: upload_request where
  "sample_upload = \<lparr>up_org = sample_org, up_id = sample_id ''cap_'' (CHR ''a''), up_token = Some (newOpaqueToken (replicate 32 9)),
     up_body = sample_image, up_content_type = None, up_ip = ''10.0.0.2''\<rparr>"

definition uploaded :: "api_reply \<times> hits \<times> world" where
  "uploaded = upload sample_crypto capture_env sample_upload ([], snd captured)"

definition image_call :: api_request where
  "image_call = sample_call (sample_id ''cap_'' (CHR ''a'')) JNull"

lemma captured_ok: "ar_status (fst captured) = 202"
  by code_simp

lemma sample_parse: "parseUpload (up_body sample_upload) (up_content_type sample_upload) = Some (''image/jpeg'', sample_image)"
proof -
  have "sniff sample_image = Some ''image/jpeg''" "\<not> is_multipart []" by code_simp+
  then show ?thesis by (simp add: sample_upload_def parseUpload_def coalesce_default_def) (simp add: sample_image_def max_image_bytes_def)
qed

definition stored_run :: "bool result \<times> world" where
  "stored_run = tenant_step capture_env 0 (up_org sample_upload) (store_capture_tx (up_org sample_upload) (up_id sample_upload)
     (hashToken sample_crypto (coalesce_default (up_token sample_upload) [])) ''image/jpeg'' sample_image (px_now capture_env 0)) (snd captured)"

lemma uploaded_ok: "ar_status (fst uploaded) = 200" and uploaded_world: "snd (snd uploaded) = snd stored_run"
proof -
  have l: "limited (px_js capture_env 0) (up_ip sample_upload) [] = (False, [(''10.0.0.2'', 1, 3000)])" by code_simp
  have ok: "org_id_ok (up_org sample_upload)" "capture_id_ok (up_id sample_upload)" "token_shaped (up_token sample_upload)" by code_simp+
  have st: "fst stored_run = Inr True" by code_simp
  then obtain w' :: world where "stored_run = (Inr True, w')" by (metis prod.collapse)
  with l ok show "ar_status (fst uploaded) = 200" "snd (snd uploaded) = snd stored_run"
    by (simp_all add: uploaded_def upload_def sample_parse reply_def stored_run_def)
qed

theorem capture_filled_once_witness:
  "ar_status (fst (upload sample_crypto capture_env sample_upload ([], snd (snd uploaded)))) \<noteq> 200"
proof -
  have "upload sample_crypto capture_env sample_upload ([], snd captured) = (fst uploaded, fst (snd uploaded), snd (snd uploaded))"
    by (simp add: uploaded_def)
  from capture_filled_once [OF this uploaded_ok] show ?thesis by blast
qed

theorem capture_requests_bounded_witness:
  "\<exists>a w0. writes sample_deps capture_env capture_call Command_issue api_world = (Inr a, w0) \<and>
     length (inside cp_organization_id (ra_organizationId a) (captures (wd_db (snd captured)))) \<le> 301"
proof -
  have "requestCapture sample_deps capture_env capture_call api_world = (fst captured, snd captured)" by (simp add: captured_def)
  from capture_requests_bounded [OF this captured_ok] show ?thesis by blast
qed


end
