(* ===== verification/Api_Licenses.thy ===== *)
theory Api_Licenses
  imports Api_Servers Api_Incidents Totp
begin

text \<open>
  \<open>apps/api/src/api/routes.ts\<close>: the signed licences of the anticheat, the activation of an account by a
  key, the console of the platform, the verdict its agents ask for. Instants of a licence are seconds
  when signed and columns of type \<open>timestamptz\<close> when stored.
\<close>

section \<open>Signed keys\<close>

definition license_plans :: "string list" where
  "license_plans = [''trial'', ''starter'', ''pro'', ''enterprise'']"

(* src api/routes.ts:3187-3187 PLAN_DAYS *)
definition plan_days :: "string \<Rightarrow> int" where
  "plan_days p = coalesce_default (map_of [(''trial'', 7), (''starter'', 30), (''pro'', 30), (''enterprise'', 30)] p) 7"

record license_key =
  lk_token :: string
  lk_plan :: string
  lk_issued :: int
  lk_expires :: int

definition license_payload :: "string \<Rightarrow> string \<Rightarrow> int \<Rightarrow> int \<Rightarrow> string" where
  "license_payload binding plan issued expires =
     join_with ''|'' [''v1'', binding, plan, string_of_int issued, string_of_int expires]"

definition signed_text :: "api_deps \<Rightarrow> string \<Rightarrow> string" where
  "signed_text v payload = payload @ ''~'' @ hmacSha256Hex (pd_crypto v) (pd_license_secret v) payload"

(* src api/routes.ts:3190-3196 signLicense *)
definition signLicense :: "api_deps \<Rightarrow> time_ms \<Rightarrow> string \<Rightarrow> string \<Rightarrow> int \<Rightarrow> license_key" where
  "signLicense v now binding plan days =
     (let issued = now div 1000; expires = issued + days * 86400 in
      \<lparr>lk_token = signed_text v (license_payload binding plan issued expires), lk_plan = plan,
       lk_issued = issued, lk_expires = expires\<rparr>)"

text \<open>\<open>s.lastIndexOf(c)\<close>, with what precedes and what follows.\<close>

fun cut_last :: "char \<Rightarrow> string \<Rightarrow> (string \<times> string) option" where
  "cut_last c [] = None"
| "cut_last c (d # s) =
     (case cut_last c s of
        Some (pre, post) \<Rightarrow> Some (d # pre, post)
      | None \<Rightarrow> if d = c then Some ([], s) else None)"

(* src api/routes.ts:3226-3226 fingerprintSchema *)
definition binding_ok :: "string \<Rightarrow> bool" where
  "binding_ok s = (matches_class hex_chars 16 16 s \<or> s = ''any'')"

record license_info =
  lf_binding :: string
  lf_plan :: string
  lf_issued :: int
  lf_expires :: int

(* src api/routes.ts:3202-3223 verifyLicenseKey *)
definition verifyLicenseKey :: "api_deps \<Rightarrow> time_ms \<Rightarrow> string \<Rightarrow> license_info option" where
  "verifyLicenseKey v now key =
     (case cut_last (CHR ''~'') (js_trim key) of
        None \<Rightarrow> None
      | Some (payload, signature) \<Rightarrow>
          if payload = [] then None
          else if \<not> constantTimeEqual (pd_crypto v) signature (hmacSha256Hex (pd_crypto v) (pd_license_secret v) payload) then None
          else (case split_on (CHR ''|'') payload of
              [ver, binding, plan, i, e] \<Rightarrow>
                if ver \<noteq> ''v1'' then None
                else (case (js_integer (number_other (pd_js v)) i, js_integer (number_other (pd_js v)) e) of
                    (Some issued, Some expires) \<Rightarrow>
                      if plan \<notin> set license_plans \<or> \<not> binding_ok binding \<or> expires * 1000 \<le> now then None
                      else Some \<lparr>lf_binding = binding, lf_plan = plan, lf_issued = issued, lf_expires = expires\<rparr>
                  | _ \<Rightarrow> None)
            | _ \<Rightarrow> None))"

section \<open>The table\<close>

definition license_of :: "string \<Rightarrow> string \<Rightarrow> license_row \<Rightarrow> bool" where
  "license_of org sid l = (li_organization_id l = org \<and> li_server_id l = sid)"

text \<open>\<open>to_timestamp\<close> of seconds: out of the range of the type, the statement fails.\<close>

definition instant_ok :: "int \<Rightarrow> bool" where
  "instant_ok s = (- 210866803200 \<le> s \<and> s < 9224318016000)"

definition new_license :: "string \<Rightarrow> string \<Rightarrow> string \<Rightarrow> string \<Rightarrow> string \<Rightarrow> int \<Rightarrow> int \<Rightarrow> license_row" where
  "new_license org sid uid token plan issued expires =
     \<lparr>li_organization_id = org, li_server_id = sid, li_token = token, li_plan = plan, li_issued_at = issued * 1000,
      li_expires_at = expires * 1000, li_created_by = Some uid, li_revoked_at = None, li_revoked_reason = None, li_revoked_by = None\<rparr>"

definition insert_license :: "license_row \<Rightarrow> db \<Rightarrow> unit result \<times> db" where
  "insert_license l d =
     (if \<not> instant_ok (li_issued_at l div 1000) \<or> \<not> instant_ok (li_expires_at l div 1000) then (Inl out_of_range, d)
      else if exists_row (license_of (li_organization_id l) (li_server_id l)) (licenses d) then (Inl Unique_violation, d)
      else if \<not> server_exists (li_organization_id l) (li_server_id l) d then (Inl Foreign_key_violation, d)
      else (Inr (), d\<lparr>licenses := licenses d @ [l]\<rparr>))"

text \<open>\<open>ON CONFLICT ... DO UPDATE\<close>; \<open>also\<close> is what else the statement writes to the row that is there.\<close>

definition replace_key :: "license_row \<Rightarrow> license_row \<Rightarrow> license_row" where
  "replace_key l r = r\<lparr>li_token := li_token l, li_plan := li_plan l, li_issued_at := li_issued_at l,
     li_expires_at := li_expires_at l, li_created_by := li_created_by l\<rparr>"

definition unrevoke :: "license_row \<Rightarrow> license_row" where
  "unrevoke r = r\<lparr>li_revoked_at := None, li_revoked_reason := None, li_revoked_by := None\<rparr>"

definition upsert_license :: "(license_row \<Rightarrow> license_row) \<Rightarrow> license_row \<Rightarrow> db \<Rightarrow> unit result \<times> db" where
  "upsert_license too l d =
     (let P = license_of (li_organization_id l) (li_server_id l) in
      if exists_row P (licenses d) \<and> instant_ok (li_issued_at l div 1000) \<and> instant_ok (li_expires_at l div 1000)
      then (Inr (), d\<lparr>licenses := sql_update P (\<lambda>r. too (replace_key l r)) (licenses d)\<rparr>)
      else insert_license l d)"

section \<open>Licences of an organization\<close>

definition z_plan :: "json \<Rightarrow> string option" where
  "z_plan = z_matching (\<lambda>s. s \<in> set license_plans)"

(* src api/routes.ts:3228-3233 licenseIssueSchema *)
definition licenseIssueSchema :: "json \<Rightarrow> (string \<times> string option) option" where
  "licenseIssueSchema j = do {
     fs \<leftarrow> z_object [''plan'', ''server_fingerprint''] j;
     plan \<leftarrow> z_default ''plan'' z_plan ''trial'' fs;
     fp \<leftarrow> z_optional ''server_fingerprint'' (z_matching binding_ok) fs;
     Some (plan, fp)
   }"

definition keyed_license :: "string \<Rightarrow> string \<Rightarrow> string \<Rightarrow> license_key \<Rightarrow> license_row" where
  "keyed_license org sid uid k = new_license org sid uid (lk_token k) (lk_plan k) (lk_issued k) (lk_expires k)"

text \<open>The key is bound to the given fingerprint, or to the one of the server, or to none.\<close>

(* src api/routes.ts:3245-3268 license/post/transaction *)
definition issue_license_tx :: "api_deps \<Rightarrow> time_ms \<Rightarrow> string \<Rightarrow> string \<Rightarrow> string \<Rightarrow> string \<Rightarrow> string option \<Rightarrow> db \<Rightarrow>
    (license_key \<times> bool) option result \<times> db" where
  "issue_license_tx v now org uid sid plan fp d =
     (case first_row (live_server org sid) (servers d) of
        None \<Rightarrow> (Inr None, d)
      | Some s \<Rightarrow>
          (let binding = coalesce_default (coalesce fp (sv_fingerprint s)) ''any'';
               k = signLicense v now binding plan (plan_days plan) in
           and_then (upsert_license id (keyed_license org sid uid k)) (\<lambda>_. give (Some (k, binding \<noteq> ''any''))) d))"

definition license_reply :: "license_key \<Rightarrow> bool \<Rightarrow> (string \<times> json) list" where
  "license_reply k bound =
     [(''token'', JStr (lk_token k)), (''plan'', JStr (lk_plan k)), (''bound'', JBool bound),
      (''expires_at'', JInt (lk_expires k * 1000))]"

(* src api/routes.ts:3235-3281 license/post *)
definition issueLicense :: "api_deps \<Rightarrow> api_env \<Rightarrow> api_request \<Rightarrow> world \<Rightarrow> api_reply \<times> world" where
  "issueLicense v x q w =
     handle_with (writes v x q Anticheat_configure w) (\<lambda>a.
       case licenseIssueSchema (body_or_empty q) of
         None \<Rightarrow> give invalid
       | Some (plan, fp) \<Rightarrow>
           and_then (tenant_step x 0 (ra_organizationId a)
               (issue_license_tx v (px_js x 0) (ra_organizationId a) (aw_userId (ra_user a)) (pq_id q) plan fp)) (\<lambda>oc.
             case oc of
               None \<Rightarrow> give not_found
             | Some (k, bound) \<Rightarrow>
                 and_then (audit x 1 a ''license.issued'' (pq_id q)) (\<lambda>_. give (reply 201 (license_reply k bound)))))"

text \<open>\<open>Math.max(0, Math.ceil((expires - now) / 86_400_000))\<close>\<close>

definition days_left :: "time_ms \<Rightarrow> time_ms \<Rightarrow> int" where
  "days_left expires now = max 0 (- ((now - expires) div 86400000))"

(* src api/routes.ts:3283-3305 license/get *)
definition getLicense :: "api_deps \<Rightarrow> api_env \<Rightarrow> api_request \<Rightarrow> world \<Rightarrow> api_reply \<times> world" where
  "getLicense v x q w =
     handle_with (reads v x q Server_read w) (\<lambda>a.
       tenant_step x 0 (ra_organizationId a) (\<lambda>d.
         (Inr (case first_row (license_of (ra_organizationId a) (pq_id q)) (licenses d) of
            None \<Rightarrow> reply 200 [(''has_license'', JBool False)]
          | Some l \<Rightarrow> reply 200
              [(''has_license'', JBool True), (''plan'', JStr (li_plan l)), (''token'', JStr (li_token l)),
               (''expires_at'', JInt (li_expires_at l)), (''days_left'', JInt (days_left (li_expires_at l) (px_js x 0))),
               (''expired'', JBool (li_expires_at l < px_js x 1))]), d)))"

(* src api/routes.ts:3310-3316 licenseGenerateSchema *)
definition licenseGenerateSchema :: "json \<Rightarrow> (string \<times> int option \<times> string option) option" where
  "licenseGenerateSchema j = do {
     fs \<leftarrow> z_object [''plan'', ''days'', ''server_fingerprint''] j;
     plan \<leftarrow> z_default ''plan'' z_plan ''trial'' fs;
     days \<leftarrow> z_optional ''days'' (z_int 1 3650) fs;
     fp \<leftarrow> z_optional ''server_fingerprint'' (z_matching binding_ok) fs;
     Some (plan, days, fp)
   }"

(* src api/routes.ts:3318-3336 licenses/generate *)
definition generateLicense :: "api_deps \<Rightarrow> api_env \<Rightarrow> api_request \<Rightarrow> world \<Rightarrow> api_reply \<times> world" where
  "generateLicense v x q w =
     handle_with (writes v x q Billing_manage w) (\<lambda>a.
       case licenseGenerateSchema (body_or_empty q) of
         None \<Rightarrow> give invalid
       | Some (plan, days, fp) \<Rightarrow>
           (let n = coalesce_default days (plan_days plan); binding = coalesce_default fp ''any'';
                k = signLicense v (px_js x 0) binding plan n in
            and_then (audit x 0 a ''license.generated'' binding) (\<lambda>_.
              give (reply 200 (license_reply k (binding \<noteq> ''any'') @ [(''days'', JInt n)])))))"

section \<open>Activation\<close>

(* src api/routes.ts:3347-3352 activateSchema *)
definition activateSchema :: "json \<Rightarrow> (string \<times> string option) option" where
  "activateSchema j = do {
     fs \<leftarrow> z_object [''license_key'', ''server_name''] j;
     key \<leftarrow> z_field ''license_key'' (z_string 1 512) fs;
     name \<leftarrow> z_optional ''server_name'' (z_string 1 120) fs;
     Some (key, name)
   }"

definition licensed :: "server_row \<Rightarrow> db \<Rightarrow> bool" where
  "licensed s d = exists_row (license_of (sv_organization_id s) (sv_id s)) (licenses d)"

(* src api/routes.ts:3393-3401 activate/unlicensed *)
definition unlicensed_server :: "string \<Rightarrow> db \<Rightarrow> server_row option" where
  "unlicensed_server org d =
     (case sort_key sv_created_at (filter (\<lambda>s. live_in org s \<and> \<not> licensed s d) (servers d)) of [] \<Rightarrow> None | s # _ \<Rightarrow> Some s)"

datatype activation = Exceeded int int | Activated string string bool

(* src api/routes.ts:3392-3446 activate/transaction *)
definition activate_tx :: "string \<Rightarrow> string \<Rightarrow> string \<Rightarrow> string \<Rightarrow> string \<Rightarrow> license_info \<Rightarrow> time_ms \<Rightarrow> db \<Rightarrow> activation result \<times> db" where
  "activate_tx org uid i name token info now d =
     (let store = (\<lambda>sid. insert_license (new_license org sid uid token (lf_plan info) (lf_issued info) (lf_expires info))) in
      case unlicensed_server org d of
        Some s \<Rightarrow> and_then (store (sv_id s)) (\<lambda>_. give (Activated (sv_id s) (sv_name s) False)) d
      | None \<Rightarrow>
          (let used = used_servers org d; allowed = allowed_servers org d in
           if allowed \<le> used then (Inr (Exceeded used allowed), d)
           else and_then (insert_server (new_server i org name ''production'' now)) (\<lambda>_.
                and_then (store i) (\<lambda>_. give (Activated i name True))) d))"

definition fallback_name :: "string option \<Rightarrow> string" where
  "fallback_name n = (case n of None \<Rightarrow> ''Mon serveur FiveM'' | Some s \<Rightarrow> if js_trim s = [] then ''Mon serveur FiveM'' else js_trim s)"

(* src api/routes.ts:3373-3379 activate/alreadyUsed *)
definition key_used :: "string \<Rightarrow> db \<Rightarrow> bool" where
  "key_used token d = exists_row (\<lambda>l. li_token l = token) (licenses d)"

(* src api/routes.ts:3448-3463 activate/reply *)
definition activated_reply :: "api_env \<Rightarrow> request_actor \<Rightarrow> license_info \<Rightarrow> activation \<Rightarrow> world \<Rightarrow> api_reply result \<times> world" where
  "activated_reply x a info oc =
     (case oc of
        Exceeded used allowed \<Rightarrow>
          give (reply 402 [(''error'', JStr ''entitlement_exceeded''), (''limit'', JInt allowed), (''used'', JInt used)])
      | Activated sid nm fresh \<Rightarrow>
          and_then (audit x 2 a ''account.activated'' sid) (\<lambda>_.
          give (reply 201 [(''status'', JStr ''ok''), (''server'', JObj [(''id'', JStr sid), (''name'', JStr nm)]),
            (''plan'', JStr (lf_plan info)), (''bound'', JBool (lf_binding info \<noteq> ''any'')),
            (''expires_at'', JInt (lf_expires info * 1000))])))"

(* src api/routes.ts:3354-3464 activate *)
definition activate :: "api_deps \<Rightarrow> api_env \<Rightarrow> api_request \<Rightarrow> world \<Rightarrow> api_reply \<times> world" where
  "activate v x q w =
     handle_with (writes v x q Server_write w) (\<lambda>a.
       case activateSchema (body_or_empty q) of
         None \<Rightarrow> give invalid
       | Some (key, name) \<Rightarrow>
           (case verifyLicenseKey v (px_js x 0) key of
              None \<Rightarrow> give (fault_reply 422 ''invalid_license'')
            | Some info \<Rightarrow>
                and_then (platform_step x 0 (\<lambda>d. (Inr (key_used (js_trim key) d), d))) (\<lambda>used.
                if used then give (fault_reply 409 ''license_in_use'')
                else and_then (tenant_step x 1 (ra_organizationId a) (activate_tx (ra_organizationId a) (aw_userId (ra_user a))
                         (px_ids x 0) (fallback_name name) (js_trim key) info (px_now x 1))) (activated_reply x a info))))"

section \<open>The console of the platform\<close>

definition is_platform_admin :: "string \<Rightarrow> db \<Rightarrow> bool" where
  "is_platform_admin uid d = (map_option u_is_platform_admin (first_row (\<lambda>u. u_id u = uid) (users d)) = Some True)"

text \<open>The actor is the one of the session, with no check of the CSRF token.\<close>

(* src api/routes.ts:3476-3487 platformAdmin *)
definition platformAdmin :: "api_deps \<Rightarrow> api_env \<Rightarrow> api_request \<Rightarrow> world \<Rightarrow>
    (request_actor \<Rightarrow> world \<Rightarrow> api_reply result \<times> world) \<Rightarrow> api_reply \<times> world" where
  "platformAdmin v x q w work =
     handle_with (acts False v x q w) (\<lambda>a.
       and_then (plain_step x 0 (\<lambda>d. (Inr (is_platform_admin (aw_userId (ra_user a)) d), d))) (\<lambda>ok.
         if ok then work a else give (fault_reply 403 ''forbidden'')))"

definition organization_name :: "db \<Rightarrow> string \<Rightarrow> string" where
  "organization_name d org = coalesce_default (map_option og_name (first_row (\<lambda>o'. og_id o' = org) (organizations d))) []"

definition license_view :: "time_ms \<Rightarrow> license_row \<Rightarrow> json" where
  "license_view now l = JObj
     [(''plan'', JStr (li_plan l)), (''expires_at'', JInt (li_expires_at l)), (''days_left'', JInt (days_left (li_expires_at l) now)),
      (''expired'', JBool (li_expires_at l < now)), (''revoked'', JBool (li_revoked_at l \<noteq> None)),
      (''revoked_reason'', j_opt JStr (li_revoked_reason l))]"

definition admin_server_view :: "time_ms \<Rightarrow> db \<Rightarrow> server_row \<Rightarrow> json" where
  "admin_server_view now d s = JObj
     [(''id'', JStr (sv_id s)), (''organization_id'', JStr (sv_organization_id s)),
      (''organization_name'', JStr (organization_name d (sv_organization_id s))), (''name'', JStr (sv_name s)),
      (''environment'', JStr (sv_environment s)), (''state'', JStr (server_state_name (sv_state s))),
      (''last_heartbeat_at'', j_opt JInt (sv_last_heartbeat_at s)), (''players_online'', j_opt JInt (sv_players_online s)),
      (''server_fingerprint'', j_opt JStr (sv_fingerprint s)),
      (''license'', j_opt (license_view now) (first_row (license_of (sv_organization_id s) (sv_id s)) (licenses d)))]"

(* src api/routes.ts:3489-3542 admin/servers/get *)
definition adminServers :: "api_deps \<Rightarrow> api_env \<Rightarrow> api_request \<Rightarrow> world \<Rightarrow> api_reply \<times> world" where
  "adminServers v x q w =
     platformAdmin v x q w (\<lambda>a. platform_step x 1 (\<lambda>d.
       (Inr (reply 200 [(''servers'', JArr (map (admin_server_view (px_js x 0) d)
          (sort_key (\<lambda>s. organization_name d (sv_organization_id s)) (sort_key sv_name
             (filter (\<lambda>s. sv_deleted_at s = None \<and> organization_exists (sv_organization_id s) d) (servers d))))))]), d)))"

(* src api/routes.ts:3544-3549 adminLicenseSchema *)
definition adminLicenseSchema :: "json \<Rightarrow> (string \<times> int option) option" where
  "adminLicenseSchema j = do {
     fs \<leftarrow> z_object [''plan'', ''days''] j;
     plan \<leftarrow> z_default ''plan'' z_plan ''trial'' fs;
     days \<leftarrow> z_optional ''days'' (z_int 1 3650) fs;
     Some (plan, days)
   }"

(* src api/routes.ts:3564-3586 admin/license/transaction *)
definition admin_license_tx :: "api_deps \<Rightarrow> time_ms \<Rightarrow> string \<Rightarrow> string \<Rightarrow> string \<Rightarrow> int \<Rightarrow> db \<Rightarrow> (license_key \<times> bool) option result \<times> db" where
  "admin_license_tx v now uid sid plan days d =
     (case first_row (\<lambda>s. sv_id s = sid \<and> sv_deleted_at s = None) (servers d) of
        None \<Rightarrow> (Inr None, d)
      | Some s \<Rightarrow>
          (let binding = coalesce_default (sv_fingerprint s) ''any''; k = signLicense v now binding plan days in
           and_then (upsert_license unrevoke (keyed_license (sv_organization_id s) sid uid k)) (\<lambda>_. give (Some (k, binding \<noteq> ''any''))) d))"

(* src api/routes.ts:3551-3599 admin/license/post *)
definition adminIssueLicense :: "api_deps \<Rightarrow> api_env \<Rightarrow> api_request \<Rightarrow> world \<Rightarrow> api_reply \<times> world" where
  "adminIssueLicense v x q w =
     platformAdmin v x q w (\<lambda>a.
       case adminLicenseSchema (body_or_empty q) of
         None \<Rightarrow> give invalid
       | Some (plan, days) \<Rightarrow>
           and_then (platform_step x 1 (admin_license_tx v (px_js x 0) (aw_userId (ra_user a)) (pq_id q) plan
               (coalesce_default days (plan_days plan)))) (\<lambda>oc.
             case oc of
               None \<Rightarrow> give not_found
             | Some (k, bound) \<Rightarrow>
                 and_then (audit x 2 a ''admin.license.issued'' (pq_id q)) (\<lambda>_. give (reply 201 (license_reply k bound)))))"

(* src api/routes.ts:3604-3609 revokeSchema *)
definition revoke_reason :: "api_request \<Rightarrow> string option" where
  "revoke_reason q =
     coalesce_default (do { fs \<leftarrow> z_object [''reason''] (body_or_empty q); z_optional ''reason'' (z_string 0 200) fs }) None"

(* src api/routes.ts:3612-3619 revoke/transaction *)
definition revoke_license_tx :: "string \<Rightarrow> string \<Rightarrow> string option \<Rightarrow> time_ms \<Rightarrow> db \<Rightarrow> bool result \<times> db" where
  "revoke_license_tx uid sid reason now d =
     (Inr (exists_row (\<lambda>l. li_server_id l = sid) (licenses d)),
      d\<lparr>licenses := sql_update (\<lambda>l. li_server_id l = sid)
          (\<lambda>l. l\<lparr>li_revoked_at := Some now, li_revoked_reason := reason, li_revoked_by := Some uid\<rparr>) (licenses d)\<rparr>)"

(* src api/routes.ts:3605-3627 license/revoke *)
definition revokeLicense :: "api_deps \<Rightarrow> api_env \<Rightarrow> api_request \<Rightarrow> world \<Rightarrow> api_reply \<times> world" where
  "revokeLicense v x q w =
     platformAdmin v x q w (\<lambda>a.
       and_then (platform_step x 1 (revoke_license_tx (aw_userId (ra_user a)) (pq_id q) (revoke_reason q) (px_now x 1))) (\<lambda>ok.
         if \<not> ok then give not_found
         else and_then (audit x 2 a ''admin.license.revoked'' (pq_id q)) (\<lambda>_.
           give (reply 200 [(''status'', JStr ''ok''), (''revoked'', JBool True)]))))"

(* src api/routes.ts:3633-3640 restore/transaction *)
definition restore_license_tx :: "string \<Rightarrow> db \<Rightarrow> bool result \<times> db" where
  "restore_license_tx sid d =
     (Inr (exists_row (\<lambda>l. li_server_id l = sid) (licenses d)),
      d\<lparr>licenses := sql_update (\<lambda>l. li_server_id l = sid) unrevoke (licenses d)\<rparr>)"

(* src api/routes.ts:3630-3649 license/restore *)
definition restoreLicense :: "api_deps \<Rightarrow> api_env \<Rightarrow> api_request \<Rightarrow> world \<Rightarrow> api_reply \<times> world" where
  "restoreLicense v x q w =
     platformAdmin v x q w (\<lambda>a.
       and_then (platform_step x 1 (restore_license_tx (pq_id q))) (\<lambda>ok.
         if \<not> ok then give not_found
         else and_then (audit x 2 a ''admin.license.restored'' (pq_id q)) (\<lambda>_.
           give (reply 200 [(''status'', JStr ''ok''), (''revoked'', JBool False)]))))"

section \<open>The verdict\<close>

definition verdict_status :: "bool \<Rightarrow> string" where
  "verdict_status revoked = (if revoked then ''revoked'' else ''active'')"

(* src api/routes.ts:3659-3663 signVerdict *)
definition signVerdict :: "api_deps \<Rightarrow> time_ms \<Rightarrow> string \<Rightarrow> bool \<Rightarrow> string" where
  "signVerdict v now fp revoked =
     signed_text v (join_with ''|'' [''lv1'', fp, verdict_status revoked, string_of_int (now div 1000)])"

definition fingerprint_ok :: "string \<Rightarrow> bool" where
  "fingerprint_ok s = matches_class hex_chars 16 16 s"

text \<open>Both parameters are checked; the first of them that is there counts.\<close>

(* src api/routes.ts:3664-3667 verifyQuerySchema *)
definition verify_fingerprint :: "(string \<times> string) list \<Rightarrow> string option" where
  "verify_fingerprint qs =
     (let s = map_of qs ''server''; f = map_of qs ''fingerprint'' in
      if unless_given s fingerprint_ok \<and> unless_given f fingerprint_ok then coalesce s f else None)"

text \<open>The first live server of the fingerprint that has a licence; the statement orders them in no way.\<close>

(* src api/routes.ts:3678-3685 license/verify/row *)
definition verdict_row :: "string \<Rightarrow> db \<Rightarrow> license_row option" where
  "verdict_row fp d =
     first_row (\<lambda>l. exists_row (\<lambda>s. sv_fingerprint s = Some fp \<and> sv_deleted_at s = None \<and>
        license_of (sv_organization_id s) (sv_id s) l) (servers d)) (licenses d)"

(* src api/routes.ts:3668-3694 license/verify *)
definition verifyLicense :: "api_deps \<Rightarrow> api_env \<Rightarrow> api_request \<Rightarrow> world \<Rightarrow> api_reply \<times> world" where
  "verifyLicense v x q w =
     (case verify_fingerprint (pq_query q) of
        None \<Rightarrow> (invalid, w)
      | Some fp \<Rightarrow>
          settle (and_then (platform_step x 0 (\<lambda>d. (Inr (verdict_row fp d), d))) (\<lambda>row.
            let revoked = (case row of None \<Rightarrow> False | Some l \<Rightarrow> li_revoked_at l \<noteq> None) in
            give (reply 200 [(''verdict'', JStr (signVerdict v (px_js x 0) fp revoked)),
                             (''status'', JStr (verdict_status revoked))])) w))"

end
