(* ===== verification/License_Facts.thy ===== *)
theory License_Facts
  imports Api_Licenses Histories Capture_Facts
begin

text \<open>
  What a signed key proves, what activation does with it, who may withdraw a licence and for how long it stays
  withdrawn.
\<close>

section \<open>Signing and verifying\<close>

lemma cut_last_none: "c \<notin> set s \<Longrightarrow> cut_last c s = None"
  by (induction s) auto

lemma cut_last_append: "c \<notin> set post \<Longrightarrow> cut_last c (pre @ c # post) = Some (pre, post)"
  by (induction pre) (auto simp: cut_last_none)

lemma cut_last_Some: "cut_last c s = Some (pre, post) \<Longrightarrow> s = pre @ c # post \<and> c \<notin> set post"
proof (induction s arbitrary: pre)
  case (Cons d s)
  show ?case
  proof (cases "cut_last c s")
    case None
    then have "c \<notin> set s" by (induction s) (auto split: option.splits if_splits)
    with None Cons.prems show ?thesis by (auto split: if_splits)
  qed (use Cons in auto)
qed simp

lemma hex_free: "c \<notin> set hex_chars \<Longrightarrow> c \<notin> set (hex_of_bytes bs)"
  using hex_of_bytes_class [of bs] by (auto simp: all_in_iff)

lemma signed_text_parts:
  "cut_last (CHR ''~'') (signed_text v payload) = Some (payload, hmacSha256Hex (pd_crypto v) (pd_license_secret v) payload)"
proof -
  have "CHR ''~'' \<notin> set (hmacSha256Hex (pd_crypto v) (pd_license_secret v) payload)"
    by (simp add: hmacSha256Hex_def hex_free hex_chars_def)
  from cut_last_append [OF this, of payload] show ?thesis by (simp add: signed_text_def)
qed

lemma hex_not_space: "c \<in> set hex_chars \<Longrightarrow> \<not> js_space c"
  by (auto simp: hex_chars_def js_space_def)

lemma signed_text_trimmed:
  assumes "digest_laws (pd_crypto v)" and "payload \<noteq> []" and "\<not> js_space (hd payload)"
  shows "js_trim (signed_text v payload) = signed_text v payload"
proof -
  let ?m = "hmacSha256Hex (pd_crypto v) (pd_license_secret v) payload"
  have "?m \<noteq> []" using length_hmacSha256Hex [OF assms(1), of "pd_license_secret v" payload] by auto
  then have "last ?m \<in> set hex_chars"
    using hex_of_bytes_class by (metis all_in_iff hmacSha256Hex_def last_in_set subsetD)
  with \<open>?m \<noteq> []\<close> have "\<not> js_space (last (signed_text v payload))" by (simp add: signed_text_def hex_not_space)
  with assms(2,3) show ?thesis by (intro js_trim_id) (simp_all add: signed_text_def)
qed

lemma payload_split:
  assumes "CHR ''|'' \<notin> set binding" and "CHR ''|'' \<notin> set plan"
  shows "split_on (CHR ''|'') (license_payload binding plan i e) = [''v1'', binding, plan, string_of_int i, string_of_int e]"
proof -
  have "CHR ''|'' \<notin> set (string_of_int n)" for n by (rule string_of_int_notin) (simp_all add: digit_chars_def)
  with assms show ?thesis unfolding license_payload_def by (intro split_on_join) auto
qed

lemma bindings_free: "binding_ok s \<Longrightarrow> CHR ''|'' \<notin> set s"
  by (auto simp: binding_ok_def hex_chars_def dest: matches_class_notin [where c = "CHR ''|''"])

lemma plans_free: "s \<in> set license_plans \<Longrightarrow> CHR ''|'' \<notin> set s"
  by (auto simp: license_plans_def)

lemma signed_key_verified:
  assumes laws: "digest_laws (pd_crypto v)" and ok: "binding_ok binding" "plan \<in> set license_plans"
    and days: "0 \<le> days" and span: "0 \<le> now" "now div 1000 + days * 86400 < 10 ^ 15"
  shows "verifyLicenseKey v t (lk_token (signLicense v now binding plan days)) =
    (if t < (now div 1000 + days * 86400) * 1000
     then Some \<lparr>lf_binding = binding, lf_plan = plan, lf_issued = now div 1000, lf_expires = now div 1000 + days * 86400\<rparr>
     else None)"
proof -
  let ?i = "now div 1000" and ?e = "now div 1000 + days * 86400"
  let ?p = "license_payload binding plan ?i ?e"
  have p: "?p = CHR ''v'' # CHR ''1'' # CHR ''|'' # join_with ''|'' [binding, plan, string_of_int ?i, string_of_int ?e]"
    by (simp add: license_payload_def)
  have "0 \<le> ?i" using span(1) by simp
  then have "js_integer (number_other (pd_js v)) (string_of_int ?i) = Some ?i" "js_integer (number_other (pd_js v)) (string_of_int ?e) = Some ?e"
    using days span(2) by (intro js_integer_string_of_int; simp)+
  moreover have "js_trim (signed_text v ?p) = signed_text v ?p"
    by (rule signed_text_trimmed [OF laws]) (simp_all add: p js_space_def)
  ultimately show ?thesis
    using ok payload_split [OF bindings_free [OF ok(1)] plans_free [OF ok(2)], of ?i ?e]
    by (auto simp: verifyLicenseKey_def signLicense_def Let_def signed_text_parts p not_less)
qed

text \<open>C35: A key the platform signs for a known plan and a well-formed binding is verified, with exactly what it was
  signed for, at any time before its end; from its end on it is refused.\<close>

theorem license_roundtrip:
  assumes "digest_laws (pd_crypto v)" "binding_ok binding" "plan \<in> set license_plans" "0 \<le> days" "0 \<le> now"
    and "now div 1000 + days * 86400 < 10 ^ 15"
  shows "verifyLicenseKey v t (lk_token (signLicense v now binding plan days)) =
    (if t < (now div 1000 + days * 86400) * 1000
     then Some \<lparr>lf_binding = binding, lf_plan = plan, lf_issued = now div 1000, lf_expires = now div 1000 + days * 86400\<rparr>
     else None)"
  by (rule signed_key_verified [OF assms])

text \<open>A key that is verified carries the HMAC of its text under the secret of the platform, a known plan, a
  well-formed binding and an end that has not come.\<close>

theorem verified_key_is_signed:
  assumes "verifyLicenseKey v t key = Some info"
  shows "\<exists>payload signature i e. js_trim key = payload @ ''~'' @ signature \<and>
    c_sha256 (pd_crypto v) (utf8 signature) = c_sha256 (pd_crypto v) (utf8 (hmacSha256Hex (pd_crypto v) (pd_license_secret v) payload)) \<and>
    split_on (CHR ''|'') payload = [''v1'', lf_binding info, lf_plan info, i, e] \<and>
    js_integer (number_other (pd_js v)) i = Some (lf_issued info) \<and> js_integer (number_other (pd_js v)) e = Some (lf_expires info) \<and>
    binding_ok (lf_binding info) \<and> lf_plan info \<in> set license_plans \<and> t < lf_expires info * 1000"
proof -
  obtain payload signature where cut: "cut_last (CHR ''~'') (js_trim key) = Some (payload, signature)"
    using assms by (auto simp: verifyLicenseKey_def split: option.splits)
  have sig: "constantTimeEqual (pd_crypto v) signature (hmacSha256Hex (pd_crypto v) (pd_license_secret v) payload)"
    using assms cut by (auto simp: verifyLicenseKey_def split: if_splits)
  obtain ver b p i e where parts: "split_on (CHR ''|'') payload = [ver, b, p, i, e]"
    using assms cut sig by (auto simp: verifyLicenseKey_def split: if_splits list.splits)
  from assms cut sig parts have "ver = ''v1''" "binding_ok (lf_binding info)" "lf_plan info \<in> set license_plans" "t < lf_expires info * 1000"
    "b = lf_binding info" "p = lf_plan info" "js_integer (number_other (pd_js v)) i = Some (lf_issued info)"
    "js_integer (number_other (pd_js v)) e = Some (lf_expires info)"
    by (auto simp: verifyLicenseKey_def split: if_splits option.splits)
  with parts sig cut_last_Some [OF cut] show ?thesis
    by (intro exI [of _ payload] exI [of _ signature] exI [of _ i] exI [of _ e]) (simp add: constantTimeEqual_def)
qed

section \<open>Activation\<close>

definition keeps_tokens :: "db \<Rightarrow> db \<Rightarrow> bool" where
  "keeps_tokens d d' = (licenses d' = licenses d \<and> servers d' = servers d \<and> entitlements d' = entitlements d \<and> subscriptions d' = subscriptions d)"

lemma keeps_tokens_sessions: "only_sessions w w' \<Longrightarrow> keeps_tokens (wd_db w) (wd_db w')"
  by (auto simp: only_sessions_def keeps_tokens_def)

text \<open>What a reply 201 says of the run: the key verified, no licence carried it, the transaction stored it.\<close>

definition activation_ran :: "api_deps \<Rightarrow> api_env \<Rightarrow> api_request \<Rightarrow> world \<Rightarrow> world \<Rightarrow> bool" where
  "activation_ran v x q w w1 = (\<exists>a w0 key name info sid nm fresh d1.
     writes v x q Server_write w = (Inr a, w0) \<and> activateSchema (body_or_empty q) = Some (key, name) \<and>
     verifyLicenseKey v (px_js x 0) key = Some info \<and> \<not> key_used (js_trim key) (wd_db w0) \<and>
     keeps_tokens (wd_db w) (wd_db w0) \<and> keeps_tokens d1 (wd_db w1) \<and>
     activate_tx (ra_organizationId a) (aw_userId (ra_user a)) (px_ids x 0) (fallback_name name) (js_trim key) info (px_now x 1) (wd_db w0)
       = (Inr (Activated sid nm fresh), d1))"

lemma activated_reply_wp:
  fixes P :: "world \<Rightarrow> bool"
  assumes "\<And>sid nm fresh w2. oc = Activated sid nm fresh \<Longrightarrow> keeps_tokens (wd_db w1) (wd_db w2) \<Longrightarrow> P w2"
  shows "wp (activated_reply x a info oc) (\<lambda>r w'. ar_status r = 201 \<longrightarrow> P w') (\<lambda>_. True) w1"
proof (cases oc)
  case (Activated sid nm fresh)
  show ?thesis unfolding activated_reply_def Activated activation.case wp
    by (rule wp_audit) (auto intro!: assms [OF Activated] simp: keeps_tokens_def append_audit_def)
qed (simp add: activated_reply_def wp reply_def)

lemma activate_201:
  assumes "activate v x q w = (r, w1)" and "ar_status r = 201"
  shows "activation_ran v x q w w1"
proof -
  define Q where "Q = (\<lambda>(r :: api_reply) (w' :: world). ar_status r = 201 \<longrightarrow> activation_ran v x q w w')"
  have "Q r w1"
  proof (rule routed [OF assms(1) [unfolded activate_def]])
    fix a w0
    assume g: "writes v x q Server_write w = (Inr a, w0)"
    then have s: "keeps_tokens (wd_db w) (wd_db w0)"
      using guards_sessions(1) [of w v x q Server_write] by (simp add: keeps_tokens_sessions)
    have done_with: "wp (tenant_step x 1 (ra_organizationId a) (activate_tx (ra_organizationId a) (aw_userId (ra_user a))
          (px_ids x 0) (fallback_name name) (js_trim key) info (px_now x 1))) (\<lambda>oc. wp (activated_reply x a info oc) Q (\<lambda>_. True)) (\<lambda>_. True) w0"
      if k: "activateSchema (body_or_empty q) = Some (key, name)" "verifyLicenseKey v (px_js x 0) key = Some info"
        "\<not> key_used (js_trim key) (wd_db w0)" for key name info
    proof (rule wp_tenant)
      fix oc d1
      assume t: "activate_tx (ra_organizationId a) (aw_userId (ra_user a)) (px_ids x 0) (fallback_name name) (js_trim key) info
        (px_now x 1) (wd_db w0) = (Inr oc, d1)"
      show "wp (activated_reply x a info oc) Q (\<lambda>_. True) (w0\<lparr>wd_db := d1\<rparr>)" unfolding Q_def
      proof (rule activated_reply_wp)
        fix sid nm fresh and w2 :: world
        assume "oc = Activated sid nm fresh" "keeps_tokens (wd_db (w0\<lparr>wd_db := d1\<rparr>)) (wd_db w2)"
        with g s k t have "writes v x q Server_write w = (Inr a, w0) \<and> activateSchema (body_or_empty q) = Some (key, name) \<and>
          verifyLicenseKey v (px_js x 0) key = Some info \<and> \<not> key_used (js_trim key) (wd_db w0) \<and>
          keeps_tokens (wd_db w) (wd_db w0) \<and> keeps_tokens d1 (wd_db w2) \<and>
          activate_tx (ra_organizationId a) (aw_userId (ra_user a)) (px_ids x 0) (fallback_name name) (js_trim key) info (px_now x 1) (wd_db w0)
            = (Inr (Activated sid nm fresh), d1)" by simp
        then show "activation_ran v x q w w2" unfolding activation_ran_def by blast
      qed
    qed simp
    have "\<And>e w'. Q (refused (Other_access e)) w'" by (simp add: Q_def refused_def toHttpError_def fault_reply_def reply_def)
    then show "wp (case activateSchema (body_or_empty q) of None \<Rightarrow> give invalid
       | Some (key, name) \<Rightarrow>
           (case verifyLicenseKey v (px_js x 0) key of
              None \<Rightarrow> give (fault_reply 422 ''invalid_license'')
            | Some info \<Rightarrow>
                and_then (platform_step x 0 (\<lambda>d. (Inr (key_used (js_trim key) d), d))) (\<lambda>used.
                if used then give (fault_reply 409 ''license_in_use'')
                else and_then (tenant_step x 1 (ra_organizationId a) (activate_tx (ra_organizationId a) (aw_userId (ra_user a))
                         (px_ids x 0) (fallback_name name) (js_trim key) info (px_now x 1))) (activated_reply x a info))))
       Q (\<lambda>w2. \<forall>e. Q (refused (Other_access e)) w2) w0"
      by (auto simp: wp Q_def invalid_def fault_reply_def reply_def split: option.split
        intro!: wp_platform done_with [unfolded Q_def One_nat_def])
  qed (simp add: Q_def refused_def toHttpError_def fault_reply_def reply_def split: access_error.split)
  with assms(2) show ?thesis by (simp add: Q_def)
qed

text \<open>The routes of the licences, and what may run between two requests: any number of a set of them.\<close>

datatype license_route =
  Key_issue | Key_read | Key_generate | Key_activate | Console_read | Console_issue | Console_revoke | Console_restore | Verdict_read

definition run_license :: "license_route \<Rightarrow> api_deps \<Rightarrow> api_env \<Rightarrow> api_request \<Rightarrow> world \<Rightarrow> api_reply \<times> world" where
  "run_license k = (case k of
     Key_issue \<Rightarrow> issueLicense | Key_read \<Rightarrow> getLicense | Key_generate \<Rightarrow> generateLicense | Key_activate \<Rightarrow> activate
   | Console_read \<Rightarrow> adminServers | Console_issue \<Rightarrow> adminIssueLicense | Console_revoke \<Rightarrow> revokeLicense
   | Console_restore \<Rightarrow> restoreLicense | Verdict_read \<Rightarrow> verifyLicense)"

inductive license_step :: "license_route set \<Rightarrow> world \<Rightarrow> world \<Rightarrow> bool" for A where
  license_step: "k \<in> A \<Longrightarrow> license_step A w (snd (run_license k v x q w))"

text \<open>A relation that the transactions of these routes keep is kept by any sequence of them.\<close>

locale license_relation = db_relation S for S :: "db \<Rightarrow> db \<Rightarrow> bool" +
  fixes A :: "license_route set"
  assumes issue_keeps: "Key_issue \<in> A \<Longrightarrow> tx_keeps S (issue_license_tx v now org uid sid plan fp)"
    and activate_keeps: "Key_activate \<in> A \<Longrightarrow> tx_keeps S (activate_tx org uid i name token info now)"
    and console_keeps: "Console_issue \<in> A \<Longrightarrow> tx_keeps S (admin_license_tx v now uid sid plan days)"
    and revoke_keeps: "Console_revoke \<in> A \<Longrightarrow> tx_keeps S (revoke_license_tx uid sid reason now)"
    and restore_keeps: "Console_restore \<in> A \<Longrightarrow> tx_keeps S (restore_license_tx sid)"
begin

lemma keeps_read: "tx_keeps S (\<lambda>d. (Inr (f d), d))"
  by (simp add: tx_keeps_def S_refl)

lemma platformAdmin_keeps: "(\<And>a. db_keeps S (work a)) \<Longrightarrow> S (wd_db w) (wd_db (snd (platformAdmin v x q w work)))"
  unfolding platformAdmin_def by (intro route_keeps keeps keeps_plain keeps_read)

lemma activated_keeps: "db_keeps S (activated_reply x a info oc)"
  unfolding activated_reply_def by (cases oc) (simp_all add: keeps)

lemma step_keeps:
  assumes "license_step A w w'"
  shows "S (wd_db w) (wd_db w')"
  using assms
proof cases
  case (license_step k v x q)
  have "S (wd_db w) (wd_db (snd (m w)))" if "db_keeps S m" for m :: "world \<Rightarrow> api_reply result \<times> world"
    using that by (simp add: db_keeps_def keeps_rel_def)
  note settled = this
  show ?thesis
  proof (cases k)
    case Key_issue
    with license_step show ?thesis by (auto simp: run_license_def issueLicense_def intro!: route_keeps keeps keeps_tenant issue_keeps)
  next
    case Key_read
    with license_step show ?thesis by (auto simp: run_license_def getLicense_def intro!: route_keeps keeps_tenant keeps_read)
  next
    case Key_generate
    with license_step show ?thesis by (auto simp: run_license_def generateLicense_def Let_def intro!: route_keeps keeps)
  next
    case Key_activate
    with license_step show ?thesis
      by (auto simp: run_license_def activate_def intro!: route_keeps keeps keeps_platform keeps_read keeps_tenant activate_keeps activated_keeps)
  next
    case Console_read
    with license_step show ?thesis
      by (auto simp: run_license_def adminServers_def intro!: platformAdmin_keeps keeps_platform keeps_read)
  next
    case Console_issue
    with license_step show ?thesis
      by (auto simp: run_license_def adminIssueLicense_def intro!: platformAdmin_keeps keeps keeps_platform console_keeps)
  next
    case Console_revoke
    with license_step show ?thesis
      by (auto simp: run_license_def revokeLicense_def intro!: platformAdmin_keeps keeps keeps_platform revoke_keeps)
  next
    case Console_restore
    with license_step show ?thesis
      by (auto simp: run_license_def restoreLicense_def intro!: platformAdmin_keeps keeps keeps_platform restore_keeps)
  next
    case Verdict_read
    with license_step show ?thesis
      by (auto simp: run_license_def verifyLicense_def Let_def S_refl split: option.split intro!: settled keeps keeps_platform keeps_read)
  qed
qed

lemma steps_keep: "(license_step A)\<^sup>*\<^sup>* w w' \<Longrightarrow> S (wd_db w) (wd_db w')"
  by (induction rule: rtranclp_induct) (blast intro: S_refl S_trans step_keeps)+

end

text \<open>Keys stay stored, except where a key is signed anew for the server.\<close>

lemma image_sql_update: "(\<And>r. g (f r) = g r) \<Longrightarrow> g ` set (sql_update P f rows) = g ` set rows"
  by (induction rows) auto

definition tokens_kept :: "db \<Rightarrow> db \<Rightarrow> bool" where
  "tokens_kept d d' = (li_token ` set (licenses d) \<subseteq> li_token ` set (licenses d'))"

lemma insert_license_Inr:
  assumes "insert_license l d = (Inr u, d')"
  shows "d' = d\<lparr>licenses := licenses d @ [l]\<rparr>" "\<not> exists_row (license_of (li_organization_id l) (li_server_id l)) (licenses d)"
  using assms by (auto simp: insert_license_def split: if_splits)

text \<open>An activation adds one licence, for a server that had none or for a new one within the quota.\<close>

lemma activate_tx_Inr:
  assumes "activate_tx org uid i name token info now d = (Inr (Activated sid nm fresh), d')"
  shows "licenses d' = licenses d @ [new_license org sid uid token (lf_plan info) (lf_issued info) (lf_expires info)]"
    "\<not> exists_row (license_of org sid) (licenses d)"
    "if fresh then sid = i \<and> used_servers org d < allowed_servers org d \<and> servers d' = servers d @ [new_server i org name ''production'' now]
     else servers d' = servers d \<and> (\<exists>s \<in> set (servers d). live_server org sid s)"
proof -
  have "licenses d' = licenses d @ [new_license org sid uid token (lf_plan info) (lf_issued info) (lf_expires info)] \<and>
    \<not> exists_row (license_of org sid) (licenses d) \<and>
    (if fresh then sid = i \<and> used_servers org d < allowed_servers org d \<and> servers d' = servers d @ [new_server i org name ''production'' now]
     else servers d' = servers d \<and> (\<exists>s \<in> set (servers d). live_server org sid s))"
  proof (cases "unlicensed_server org d")
    case (Some s)
    then obtain rest where "sort_key sv_created_at (filter (\<lambda>s. live_in org s \<and> \<not> licensed s d) (servers d)) = s # rest"
      by (auto simp: unlicensed_server_def split: list.splits)
    from arg_cong [OF this, of set] have "s \<in> {s \<in> set (servers d). live_in org s \<and> \<not> licensed s d}" by simp
    then have "s \<in> set (servers d)" "live_in org s" by auto
    moreover obtain u where "insert_license (new_license org (sv_id s) uid token (lf_plan info) (lf_issued info) (lf_expires info)) d = (Inr u, d')"
      and out: "sid = sv_id s" "\<not> fresh"
      using assms Some by (auto simp: activate_tx_def Let_def give_def elim!: and_then_Inr)
    note insert_license_Inr [OF this(1)]
    ultimately show ?thesis using out by (auto simp: new_license_def live_server_def live_in_def)
  next
    case None
    obtain d1 u u' where "insert_server (new_server i org name ''production'' now) d = (Inr u, d1)"
      and l: "insert_license (new_license org i uid token (lf_plan info) (lf_issued info) (lf_expires info)) d1 = (Inr u', d')"
      and out: "sid = i" "fresh" "used_servers org d < allowed_servers org d"
      using assms None by (auto simp: activate_tx_def Let_def give_def split: if_splits elim!: and_then_Inr)
    then have "d1 = d\<lparr>servers := servers d @ [new_server i org name ''production'' now]\<rparr>"
      by (auto simp: insert_server_def split: if_splits)
    with insert_license_Inr [OF l] out show ?thesis by (simp add: new_license_def)
  qed
  then show "licenses d' = licenses d @ [new_license org sid uid token (lf_plan info) (lf_issued info) (lf_expires info)]"
    "\<not> exists_row (license_of org sid) (licenses d)"
    "if fresh then sid = i \<and> used_servers org d < allowed_servers org d \<and> servers d' = servers d @ [new_server i org name ''production'' now]
     else servers d' = servers d \<and> (\<exists>s \<in> set (servers d). live_server org sid s)" by blast+
qed

lemma activate_tx_licenses:
  assumes "activate_tx org uid i name token info now d = (Inr r, d')"
  obtains "licenses d' = licenses d" "servers d' = servers d"
  | sid nm fresh where "r = Activated sid nm fresh"
proof (cases r)
  case (Exceeded u a)
  with assms have "d' = d" by (auto simp: activate_tx_def Let_def give_def split: option.splits if_splits elim!: and_then_Inr)
  with that(1) show thesis by simp
qed (rule that(2))

interpretation tokens: license_relation tokens_kept "- {Key_issue, Console_issue}"
proof
  show "tx_keeps tokens_kept (activate_tx org uid i name token info now)" for org uid i name token info now
  proof (rule tx_keepsI)
    fix d r d'
    assume a: "activate_tx org uid i name token info now d = (Inr r, d')"
    show "tokens_kept d d'"
      by (rule activate_tx_licenses [OF a]) (use activate_tx_Inr(1) a in \<open>auto simp: tokens_kept_def\<close>)
  qed
next
  show "tx_keeps tokens_kept (revoke_license_tx uid sid reason now)" for uid sid reason now
    by (auto simp: tx_keeps_def tokens_kept_def revoke_license_tx_def image_sql_update)
  show "tx_keeps tokens_kept (restore_license_tx sid)" for sid
    by (auto simp: tx_keeps_def tokens_kept_def restore_license_tx_def unrevoke_def image_sql_update)
qed (auto simp: tokens_kept_def append_audit_def)

lemma activate_spent:
  assumes "activate v x q w = (r, w1)" and "activateSchema (body_or_empty q) = Some (key, name)" and "key_used (js_trim key) (wd_db w)"
  shows "ar_status r \<noteq> 201 \<and> licenses (wd_db w1) = licenses (wd_db w) \<and> servers (wd_db w1) = servers (wd_db w)"
proof -
  define Q where "Q = (\<lambda>(r :: api_reply) (w' :: world).
    ar_status r \<noteq> 201 \<and> licenses (wd_db w') = licenses (wd_db w) \<and> servers (wd_db w') = servers (wd_db w))"
  have "Q r w1"
  proof (rule routed [OF assms(1) [unfolded activate_def]])
    fix e w0
    assume g: "writes v x q Server_write w = (Inl e, w0)"
    then show "Q (refused e) w0" using guards_sessions(1) [of w v x q Server_write] by (auto simp: Q_def only_sessions_def)
  next
    fix a w0
    assume g: "writes v x q Server_write w = (Inr a, w0)"
    then have same: "licenses (wd_db w0) = licenses (wd_db w)" "servers (wd_db w0) = servers (wd_db w)"
      using guards_sessions(1) [of w v x q Server_write] by (auto simp: only_sessions_def)
    with assms(3) have "key_used (js_trim key) (wd_db w0)" by (simp add: key_used_def)
    with assms(2) same show "wp (case activateSchema (body_or_empty q) of None \<Rightarrow> give invalid
       | Some (key, name) \<Rightarrow>
           (case verifyLicenseKey v (px_js x 0) key of
              None \<Rightarrow> give (fault_reply 422 ''invalid_license'')
            | Some info \<Rightarrow>
                and_then (platform_step x 0 (\<lambda>d. (Inr (key_used (js_trim key) d), d))) (\<lambda>used.
                if used then give (fault_reply 409 ''license_in_use'')
                else and_then (tenant_step x 1 (ra_organizationId a) (activate_tx (ra_organizationId a) (aw_userId (ra_user a))
                         (px_ids x 0) (fallback_name name) (js_trim key) info (px_now x 1))) (activated_reply x a info))))
       Q (\<lambda>w2. \<forall>e. Q (refused (Other_access e)) w2) w0"
      by (auto simp: wp Q_def split: option.split intro!: wp_platform)
  qed
  then show ?thesis by (simp add: Q_def)
qed

lemma key_used_image: "key_used token d \<longleftrightarrow> token \<in> li_token ` set (licenses d)"
  by (auto simp: key_used_def exists_row_iff)

text \<open>The effect of an activation: a new licence with the key, on a server of the organization that is live.\<close>

definition key_activated :: "string \<Rightarrow> license_info \<Rightarrow> db \<Rightarrow> db \<Rightarrow> bool" where
  "key_activated key info d d' = (\<exists>l. licenses d' = licenses d @ [l] \<and> li_token l = js_trim key \<and> li_plan l = lf_plan info \<and>
     li_expires_at l = lf_expires info * 1000 \<and> li_revoked_at l = None \<and> js_trim key \<notin> li_token ` set (licenses d) \<and>
     \<not> exists_row (license_of (li_organization_id l) (li_server_id l)) (licenses d) \<and>
     (servers d' = servers d \<and> (\<exists>s \<in> set (servers d). live_server (li_organization_id l) (li_server_id l) s)
      \<or> used_servers (li_organization_id l) d < allowed_servers (li_organization_id l) d \<and>
        (\<exists>s. servers d' = servers d @ [s] \<and> live_server (li_organization_id l) (li_server_id l) s)))"

lemma activate_201_effect:
  assumes "activate v x q w = (r, w1)" and "ar_status r = 201" and "activateSchema (body_or_empty q) = Some (key, name)"
  obtains info where "verifyLicenseKey v (px_js x 0) key = Some info" "key_activated key info (wd_db w) (wd_db w1)"
proof -
  obtain a :: request_actor and w0 :: world and info sid nm fresh d1 where ran: "verifyLicenseKey v (px_js x 0) key = Some info" "\<not> key_used (js_trim key) (wd_db w0)"
    and kept: "keeps_tokens (wd_db w) (wd_db w0)" "keeps_tokens d1 (wd_db w1)"
    and tx: "activate_tx (ra_organizationId a) (aw_userId (ra_user a)) (px_ids x 0) (fallback_name name) (js_trim key) info (px_now x 1) (wd_db w0)
       = (Inr (Activated sid nm fresh), d1)"
    using activate_201 [OF assms(1,2)] assms(3) unfolding activation_ran_def by (auto simp del: One_nat_def)
  define l where "l = new_license (ra_organizationId a) sid (aw_userId (ra_user a)) (js_trim key) (lf_plan info) (lf_issued info) (lf_expires info)"
  have quota: "used_servers o' (wd_db w0) = used_servers o' (wd_db w)" "allowed_servers o' (wd_db w0) = allowed_servers o' (wd_db w)" for o'
    using kept(1) unfolding keeps_tokens_def used_servers_def allowed_servers_def by (elim conjE, simp only:)+
  have "key_activated key info (wd_db w) (wd_db w1)" unfolding key_activated_def
  proof (intro exI [of _ l] conjI)
    show "licenses (wd_db w1) = licenses (wd_db w) @ [l]" using activate_tx_Inr(1) [OF tx] kept by (simp add: l_def keeps_tokens_def)
    show "js_trim key \<notin> li_token ` set (licenses (wd_db w))"
      using ran(2) kept(1) by (simp add: key_used_image keeps_tokens_def)
    show "\<not> exists_row (license_of (li_organization_id l) (li_server_id l)) (licenses (wd_db w))"
      using activate_tx_Inr(2) [OF tx] kept(1) by (simp add: l_def new_license_def keeps_tokens_def)
    show "servers (wd_db w1) = servers (wd_db w) \<and> (\<exists>s \<in> set (servers (wd_db w)). live_server (li_organization_id l) (li_server_id l) s)
       \<or> used_servers (li_organization_id l) (wd_db w) < allowed_servers (li_organization_id l) (wd_db w) \<and>
         (\<exists>s. servers (wd_db w1) = servers (wd_db w) @ [s] \<and> live_server (li_organization_id l) (li_server_id l) s)"
      using activate_tx_Inr(3) [OF tx] kept
      by (auto simp: l_def new_license_def keeps_tokens_def quota live_server_def new_server_def split: if_splits)
  qed (simp_all add: l_def new_license_def)
  with ran(1) show thesis by (rule that)
qed

text \<open>C9: An activation answered 201 adds one licence, with the key as it was paid, its plan and its end, for a server of the
  organization that had none or for one new server within the quota; no licence carried the key. Whatever
  activations, revocations, restorations and readings follow, in any organization, the key activates nothing a second
  time.\<close>

theorem key_activates_once:
  assumes first: "activate v x q w = (r, w1)" "ar_status r = 201" "activateSchema (body_or_empty q) = Some (key, name)"
    and between: "(license_step (- {Key_issue, Console_issue}))\<^sup>*\<^sup>* w1 w2"
    and again: "activate v y q' w2 = (r', w3)" "activateSchema (body_or_empty q') = Some (key', name')" "js_trim key' = js_trim key"
  shows "(\<exists>info. verifyLicenseKey v (px_js x 0) key = Some info \<and> key_activated key info (wd_db w) (wd_db w1)) \<and>
    ar_status r' \<noteq> 201 \<and> licenses (wd_db w3) = licenses (wd_db w2) \<and> servers (wd_db w3) = servers (wd_db w2)"
proof -
  obtain info where info: "verifyLicenseKey v (px_js x 0) key = Some info" "key_activated key info (wd_db w) (wd_db w1)"
    using activate_201_effect [OF first] by blast
  moreover have "tokens_kept (wd_db w1) (wd_db w2)" using between by (rule tokens.steps_keep)
  ultimately have "key_used (js_trim key') (wd_db w2)"
    using again(3) by (auto simp: tokens_kept_def key_activated_def key_used_image)
  with info activate_spent [OF again(1,2)] show ?thesis by blast
qed

section \<open>Withdrawal\<close>

text \<open>The live server of a fingerprint is this one, it has a licence, and its licences are revoked.\<close>

definition sole_server :: "string \<Rightarrow> string \<Rightarrow> string \<Rightarrow> db \<Rightarrow> bool" where
  "sole_server fp org sid d = ((\<exists>s \<in> set (servers d). live_server org sid s \<and> sv_fingerprint s = Some fp) \<and>
     (\<forall>s \<in> set (servers d). sv_fingerprint s = Some fp \<and> sv_deleted_at s = None \<longrightarrow> live_server org sid s) \<and>
     exists_row (license_of org sid) (licenses d))"

definition switched_off :: "string \<Rightarrow> string \<Rightarrow> string \<Rightarrow> db \<Rightarrow> bool" where
  "switched_off fp org sid d = (sole_server fp org sid d \<and>
     (\<forall>l \<in> set (licenses d). license_of org sid l \<longrightarrow> li_revoked_at l \<noteq> None))"

definition stays_off :: "string \<Rightarrow> string \<Rightarrow> string \<Rightarrow> db \<Rightarrow> db \<Rightarrow> bool" where
  "stays_off fp org sid d d' = (switched_off fp org sid d \<longrightarrow> switched_off fp org sid d')"

text \<open>A statement on the licences leaves the server off when it keeps its rows, revoked, and adds none for it.\<close>

lemma stays_offI:
  assumes "servers d' = servers d"
    and "\<And>l. l \<in> set (licenses d) \<Longrightarrow> license_of org sid l \<Longrightarrow> exists_row (license_of org sid) (licenses d')"
    and "\<And>l'. exists_row (license_of org sid) (licenses d) \<Longrightarrow> (\<And>l. l \<in> set (licenses d) \<Longrightarrow> license_of org sid l \<Longrightarrow> li_revoked_at l \<noteq> None) \<Longrightarrow>
      l' \<in> set (licenses d') \<Longrightarrow> license_of org sid l' \<Longrightarrow> li_revoked_at l' \<noteq> None"
  shows "stays_off fp org sid d d'"
  using assms by (auto simp: stays_off_def switched_off_def sole_server_def exists_row_iff)

lemma update_stays_off:
  assumes keeps: "\<And>r. li_organization_id (f r) = li_organization_id r" "\<And>r. li_server_id (f r) = li_server_id r"
    and revoked: "\<And>r. li_revoked_at r \<noteq> None \<Longrightarrow> li_revoked_at (f r) \<noteq> None"
  shows "stays_off fp org sid d (d\<lparr>licenses := sql_update P f (licenses d)\<rparr>)"
proof -
  define g where "g = (\<lambda>r. if P r then f r else r)"
  have rows: "set (sql_update P f (licenses d)) = g ` set (licenses d)" by (simp add: set_sql_update g_def)
  have same: "license_of org sid (g r) = license_of org sid r" for r by (simp add: g_def license_of_def keeps)
  have g: "\<exists>t. li_revoked_at (g r) = Some t" if "\<exists>t. li_revoked_at r = Some t" for r using revoked [of r] that by (auto simp: g_def)
  show ?thesis
    by (rule stays_offI) (auto simp: rows exists_row_iff same intro!: g)
qed

lemma append_stays_off:
  assumes "\<not> exists_row (license_of (li_organization_id l) (li_server_id l)) (licenses d)"
  shows "stays_off fp org sid d (d\<lparr>licenses := licenses d @ [l]\<rparr>)"
proof (rule stays_offI)
  fix l'
  assume "exists_row (license_of org sid) (licenses d)"
    "l' \<in> set (licenses (d\<lparr>licenses := licenses d @ [l]\<rparr>))" "license_of org sid l'"
    and off: "\<And>l. l \<in> set (licenses d) \<Longrightarrow> license_of org sid l \<Longrightarrow> li_revoked_at l \<noteq> None"
  then have "l' \<in> set (licenses d)" using assms by (auto simp: exists_row_iff license_of_def)
  then show "li_revoked_at l' \<noteq> None" using off \<open>license_of org sid l'\<close> by blast
qed (auto simp: exists_row_iff)

lemma upsert_stays_off:
  assumes "upsert_license id l d = (Inr u, d')"
  shows "stays_off fp org sid d d'"
proof (cases "exists_row (license_of (li_organization_id l) (li_server_id l)) (licenses d) \<and> instant_ok (li_issued_at l div 1000) \<and>
    instant_ok (li_expires_at l div 1000)")
  case True
  with assms have "d' = d\<lparr>licenses := sql_update (license_of (li_organization_id l) (li_server_id l)) (replace_key l) (licenses d)\<rparr>"
    by (simp add: upsert_license_def Let_def)
  then show ?thesis by (simp add: update_stays_off replace_key_def)
next
  case False
  with assms have "insert_license l d = (Inr u, d')" by (simp add: upsert_license_def Let_def split: if_splits)
  from insert_license_Inr [OF this] show ?thesis by (simp add: append_stays_off)
qed

interpretation off: license_relation "stays_off fp org sid" "- {Console_issue, Console_restore}" for fp org sid
proof
  fix v now o' uid i plan f
  show "tx_keeps (stays_off fp org sid) (issue_license_tx v now o' uid i plan f)"
  proof (rule tx_keepsI)
    fix d r d'
    assume "issue_license_tx v now o' uid i plan f d = (Inr r, d')"
    then show "stays_off fp org sid d d'"
      by (auto simp: issue_license_tx_def Let_def give_def stays_off_def split: option.splits
          elim!: and_then_Inr dest!: upsert_stays_off [of _ _ _ _ fp org sid])
  qed
next
  fix o' uid i name token info now
  show "tx_keeps (stays_off fp org sid) (activate_tx o' uid i name token info now)"
  proof (rule tx_keepsI)
    fix d r d'
    assume a: "activate_tx o' uid i name token info now d = (Inr r, d')"
    show "stays_off fp org sid d d'"
    proof (rule activate_tx_licenses [OF a])
      fix j nm fresh
      assume "r = Activated j nm fresh"
      note eff = activate_tx_Inr [OF a [unfolded this]]
      define l where "l = new_license o' j uid token (lf_plan info) (lf_issued info) (lf_expires info)"
      have "stays_off fp org sid d (d\<lparr>licenses := licenses d @ [l]\<rparr>)"
        by (rule append_stays_off) (use eff(2) in \<open>simp add: l_def new_license_def\<close>)
      then show ?thesis using eff(1,3)
        by (auto simp: stays_off_def switched_off_def sole_server_def l_def new_server_def split: if_splits)
    qed (simp add: stays_off_def switched_off_def sole_server_def)
  qed
next
  show "tx_keeps (stays_off fp org sid) (revoke_license_tx uid i reason now)" for uid i reason now
    by (auto simp: tx_keeps_def revoke_license_tx_def intro!: update_stays_off)
qed (blast | simp add: stays_off_def; fail | simp add: stays_off_def switched_off_def sole_server_def append_audit_def)+

text \<open>What the work of a route of the console found when it ran: a live session of an administrator of the platform.\<close>

lemma platformAdmin_wp:
  assumes "platformAdmin v x q w work = (r, w1)" and "\<And>e w'. Q (refused (Other_access e)) w'"
    and "\<And>e w'. only_sessions w w' \<Longrightarrow> Q (refused e) w'" and "\<And>w'. only_sessions w w' \<Longrightarrow> Q (fault_reply 403 ''forbidden'') w'"
    and "\<And>a w0. acts False v x q w = (Inr a, w0) \<Longrightarrow> only_sessions w w0 \<Longrightarrow> is_platform_admin (aw_userId (ra_user a)) (wd_db w) \<Longrightarrow>
      wp (work a) Q (\<lambda>w2. \<forall>e. Q (refused (Other_access e)) w2) w0"
  shows "Q r w1"
proof (rule routed [OF assms(1) [unfolded platformAdmin_def]])
  fix e w0
  assume "acts False v x q w = (Inl e, w0)"
  then show "Q (refused e) w0" using guards_sessions(3) [of w False v x q] assms(3) by simp
next
  fix a w0
  assume g: "acts False v x q w = (Inr a, w0)"
  then have s: "only_sessions w w0" using guards_sessions(3) [of w False v x q] by simp
  then have same: "is_platform_admin u (wd_db w0) = is_platform_admin u (wd_db w)" for u
    by (auto simp: only_sessions_def is_platform_admin_def)
  have "w0\<lparr>wd_db := wd_db w0\<rparr> = w0" by simp
  with g s same assms(2,4,5) show "wp (and_then (plain_step x 0 (\<lambda>d. (Inr (is_platform_admin (aw_userId (ra_user a)) d), d))) (\<lambda>ok.
         if ok then work a else give (fault_reply 403 ''forbidden''))) Q (\<lambda>w2. \<forall>e. Q (refused (Other_access e)) w2) w0"
    by (auto simp: wp intro!: wp_plain)
qed

text \<open>C36: A route of the console that changed a licence served the live session, second factor given, of an accepted
  member who is an administrator of the platform; any other request leaves everything but the sessions as it
  was.\<close>

theorem console_serves_administrators:
  assumes "k \<in> {Console_issue, Console_revoke, Console_restore}" and "run_license k v x q w = (r, w1)"
  shows "only_sessions w w1 \<or>
    (\<exists>token ctx org. hq_cookies (pq_http q) session_cookie = Some token \<and>
       live_session (pd_crypto v) (ae_db (px_auth x) 0) token (wd_db w) ctx \<and> sr_mfaSatisfied (sc_session ctx) \<and>
       accepted_role (sr_userId (sc_session ctx)) org (wd_db w) \<noteq> None \<and> is_platform_admin (aw_userId (sc_user ctx)) (wd_db w))"
proof -
  define A where "A = (\<exists>token ctx org. hq_cookies (pq_http q) session_cookie = Some token \<and>
       live_session (pd_crypto v) (ae_db (px_auth x) 0) token (wd_db w) ctx \<and> sr_mfaSatisfied (sc_session ctx) \<and>
       accepted_role (sr_userId (sc_session ctx)) org (wd_db w) \<noteq> None \<and> is_platform_admin (aw_userId (sc_user ctx)) (wd_db w))"
  have "only_sessions w w' \<or> A" if run: "platformAdmin v x q w work = (r, w')" for work w'
  proof (cases A)
    case False
    obtain g w0 where g: "acts False v x q w = (g, w0)" by fastforce
    then have s: "only_sessions w w0" using guards_sessions(3) [of w False v x q] by simp
    show ?thesis
    proof (cases g)
      case (Inr a)
      have "actor (resolve_world (pd_crypto v) x) (role_world x) (pq_http q) w = (Inr a, w0)" using g Inr by (simp add: acts_def)
      from platform_authority.actor_Inr [OF this] False
      have "\<not> is_platform_admin (aw_userId (ra_user a)) (wd_db w)" unfolding A_def by (metis option.distinct(1))
      then have no: "\<not> is_platform_admin (aw_userId (ra_user a)) (wd_db w0)" using s by (auto simp: only_sessions_def is_platform_admin_def)
      have "w0\<lparr>wd_db := wd_db w0\<rparr> = w0" by simp
      with run g Inr no have "w' = w0"
        by (auto simp: platformAdmin_def handle_with_def settle_def and_then_def plain_step_def on_db_def statement_def give_def
            split: sum.splits prod.splits if_splits)
      with s show ?thesis by simp
    qed (use run g s in \<open>simp add: platformAdmin_def handle_with_def\<close>)
  qed simp
  from this [of _ w1] show ?thesis
    using assms unfolding A_def by (auto simp: run_license_def adminIssueLicense_def revokeLicense_def restoreLicense_def)
qed

lemma revokeLicense_switches_off:
  assumes "revokeLicense v x q w = (r, w1)" "ar_status r = 200" and sole: "sole_server fp org (pq_id q) (wd_db w)"
  shows "switched_off fp org (pq_id q) (wd_db w1)"
proof -
  define Q where "Q = (\<lambda>(r :: api_reply) (w' :: world). ar_status r = 200 \<longrightarrow> switched_off fp org (pq_id q) (wd_db w'))"
  have "Q r w1"
  proof (rule platformAdmin_wp [OF assms(1) [unfolded revokeLicense_def]])
    fix a w0
    assume "acts False v x q w = (Inr a, w0)" "only_sessions w w0" "is_platform_admin (aw_userId (ra_user a)) (wd_db w)"
    then have so: "sole_server fp org (pq_id q) (wd_db w0)" using sole by (auto simp: only_sessions_def sole_server_def)
    have "switched_off fp org (pq_id q) (append_audit au d)"
      if "revoke_license_tx (aw_userId (ra_user a)) (pq_id q) (revoke_reason q) (px_now x 1) (wd_db w0) = (Inr ok, d)"
      for ok d au
    proof -
      define f where "f = (\<lambda>l :: license_row. l\<lparr>li_revoked_at := Some (px_now x 1), li_revoked_reason := revoke_reason q,
        li_revoked_by := Some (aw_userId (ra_user a))\<rparr>)"
      have d: "servers d = servers (wd_db w0)"
        "licenses d = sql_update (\<lambda>l. li_server_id l = pq_id q) f (licenses (wd_db w0))"
        using that by (auto simp: revoke_license_tx_def f_def)
      have "license_of org (pq_id q) (f l) = license_of org (pq_id q) l" "license_of org (pq_id q) l \<Longrightarrow> li_server_id l = pq_id q" for l
        by (simp_all add: license_of_def f_def)
      then show ?thesis using so
        by (auto simp: switched_off_def sole_server_def exists_row_iff append_audit_def d set_sql_update f_def)
    qed
    then show "wp (and_then (platform_step x 1 (revoke_license_tx (aw_userId (ra_user a)) (pq_id q) (revoke_reason q) (px_now x 1))) (\<lambda>ok.
         if \<not> ok then give not_found
         else and_then (audit x 2 a ''admin.license.revoked'' (pq_id q)) (\<lambda>_.
           give (reply 200 [(''status'', JStr ''ok''), (''revoked'', JBool True)])))) Q (\<lambda>w2. \<forall>e. Q (refused (Other_access e)) w2) w0"
      by (auto simp: wp Q_def not_found_def intro!: wp_platform wp_audit)
  qed (simp_all add: Q_def)
  with assms(2) show ?thesis by (simp add: Q_def)
qed

lemma switched_off_verdict:
  assumes off: "switched_off fp org sid d"
  shows "\<exists>l. verdict_row fp d = Some l \<and> li_revoked_at l \<noteq> None"
proof -
  let ?P = "\<lambda>l. exists_row (\<lambda>s. sv_fingerprint s = Some fp \<and> sv_deleted_at s = None \<and>
      license_of (sv_organization_id s) (sv_id s) l) (servers d)"
  have is_it: "?P l \<longleftrightarrow> license_of org sid l" for l
    using off by (fastforce simp: switched_off_def sole_server_def exists_row_iff live_server_def)
  obtain l where "verdict_row fp d = Some l"
    using off first_row_exists [of ?P "licenses d"] by (auto simp: verdict_row_def is_it switched_off_def sole_server_def)
  with off show ?thesis by (auto simp: verdict_row_def is_it switched_off_def dest!: first_row_SomeD)
qed


end
