(* ===== verification/License_Witnesses.thy ===== *)
theory License_Witnesses
  imports Api_Witnesses License_Facts
begin

text \<open>
  Applications of the properties of the licences: the owner of the samples activates a key for a server; with the
  right of an administrator of the platform, the licence is revoked, and the agent of the server asks.
\<close>

section \<open>Keys\<close>

definition key_of_sale :: license_key where
  "key_of_sale = signLicense sample_deps 3000 ''any'' ''pro'' 30"

lemma sale_verified:
  "verifyLicenseKey sample_deps 3000 (lk_token key_of_sale) =
     Some \<lparr>lf_binding = ''any'', lf_plan = ''pro'', lf_issued = 3, lf_expires = 2592003\<rparr>"
proof -
  have "digest_laws (pd_crypto sample_deps)" using sample_crypto_laws(2) by (simp add: sample_deps_def)
  from signed_key_verified [OF this, of "''any''" "''pro''" 30 3000 3000] show ?thesis
    by (simp add: key_of_sale_def binding_ok_def license_plans_def)
qed

theorem license_roundtrip_witness:
  "\<forall>t. verifyLicenseKey sample_deps t (lk_token key_of_sale) =
     (if t < 2592003000 then Some \<lparr>lf_binding = ''any'', lf_plan = ''pro'', lf_issued = 3, lf_expires = 2592003\<rparr> else None)"
proof -
  have "digest_laws (pd_crypto sample_deps)" using sample_crypto_laws(2) by (simp add: sample_deps_def)
  from license_roundtrip [OF this, of "''any''" "''pro''" 30 3000] show ?thesis
    by (simp add: key_of_sale_def binding_ok_def license_plans_def)
qed

theorem verified_key_is_signed_witness: "\<exists>payload signature. js_trim (lk_token key_of_sale) = payload @ ''~'' @ signature"
  using verified_key_is_signed [OF sale_verified] by blast

text \<open>The key as a text, for the evaluation of its activation.\<close>

definition key_text :: string where
  "key_text = signed_text sample_deps ''v1|any|pro|3|2592003''"

lemma key_of_sale_text: "lk_token key_of_sale = key_text"
  by (simp add: key_of_sale_def signLicense_def Let_def license_payload_def key_text_def string_of_int_def string_of_nat.simps digit_chars_def)

definition sold :: license_info where
  "sold = \<lparr>lf_binding = ''any'', lf_plan = ''pro'', lf_issued = 3, lf_expires = 2592003\<rparr>"

lemma sold_verified: "verifyLicenseKey sample_deps 3000 key_text = Some sold"
  using sale_verified by (simp add: key_of_sale_text sold_def)

definition activation_call :: api_request where
  "activation_call = sample_call [] (JObj [(''license_key'', JStr key_text)])"

lemma activation_schema: "activateSchema (body_or_empty activation_call) = Some (key_text, None)"
  by code_simp

definition activated :: "api_reply \<times> world" where
  "activated = handle_with (writes sample_deps (sample_env (\<lambda>n. [])) activation_call Server_write api_world) (\<lambda>a.
     and_then (platform_step (sample_env (\<lambda>n. [])) 0 (\<lambda>d. (Inr (key_used (js_trim key_text) d), d))) (\<lambda>used.
       if used then give (fault_reply 409 ''license_in_use'')
       else and_then (tenant_step (sample_env (\<lambda>n. [])) 1 (ra_organizationId a) (activate_tx (ra_organizationId a) (aw_userId (ra_user a))
              [] (fallback_name None) (js_trim key_text) sold 3000)) (activated_reply (sample_env (\<lambda>n. [])) a sold)))"

lemma activated_run: "activate sample_deps (sample_env (\<lambda>n. [])) activation_call api_world = (fst activated, snd activated)"
proof -
  have e: "px_js (sample_env (\<lambda>n. [])) 0 = 3000" "px_ids (sample_env (\<lambda>n. [])) 0 = []" "px_now (sample_env (\<lambda>n. [])) 1 = 3000"
    by (simp_all add: sample_env_def)
  show ?thesis unfolding activate_def activation_schema e by (simp add: sold_verified activated_def)
qed

lemma activated_ok: "ar_status (fst activated) = 201"
  by code_simp

theorem key_activates_once_witness:
  "ar_status (fst activated) = 201 \<and> ar_status (fst (activate sample_deps (sample_env (\<lambda>n. [])) activation_call (snd activated))) \<noteq> 201"
proof -
  obtain r w where again: "activate sample_deps (sample_env (\<lambda>n. [])) activation_call (snd activated) = (r, w)" by fastforce
  from key_activates_once [OF activated_run activated_ok activation_schema rtranclp.rtrancl_refl again activation_schema refl] again activated_ok
  show ?thesis by simp
qed

section \<open>The console\<close>

definition sample_fingerprint :: string where "sample_fingerprint = ''0123456789abcdef''"

definition licensed_world :: world where
  "licensed_world = \<lparr>wd_db = api_db
     \<lparr>users := map (\<lambda>u. u\<lparr>u_is_platform_admin := True\<rparr>) (users api_db),
      servers := [sample_server\<lparr>sv_fingerprint := Some sample_fingerprint\<rparr>],
      licenses := [new_license sample_org sample_server_id sample_user_id ''key'' ''pro'' 3 2592003]\<rparr>, wd_events = []\<rparr>"

definition withdrawal :: "api_reply \<times> world" where
  "withdrawal = revokeLicense sample_deps (sample_env (\<lambda>n. [])) (sample_call sample_server_id JNull) licensed_world"

lemma withdrawal_run: "revokeLicense sample_deps (sample_env (\<lambda>n. [])) (sample_call sample_server_id JNull) licensed_world = (fst withdrawal, snd withdrawal)"
  by (simp add: withdrawal_def)

lemma withdrawal_revokes: "map li_revoked_at (licenses (wd_db (snd withdrawal))) = [Some 3000]"
  by code_simp

theorem console_serves_administrators_witness:
  "\<exists>token ctx. live_session sample_crypto 3000 token (wd_db licensed_world) ctx \<and> sr_mfaSatisfied (sc_session ctx) \<and>
     is_platform_admin (aw_userId (sc_user ctx)) (wd_db licensed_world)"
proof -
  have run: "run_license Console_revoke sample_deps (sample_env (\<lambda>n. [])) (sample_call sample_server_id JNull) licensed_world = (fst withdrawal, snd withdrawal)"
    by (simp add: run_license_def withdrawal_run)
  have "\<not> only_sessions licensed_world (snd withdrawal)"
    using withdrawal_revokes by (auto simp: only_sessions_def licensed_world_def new_license_def)
  moreover have d: "pd_crypto sample_deps = sample_crypto" "ae_db (px_auth (sample_env (\<lambda>n. []))) 0 = 3000"
    by (simp_all add: sample_deps_def sample_env_def)
  ultimately show ?thesis using console_serves_administrators [OF _ run] unfolding d by blast
qed

definition verdict_call :: api_request where
  "verdict_call = (sample_call [] JNull)\<lparr>pq_query := [(''fingerprint'', sample_fingerprint)]\<rparr>"

definition verdict :: "api_reply \<times> world" where
  "verdict = verifyLicense sample_deps (sample_env (\<lambda>n. [])) verdict_call (snd withdrawal)"


end
