(* ===== verification/Realtime.thy ===== *)
theory Realtime
  imports Api_Base
begin

text \<open>
  \<open>apps/api/src/realtime/websocket.ts\<close> and the channel of \<open>lib/redis.ts\<close>: the sockets a process serves. A socket
  has an identity, a state and what was sent to it; what the other side does (a message of Redis, the end
  of a socket) is a step of the machine. Each subscription and each sending may fail.
\<close>

section \<open>The hub\<close>

(* src lib/redis.ts:71-73 organizationChannel *)
definition organizationChannel :: "string \<Rightarrow> string" where
  "organizationChannel org = ''org:'' @ org"

lemma organizationChannel_inject [simp]: "organizationChannel a = organizationChannel b \<longleftrightarrow> a = b"
  by (simp add: organizationChannel_def)

(* src realtime/websocket.ts:29-33 Client *)
record rt_client =
  wc_socket :: nat
  wc_organizationId :: string
  wc_userId :: string

datatype rt_message = Ready string role | Event string string | Pong time_ms

(* src realtime/websocket.ts:35-46 RealtimeHub *)
record rt_hub =
  rh_clients :: "rt_client list"
  rh_subscribed :: "string list"
  rh_sent :: "nat \<Rightarrow> rt_message list"

definition send_to :: "nat \<Rightarrow> rt_message \<Rightarrow> rt_hub \<Rightarrow> rt_hub" where
  "send_to k m h = h\<lparr>rh_sent := (rh_sent h)(k := rh_sent h k @ [m])\<rparr>"

text \<open>\<open>live\<close>: the sockets that are open; \<open>broken\<close>: those whose \<open>send\<close> throws.\<close>

(* src realtime/websocket.ts:49-58 fanOut/for *)
definition deliver_to :: "(nat \<Rightarrow> bool) \<Rightarrow> (nat \<Rightarrow> bool) \<Rightarrow> string \<Rightarrow> string \<Rightarrow> rt_client \<Rightarrow> rt_hub \<Rightarrow> rt_hub" where
  "deliver_to live broken channel msg cl h =
     (if organizationChannel (wc_organizationId cl) \<noteq> channel \<or> \<not> live (wc_socket cl) then h
      else if broken (wc_socket cl) then h\<lparr>rh_clients := remove1 cl (rh_clients h)\<rparr>
      else send_to (wc_socket cl) (Event channel msg) h)"

(* src realtime/websocket.ts:48-59 fanOut *)
definition fanOut :: "(nat \<Rightarrow> bool) \<Rightarrow> (nat \<Rightarrow> bool) \<Rightarrow> string \<Rightarrow> string \<Rightarrow> rt_hub \<Rightarrow> rt_hub" where
  "fanOut live broken channel msg h = fold (deliver_to live broken channel msg) (rh_clients h) h"

(* src realtime/websocket.ts:61-66 ensureSubscribed *)
definition ensureSubscribed :: "bool \<Rightarrow> string \<Rightarrow> rt_hub \<Rightarrow> unit result \<times> rt_hub" where
  "ensureSubscribed fails org h =
     (let channel = organizationChannel org in
      if channel \<in> set (rh_subscribed h) then (Inr (), h)
      else if fails then (Inl (Thrown ''subscribe''), h)
      else (Inr (), h\<lparr>rh_subscribed := rh_subscribed h @ [channel]\<rparr>))"

(* src realtime/websocket.ts:68-79 add *)
definition add_client :: "bool \<Rightarrow> nat \<Rightarrow> string \<Rightarrow> string \<Rightarrow> rt_hub \<Rightarrow> unit result \<times> rt_hub" where
  "add_client fails k org uid h =
     (case ensureSubscribed fails org h of
        (Inl e, h1) \<Rightarrow> (Inl e, h1)
      | (Inr _, h1) \<Rightarrow>
          (Inr (), h1\<lparr>rh_clients := rh_clients h1 @ [\<lparr>wc_socket = k, wc_organizationId = org, wc_userId = uid\<rparr>]\<rparr>))"

(* src realtime/websocket.ts:73-78 close *)
definition drop_socket :: "nat \<Rightarrow> rt_hub \<Rightarrow> rt_hub" where
  "drop_socket k h = h\<lparr>rh_clients := filter (\<lambda>cl. wc_socket cl \<noteq> k) (rh_clients h)\<rparr>"

section \<open>The route\<close>

datatype connect_outcome = Closed int string | Connected string role | Connect_failed exn

(* src realtime/websocket.ts:89-121 ws *)
definition connect :: "crypto \<Rightarrow> api_env \<Rightarrow> http_request \<Rightarrow> bool \<Rightarrow> nat \<Rightarrow> rt_hub \<times> world \<Rightarrow> connect_outcome \<times> rt_hub \<times> world" where
  "connect c x q fails k = (\<lambda>(h, w).
     case hq_cookies q session_cookie of
       None \<Rightarrow> (Closed 4401 ''unauthorized'', h, w)
     | Some token \<Rightarrow>
         (case resolve_world c x token w of
            (Inl e, w1) \<Rightarrow> (Connect_failed e, h, w1)
          | (Inr None, w1) \<Rightarrow> (Closed 4401 ''unauthorized'', h, w1)
          | (Inr (Some ctx), w1) \<Rightarrow>
              (case (sr_mfaSatisfied (sc_session ctx), sr_organizationId (sc_session ctx)) of
                 (True, Some org) \<Rightarrow>
                   if org = [] then (Closed 4401 ''unauthorized'', h, w1)
                   else (case role_world x (sr_userId (sc_session ctx)) org w1 of
                       (Inl e, w2) \<Rightarrow> (Connect_failed e, h, w2)
                     | (Inr None, w2) \<Rightarrow> (Closed 4403 ''forbidden'', h, w2)
                     | (Inr (Some r), w2) \<Rightarrow>
                         (case add_client fails k org (sr_userId (sc_session ctx)) h of
                            (Inl e, h1) \<Rightarrow> (Connect_failed e, h1, w2)
                          | (Inr _, h1) \<Rightarrow> (Connected org r, send_to k (Ready org r) h1, w2)))
               | _ \<Rightarrow> (Closed 4401 ''unauthorized'', h, w1))))"

text \<open>A message of the client: a ping is answered, the rest is ignored.\<close>

(* src realtime/websocket.ts:126-136 message *)
definition client_message :: "js_lib \<Rightarrow> time_ms \<Rightarrow> nat \<Rightarrow> bytes \<Rightarrow> rt_hub \<Rightarrow> rt_hub" where
  "client_message js now k raw h =
     (if 256 < length raw then h
      else (case json_parse js (utf8_decode raw) of
          Some (JObj fs) \<Rightarrow> if obj_get ''type'' fs = Some (JStr ''ping'') then send_to k (Pong now) h else h
        | _ \<Rightarrow> h))"

end
