(* ===== verification/Realtime_Facts.thy ===== *)
theory Realtime_Facts
  imports Realtime
begin

text \<open>
  Whom a socket hears: the events of one organization, the one of the member it was opened for, each of them once.
\<close>

section \<open>Opening\<close>

text \<open>A socket is only opened for the live session, second factor given, of an accepted member of the organization of the
  session, and it is told the role he has.\<close>

theorem socket_only_for_members:
  assumes "connect c x q fails k (h, w) = (Connected org r, h', w')"
  shows "\<exists>token ctx. hq_cookies q session_cookie = Some token \<and> live_session c (ae_db (px_auth x) 0) token (wd_db w) ctx \<and>
    sr_mfaSatisfied (sc_session ctx) \<and> sr_organizationId (sc_session ctx) = Some org \<and>
    accepted_role (sr_userId (sc_session ctx)) org (wd_db w) = Some r \<and>
    rh_sent h' k = rh_sent h k @ [Ready org r] \<and>
    rh_clients h' = rh_clients h @ [\<lparr>wc_socket = k, wc_organizationId = org, wc_userId = sr_userId (sc_session ctx)\<rparr>] \<and>
    organizationChannel org \<in> set (rh_subscribed h')"
proof -
  obtain token where t: "hq_cookies q session_cookie = Some token"
    using assms by (auto simp: connect_def split: option.splits)
  obtain y w1 where y: "resolve_world c x token w = (y, w1)" by fastforce
  obtain ctx where ctx: "y = Inr (Some ctx)" "sr_mfaSatisfied (sc_session ctx)"
    using assms t y by (auto simp: connect_def split: option.splits sum.splits bool.splits)
  obtain o' where o': "sr_organizationId (sc_session ctx) = Some o'" "o' \<noteq> []"
    using assms t y ctx by (auto simp: connect_def split: option.splits if_splits)
  obtain z w2 where z: "role_world x (sr_userId (sc_session ctx)) o' w1 = (z, w2)" by fastforce
  obtain r' where r': "z = Inr (Some r')"
    using assms t y ctx o' z by (auto simp: connect_def split: option.splits sum.splits)
  have role: "accepted_role (sr_userId (sc_session ctx)) o' (wd_db w) = Some r'"
    using platform_authority.role_member [OF z [unfolded r']] platform_authority.resolve_member [of _ _ c x token w] y by simp
  from assms t y ctx o' z r' have "o' = org" "r' = r"
    and h': "h' = send_to k (Ready org r) (snd (add_client fails k org (sr_userId (sc_session ctx)) h))"
      "fst (add_client fails k org (sr_userId (sc_session ctx)) h) = Inr ()"
    by (auto simp: connect_def split: sum.splits prod.splits)
  then show ?thesis
    using t role ctx o' platform_authority.resolve_live [OF y [unfolded ctx(1)]]
    by (auto simp: send_to_def add_client_def ensureSubscribed_def Let_def split: if_splits)
qed

section \<open>What is sent\<close>

text \<open>The machine: a new socket connects, Redis delivers, a client speaks, a socket ends; the rest of the platform does
  what it does.\<close>

inductive rt_step :: "rt_hub \<times> world \<Rightarrow> rt_hub \<times> world \<Rightarrow> bool" where
  Opens: "rh_sent h k = [] \<Longrightarrow> k \<notin> wc_socket ` set (rh_clients h) \<Longrightarrow> rt_step (h, w) (snd (connect c x q fails k (h, w)))"
| Published: "rt_step (h, w) (fanOut live broken channel msg h, w)"
| Speaks: "rt_step (h, w) (client_message js now k raw h, w)"
| Ends: "rt_step (h, w) (drop_socket k h, w)"
| Elsewhere: "rt_step (h, w) (h, w')"

definition empty_hub :: rt_hub where
  "empty_hub = \<lparr>rh_clients = [], rh_subscribed = [], rh_sent = \<lambda>_. []\<rparr>"

definition ready_orgs :: "rt_message list \<Rightarrow> string list" where
  "ready_orgs ms = concat (map (\<lambda>m. case m of Ready org r \<Rightarrow> [org] | _ \<Rightarrow> []) ms)"

lemma ready_orgs_append [simp]: "ready_orgs (xs @ ys) = ready_orgs xs @ ready_orgs ys"
  by (simp add: ready_orgs_def)

lemma ready_orgs_simps [simp]:
  "ready_orgs [] = []" "ready_orgs [Ready org r] = [org]" "ready_orgs [Event c m] = []" "ready_orgs [Pong t] = []"
  by (simp_all add: ready_orgs_def)

lemma in_ready_orgs: "org \<in> set (ready_orgs ms) \<longleftrightarrow> (\<exists>r. Ready org r \<in> set ms)"
proof (induction ms)
  case (Cons m ms)
  have "set (ready_orgs (m # ms)) = set (ready_orgs [m]) \<union> set (ready_orgs ms)" by (simp add: ready_orgs_def)
  with Cons show ?case by (cases m) auto
qed simp

text \<open>A client was told its organization, once; what its socket heard is on the channel it was told.\<close>

definition told_first :: "rt_message list \<Rightarrow> bool" where
  "told_first ms = (length (ready_orgs ms) \<le> 1 \<and>
     (\<forall>channel msg. Event channel msg \<in> set ms \<longrightarrow> (\<exists>org. ready_orgs ms = [org] \<and> channel = organizationChannel org)))"

definition hub_ok :: "rt_hub \<Rightarrow> bool" where
  "hub_ok h = ((\<forall>k. told_first (rh_sent h k)) \<and> (\<forall>cl \<in> set (rh_clients h). ready_orgs (rh_sent h (wc_socket cl)) = [wc_organizationId cl]) \<and>
     distinct (map wc_socket (rh_clients h)))"

lemma send_to_ok:
  assumes "hub_ok h" and "told_first (rh_sent h k @ [m])" and "ready_orgs [m] = []"
  shows "hub_ok (send_to k m h)"
  using assms by (auto simp: hub_ok_def send_to_def)

lemma distinct_map_remove1: "distinct (map f xs) \<Longrightarrow> distinct (map f (remove1 x xs))"
proof (induction xs)
  case (Cons y ys)
  moreover have "f y \<notin> f ` set (remove1 x ys)" using Cons.prems set_remove1_subset [of x ys] by auto
  ultimately show ?case by simp
qed simp

lemma deliver_ok:
  assumes "hub_ok h" and "cl \<in> set (rh_clients h)"
  shows "hub_ok (deliver_to live broken channel msg cl h)"
proof (cases "organizationChannel (wc_organizationId cl) \<noteq> channel \<or> \<not> live (wc_socket cl)")
  case False
  then have cl: "channel = organizationChannel (wc_organizationId cl)" by auto
  show ?thesis
  proof (cases "broken (wc_socket cl)")
    case True
    have "r \<in> set (rh_clients h)" if "r \<in> set (remove1 cl (rh_clients h))" for r using that set_remove1_subset by fast
    then show ?thesis using False True assms(1)
      by (simp add: deliver_to_def hub_ok_def distinct_map_remove1)
  next
    case b: False
    have "ready_orgs (rh_sent h (wc_socket cl)) = [wc_organizationId cl]" using assms by (simp add: hub_ok_def)
    moreover have "told_first (rh_sent h (wc_socket cl))" using assms(1) by (simp add: hub_ok_def)
    ultimately have "told_first (rh_sent h (wc_socket cl) @ [Event channel msg])" using cl by (auto simp: told_first_def)
    with assms(1) False b show ?thesis by (simp add: deliver_to_def send_to_ok)
  qed
qed (use assms in \<open>simp add: deliver_to_def\<close>)

text \<open>Along the clients of a hub: the ones to come are still there, and each of them gets the message once.\<close>

lemma deliver_others:
  "cl' \<noteq> cl \<Longrightarrow> cl' \<in> set (rh_clients h) \<Longrightarrow> cl' \<in> set (rh_clients (deliver_to live broken channel msg cl h))"
  by (simp add: deliver_to_def send_to_def)

lemma fold_deliver_ok:
  assumes "hub_ok h" and "distinct cs" and "set cs \<subseteq> set (rh_clients h)"
  shows "hub_ok (fold (deliver_to live broken channel msg) cs h)"
  using assms
proof (induction cs arbitrary: h)
  case (Cons cl cs)
  have "set cs \<subseteq> set (rh_clients (deliver_to live broken channel msg cl h))"
    using Cons.prems by (auto intro!: deliver_others)
  with Cons deliver_ok [of h cl live broken channel msg] show ?case by simp
qed simp

lemma fold_deliver_sent:
  "rh_sent (fold (deliver_to live broken channel msg) cs h) k = rh_sent h k @
     replicate (length (filter (\<lambda>cl. wc_socket cl = k \<and> organizationChannel (wc_organizationId cl) = channel \<and> live k \<and> \<not> broken k) cs))
       (Event channel msg)"
proof (induction cs arbitrary: h)
  case (Cons cl cs)
  then show ?case by (auto simp: deliver_to_def send_to_def replicate_app_Cons_same)
qed simp

lemma fanOut_ok: "hub_ok h \<Longrightarrow> hub_ok (fanOut live broken channel msg h)"
  unfolding fanOut_def by (rule fold_deliver_ok) (auto simp: hub_ok_def distinct_map)

text \<open>A message of a channel goes once to each open socket of the clients of its organization, after what they heard
  before, and to no other socket.\<close>

theorem fan_out_exact:
  assumes "hub_ok h"
  shows "rh_sent (fanOut live broken channel msg h) k = rh_sent h k @
    (if live k \<and> \<not> broken k \<and> (\<exists>cl \<in> set (rh_clients h). wc_socket cl = k \<and> organizationChannel (wc_organizationId cl) = channel)
     then [Event channel msg] else [])"
proof -
  let ?P = "\<lambda>cl. wc_socket cl = k \<and> organizationChannel (wc_organizationId cl) = channel \<and> live k \<and> \<not> broken k"
  have d: "distinct (map wc_socket (filter ?P (rh_clients h)))" using assms by (simp add: hub_ok_def distinct_map_filter)
  have "length (filter ?P (rh_clients h)) = (if \<exists>cl \<in> set (rh_clients h). ?P cl then 1 else 0)"
  proof (cases "filter ?P (rh_clients h)")
    case (Cons cl cs)
    have all: "\<forall>c \<in> set (cl # cs). c \<in> set (rh_clients h) \<and> ?P c" by (simp flip: Cons)
    then have "cs = []" using d Cons by (cases cs) auto
    with all show ?thesis using Cons by auto
  qed (auto simp: filter_empty_conv)
  then show ?thesis unfolding fanOut_def fold_deliver_sent by auto
qed

section \<open>Isolation\<close>

text \<open>What an opening does to the hub: nothing, a channel, or a channel and a client that was told.\<close>

lemma connect_cases:
  obtains "fst (snd (connect c x q fails k (h, w))) = h"
  | org where "fst (snd (connect c x q fails k (h, w))) = snd (ensureSubscribed fails org h)"
  | org r uid where "fst (snd (connect c x q fails k (h, w))) = send_to k (Ready org r) (snd (add_client fails k org uid h))"
      "fst (add_client fails k org uid h) = Inr ()"
proof -
  obtain out h' w' where res: "connect c x q fails k (h, w) = (out, h', w')" using prod_cases3 by blast
  show thesis
  proof (cases out)
    case (Connected org r)
    note res = res [unfolded Connected]
    then have "\<exists>uid h1. add_client fails k org uid h = (Inr (), h1) \<and> h' = send_to k (Ready org r) h1"
      by (auto simp: connect_def split: option.splits sum.splits prod.splits bool.splits if_splits)
    then obtain uid h1 where "add_client fails k org uid h = (Inr (), h1)" "h' = send_to k (Ready org r) h1" by blast
    then have "h' = send_to k (Ready org r) (snd (add_client fails k org uid h))" "fst (add_client fails k org uid h) = Inr ()" by simp_all
    with res that(3) show thesis by simp
  next
    case (Connect_failed e)
    then have "h' = h \<or> (\<exists>org. ensureSubscribed fails org h = (Inl e, h'))"
      using res by (auto simp: connect_def add_client_def split: option.splits sum.splits prod.splits bool.splits if_splits)
    then show thesis
    proof
      assume "\<exists>org. ensureSubscribed fails org h = (Inl e, h')"
      then obtain org where "ensureSubscribed fails org h = (Inl e, h')" by blast
      with res that(2) [of org] show thesis by simp
    qed (use res that(1) in simp)
  qed (use res that(1) in \<open>auto simp: connect_def split: option.splits sum.splits prod.splits bool.splits if_splits\<close>)
qed

lemma subscribed_ok: "hub_ok h \<Longrightarrow> hub_ok (snd (ensureSubscribed fails org h))"
  by (simp add: ensureSubscribed_def Let_def hub_ok_def)

lemma rt_step_ok: "rt_step s s' \<Longrightarrow> hub_ok (fst s) \<Longrightarrow> hub_ok (fst s')"
proof (induction rule: rt_step.induct)
  case (Opens h k w c x q fails)
  show ?case
  proof (rule connect_cases [of c x q fails k h w])
    fix org r uid
    assume "fst (snd (connect c x q fails k (h, w))) = send_to k (Ready org r) (snd (add_client fails k org uid h))"
      "fst (add_client fails k org uid h) = Inr ()"
    with Opens show "hub_ok (fst (snd (connect c x q fails k (h, w))))"
      by (auto simp: hub_ok_def send_to_def add_client_def ensureSubscribed_def Let_def told_first_def split: if_splits)
  qed (use Opens in \<open>simp_all add: subscribed_ok\<close>)
next
  case (Speaks h w js now k raw)
  have "told_first (rh_sent h k @ [Pong now])" using Speaks by (simp add: hub_ok_def told_first_def)
  then have "hub_ok (send_to k (Pong now) h)" using Speaks by (simp add: send_to_ok)
  then show ?case using Speaks by (auto simp: client_message_def split: option.split json.split)
next
  case (Ends h w k)
  then show ?case by (auto simp: drop_socket_def hub_ok_def distinct_map_filter)
qed (simp_all add: fanOut_ok)

lemma empty_hub_ok: "hub_ok empty_hub"
  by (simp add: hub_ok_def empty_hub_def told_first_def)

lemma reached_ok:
  assumes "rt_step\<^sup>*\<^sup>* (empty_hub, w) (h, w')"
  shows "hub_ok h"
proof -
  from assms have "hub_ok (fst (h, w'))"
    by (induction rule: rtranclp_induct) (auto simp: empty_hub_ok intro: rt_step_ok)
  then show ?thesis by simp
qed

text \<open>C15: However sockets open and end, clients speak, messages arrive and the platform changes in between, a socket hears
  the events of one organization alone: the one it was told when it was opened.\<close>

theorem socket_hears_one_organization:
  assumes "rt_step\<^sup>*\<^sup>* (empty_hub, w) (h, w')" and "Event channel msg \<in> set (rh_sent h k)"
  shows "\<exists>org r. Ready org r \<in> set (rh_sent h k) \<and> channel = organizationChannel org \<and>
    (\<forall>channel' msg'. Event channel' msg' \<in> set (rh_sent h k) \<longrightarrow> channel' = channel) \<and>
    (\<forall>org' r'. Ready org' r' \<in> set (rh_sent h k) \<longrightarrow> org' = org)"
proof -
  have "told_first (rh_sent h k)" using reached_ok [OF assms(1)] by (simp add: hub_ok_def)
  then have all: "\<exists>org. ready_orgs (rh_sent h k) = [org] \<and> c = organizationChannel org" if "Event c m \<in> set (rh_sent h k)" for c m
    using that unfolding told_first_def by blast
  from all [OF assms(2)] obtain org where org: "ready_orgs (rh_sent h k) = [org]" "channel = organizationChannel org" by blast
  have same: "c = channel" if "Event c m \<in> set (rh_sent h k)" for c m using all [OF that] org by auto
  have "org \<in> set (ready_orgs (rh_sent h k))" by (simp add: org(1))
  then obtain r where "Ready org r \<in> set (rh_sent h k)" unfolding in_ready_orgs by blast
  moreover have "org' = org" if "Ready org' r' \<in> set (rh_sent h k)" for org' r'
  proof -
    from that have "org' \<in> set (ready_orgs (rh_sent h k))" unfolding in_ready_orgs by blast
    then show ?thesis by (simp add: org(1))
  qed
  ultimately show ?thesis using org(2) same by blast
qed

end
