(* ===== verification/Startup.thy ===== *)
theory Startup
  imports Api_Base Upload
begin

text \<open>
  How a process of the API comes up and what surrounds its routes: \<open>config/env.ts\<close>, \<open>server.ts\<close>,
  \<open>app.ts\<close>, \<open>lib/migrate.ts\<close>, \<open>lib/logger.ts\<close>. The environment is a function from names to texts;
  the check of an address (\<open>z.string().url()\<close>) is an argument.
\<close>

section \<open>The environment\<close>

type_synonym environment = "string \<Rightarrow> string option"

record env_lib =
  el_js :: js_lib
  el_url_ok :: "string \<Rightarrow> bool"

record app_env =
  ev_production :: bool
  ev_log_level :: string
  ev_port :: int
  ev_cors_origins :: "string list"
  ev_database_url :: string
  ev_pool_max :: int
  ev_redis_url :: string
  ev_credential_key :: bytes
  ev_session_secret :: string
  ev_web_origin :: "string option"
  ev_discord :: "(string \<times> string \<times> string) option"
  ev_license_secret :: string
  ev_skew_seconds :: int
  ev_nonce_ttl_seconds :: int
  ev_rate_per_minute :: int

(* src config/env.ts:10-18 base64Key32 *)
definition base64_key32 :: "js_lib \<Rightarrow> string \<Rightarrow> bytes option" where
  "base64_key32 js s = (let k = from_base64 js s in if length k = 32 then Some k else None)"

definition env_int :: "js_lib \<Rightarrow> environment \<Rightarrow> string \<Rightarrow> int \<Rightarrow> int \<Rightarrow> int \<Rightarrow> int option" where
  "env_int js e k lo hi dflt =
     (case e k of None \<Rightarrow> Some dflt
      | Some s \<Rightarrow> (case js_integer (number_other js) s of Some i \<Rightarrow> if lo \<le> i \<and> i \<le> hi then Some i else None | None \<Rightarrow> None))"

definition env_one_of :: "string list \<Rightarrow> environment \<Rightarrow> string \<Rightarrow> string \<Rightarrow> string option" where
  "env_one_of texts e k dflt = (case e k of None \<Rightarrow> Some dflt | Some s \<Rightarrow> if s \<in> set texts then Some s else None)"

definition env_text :: "nat \<Rightarrow> environment \<Rightarrow> string \<Rightarrow> string option" where
  "env_text lo e k = (case e k of Some s \<Rightarrow> if lo \<le> length s then Some s else None | None \<Rightarrow> None)"

definition env_check :: "bool \<Rightarrow> unit option" where "env_check b = (if b then Some () else None)"

definition env_default :: "environment \<Rightarrow> string \<Rightarrow> string \<Rightarrow> string" where
  "env_default e k dflt = coalesce_default (e k) dflt"

definition default_license_secret :: string where
  "default_license_secret = ''ZSHIELD-LICENSE-SIGNING-SECRET-CHANGE-ME''"

text \<open>\<open>value.split(',').map(trim).filter(nonempty)\<close>\<close>

definition comma_list :: "string \<Rightarrow> string list" where
  "comma_list s = filter (\<lambda>p. p \<noteq> []) (map js_trim (split_on (CHR '','') s))"

definition discord_keys :: "environment \<Rightarrow> (string \<times> string \<times> string) option" where
  "discord_keys e = (case (e ''DISCORD_CLIENT_ID'', e ''DISCORD_CLIENT_SECRET'', e ''DISCORD_REDIRECT_URI'') of
       (Some i, Some s, Some r) \<Rightarrow> if js_trim i \<noteq> [] \<and> js_trim s \<noteq> [] \<and> js_trim r \<noteq> [] then Some (i, s, r) else None
     | _ \<Rightarrow> None)"

text \<open>\<open>None\<close> when the process refuses to start.\<close>

(* src config/env.ts:20-126 schema *)
definition load :: "env_lib \<Rightarrow> environment \<Rightarrow> app_env option" where
  "load lib e = do {
     node \<leftarrow> env_one_of [''development'', ''test'', ''production''] e ''NODE_ENV'' ''development'';
     level \<leftarrow> env_one_of [''debug'', ''info'', ''warn'', ''error''] e ''LOG_LEVEL'' ''info'';
     port \<leftarrow> env_int (el_js lib) e ''PORT'' 1 65535 4000;
     url \<leftarrow> env_text 1 e ''DATABASE_URL'';
     pool \<leftarrow> env_int (el_js lib) e ''DATABASE_POOL_MAX'' 1 100 10;
     redis \<leftarrow> env_text 1 e ''REDIS_URL'';
     key \<leftarrow> Option.bind (e ''ZSHIELD_CREDENTIAL_KEY'') (base64_key32 (el_js lib));
     secret \<leftarrow> env_text 32 e ''SESSION_SECRET'';
     env_check (opt_ok (\<lambda>s. 32 \<le> length s) (e ''SESSION_SECRET_PREVIOUS''));
     env_check (opt_ok (el_url_ok lib) (e ''WEB_ORIGIN''));
     env_check (opt_ok (el_url_ok lib) (e ''DISCORD_REDIRECT_URI''));
     enabled \<leftarrow> env_one_of [''true'', ''false''] e ''DISCORD_LOGIN_ENABLED'' ''false'';
     env_check (env_default e ''LICENSE_SIGNING_SECRET'' default_license_secret \<noteq> []);
     skew \<leftarrow> env_int (el_js lib) e ''AGENT_CLOCK_SKEW_SECONDS'' 30 300 300;
     ttl \<leftarrow> env_int (el_js lib) e ''AGENT_NONCE_TTL_SECONDS'' 60 3600 900;
     rate \<leftarrow> env_int (el_js lib) e ''AGENT_RATE_LIMIT_PER_MINUTE'' 1 10000 120;
     env_check (2 * skew \<le> ttl);
     env_check (node = ''production'' \<longrightarrow> js_trim (env_default e ''CORS_ORIGINS'' []) \<noteq> []);
     env_check (enabled = ''true'' \<longrightarrow> discord_keys e \<noteq> None);
     Some \<lparr>ev_production = (node = ''production''), ev_log_level = level, ev_port = port,
       ev_cors_origins = comma_list (env_default e ''CORS_ORIGINS'' []), ev_database_url = url, ev_pool_max = pool,
       ev_redis_url = redis, ev_credential_key = key, ev_session_secret = secret, ev_web_origin = e ''WEB_ORIGIN'',
       ev_discord = (if enabled = ''true'' then discord_keys e else None),
       ev_license_secret = env_default e ''LICENSE_SIGNING_SECRET'' default_license_secret,
       ev_skew_seconds = skew, ev_nonce_ttl_seconds = ttl, ev_rate_per_minute = rate\<rparr>
   }"

section \<open>Start-up\<close>

text \<open>The gateway of the agents, as \<open>server.ts\<close> and \<open>app.ts\<close> configure it.\<close>

(* src server.ts:20-43 config *)
definition gateway_of :: "app_env \<Rightarrow> gateway_config" where
  "gateway_of c =
     \<lparr>gc_key = ev_credential_key c, gc_perMinute = ev_rate_per_minute c, gc_ttlSeconds = ev_nonce_ttl_seconds c,
      gc_skewSeconds = ev_skew_seconds c\<rparr>"

text \<open>The accounts of the listed addresses, and no other, are administrators of the platform.\<close>

(* src server.ts:70-86 applyAdminBootstrap *)
definition applyAdminBootstrap :: "bool \<Rightarrow> environment \<Rightarrow> db \<Rightarrow> db" where
  "applyAdminBootstrap fails e d =
     (let emails = map to_lower (comma_list (js_trim (env_default e ''BOOTSTRAP_ADMIN_EMAILS'' []))) in
      if emails = [] \<or> fails then d
      else d\<lparr>users := map (\<lambda>u. u\<lparr>u_is_platform_admin := (to_lower (u_email u) \<in> set emails)\<rparr>) (users d)\<rparr>)"

section \<open>Around the routes\<close>

type_synonym headers = "(string \<times> string) list"

(* src app.ts:73-82 onSend *)
definition security_headers :: "bool \<Rightarrow> headers" where
  "security_headers production =
     [(''X-Content-Type-Options'', ''nosniff''), (''Referrer-Policy'', ''strict-origin-when-cross-origin''),
      (''X-Frame-Options'', ''DENY''), (''Permissions-Policy'', ''geolocation=(), microphone=(), camera=()'')] @
     (if production then [(''Strict-Transport-Security'', ''max-age=31536000; includeSubDomains'')] else [])"

text \<open>\<open>Some 204\<close>: the request ends here.\<close>

(* src app.ts:86-98 onRequest *)
definition cors :: "string list \<Rightarrow> http_request \<Rightarrow> headers \<times> int option" where
  "cors origins q =
     ((case hq_headers q ''origin'' of
         Some origin \<Rightarrow> if origin \<in> set origins
           then [(''Access-Control-Allow-Origin'', origin), (''Access-Control-Allow-Credentials'', ''true''), (''Vary'', ''Origin''),
                 (''Access-Control-Allow-Headers'', ''content-type,x-csrf-token''),
                 (''Access-Control-Allow-Methods'', ''GET,POST,PATCH,PUT,DELETE,OPTIONS'')]
           else []
       | None \<Rightarrow> []),
      if hq_method q = ''OPTIONS'' then Some 204 else None)"

(* src app.ts:145-153 readyz *)
definition readyz :: "bool \<Rightarrow> bool \<Rightarrow> api_reply" where
  "readyz database cache =
     reply (if database \<and> cache then 200 else 503)
       [(''ready'', JBool (database \<and> cache)), (''database'', JBool database), (''cache'', JBool cache)]"

section \<open>Migrations\<close>

text \<open>
  A file is its name and its text; \<open>digest\<close> is the digest of a text. The table records a name with the digest
  it had. What was run is the list of the texts handed to the database, in order.
\<close>

record migration_state =
  mg_table :: "(string \<times> string) list"
  mg_run :: "string list"

(* src lib/migrate.ts:45-82 for *)
fun migrate_files :: "(string \<Rightarrow> string) \<Rightarrow> (string \<Rightarrow> bool) \<Rightarrow> (string \<times> string) list \<Rightarrow> migration_state \<Rightarrow> bool \<times> migration_state" where
  "migrate_files digest fails [] s = (True, s)"
| "migrate_files digest fails ((name, sql) # fs) s =
     (case map_of (mg_table s) name of
        Some previous \<Rightarrow> migrate_files digest fails fs
          (if previous = digest sql then s
           else s\<lparr>mg_table := map (\<lambda>(k, c). if k = name then (k, digest sql) else (k, c)) (mg_table s)\<rparr>)
      | None \<Rightarrow>
          if fails name then (False, s\<lparr>mg_run := mg_run s @ [name]\<rparr>)
          else migrate_files digest fails fs (s\<lparr>mg_table := mg_table s @ [(name, digest sql)], mg_run := mg_run s @ [name]\<rparr>))"

definition is_sql :: "string \<Rightarrow> bool" where
  "is_sql name = (4 \<le> length name \<and> drop (length name - 4) name = ''.sql'')"

(* src lib/migrate.ts:34-85 migrate *)
definition migrate :: "(string \<Rightarrow> string) \<Rightarrow> (string \<Rightarrow> bool) \<Rightarrow> (string \<times> string) list \<Rightarrow> migration_state \<Rightarrow> bool \<times> migration_state" where
  "migrate digest fails dir = migrate_files digest fails (sort_key fst (filter (\<lambda>f. is_sql (fst f)) dir))"

section \<open>Log lines\<close>

datatype log_value =
    Log_null
  | Log_bool bool
  | Log_number rat
  | Log_string string
  | Log_buffer nat
  | Log_array "log_value list"
  | Log_object "(string \<times> log_value) list"

(* src lib/logger.ts:9-24 SENSITIVE_FRAGMENTS *)
definition sensitive_fragments :: "string list" where
  "sensitive_fragments = [''secret'', ''token'', ''password'', ''passwd'', ''authorization'', ''credential'', ''signature'',
     ''cookie'', ''webhook'', ''apikey'', ''api_key'', ''private'', ''session'', ''recovery'']"

(* src lib/logger.ts:31-34 isSensitive *)
definition isSensitive :: "string \<Rightarrow> bool" where
  "isSensitive key = list_ex (\<lambda>f. find_sub f (to_lower key) \<noteq> None) sensitive_fragments"

(* src lib/logger.ts:36-47 redact *)
function redact :: "nat \<Rightarrow> log_value \<Rightarrow> log_value" where
  "redact depth v =
     (if 6 < depth then Log_string ''[depth limit]''
      else (case v of
          Log_buffer n \<Rightarrow> Log_string (''[buffer '' @ string_of_nat n @ ''o]'')
        | Log_array vs \<Rightarrow> Log_array (map (redact (Suc depth)) (take 50 vs))
        | Log_object kvs \<Rightarrow> Log_object (map (\<lambda>kv. (fst kv, if isSensitive (fst kv) then Log_string ''[redacted]'' else redact (Suc depth) (snd kv))) kvs)
        | _ \<Rightarrow> v))"
  by pat_completeness auto
termination by (relation "measure (\<lambda>(depth, v). 7 - depth)") auto

declare redact.simps [simp del]

(* src lib/logger.ts:28-28 LEVELS *)
definition level_rank :: "string \<Rightarrow> nat" where
  "level_rank l = coalesce_default (map_of [(''debug'', 10), (''info'', 20), (''warn'', 30), (''error'', 40)] l) 0"

fun put_entry :: "string \<times> log_value \<Rightarrow> (string \<times> log_value) list \<Rightarrow> (string \<times> log_value) list" where
  "put_entry kv [] = [kv]"
| "put_entry kv (kv' # es) = (if fst kv = fst kv' then kv # es else kv' # put_entry kv es)"

definition redacted_fields :: "(string \<times> log_value) list \<Rightarrow> (string \<times> log_value) list" where
  "redacted_fields fs = (case redact 0 (Log_object fs) of Log_object gs \<Rightarrow> gs | _ \<Rightarrow> [])"

text \<open>Whether the line goes to the error stream, and its fields; nothing below the threshold.\<close>

(* src lib/logger.ts:60-74 write *)
definition log_write :: "string \<Rightarrow> (string \<times> log_value) list \<Rightarrow> string \<Rightarrow> string \<Rightarrow> string \<Rightarrow> (string \<times> log_value) list option \<Rightarrow>
    (bool \<times> (string \<times> log_value) list) option" where
  "log_write threshold bindings time level message extra =
     (if level_rank level < level_rank threshold then None
      else Some (level = ''error'' \<or> level = ''warn'',
        fold put_entry (case extra of None \<Rightarrow> [] | Some fs \<Rightarrow> redacted_fields fs)
          (fold put_entry (redacted_fields bindings)
            [(''time'', Log_string time), (''level'', Log_string level), (''message'', Log_string message)])))"

end
