(* ===== verification/Startup_Facts.thy ===== *)
theory Startup_Facts
  imports Startup
begin

text \<open>
  What an environment that passed the check guarantees, what the migrations run, what a log line can show.
\<close>

section \<open>The environment\<close>

lemma env_int_Some:
  "env_int js e k lo hi dflt = Some i \<Longrightarrow> lo \<le> dflt \<Longrightarrow> dflt \<le> hi \<Longrightarrow> lo \<le> i \<and> i \<le> hi"
  by (auto simp: env_int_def split: option.splits if_splits)

lemma env_check_Some [simp]: "env_check b = Some u \<longleftrightarrow> b"
  by (simp add: env_check_def)

lemma env_check_bind [simp]: "Option.bind (env_check b) f = (if b then f () else None)"
  by (simp add: env_check_def)

text \<open>A process that starts has a key of 32 bytes, a secret of at least 32 characters, a tolerance on the clock between half a
  minute and five, a memory of nonces that spans it on both sides and ends within the hour, a limit of requests, and
  the three keys of Discord where its login is enabled.\<close>

theorem environment_bounds:
  assumes "load lib e = Some c"
  shows "length (ev_credential_key c) = 32 \<and> 32 \<le> length (ev_session_secret c) \<and> ev_license_secret c \<noteq> [] \<and>
    30 \<le> ev_skew_seconds c \<and> ev_skew_seconds c \<le> 300 \<and> 2 * ev_skew_seconds c \<le> ev_nonce_ttl_seconds c \<and>
    ev_nonce_ttl_seconds c \<le> 3600 \<and> 1 \<le> ev_rate_per_minute c \<and> ev_rate_per_minute c \<le> 10000 \<and>
    1 \<le> ev_port c \<and> ev_port c \<le> 65535 \<and> 1 \<le> ev_pool_max c \<and> ev_pool_max c \<le> 100 \<and>
    (e ''DISCORD_LOGIN_ENABLED'' = Some ''true'' \<longrightarrow> ev_discord c \<noteq> None) \<and>
    (e ''DISCORD_LOGIN_ENABLED'' \<noteq> Some ''true'' \<longrightarrow> ev_discord c = None) \<and>
    (e ''NODE_ENV'' = Some ''production'' \<longleftrightarrow> ev_production c)"
proof -
  obtain node level port url pool redis key secret enabled skew ttl rate where
    p: "env_one_of [''development'', ''test'', ''production''] e ''NODE_ENV'' ''development'' = Some node"
      "env_int (el_js lib) e ''PORT'' 1 65535 4000 = Some port"
      "env_int (el_js lib) e ''DATABASE_POOL_MAX'' 1 100 10 = Some pool"
      "Option.bind (e ''ZSHIELD_CREDENTIAL_KEY'') (base64_key32 (el_js lib)) = Some key"
      "env_text 32 e ''SESSION_SECRET'' = Some secret"
      "env_one_of [''true'', ''false''] e ''DISCORD_LOGIN_ENABLED'' ''false'' = Some enabled"
      "env_int (el_js lib) e ''AGENT_CLOCK_SKEW_SECONDS'' 30 300 300 = Some skew"
      "env_int (el_js lib) e ''AGENT_NONCE_TTL_SECONDS'' 60 3600 900 = Some ttl"
      "env_int (el_js lib) e ''AGENT_RATE_LIMIT_PER_MINUTE'' 1 10000 120 = Some rate"
    and checks: "2 * skew \<le> ttl" "enabled = ''true'' \<longrightarrow> discord_keys e \<noteq> None"
      "env_default e ''LICENSE_SIGNING_SECRET'' default_license_secret \<noteq> []"
    and c: "c = \<lparr>ev_production = (node = ''production''), ev_log_level = level, ev_port = port,
       ev_cors_origins = comma_list (env_default e ''CORS_ORIGINS'' []), ev_database_url = url, ev_pool_max = pool,
       ev_redis_url = redis, ev_credential_key = key, ev_session_secret = secret, ev_web_origin = e ''WEB_ORIGIN'',
       ev_discord = (if enabled = ''true'' then discord_keys e else None),
       ev_license_secret = env_default e ''LICENSE_SIGNING_SECRET'' default_license_secret,
       ev_skew_seconds = skew, ev_nonce_ttl_seconds = ttl, ev_rate_per_minute = rate\<rparr>"
    using assms unfolding load_def by (auto simp: bind_eq_Some_conv split: if_splits)
  note ints = p(2,3,7,8,9) [THEN env_int_Some, simplified]
  have key: "length key = 32" using p(4) by (auto simp: base64_key32_def Let_def split: option.splits if_splits )
  have "32 \<le> length secret" using p(5) by (auto simp: env_text_def split: option.splits if_splits)
  moreover have "enabled = ''true'' \<longleftrightarrow> e ''DISCORD_LOGIN_ENABLED'' = Some ''true''"
    using p(6) by (auto simp: env_one_of_def split: option.splits if_splits)
  moreover have "node = ''production'' \<longleftrightarrow> e ''NODE_ENV'' = Some ''production''"
    using p(1) by (auto simp: env_one_of_def split: option.splits if_splits)
  ultimately show ?thesis using ints key checks by (simp add: c)
qed


section \<open>Migrations\<close>

definition pending :: "(string \<times> string) list \<Rightarrow> migration_state \<Rightarrow> string list" where
  "pending fs s = filter (\<lambda>n. map_of (mg_table s) n = None) (map fst fs)"

text \<open>What is handed to the database: the names up to the first that fails, and that one.\<close>

definition up_to_failure :: "('a \<Rightarrow> bool) \<Rightarrow> 'a list \<Rightarrow> 'a list" where
  "up_to_failure fails ns = takeWhile (\<lambda>n. \<not> fails n) ns @ take 1 (dropWhile (\<lambda>n. \<not> fails n) ns)"

lemma up_to_failure_simps [simp]:
  "up_to_failure fails [] = []" "fails n \<Longrightarrow> up_to_failure fails (n # ns) = [n]"
  "\<not> fails n \<Longrightarrow> up_to_failure fails (n # ns) = n # up_to_failure fails ns"
  by (simp_all add: up_to_failure_def)

lemma map_of_restamp:
  "map_of (map (\<lambda>(k, c). if k = name then (k, v) else (k, c)) t) n = (if n = name then map_option (\<lambda>_. v) (map_of t n) else map_of t n)"
  by (induction t) auto

lemma pending_other:
  "name \<notin> fst ` set fs \<Longrightarrow> (\<And>n. n \<noteq> name \<Longrightarrow> map_of (mg_table s') n = map_of (mg_table s) n) \<Longrightarrow> pending fs s' = pending fs s"
  unfolding pending_def
proof (rule filter_cong)
  fix n
  assume a: "name \<notin> fst ` set fs" "\<And>n. n \<noteq> name \<Longrightarrow> map_of (mg_table s') n = map_of (mg_table s) n" "n \<in> set (map fst fs)"
  then have "n \<noteq> name" by auto
  with a(2) show "(map_of (mg_table s') n = None) = (map_of (mg_table s) n = None)" by simp
qed simp

lemma migrate_files_run:
  assumes "migrate_files digest fails fs s = (ok, s')" and "distinct (map fst fs)"
  shows "ok = (\<forall>n \<in> set (pending fs s). \<not> fails n) \<and> mg_run s' = mg_run s @ up_to_failure fails (pending fs s) \<and>
    (\<forall>n. n \<notin> fst ` set fs \<longrightarrow> map_of (mg_table s') n = map_of (mg_table s) n) \<and>
    (ok \<longrightarrow> (\<forall>f \<in> set fs. map_of (mg_table s') (fst f) = Some (digest (snd f))))"
  using assms
proof (induction digest fails fs s rule: migrate_files.induct)
  case (2 digest fails name sql fs s)
  have new: "name \<notin> fst ` set fs" "distinct (map fst fs)" using 2(4) by auto
  show ?case
  proof (cases "map_of (mg_table s) name")
    case (Some previous)
    define s1 where "s1 = (if previous = digest sql then s
      else s\<lparr>mg_table := map (\<lambda>(k, c). if k = name then (k, digest sql) else (k, c)) (mg_table s)\<rparr>)"
    have t: "map_of (mg_table s1) n = (if n = name then Some (digest sql) else map_of (mg_table s) n)" for n
      using Some by (simp add: s1_def map_of_restamp)
    have run: "migrate_files digest fails fs s1 = (ok, s')" "mg_run s1 = mg_run s" using 2(3) Some by (simp_all add: s1_def)
    have "pending ((name, sql) # fs) s = pending fs s" "pending fs s1 = pending fs s"
      using Some by (simp add: pending_def, intro pending_other [OF new(1)]) (simp add: t)
    with 2(2) [OF Some] run new t show ?thesis by (auto simp: s1_def)
  next
    case None
    then have p: "pending ((name, sql) # fs) s = name # pending fs s" by (simp add: pending_def)
    show ?thesis
    proof (cases "fails name")
      case True
      then show ?thesis using 2(3) None p by auto
    next
      case False
      define s1 where "s1 = s\<lparr>mg_table := mg_table s @ [(name, digest sql)], mg_run := mg_run s @ [name]\<rparr>"
      have t: "map_of (mg_table s1) n = (if n = name then Some (digest sql) else map_of (mg_table s) n)" for n
        using None by (simp add: s1_def map_add_def split: option.split)
      have run: "migrate_files digest fails fs s1 = (ok, s')" "mg_run s1 = mg_run s @ [name]" using 2(3) None False by (simp_all add: s1_def)
      have "pending fs s1 = pending fs s" by (intro pending_other [OF new(1)]) (simp add: t)
      with 2(1) [OF None False] run new t p False show ?thesis by (auto simp: s1_def)
    qed
  qed
qed (auto simp: pending_def)

lemma migrate_files_again:
  "\<forall>f \<in> set fs. map_of (mg_table s) (fst f) = Some (digest (snd f)) \<Longrightarrow> migrate_files digest fails fs s = (True, s)"
  by (induction fs) auto


section \<open>Log lines\<close>

text \<open>What a redacted value is: no buffer, short arrays, no depth beyond six, and only the mark under a sensitive name.\<close>

function clean :: "nat \<Rightarrow> log_value \<Rightarrow> bool" where
  "clean depth v = (case v of
     Log_buffer n \<Rightarrow> False
   | Log_array vs \<Rightarrow> if 6 < depth then False else length vs \<le> 50 \<and> (\<forall>v \<in> set vs. clean (Suc depth) v)
   | Log_object kvs \<Rightarrow> if 6 < depth then False
       else (\<forall>kv \<in> set kvs. if isSensitive (fst kv) then snd kv = Log_string ''[redacted]'' else clean (Suc depth) (snd kv))
   | _ \<Rightarrow> True)"
  by pat_completeness auto
termination by (relation "measure (\<lambda>(depth, v). 7 - depth)") auto

declare clean.simps [simp del]

text \<open>C39: Whatever is logged, the redacted value is clean at every depth.\<close>

theorem redacted_clean: "clean depth (redact depth v)"
proof (induction depth v rule: redact.induct)
  case (1 depth v)
  show ?case
  proof (cases v)
    case (Log_array vs)
    have "clean (Suc depth) (redact (Suc depth) u)" if "u \<in> set (take 50 vs)" "\<not> 6 < depth" for u
      using 1(1) [OF that(2) Log_array] that(1) by blast
    then show ?thesis using Log_array by (auto simp: redact.simps [of depth "Log_array vs"] clean.simps [of depth])
  next
    case (Log_object kvs)
    have "clean (Suc depth) (redact (Suc depth) (snd kv))" if "kv \<in> set kvs" "\<not> isSensitive (fst kv)" "\<not> 6 < depth" for kv
      using 1(2) [OF that(3) Log_object] that by blast
    then show ?thesis using Log_object by (auto simp: redact.simps [of depth "Log_object kvs"] clean.simps [of depth])
  qed (simp_all add: redact.simps [of depth] clean.simps)
qed

text \<open>Two values that agree but for what is under sensitive names.\<close>

inductive agree :: "log_value \<Rightarrow> log_value \<Rightarrow> bool" where
  Same: "agree v v"
| Arrays: "length vs = length us \<Longrightarrow> (\<And>i. i < length vs \<Longrightarrow> agree (vs ! i) (us ! i)) \<Longrightarrow> agree (Log_array vs) (Log_array us)"
| Objects: "length ks = length ls \<Longrightarrow>
    (\<And>i. i < length ks \<Longrightarrow> fst (ks ! i) = fst (ls ! i) \<and> (isSensitive (fst (ks ! i)) \<or> agree (snd (ks ! i)) (snd (ls ! i)))) \<Longrightarrow>
    agree (Log_object ks) (Log_object ls)"

lemma redact_agree: "agree v u \<Longrightarrow> redact depth v = redact depth u"
proof (induction arbitrary: depth rule: agree.induct)
  case (Arrays vs us)
  have "map (redact (Suc depth)) (take 50 vs) = map (redact (Suc depth)) (take 50 us)"
    by (rule nth_equalityI) (use Arrays in auto)
  then show ?case by (simp add: redact.simps [of depth])
next
  case (Objects ks ls)
  let ?r = "\<lambda>kv. (fst kv, if isSensitive (fst kv) then Log_string ''[redacted]'' else redact (Suc depth) (snd kv))"
  have "?r (ks ! i) = ?r (ls ! i)" if "i < length ks" for i using Objects(2) [OF that] by auto
  then have "map ?r ks ! i = map ?r ls ! i" if "i < length ks" for i using that Objects(1) by (simp only: nth_map)
  then have "map ?r ks = map ?r ls" by (intro nth_equalityI) (simp_all only: length_map Objects(1))
  then show ?case by (simp add: redact.simps [of depth])
qed simp

text \<open>A line tells nothing of what is under a sensitive name, at any depth: bindings and fields that agree elsewhere give
  the same line.\<close>

theorem log_line_hides_secrets:
  assumes "agree (Log_object bindings) (Log_object bindings')" and "agree (Log_object extra) (Log_object extra')"
  shows "log_write threshold bindings time level message (Some extra) = log_write threshold bindings' time level message (Some extra')"
  using redact_agree [OF assms(1), of 0] redact_agree [OF assms(2), of 0] by (simp add: log_write_def redacted_fields_def)

end
