(* ===== verification/Platform_Witnesses.thy ===== *)
theory Platform_Witnesses
  imports Api_Witnesses Gateway_Samples Witnesses Realtime_Facts Startup_Facts
begin

text \<open>
  Applications of the properties of the sockets, of the environment, of the migrations and of the log lines.
\<close>

section \<open>Sockets\<close>

definition sample_socket :: "connect_outcome \<times> rt_hub \<times> world" where
  "sample_socket = connect sample_crypto (sample_env (\<lambda>n. [])) sample_post False 7 (empty_hub, api_world)"

definition sample_hub :: rt_hub where
  "sample_hub = fanOut (\<lambda>k. True) (\<lambda>k. False) (organizationChannel sample_org) ''alert'' (fst (snd sample_socket))"

definition is_connected :: "connect_outcome \<Rightarrow> bool" where
  "is_connected r = (case r of Connected org ro \<Rightarrow> org = sample_org \<and> ro = OWNER | _ \<Rightarrow> False)"

theorem socket_only_for_members_witness:
  "\<exists>ctx :: session_context. fst sample_socket = Connected sample_org OWNER \<and> accepted_role (sr_userId (sc_session ctx)) sample_org (wd_db api_world) = Some OWNER"
proof -
  have "is_connected (fst sample_socket)" by code_simp
  then have c: "fst sample_socket = Connected sample_org OWNER" by (auto simp: is_connected_def split: connect_outcome.splits)
  then obtain h w where "sample_socket = (Connected sample_org OWNER, h, w)" by (metis prod.collapse)
  from socket_only_for_members [OF this [unfolded sample_socket_def]] c show ?thesis by blast
qed

theorem socket_hears_one_organization_witness:
  "Event (organizationChannel sample_org) ''alert'' \<in> set (rh_sent sample_hub 7) \<and>
     (\<exists>org r. Ready org r \<in> set (rh_sent sample_hub 7) \<and> organizationChannel sample_org = organizationChannel org)"
proof -
  have e: "rh_sent sample_hub 7 = [Ready sample_org OWNER, Event (organizationChannel sample_org) ''alert'']" by code_simp
  then have m: "Event (organizationChannel sample_org) ''alert'' \<in> set (rh_sent sample_hub 7)" by simp
  have "rt_step (empty_hub, api_world) (snd sample_socket)"
    unfolding sample_socket_def by (rule rt_step.Opens) (simp_all add: empty_hub_def)
  moreover have "rt_step (snd sample_socket) (sample_hub, snd (snd sample_socket))"
    unfolding sample_hub_def using rt_step.Published [of "fst (snd sample_socket)" "snd (snd sample_socket)"] by simp
  ultimately have "rt_step\<^sup>*\<^sup>* (empty_hub, api_world) (sample_hub, snd (snd sample_socket))" by (meson converse_rtranclp_into_rtranclp r_into_rtranclp)
  from socket_hears_one_organization [OF this m] m show ?thesis by blast
qed

section \<open>The environment\<close>

definition sample_environment :: "string \<Rightarrow> environment" where
  "sample_environment ttl = map_of
     [(''DATABASE_URL'', ''postgres://db''), (''REDIS_URL'', ''redis://cache''),
      (''ZSHIELD_CREDENTIAL_KEY'', concat (replicate 10 ''AQEB'') @ ''AQE=''),
      (''SESSION_SECRET'', replicate 32 (CHR ''s'')), (''AGENT_NONCE_TTL_SECONDS'', ttl)]"

definition sample_app :: "int \<Rightarrow> app_env" where
  "sample_app ttl =
     \<lparr>ev_production = False, ev_log_level = ''info'', ev_port = 4000, ev_cors_origins = [], ev_database_url = ''postgres://db'',
      ev_pool_max = 10, ev_redis_url = ''redis://cache'', ev_credential_key = sample_master,
      ev_session_secret = replicate 32 (CHR ''s''), ev_web_origin = None, ev_discord = None,
      ev_license_secret = default_license_secret, ev_skew_seconds = 300, ev_nonce_ttl_seconds = ttl, ev_rate_per_minute = 120\<rparr>"

definition sample_lib :: env_lib where "sample_lib = \<lparr>el_js = sample_js, el_url_ok = (\<lambda>s. True)\<rparr>"

lemma sample_loads:
  "load sample_lib (sample_environment ''601'') = Some (sample_app 601)" "load sample_lib (sample_environment ''600'') = Some (sample_app 600)"
  by code_simp+

theorem environment_bounds_witness: "30 \<le> ev_skew_seconds (sample_app 601) \<and> 2 * ev_skew_seconds (sample_app 601) \<le> ev_nonce_ttl_seconds (sample_app 601)"
  using environment_bounds [OF sample_loads(1)] by blast

definition later_entry :: "time_ms \<Rightarrow> gw_entry" where
  "later_entry t = (sample_entry t)\<lparr>ge_request := (sample_request ''/agent/v1/heartbeat'')
     \<lparr>aq_headers := (aq_headers (sample_request ''/agent/v1/heartbeat''))(header_name ''timestamp'' := H_one ''300'')\<rparr>\<rparr>"


text \<open>At the bound the check of the environment allows, a request sent at the edge of the window is accepted again at the other
  edge: its nonce is forgotten at that very instant.\<close>

theorem tightest_environment_replays:
  "load sample_lib (sample_environment ''600'') = Some (sample_app 600) \<and> entries_ordered 0 [later_entry 0, later_entry 600000] \<and>
   (let run = gateway_run sample_js sample_crypto sample_redis (gateway_of (sample_app 600)) [] [later_entry 0, later_entry 600000]
    in length run = 2 \<and> same_request (snd (run ! 0)) (snd (run ! 1)))"
proof -
  have "entries_ordered 0 [later_entry 0, later_entry 600000]" by code_simp
  moreover have "(let run = gateway_run sample_js sample_crypto sample_redis (gateway_of (sample_app 600)) [] [later_entry 0, later_entry 600000]
    in length run = 2 \<and> same_request (snd (run ! 0)) (snd (run ! 1)))" by code_simp
  ultimately show ?thesis using sample_loads(2) by blast
qed

section \<open>Migrations and log lines\<close>

definition sample_files :: "(string \<times> string) list" where
  "sample_files = [(''0002_b.sql'', ''b''), (''0001_a.sql'', ''a''), (''README.md'', ''r'')]"

definition sample_start :: "bool \<times> migration_state" where
  "sample_start = migrate id (\<lambda>n. False) sample_files \<lparr>mg_table = [], mg_run = []\<rparr>"


theorem log_line_hides_secrets_witness:
  "log_write ''info'' [(''service'', Log_string ''api'')] ''t'' ''warn'' ''m'' (Some [(''auth'', Log_object [(''sessionToken'', Log_string ''abc'')])]) =
   log_write ''info'' [(''service'', Log_string ''api'')] ''t'' ''warn'' ''m'' (Some [(''auth'', Log_object [(''sessionToken'', Log_number 5)])])"
proof -
  have s: "isSensitive ''sessionToken''" by code_simp
  have "agree (Log_object [(''sessionToken'', Log_string ''abc'')]) (Log_object [(''sessionToken'', Log_number 5)])"
    by (rule agree.Objects) (use s in auto)
  then have "agree (Log_object [(''auth'', Log_object [(''sessionToken'', Log_string ''abc'')])])
      (Log_object [(''auth'', Log_object [(''sessionToken'', Log_number 5)])])"
    by (intro agree.Objects) auto
  from log_line_hides_secrets [OF agree.Same this] show ?thesis .
qed

end
