(* ===== verification/Api_Protections.thy ===== *)
theory Api_Protections
  imports Api_Licenses Agent_Config
begin

text \<open>
  \<open>apps/api/src/api/routes.ts\<close>: the protections of the catalogue an operator switches on for a server, and the dashboard that
  sums up what they blocked. Names and descriptions of the catalogue are left out of the replies, as they are
  of \<open>Catalog\<close>.
\<close>

section \<open>Protections of a server\<close>

record protection_item =
  pi_id :: string
  pi_enabled :: bool
  pi_mode :: string

definition z_mode :: "json \<Rightarrow> string option" where
  "z_mode = z_matching (\<lambda>s. s = ''watch'' \<or> s = ''block'')"

(* src api/routes.ts:1958-1968 protectionSettingsSchema *)
definition protectionSettingsSchema :: "json \<Rightarrow> protection_item list option" where
  "protectionSettingsSchema j = do {
     fs \<leftarrow> z_record j;
     z_field ''items'' (z_array 0 500 (\<lambda>i. do {
       gs \<leftarrow> z_record i;
       pid \<leftarrow> z_field ''id'' (z_matching (\<lambda>s. True)) gs;
       en \<leftarrow> z_field ''enabled'' z_bool gs;
       mode \<leftarrow> z_field ''mode'' z_mode gs;
       Some \<lparr>pi_id = pid, pi_enabled = en, pi_mode = mode\<rparr>
     })) fs
   }"

definition category_view :: "setting_row list \<Rightarrow> protection_category \<Rightarrow> json" where
  "category_view saved c = JObj [(''id'', JStr (pc_id c)), (''items'', JArr (map (setting_json saved) (pc_items c)))]"

definition active_protections :: "setting_row list \<Rightarrow> nat" where
  "active_protections saved = length (filter (\<lambda>it. fst (effective_setting saved it)) catalog_items)"

(* src api/routes.ts:1971-2009 protection-settings/get *)
definition getProtectionSettings :: "api_deps \<Rightarrow> api_env \<Rightarrow> api_request \<Rightarrow> world \<Rightarrow> api_reply \<times> world" where
  "getProtectionSettings v x q w =
     handle_with (reads v x q Detection_read w) (\<lambda>a.
       and_then (tenant_step x 0 (ra_organizationId a) (\<lambda>d.
           (Inr (if exists_row (live_server (ra_organizationId a) (pq_id q)) (servers d)
                 then Some (saved_settings (ra_organizationId a) (pq_id q) d) else None), d))) (\<lambda>r.
         case r of
           None \<Rightarrow> give not_found
         | Some saved \<Rightarrow> give (reply 200 [(''total'', JInt (int protection_count)),
             (''active'', JInt (int (active_protections saved))), (''categories'', JArr (map (category_view saved) protection_catalog))])))"

definition setting_of :: "string \<Rightarrow> string \<Rightarrow> string \<Rightarrow> setting_row \<Rightarrow> bool" where
  "setting_of org sid pid r = (st_organization_id r = org \<and> st_server_id r = sid \<and> st_protection_id r = pid)"

(* src api/routes.ts:2031-2040 protection-settings/put/for *)
definition put_setting :: "string \<Rightarrow> string \<Rightarrow> protection_item \<Rightarrow> setting_row list \<Rightarrow> setting_row list" where
  "put_setting org sid it rows =
     (if exists_row (setting_of org sid (pi_id it)) rows
      then sql_update (setting_of org sid (pi_id it)) (\<lambda>r. r\<lparr>st_enabled := pi_enabled it, st_mode := pi_mode it\<rparr>) rows
      else rows @ [\<lparr>st_organization_id = org, st_server_id = sid, st_protection_id = pi_id it,
                    st_enabled = pi_enabled it, st_mode = pi_mode it\<rparr>])"

(* src api/routes.ts:2024-2048 protection-settings/put/transaction *)
definition put_settings_tx :: "string \<Rightarrow> string \<Rightarrow> protection_item list \<Rightarrow> time_ms \<Rightarrow> db \<Rightarrow> bool result \<times> db" where
  "put_settings_tx org sid items now d =
     (if \<not> exists_row (live_server org sid) (servers d) then (Inr False, d)
      else (Inr True, d\<lparr>protection_settings := fold (put_setting org sid) items (protection_settings d),
             servers := sql_update (\<lambda>s. sv_organization_id s = org \<and> sv_id s = sid)
               (\<lambda>s. s\<lparr>sv_config_version := sv_config_version s + 1, sv_updated_at := now\<rparr>) (servers d)\<rparr>))"

definition known_items :: "protection_item list \<Rightarrow> protection_item list" where
  "known_items items = filter (\<lambda>i. protection_by_id (pi_id i) \<noteq> None) items"

(* src api/routes.ts:2013-2057 protection-settings/put *)
definition putProtectionSettings :: "api_deps \<Rightarrow> api_env \<Rightarrow> api_request \<Rightarrow> world \<Rightarrow> api_reply \<times> world" where
  "putProtectionSettings v x q w =
     handle_with (writes v x q Configuration_write w) (\<lambda>a.
       case protectionSettingsSchema (pq_body q) of
         None \<Rightarrow> give invalid
       | Some items \<Rightarrow>
           and_then (tenant_step x 0 (ra_organizationId a) (put_settings_tx (ra_organizationId a) (pq_id q) (known_items items) (px_now x 0))) (\<lambda>ok.
             if \<not> ok then give not_found
             else and_then (audit x 1 a ''protections.updated'' (pq_id q)) (\<lambda>_.
               give (reply 200 [(''ok'', JBool True), (''changed'', JInt (int (length (known_items items))))]))))"

section \<open>What the agents blocked\<close>

text \<open>
  A path into a document, \<open>Number(v ?? 0)\<close> of what it holds: \<open>None\<close> is \<open>NaN\<close>, and \<open>num\<close> what \<open>Number\<close>
  makes of a value that is no number.
\<close>

fun json_path :: "string list \<Rightarrow> json \<Rightarrow> json option" where
  "json_path [] j = (if j = JNull then None else Some j)"
| "json_path (k # ks) j = (case j of JObj fs \<Rightarrow> Option.bind (obj_get k fs) (json_path ks) | _ \<Rightarrow> None)"

definition number_at :: "(json \<Rightarrow> rat option) \<Rightarrow> string list \<Rightarrow> json \<Rightarrow> rat option" where
  "number_at num ks j = (case json_path ks j of None \<Rightarrow> Some 0 | Some (JNum q) \<Rightarrow> Some q | Some u \<Rightarrow> num u)"

definition nan_plus :: "rat option \<Rightarrow> rat option \<Rightarrow> rat option" where
  "nan_plus a b = (case (a, b) of (Some p, Some q) \<Rightarrow> Some (p + q) | _ \<Rightarrow> None)"

definition total_at :: "(json \<Rightarrow> rat option) \<Rightarrow> string list \<Rightarrow> json list \<Rightarrow> rat option" where
  "total_at num ks snaps = fold (\<lambda>s acc. nan_plus acc (number_at num ks s)) snaps (Some 0)"

(* src api/routes.ts:1952-1952 LOCKDOWN_RANK *)
definition lockdown_rank :: "string \<Rightarrow> nat" where
  "lockdown_rank s = coalesce_default (map_of [(''inactive'', 0), (''relaxed'', 1), (''strict'', 2)] s) 0"

definition snapshot_lockdown :: "json \<Rightarrow> string" where
  "snapshot_lockdown s = (case json_path [''onesync_lockdown''] s of Some (JStr m) \<Rightarrow> m | _ \<Rightarrow> ''inactive'')"

(* src api/routes.ts:2090-2091 protections/lockdown *)
definition highest_lockdown :: "json list \<Rightarrow> string" where
  "highest_lockdown snaps =
     fold (\<lambda>s acc. if lockdown_rank acc < lockdown_rank (snapshot_lockdown s) then snapshot_lockdown s else acc) snaps ''inactive''"

definition evidence_levels :: "string list" where "evidence_levels = [''E0'', ''E1'', ''E2'', ''E3'', ''E4'', ''E5'']"
definition reputation_states :: "string list" where
  "reputation_states = [''ACTIVE'', ''DEGRADED'', ''OBSERVATION'', ''DISABLED'']"

(* src api/routes.ts:1948-1951 EVIDENCE_LABELS *)
definition evidence_label :: "string \<Rightarrow> string" where
  "evidence_label l = coalesce_default (map_of (zip evidence_levels
     [''Signal faible'', ''Signal'', ''Anomalie confirm'' @ [CHR 0xC3, CHR 0xA9] @ ''e'', ''Recoup'' @ [CHR 0xC3, CHR 0xA9] @ ''e'',
      ''Preuve solide'', ''Triche prouv'' @ [CHR 0xC3, CHR 0xA9] @ ''e'']) l) []"

definition j_number :: "rat option \<Rightarrow> json" where "j_number v = j_opt JNum v"

definition overheads :: "json list \<Rightarrow> json list" where
  "overheads snaps = filter (\<lambda>s. json_path [''performance'', ''overhead_pct''] s \<noteq> None) snaps"

definition budget_of :: "(json \<Rightarrow> rat option) \<Rightarrow> json list \<Rightarrow> rat option" where
  "budget_of num snaps =
     (case filter (\<lambda>s. json_path [''performance'', ''budget_ms''] s \<noteq> None) snaps of
        [] \<Rightarrow> Some 2 | ss \<Rightarrow> number_at num [''performance'', ''budget_ms''] (last ss))"

definition average_overhead :: "(json \<Rightarrow> rat option) \<Rightarrow> json list \<Rightarrow> rat option" where
  "average_overhead num snaps =
     (case overheads snaps of [] \<Rightarrow> Some 0
      | ss \<Rightarrow> map_option (\<lambda>t. t / of_nat (length ss)) (total_at num [''performance'', ''overhead_pct''] ss))"

(* src api/routes.ts:2102-2115 protections/layers *)
definition protection_layers :: "(string \<times> string) list" where
  "protection_layers = [(''game_events'', ''PREVENT''), (''statebag'', ''PREVENT''), (''orchestrator'', ''PREVENT''),
     (''evidence'', ''DETECT''), (''reputation'', ''DETECT''), (''performance'', ''ADVISORY'')]"

definition blocked_for :: "(json \<Rightarrow> rat option) \<Rightarrow> json list \<Rightarrow> string \<Rightarrow> rat option" where
  "blocked_for num snaps i =
     (if i \<in> {''game_events'', ''statebag''} then total_at num [''layers'', i, ''blocked''] snaps else Some 0)"

(* src api/routes.ts:2072-2130 protections/get/aggregate *)
definition protections_view :: "(json \<Rightarrow> rat option) \<Rightarrow> json list \<Rightarrow> (string \<times> json) list" where
  "protections_view num snaps =
     [(''layers'', JArr (map (\<lambda>(i, posture). JObj [(''id'', JStr i), (''posture'', JStr posture), (''status'', JStr ''ACTIVE''),
          (''blocked_24h'', j_number (blocked_for num snaps i))]) protection_layers)),
      (''reputation'', JArr []),
      (''reputation_counts'', JObj (map (\<lambda>s. (s, j_number (total_at num [''reputation'', s] snaps))) reputation_states)),
      (''evidence'', JArr (map (\<lambda>l. JObj [(''level'', JStr l), (''label'', JStr (evidence_label l)),
          (''count'', j_number (total_at num [''evidence'', l] snaps))]) evidence_levels)),
      (''performance'', JObj [(''critical_ms'', JInt 0), (''budget_ms'', j_number (budget_of num snaps)),
          (''overhead_pct'', j_number (average_overhead num snaps))]),
      (''onesync_lockdown'', JStr (highest_lockdown snaps))]"

(* src api/routes.ts:2059-2131 protections/get *)
definition getProtections :: "api_deps \<Rightarrow> (json \<Rightarrow> rat option) \<Rightarrow> api_env \<Rightarrow> api_request \<Rightarrow> world \<Rightarrow> api_reply \<times> world" where
  "getProtections v num x q w =
     handle_with (reads v x q Detection_read w) (\<lambda>a.
       tenant_step x 0 (ra_organizationId a) (\<lambda>d.
         (Inr (reply 200 (protections_view num (map sp_snapshot
            (filter (\<lambda>r. sp_organization_id r = ra_organizationId a) (server_protections d))))), d)))"

end
