(* ===== verification/Api_Rules.thy ===== *)
theory Api_Rules
  imports Api_Protections
begin

text \<open>
  \<open>apps/api/src/api/routes.ts\<close>: signatures of cheats, rules on events, settings of the detectors of a server.
\<close>

section \<open>Signatures\<close>

record signature_input =
  si_label :: string
  si_category :: string
  si_pattern :: string
  si_cheat_name :: "string option"
  si_description :: "string option"

(* src api/routes.ts:2876-2882 signatureSubmitSchema *)
definition signatureSubmitSchema :: "json \<Rightarrow> signature_input option" where
  "signatureSubmitSchema j = do {
     fs \<leftarrow> z_object [''label'', ''category'', ''pattern'', ''cheat_name'', ''description''] j;
     label \<leftarrow> z_field ''label'' (z_string 2 120) fs;
     cat \<leftarrow> z_field ''category'' (z_matching (\<lambda>s. s \<in> set [''event'', ''resource'', ''entity'', ''convar'', ''pattern''])) fs;
     pat \<leftarrow> z_field ''pattern'' (z_string 2 256) fs;
     cheat \<leftarrow> z_optional ''cheat_name'' (z_string 0 80) fs;
     descr \<leftarrow> z_optional ''description'' (z_string 0 2000) fs;
     Some \<lparr>si_label = label, si_category = cat, si_pattern = pat, si_cheat_name = cheat, si_description = descr\<rparr>
   }"

definition new_signature :: "string \<Rightarrow> string \<Rightarrow> string \<Rightarrow> signature_input \<Rightarrow> time_ms \<Rightarrow> signature_row" where
  "new_signature i org uid p now =
     \<lparr>sg_id = i, sg_organization_id = org, sg_submitted_by = Some uid, sg_label = si_label p, sg_category = si_category p,
      sg_pattern = si_pattern p, sg_cheat_name = si_cheat_name p, sg_description = si_description p, sg_status = Sig_pending,
      sg_reviewed_by = None, sg_review_note = None, sg_reviewed_at = None, sg_created_at = now\<rparr>"

definition same_signature :: "signature_row \<Rightarrow> signature_row \<Rightarrow> bool" where
  "same_signature a b = (sg_organization_id a = sg_organization_id b \<and> sg_category a = sg_category b \<and> sg_pattern a = sg_pattern b)"

(* src api/routes.ts:2892-2901 signatures/post/transaction *)
definition insert_signature :: "signature_row \<Rightarrow> db \<Rightarrow> bool result \<times> db" where
  "insert_signature r d =
     (if exists_row (\<lambda>o'. sg_id o' = sg_id r \<or> same_signature o' r) (signatures d) then (Inl Unique_violation, d)
      else if \<not> organization_exists (sg_organization_id r) d then (Inl Foreign_key_violation, d)
      else (Inr True, d\<lparr>signatures := signatures d @ [r]\<rparr>))"

text \<open>\<open>try { m } catch (e) { if (e is a violation of uniqueness) ... else throw e }\<close>\<close>

definition or_duplicate :: "(world \<Rightarrow> 'a result \<times> world) \<Rightarrow> world \<Rightarrow> 'a option result \<times> world" where
  "or_duplicate m w =
     (case m w of (Inr y, w1) \<Rightarrow> (Inr (Some y), w1) | (Inl Unique_violation, w1) \<Rightarrow> (Inr None, w1) | (Inl e, w1) \<Rightarrow> (Inl e, w1))"

(* src api/routes.ts:2885-2915 signatures/post *)
definition submitSignature :: "api_deps \<Rightarrow> api_env \<Rightarrow> api_request \<Rightarrow> world \<Rightarrow> api_reply \<times> world" where
  "submitSignature v x q w =
     handle_with (writes v x q Anticheat_configure w) (\<lambda>a.
       case signatureSubmitSchema (body_or_empty q) of
         None \<Rightarrow> give invalid
       | Some p \<Rightarrow>
           and_then (or_duplicate (tenant_step x 0 (ra_organizationId a)
               (insert_signature (new_signature (px_ids x 0) (ra_organizationId a) (aw_userId (ra_user a)) p (px_now x 0))))) (\<lambda>r.
             case r of
               None \<Rightarrow> give (fault_reply 409 ''already_submitted'')
             | Some ok \<Rightarrow>
                 if \<not> ok then give (fault_reply 500 ''insert_failed'')
                 else and_then (audit x 1 a ''signature.submitted'' (px_ids x 0)) (\<lambda>_.
                   give (reply 201 [(''status'', JStr ''ok''), (''id'', JStr (px_ids x 0))]))))"

definition signature_status_name :: "signature_status \<Rightarrow> string" where
  "signature_status_name s = (case s of Sig_pending \<Rightarrow> ''pending'' | Sig_approved \<Rightarrow> ''approved'' | Sig_rejected \<Rightarrow> ''rejected'')"

definition own_signature_view :: "signature_row \<Rightarrow> json" where
  "own_signature_view s = JObj
     [(''id'', JStr (sg_id s)), (''label'', JStr (sg_label s)), (''category'', JStr (sg_category s)), (''pattern'', JStr (sg_pattern s)),
      (''cheat_name'', j_opt JStr (sg_cheat_name s)), (''description'', j_opt JStr (sg_description s)),
      (''status'', JStr (signature_status_name (sg_status s))), (''review_note'', j_opt JStr (sg_review_note s)),
      (''reviewed_at'', j_opt JInt (sg_reviewed_at s)), (''created_at'', JInt (sg_created_at s))]"

(* src api/routes.ts:2918-2932 signatures/mine *)
definition mySignatures :: "api_deps \<Rightarrow> api_env \<Rightarrow> api_request \<Rightarrow> world \<Rightarrow> api_reply \<times> world" where
  "mySignatures v x q w =
     handle_with (reads v x q Detection_read w) (\<lambda>a. tenant_step x 0 (ra_organizationId a) (\<lambda>d.
       (Inr (reply 200 [(''submissions'', JArr (map own_signature_view (take 200 (rev (sort_key sg_created_at
          (inside sg_organization_id (ra_organizationId a) (signatures d)))))))]), d)))"

definition approved_view :: "signature_row \<Rightarrow> json" where
  "approved_view s = JObj
     [(''id'', JStr (sg_id s)), (''label'', JStr (sg_label s)), (''category'', JStr (sg_category s)), (''pattern'', JStr (sg_pattern s)),
      (''cheat_name'', j_opt JStr (sg_cheat_name s)), (''reviewed_at'', j_opt JInt (sg_reviewed_at s))]"

text \<open>Newest decision first; a signature without an instant comes last.\<close>

definition newest_decision :: "signature_row list \<Rightarrow> signature_row list" where
  "newest_decision rows = rev (sort_key (\<lambda>s. coalesce_default (sg_reviewed_at s) 0) (filter (\<lambda>s. sg_reviewed_at s \<noteq> None) rows)) @
     filter (\<lambda>s. sg_reviewed_at s = None) rows"

(* src api/routes.ts:2937-2953 signatures/approved *)
definition approvedSignatures :: "api_deps \<Rightarrow> api_env \<Rightarrow> api_request \<Rightarrow> world \<Rightarrow> api_reply \<times> world" where
  "approvedSignatures v x q w =
     handle_with (reads v x q Detection_read w) (\<lambda>a. platform_step x 0 (\<lambda>d.
       (Inr (reply 200 [(''signatures'', JArr (map approved_view (take 1000 (newest_decision
          (filter (\<lambda>s. sg_status s = Sig_approved) (signatures d))))))]), d)))"

definition queue_view :: "db \<Rightarrow> signature_row \<Rightarrow> json" where
  "queue_view d s = JObj
     [(''id'', JStr (sg_id s)), (''organization_id'', JStr (sg_organization_id s)),
      (''organization_name'', JStr (organization_name d (sg_organization_id s))),
      (''submitter_name'', j_opt JStr (map_option u_display_name (first_row (\<lambda>u. Some (u_id u) = sg_submitted_by s) (users d)))),
      (''label'', JStr (sg_label s)), (''category'', JStr (sg_category s)), (''pattern'', JStr (sg_pattern s)),
      (''cheat_name'', j_opt JStr (sg_cheat_name s)), (''description'', j_opt JStr (sg_description s)),
      (''status'', JStr (signature_status_name (sg_status s))), (''review_note'', j_opt JStr (sg_review_note s)),
      (''reviewed_at'', j_opt JInt (sg_reviewed_at s)), (''created_at'', JInt (sg_created_at s))]"

(* src api/routes.ts:2956-2977 admin/signatures *)
definition signatureQueue :: "api_deps \<Rightarrow> api_env \<Rightarrow> api_request \<Rightarrow> world \<Rightarrow> api_reply \<times> world" where
  "signatureQueue v x q w =
     platformAdmin v x q w (\<lambda>a.
       let status = coalesce_default (map_of (pq_query q) ''status'') [] in
       platform_step x 1 (\<lambda>d.
         let rows = rev (sort_key sg_created_at (filter (\<lambda>s. (status = [] \<or> signature_status_name (sg_status s) = status) \<and>
               organization_exists (sg_organization_id s) d) (signatures d))) in
         (Inr (reply 200 [(''submissions'', JArr (map (queue_view d) (take 500
            (filter (\<lambda>s. sg_status s = Sig_pending) rows @ filter (\<lambda>s. sg_status s \<noteq> Sig_pending) rows))))]), d)))"

(* src api/routes.ts:2980-2983 signatureReviewSchema *)
definition signatureReviewSchema :: "json \<Rightarrow> (bool \<times> string option) option" where
  "signatureReviewSchema j = do {
     fs \<leftarrow> z_object [''decision'', ''note''] j;
     approve \<leftarrow> z_field ''decision'' (z_enum [(''approve'', True), (''reject'', False)]) fs;
     note \<leftarrow> z_optional ''note'' (z_string 0 1000) fs;
     Some (approve, note)
   }"

(* src api/routes.ts:2991-3003 review/transaction *)
definition review_signature_tx :: "string \<Rightarrow> string \<Rightarrow> bool \<Rightarrow> string option \<Rightarrow> time_ms \<Rightarrow> db \<Rightarrow> bool result \<times> db" where
  "review_signature_tx uid i approve note now d =
     (if \<not> exists_row (\<lambda>s. sg_id s = i) (signatures d) then (Inr False, d)
      else (Inr True, d\<lparr>signatures := sql_update (\<lambda>s. sg_id s = i)
        (\<lambda>s. s\<lparr>sg_status := (if approve then Sig_approved else Sig_rejected), sg_review_note := note,
               sg_reviewed_by := Some uid, sg_reviewed_at := Some now\<rparr>) (signatures d)\<rparr>))"

(* src api/routes.ts:2984-3008 admin/signatures/review *)
definition reviewSignature :: "api_deps \<Rightarrow> api_env \<Rightarrow> api_request \<Rightarrow> world \<Rightarrow> api_reply \<times> world" where
  "reviewSignature v x q w =
     platformAdmin v x q w (\<lambda>a.
       case signatureReviewSchema (body_or_empty q) of
         None \<Rightarrow> give invalid
       | Some (approve, note) \<Rightarrow>
           and_then (platform_step x 1 (review_signature_tx (aw_userId (ra_user a)) (pq_id q) approve note (px_now x 1))) (\<lambda>there.
             if \<not> there then give not_found
             else and_then (audit x 2 a (if approve then ''signature.approved'' else ''signature.rejected'') (pq_id q)) (\<lambda>_.
               give (reply 200 [(''status'', JStr ''ok''), (''decision'', JStr (if approve then ''approve'' else ''reject''))]))))"

section \<open>Rules on events\<close>

definition rule_view :: "rule_row \<Rightarrow> json" where
  "rule_view r = JObj
     [(''id'', JStr (ru_id r)), (''server_id'', j_opt JStr (ru_server_id r)), (''event_name'', JStr (ru_event_name r)),
      (''event_side'', JStr (ru_event_side r)), (''validation_kind'', JStr (ru_validation_kind r)),
      (''validation_params'', ru_validation_params r), (''action'', JStr (ru_action r)), (''status'', JStr (ru_status r)),
      (''hit_count'', JInt (ru_hit_count r)), (''last_hit_at'', JNull), (''created_at'', JInt (ru_created_at r))]"

(* src api/routes.ts:3010-3023 security-rules/get *)
definition listRules :: "api_deps \<Rightarrow> api_env \<Rightarrow> api_request \<Rightarrow> world \<Rightarrow> api_reply \<times> world" where
  "listRules v x q w =
     handle_with (reads v x q Rule_read w) (\<lambda>a. tenant_step x 0 (ra_organizationId a) (\<lambda>d.
       (Inr (reply 200 [(''rules'', JArr (map rule_view (sort_key (\<lambda>r. - ru_hit_count r) (sort_key ru_event_name
          (inside ru_organization_id (ra_organizationId a) (security_rules d))))))]), d)))"

record rule_input =
  ri_event_name :: string
  ri_event_side :: string
  ri_validation_kind :: string
  ri_validation_params :: json
  ri_action :: string
  ri_server_id :: "string option"

definition z_text_of :: "string list \<Rightarrow> json \<Rightarrow> string option" where
  "z_text_of texts = z_matching (\<lambda>s. s \<in> set texts)"

definition rule_actions :: "string list" where "rule_actions = [''LOG'', ''BLOCK'', ''FLAG'', ''KICK'']"

definition z_rule_param :: "json \<Rightarrow> unit option" where
  "z_rule_param j = (case j of JStr s \<Rightarrow> if length s \<le> 200 then Some () else None | JNum q \<Rightarrow> Some () | JBool b \<Rightarrow> Some () | _ \<Rightarrow> None)"

definition z_rule_params :: "json \<Rightarrow> json option" where
  "z_rule_params j = (case j of JObj fs \<Rightarrow> if list_all (\<lambda>kv. z_rule_param (snd kv) \<noteq> None) fs then Some j else None | _ \<Rightarrow> None)"

(* src api/routes.ts:3025-3034 ruleCreateSchema *)
definition ruleCreateSchema :: "json \<Rightarrow> rule_input option" where
  "ruleCreateSchema j = do {
     fs \<leftarrow> z_object [''event_name'', ''event_side'', ''validation_kind'', ''validation_params'', ''action'', ''server_id''] j;
     name \<leftarrow> z_field ''event_name'' (z_string 1 128) fs;
     side \<leftarrow> z_default ''event_side'' (z_text_of [''server'', ''client'']) ''server'' fs;
     kind \<leftarrow> z_default ''validation_kind'' (z_text_of [''bounds'', ''ownership'', ''rate'', ''allowlist'', ''none'']) ''bounds'' fs;
     params \<leftarrow> z_default ''validation_params'' z_rule_params (JObj []) fs;
     act \<leftarrow> z_default ''action'' (z_text_of rule_actions) ''LOG'' fs;
     sid \<leftarrow> z_nullish ''server_id'' (z_string 0 64) fs;
     Some \<lparr>ri_event_name = name, ri_event_side = side, ri_validation_kind = kind, ri_validation_params = params,
           ri_action = act, ri_server_id = sid\<rparr>
   }"

definition rule_id_ok :: "string \<Rightarrow> bool" where
  "rule_id_ok s = matches_prefixed ''rul_'' lower_alnum 26 s"

definition new_rule :: "string \<Rightarrow> string \<Rightarrow> string \<Rightarrow> rule_input \<Rightarrow> time_ms \<Rightarrow> rule_row" where
  "new_rule i org uid p now =
     \<lparr>ru_id = i, ru_organization_id = org, ru_server_id = ri_server_id p, ru_event_name = ri_event_name p,
      ru_event_side = ri_event_side p, ru_validation_kind = ri_validation_kind p, ru_validation_params = ri_validation_params p,
      ru_action = ri_action p, ru_status = ''ACTIVE'', ru_hit_count = 0, ru_created_by = Some uid, ru_created_at = now\<rparr>"

text \<open>The key of a rule: an event on a server, or on all of them.\<close>

definition rule_key :: "rule_row \<Rightarrow> string \<times> string \<times> string" where
  "rule_key r = (ru_organization_id r, coalesce_default (ru_server_id r) [], ru_event_name r)"

text \<open>\<open>INSERT ... SELECT ... WHERE ... ON CONFLICT (key) DO NOTHING\<close>: whether a row was inserted.\<close>

(* src api/routes.ts:3045-3067 security-rules/post/transaction *)
definition insert_rule :: "rule_row \<Rightarrow> db \<Rightarrow> bool result \<times> db" where
  "insert_rule r d =
     (if \<not> unless_given (ru_server_id r) (\<lambda>s. exists_row (live_server (ru_organization_id r) s) (servers d)) then (Inr False, d)
      else if \<not> rule_id_ok (ru_id r) then (Inl Check_violation, d)
      else if exists_row (\<lambda>o'. rule_key o' = rule_key r) (security_rules d) then (Inr False, d)
      else if exists_row (\<lambda>o'. ru_id o' = ru_id r) (security_rules d) then (Inl Unique_violation, d)
      else (Inr True, d\<lparr>security_rules := security_rules d @ [r]\<rparr>))"

(* src api/routes.ts:3036-3080 security-rules/post *)
definition createRule :: "api_deps \<Rightarrow> api_env \<Rightarrow> api_request \<Rightarrow> world \<Rightarrow> api_reply \<times> world" where
  "createRule v x q w =
     handle_with (writes v x q Rule_manage w) (\<lambda>a.
       case ruleCreateSchema (pq_body q) of
         None \<Rightarrow> give invalid
       | Some p \<Rightarrow>
           and_then (tenant_step x 0 (ra_organizationId a)
               (insert_rule (new_rule (px_ids x 0) (ra_organizationId a) (aw_userId (ra_user a)) p (px_now x 0)))) (\<lambda>created.
             if \<not> created then give (fault_reply 409 ''conflict'')
             else and_then (audit x 1 a ''rule.created'' (px_ids x 0)) (\<lambda>_.
               give (reply 201 [(''rule'', JObj [(''id'', JStr (px_ids x 0))])]))))"

(* src api/routes.ts:3085-3091 security-rules/patch/schema *)
definition rule_patch_schema :: "json \<Rightarrow> (string option \<times> string option) option" where
  "rule_patch_schema j = do {
     fs \<leftarrow> z_object [''action'', ''status''] j;
     act \<leftarrow> z_optional ''action'' (z_text_of rule_actions) fs;
     st \<leftarrow> z_optional ''status'' (z_text_of [''ACTIVE'', ''DISABLED'', ''DRAFT'']) fs;
     Some (act, st)
   }"

(* src api/routes.ts:3097-3107 security-rules/patch/transaction *)
definition update_rule_tx :: "string \<Rightarrow> string \<Rightarrow> string option \<Rightarrow> string option \<Rightarrow> db \<Rightarrow> bool result \<times> db" where
  "update_rule_tx org i act st d =
     (let P = (\<lambda>r. ru_organization_id r = org \<and> ru_id r = i) in
      (Inr (exists_row P (security_rules d)),
       d\<lparr>security_rules := sql_update P (\<lambda>r. r\<lparr>ru_action := coalesce_default act (ru_action r),
           ru_status := coalesce_default st (ru_status r)\<rparr>) (security_rules d)\<rparr>))"

(* src api/routes.ts:3082-3115 security-rules/patch *)
definition updateRule :: "api_deps \<Rightarrow> api_env \<Rightarrow> api_request \<Rightarrow> world \<Rightarrow> api_reply \<times> world" where
  "updateRule v x q w =
     handle_with (writes v x q Rule_manage w) (\<lambda>a.
       case rule_patch_schema (pq_body q) of
         None \<Rightarrow> give invalid
       | Some (act, st) \<Rightarrow>
           and_then (tenant_step x 0 (ra_organizationId a) (update_rule_tx (ra_organizationId a) (pq_id q) act st)) (\<lambda>updated.
             if \<not> updated then give not_found
             else and_then (audit x 1 a ''rule.updated'' (pq_id q)) (\<lambda>_. give status_ok)))"

section \<open>Detectors of a server\<close>

definition settings_of :: "string \<Rightarrow> string \<Rightarrow> settings_row \<Rightarrow> bool" where
  "settings_of org sid r = (an_organization_id r = org \<and> an_server_id r = sid)"

text \<open>What the API answers when nothing is stored, and the defaults of the columns: they differ on one.\<close>

(* src api/routes.ts:3138-3155 anticheat/get/defaults *)
definition default_values :: anticheat_values where
  "default_values =
     \<lparr>av_detect_teleport = True, av_detect_speed = True, av_detect_godmode = True, av_detect_noclip = True,
      av_detect_injected_event = True, av_detect_firerate = True, av_detect_entity_spam = True,
      av_max_ground_speed_kmh = 62, av_max_tick_distance_m = 45, av_max_fire_rate_rps = 12, av_auto_ban_enabled = False,
      av_auto_ban_threshold = 85, av_critical_action = ''kick_flag'', av_default_ban_days = Some 30,
      av_onesync_lockdown = ''inactive''\<rparr>"

(* src db/migrations/0004_anticheat.sql:198-214 anticheat_settings/defaults *)
definition column_values :: anticheat_values where
  "column_values = default_values\<lparr>av_default_ban_days := None\<rparr>"

definition values_json :: "anticheat_values \<Rightarrow> (string \<times> json) list" where
  "values_json s =
     [(''detect_teleport'', JBool (av_detect_teleport s)), (''detect_speed'', JBool (av_detect_speed s)),
      (''detect_godmode'', JBool (av_detect_godmode s)), (''detect_noclip'', JBool (av_detect_noclip s)),
      (''detect_injected_event'', JBool (av_detect_injected_event s)), (''detect_firerate'', JBool (av_detect_firerate s)),
      (''detect_entity_spam'', JBool (av_detect_entity_spam s)), (''max_ground_speed_kmh'', JInt (av_max_ground_speed_kmh s)),
      (''max_tick_distance_m'', JInt (av_max_tick_distance_m s)), (''max_fire_rate_rps'', JInt (av_max_fire_rate_rps s)),
      (''auto_ban_enabled'', JBool (av_auto_ban_enabled s)), (''auto_ban_threshold'', JInt (av_auto_ban_threshold s)),
      (''critical_action'', JStr (av_critical_action s)), (''default_ban_days'', j_opt JInt (av_default_ban_days s)),
      (''onesync_lockdown'', JStr (av_onesync_lockdown s))]"

definition settings_json :: "settings_row \<Rightarrow> (string \<times> json) list" where
  "settings_json r = [(''organization_id'', JStr (an_organization_id r)), (''server_id'', JStr (an_server_id r))] @ values_json (an_values r) @
     [(''updated_by'', j_opt JStr (an_updated_by r)), (''updated_at'', JInt (an_updated_at r))]"

(* src api/routes.ts:3117-3158 anticheat/get *)
definition getAnticheat :: "api_deps \<Rightarrow> api_env \<Rightarrow> api_request \<Rightarrow> world \<Rightarrow> api_reply \<times> world" where
  "getAnticheat v x q w =
     handle_with (reads v x q Detection_read w) (\<lambda>a. tenant_step x 0 (ra_organizationId a) (\<lambda>d.
       (Inr (if \<not> exists_row (live_server (ra_organizationId a) (pq_id q)) (servers d) then not_found
             else reply 200 [(''settings'', JObj
               (case first_row (settings_of (ra_organizationId a) (pq_id q)) (anticheat_settings d) of
                  Some r \<Rightarrow> settings_json r
                | None \<Rightarrow> values_json default_values @ [(''is_default'', JBool True)]))]), d)))"

definition z_lockdown :: "json \<Rightarrow> string option" where
  "z_lockdown = z_text_of [''inactive'', ''relaxed'', ''strict'']"

(* src api/routes.ts:3160-3178 anticheatSettingsSchema *)
definition anticheatSettingsSchema :: "json \<Rightarrow> anticheat_values option" where
  "anticheatSettingsSchema j = do {
     fs \<leftarrow> z_object [''detect_teleport'', ''detect_speed'', ''detect_godmode'', ''detect_noclip'', ''detect_injected_event'',
       ''detect_firerate'', ''detect_entity_spam'', ''max_ground_speed_kmh'', ''max_tick_distance_m'', ''max_fire_rate_rps'',
       ''auto_ban_enabled'', ''auto_ban_threshold'', ''critical_action'', ''default_ban_days'', ''onesync_lockdown''] j;
     tel \<leftarrow> z_field ''detect_teleport'' z_bool fs;
     spe \<leftarrow> z_field ''detect_speed'' z_bool fs;
     god \<leftarrow> z_field ''detect_godmode'' z_bool fs;
     noc \<leftarrow> z_field ''detect_noclip'' z_bool fs;
     inj \<leftarrow> z_field ''detect_injected_event'' z_bool fs;
     fir \<leftarrow> z_field ''detect_firerate'' z_bool fs;
     ent \<leftarrow> z_field ''detect_entity_spam'' z_bool fs;
     kmh \<leftarrow> z_field ''max_ground_speed_kmh'' (z_int 20 500) fs;
     tick \<leftarrow> z_field ''max_tick_distance_m'' (z_int 5 500) fs;
     rate \<leftarrow> z_field ''max_fire_rate_rps'' (z_int 1 100) fs;
     auto \<leftarrow> z_field ''auto_ban_enabled'' z_bool fs;
     thr \<leftarrow> z_field ''auto_ban_threshold'' (z_int 1 100) fs;
     crit \<leftarrow> z_field ''critical_action'' (z_text_of [''ban'', ''kick_flag'', ''flag'']) fs;
     days \<leftarrow> z_nullish ''default_ban_days'' (z_int 1 3650) fs;
     lock \<leftarrow> z_optional ''onesync_lockdown'' z_lockdown fs;
     Some \<lparr>av_detect_teleport = tel, av_detect_speed = spe, av_detect_godmode = god, av_detect_noclip = noc,
           av_detect_injected_event = inj, av_detect_firerate = fir, av_detect_entity_spam = ent,
           av_max_ground_speed_kmh = kmh, av_max_tick_distance_m = tick, av_max_fire_rate_rps = rate,
           av_auto_ban_enabled = auto, av_auto_ban_threshold = thr, av_critical_action = crit, av_default_ban_days = days,
           av_onesync_lockdown = coalesce_default lock ''inactive''\<rparr>
   }"

text \<open>\<open>INSERT ... SELECT ... WHERE EXISTS (server) ON CONFLICT ... DO UPDATE\<close>: the row of a server is created or changed.\<close>

definition upsert_settings :: "anticheat_values \<Rightarrow> (anticheat_values \<Rightarrow> anticheat_values) \<Rightarrow> string \<Rightarrow> string \<Rightarrow> string \<Rightarrow> time_ms \<Rightarrow> db \<Rightarrow>
    bool result \<times> db" where
  "upsert_settings fresh change org sid uid now d =
     (if \<not> exists_row (live_server org sid) (servers d) then (Inr False, d)
      else if exists_row (settings_of org sid) (anticheat_settings d)
      then (Inr True, d\<lparr>anticheat_settings := sql_update (settings_of org sid)
             (\<lambda>r. r\<lparr>an_values := change (an_values r), an_updated_by := Some uid, an_updated_at := now\<rparr>) (anticheat_settings d)\<rparr>)
      else (Inr True, d\<lparr>anticheat_settings := anticheat_settings d @
             [\<lparr>an_organization_id = org, an_server_id = sid, an_values = fresh, an_updated_by = Some uid, an_updated_at = now\<rparr>]\<rparr>))"

(* src api/routes.ts:3771-3810 anticheat/put/transaction *)
definition put_anticheat_tx :: "string \<Rightarrow> string \<Rightarrow> string \<Rightarrow> anticheat_values \<Rightarrow> time_ms \<Rightarrow> db \<Rightarrow> bool result \<times> db" where
  "put_anticheat_tx org sid uid s now = upsert_settings s (\<lambda>_. s) org sid uid now"

(* src api/routes.ts:3761-3821 anticheat/put *)
definition putAnticheat :: "api_deps \<Rightarrow> api_env \<Rightarrow> api_request \<Rightarrow> world \<Rightarrow> api_reply \<times> world" where
  "putAnticheat v x q w =
     handle_with (writes v x q Anticheat_configure w) (\<lambda>a.
       case anticheatSettingsSchema (pq_body q) of
         None \<Rightarrow> give invalid
       | Some s \<Rightarrow>
           and_then (tenant_step x 0 (ra_organizationId a)
               (put_anticheat_tx (ra_organizationId a) (pq_id q) (aw_userId (ra_user a)) s (px_now x 0))) (\<lambda>saved.
             if \<not> saved then give not_found
             else and_then (audit x 1 a ''anticheat.configured'' (pq_id q)) (\<lambda>_. give status_ok)))"

(* src api/routes.ts:3730-3730 lockdownSchema *)
definition lockdownSchema :: "json \<Rightarrow> string option" where
  "lockdownSchema j = do { fs \<leftarrow> z_object [''mode''] j; z_field ''mode'' z_lockdown fs }"

(* src api/routes.ts:3739-3751 lockdown/patch/transaction *)
definition lockdown_tx :: "string \<Rightarrow> string \<Rightarrow> string \<Rightarrow> string \<Rightarrow> time_ms \<Rightarrow> db \<Rightarrow> bool result \<times> db" where
  "lockdown_tx org sid uid mode now =
     upsert_settings (column_values\<lparr>av_onesync_lockdown := mode\<rparr>) (\<lambda>s. s\<lparr>av_onesync_lockdown := mode\<rparr>) org sid uid now"

(* src api/routes.ts:3731-3759 lockdown/patch *)
definition setLockdown :: "api_deps \<Rightarrow> api_env \<Rightarrow> api_request \<Rightarrow> world \<Rightarrow> api_reply \<times> world" where
  "setLockdown v x q w =
     handle_with (writes v x q Anticheat_configure w) (\<lambda>a.
       case lockdownSchema (pq_body q) of
         None \<Rightarrow> give invalid
       | Some mode \<Rightarrow>
           and_then (tenant_step x 0 (ra_organizationId a)
               (lockdown_tx (ra_organizationId a) (pq_id q) (aw_userId (ra_user a)) mode (px_now x 0))) (\<lambda>saved.
             if \<not> saved then give not_found
             else and_then (audit x 1 a ''anticheat.lockdown'' (pq_id q)) (\<lambda>_.
               give (reply 200 [(''ok'', JBool True), (''onesync_lockdown'', JStr mode)]))))"

end
