(* ===== verification/Settings_Facts.thy ===== *)
theory Settings_Facts
  imports Api_Rules Capture_Facts
begin

text \<open>
  What an operator sets for a server is what is read back: by the agent for the protections, by the interface for the
  detectors.
\<close>

section \<open>Protections\<close>

text \<open>The choice a list of items makes, the last one of each protection; elsewhere the one that was in force.\<close>

definition chosen :: "protection_item list \<Rightarrow> setting_row list \<Rightarrow> protection_def \<Rightarrow> bool \<times> string" where
  "chosen items saved it =
     (case map_of (rev (map (\<lambda>i. (pi_id i, i)) items)) (pd_id it) of
        Some i \<Rightarrow> (pi_enabled i, pi_mode i)
      | None \<Rightarrow> effective_setting saved it)"

definition chosen_json :: "protection_item list \<Rightarrow> setting_row list \<Rightarrow> protection_def \<Rightarrow> json" where
  "chosen_json items saved it =
     JObj [(''id'', JStr (pd_id it)), (''enabled'', JBool (fst (chosen items saved it))), (''mode'', JStr (snd (chosen items saved it)))]"

definition in_server :: "string \<Rightarrow> string \<Rightarrow> setting_row list \<Rightarrow> setting_row list" where
  "in_server org sid rows = filter (\<lambda>r. st_organization_id r = org \<and> st_server_id r = sid) rows"

definition setting_at :: "setting_row list \<Rightarrow> string \<Rightarrow> (bool \<times> string) option" where
  "setting_at saved k = map_option (\<lambda>r. (st_enabled r, st_mode r)) (map_of (rev (map (\<lambda>r. (st_protection_id r, r)) saved)) k)"

lemma effective_at: "effective_setting saved it = coalesce_default (setting_at saved (pd_id it)) (pd_defaultEnabled it, mode_name (pd_defaultMode it))"
  by (simp add: effective_setting_def setting_at_def coalesce_default_def split: option.split)

lemma setting_at_simps:
  "setting_at [] k = None"
  "setting_at (saved @ [r]) k = (if st_protection_id r = k then Some (st_enabled r, st_mode r) else setting_at saved k)"
  by (simp_all add: setting_at_def)

lemma in_server_simps [simp]:
  "in_server org sid [] = []"
  "in_server org sid (rows @ rows') = in_server org sid rows @ in_server org sid rows'"
  by (simp_all add: in_server_def)

lemma setting_at_None: "setting_at saved k = None \<longleftrightarrow> k \<notin> st_protection_id ` set saved"
  by (simp add: setting_at_def map_of_eq_None_iff image_image)

lemma setting_at_updated:
  fixes rows :: "setting_row list"
  shows "setting_at (in_server org sid (sql_update (setting_of org sid k) (\<lambda>r. r\<lparr>st_enabled := en, st_mode := m\<rparr>) rows)) k' =
    (if k' = k then map_option (\<lambda>_. (en, m)) (setting_at (in_server org sid rows) k') else setting_at (in_server org sid rows) k')"
proof (induction rows rule: rev_induct)
  case (snoc r rows)
  then show ?case by (auto simp: in_server_def setting_of_def setting_at_simps)
qed (simp add: setting_at_simps)

lemma setting_at_put:
  "setting_at (in_server org sid (put_setting org sid it rows)) k =
    (if k = pi_id it then Some (pi_enabled it, pi_mode it) else setting_at (in_server org sid rows) k)"
proof (cases "exists_row (setting_of org sid (pi_id it)) rows")
  case True
  then have "setting_at (in_server org sid rows) (pi_id it) \<noteq> None"
    unfolding setting_at_None by (force simp: exists_row_iff setting_of_def in_server_def)
  with True show ?thesis by (auto simp: put_setting_def setting_at_updated)
next
  case False
  then show ?thesis by (simp add: put_setting_def setting_at_simps in_server_def)
qed

lemma setting_at_fold:
  "setting_at (in_server org sid (fold (put_setting org sid) items rows)) k =
    (case map_of (rev (map (\<lambda>i. (pi_id i, i)) items)) k of
       Some i \<Rightarrow> Some (pi_enabled i, pi_mode i) | None \<Rightarrow> setting_at (in_server org sid rows) k)"
  by (induction items arbitrary: rows) (auto simp: setting_at_put map_add_def split: option.split)

lemma known_last:
  "protection_by_id k \<noteq> None \<Longrightarrow>
   map_of (rev (map (\<lambda>i. (pi_id i, i)) (known_items items))) k = map_of (rev (map (\<lambda>i. (pi_id i, i)) items)) k"
  by (induction items) (auto simp: known_items_def map_add_def split: option.split)

lemma effective_after:
  assumes "it \<in> set catalog_items"
  shows "effective_setting (in_server org sid (fold (put_setting org sid) (known_items items) rows)) it = chosen items (in_server org sid rows) it"
proof -
  have "protection_by_id (pd_id it) = Some it" using assms catalog_index by blast
  then have "protection_by_id (pd_id it) \<noteq> None" by simp
  from known_last [OF this] show ?thesis
    by (simp add: effective_at chosen_def setting_at_fold split: option.split)
qed

lemma saved_in_server: "saved_settings org sid d = in_server org sid (protection_settings d)"
  by (simp add: saved_settings_def in_server_def)

lemma protections_of_config:
  assumes "agent_config f ctx w = (Inr (Some (Config_ok fs)), w')"
  shows "obj_get ''protections'' fs = Some (JArr (map (setting_json (saved_settings (rc_organizationId (cx_credential ctx))
    (rc_serverId (cx_credential ctx)) (wd_db w))) catalog_items))"
proof -
  let ?org = "rc_organizationId (cx_credential ctx)" and ?sid = "rc_serverId (cx_credential ctx)"
  have "world_tx ?org f (config_tx ?org ?sid) w = (Inr (Some (Config_ok fs)), w')" using assms by (simp add: agent_config_def Let_def)
  from world_tx_Inr(1) [OF this] show ?thesis
    by (auto simp: config_tx_def Let_def config_document_def split: option.splits)
qed

text \<open>The choices an operator saves are the ones the agent of the server receives: each protection of the catalogue once, in
  its order, as the last item that names it says, and as before where none does; items that name no protection of
  the catalogue change nothing.\<close>

theorem saved_protections_reach_agent:
  assumes run: "putProtectionSettings v x q w = (r, w')" "ar_status r = 200" and schema: "protectionSettingsSchema (pq_body q) = Some items"
    and a: "writes v x q Configuration_write w = (Inr a, w0)"
    and ctx: "rc_organizationId (cx_credential ctx) = ra_organizationId a" "rc_serverId (cx_credential ctx) = pq_id q"
    and config: "agent_config f ctx w' = (Inr (Some (Config_ok fs)), w'')"
  shows "obj_get ''protections'' fs =
    Some (JArr (map (chosen_json items (saved_settings (ra_organizationId a) (pq_id q) (wd_db w))) catalog_items))"
proof -
  let ?org = "ra_organizationId a" and ?sid = "pq_id q"
  define Q where "Q = (\<lambda>(r :: api_reply) (w' :: world). ar_status r = 200 \<longrightarrow>
    protection_settings (wd_db w') = fold (put_setting ?org ?sid) (known_items items) (protection_settings (wd_db w)))"
  have "Q r w'"
  proof (rule routed [OF run(1) [unfolded putProtectionSettings_def]])
    fix a' w1
    assume "writes v x q Configuration_write w = (Inr a', w1)"
    then have a': "a' = a" "w1 = w0" using a by simp_all
    have "protection_settings (wd_db w0) = protection_settings (wd_db w)"
      using guards_sessions(1) [of w v x q Configuration_write] a by (auto simp: only_sessions_def)
    then show "wp (case protectionSettingsSchema (pq_body q) of None \<Rightarrow> give invalid
       | Some items \<Rightarrow>
           and_then (tenant_step x 0 (ra_organizationId a') (put_settings_tx (ra_organizationId a') (pq_id q) (known_items items) (px_now x 0))) (\<lambda>ok.
             if \<not> ok then give not_found
             else and_then (audit x 1 a' ''protections.updated'' (pq_id q)) (\<lambda>_.
               give (reply 200 [(''ok'', JBool True), (''changed'', JInt (int (length (known_items items))))]))))
      Q (\<lambda>w2. \<forall>e. Q (refused (Other_access e)) w2) w1"
      unfolding schema option.case wp a' Q_def
      by (intro wp_tenant) (auto simp: put_settings_tx_def wp split: if_splits intro!: wp_audit)
  qed (simp add: Q_def)
  with run(2) have rows: "protection_settings (wd_db w') = fold (put_setting ?org ?sid) (known_items items) (protection_settings (wd_db w))"
    by (simp add: Q_def)
  have "map (setting_json (saved_settings ?org ?sid (wd_db w'))) catalog_items = map (chosen_json items (saved_settings ?org ?sid (wd_db w))) catalog_items"
    by (rule map_cong) (simp_all add: setting_json_def chosen_json_def saved_in_server rows effective_after)
  with protections_of_config [OF config] ctx show ?thesis by simp
qed

section \<open>Detectors\<close>

text \<open>Settings of the detectors that are accepted are read back as they were sent, by whoever may read detections in the
  organization.\<close>

theorem detector_settings_read_back:
  assumes run: "putAnticheat v x q w = (r, w')" "ar_status r = 200" and schema: "anticheatSettingsSchema (pq_body q) = Some s"
    and a: "writes v x q Anticheat_configure w = (Inr a, w0)"
    and view: "getAnticheat v y q' w' = (r', w'')" "ar_status r' = 200" "pq_id q' = pq_id q"
    and a': "reads v y q' Detection_read w' = (Inr a', w1)" "ra_organizationId a' = ra_organizationId a"
  shows "\<exists>fs. ar_body r' = [(''settings'', JObj fs)] \<and> set (values_json s) \<subseteq> set fs"
proof -
  let ?org = "ra_organizationId a" and ?sid = "pq_id q"
  define stored where "stored = (\<lambda>d :: db. \<exists>row. first_row (settings_of ?org ?sid) (anticheat_settings d) = Some row \<and> an_values row = s)"
  define Q where "Q = (\<lambda>(r :: api_reply) (w' :: world). ar_status r = 200 \<longrightarrow> stored (wd_db w'))"
  have put: "stored d'" if "put_anticheat_tx ?org ?sid uid s now d = (Inr True, d')" for uid now d d'
  proof (cases "exists_row (settings_of ?org ?sid) (anticheat_settings d)")
    case True
    then obtain row where row: "first_row (settings_of ?org ?sid) (anticheat_settings d) = Some row" unfolding first_row_exists [symmetric] by blast
    let ?f = "\<lambda>r. r\<lparr>an_values := s, an_updated_by := Some uid, an_updated_at := now\<rparr>"
    have "anticheat_settings d' = sql_update (settings_of ?org ?sid) ?f (anticheat_settings d)"
      using that True by (auto simp: put_anticheat_tx_def upsert_settings_def split: if_splits)
    moreover have "first_row (settings_of ?org ?sid) (sql_update (settings_of ?org ?sid) ?f (anticheat_settings d)) = Some (?f row)"
      by (subst first_row_updated) (simp_all add: row settings_of_def)
    ultimately show ?thesis by (simp add: stored_def)
  next
    case False
    then have "anticheat_settings d' = anticheat_settings d @ [\<lparr>an_organization_id = ?org, an_server_id = ?sid, an_values = s,
        an_updated_by = Some uid, an_updated_at = now\<rparr>]"
      using that by (auto simp: put_anticheat_tx_def upsert_settings_def split: if_splits)
    moreover have "\<forall>b \<in> set (anticheat_settings d). \<not> settings_of ?org ?sid b" using False by (simp add: exists_row_iff)
    ultimately show ?thesis by (simp add: stored_def first_row_appended settings_of_def)
  qed
  have "Q r w'"
  proof (rule routed [OF run(1) [unfolded putAnticheat_def]])
    fix b w2
    assume "writes v x q Anticheat_configure w = (Inr b, w2)"
    then have b: "b = a" "w2 = w0" using a by simp_all
    show "wp (case anticheatSettingsSchema (pq_body q) of None \<Rightarrow> give invalid
       | Some s \<Rightarrow>
           and_then (tenant_step x 0 (ra_organizationId b)
               (put_anticheat_tx (ra_organizationId b) (pq_id q) (aw_userId (ra_user b)) s (px_now x 0))) (\<lambda>saved.
             if \<not> saved then give not_found
             else and_then (audit x 1 b ''anticheat.configured'' (pq_id q)) (\<lambda>_. give status_ok)))
      Q (\<lambda>w3. \<forall>e. Q (refused (Other_access e)) w3) w2"
      unfolding schema option.case wp b Q_def
      by (intro wp_tenant) (auto simp: wp stored_def dest!: put intro!: wp_audit)
  qed (simp add: Q_def)
  with run(2) have "stored (wd_db w')" by (simp add: Q_def)
  moreover have "anticheat_settings (wd_db w1) = anticheat_settings (wd_db w')"
    using guards_sessions(2) [of w' v y q' Detection_read] a'(1) by (auto simp: only_sessions_def)
  ultimately obtain row where row: "first_row (settings_of ?org ?sid) (anticheat_settings (wd_db w1)) = Some row" "an_values row = s"
    unfolding stored_def by auto
  define get where "get = (\<lambda>d. (Inr (if \<not> exists_row (live_server ?org ?sid) (servers d) then not_found
             else reply 200 [(''settings'', JObj
               (case first_row (settings_of ?org ?sid) (anticheat_settings d) of
                  Some r \<Rightarrow> settings_json r
                | None \<Rightarrow> values_json default_values @ [(''is_default'', JBool True)]))]), d) :: api_reply result \<times> db)"
  obtain z w2 where t: "tenant_step y 0 ?org get w1 = (z, w2)" by fastforce
  have "settle (z, w2) = (r', w'')"
    using view(1) unfolding getAnticheat_def a'(1) handle_with_def prod.case sum.case a'(2) view(3) get_def [symmetric] t .
  with view(2) have "z = Inr r'" by (cases z) (auto simp: settle_def)
  with t have "r' = (if \<not> exists_row (live_server ?org ?sid) (servers (wd_db w1)) then not_found else reply 200 [(''settings'', JObj (settings_json row))])"
    using row(1) by (auto simp: tenant_step_def get_def dest!: world_tx_Inr(1))
  with view(2) have "ar_body r' = [(''settings'', JObj (settings_json row))]" by (auto simp: reply_def split: if_splits)
  then show ?thesis using row(2) by (auto simp: settings_json_def)
qed

end
