(* ===== verification/Api_Discord.thy ===== *)
theory Api_Discord
  imports Api_Members
begin

text \<open>
  \<open>apps/api/src/api/routes.ts\<close>: the login by Discord, from the button to the redirection that ends it. The servers of
  Discord are an argument: what the exchange of a code answers, and what the identity of a bearer is. No answer, an
  answer that is no success or no JSON is \<open>None\<close>; fields have the types Discord documents.
\<close>

section \<open>Outside the program\<close>

record discord_config =
  dc_clientId :: string
  dc_clientSecret :: string
  dc_redirectUri :: string

text \<open>\<open>url_encode\<close>: \<open>URLSearchParams\<close> as a text; \<open>url_origin\<close>: \<open>new URL(s).origin\<close>, \<open>None\<close> where it throws.\<close>

record discord_server =
  ds_token :: "discord_config \<Rightarrow> string \<Rightarrow> json option"
  ds_me :: "string \<Rightarrow> json option"
  url_encode :: "(string \<times> string) list \<Rightarrow> string"
  url_origin :: "string \<Rightarrow> string option"

record redirection =
  rd_location :: string
  rd_cookies :: "(string \<times> string \<times> cookie_options) list"

section \<open>Redirections\<close>

(* src api/routes.ts:253-253 DISCORD_STATE_COOKIE *)
definition discord_state_cookie :: string where "discord_state_cookie = ''zshield_discord_state''"

text \<open>\<open>s.replace(/\/$/, '')\<close>\<close>

definition no_trailing_slash :: "string \<Rightarrow> string" where
  "no_trailing_slash s = (if s \<noteq> [] \<and> last s = CHR ''/'' then butlast s else s)"

definition given :: "string option \<Rightarrow> string option" where
  "given s = (if s = Some [] then None else s)"

(* src api/routes.ts:255-271 webOrigin *)
definition webOrigin :: "discord_server \<Rightarrow> string option \<Rightarrow> http_request \<Rightarrow> string" where
  "webOrigin s configured q =
     (case given configured of
        Some o' \<Rightarrow> no_trailing_slash o'
      | None \<Rightarrow>
          (case given (hq_headers q ''origin'') of
             Some o' \<Rightarrow> no_trailing_slash o'
           | None \<Rightarrow> coalesce_default (Option.bind (given (hq_headers q ''referer'')) (url_origin s)) []))"

definition login_page :: "discord_server \<Rightarrow> string option \<Rightarrow> http_request \<Rightarrow> string \<Rightarrow> string" where
  "login_page s configured q e = webOrigin s configured q @ ''/login?e=discord_'' @ e"

definition state_cookie :: "bool \<Rightarrow> string \<Rightarrow> string \<times> string \<times> cookie_options" where
  "state_cookie production v =
     (discord_state_cookie, v,
      \<lparr>co_httpOnly = True, co_sameSite = ''lax'', co_secure = production, co_path = ''/api/auth/discord'', co_maxAge = 600\<rparr>)"

(* src api/routes.ts:273-300 discord/start *)
definition discordStart :: "discord_server \<Rightarrow> bool \<Rightarrow> discord_config option \<Rightarrow> string option \<Rightarrow> bytes \<Rightarrow> http_request \<Rightarrow> redirection" where
  "discordStart s production cfg configured random32 q =
     (case cfg of
        None \<Rightarrow> \<lparr>rd_location = login_page s configured q ''unavailable'', rd_cookies = []\<rparr>
      | Some c \<Rightarrow>
          if dc_clientId c = [] \<or> dc_redirectUri c = []
          then \<lparr>rd_location = login_page s configured q ''unavailable'', rd_cookies = []\<rparr>
          else \<lparr>rd_location = ''https://discord.com/api/oauth2/authorize?'' @ url_encode s
                  [(''client_id'', dc_clientId c), (''redirect_uri'', dc_redirectUri c), (''response_type'', ''code''),
                   (''scope'', ''identify email''), (''state'', newOpaqueToken random32), (''prompt'', ''consent'')],
                rd_cookies = [state_cookie production (newOpaqueToken random32)]\<rparr>)"

section \<open>The way back\<close>

definition json_text :: "string \<Rightarrow> (string \<times> json) list \<Rightarrow> string option" where
  "json_text k fs = (case obj_get k fs of Some (JStr s) \<Rightarrow> Some s | _ \<Rightarrow> None)"

text \<open>The bearer a code is exchanged for, and the identity of the bearer; \<open>None\<close> sends back with a failure.\<close>

(* src api/routes.ts:322-336 discord/callback/token *)
definition bearer_of :: "json option \<Rightarrow> string option" where
  "bearer_of answer =
     (case answer of
        Some (JObj fs) \<Rightarrow>
          (case given (json_text ''access_token'' fs) of
             None \<Rightarrow> None
           | Some t \<Rightarrow> Some (coalesce_default (json_text ''token_type'' fs) ''Bearer'' @ '' '' @ t))
      | _ \<Rightarrow> None)"

(* src api/routes.ts:343-365 discord/callback/identity *)
definition identity_from :: "json option \<Rightarrow> discord_input option" where
  "identity_from answer =
     (case answer of
        Some (JObj fs) \<Rightarrow>
          (case given (json_text ''id'' fs) of
             None \<Rightarrow> None
           | Some i \<Rightarrow> Some \<lparr>dn_discordUserId = i, dn_email = json_text ''email'' fs,
               dn_emailVerified = (obj_get ''verified'' fs = Some (JBool True)), dn_username = json_text ''username'' fs,
               dn_displayName = coalesce_default (coalesce (given (json_text ''global_name'' fs)) (given (json_text ''username'' fs)))
                 ''Membre Discord''\<rparr>)
      | _ \<Rightarrow> None)"

definition reason_name :: "discord_reason \<Rightarrow> string" where
  "reason_name r = (case r of No_email \<Rightarrow> ''no_email'' | Email_taken \<Rightarrow> ''email_taken''
     | Already_linked \<Rightarrow> ''already_linked'' | Account_disabled \<Rightarrow> ''account_disabled'')"

text \<open>The state sent by the browser, when the query has a code and the state of the cookie.\<close>

(* src api/routes.ts:305-318 discord/callback/state *)
definition returned_code :: "(string \<times> string) list \<Rightarrow> http_request \<Rightarrow> string option" where
  "returned_code qs q =
     (let code = map_of qs ''code''; state = map_of qs ''state'' in
      if \<not> opt_ok (\<lambda>s. length s \<le> 512) code \<or> \<not> opt_ok (\<lambda>s. length s \<le> 128) state then None
      else (case (given code, given state, given (hq_cookies q discord_state_cookie)) of
          (Some c, Some st, Some sent) \<Rightarrow> if st = sent then Some c else None
        | _ \<Rightarrow> None))"

text \<open>The two cookies of the session that opened.\<close>

definition session_cookies :: "api_deps \<Rightarrow> api_env \<Rightarrow> string \<Rightarrow> (string \<times> string \<times> cookie_options) list" where
  "session_cookies v x token = ar_cookies (opened v x 200 token [])"

(* src api/routes.ts:302-380 discord/callback *)
definition discordCallback :: "discord_server \<Rightarrow> api_deps \<Rightarrow> api_env \<Rightarrow> discord_config option \<Rightarrow> string option \<Rightarrow> bytes \<Rightarrow> api_request \<Rightarrow>
    world \<Rightarrow> redirection \<times> world" where
  "discordCallback s v x cfg configured unusable q w =
     (let back = login_page s configured (pq_http q);
          cleared = (discord_state_cookie, [], \<lparr>co_httpOnly = False, co_sameSite = [], co_secure = False, co_path = ''/api/auth/discord'', co_maxAge = 0\<rparr>);
          failed = (\<lambda>e. \<lparr>rd_location = back e, rd_cookies = [cleared]\<rparr>);
          entered = (\<lambda>loc token. \<lparr>rd_location = loc, rd_cookies = cleared # session_cookies v x token\<rparr>) in
      case cfg of
        None \<Rightarrow> (failed ''unavailable'', w)
      | Some c \<Rightarrow>
          if dc_clientId c = [] \<or> dc_clientSecret c = [] \<or> dc_redirectUri c = [] then (failed ''unavailable'', w)
          else (case returned_code (pq_query q) (pq_http q) of
              None \<Rightarrow> (failed ''failed'', w)
            | Some code \<Rightarrow>
                (case Option.bind (bearer_of (ds_token s c code)) (\<lambda>b. identity_from (ds_me s b)) of
                   None \<Rightarrow> (failed ''failed'', w)
                 | Some i \<Rightarrow>
                     (case on_db (loginWithDiscord (pd_slug_fold v) (pd_crypto v) (px_auth x) unusable i) w of
                        (Inl e, w1) \<Rightarrow> (failed ''failed'', w1)
                      | (Inr (Discord_error r), w1) \<Rightarrow> (failed (reason_name r), w1)
                      | (Inr (Discord_mfa_required token sess), w1) \<Rightarrow> (entered (back ''mfa'') token, w1)
                      | (Inr (Discord_ok token sess), w1) \<Rightarrow>
                          (entered (coalesce_default (given (Some (webOrigin s configured (pq_http q)))) ''/'') token, w1)))))"

section \<open>Who comes back in\<close>

lemma returned_code_Some:
  assumes "returned_code qs q = Some code"
  shows "map_of qs ''code'' = Some code \<and> code \<noteq> [] \<and>
    (\<exists>state. state \<noteq> [] \<and> map_of qs ''state'' = Some state \<and> hq_cookies q discord_state_cookie = Some state)"
  using assms by (auto simp: returned_code_def Let_def given_def split: if_splits option.splits)

text \<open>C16: A callback sets a session cookie only when the state of its query is the one of the cookie the start of the login set,
  Discord gave an identity for the code and the bearer of it, and that identity enters an account it is entitled
  to; any other callback changes no session cookie. The session waits for its second factor where the account
  asks for one.\<close>

theorem discord_callback_enters:
  assumes "discordCallback s v x cfg configured unusable q w = (r, w')" and "session_cookie \<in> fst ` set (rd_cookies r)"
  shows "\<exists>c code state bearer i out token sess. cfg = Some c \<and> map_of (pq_query q) ''code'' = Some code \<and>
    map_of (pq_query q) ''state'' = Some state \<and> state \<noteq> [] \<and> hq_cookies (pq_http q) discord_state_cookie = Some state \<and>
    bearer_of (ds_token s c code) = Some bearer \<and> identity_from (ds_me s bearer) = Some i \<and>
    loginWithDiscord (pd_slug_fold v) (pd_crypto v) (px_auth x) unusable i (wd_db w) = (Inr out, wd_db w') \<and>
    discord_granted out = Some (token, sess) \<and> (session_cookie, token, cookieOptions (pd_production v) session_ttl) \<in> set (rd_cookies r) \<and>
    discord_entitled i (wd_db w) (sr_userId sess) (\<not> sr_mfaSatisfied sess)"
proof -
  have no: "session_cookie \<noteq> discord_state_cookie" by (simp add: session_cookie_def discord_state_cookie_def)
  obtain c where c: "cfg = Some c" "dc_clientId c \<noteq> []" "dc_clientSecret c \<noteq> []" "dc_redirectUri c \<noteq> []"
    using assms no by (auto simp: discordCallback_def Let_def split: option.splits if_splits)
  obtain code where code: "returned_code (pq_query q) (pq_http q) = Some code"
    using assms no c by (auto simp: discordCallback_def Let_def split: option.splits)
  obtain bearer i where i: "bearer_of (ds_token s c code) = Some bearer" "identity_from (ds_me s bearer) = Some i"
    using assms no c code by (auto simp: discordCallback_def Let_def split: option.splits)
  obtain y d where run: "loginWithDiscord (pd_slug_fold v) (pd_crypto v) (px_auth x) unusable i (wd_db w) = (y, d)" by fastforce
  obtain out token sess where out: "y = Inr out" "discord_granted out = Some (token, sess)"
    and r: "(session_cookie, token, cookieOptions (pd_production v) session_ttl) \<in> set (rd_cookies r)" "wd_db w' = d"
    using assms no c code i run
    by (auto simp: discordCallback_def Let_def on_db_def session_cookies_def opened_def discord_granted_def split: sum.splits discord_outcome.splits)
  from discord_enters_only_entitled [OF run [unfolded out(1)] out(2)]
  have "discord_entitled i (wd_db w) (sr_userId sess) (\<not> sr_mfaSatisfied sess)" .
  with returned_code_Some [OF code] c i run out r show ?thesis by blast
qed

end
