(* ===== verification/Settings_Witnesses.thy ===== *)
theory Settings_Witnesses
  imports Api_Witnesses Settings_Facts Api_Discord
begin

text \<open>
  Application of the property of the login by Discord: the member of Discord comes back with the state he left with. The context of the
  agent of the samples.
\<close>

definition sample_agent_context :: agent_auth_context where
  "sample_agent_context = undefined\<lparr>cx_credential := sample_current\<rparr>"

section \<open>Discord\<close>

definition sample_provider :: discord_server where
  "sample_provider =
     \<lparr>ds_token = (\<lambda>c code. Some (JObj [(''access_token'', JStr ''tok'')])),
      ds_me = (\<lambda>b. Some (JObj [(''id'', JStr ''123456''), (''email'', JStr ''ANN@z.io''), (''verified'', JBool True), (''global_name'', JStr ''Ann'')])),
      url_encode = (\<lambda>kvs. []), url_origin = (\<lambda>s. None)\<rparr>"

definition back_call :: api_request where
  "back_call = (sample_call [] JNull)\<lparr>pq_query := [(''code'', ''c0de''), (''state'', replicate 16 (CHR ''x''))]\<rparr>"

definition come_back :: "redirection \<times> world" where
  "come_back = discordCallback sample_provider sample_deps (sample_env (\<lambda>n. []))
     (Some \<lparr>dc_clientId = ''id'', dc_clientSecret = ''sec'', dc_redirectUri = ''https://z.io/back''\<rparr>) (Some ''https://z.io/'') [] back_call api_world"

theorem discord_callback_enters_witness:
  "rd_location (fst come_back) = ''https://z.io'' \<and>
   (\<exists>i uid mfa. identity_from (ds_me sample_provider ''Bearer tok'') = Some i \<and> discord_entitled i (wd_db api_world) uid mfa)"
proof -
  have l: "rd_location (fst come_back) = ''https://z.io''" by code_simp
  have c: "session_cookie \<in> fst ` set (rd_cookies (fst come_back))" by code_simp
  have run: "discordCallback sample_provider sample_deps (sample_env (\<lambda>n. []))
     (Some \<lparr>dc_clientId = ''id'', dc_clientSecret = ''sec'', dc_redirectUri = ''https://z.io/back''\<rparr>) (Some ''https://z.io/'') [] back_call api_world
     = (fst come_back, snd come_back)" by (simp add: come_back_def)
  have b: "bearer_of (ds_token sample_provider c' code) = Some ''Bearer tok''" for c' code
    by (simp add: sample_provider_def bearer_of_def json_text_def given_def obj_get_def coalesce_default_def)
  from discord_callback_enters [OF run c] obtain i uid mfa where
    "identity_from (ds_me sample_provider ''Bearer tok'') = Some i" "discord_entitled i (wd_db api_world) uid mfa"
    unfolding b by auto
  with l show ?thesis by blast
qed

end
