(* ===== verification/Web_Client.thy ===== *)
theory Web_Client
  imports Api_Base "HOL-Library.Sublist"
begin

text \<open>
  \<open>apps/web/lib\<close>: the client of the API in the browser (\<open>api.ts\<close>), the loading of a resource with its retries (\<open>useResource.ts\<close>),
  the live connection with its reconnections (\<open>useRealtime.ts\<close>), and the navigation (\<open>app/(app)/layout.tsx\<close>). Texts that are only
  shown are UTF-8.
\<close>

section \<open>Requests\<close>

abbreviation acute :: string where "acute \<equiv> [CHR 0xC3, CHR 0xA9]"

(* src apps/web/lib/api.ts:17-27 ApiError *)
record api_failure =
  af_status :: int
  af_code :: json
  af_message :: string

text \<open>What a handler catches: an \<open>ApiError\<close>, or any other exception with its message.\<close>

datatype cause = Api_error api_failure | Other_cause string

text \<open>What \<open>fetch\<close> gives: a status with the body, absent when it is no JSON, or an exception.\<close>

datatype fetched = Fetched int "json option" | Not_fetched string

record web_call =
  wc_method :: string
  wc_path :: string
  wc_headers :: "(string \<times> string) list"
  wc_payload :: "json option"

text \<open>The value of the first match of \<open>(?:^|; )name=([^;]*)\<close>.\<close>

definition value_at :: "string \<Rightarrow> string \<Rightarrow> string option" where
  "value_at start s = (if prefix start s then Some (takeWhile (\<lambda>c. c \<noteq> CHR '';'') (drop (length start) s)) else None)"

fun later_value :: "string \<Rightarrow> string \<Rightarrow> string option" where
  "later_value name [] = None"
| "later_value name (c # s) =
     (case value_at (''; '' @ name @ ''='') (c # s) of Some v \<Rightarrow> Some v | None \<Rightarrow> later_value name s)"

text \<open>\<open>decode\<close> is \<open>decodeURIComponent\<close>, which throws on a malformed text: the outer \<open>None\<close>.\<close>

(* src apps/web/lib/api.ts:29-33 readCookie *)
definition readCookie :: "(string \<Rightarrow> string option) \<Rightarrow> string \<Rightarrow> string \<Rightarrow> string option option" where
  "readCookie decode cookies name =
     (case (case value_at (name @ ''='') cookies of Some v \<Rightarrow> Some v | None \<Rightarrow> later_value name cookies) of
        None \<Rightarrow> Some None
      | Some v \<Rightarrow> if v = [] then Some None else map_option Some (decode v))"

(* src apps/web/lib/api.ts:36-47 humanMessage *)
definition humanMessage :: "int \<Rightarrow> json \<Rightarrow> string" where
  "humanMessage status code =
     (if code = JStr ''csrf_failed'' then ''Session expir'' @ acute @ ''e. Rechargez la page et recommencez.''
      else if code = JStr ''mfa_required'' then ''Validez votre second facteur pour continuer.''
      else if code = JStr ''forbidden'' then ''Votre r'' @ [CHR 0xC3, CHR 0xB4] @ ''le ne permet pas cette action.''
      else if code = JStr ''entitlement_exceeded'' then ''Limite de votre offre atteinte.''
      else if code = JStr ''validation'' then ''Une valeur saisie est refus'' @ acute @ ''e.''
      else if code = JStr ''account_locked'' then ''Trop de tentatives. R'' @ acute @ ''essayez dans quelques minutes.''
      else if code = JStr ''invalid_credentials'' then ''Adresse ou mot de passe incorrect.''
      else if status = 401 then ''Vous devez vous reconnecter.''
      else if status = 404 then ''Introuvable.''
      else ''Le serveur a renvoy'' @ acute @ '' une erreur.'')"

text \<open>The call that leaves the page; an exception of \<open>readCookie\<close> lets none leave.\<close>

(* src apps/web/lib/api.ts:49-60 request *)
definition outgoing :: "(string \<Rightarrow> string option) \<Rightarrow> string \<Rightarrow> string \<Rightarrow> string \<Rightarrow> json option \<Rightarrow> web_call option" where
  "outgoing decode cookies verb path payload =
     (let typed = (case payload of None \<Rightarrow> [] | Some _ \<Rightarrow> [(''content-type'', ''application/json'')]) in
      if verb \<in> {''GET'', ''HEAD'', ''OPTIONS''}
      then Some \<lparr>wc_method = verb, wc_path = path, wc_headers = typed, wc_payload = payload\<rparr>
      else map_option (\<lambda>csrf. \<lparr>wc_method = verb, wc_path = path,
               wc_headers = typed @ (case csrf of None \<Rightarrow> [] | Some t \<Rightarrow> [(''x-csrf-token'', t)]), wc_payload = payload\<rparr>)
             (readCookie decode cookies ''zshield_csrf''))"

text \<open>\<open>body?.error ?? 'unknown'\<close>\<close>

definition error_code :: "json \<Rightarrow> json" where
  "error_code body =
     (case body of
        JObj fs \<Rightarrow> (case obj_get ''error'' fs of None \<Rightarrow> JStr ''unknown'' | Some JNull \<Rightarrow> JStr ''unknown'' | Some e \<Rightarrow> e)
      | _ \<Rightarrow> JStr ''unknown'')"

text \<open>What the caller gets; a reply without content is \<open>undefined\<close>, here \<open>None\<close>.\<close>

(* src apps/web/lib/api.ts:60-77 request *)
definition request_result :: "fetched \<Rightarrow> cause + json option" where
  "request_result answer =
     (case answer of
        Not_fetched e \<Rightarrow> Inl (Other_cause e)
      | Fetched status body \<Rightarrow>
          if status = 204 then Inr None
          else let b = coalesce_default body JNull in
            if 200 \<le> status \<and> status \<le> 299 then Inr (Some b)
            else Inl (Api_error \<lparr>af_status = status, af_code = error_code b, af_message = humanMessage status (error_code b)\<rparr>))"

(* src apps/web/lib/api.ts:79-88 api *)
definition web_api :: "(string \<Rightarrow> string option) \<Rightarrow> string \<Rightarrow> (web_call \<Rightarrow> fetched) \<Rightarrow> string \<Rightarrow> string \<Rightarrow> json option \<Rightarrow> cause + json option" where
  "web_api decode cookies network verb path payload =
     (case outgoing decode cookies verb path payload of
        None \<Rightarrow> Inl (Other_cause ''URI malformed'')
      | Some call \<Rightarrow> request_result (network call))"

(* src apps/web/lib/api.ts:95-97 hasPermission *)
definition shows_permission :: "string list option \<Rightarrow> string \<Rightarrow> bool" where
  "shows_permission permissions p = (case permissions of None \<Rightarrow> False | Some ps \<Rightarrow> p \<in> set ps)"

text \<open>What a handler shows for what it caught: \<open>cause instanceof ApiError ? cause.message : fallback\<close>.\<close>

definition shown_failure :: "string \<Rightarrow> cause \<Rightarrow> string" where
  "shown_failure fallback c = (case c of Api_error f \<Rightarrow> af_message f | Other_cause _ \<Rightarrow> fallback)"

section \<open>Loading a resource\<close>

text \<open>One hook: what it shows, and the loads on their way, each with its path, the attempt it is at and
  whether it waits for the next one.\<close>

record flight =
  fl_path :: string
  fl_attempt :: nat
  fl_waits :: bool

(* src apps/web/lib/useResource.ts:11-16 Resource *)
record hook =
  hk_path :: "string option"
  hk_data :: "json option"
  hk_error :: "string option"
  hk_loading :: bool
  hk_flights :: "flight list"
  hk_left :: bool

definition load_attempts :: nat where "load_attempts = 6"

definition wait_ms :: "nat \<Rightarrow> nat" where
  "wait_ms i = (if i < 2 then 1500 else 4000)"

text \<open>\<open>Rendered\<close>: the component is drawn with a path, which starts a load when it is another one. \<open>Answered n\<close>: the
  request of the flight at \<open>n\<close> ends. \<open>Waited n\<close>: its pause is over.\<close>

datatype hook_event = Rendered "string option" | Reloaded | Answered nat "cause + json option" | Waited nat

(* src apps/web/lib/useResource.ts:23-26 load/start *)
definition start_load :: "hook \<Rightarrow> hook" where
  "start_load h =
     (case hk_path h of
        None \<Rightarrow> h
      | Some p \<Rightarrow> h\<lparr>hk_error := None, hk_loading := True,
                    hk_flights := hk_flights h @ [\<lparr>fl_path = p, fl_attempt = 0, fl_waits = False\<rparr>]\<rparr>)"

(* src apps/web/lib/useResource.ts:18-21 useResource *)
definition fresh_hook :: "string option \<Rightarrow> hook" where
  "fresh_hook path = start_load
     \<lparr>hk_path = path, hk_data = None, hk_error = None, hk_loading = (path \<noteq> None), hk_flights = [], hk_left = False\<rparr>"

definition without :: "nat \<Rightarrow> 'a list \<Rightarrow> 'a list" where
  "without n xs = take n xs @ drop (Suc n) xs"

definition is_unauthorized :: "cause \<Rightarrow> bool" where
  "is_unauthorized c = (case c of Api_error f \<Rightarrow> af_status f = 401 | Other_cause _ \<Rightarrow> False)"

definition cause_message :: "cause \<Rightarrow> string" where
  "cause_message c = (case c of Api_error f \<Rightarrow> af_message f | Other_cause m \<Rightarrow> m)"

(* src apps/web/lib/useResource.ts:31-50 load/attempt *)
definition answered :: "nat \<Rightarrow> cause + json option \<Rightarrow> hook \<Rightarrow> hook" where
  "answered n r h =
     (case r of
        Inr d \<Rightarrow> h\<lparr>hk_data := d, hk_loading := False, hk_flights := without n (hk_flights h)\<rparr>
      | Inl c \<Rightarrow>
          if is_unauthorized c then h\<lparr>hk_left := True, hk_flights := without n (hk_flights h)\<rparr>
          else if fl_attempt (hk_flights h ! n) = load_attempts - 1
          then h\<lparr>hk_error := Some (cause_message c), hk_loading := False, hk_flights := without n (hk_flights h)\<rparr>
          else h\<lparr>hk_flights := (hk_flights h)[n := (hk_flights h ! n)\<lparr>fl_waits := True\<rparr>]\<rparr>)"

(* src apps/web/lib/useResource.ts:51-57 useResource/effect *)
fun hook_step :: "hook_event \<Rightarrow> hook \<Rightarrow> hook option" where
  "hook_step (Rendered p) h = Some (if p = hk_path h then h else start_load (h\<lparr>hk_path := p\<rparr>))"
| "hook_step Reloaded h = Some (start_load h)"
| "hook_step (Answered n r) h =
     (if n < length (hk_flights h) \<and> \<not> fl_waits (hk_flights h ! n) then Some (answered n r h) else None)"
| "hook_step (Waited n) h =
     (if n < length (hk_flights h) \<and> fl_waits (hk_flights h ! n)
      then Some (h\<lparr>hk_flights := (hk_flights h)[n := (hk_flights h ! n)\<lparr>fl_attempt := Suc (fl_attempt (hk_flights h ! n)), fl_waits := False\<rparr>]\<rparr>)
      else None)"

section \<open>The live connection\<close>

text \<open>The socket of the moment, the failed attempts in a row, the delay of the timer that will open another one, whether
  the page shows itself connected, whether it is gone; and what its handler was called with.\<close>

datatype socket_phase = Opening | Open_socket | Leaving

datatype heard = Heard json | Poll_tick

(* src apps/web/lib/useRealtime.ts:22-34 useRealtime *)
record link =
  ln_socket :: "socket_phase option"
  ln_attempt :: nat
  ln_timer :: "rat option"
  ln_connected :: bool
  ln_closed :: bool
  ln_heard :: "heard list"

datatype link_event =
    Socket_opened
  | Socket_message "json option"
  | Socket_error
  | Socket_closed rat
  | Timer_fired
  | Poll_due
  | Unmounted

definition max_backoff_ms :: rat where "max_backoff_ms = 30000"

(* src apps/web/lib/useRealtime.ts:63-65 onclose/delay *)
definition backoff :: "nat \<Rightarrow> rat \<Rightarrow> rat" where
  "backoff attempt random =
     (let base = min (1000 * 2 ^ (attempt - 1)) max_backoff_ms in base / 2 + random * (base / 2))"

text \<open>\<open>parsed.type === 'pong'\<close>; reading a field of \<open>null\<close> throws, which the handler catches.\<close>

definition heard_in :: "json option \<Rightarrow> heard list" where
  "heard_in message =
     (case message of
        None \<Rightarrow> []
      | Some JNull \<Rightarrow> []
      | Some (JObj fs) \<Rightarrow> if obj_get ''type'' fs = Some (JStr ''pong'') then [] else [Heard (JObj fs)]
      | Some m \<Rightarrow> [Heard m])"

text \<open>A socket that is closed by the page still ends with its event, and hands over no message before.\<close>

(* src apps/web/lib/useRealtime.ts:36-88 useRealtime *)
fun link_step :: "link_event \<Rightarrow> link \<Rightarrow> link option" where
  "link_step Socket_opened l =
     (if ln_socket l = Some Opening then Some (l\<lparr>ln_socket := Some Open_socket, ln_attempt := 0, ln_connected := True\<rparr>) else None)"
| "link_step (Socket_message m) l =
     (if ln_socket l = Some Open_socket then Some (l\<lparr>ln_heard := ln_heard l @ heard_in m\<rparr>) else None)"
| "link_step Socket_error l =
     (if ln_socket l = None then None else Some (l\<lparr>ln_socket := Some Leaving\<rparr>))"
| "link_step (Socket_closed random) l =
     (if ln_socket l = None then None
      else if ln_closed l then Some (l\<lparr>ln_socket := None, ln_connected := False\<rparr>)
      else Some (l\<lparr>ln_socket := None, ln_connected := False, ln_attempt := Suc (ln_attempt l),
                   ln_timer := Some (backoff (Suc (ln_attempt l)) random)\<rparr>))"
| "link_step Timer_fired l =
     (if ln_timer l = None then None else Some (l\<lparr>ln_timer := None, ln_socket := Some Opening\<rparr>))"
| "link_step Poll_due l =
     (if ln_closed l then None else Some (l\<lparr>ln_heard := ln_heard l @ [Poll_tick]\<rparr>))"
| "link_step Unmounted l =
     (if ln_closed l then None
      else Some (l\<lparr>ln_closed := True, ln_timer := None, ln_socket := map_option (\<lambda>_. Leaving) (ln_socket l)\<rparr>))"

definition fresh_link :: link where
  "fresh_link = \<lparr>ln_socket = Some Opening, ln_attempt = 0, ln_timer = None, ln_connected = False, ln_closed = False, ln_heard = []\<rparr>"

text \<open>What a browser can do: random numbers are in \<open>[0, 1)\<close>.\<close>

fun random_ok :: "link_event \<Rightarrow> bool" where
  "random_ok (Socket_closed r) \<longleftrightarrow> 0 \<le> r \<and> r < 1"
| "random_ok _ \<longleftrightarrow> True"

inductive live :: "link \<Rightarrow> bool" where
  "live fresh_link"
| "live l \<Longrightarrow> random_ok e \<Longrightarrow> link_step e l = Some l' \<Longrightarrow> live l'"

section \<open>Navigation\<close>

(* src apps/web/app/(app)/layout.tsx:20-28 NavEntry *)
record nav_entry =
  nv_section :: bool
  nv_href :: string
  nv_permission :: "string option"
  nv_adminOnly :: bool

definition nav_page :: "string \<Rightarrow> string option \<Rightarrow> nav_entry" where
  "nav_page href p = \<lparr>nv_section = False, nv_href = href, nv_permission = p, nv_adminOnly = False\<rparr>"

definition nav_section :: nav_entry where
  "nav_section = \<lparr>nv_section = True, nv_href = [], nv_permission = None, nv_adminOnly = False\<rparr>"

(* src apps/web/app/(app)/layout.tsx:78-115 NAV *)
definition NAV :: "nav_entry list" where
  "NAV =
     [nav_section,
      nav_page ''/'' None,
      nav_page ''/servers'' None,
      nav_page ''/incidents'' (Some ''incident.read''),
      nav_page ''/players'' (Some ''detection.read''),
      nav_section,
      nav_page ''/protections'' (Some ''detection.read''),
      nav_page ''/bans'' (Some ''ban.read''),
      nav_page ''/detections'' (Some ''detection.read''),
      nav_page ''/onboarding'' None,
      nav_section,
      nav_page ''/licenses'' (Some ''billing.manage''),
      nav_page ''/analytics'' (Some ''analytics.read''),
      nav_page ''/team'' (Some ''member.read''),
      nav_page ''/audit'' (Some ''audit.read''),
      nav_page ''/billing'' (Some ''billing.manage''),
      nav_page ''/settings'' None,
      nav_section\<lparr>nv_adminOnly := True\<rparr>,
      (nav_page ''/admin'' None)\<lparr>nv_adminOnly := True\<rparr>]"

(* src apps/web/app/(app)/layout.tsx:216-222 AppLayout/nav *)
definition nav_shown :: "bool \<Rightarrow> string list \<Rightarrow> nav_entry list" where
  "nav_shown admin permissions =
     filter (\<lambda>e. (\<not> nv_adminOnly e \<or> admin) \<and>
       (nv_section e \<or> (case nv_permission e of None \<Rightarrow> True | Some p \<Rightarrow> p = [] \<or> shows_permission (Some permissions) p))) NAV"

end
