(* ===== verification/Web_Pages.thy ===== *)
theory Web_Pages
  imports Web_Client Totp
begin

text \<open>
  \<open>apps/web/app\<close>: what the pages send to the API and what they make of the answers, page by page: the handlers of the forms
  and buttons, the steps of the assistant that adds a server, the editor of the protections. The layout of the
  pages and the wording of the notices of success are left out.
\<close>

section \<open>Handlers\<close>

text \<open>A call of the client: method, path and payload; what a handler leaves on its page: the text of its notice, and the
  names of the resources it loaded again, in order. The flags that disable a button while its call runs are left out: they fall in
  every case.\<close>

type_synonym call_args = "string \<times> string \<times> json option"

type_synonym sender = "call_args \<Rightarrow> cause + json option"

record page =
  pg_message :: "string option"
  pg_reloaded :: "string list"

definition reload :: "string \<Rightarrow> 'a page_scheme \<Rightarrow> 'a page_scheme" where
  "reload resource p = p\<lparr>pg_reloaded := pg_reloaded p @ [resource]\<rparr>"

definition told :: "string option \<Rightarrow> 'a page_scheme \<Rightarrow> 'a page_scheme" where
  "told message p = p\<lparr>pg_message := message\<rparr>"

text \<open>\<open>try { await call; done } catch (cause) { setMessage(cause instanceof ApiError ? cause.message : fallback) }\<close>\<close>

(* src apps/web/app/(app)/alerts/page.tsx:45-50 setStatus/try *)
definition after_call :: "string \<Rightarrow> ('a page_scheme \<Rightarrow> 'a page_scheme) \<Rightarrow> cause + json option \<Rightarrow> 'a page_scheme \<Rightarrow> 'a page_scheme" where
  "after_call fallback done answer p =
     (case answer of Inr _ \<Rightarrow> done p | Inl c \<Rightarrow> told (Some (shown_failure fallback c)) p)"

definition impossible :: "string \<Rightarrow> string" where "impossible what = what @ '' impossible.''"

section \<open>Account and organization\<close>

(* src apps/web/app/login/page.tsx:78-78 submit/call *)
definition login_call :: "string \<Rightarrow> string \<Rightarrow> call_args" where
  "login_call email password =
     (''POST'', ''/api/auth/login'', Some (JObj [(''email'', JStr email), (''password'', JStr password)]))"

record register_form =
  rf_organization_name :: string
  rf_display_name :: string
  rf_email :: string
  rf_password :: string

text \<open>The attributes \<open>required\<close>, \<open>minLength\<close> and \<open>maxLength\<close> of the inputs.\<close>

(* src apps/web/app/register/page.tsx:121-144 RegisterPage/form *)
definition register_form_ok :: "register_form \<Rightarrow> bool" where
  "register_form_ok f = (rf_organization_name f \<noteq> [] \<and> length (rf_organization_name f) \<le> 120 \<and> rf_display_name f \<noteq> [] \<and>
     length (rf_display_name f) \<le> 80 \<and> rf_email f \<noteq> [] \<and> 12 \<le> length (rf_password f))"

definition register_call :: "register_form \<Rightarrow> call_args" where
  "register_call f = (''POST'', ''/api/auth/register'', Some (JObj [(''organization_name'', JStr (rf_organization_name f)),
     (''display_name'', JStr (rf_display_name f)), (''email'', JStr (rf_email f)), (''password'', JStr (rf_password f))]))"

definition closed_text :: string where
  "closed_text = ''Les inscriptions sont ferm'' @ acute @ ''es pour le moment. Demande un acc'' @ [CHR 0xC3, CHR 0xA8] @ ''s '' @
     [CHR 0xC3, CHR 0xA0] @ '' l'' @ [CHR 0xE2, CHR 0x80, CHR 0x99] @ ''administrateur.''"

definition mentions :: "string \<Rightarrow> string \<Rightarrow> bool" where
  "mentions needle s = sublist needle (to_lower s)"

(* src apps/web/app/register/page.tsx:54-66 submit/try *)
definition register_outcome :: "cause + json option \<Rightarrow> bool \<times> string option" where
  "register_outcome answer =
     (case answer of
        Inr _ \<Rightarrow> (True, None)
      | Inl c \<Rightarrow> (False, Some
          (case c of
             Api_error f \<Rightarrow> if mentions ''registration_disabled'' (af_message f) then closed_text else af_message f
           | Other_cause _ \<Rightarrow> impossible (''Cr'' @ acute @ ''ation''))))"

(* src apps/web/app/(app)/layout.tsx:143-143 switchOrganization/call *)
definition switch_call :: "string \<Rightarrow> call_args" where
  "switch_call org = (''POST'', ''/api/auth/switch-organization'', Some (JObj [(''organization_id'', JStr org)]))"

section \<open>Team\<close>

(* src apps/web/app/(app)/team/page.tsx:19-26 REFUSAL *)
definition REFUSAL :: "(string \<times> string) list" where
  "REFUSAL =
     [(''last_owner_removal'', ''Une organisation doit garder au moins un propri'' @ acute @ ''taire.''),
      (''self_demotion_last_owner'', ''Vous '' @ [CHR 0xC3, CHR 0xAA] @ ''tes le dernier propri'' @ acute @ ''taire. Nommez quelqu'' @
         [CHR 0xE2, CHR 0x80, CHR 0x99] @ ''un d'' @ [CHR 0xE2, CHR 0x80, CHR 0x99] @ ''autre avant de changer votre r'' @
         [CHR 0xC3, CHR 0xB4] @ ''le.''),
      (''self_elevation'', ''Personne ne peut augmenter son propre r'' @ [CHR 0xC3, CHR 0xB4] @ ''le.''),
      (''owner_requires_owner'', ''Seul un propri'' @ acute @ ''taire peut nommer ou retirer un propri'' @ acute @ ''taire.''),
      (''insufficient_permission'', ''Votre r'' @ [CHR 0xC3, CHR 0xB4] @ ''le ne permet pas de g'' @ acute @ ''rer les membres.'')]"

definition refusal_text :: "json \<Rightarrow> string option" where
  "refusal_text code = (case code of JStr s \<Rightarrow> map_of REFUSAL s | _ \<Rightarrow> None)"

definition changeRole_call :: "string \<Rightarrow> string \<Rightarrow> call_args" where
  "changeRole_call membership r = (''PATCH'', ''/api/memberships/'' @ membership, Some (JObj [(''role'', JStr r)]))"

definition removeMember_call :: "string \<Rightarrow> call_args" where
  "removeMember_call membership = (''DELETE'', ''/api/memberships/'' @ membership, None)"

(* src apps/web/app/(app)/team/page.tsx:80-90 changeRole/try *)
definition after_member_call :: "string \<Rightarrow> cause + json option \<Rightarrow> page \<Rightarrow> page" where
  "after_member_call fallback answer p =
     (case answer of
        Inr _ \<Rightarrow> reload ''members'' (told None p)
      | Inl (Api_error f) \<Rightarrow> told (Some (coalesce_default (refusal_text (af_code f)) (af_message f))) p
      | Inl (Other_cause _) \<Rightarrow> told (Some fallback) p)"

text \<open>The buttons of a line: whether the role may be chosen, and whether the member may be removed.\<close>

(* src apps/web/app/(app)/team/page.tsx:110-110 owners *)
definition shown_owners :: "role list \<Rightarrow> nat" where
  "shown_owners rs = length (filter (\<lambda>r. r = OWNER) rs)"

(* src apps/web/app/(app)/team/page.tsx:138-182 TeamPage/line *)
definition member_buttons :: "bool \<Rightarrow> nat \<Rightarrow> bool \<Rightarrow> role \<Rightarrow> bool \<times> bool" where
  "member_buttons canManage shown isSelf r =
     (let lastOwner = (r = OWNER \<and> shown \<le> 1) in (canManage \<and> \<not> lastOwner, canManage \<and> \<not> isSelf \<and> \<not> lastOwner))"

section \<open>Settings of the agents\<close>

record settings_form =
  sf_heartbeat_interval :: int
  sf_telemetry_interval :: int
  sf_alert_batch_size :: int
  sf_alert_flush_interval :: int
  sf_telemetry_enabled :: bool
  sf_log_level :: string

(* src apps/web/app/(app)/settings/page.tsx:45-52 SettingsPage/config *)
definition initial_settings :: settings_form where
  "initial_settings = \<lparr>sf_heartbeat_interval = 30, sf_telemetry_interval = 60, sf_alert_batch_size = 25,
     sf_alert_flush_interval = 10, sf_telemetry_enabled = True, sf_log_level = ''INFO''\<rparr>"

text \<open>The bounds of the inputs and the choices of the list.\<close>

(* src apps/web/app/(app)/settings/page.tsx:30-35 BOUNDS *)
definition settings_form_ok :: "settings_form \<Rightarrow> bool" where
  "settings_form_ok f =
     (15 \<le> sf_heartbeat_interval f \<and> sf_heartbeat_interval f \<le> 900 \<and> 30 \<le> sf_telemetry_interval f \<and> sf_telemetry_interval f \<le> 3600 \<and>
      1 \<le> sf_alert_batch_size f \<and> sf_alert_batch_size f \<le> 200 \<and> 1 \<le> sf_alert_flush_interval f \<and> sf_alert_flush_interval f \<le> 300 \<and>
      sf_log_level f \<in> {''DEBUG'', ''INFO'', ''WARN'', ''ERROR''})"

definition settings_document :: "settings_form \<Rightarrow> (string \<times> json) list" where
  "settings_document f =
     [(''heartbeat_interval'', JInt (sf_heartbeat_interval f)), (''telemetry_interval'', JInt (sf_telemetry_interval f)),
      (''alert_batch_size'', JInt (sf_alert_batch_size f)), (''alert_flush_interval'', JInt (sf_alert_flush_interval f)),
      (''telemetry_enabled'', JBool (sf_telemetry_enabled f)), (''log_level'', JStr (sf_log_level f))]"

(* src apps/web/app/(app)/settings/page.tsx:69-72 save/call *)
definition save_settings_call :: "string \<Rightarrow> settings_form \<Rightarrow> call_args" where
  "save_settings_call target f = (''PUT'', ''/api/servers/'' @ target @ ''/configuration'', Some (JObj (settings_document f)))"

(* src apps/web/app/(app)/settings/page.tsx:86-86 revokeSession/call *)
definition revoke_session_call :: "string \<Rightarrow> call_args" where
  "revoke_session_call sid = (''DELETE'', ''/api/auth/sessions/'' @ sid, None)"

section \<open>Incidents, alerts, rules\<close>

record incident_form =
  if_title :: string
  if_description :: string
  if_severity :: string
  if_server_id :: string

definition given_field :: "string \<Rightarrow> string \<Rightarrow> (string \<times> json) list" where
  "given_field k s = (if s = [] then [] else [(k, JStr s)])"

definition severities :: "string list" where
  "severities = [''CRITICAL'', ''HIGH'', ''MEDIUM'', ''LOW'', ''INFO'']"

definition incident_statuses :: "string list" where
  "incident_statuses = [''OPEN'', ''INVESTIGATING'', ''MITIGATED'', ''RESOLVED'', ''CLOSED'']"

definition alert_statuses :: "string list" where
  "alert_statuses = [''OPEN'', ''ACKNOWLEDGED'', ''RESOLVED'']"

definition incident_form_ok :: "incident_form \<Rightarrow> bool" where
  "incident_form_ok f = (if_title f \<noteq> [] \<and> length (if_title f) \<le> 200 \<and> length (if_description f) \<le> 20000 \<and>
     if_severity f \<in> set severities)"

(* src apps/web/app/(app)/incidents/page.tsx:33-38 create/call *)
definition create_incident_call :: "incident_form \<Rightarrow> call_args" where
  "create_incident_call f = (''POST'', ''/api/incidents'',
     Some (JObj ([(''title'', JStr (if_title f)), (''severity'', JStr (if_severity f))] @
       given_field ''description'' (if_description f) @ given_field ''server_id'' (if_server_id f))))"

(* src apps/web/app/(app)/incidents/page.tsx:50-50 setStatus/call *)
definition incident_status_call :: "string \<Rightarrow> string \<Rightarrow> call_args" where
  "incident_status_call i status = (''PATCH'', ''/api/incidents/'' @ i, Some (JObj [(''status'', JStr status)]))"

text \<open>A note of blanks is not sent.\<close>

(* src apps/web/app/(app)/incidents/[id]/page.tsx:61-64 addNote/call *)
definition note_call :: "string \<Rightarrow> string \<Rightarrow> call_args option" where
  "note_call i note =
     (if js_trim note = [] then None
      else Some (''POST'', ''/api/incidents/'' @ i @ ''/comment'', Some (JObj [(''body'', JStr (js_trim note))])))"

(* src apps/web/app/(app)/alerts/page.tsx:46-46 setStatus/call *)
definition alert_status_call :: "string \<Rightarrow> string \<Rightarrow> call_args" where
  "alert_status_call i status = (''PATCH'', ''/api/alerts/'' @ i, Some (JObj [(''status'', JStr status)]))"

record alert_filters =
  fi_server_id :: string
  fi_severity :: string
  fi_status :: string
  fi_category :: string

text \<open>The query as its list of keys and values.\<close>

(* src apps/web/app/(app)/alerts/page.tsx:24-30 query *)
definition alerts_query :: "alert_filters \<Rightarrow> (string \<times> string) list" where
  "alerts_query f = (''limit'', ''100'') # filter (\<lambda>kv. snd kv \<noteq> [])
     [(''server_id'', fi_server_id f), (''severity'', fi_severity f), (''status'', fi_status f), (''category'', fi_category f)]"

record rule_form =
  uf_event_name :: string
  uf_event_side :: string
  uf_validation_kind :: string
  uf_action :: string

definition rule_form_ok :: "rule_form \<Rightarrow> bool" where
  "rule_form_ok f = (uf_event_name f \<noteq> [] \<and> uf_event_side f \<in> {''server'', ''client''} \<and>
     uf_validation_kind f \<in> {''bounds'', ''ownership'', ''rate'', ''allowlist'', ''none''} \<and>
     uf_action f \<in> {''LOG'', ''BLOCK'', ''FLAG'', ''KICK''})"

(* src apps/web/app/(app)/rules/page.tsx:44-44 create/call *)
definition create_rule_call :: "rule_form \<Rightarrow> call_args" where
  "create_rule_call f = (''POST'', ''/api/security-rules'', Some (JObj [(''event_name'', JStr (uf_event_name f)),
     (''event_side'', JStr (uf_event_side f)), (''validation_kind'', JStr (uf_validation_kind f)), (''action'', JStr (uf_action f))]))"

(* src apps/web/app/(app)/rules/page.tsx:56-56 setAction/call *)
definition rule_action_call :: "string \<Rightarrow> string \<Rightarrow> call_args" where
  "rule_action_call i act = (''PATCH'', ''/api/security-rules/'' @ i, Some (JObj [(''action'', JStr act)]))"

(* src apps/web/app/(app)/rules/page.tsx:65-67 toggle/call *)
definition toggle_rule_call :: "string \<Rightarrow> string \<Rightarrow> call_args" where
  "toggle_rule_call i status = (''PATCH'', ''/api/security-rules/'' @ i,
     Some (JObj [(''status'', JStr (if status = ''ACTIVE'' then ''DISABLED'' else ''ACTIVE''))]))"

section \<open>Bans and players\<close>

datatype verdict_path = Confirm | Kick | False_positive

definition verdict_name :: "verdict_path \<Rightarrow> string" where
  "verdict_name v = (case v of Confirm \<Rightarrow> ''confirm'' | Kick \<Rightarrow> ''kick'' | False_positive \<Rightarrow> ''false-positive'')"

(* src apps/web/app/(app)/bans/page.tsx:60-60 act/call *)
definition act_call :: "string \<Rightarrow> verdict_path \<Rightarrow> call_args" where
  "act_call ban v = (''POST'', ''/api/bans/'' @ ban @ ''/'' @ verdict_name v, Some (JObj []))"

(* src apps/web/app/(app)/bans/page.tsx:74-74 lift/call *)
definition lift_call :: "string \<Rightarrow> call_args" where
  "lift_call ban = (''POST'', ''/api/bans/'' @ ban @ ''/lift'', Some (JObj [(''reason'', JStr (''Lev'' @ acute @ '' manuellement''))]))"

record shown_ban =
  vb_id :: string
  vb_status :: string
  vb_player_name :: "string option"
  vb_identifier :: string
  vb_reason :: string

text \<open>\<open>lower\<close> is \<open>toLowerCase\<close>.\<close>

(* src apps/web/app/(app)/bans/page.tsx:42-54 shown *)
definition shown_bans :: "(string \<Rightarrow> string) \<Rightarrow> bool \<Rightarrow> string \<Rightarrow> shown_ban list \<Rightarrow> shown_ban list" where
  "shown_bans lower sanctions query list =
     (let base = filter (\<lambda>b. (vb_status b = ''PENDING'') = sanctions) list;
          q = lower (js_trim query) in
      if q = [] then base
      else filter (\<lambda>b. sublist q (lower (coalesce_default (vb_player_name b) [])) \<or> sublist q (lower (vb_identifier b)) \<or>
        sublist q (lower (vb_reason b))) base)"

text \<open>\<open>score\<close> is the text of the score of the player, when his file was loaded.\<close>

(* src apps/web/app/(app)/players/page.tsx:165-170 ban/call *)
definition ban_player_call :: "string \<Rightarrow> string option \<Rightarrow> string option \<Rightarrow> call_args" where
  "ban_player_call identifier score name =
     (''POST'', ''/api/bans'', Some (JObj [(''scope'', JStr ''license''), (''identifier'', JStr identifier),
        (''reason'', JStr (''Score de menace '' @ acute @ ''lev'' @ acute @ '' ('' @ coalesce_default score ''?'' @ '')'')),
        (''player_name'', (case name of None \<Rightarrow> JNull | Some n \<Rightarrow> JStr n))]))"

(* src apps/web/app/(app)/players/page.tsx:181-185 observe/call *)
definition observe_call :: "string \<Rightarrow> string list \<Rightarrow> call_args option" where
  "observe_call identifier servers_seen =
     (case servers_seen of
        [] \<Rightarrow> None
      | s # _ \<Rightarrow> Some (''POST'', ''/api/servers/'' @ s @ ''/spectate'', Some (JObj [(''identifier'', JStr identifier)])))"

section \<open>A server, its licence\<close>

(* src apps/web/app/(app)/servers/[id]/page.tsx:21-45 LOCKDOWN_OPTIONS, COMMANDS *)
definition offered_commands :: "string list" where
  "offered_commands = [''ping'', ''request_status'', ''request_health_check'', ''refresh_configuration'', ''flush_queue'']"

definition lockdown_options :: "string list" where "lockdown_options = [''inactive'', ''relaxed'', ''strict'']"

definition offered_plans :: "string list" where "offered_plans = [''trial'', ''starter'', ''pro'', ''enterprise'']"

(* src apps/web/app/(app)/servers/[id]/page.tsx:90-90 setLockdown/call *)
definition lockdown_call :: "string \<Rightarrow> string \<Rightarrow> call_args" where
  "lockdown_call sid mode = (''PATCH'', ''/api/servers/'' @ sid @ ''/lockdown'', Some (JObj [(''mode'', JStr mode)]))"

(* src apps/web/app/(app)/servers/[id]/page.tsx:101-101 issueLicense/call *)
definition issue_license_call :: "string \<Rightarrow> string \<Rightarrow> call_args" where
  "issue_license_call sid plan = (''POST'', ''/api/servers/'' @ sid @ ''/license'', Some (JObj [(''plan'', JStr plan)]))"

(* src apps/web/app/(app)/servers/[id]/page.tsx:113-113 issueCredential/call *)
definition issue_credential_call :: "string \<Rightarrow> call_args" where
  "issue_credential_call sid = (''POST'', ''/api/servers/'' @ sid @ ''/credentials'', None)"

(* src apps/web/app/(app)/servers/[id]/page.tsx:126-126 sendCommand/call *)
definition send_command_call :: "string \<Rightarrow> string \<Rightarrow> call_args" where
  "send_command_call sid ty = (''POST'', ''/api/servers/'' @ sid @ ''/commands'', Some (JObj [(''type'', JStr ty)]))"

(* src apps/web/app/(app)/admin/page.tsx:55-55 issue/call *)
definition admin_issue_call :: "string \<Rightarrow> string \<Rightarrow> call_args" where
  "admin_issue_call sid plan = (''POST'', ''/api/admin/servers/'' @ sid @ ''/license'', Some (JObj [(''plan'', JStr plan)]))"

text \<open>\<open>number\<close> is the conversion \<open>Number\<close>, \<open>None\<close> where it is not finite.\<close>

(* src apps/web/app/(app)/licenses/page.tsx:58-63 generate/call *)
definition generate_call :: "(string \<Rightarrow> string) \<Rightarrow> (string \<Rightarrow> rat option) \<Rightarrow> string \<Rightarrow> string \<Rightarrow> string \<Rightarrow> call_args" where
  "generate_call lower number plan days fingerprint =
     (let fp = lower (js_trim fingerprint) in
      (''POST'', ''/api/licenses/generate'', Some (JObj ([(''plan'', JStr plan)] @
         (case number days of
            Some d \<Rightarrow> if js_trim days \<noteq> [] \<and> 0 < d then [(''days'', JInt \<lfloor>d\<rfloor>)] else []
          | None \<Rightarrow> []) @
         (if fp \<noteq> [] \<and> fp \<noteq> ''any'' then [(''server_fingerprint'', JStr fp)] else [])))))"

section \<open>The assistant that adds a server\<close>

record wizard =
  wz_step :: nat
  wz_server_id :: "string option"
  wz_credential :: "json option"
  wz_server :: "(string \<times> json) list option"
  wz_error :: "string option"
  wz_waited :: bool
  wz_polls :: nat

text \<open>\<open>Created\<close>, \<open>Generated\<close>: the button of the step, and the answer; \<open>Installed\<close>, \<open>Finished\<close>: buttons without a call; \<open>Poll_sent\<close>,
  \<open>Poll_answered\<close>: the question every four seconds, whose answer may come late; \<open>Gave_up\<close>: the timer of ten minutes.\<close>

datatype wizard_event =
    Created "cause + json option"
  | Generated "cause + json option"
  | Installed
  | Poll_sent
  | Poll_answered "cause + json option"
  | Gave_up
  | Finished

definition field_text :: "string \<Rightarrow> json \<Rightarrow> string option" where
  "field_text k j = (case j of JObj fs \<Rightarrow> (case obj_get k fs of Some (JStr s) \<Rightarrow> Some s | _ \<Rightarrow> None) | _ \<Rightarrow> None)"

definition json_field :: "string \<Rightarrow> json \<Rightarrow> json option" where
  "json_field k j = (case j of JObj fs \<Rightarrow> obj_get k fs | _ \<Rightarrow> None)"

(* src apps/web/app/(app)/servers/new/page.tsx:51-54 createServer/call *)
definition create_server_call :: "string \<Rightarrow> string \<Rightarrow> call_args" where
  "create_server_call name environment =
     (''POST'', ''/api/servers'', Some (JObj [(''name'', JStr name), (''environment'', JStr environment)]))"

text \<open>An answer of another shape than the one of the route is an exception of the handler.\<close>

(* src apps/web/app/(app)/servers/new/page.tsx:46-62 createServer *)
definition created_server :: "cause + json option \<Rightarrow> wizard \<Rightarrow> wizard" where
  "created_server answer z =
     (case answer of
        Inr (Some j) \<Rightarrow>
          (case Option.bind (json_field ''server'' j) (field_text ''id'') of
             Some i \<Rightarrow> z\<lparr>wz_error := None, wz_server_id := Some i, wz_step := 1\<rparr>
           | None \<Rightarrow> z\<lparr>wz_error := Some (impossible (''Cr'' @ acute @ ''ation''))\<rparr>)
      | Inr None \<Rightarrow> z\<lparr>wz_error := Some (impossible (''Cr'' @ acute @ ''ation''))\<rparr>
      | Inl c \<Rightarrow> z\<lparr>wz_error := Some (shown_failure (impossible (''Cr'' @ acute @ ''ation'')) c)\<rparr>)"

(* src apps/web/app/(app)/servers/new/page.tsx:64-77 generateCredential *)
definition generated_credential :: "cause + json option \<Rightarrow> wizard \<Rightarrow> wizard" where
  "generated_credential answer z =
     (if wz_server_id z = None then z
      else case answer of
        Inr issued \<Rightarrow> z\<lparr>wz_error := None, wz_credential := issued, wz_step := 2\<rparr>
      | Inl c \<Rightarrow> z\<lparr>wz_error := Some (shown_failure (impossible (''G'' @ acute @ ''n'' @ acute @ ''ration'')) c)\<rparr>)"

text \<open>The servers of an answer, and the one of the assistant among them; \<open>connected\<close>: its \<open>connected_at\<close>, an instant or \<open>null\<close>, holds.
  Instants are texts in the code and numbers here.\<close>

definition answered_servers :: "cause + json option \<Rightarrow> json list option" where
  "answered_servers answer =
     (case answer of
        Inr (Some j) \<Rightarrow> (case json_field ''servers'' j of Some (JArr xs) \<Rightarrow> Some xs | _ \<Rightarrow> None)
      | _ \<Rightarrow> None)"

definition found_server :: "string \<Rightarrow> json list \<Rightarrow> (string \<times> json) list option" where
  "found_server i xs = (case find (\<lambda>j. field_text ''id'' j = Some i) xs of Some (JObj fs) \<Rightarrow> Some fs | _ \<Rightarrow> None)"

definition connected :: "(string \<times> json) list \<Rightarrow> bool" where
  "connected fs =
     (case obj_get ''connected_at'' fs of None \<Rightarrow> False | Some JNull \<Rightarrow> False | Some (JStr t) \<Rightarrow> t \<noteq> [] | Some (JBool b) \<Rightarrow> b | Some _ \<Rightarrow> True)"

(* src apps/web/app/(app)/servers/new/page.tsx:79-94 pollHandshake *)
definition polled :: "cause + json option \<Rightarrow> wizard \<Rightarrow> wizard" where
  "polled answer z =
     (case (wz_server_id z, answered_servers answer) of
        (Some i, Some xs) \<Rightarrow>
          (case found_server i xs of
             Some fs \<Rightarrow> if connected fs then z\<lparr>wz_server := Some fs, wz_step := 4\<rparr> else z\<lparr>wz_server := Some fs\<rparr>
           | None \<Rightarrow> z\<lparr>wz_server := None\<rparr>)
      | _ \<Rightarrow> z)"

(* src apps/web/app/(app)/servers/new/page.tsx:35-107 NewServerPage *)
fun wizard_step :: "wizard_event \<Rightarrow> wizard \<Rightarrow> wizard option" where
  "wizard_step (Created r) z = (if wz_step z = 0 then Some (created_server r z) else None)"
| "wizard_step (Generated r) z = (if wz_step z = 1 then Some (generated_credential r z) else None)"
| "wizard_step Installed z =
     (if wz_step z = 2 \<and> wz_credential z \<noteq> None then Some (z\<lparr>wz_step := 3, wz_polls := Suc (wz_polls z)\<rparr>) else None)"
| "wizard_step Poll_sent z = (if wz_step z = 3 then Some (z\<lparr>wz_polls := Suc (wz_polls z)\<rparr>) else None)"
| "wizard_step (Poll_answered r) z = (if wz_polls z = 0 then None else Some (polled r (z\<lparr>wz_polls := wz_polls z - 1\<rparr>)))"
| "wizard_step Gave_up z = (if wz_step z = 3 then Some (z\<lparr>wz_waited := True\<rparr>) else None)"
| "wizard_step Finished z = (if wz_step z = 4 \<and> wz_server z \<noteq> None then Some (z\<lparr>wz_step := 5\<rparr>) else None)"

definition fresh_wizard :: wizard where
  "fresh_wizard = \<lparr>wz_step = 0, wz_server_id = None, wz_credential = None, wz_server = None, wz_error = None,
     wz_waited = False, wz_polls = 0\<rparr>"

inductive wizard_run :: "wizard_event list \<Rightarrow> wizard \<Rightarrow> bool" where
  "wizard_run [] fresh_wizard"
| "wizard_run es z \<Longrightarrow> wizard_step e z = Some z' \<Longrightarrow> wizard_run (es @ [e]) z'"

section \<open>The editor of the protections\<close>

record shown_item =
  si_id :: string
  si_enabled :: bool
  si_mode :: string

type_synonym shown_categories = "(string \<times> shown_item list) list"

record editor =
  ed_server :: "string option"
  ed_hook :: hook
  ed_cats :: shown_categories
  ed_dirty :: bool
  ed_saving :: bool
  ed_saved :: bool

definition shown_item_of :: "json \<Rightarrow> shown_item option" where
  "shown_item_of j =
     (case (field_text ''id'' j, json_field ''enabled'' j, field_text ''mode'' j) of
        (Some i, Some (JBool b), Some m) \<Rightarrow> Some \<lparr>si_id = i, si_enabled = b, si_mode = m\<rparr>
      | _ \<Rightarrow> None)"

definition shown_category_of :: "json \<Rightarrow> (string \<times> shown_item list) option" where
  "shown_category_of j =
     (case (field_text ''id'' j, json_field ''items'' j) of
        (Some i, Some (JArr xs)) \<Rightarrow> map_option (Pair i) (all_some (map shown_item_of xs))
      | _ \<Rightarrow> None)"

definition categories_of :: "json \<Rightarrow> shown_categories option" where
  "categories_of j = (case json_field ''categories'' j of Some (JArr xs) \<Rightarrow> all_some (map shown_category_of xs) | _ \<Rightarrow> None)"

(* src apps/web/app/(app)/protections/page.tsx:35-35 path *)
definition settings_path :: "string \<Rightarrow> string" where
  "settings_path sid = ''/api/servers/'' @ sid @ ''/protection-settings''"

definition editor_path :: "string option \<Rightarrow> string option" where
  "editor_path serverId = (case serverId of None \<Rightarrow> None | Some s \<Rightarrow> if s = [] then None else Some (settings_path s))"

text \<open>The identifiers of the servers of the list; the one that is chosen when it is missing among them.\<close>

(* src apps/web/app/(app)/protections/page.tsx:27-33 useEffect *)
definition default_server :: "string list \<Rightarrow> string option \<Rightarrow> string option" where
  "default_server ids serverId =
     (case ids of
        [] \<Rightarrow> serverId
      | first # _ \<Rightarrow> if serverId = None \<or> the serverId \<notin> set ids then Some first else serverId)"

(* src apps/web/app/(app)/protections/page.tsx:115-115 setServerId *)
definition choose_server :: "string \<Rightarrow> editor \<Rightarrow> editor" where
  "choose_server sid p = p\<lparr>ed_server := Some sid,
     ed_hook := (case hook_step (Rendered (editor_path (Some sid))) (ed_hook p) of Some h \<Rightarrow> h | None \<Rightarrow> ed_hook p)\<rparr>"

text \<open>An answer that comes in is shown, and replaces what was edited.\<close>

(* src apps/web/app/(app)/protections/page.tsx:46-52 useEffect *)
definition editor_answered :: "nat \<Rightarrow> cause + json option \<Rightarrow> editor \<Rightarrow> editor option" where
  "editor_answered n r p =
     (case hook_step (Answered n r) (ed_hook p) of
        None \<Rightarrow> None
      | Some h \<Rightarrow>
          (case r of
             Inr (Some j) \<Rightarrow> map_option (\<lambda>cats. p\<lparr>ed_hook := h, ed_cats := cats, ed_dirty := False, ed_saved := False\<rparr>) (categories_of j)
           | _ \<Rightarrow> Some (p\<lparr>ed_hook := h\<rparr>)))"

text \<open>A change of one item: the fields that are given.\<close>

record item_patch =
  ip_enabled :: "bool option"
  ip_mode :: "string option"

definition patched_item :: "item_patch \<Rightarrow> shown_item \<Rightarrow> shown_item" where
  "patched_item d i = i\<lparr>si_enabled := coalesce_default (ip_enabled d) (si_enabled i), si_mode := coalesce_default (ip_mode d) (si_mode i)\<rparr>"

(* src apps/web/app/(app)/protections/page.tsx:61-72 mutate *)
definition mutate_item :: "bool \<Rightarrow> string \<times> string \<times> item_patch \<Rightarrow> editor \<Rightarrow> editor" where
  "mutate_item canEdit e p =
     (case e of (catId, itemId, d) \<Rightarrow>
        if \<not> canEdit then p
        else p\<lparr>ed_cats := map (\<lambda>(c, items). (c, if c = catId then map (\<lambda>i. if si_id i = itemId then patched_item d i else i) items else items))
                 (ed_cats p), ed_dirty := True, ed_saved := False\<rparr>)"

definition item_json :: "shown_item \<Rightarrow> json" where
  "item_json i = JObj [(''id'', JStr (si_id i)), (''enabled'', JBool (si_enabled i)), (''mode'', JStr (si_mode i))]"

text \<open>The call of the button, which is there for who may edit and enabled when something was edited.\<close>

(* src apps/web/app/(app)/protections/page.tsx:74-81 save *)
definition save_call :: "bool \<Rightarrow> editor \<Rightarrow> call_args option" where
  "save_call canEdit p =
     (case editor_path (ed_server p) of
        None \<Rightarrow> None
      | Some path \<Rightarrow>
          if \<not> canEdit \<or> \<not> ed_dirty p \<or> ed_saving p then None
          else Some (''PUT'', path, Some (JObj [(''items'', JArr (map item_json (concat (map snd (ed_cats p)))))])))"

(* src apps/web/app/(app)/protections/page.tsx:81-89 save *)
definition save_answered :: "cause + json option \<Rightarrow> editor \<Rightarrow> editor" where
  "save_answered r p =
     (case r of
        Inr _ \<Rightarrow> p\<lparr>ed_dirty := False, ed_saved := True, ed_saving := False\<rparr>
      | Inl _ \<Rightarrow> p\<lparr>ed_saving := False\<rparr>)"

end
