(* ===== verification/Web_Handlers.thy ===== *)
theory Web_Handlers
  imports Web_Pages
begin

text \<open>
  \<open>apps/web/app\<close>: the handlers of the forms and buttons, whole: what each sends and what it leaves on its page. \<open>send\<close> is the
  client, which answers a call with its data or with what the handler catches; a handler that tests nothing after its call goes through
  \<open>after_call\<close>.
\<close>

abbreviation apos :: string where "apos \<equiv> [CHR 0xE2, CHR 0x80, CHR 0x99]"

abbreviation agrave :: string where "agrave \<equiv> [CHR 0xC3, CHR 0xA0]"

abbreviation Eacute :: string where "Eacute \<equiv> [CHR 0xC3, CHR 0x89]"

text \<open>\<open>answer.name\<close>: the outer \<open>None\<close> where reading it throws, the inner one where it is undefined.\<close>

definition read_property :: "string \<Rightarrow> json option \<Rightarrow> json option option" where
  "read_property name answer =
     (case answer of None \<Rightarrow> None | Some JNull \<Rightarrow> None | Some (JObj fs) \<Rightarrow> Some (obj_get name fs) | Some _ \<Rightarrow> Some None)"

section \<open>Account and organization\<close>

text \<open>\<open>lv_href\<close>: the address the browser leaves for.\<close>

record leaving = page +
  lv_href :: "string option"

definition second_factor_text :: string where
  "second_factor_text = ''Votre compte demande un second facteur, dont l'' @ apos @ acute @ ''cran de saisie n'' @ apos @
     ''est pas encore disponible. Contactez un propri'' @ acute @ ''taire de votre organisation.''"

(* src apps/web/app/login/page.tsx:72-96 submit *)
definition on_login :: "sender \<Rightarrow> nat \<Rightarrow> string \<Rightarrow> string \<Rightarrow> leaving \<Rightarrow> leaving" where
  "on_login send now email password p =
     (let failed = (\<lambda>c. told (Some (shown_failure (impossible ''Connexion'') c)) p) in
      case send (login_call email password) of
        Inl c \<Rightarrow> failed c
      | Inr r \<Rightarrow>
          (case read_property ''status'' r of
             None \<Rightarrow> failed (Other_cause ''TypeError'')
           | Some status \<Rightarrow>
               if status = Some (JStr ''mfa_required'') then told (Some second_factor_text) p
               else (told None p)\<lparr>lv_href := Some (''/console.html?v='' @ string_of_nat now)\<rparr>))"

(* src apps/web/app/register/page.tsx:50-69 submit *)
definition on_register :: "sender \<Rightarrow> register_form \<Rightarrow> bool \<times> string option" where
  "on_register send f = register_outcome (send (register_call f))"

text \<open>The two handlers of the frame catch nothing: an exception leaves the page as it is.\<close>

(* src apps/web/app/(app)/layout.tsx:142-147 switchOrganization *)
definition on_switch_organization :: "sender \<Rightarrow> string \<Rightarrow> leaving \<Rightarrow> leaving" where
  "on_switch_organization send org p = (case send (switch_call org) of Inl _ \<Rightarrow> p | Inr _ \<Rightarrow> p\<lparr>lv_href := Some ''/''\<rparr>)"

(* src apps/web/app/(app)/layout.tsx:149-152 logout *)
definition on_logout :: "sender \<Rightarrow> leaving \<Rightarrow> leaving" where
  "on_logout send p = (case send (''POST'', ''/api/auth/logout'', None) of Inl _ \<Rightarrow> p | Inr _ \<Rightarrow> p\<lparr>lv_href := Some ''/login''\<rparr>)"

section \<open>Team, settings\<close>

(* src apps/web/app/(app)/team/page.tsx:78-91 changeRole *)
definition on_changeRole :: "sender \<Rightarrow> string \<Rightarrow> string \<Rightarrow> page \<Rightarrow> page" where
  "on_changeRole send membership r p = after_member_call (impossible ''Modification'') (send (changeRole_call membership r)) p"

(* src apps/web/app/(app)/team/page.tsx:93-105 remove *)
definition on_remove :: "sender \<Rightarrow> string \<Rightarrow> page \<Rightarrow> page" where
  "on_remove send membership p = after_member_call (impossible ''Retrait'') (send (removeMember_call membership)) p"

text \<open>The identifiers of the list of servers; the server the form is for.\<close>

(* src apps/web/app/(app)/settings/page.tsx:58-60 useEffect *)
definition default_target :: "string list \<Rightarrow> string \<Rightarrow> string" where
  "default_target ids target = (case ids of [] \<Rightarrow> target | first # _ \<Rightarrow> if target = [] then first else target)"

text \<open>\<open>text_of\<close> is the conversion of a template, of a value that may be undefined.\<close>

(* src apps/web/app/(app)/settings/page.tsx:64-82 save *)
definition on_save_settings :: "(json option \<Rightarrow> string) \<Rightarrow> sender \<Rightarrow> string \<Rightarrow> settings_form \<Rightarrow> 'a page_scheme \<Rightarrow> 'a page_scheme" where
  "on_save_settings text_of send target f p =
     (let failed = (\<lambda>c. told (Some (shown_failure (impossible ''Enregistrement'') c)) p) in
      case send (save_settings_call target f) of
        Inl c \<Rightarrow> failed c
      | Inr r \<Rightarrow>
          (case read_property ''config_version'' r of
             None \<Rightarrow> failed (Other_cause ''TypeError'')
           | Some version \<Rightarrow> reload ''servers'' (told (Some (''Configuration enregistr'' @ acute @ ''e en version '' @ text_of version @
               ''. L'' @ apos @ ''agent l'' @ apos @ ''appliquera '' @ agrave @ '' son prochain battement '' @ [CHR 0xE2, CHR 0x80, CHR 0x94] @
               '' il n'' @ apos @ ''y a pas de push vers votre serveur.'')) p)))"

(* src apps/web/app/(app)/settings/page.tsx:84-91 revokeSession *)
definition on_revoke_session :: "sender \<Rightarrow> string \<Rightarrow> 'a page_scheme \<Rightarrow> 'a page_scheme" where
  "on_revoke_session send sid = after_call (impossible (''R'' @ acute @ ''vocation'')) (reload ''sessions'') (send (revoke_session_call sid))"

section \<open>Incidents, alerts, rules\<close>

record incident_page = page +
  ic_creating :: bool
  ic_form :: incident_form

(* src apps/web/app/(app)/incidents/page.tsx:24-24 IncidentsPage/form *)
definition blank_incident :: incident_form where
  "blank_incident = \<lparr>if_title = [], if_description = [], if_severity = ''MEDIUM'', if_server_id = []\<rparr>"

(* src apps/web/app/(app)/incidents/page.tsx:29-45 create *)
definition on_create_incident :: "sender \<Rightarrow> incident_page \<Rightarrow> incident_page" where
  "on_create_incident send p =
     after_call (impossible (''Cr'' @ acute @ ''ation'')) (\<lambda>p. reload ''incidents'' (told None p)\<lparr>ic_creating := False, ic_form := blank_incident\<rparr>)
       (send (create_incident_call (ic_form p))) p"

(* src apps/web/app/(app)/incidents/page.tsx:47-55 setStatus *)
definition on_incident_status :: "sender \<Rightarrow> string \<Rightarrow> string \<Rightarrow> 'a page_scheme \<Rightarrow> 'a page_scheme" where
  "on_incident_status send i status =
     after_call (impossible ''Modification'') (\<lambda>p. reload ''incidents'' (told None p)) (send (incident_status_call i status))"

(* src apps/web/app/(app)/incidents/[id]/page.tsx:49-57 setStatus *)
definition on_detail_status :: "sender \<Rightarrow> string \<Rightarrow> string \<Rightarrow> 'a page_scheme \<Rightarrow> 'a page_scheme" where
  "on_detail_status send i status =
     after_call (impossible ''Modification'') (\<lambda>p. reload ''detail'' (told None p)) (send (incident_status_call i status))"

record note_page = page +
  nt_note :: string

(* src apps/web/app/(app)/incidents/[id]/page.tsx:59-70 addNote *)
definition on_add_note :: "sender \<Rightarrow> string \<Rightarrow> note_page \<Rightarrow> note_page" where
  "on_add_note send i p =
     (case note_call i (nt_note p) of
        None \<Rightarrow> p
      | Some call \<Rightarrow> after_call (impossible ''Envoi'') (\<lambda>p. reload ''detail'' (told None p)\<lparr>nt_note := []\<rparr>) (send call) p)"

(* src apps/web/app/(app)/alerts/page.tsx:43-51 setStatus *)
definition on_alert_status :: "sender \<Rightarrow> string \<Rightarrow> string \<Rightarrow> 'a page_scheme \<Rightarrow> 'a page_scheme" where
  "on_alert_status send i status =
     after_call (impossible ''Modification'') (\<lambda>p. reload ''alerts'' (told None p)) (send (alert_status_call i status))"

record rule_page = page +
  ru_creating :: bool
  ru_form :: rule_form

(* src apps/web/app/(app)/rules/page.tsx:35-35 RulesPage/form *)
definition blank_rule :: rule_form where
  "blank_rule = \<lparr>uf_event_name = [], uf_event_side = ''server'', uf_validation_kind = ''bounds'', uf_action = ''LOG''\<rparr>"

(* src apps/web/app/(app)/rules/page.tsx:40-51 create *)
definition on_create_rule :: "sender \<Rightarrow> rule_page \<Rightarrow> rule_page" where
  "on_create_rule send p =
     after_call (impossible (''Cr'' @ acute @ ''ation'')) (\<lambda>p. reload ''rules'' (told None p)\<lparr>ru_creating := False, ru_form := blank_rule\<rparr>)
       (send (create_rule_call (ru_form p))) p"

(* src apps/web/app/(app)/rules/page.tsx:53-61 setAction *)
definition on_rule_action :: "sender \<Rightarrow> string \<Rightarrow> string \<Rightarrow> 'a page_scheme \<Rightarrow> 'a page_scheme" where
  "on_rule_action send i act =
     after_call (impossible ''Modification'') (\<lambda>p. reload ''rules'' (told None p)) (send (rule_action_call i act))"

text \<open>The switch leaves an earlier notice where it is.\<close>

(* src apps/web/app/(app)/rules/page.tsx:63-72 toggle *)
definition on_toggle_rule :: "sender \<Rightarrow> string \<Rightarrow> string \<Rightarrow> 'a page_scheme \<Rightarrow> 'a page_scheme" where
  "on_toggle_rule send i status = after_call (impossible ''Modification'') (reload ''rules'') (send (toggle_rule_call i status))"

section \<open>Bans and players\<close>

(* src apps/web/app/(app)/bans/page.tsx:56-68 act *)
definition on_act :: "sender \<Rightarrow> string \<Rightarrow> verdict_path \<Rightarrow> string \<Rightarrow> 'a page_scheme \<Rightarrow> 'a page_scheme" where
  "on_act send ban v label =
     after_call (impossible ''Action'') (\<lambda>p. reload ''bans'' (told (Some label) p)) (send (act_call ban v))"

(* src apps/web/app/(app)/bans/page.tsx:70-81 lift *)
definition on_lift :: "sender \<Rightarrow> string \<Rightarrow> 'a page_scheme \<Rightarrow> 'a page_scheme" where
  "on_lift send ban =
     after_call (impossible (''Lev'' @ acute @ ''e'')) (\<lambda>p. reload ''bans'' (told None p)) (send (lift_call ban))"

text \<open>\<open>onChange\<close> loads the list of players again. Whatever was caught, the notice is the same.\<close>

(* src apps/web/app/(app)/players/page.tsx:162-177 ban *)
definition on_ban_player :: "sender \<Rightarrow> string \<Rightarrow> string option \<Rightarrow> string option \<Rightarrow> 'a page_scheme \<Rightarrow> 'a page_scheme" where
  "on_ban_player send identifier score name p =
     (case send (ban_player_call identifier score name) of
        Inl _ \<Rightarrow> told (Some (impossible ''Bannissement'')) p
      | Inr _ \<Rightarrow> reload ''players'' (reload ''detail'' (told (Some (''Bannissement enregistr'' @ acute @ ''. L'' @ apos @ ''agent l'' @ apos @
          ''appliquera sur le serveur.'')) p)))"

(* src apps/web/app/(app)/players/page.tsx:179-193 observe *)
definition on_observe :: "sender \<Rightarrow> string \<Rightarrow> string list \<Rightarrow> 'a page_scheme \<Rightarrow> 'a page_scheme" where
  "on_observe send identifier servers_seen p =
     (case observe_call identifier servers_seen of
        None \<Rightarrow> told (Some ''Aucun serveur connu pour ce joueur.'') p
      | Some call \<Rightarrow>
          (case send call of
             Inl _ \<Rightarrow> told (Some (impossible ''Observation'')) p
           | Inr _ \<Rightarrow> told (Some (''Observation demand'' @ acute @ ''e : une cam'' @ acute @ ''ra serveur va suivre ce joueur dans le jeu. '' @
               ''Aucune capture de son '' @ acute @ ''cran ni de sa machine.'')) p))"

section \<open>A server, its licence\<close>

text \<open>The shown credential and key, where they are neither undefined nor \<open>null\<close>.\<close>

record server_page = page +
  vp_issued :: "json option"
  vp_token :: "json option"

(* src apps/web/app/(app)/servers/[id]/page.tsx:87-96 setLockdown *)
definition on_lockdown :: "sender \<Rightarrow> string \<Rightarrow> string \<Rightarrow> server_page \<Rightarrow> server_page" where
  "on_lockdown send sid mode =
     after_call (impossible ''Modification'') (\<lambda>p. told (Some (''Verrouillage OneSync enregistr'' @ acute @ ''. Il s'' @ apos @ ''applique au prochain relev'' @
       acute @ '' de l'' @ apos @ ''agent.'')) (reload ''settings'' p)) (send (lockdown_call sid mode))"

(* src apps/web/app/(app)/servers/[id]/page.tsx:98-107 issueLicense *)
definition on_issue_license :: "sender \<Rightarrow> string \<Rightarrow> string \<Rightarrow> server_page \<Rightarrow> server_page" where
  "on_issue_license send sid plan p =
     (let failed = (\<lambda>c. told (Some (shown_failure (impossible (Eacute @ ''mission'')) c)) p) in
      case send (issue_license_call sid plan) of
        Inl c \<Rightarrow> failed c
      | Inr r \<Rightarrow>
          (case read_property ''token'' r of
             None \<Rightarrow> failed (Other_cause ''TypeError'')
           | Some token \<Rightarrow> reload ''license'' (told None p)\<lparr>vp_token := token\<rparr>))"

(* src apps/web/app/(app)/servers/[id]/page.tsx:109-120 issueCredential *)
definition on_issue_credential :: "sender \<Rightarrow> string \<Rightarrow> server_page \<Rightarrow> server_page" where
  "on_issue_credential send sid p =
     (case send (issue_credential_call sid) of
        Inl c \<Rightarrow> told (Some (shown_failure (impossible (''G'' @ acute @ ''n'' @ acute @ ''ration'')) c)) p
      | Inr r \<Rightarrow> (told None p)\<lparr>vp_issued := r\<rparr>)"

(* src apps/web/app/(app)/servers/[id]/page.tsx:122-134 sendCommand *)
definition on_send_command :: "sender \<Rightarrow> string \<Rightarrow> string \<Rightarrow> server_page \<Rightarrow> server_page" where
  "on_send_command send sid ty =
     after_call (impossible ''Envoi'') (\<lambda>p. reload ''commands'' (told (Some (''Commande mise en file. L'' @ apos @ ''agent la prendra '' @ agrave @
       '' son prochain relev'' @ acute @ ''.'')) p)) (send (send_command_call sid ty))"

record console_page = page +
  cn_issued :: "(string \<times> json option) option"

(* src apps/web/app/(app)/admin/page.tsx:50-63 issue *)
definition on_admin_issue :: "sender \<Rightarrow> string \<Rightarrow> string \<Rightarrow> console_page \<Rightarrow> console_page" where
  "on_admin_issue send sid plan p =
     (let failed = (\<lambda>c. (told (Some (shown_failure (impossible (Eacute @ ''mission'')) c)) p)\<lparr>cn_issued := None\<rparr>) in
      case send (admin_issue_call sid plan) of
        Inl c \<Rightarrow> failed c
      | Inr r \<Rightarrow>
          (case read_property ''token'' r of
             None \<Rightarrow> failed (Other_cause ''TypeError'')
           | Some token \<Rightarrow> reload ''data'' (told None p)\<lparr>cn_issued := Some (sid, token)\<rparr>))"

record generator_page = page +
  gn_result :: "json option"
  gn_copied :: bool

(* src apps/web/app/(app)/licenses/page.tsx:52-68 generate *)
definition on_generate :: "(string \<Rightarrow> string) \<Rightarrow> (string \<Rightarrow> rat option) \<Rightarrow> sender \<Rightarrow> string \<Rightarrow> string \<Rightarrow> string \<Rightarrow> generator_page \<Rightarrow> generator_page" where
  "on_generate lower number send plan days fingerprint p =
     (let cleared = (told None p)\<lparr>gn_result := None, gn_copied := False\<rparr> in
      case send (generate_call lower number plan days fingerprint) of
        Inl c \<Rightarrow> told (Some (shown_failure (impossible (''G'' @ acute @ ''n'' @ acute @ ''ration'')) c)) cleared
      | Inr r \<Rightarrow> cleared\<lparr>gn_result := r\<rparr>)"

text \<open>\<open>clipboard\<close>: whether the browser lets the text be copied. The mark falls two seconds later.\<close>

(* src apps/web/app/(app)/licenses/page.tsx:70-79 copy *)
definition on_copy :: "bool \<Rightarrow> generator_page \<Rightarrow> generator_page" where
  "on_copy clipboard p =
     (case gn_result p of None \<Rightarrow> p | Some JNull \<Rightarrow> p | Some _ \<Rightarrow> p\<lparr>gn_copied := clipboard\<rparr>)"

end
