(* ===== verification/Web_Page_Facts.thy ===== *)
theory Web_Page_Facts
  imports Web_Pages Settings_Facts Api_Bans Api_Members Api_Incidents Api_Commands Api_Licenses
begin

text \<open>
  The pages against the routes they call: when the assistant says a server is connected, what the editor of the protections writes, what
  becomes of the refusals of the API, and which forms its schemas accept.
\<close>

section \<open>Answers of the API\<close>

definition web_answer :: "api_reply \<Rightarrow> fetched" where
  "web_answer r = Fetched (ar_status r) (Some (JObj (ar_body r)))"

lemma result_of_answer:
  "ar_status r \<noteq> 204 \<Longrightarrow> request_result (web_answer r) =
    (if 200 \<le> ar_status r \<and> ar_status r \<le> 299 then Inr (Some (JObj (ar_body r)))
     else Inl (Api_error \<lparr>af_status = ar_status r, af_code = error_code (JObj (ar_body r)),
       af_message = humanMessage (ar_status r) (error_code (JObj (ar_body r)))\<rparr>))"
  by (simp add: request_result_def web_answer_def coalesce_default_def Let_def)

lemma result_data: "request_result (web_answer r) = Inr (Some j) \<Longrightarrow> j = JObj (ar_body r)"
  by (auto simp: request_result_def web_answer_def coalesce_default_def Let_def split: if_splits)

section \<open>The assistant\<close>

definition proof_of_connection :: "string \<Rightarrow> cause + json option \<Rightarrow> bool" where
  "proof_of_connection i r = (\<exists>xs fs. answered_servers r = Some xs \<and> found_server i xs = Some fs \<and> connected fs)"

lemma found_server_mem: "found_server i xs = Some fs \<Longrightarrow> JObj fs \<in> set xs \<and> field_text ''id'' (JObj fs) = Some i"
  by (auto simp: found_server_def find_Some_iff split: option.splits json.splits) (metis nth_mem)

lemma polled_forward:
  "\<not> 4 \<le> wz_step z \<Longrightarrow> 4 \<le> wz_step (polled r z) \<Longrightarrow> \<exists>i. wz_server_id (polled r z) = Some i \<and> proof_of_connection i r"
  by (auto simp: polled_def proof_of_connection_def split: if_splits option.splits)

lemma wizard_connected:
  "wizard_run es z \<Longrightarrow> 4 \<le> wz_step z \<Longrightarrow> \<exists>i r. wz_server_id z = Some i \<and> Poll_answered r \<in> set es \<and> proof_of_connection i r"
proof (induction rule: wizard_run.induct)
  case (2 es z e z')
  show ?case
  proof (cases "4 \<le> wz_step z")
    case True
    then have "wz_server_id z' = wz_server_id z"
      using "2.hyps"(2) by (cases e) (auto simp: polled_def split: if_splits option.splits)
    with "2.IH" [OF True] show ?thesis by auto
  next
    case False
    then obtain r where e: "e = Poll_answered r" "z' = polled r (z\<lparr>wz_polls := wz_polls z - 1\<rparr>)"
      using "2.hyps"(2) "2.prems"
      by (cases e) (auto simp: created_server_def generated_credential_def split: if_splits option.splits sum.splits)
    with polled_forward [of "z\<lparr>wz_polls := wz_polls z - 1\<rparr>" r] False "2.prems" show ?thesis by auto
  qed
qed (simp add: fresh_wizard_def)

lemma server_view_fields:
  "field_text ''id'' (server_view d s) = Some (sv_id s)"
  "json_field ''connected_at'' (server_view d s) = Some (j_opt JInt (sv_connected_at s))"
  by (simp_all add: server_view_def field_text_def json_field_def obj_get_def)

lemma listed_servers:
  assumes "listServers v x q w = (r, w')" "obj_get ''servers'' (ar_body r) = Some j"
  shows "\<exists>ss. j = JArr (map (server_view (wd_db w')) ss) \<and> set ss \<subseteq> {s \<in> set (servers (wd_db w')). sv_deleted_at s = None}"
proof -
  define Q where "Q = (\<lambda>(r :: api_reply) (w' :: world). \<forall>j. obj_get ''servers'' (ar_body r) = Some j \<longrightarrow>
    (\<exists>ss. j = JArr (map (server_view (wd_db w')) ss) \<and> set ss \<subseteq> {s \<in> set (servers (wd_db w')). sv_deleted_at s = None}))"
  have none: "Q (refused e) w" for e w by (simp add: Q_def refused_def fault_reply_def reply_def obj_get_def split: prod.split)
  have "Q r w'"
  proof (rule routed [OF assms(1) [unfolded listServers_def]])
    fix a w1
    show "wp (tenant_step x 0 (ra_organizationId a) (\<lambda>d. (Inr (reply 200 [(''servers'',
        JArr (map (server_view d) (sort_key sv_name (filter (live_in (ra_organizationId a)) (servers d)))))]), d)))
      Q (\<lambda>w2. \<forall>e. Q (refused (Other_access e)) w2) w1"
      by (rule wp_tenant) (simp add: none, auto simp: Q_def reply_def live_in_def obj_get_def intro!: exI)
  qed (rule none)
  with assms(2) show ?thesis by (simp add: Q_def)
qed

text \<open>C21: The assistant that adds a server reaches its last steps only when the API listed, in an answer the page request_result, the server it
  created with the instant of a connection.\<close>

theorem assistant_waits_for_connection:
  assumes run: "wizard_run es z" "4 \<le> wz_step z"
    and answers: "\<And>r. Poll_answered r \<in> set es \<Longrightarrow> \<exists>v x q w rep w'. listServers v x q w = (rep, w') \<and> r = request_result (web_answer rep)"
  shows "\<exists>v x q w rep w' s. listServers v x q w = (rep, w') \<and> Poll_answered (request_result (web_answer rep)) \<in> set es \<and>
    s \<in> set (servers (wd_db w')) \<and> wz_server_id z = Some (sv_id s) \<and> sv_deleted_at s = None \<and> sv_connected_at s \<noteq> None"
proof -
  obtain i r where i: "wz_server_id z = Some i" and r: "Poll_answered r \<in> set es" "proof_of_connection i r"
    using wizard_connected [OF run] by auto
  obtain v x q w rep w' where list: "listServers v x q w = (rep, w')" "r = request_result (web_answer rep)" using answers [OF r(1)] by blast
  obtain xs fs where xs: "answered_servers r = Some xs" "found_server i xs = Some fs" "connected fs"
    using r(2) by (auto simp: proof_of_connection_def)
  then have "obj_get ''servers'' (ar_body rep) = Some (JArr xs)"
    using list(2) result_data [of rep] by (auto simp: answered_servers_def json_field_def split: sum.splits option.splits json.splits)
  from listed_servers [OF list(1) this] obtain ss where
    ss: "xs = map (server_view (wd_db w')) ss" "set ss \<subseteq> {s \<in> set (servers (wd_db w')). sv_deleted_at s = None}" by auto
  obtain s where s: "s \<in> set ss" "server_view (wd_db w') s = JObj fs" "field_text ''id'' (JObj fs) = Some i"
    using found_server_mem [OF xs(2)] ss(1) by auto
  then have "sv_id s = i" using server_view_fields(1) [of "wd_db w'" s] by simp
  moreover have "obj_get ''connected_at'' fs = Some (j_opt JInt (sv_connected_at s))"
    using server_view_fields(2) [of "wd_db w'" s] s(2) by (simp add: json_field_def)
  with xs(3) have "sv_connected_at s \<noteq> None" by (cases "sv_connected_at s") (simp_all add: connected_def j_opt_def)
  ultimately have "sv_id s = i" "sv_connected_at s \<noteq> None" by simp_all
  with s(1) ss(2) i r(1) list show ?thesis by blast
qed

text \<open>An answer that comes late takes the assistant back from its last step.\<close>

theorem late_answer_steps_back:
  "wz_step z = 5 \<Longrightarrow> wz_polls z = 1 \<Longrightarrow> wz_server_id z = Some i \<Longrightarrow> proof_of_connection i r \<Longrightarrow>
   \<exists>z'. wizard_step (Poll_answered r) z = Some z' \<and> wz_step z' = 4"
  by (auto simp: polled_def proof_of_connection_def)

section \<open>Refusals\<close>

text \<open>The reasons the page has words for are never what the client reads: the reply carries them in another field.\<close>

theorem refusal_reason_never_shown:
  assumes "patchMembership v x q w = (r, w') \<or> deleteMembership v x q w = (r, w')"
  shows "pg_message (after_member_call fallback (request_result (web_answer r)) p) \<in>
    {None, Some (humanMessage (ar_status r) (error_code (JObj (ar_body r))))}"
proof -
  define Q where "Q = (\<lambda>(r :: api_reply) (w' :: world). ar_status r \<noteq> 204 \<and> refusal_text (error_code (JObj (ar_body r))) = None)"
  have none: "Q (refused e) w" for e w
    by (cases e) (auto simp: Q_def refused_def toHttpError_def fault_reply_def reply_def error_code_def obj_get_def refusal_text_def REFUSAL_def)
  have plain: "Q invalid w" "Q not_found w" "Q status_ok w" "Q (reply 403 [(''error'', JStr ''forbidden''), (''reason'', JStr s)]) w" for s w
    by (simp_all add: Q_def invalid_def not_found_def status_ok_def fault_reply_def reply_def error_code_def obj_get_def refusal_text_def REFUSAL_def)
  have "Q r w'" if "patchMembership v x q w = (r, w')"
  proof (rule routed [OF that [unfolded patchMembership_def]])
    fix a w1
    show "wp (case roleSchema (pq_body q) of None \<Rightarrow> give invalid
         | Some new \<Rightarrow> and_then (tenant_step x 0 (ra_organizationId a) (member_role_tx a (pq_id q) new)) (member_answer (\<lambda>previous uid.
             and_then (audit x 1 a ''member.role_changed'' (pq_id q)) (\<lambda>_. give status_ok))))
      Q (\<lambda>w2. \<forall>e. Q (refused (Other_access e)) w2) w1"
      by (auto simp: wp member_answer_def none plain split: option.split member_outcome.split intro!: wp_tenant wp_audit)
  qed (rule none)
  moreover have "Q r w'" if "deleteMembership v x q w = (r, w')"
  proof (rule routed [OF that [unfolded deleteMembership_def]])
    fix a w1
    show "wp (and_then (tenant_step x 0 (ra_organizationId a) (member_removal_tx a (pq_id q))) (member_answer (\<lambda>previous uid.
        and_then (plain_step x 1 (\<lambda>d. (Inr (),
            revoke_sessions (\<lambda>s. se_user_id s = uid \<and> se_organization_id s = Some (ra_organizationId a)) (px_now x 1) d))) (\<lambda>_.
        and_then (audit x 2 a ''member.removed'' (pq_id q)) (\<lambda>_. give status_ok)))))
      Q (\<lambda>w2. \<forall>e. Q (refused (Other_access e)) w2) w1"
      by (auto simp: wp member_answer_def none plain split: member_outcome.split intro!: wp_tenant wp_audit wp_plain)
  qed (rule none)
  ultimately have "Q r w'" using assms by blast
  then show ?thesis by (auto simp: Q_def result_of_answer after_member_call_def told_def reload_def coalesce_default_def)
qed


section \<open>The editor of the protections\<close>

definition shown_setting :: "setting_row list \<Rightarrow> protection_def \<Rightarrow> shown_item" where
  "shown_setting saved it = \<lparr>si_id = pd_id it, si_enabled = fst (effective_setting saved it), si_mode = snd (effective_setting saved it)\<rparr>"

text \<open>What a sequence of edits makes of an item of a category.\<close>

definition edited :: "(string \<times> string \<times> item_patch) list \<Rightarrow> string \<Rightarrow> shown_item \<Rightarrow> shown_item" where
  "edited edits c = fold (\<lambda>(cat, i, d) s. if cat = c \<and> i = si_id s then patched_item d s else s) edits"

lemma all_some_map: "(\<And>x. x \<in> set xs \<Longrightarrow> f x = Some (g x)) \<Longrightarrow> all_some (map f xs) = Some (map g xs)"
  by (induction xs) auto

lemma shown_item_of_setting: "shown_item_of (setting_json saved it) = Some (shown_setting saved it)"
  by (simp add: shown_item_of_def setting_json_def shown_setting_def field_text_def json_field_def obj_get_def)

lemma shown_category_of_view:
  "shown_category_of (category_view saved c) = Some (pc_id c, map (shown_setting saved) (pc_items c))"
  using all_some_map [of "pc_items c" "\<lambda>it. shown_item_of (setting_json saved it)" "shown_setting saved"]
  by (simp add: shown_category_of_def category_view_def field_text_def json_field_def obj_get_def shown_item_of_setting comp_def)

lemma categories_shown:
  assumes "getProtectionSettings v x q w = (r, w')" "ar_status r = 200" and a: "reads v x q Detection_read w = (Inr a, w1)"
  shows "categories_of (JObj (ar_body r)) =
    Some (map (\<lambda>c. (pc_id c, map (shown_setting (saved_settings (ra_organizationId a) (pq_id q) (wd_db w))) (pc_items c))) protection_catalog)"
proof -
  let ?saved = "saved_settings (ra_organizationId a) (pq_id q) (wd_db w)"
  define Q where "Q = (\<lambda>(r :: api_reply) (w' :: world). ar_status r = 200 \<longrightarrow>
    obj_get ''categories'' (ar_body r) = Some (JArr (map (category_view ?saved) protection_catalog)))"
  have none: "Q (refused e) w" "Q not_found w" for e w
    by (cases e; simp add: Q_def refused_def toHttpError_def not_found_def fault_reply_def reply_def)+
  have "Q r w'"
  proof (rule routed [OF assms(1) [unfolded getProtectionSettings_def]])
    fix b w2
    assume "reads v x q Detection_read w = (Inr b, w2)"
    then have b: "b = a" "w2 = w1" using a by simp_all
    have same: "saved_settings (ra_organizationId a) (pq_id q) (wd_db w1) = ?saved"
      using guards_sessions(2) [of w v x q Detection_read] a by (auto simp: only_sessions_def saved_settings_def)
    show "wp (and_then (tenant_step x 0 (ra_organizationId b) (\<lambda>d.
           (Inr (if exists_row (live_server (ra_organizationId b) (pq_id q)) (servers d)
                 then Some (saved_settings (ra_organizationId b) (pq_id q) d) else None), d))) (\<lambda>r.
         case r of
           None \<Rightarrow> give not_found
         | Some saved \<Rightarrow> give (reply 200 [(''total'', JInt (int protection_count)),
             (''active'', JInt (int (active_protections saved))), (''categories'', JArr (map (category_view saved) protection_catalog))])))
      Q (\<lambda>w2. \<forall>e. Q (refused (Other_access e)) w2) w2"
      unfolding wp b by (rule wp_tenant) (simp add: none, auto simp: wp none same Q_def reply_def obj_get_def)
  qed (rule none)
  with assms(2) have "json_field ''categories'' (JObj (ar_body r)) = Some (JArr (map (category_view ?saved) protection_catalog))"
    by (simp add: Q_def json_field_def)
  then show ?thesis
    by (simp add: categories_of_def all_some_map shown_category_of_view comp_def)
qed

lemma edited_simps:
  "edited [] c = (\<lambda>s. s)"
  "edited ((cat, i, d) # edits) c s = edited edits c (if cat = c \<and> i = si_id s then patched_item d s else s)"
  by (simp_all add: edited_def id_def)

lemma mutate_item_cats:
  "ed_cats (mutate_item True (cat, i, d) p) =
    map (\<lambda>(c, items). (c, map (\<lambda>s. if cat = c \<and> i = si_id s then patched_item d s else s) items)) (ed_cats p)"
  by (auto simp: mutate_item_def)

lemma mutated_cats:
  "ed_cats (fold (mutate_item True) edits p) = map (\<lambda>(c, items). (c, map (edited edits c) items)) (ed_cats p)"
proof (induction edits arbitrary: p)
  case (Cons e edits)
  obtain cat i d where "e = (cat, i, d)" by (cases e)
  then show ?case by (simp add: Cons mutate_item_cats edited_simps case_prod_beta comp_def)
qed (simp add: edited_simps)

lemma mutated_flags:
  "ed_server (fold (mutate_item True) edits p) = ed_server p" "ed_saving (fold (mutate_item True) edits p) = ed_saving p"
  "edits \<noteq> [] \<Longrightarrow> ed_dirty (fold (mutate_item True) edits p)"
proof -
  show "ed_server (fold (mutate_item True) edits p) = ed_server p" "ed_saving (fold (mutate_item True) edits p) = ed_saving p"
    by (induction edits arbitrary: p) (auto simp: mutate_item_def)
  show "ed_dirty (fold (mutate_item True) edits p)" if "edits \<noteq> []"
  proof -
    from that obtain e es where "edits = e # es" by (cases edits) auto
    moreover have "ed_dirty p \<Longrightarrow> ed_dirty (fold (mutate_item True) es p)" for p
      by (induction es arbitrary: p) (auto simp: mutate_item_def)
    ultimately show ?thesis by (auto simp: mutate_item_def split: prod.splits)
  qed
qed

lemma edited_id [simp]: "si_id (edited edits c s) = si_id s"
  unfolding edited_def by (induction edits arbitrary: s) (auto simp: patched_item_def)

definition sent_item :: "shown_item \<Rightarrow> protection_item" where
  "sent_item i = \<lparr>pi_id = si_id i, pi_enabled = si_enabled i, pi_mode = si_mode i\<rparr>"

lemma items_accepted:
  assumes "protectionSettingsSchema (JObj [(''items'', JArr (map item_json xs))]) = Some items"
  shows "items = map sent_item xs"
proof -
  define parse where "parse = (\<lambda>i. do {
       gs \<leftarrow> z_record i;
       pid \<leftarrow> z_field ''id'' (z_matching (\<lambda>s. True)) gs;
       en \<leftarrow> z_field ''enabled'' z_bool gs;
       mode \<leftarrow> z_field ''mode'' z_mode gs;
       Some \<lparr>pi_id = pid, pi_enabled = en, pi_mode = mode\<rparr>
     })"
  have one: "parse (item_json i) = Some y \<Longrightarrow> y = sent_item i" for i y
    by (auto simp: parse_def item_json_def sent_item_def z_record_def z_field_def obj_get_def z_matching_def z_bool_def z_mode_def split: if_splits)
  have "all_some (map parse (map item_json xs)) = Some items"
    using assms unfolding protectionSettingsSchema_def parse_def [symmetric]
    by (auto simp: z_record_def z_field_def obj_get_def z_array_def split: if_splits)
  then show ?thesis
    by (induction xs arbitrary: items) (auto dest: one split: option.splits)
qed

lemma settings_accepted:
  assumes "putProtectionSettings v x q w = (r, w')" "ar_status r = 200"
  shows "\<exists>items. protectionSettingsSchema (pq_body q) = Some items"
proof (rule ccontr)
  assume "\<nexists>items. protectionSettingsSchema (pq_body q) = Some items"
  then have none: "protectionSettingsSchema (pq_body q) = None" by simp
  have "ar_status r \<noteq> 200"
    by (rule routed [OF assms(1) [unfolded putProtectionSettings_def], where Q = "\<lambda>r w. ar_status r \<noteq> 200"])
      (auto simp: none wp refused_def toHttpError_def fault_reply_def invalid_def reply_def split: access_error.split)
  with assms(2) show False by simp
qed

lemma catalog_item_sent:
  assumes "c \<in> set protection_catalog" "it \<in> set (pc_items c)"
  shows "map_of (rev (map (\<lambda>i. (pi_id i, i)) (map sent_item
      (concat (map (\<lambda>c. map (\<lambda>it. edited edits (pc_id c) (shown_setting saved it)) (pc_items c)) protection_catalog))))) (pd_id it) =
    Some (sent_item (edited edits (pc_id c) (shown_setting saved it)))"
proof -
  let ?xs = "concat (map (\<lambda>c. map (\<lambda>it. edited edits (pc_id c) (shown_setting saved it)) (pc_items c)) protection_catalog)"
  let ?kv = "map (\<lambda>i. (pi_id i, i)) (map sent_item ?xs)"
  have "map fst ?kv = map pd_id catalog_items"
    by (simp add: catalog_items_def map_concat comp_def sent_item_def shown_setting_def)
  then have dist: "distinct (map fst (rev ?kv))" using catalog_ids_distinct by (simp add: rev_map [symmetric])
  have "(pd_id it, sent_item (edited edits (pc_id c) (shown_setting saved it))) \<in> set ?kv"
    using assms by (force simp: sent_item_def shown_setting_def)
  then show ?thesis using map_of_is_SomeI [OF dist] by simp
qed

text \<open>C19: What the editor of the protections shows after the edits of an operator is what the agent receives once it is saved: every
  protection of the catalogue, changed where an edit names its category and its identifier, else as it was when the page
  loaded it, whatever was stored in between.\<close>

theorem editor_reaches_agent:
  assumes get: "getProtectionSettings v0 x0 q0 w0 = (r0, w0')" "ar_status r0 = 200" and a0: "reads v0 x0 q0 Detection_read w0 = (Inr a0, w00)"
    and page: "editor_answered n (request_result (web_answer r0)) p = Some p1"
    and save: "save_call True (fold (mutate_item True) edits p1) = Some (''PUT'', path, Some (pq_body q))"
    and put: "putProtectionSettings v x q w = (r, w')" "ar_status r = 200" and a: "writes v x q Configuration_write w = (Inr a, w1)"
    and ctx: "rc_organizationId (cx_credential ctx) = ra_organizationId a" "rc_serverId (cx_credential ctx) = pq_id q"
    and config: "agent_config f ctx w' = (Inr (Some (Config_ok fs)), w'')"
  shows "obj_get ''protections'' fs = Some (JArr (concat (map (\<lambda>c. map (\<lambda>it. item_json (edited edits (pc_id c)
    (shown_setting (saved_settings (ra_organizationId a0) (pq_id q0) (wd_db w0)) it))) (pc_items c)) protection_catalog)))"
proof -
  let ?saved = "saved_settings (ra_organizationId a0) (pq_id q0) (wd_db w0)"
  let ?xs = "concat (map (\<lambda>c. map (\<lambda>it. edited edits (pc_id c) (shown_setting ?saved it)) (pc_items c)) protection_catalog)"
  have "ed_cats p1 = map (\<lambda>c. (pc_id c, map (shown_setting ?saved) (pc_items c))) protection_catalog"
    using page get(2) categories_shown [OF get a0] by (auto simp: editor_answered_def result_of_answer split: option.splits)
  then have "concat (map snd (ed_cats (fold (mutate_item True) edits p1))) = ?xs" by (simp add: mutated_cats comp_def)
  then have body: "pq_body q = JObj [(''items'', JArr (map item_json ?xs))]"
    using save by (auto simp: save_call_def split: option.splits if_splits)
  obtain items where "protectionSettingsSchema (pq_body q) = Some items" using settings_accepted [OF put] ..
  moreover from this have "items = map sent_item ?xs" using items_accepted unfolding body by blast
  ultimately have schema: "protectionSettingsSchema (pq_body q) = Some (map sent_item ?xs)" by simp
  have "chosen_json (map sent_item ?xs) old it = item_json (edited edits (pc_id c) (shown_setting ?saved it))"
    if "c \<in> set protection_catalog" "it \<in> set (pc_items c)" for c it old
    unfolding chosen_json_def chosen_def catalog_item_sent [OF that] by (simp add: item_json_def sent_item_def shown_setting_def)
  then have "map (chosen_json (map sent_item ?xs) old) catalog_items =
      concat (map (\<lambda>c. map (\<lambda>it. item_json (edited edits (pc_id c) (shown_setting ?saved it))) (pc_items c)) protection_catalog)" for old
    unfolding catalog_items_def map_concat map_map comp_def by (intro arg_cong [where f = concat] map_cong refl)
  with saved_protections_reach_agent [OF put schema a ctx config] show ?thesis by simp
qed

text \<open>Edits that were not saved go to the server that is chosen after them: the page keeps them until the settings of that server come
  in.\<close>

theorem unsaved_edits_change_server:
  assumes "ed_dirty p" "\<not> ed_saving p" "sid \<noteq> []"
  shows "save_call True (choose_server sid p) =
    Some (''PUT'', settings_path sid, Some (JObj [(''items'', JArr (map item_json (concat (map snd (ed_cats p)))))]))"
  using assms by (simp add: save_call_def choose_server_def editor_path_def)

text \<open>Reading and writing the settings, when nothing fails.\<close>

lemma get_settings_runs:
  assumes "reads v x q Detection_read w = (Inr a, w1)" "org_id_ok (ra_organizationId a)" "px_faults x 0 = no_faults"
    and "exists_row (live_server (ra_organizationId a) (pq_id q)) (servers (wd_db w1))"
  shows "\<exists>r. getProtectionSettings v x q w = (r, w1) \<and> ar_status r = 200"
  using assms by (simp add: getProtectionSettings_def handle_with_def and_then_def tenant_step_runs settle_def give_def reply_def)

lemma put_settings_runs:
  assumes "writes v x q Configuration_write w = (Inr a, w1)" "org_id_ok (ra_organizationId a)" "\<And>n. px_faults x n = no_faults"
    and "length (aw_email (ra_user a)) \<le> 200" "length (pq_id q) \<le> 64" "protectionSettingsSchema (pq_body q) = Some items"
    and "exists_row (live_server (ra_organizationId a) (pq_id q)) (servers (wd_db w1))"
  shows "\<exists>r w'. putProtectionSettings v x q w = (r, w') \<and> ar_status r = 200 \<and> licenses (wd_db w') = licenses (wd_db w1) \<and>
    servers (wd_db w') = sql_update (\<lambda>s. sv_organization_id s = ra_organizationId a \<and> sv_id s = pq_id q)
      (\<lambda>s. s\<lparr>sv_config_version := sv_config_version s + 1, sv_updated_at := px_now x 0\<rparr>) (servers (wd_db w1))"
  using assms by (simp add: putProtectionSettings_def handle_with_def and_then_def tenant_step_runs put_settings_tx_def audit_runs settle_def
    give_def reply_def append_audit_def)

lemma items_pass:
  assumes "\<And>i. i \<in> set xs \<Longrightarrow> si_mode i = ''watch'' \<or> si_mode i = ''block''" "length xs \<le> 500"
  shows "protectionSettingsSchema (JObj [(''items'', JArr (map item_json xs))]) = Some (map sent_item xs)"
proof -
  have "all_some (map (\<lambda>i. do {
       gs \<leftarrow> z_record i;
       pid \<leftarrow> z_field ''id'' (z_matching (\<lambda>s. True)) gs;
       en \<leftarrow> z_field ''enabled'' z_bool gs;
       mode \<leftarrow> z_field ''mode'' z_mode gs;
       Some \<lparr>pi_id = pid, pi_enabled = en, pi_mode = mode\<rparr>
     }) (map item_json xs)) = Some (map sent_item xs)"
    unfolding map_map comp_def using assms(1)
    by (intro all_some_map) (auto simp: item_json_def sent_item_def z_record_def z_field_def obj_get_def z_matching_def z_bool_def z_mode_def)
  then show ?thesis using assms(2) by (simp add: protectionSettingsSchema_def z_record_def z_field_def obj_get_def z_array_def)
qed

section \<open>Registration\<close>

text \<open>The words for closed registrations are never shown: they wait for a code in the message, where the client has put its own.\<close>

theorem closed_registrations_unsaid:
  "register_outcome (request_result (web_answer (fst (registerRoute False v x q w)))) = (False, Some (''Le serveur a renvoy'' @ acute @ '' une erreur.''))"
proof -
  have "\<not> mentions ''registration_disabled'' (''Le serveur a renvoy'' @ acute @ '' une erreur.'')" by code_simp
  then show ?thesis
    by (simp add: registerRoute_def fault_reply_def reply_def result_of_answer error_code_def obj_get_def humanMessage_def register_outcome_def)
qed


section \<open>Forms\<close>

definition payload_of :: "call_args \<Rightarrow> json" where
  "payload_of c = (case c of (_, _, b) \<Rightarrow> coalesce_default b (JObj []))"

lemmas form_defs = payload_of_def z_object_def z_field_def z_optional_def z_default_def z_nullish_def z_string_def z_enum_def z_bool_def
  z_matching_def obj_get_def coalesce_default_def

lemma register_form_passes:
  "register_form_ok f \<Longrightarrow> email_ok (rf_email f) \<Longrightarrow> length (rf_email f) \<le> 254 \<Longrightarrow> length (rf_password f) \<le> 256 \<Longrightarrow>
   registerSchema email_ok (payload_of (register_call f)) \<noteq> None"
  by (auto simp: register_form_ok_def register_call_def registerSchema_def form_defs z_email_def Suc_le_eq)

lemma role_choice_passes: "roleSchema (payload_of (changeRole_call m (role_name r))) = Some r"
  by (cases r) (simp_all add: changeRole_call_def roleSchema_def form_defs z_role_def)

lemma z_int_of_JInt [simp]: "z_int lo hi (JInt i) = (if lo \<le> i \<and> i \<le> hi then Some i else None)"
  by (simp add: z_int_def z_int_min_def)

lemma settings_form_passes:
  "settings_form_ok s \<Longrightarrow> remoteConfigSchema (payload_of (save_settings_call t s)) = Some (settings_document s)"
  by (auto simp: settings_form_ok_def save_settings_call_def settings_document_def remoteConfigSchema_def form_defs z_bounded_def remote_config_bounds_def)

lemma incident_form_passes:
  "incident_form_ok f \<Longrightarrow> length (if_server_id f) \<le> 64 \<Longrightarrow> incidentCreateSchema (payload_of (create_incident_call f)) \<noteq> None"
  by (auto simp: incident_form_ok_def create_incident_call_def incidentCreateSchema_def given_field_def severities_def z_severity_def form_defs Suc_le_eq)

lemma incident_status_passes:
  "st \<in> set incident_statuses \<Longrightarrow> incidentPatchSchema (payload_of (incident_status_call i st)) \<noteq> None"
  by (auto simp: incident_statuses_def incident_status_call_def incidentPatchSchema_def z_incident_status_def form_defs)

lemma alert_status_passes:
  "st \<in> set alert_statuses \<Longrightarrow> alertPatchSchema (payload_of (alert_status_call i st)) \<noteq> None"
  by (auto simp: alert_statuses_def alert_status_call_def alertPatchSchema_def z_alert_status_def form_defs)

lemma rule_form_passes:
  "rule_form_ok f \<Longrightarrow> length (uf_event_name f) \<le> 128 \<Longrightarrow> ruleCreateSchema (payload_of (create_rule_call f)) \<noteq> None"
  by (auto simp: rule_form_ok_def create_rule_call_def ruleCreateSchema_def form_defs z_text_of_def rule_actions_def z_rule_params_def Suc_le_eq)

lemma toggle_passes: "rule_patch_schema (payload_of (toggle_rule_call i st)) \<noteq> None"
  by (auto simp: toggle_rule_call_def rule_patch_schema_def form_defs z_text_of_def)

lemma lift_passes: "liftSchema (payload_of (lift_call b)) \<noteq> None"
  by (simp add: lift_call_def liftSchema_def form_defs)

lemma ban_player_passes:
  "identifier \<noteq> [] \<Longrightarrow> length identifier \<le> 128 \<Longrightarrow> (case score of None \<Rightarrow> True | Some s \<Rightarrow> length s \<le> 300) \<Longrightarrow>
   (case name of None \<Rightarrow> True | Some n \<Rightarrow> length n \<le> 64) \<Longrightarrow> banCreateSchema (payload_of (ban_player_call identifier score name)) \<noteq> None"
  by (auto simp: ban_player_call_def banCreateSchema_def form_defs z_scope_def Suc_le_eq split: option.splits)

lemma server_buttons_pass:
  "mode \<in> set lockdown_options \<Longrightarrow> lockdownSchema (payload_of (lockdown_call sid mode)) = Some mode"
  "plan \<in> set offered_plans \<Longrightarrow> licenseIssueSchema (payload_of (issue_license_call sid plan)) = Some (plan, None)"
  "ty \<in> set offered_commands \<Longrightarrow> issueCommandSchema (payload_of (send_command_call sid ty)) \<noteq> None"
  by (auto simp: lockdown_options_def lockdown_call_def lockdownSchema_def z_lockdown_def offered_plans_def issue_license_call_def
    licenseIssueSchema_def z_plan_def license_plans_def offered_commands_def send_command_call_def issueCommandSchema_def command_types_def form_defs z_text_of_def)

lemma create_server_passes:
  "name \<noteq> [] \<Longrightarrow> length name \<le> 120 \<Longrightarrow> env \<in> {''production'', ''staging'', ''development''} \<Longrightarrow>
   createServerSchema (payload_of (create_server_call name env)) = Some (name, env)"
  by (auto simp: create_server_call_def createServerSchema_def form_defs z_environment_def Suc_le_eq)


end
