(* ===== verification/Api_Views.thy ===== *)
theory Api_Views
  imports Api_Rules Api_Bans
begin

text \<open>
  \<open>apps/api/src/api/routes.ts\<close>: what the interface reads and no other part changes: the account and its
  sessions, members, invitations, the matrix of the roles, the journal, the overview, the figures, the
  subscription, the players. The table of detections is an argument: no code of the repository writes to it.
  The session of the database runs in UTC, so that a day starts at a multiple of its length.
\<close>

section \<open>The account\<close>

definition role_json :: "role \<Rightarrow> json" where "role_json r = JStr (role_name r)"

(* src api/routes.ts:382-401 auth/me *)
definition me :: "api_deps \<Rightarrow> api_env \<Rightarrow> api_request \<Rightarrow> world \<Rightarrow> api_reply \<times> world" where
  "me v x q w =
     handle_with (acts False v x q w) (\<lambda>a.
       and_then (plain_step x 0 (\<lambda>d. (Inr (is_platform_admin (aw_userId (ra_user a)) d), d))) (\<lambda>admin.
       give (reply 200
         [(''user'', JObj [(''id'', JStr (aw_userId (ra_user a))), (''email'', JStr (aw_email (ra_user a))),
            (''display_name'', JStr (aw_displayName (ra_user a))), (''email_verified'', JBool (aw_emailVerified (ra_user a)))]),
          (''organization_id'', JStr (ra_organizationId a)), (''role'', role_json (ra_role a)),
          (''permissions'', JArr (map (\<lambda>p. JStr (permission_name p)) (permissionsOf (ra_role a)))),
          (''is_platform_admin'', JBool admin)])))"

definition session_view :: "string \<Rightarrow> session_row \<Rightarrow> json" where
  "session_view current s = JObj
     [(''id'', JStr (se_id s)), (''last_seen_at'', JInt (se_last_seen_at s)), (''expires_at'', JInt (se_expires_at s)),
      (''current'', JBool (se_id s = current))]"

(* src api/routes.ts:426-437 auth/sessions *)
definition listSessions :: "api_deps \<Rightarrow> api_env \<Rightarrow> api_request \<Rightarrow> world \<Rightarrow> api_reply \<times> world" where
  "listSessions v x q w =
     handle_with (acts False v x q w) (\<lambda>a. plain_step x 0 (\<lambda>d.
       (Inr (reply 200 [(''sessions'', JArr (map (session_view (sr_id (ra_session a))) (rev (sort_key se_last_seen_at
          (filter (\<lambda>s. se_user_id s = aw_userId (ra_user a) \<and> se_revoked_at s = None \<and> px_now x 0 < se_expires_at s) (sessions d))))))]), d)))"

definition membership_view :: "db \<Rightarrow> membership_row \<Rightarrow> (string \<times> json) option" where
  "membership_view d m =
     map_option (\<lambda>o'. (og_name o', JObj [(''id'', JStr (og_id o')), (''name'', JStr (og_name o')), (''slug'', JStr (og_slug o')),
        (''role'', role_json (me_role m))])) (first_row (\<lambda>o'. og_id o' = me_organization_id m) (organizations d))"

definition user_step :: "api_env \<Rightarrow> nat \<Rightarrow> string \<Rightarrow> (db \<Rightarrow> 'a result \<times> db) \<Rightarrow> world \<Rightarrow> 'a result \<times> world" where
  "user_step x n uid f = on_db (user_db uid (px_faults x n) (\<lambda>s. f))"

definition present :: "'a option list \<Rightarrow> 'a list" where
  "present xs = concat (map (\<lambda>v. case v of None \<Rightarrow> [] | Some y \<Rightarrow> [y]) xs)"

(* src api/routes.ts:465-480 organizations/get *)
definition listOrganizations :: "api_deps \<Rightarrow> api_env \<Rightarrow> api_request \<Rightarrow> world \<Rightarrow> api_reply \<times> world" where
  "listOrganizations v x q w =
     handle_with (acts False v x q w) (\<lambda>a. user_step x 0 (aw_userId (ra_user a)) (\<lambda>d.
       (Inr (reply 200 [(''organizations'', JArr (map snd (sort_key fst (present (map (membership_view d)
          (filter (accepted_membership (aw_userId (ra_user a))) (memberships d)))))))]), d)))"

definition role_rank :: "role \<Rightarrow> nat" where
  "role_rank r = (case r of OWNER \<Rightarrow> 0 | ADMIN \<Rightarrow> 1 | STAFF \<Rightarrow> 2 | VIEWER \<Rightarrow> 3)"

definition member_entry :: "db \<Rightarrow> membership_row \<Rightarrow> (user_row \<times> membership_row) option" where
  "member_entry d m = map_option (\<lambda>u. (u, m)) (first_row (\<lambda>u. u_id u = me_user_id m) (users d))"

definition member_view :: "user_row \<times> membership_row \<Rightarrow> json" where
  "member_view um = (case um of (u, m) \<Rightarrow> JObj
     [(''id'', JStr (me_id m)), (''role'', role_json (me_role m)), (''created_at'', JInt (me_created_at m)), (''accepted_at'', j_opt JInt (me_accepted_at m)),
      (''user_id'', JStr (u_id u)), (''email'', JStr (u_email u)), (''display_name'', JStr (u_display_name u)),
      (''last_login_at'', j_opt JInt (u_last_login_at u))])"

(* src api/routes.ts:482-495 members/get *)
definition listMembers :: "api_deps \<Rightarrow> api_env \<Rightarrow> api_request \<Rightarrow> world \<Rightarrow> api_reply \<times> world" where
  "listMembers v x q w =
     handle_with (reads v x q Member_read w) (\<lambda>a. tenant_step x 0 (ra_organizationId a) (\<lambda>d.
       (Inr (reply 200 [(''members'', JArr (map member_view (sort_key (\<lambda>um. role_rank (me_role (snd um)))
          (sort_key (\<lambda>um. to_lower (u_email (fst um))) (present (map (member_entry d)
             (inside me_organization_id (ra_organizationId a) (memberships d))))))))]), d)))"

(* src api/routes.ts:500-505 rbac/matrix *)
definition rbacMatrix :: "api_deps \<Rightarrow> api_env \<Rightarrow> api_request \<Rightarrow> world \<Rightarrow> api_reply \<times> world" where
  "rbacMatrix v x q w =
     handle_with (reads v x q Member_read w) (\<lambda>a. give (reply 200
       [(''roles'', JArr (map role_json [OWNER, ADMIN, STAFF, VIEWER])),
        (''permissions'', JArr (map (\<lambda>p. JStr (permission_name p)) all_permissions)),
        (''grants'', JObj (map (\<lambda>r. (role_name r, JArr (map (\<lambda>p. JStr (permission_name p)) (permissionsOf r)))) [OWNER, ADMIN, STAFF, VIEWER]))]))"

definition invitation_view :: "invitation_row \<Rightarrow> json" where
  "invitation_view i = JObj
     [(''id'', JStr (iv_id i)), (''email'', JStr (iv_email i)), (''role'', role_json (iv_role i)),
      (''invited_by'', j_opt JStr (iv_invited_by i)), (''expires_at'', JInt (iv_expires_at i)), (''accepted_at'', j_opt JInt (iv_accepted_at i))]"

text \<open>Those not accepted first, the newest first: the table is in the order of creation.\<close>

(* src api/routes.ts:651-662 invitations/get *)
definition listInvitations :: "api_deps \<Rightarrow> api_env \<Rightarrow> api_request \<Rightarrow> world \<Rightarrow> api_reply \<times> world" where
  "listInvitations v x q w =
     handle_with (reads v x q Member_read w) (\<lambda>a. tenant_step x 0 (ra_organizationId a) (\<lambda>d.
       let rows = rev (inside iv_organization_id (ra_organizationId a) (invitations d)) in
       (Inr (reply 200 [(''invitations'', JArr (map invitation_view (take 100
          (filter (\<lambda>i. iv_accepted_at i = None) rows @ filter (\<lambda>i. iv_accepted_at i \<noteq> None) rows))))]), d)))"

(* src api/routes.ts:3870-3872 csrf/get *)
definition csrfRoute :: "api_deps \<Rightarrow> api_env \<Rightarrow> world \<Rightarrow> api_reply \<times> world" where
  "csrfRoute v x w =
     (case issueCsrfToken (pd_production v) (px_csrf32 x) of
        (token, cookie) \<Rightarrow> ((reply 200 [(''csrf_token'', JStr token)])\<lparr>ar_cookies := [cookie]\<rparr>, w))"

section \<open>Journal and overview\<close>

definition audit_view :: "db \<Rightarrow> audit_row \<Rightarrow> json" where
  "audit_view d r = JObj
     [(''action'', JStr (au_action r)), (''actor_kind'', JStr (au_actor_kind r)), (''actor_label'', j_opt JStr (au_actor_label r)),
      (''target_id'', j_opt JStr (au_target_id r)), (''created_at'', JInt (au_created_at r)),
      (''actor_email'', j_opt JStr (map_option u_email (first_row (\<lambda>u. Some (u_id u) = au_actor_user_id r) (users d))))]"

(* src api/routes.ts:1889-1902 audit-logs/get *)
definition listAudit :: "api_deps \<Rightarrow> api_env \<Rightarrow> api_request \<Rightarrow> world \<Rightarrow> api_reply \<times> world" where
  "listAudit v x q w =
     handle_with (reads v x q Audit_read w) (\<lambda>a. tenant_step x 0 (ra_organizationId a) (\<lambda>d.
       (Inr (reply 200 [(''entries'', JArr (map (audit_view d) (take 200 (rev (sort_key au_created_at
          (filter (\<lambda>r. au_organization_id r = Some (ra_organizationId a)) (audit_logs d)))))))]), d)))"

definition servers_in :: "string \<Rightarrow> server_state \<Rightarrow> db \<Rightarrow> server_row list" where
  "servers_in org st d = filter (\<lambda>s. live_in org s \<and> sv_state s = st) (servers d)"

(* src api/routes.ts:1908-1922 overview/counts *)
definition overview_counts :: "string \<Rightarrow> db \<Rightarrow> (string \<times> int) list" where
  "overview_counts org d =
     (let alerts_of = (\<lambda>P. int (row_count (\<lambda>a. al_organization_id a = org \<and> al_status a = Alert_open \<and> P a) (alerts d))) in
      [(''servers_online'', int (length (servers_in org State_online d))),
       (''servers_offline'', int (length (servers_in org State_offline d))),
       (''servers_degraded'', int (length (servers_in org State_degraded d))),
       (''players_online'', sum_list (map (\<lambda>s. coalesce_default (sv_players_online s) 0) (servers_in org State_online d))),
       (''alerts_open'', alerts_of (\<lambda>a. True)),
       (''alerts_critical'', alerts_of (\<lambda>a. al_severity a = Sev_critical)),
       (''incidents_open'', int (row_count (\<lambda>i. in_organization_id i = org \<and> in_status i \<notin> set [Inc_resolved, Inc_closed]) (incidents d)))])"

(* src api/routes.ts:1904-1927 overview/get *)
definition overview :: "api_deps \<Rightarrow> api_env \<Rightarrow> api_request \<Rightarrow> world \<Rightarrow> api_reply \<times> world" where
  "overview v x q w =
     handle_with (reads v x q Server_read w) (\<lambda>a. tenant_step x 0 (ra_organizationId a) (\<lambda>d.
       (Inr (reply 200 [(''overview'', JObj (map (\<lambda>(k, n). (k, JInt n)) (overview_counts (ra_organizationId a) d)))]), d)))"

section \<open>Figures\<close>

definition day_ms :: int where "day_ms = 86400000"

fun tally :: "'k \<Rightarrow> ('k \<times> int) list \<Rightarrow> ('k \<times> int) list" where
  "tally k [] = [(k, 1)]"
| "tally k ((k', n) # cs) = (if k = k' then (k', n + 1) # cs else (k', n) # tally k cs)"

text \<open>\<open>SELECT key, count(*) ... GROUP BY key\<close>\<close>

definition group_counts :: "('r \<Rightarrow> 'k) \<Rightarrow> 'r list \<Rightarrow> ('k \<times> int) list" where
  "group_counts key rows = fold (\<lambda>r. tally (key r)) rows []"

(* src api/routes.ts:2133-2147 alerts-per-day/get *)
definition alertsPerDay :: "api_deps \<Rightarrow> api_env \<Rightarrow> api_request \<Rightarrow> world \<Rightarrow> api_reply \<times> world" where
  "alertsPerDay v x q w =
     handle_with (reads v x q Analytics_read w) (\<lambda>a. tenant_step x 0 (ra_organizationId a) (\<lambda>d.
       (Inr (reply 200 [(''series'', JArr (map (\<lambda>((day, sev), n). JObj [(''day'', JInt (day * day_ms)), (''severity'', JStr (severity_name sev)), (''total'', JInt n)])
          (sort_key (\<lambda>e. fst (fst e)) (group_counts (\<lambda>r. (al_created_at r div day_ms, al_severity r))
             (filter (\<lambda>r. al_organization_id r = ra_organizationId a \<and> px_now x 0 - 30 * day_ms < al_created_at r) (alerts d))))))]), d)))"

record detection_row =
  dt_id :: string
  dt_organization_id :: string
  dt_server_id :: string
  dt_player_identifier :: string
  dt_player_name :: "string option"
  dt_kind :: string
  dt_disposition :: string
  dt_confidence :: int
  dt_evidence :: json
  dt_detector :: "string option"
  dt_occurred_at :: time_ms
  dt_created_at :: time_ms

definition hour_ms :: int where "hour_ms = 3600000"

text \<open>The hour that runs and the 23 before it, each with its count.\<close>

(* src api/routes.ts:2156-2168 detections-per-hour/series *)
definition hourly_series :: "string \<Rightarrow> time_ms \<Rightarrow> detection_row list \<Rightarrow> (int \<times> int) list" where
  "hourly_series org now dets =
     (let recent = filter (\<lambda>r. dt_organization_id r = org \<and> now - 24 * hour_ms < dt_created_at r) dets in
      map (\<lambda>k. let h = now div hour_ms - 23 + k in (h, int (row_count (\<lambda>r. dt_created_at r div hour_ms = h) recent))) [0..23])"

(* src api/routes.ts:2152-2173 detections-per-hour/get *)
definition detectionsPerHour :: "api_deps \<Rightarrow> api_env \<Rightarrow> detection_row list \<Rightarrow> api_request \<Rightarrow> world \<Rightarrow> api_reply \<times> world" where
  "detectionsPerHour v x dets q w =
     handle_with (reads v x q Analytics_read w) (\<lambda>a. tenant_step x 0 (ra_organizationId a) (\<lambda>d.
       (Inr (reply 200 [(''series'', JArr (map (\<lambda>(h, n). JObj [(''hour'', JInt (h * hour_ms)), (''total'', JInt n)])
          (hourly_series (ra_organizationId a) (px_now x 0) dets)))]), d)))"

(* src api/routes.ts:2193-2216 summary/totals *)
definition summary_totals :: "string \<Rightarrow> time_ms \<Rightarrow> detection_row list \<Rightarrow> db \<Rightarrow> (string \<times> int) list" where
  "summary_totals org now dets d =
     (let own = inside bn_organization_id org (bans d); total = int (length own);
          dismissed = int (row_count (\<lambda>b. bn_status b = Ban_dismissed) own) in
      [(''bans_total'', total), (''bans_active'', int (row_count (\<lambda>b. bn_status b = Ban_active) own)),
       (''false_positives'', dismissed),
       (''fp_rate'', if 0 < total then js_round (of_int dismissed / of_int total * 100) else 0),
       (''detections_30d'', int (row_count (\<lambda>r. dt_organization_id r = org \<and> now - 30 * day_ms < dt_created_at r) dets))])"

(* src api/routes.ts:2177-2219 summary/get *)
definition analyticsSummary :: "api_deps \<Rightarrow> api_env \<Rightarrow> detection_row list \<Rightarrow> api_request \<Rightarrow> world \<Rightarrow> api_reply \<times> world" where
  "analyticsSummary v x dets q w =
     handle_with (reads v x q Server_read w) (\<lambda>a. tenant_step x 0 (ra_organizationId a) (\<lambda>d.
       let org = ra_organizationId a; now = px_now x 0 in
       (Inr (reply 200
         [(''bans_per_day'', JArr (map (\<lambda>(day, n). JObj [(''day'', JInt (day * day_ms)), (''total'', JInt n)])
             (sort_key fst (group_counts (\<lambda>b. bn_created_at b div day_ms)
                (filter (\<lambda>b. bn_organization_id b = org \<and> now - 14 * day_ms < bn_created_at b) (bans d)))))),
          (''top_detectors'', JArr (map (\<lambda>(k, n). JObj [(''detector'', JStr k), (''total'', JInt n)])
             (take 8 (rev (sort_key snd (group_counts dt_kind
                (filter (\<lambda>r. dt_organization_id r = org \<and> now - 30 * day_ms < dt_created_at r) dets)))))))
          , (''totals'', JObj (map (\<lambda>(k, n). (k, JInt n)) (summary_totals org now dets d)))]), d)))"

section \<open>Players\<close>

record detection_query =
  dq_server_id :: "string option"
  dq_kind :: "string option"
  dq_disposition :: "string option"
  dq_player :: "string option"
  dq_limit :: int

definition dispositions :: "string list" where
  "dispositions = [''OBSERVED'', ''FLAGGED'', ''KICKED'', ''BANNED'', ''DISMISSED'']"

(* src db/migrations/0004_anticheat.sql:25-36 detection_kind *)
definition detection_kinds :: "string list" where
  "detection_kinds = [''teleport'', ''speed'', ''godmode'', ''noclip'', ''injected_event'', ''firerate'', ''entity_spam'',
     ''resource_tamper'', ''economy'', ''other'']"

(* src api/routes.ts:2239-2247 detectionQuerySchema *)
definition detectionQuerySchema :: "js_lib \<Rightarrow> json \<Rightarrow> detection_query option" where
  "detectionQuerySchema js j = do {
     fs \<leftarrow> z_object [''server_id'', ''kind'', ''disposition'', ''player'', ''limit''] j;
     sid \<leftarrow> z_optional ''server_id'' (z_string 0 64) fs;
     kind \<leftarrow> z_optional ''kind'' (z_string 0 32) fs;
     disp \<leftarrow> z_optional ''disposition'' (z_text_of dispositions) fs;
     player \<leftarrow> z_optional ''player'' (z_string 0 128) fs;
     lim \<leftarrow> z_default ''limit'' (z_coerced js (\<lambda>i. 1 \<le> i \<and> i \<le> 200)) 50 fs;
     Some \<lparr>dq_server_id = sid, dq_kind = kind, dq_disposition = disp, dq_player = player, dq_limit = lim\<rparr>
   }"

definition detection_view :: "detection_row \<Rightarrow> json" where
  "detection_view r = JObj
     [(''id'', JStr (dt_id r)), (''server_id'', JStr (dt_server_id r)), (''player_identifier'', JStr (dt_player_identifier r)),
      (''player_name'', j_opt JStr (dt_player_name r)), (''kind'', JStr (dt_kind r)), (''disposition'', JStr (dt_disposition r)),
      (''confidence'', JInt (dt_confidence r)), (''evidence'', dt_evidence r), (''detector'', j_opt JStr (dt_detector r)),
      (''occurred_at'', JInt (dt_occurred_at r)), (''created_at'', JInt (dt_created_at r))]"

definition newest_detections :: "detection_row list \<Rightarrow> detection_row list" where
  "newest_detections rows = rev (sort_key dt_created_at rows)"

text \<open>A text that is no \<open>detection_kind\<close> fails the statement.\<close>

(* src api/routes.ts:2249-2281 detections/get *)
definition listDetections :: "api_deps \<Rightarrow> api_env \<Rightarrow> detection_row list \<Rightarrow> api_request \<Rightarrow> world \<Rightarrow> api_reply \<times> world" where
  "listDetections v x dets q w =
     handle_with (reads v x q Detection_read w) (\<lambda>a.
       case detectionQuerySchema (pd_js v) (JObj (map (\<lambda>(k, s). (k, JStr s)) (pq_query q))) of
         None \<Rightarrow> give invalid
       | Some f \<Rightarrow> tenant_step x 0 (ra_organizationId a) (\<lambda>d.
           if \<not> unless_given (dq_kind f) (\<lambda>k. k \<in> set detection_kinds) then (Inl (Thrown ''invalid_text_representation''), d)
           else (Inr (reply 200 [(''detections'', JArr (map detection_view (take (nat (dq_limit f)) (newest_detections
              (filter (\<lambda>r. dt_organization_id r = ra_organizationId a \<and> unless_given (dq_server_id f) ((=) (dt_server_id r)) \<and>
                 unless_given (dq_kind f) ((=) (dt_kind r)) \<and> unless_given (dq_disposition f) ((=) (dt_disposition r)) \<and>
                 unless_given (dq_player f) ((=) (dt_player_identifier r))) dets)))))]), d)))"

text \<open>A line of the view \<open>player_threat\<close>, whose score is an argument: it decays with an exponential.\<close>

record threat_row =
  th_identifier :: string
  th_name :: "string option"
  th_count :: int
  th_count_24h :: int
  th_last_seen :: time_ms
  th_score :: int

definition threat_view :: "threat_row \<Rightarrow> json" where
  "threat_view t = JObj
     [(''player_identifier'', JStr (th_identifier t)), (''player_name'', j_opt JStr (th_name t)), (''detection_count'', JInt (th_count t)),
      (''detections_24h'', JInt (th_count_24h t)), (''last_seen_at'', JInt (th_last_seen t)), (''threat_score'', JInt (th_score t))]"

(* src api/routes.ts:2283-2300 players/get *)
definition listPlayers :: "api_deps \<Rightarrow> api_env \<Rightarrow> (string \<Rightarrow> threat_row list) \<Rightarrow> api_request \<Rightarrow> world \<Rightarrow> api_reply \<times> world" where
  "listPlayers v x threats q w =
     handle_with (reads v x q Detection_read w) (\<lambda>a. tenant_step x 0 (ra_organizationId a) (\<lambda>d.
       (Inr (reply 200 [(''players'', JArr (map threat_view (take 100
          (sort_key (\<lambda>t. - th_score t) (rev (sort_key th_last_seen (threats (ra_organizationId a))))))))]), d)))"

definition player_bans :: "string \<Rightarrow> string \<Rightarrow> db \<Rightarrow> ban_row list" where
  "player_bans org ident d = filter (\<lambda>b. bn_organization_id b = org \<and> bn_identifier b = ident) (bans d)"

text \<open>The score of the detections, raised by what was sanctioned, between 0 and 100.\<close>

(* src api/routes.ts:2379-2384 players/confidence *)
definition player_confidence :: "int \<Rightarrow> ban_row list \<Rightarrow> int" where
  "player_confidence score history =
     max 0 (min 100 (score + min 30 (12 * int (row_count (\<lambda>b. bn_status b = Ban_active \<or> bn_status b = Ban_kicked) history))))"

definition lower_name :: "detection_row \<Rightarrow> string option" where
  "lower_name r = map_option to_lower (dt_player_name r)"

text \<open>Another identifier under the name this one was last seen with.\<close>

(* src api/routes.ts:2361-2376 players/alts *)
definition possible_alts :: "string \<Rightarrow> string \<Rightarrow> detection_row list \<Rightarrow> (string \<times> int \<times> time_ms) list" where
  "possible_alts org ident dets =
     (let own = filter (\<lambda>r. dt_organization_id r = org \<and> dt_player_name r \<noteq> None) dets in
      case newest_detections (filter (\<lambda>r. dt_player_identifier r = ident) own) of
        [] \<Rightarrow> []
      | known # _ \<Rightarrow>
          (let same = filter (\<lambda>r. dt_player_identifier r \<noteq> ident \<and> lower_name r = lower_name known) own;
               seen = (\<lambda>i. Max (set (map dt_created_at (filter (\<lambda>r. dt_player_identifier r = i) same)))) in
           take 10 (rev (sort_key (\<lambda>(i, n, t). t) (map (\<lambda>(i, n). (i, n, seen i)) (group_counts dt_player_identifier same))))))"

definition ban_line :: "ban_row \<Rightarrow> json" where
  "ban_line b = JObj
     [(''id'', JStr (bn_id b)), (''scope'', JStr (ban_scope_name (bn_scope b))), (''reason'', JStr (bn_reason b)),
      (''status'', JStr (ban_status_name (bn_status b))), (''server_id'', j_opt JStr (bn_server_id b)),
      (''issued_by_auto'', JBool (bn_issued_by_auto b)), (''created_at'', JInt (bn_created_at b)), (''expires_at'', j_opt JInt (bn_expires_at b))]"

definition seen_on :: "string \<Rightarrow> string \<Rightarrow> detection_row list \<Rightarrow> db \<Rightarrow> server_row list" where
  "seen_on org ident dets d =
     filter (\<lambda>s. sv_organization_id s = org \<and>
       (exists_row (\<lambda>r. dt_organization_id r = org \<and> dt_player_identifier r = ident \<and> dt_server_id r = sv_id s) dets \<or>
        exists_row (\<lambda>b. bn_server_id b = Some (sv_id s)) (player_bans org ident d))) (servers d)"

(* src api/routes.ts:2302-2398 players/one *)
definition playerFile :: "api_deps \<Rightarrow> api_env \<Rightarrow> detection_row list \<Rightarrow> (string \<Rightarrow> threat_row list) \<Rightarrow> api_request \<Rightarrow> world \<Rightarrow> api_reply \<times> world" where
  "playerFile v x dets threats q w =
     handle_with (reads v x q Detection_read w) (\<lambda>a. tenant_step x 0 (ra_organizationId a) (\<lambda>d.
       let org = ra_organizationId a; ident = pq_id q; threat = find (\<lambda>t. th_identifier t = ident) (threats org);
           history = take 20 (rev (sort_key bn_created_at (player_bans org ident d))) in
       (Inr (reply 200
         [(''player'', j_opt threat_view threat),
          (''detections'', JArr (map detection_view (take 40 (newest_detections
             (filter (\<lambda>r. dt_organization_id r = org \<and> dt_player_identifier r = ident) dets))))),
          (''active_ban'', j_opt ban_line (first_row (\<lambda>b. bn_status b = Ban_active) (player_bans org ident d))),
          (''dossier'', JObj
            [(''confidence'', JInt (player_confidence (coalesce_default (map_option th_score threat) 0) history)),
             (''ban_history'', JArr (map ban_line history)),
             (''servers_seen'', JArr (map (\<lambda>s. JObj [(''id'', JStr (sv_id s)), (''name'', JStr (sv_name s))]) (seen_on org ident dets d))),
             (''possible_alts'', JArr (map (\<lambda>(i, n, t). JObj [(''player_identifier'', JStr i), (''detections'', JInt n), (''last_seen'', JInt t)])
                (possible_alts org ident dets)))])]), d)))"

section \<open>Offers\<close>

record plan_row =
  pl_code :: string
  pl_name :: string
  pl_monthly_cents :: int
  pl_public :: bool

text \<open>The offers after the migrations 0001 and 0015, and what each gives: a number or a switch.\<close>

(* src db/migrations/0015_pricing_and_license_revocation.sql:14-17 plans *)
definition plan_table :: "plan_row list" where
  "plan_table =
     [\<lparr>pl_code = ''free'', pl_name = ''Free'', pl_monthly_cents = 0, pl_public = True\<rparr>,
      \<lparr>pl_code = ''starter'', pl_name = ''Starter'', pl_monthly_cents = 1999, pl_public = True\<rparr>,
      \<lparr>pl_code = ''pro'', pl_name = ''Pro'', pl_monthly_cents = 4999, pl_public = True\<rparr>,
      \<lparr>pl_code = ''enterprise'', pl_name = ''Network'', pl_monthly_cents = 9900, pl_public = True\<rparr>]"

datatype entitlement_value = Amount int | Switch bool

(* src db/migrations/0001_init.sql:594-614 plan_entitlements *)
definition plan_entitlement_table :: "(string \<times> string \<times> entitlement_value) list" where
  "plan_entitlement_table =
     [(''free'', ''servers.max'', Amount 1), (''free'', ''users.max'', Amount 2), (''free'', ''retention.days'', Amount 7),
      (''free'', ''feature.incidents'', Switch False), (''free'', ''feature.webhooks'', Switch False),
      (''starter'', ''servers.max'', Amount 3), (''starter'', ''users.max'', Amount 5), (''starter'', ''retention.days'', Amount 30),
      (''starter'', ''feature.incidents'', Switch True), (''starter'', ''feature.webhooks'', Switch True),
      (''pro'', ''servers.max'', Amount 15), (''pro'', ''users.max'', Amount 25), (''pro'', ''retention.days'', Amount 90),
      (''pro'', ''feature.incidents'', Switch True), (''pro'', ''feature.webhooks'', Switch True),
      (''enterprise'', ''servers.max'', Amount 1000), (''enterprise'', ''users.max'', Amount 500), (''enterprise'', ''retention.days'', Amount 365),
      (''enterprise'', ''feature.incidents'', Switch True), (''enterprise'', ''feature.webhooks'', Switch True)]"

definition entitlement_json :: "entitlement_value \<Rightarrow> json" where
  "entitlement_json e = (case e of Amount n \<Rightarrow> JInt n | Switch b \<Rightarrow> JBool b)"

definition offer_view :: "plan_row \<Rightarrow> json" where
  "offer_view p = JObj
     [(''code'', JStr (pl_code p)), (''name'', JStr (pl_name p)), (''monthly_cents'', JInt (pl_monthly_cents p)), (''currency'', JStr ''EUR''),
      (''entitlements'', JObj (map (\<lambda>(c, k, e). (k, entitlement_json e)) (filter (\<lambda>(c, k, e). c = pl_code p) plan_entitlement_table)))]"

(* src api/routes.ts:3698-3727 plans/get *)
definition listPlans :: "api_deps \<Rightarrow> api_env \<Rightarrow> api_request \<Rightarrow> world \<Rightarrow> api_reply \<times> world" where
  "listPlans v x q w =
     handle_with (acts False v x q w) (\<lambda>a.
       and_then (plain_step x 0 (\<lambda>d. (Inr (sort_key pl_monthly_cents (filter (\<lambda>p. pl_public p \<and> pl_code p \<noteq> ''free'') plan_table)), d))) (\<lambda>ps.
       and_then (plain_step x 1 (\<lambda>d. (Inr (map offer_view ps), d))) (\<lambda>views.
       give (reply 200 [(''plans'', JArr views)]))))"

text \<open>An override of the organization replaces the number of the plan; no code writes overrides, and the model keeps their numbers only.\<close>

(* src api/routes.ts:3837-3849 subscription/entitlements *)
definition effective_entitlements :: "string \<Rightarrow> string \<Rightarrow> db \<Rightarrow> json list" where
  "effective_entitlements org plan d =
     map (\<lambda>(c, k, e).
       let own = first_row (\<lambda>r. en_organization_id r = org \<and> en_key r = k) (entitlements d) in
       JObj [(''key'', JStr k), (''int_value'', case Option.bind own en_int_value of Some n \<Rightarrow> JInt n
                | None \<Rightarrow> (case e of Amount n \<Rightarrow> JInt n | Switch b \<Rightarrow> JNull)),
             (''bool_value'', case e of Switch b \<Rightarrow> JBool b | Amount n \<Rightarrow> JNull),
             (''source'', JStr (if own = None then ''plan'' else ''override''))])
       (sort_key (\<lambda>e. fst (snd e)) (filter (\<lambda>(c, k, e). c = plan) plan_entitlement_table))"

(* src api/routes.ts:3823-3868 subscription/get *)
definition subscription :: "api_deps \<Rightarrow> api_env \<Rightarrow> api_request \<Rightarrow> world \<Rightarrow> api_reply \<times> world" where
  "subscription v x q w =
     handle_with (reads v x q Billing_manage w) (\<lambda>a. tenant_step x 0 (ra_organizationId a) (\<lambda>d.
       let org = ra_organizationId a; sub = first_row (\<lambda>s. sb_organization_id s = org) (subscriptions d) in
       (Inr (reply 200
         [(''subscription'', j_opt (\<lambda>s. JObj [(''plan_code'', JStr (sb_plan_code s)), (''trial_ends_at'', j_opt JInt (sb_trial_ends_at s)),
             (''plan_name'', j_opt (\<lambda>p. JStr (pl_name p)) (find (\<lambda>p. pl_code p = sb_plan_code s) plan_table))]) sub),
          (''entitlements'', JArr (case sub of None \<Rightarrow> [] | Some s \<Rightarrow> effective_entitlements org (sb_plan_code s) d)),
          (''usage'', JObj [(''servers'', JInt (used_servers org d)),
             (''users'', JInt (int (row_count (\<lambda>m. me_organization_id m = org) (memberships d)))),
             (''alerts_30d'', JInt (int (row_count (\<lambda>r. al_organization_id r = org \<and> px_now x 0 - 30 * day_ms < al_created_at r) (alerts d))))])]), d)))"

end
