(* ===== verification/Web_Buttons.thy ===== *)
theory Web_Buttons
  imports Web_Handlers Web_Page_Facts Api_Views
begin

text \<open>
  \<open>apps/web/app\<close>: which buttons each page offers to whom, the routes they call, and the comment of \<open>api.ts\<close> on \<open>hasPermission\<close>: the
  interface shows no button that would be answered by a 403, and hides none that would not. \<open>permissions\<close> is the
  list of the last answer of \<open>/api/auth/me\<close>, absent while it has not come.
\<close>

section \<open>Buttons\<close>

datatype button =
    Create_server | Issue_license | Set_lockdown | Issue_credential | Send_command
  | Confirm_ban | Kick_ban | Dismiss_ban | Lift_ban | Ban_player | Observe_player
  | Change_role | Remove_member | Save_settings | Save_protections
  | Create_incident | Set_incident_status | Comment_incident | Set_alert_status
  | Create_rule | Set_rule_action | Toggle_rule | Generate_license

definition offers :: "bool \<Rightarrow> button list \<Rightarrow> button list" where
  "offers c bs = (if c then bs else [])"

(* src apps/web/app/(app)/servers/page.tsx:30-34 ServersPage/actions *)
definition servers_buttons :: "string list option \<Rightarrow> button list" where
  "servers_buttons ps = offers (shows_permission ps ''server.write'') [Create_server]"

(* src apps/web/app/(app)/servers/[id]/page.tsx:202-211 ServerDetailPage/license *)
definition license_buttons :: "string list option \<Rightarrow> button list" where
  "license_buttons ps = offers (shows_permission ps ''anticheat.configure'') [Issue_license]"

(* src apps/web/app/(app)/servers/[id]/page.tsx:236-247 ServerDetailPage/lockdown *)
definition lockdown_buttons :: "string list option \<Rightarrow> button list" where
  "lockdown_buttons ps = offers (shows_permission ps ''anticheat.configure'') [Set_lockdown]"

text \<open>\<open>issued\<close>: a new credential is on show.\<close>

(* src apps/web/app/(app)/servers/[id]/page.tsx:255-284 ServerDetailPage/credential *)
definition credential_buttons :: "string list option \<Rightarrow> bool \<Rightarrow> button list" where
  "credential_buttons ps issued = offers (shows_permission ps ''credential.manage'' \<and> \<not> issued) [Issue_credential]"

(* src apps/web/app/(app)/servers/[id]/page.tsx:286-309 ServerDetailPage/commands *)
definition command_buttons :: "string list option \<Rightarrow> button list" where
  "command_buttons ps = offers (shows_permission ps ''command.issue'') [Send_command]"

(* src apps/web/app/(app)/bans/page.tsx:164-184 BansPage/line *)
definition ban_buttons :: "string list option \<Rightarrow> string \<Rightarrow> button list" where
  "ban_buttons ps status =
     (let canManage = shows_permission ps ''ban.manage'' in
      if canManage \<and> status = ''PENDING'' then [Confirm_ban, Kick_ban, Dismiss_ban]
      else offers (canManage \<and> status = ''ACTIVE'') [Lift_ban])"

(* src apps/web/app/(app)/players/page.tsx:206-231 PlayerDetail *)
definition player_buttons :: "string list option \<Rightarrow> bool \<Rightarrow> string list \<Rightarrow> button list" where
  "player_buttons ps active_ban servers_seen =
     offers (\<not> active_ban \<and> shows_permission ps ''ban.manage'') [Ban_player] @
     offers (shows_permission ps ''command.issue'' \<and> servers_seen \<noteq> []) [Observe_player]"

(* src apps/web/app/(app)/team/page.tsx:150-179 TeamPage/line *)
definition team_buttons :: "string list option \<Rightarrow> nat \<Rightarrow> bool \<Rightarrow> role \<Rightarrow> button list" where
  "team_buttons ps owners_shown isSelf r =
     (case member_buttons (shows_permission ps ''member.manage'') owners_shown isSelf r of
        (role_choice, removal) \<Rightarrow> offers role_choice [Change_role] @ offers removal [Remove_member])"

(* src apps/web/app/(app)/settings/page.tsx:172-174 SettingsPage/submit *)
definition settings_buttons :: "string list option \<Rightarrow> string \<Rightarrow> button list" where
  "settings_buttons ps target = offers (shows_permission ps ''configuration.write'' \<and> target \<noteq> []) [Save_settings]"

(* src apps/web/app/(app)/protections/page.tsx:157-161 ProtectionsPage/save *)
definition protections_buttons :: "string list option \<Rightarrow> editor \<Rightarrow> button list" where
  "protections_buttons ps p = offers (shows_permission ps ''configuration.write'' \<and> ed_dirty p \<and> \<not> ed_saving p) [Save_protections]"

text \<open>The form that opens an incident stays on the page once it is open.\<close>

(* src apps/web/app/(app)/incidents/page.tsx:69-73 IncidentsPage/actions *)
definition incidents_buttons :: "string list option \<Rightarrow> button list" where
  "incidents_buttons ps = offers (shows_permission ps ''incident.write'') [Create_incident, Set_incident_status]"

text \<open>A status other than the one the incident has; a note that is not blank.\<close>

(* src apps/web/app/(app)/incidents/[id]/page.tsx:116-131 IncidentDetailPage/status *)
definition detail_buttons :: "string list option \<Rightarrow> string \<Rightarrow> string \<Rightarrow> button list" where
  "detail_buttons ps now_status status = offers (shows_permission ps ''incident.write'' \<and> status \<noteq> now_status) [Set_incident_status]"

(* src apps/web/app/(app)/incidents/[id]/page.tsx:187-207 IncidentDetailPage/note *)
definition note_buttons :: "string list option \<Rightarrow> string \<Rightarrow> button list" where
  "note_buttons ps note = offers (shows_permission ps ''incident.write'' \<and> js_trim note \<noteq> []) [Comment_incident]"

text \<open>The status a button sets.\<close>

(* src apps/web/app/(app)/alerts/page.tsx:181-196 AlertsPage/line *)
definition alert_buttons :: "string list option \<Rightarrow> string \<Rightarrow> (button \<times> string) list" where
  "alert_buttons ps status =
     (if shows_permission ps ''alert.triage'' then
        (if status = ''OPEN'' then [(Set_alert_status, ''ACKNOWLEDGED'')] else []) @
        (if status \<noteq> ''RESOLVED'' then [(Set_alert_status, ''RESOLVED'')] else [])
      else [])"

(* src apps/web/app/(app)/rules/page.tsx:158-176 RulesPage/line *)
definition rules_buttons :: "string list option \<Rightarrow> button list" where
  "rules_buttons ps = offers (shows_permission ps ''rule.manage'') [Create_rule, Set_rule_action, Toggle_rule]"

(* src apps/web/app/(app)/licenses/page.tsx:41-50 LicensesPage *)
definition generator_buttons :: "string list option \<Rightarrow> bool \<Rightarrow> button list" where
  "generator_buttons ps loading = offers (shows_permission ps ''billing.manage'' \<or> loading) [Generate_license]"

section \<open>Routes\<close>

definition button_permission :: "button \<Rightarrow> permission" where
  "button_permission b =
     (case b of
        Create_server \<Rightarrow> Server_write | Issue_license \<Rightarrow> Anticheat_configure | Set_lockdown \<Rightarrow> Anticheat_configure
      | Issue_credential \<Rightarrow> Credential_manage | Send_command \<Rightarrow> Command_issue
      | Confirm_ban \<Rightarrow> Ban_manage | Kick_ban \<Rightarrow> Ban_manage | Dismiss_ban \<Rightarrow> Ban_manage | Lift_ban \<Rightarrow> Ban_manage
      | Ban_player \<Rightarrow> Ban_manage | Observe_player \<Rightarrow> Command_issue
      | Change_role \<Rightarrow> Member_manage | Remove_member \<Rightarrow> Member_manage
      | Save_settings \<Rightarrow> Configuration_write | Save_protections \<Rightarrow> Configuration_write
      | Create_incident \<Rightarrow> Incident_write | Set_incident_status \<Rightarrow> Incident_write | Comment_incident \<Rightarrow> Incident_write
      | Set_alert_status \<Rightarrow> Alert_triage
      | Create_rule \<Rightarrow> Rule_manage | Set_rule_action \<Rightarrow> Rule_manage | Toggle_rule \<Rightarrow> Rule_manage
      | Generate_license \<Rightarrow> Billing_manage)"

text \<open>The route each button calls; \<open>rnd\<close> is the randomness of a new credential.\<close>

definition button_route :: "issue_random \<Rightarrow> button \<Rightarrow> api_deps \<Rightarrow> api_env \<Rightarrow> api_request \<Rightarrow> world \<Rightarrow> api_reply \<times> world" where
  "button_route rnd b =
     (case b of
        Create_server \<Rightarrow> createServer | Issue_license \<Rightarrow> issueLicense | Set_lockdown \<Rightarrow> setLockdown
      | Issue_credential \<Rightarrow> (\<lambda>v x. createCredential v x rnd) | Send_command \<Rightarrow> issueCommand
      | Confirm_ban \<Rightarrow> confirmBan | Kick_ban \<Rightarrow> kickBan | Dismiss_ban \<Rightarrow> dismissBan | Lift_ban \<Rightarrow> liftBan
      | Ban_player \<Rightarrow> createBan | Observe_player \<Rightarrow> spectate
      | Change_role \<Rightarrow> patchMembership | Remove_member \<Rightarrow> deleteMembership
      | Save_settings \<Rightarrow> putConfiguration | Save_protections \<Rightarrow> putProtectionSettings
      | Create_incident \<Rightarrow> createIncident | Set_incident_status \<Rightarrow> patchIncident | Comment_incident \<Rightarrow> commentIncident
      | Set_alert_status \<Rightarrow> patchAlert
      | Create_rule \<Rightarrow> createRule | Set_rule_action \<Rightarrow> updateRule | Toggle_rule \<Rightarrow> updateRule
      | Generate_license \<Rightarrow> generateLicense)"

text \<open>Some page offers the button, in some state of what it shows; the page of the licences counts once it knows the permissions.\<close>

definition offered :: "string list option \<Rightarrow> button \<Rightarrow> bool" where
  "offered ps b =
     (b \<in> set (servers_buttons ps @ license_buttons ps @ lockdown_buttons ps @ command_buttons ps @ incidents_buttons ps @
        rules_buttons ps @ generator_buttons ps False) \<or>
      (\<exists>issued. b \<in> set (credential_buttons ps issued)) \<or> (\<exists>status. b \<in> set (ban_buttons ps status)) \<or>
      (\<exists>banned seen. b \<in> set (player_buttons ps banned seen)) \<or> (\<exists>n self r. b \<in> set (team_buttons ps n self r)) \<or>
      (\<exists>target. b \<in> set (settings_buttons ps target)) \<or> (\<exists>p. b \<in> set (protections_buttons ps p)) \<or>
      (\<exists>s t. b \<in> set (detail_buttons ps s t)) \<or> (\<exists>note. b \<in> set (note_buttons ps note)) \<or>
      (\<exists>status. b \<in> fst ` set (alert_buttons ps status)))"

lemmas page_buttons = servers_buttons_def license_buttons_def lockdown_buttons_def command_buttons_def incidents_buttons_def rules_buttons_def
  generator_buttons_def credential_buttons_def ban_buttons_def player_buttons_def team_buttons_def member_buttons_def settings_buttons_def
  protections_buttons_def detail_buttons_def note_buttons_def alert_buttons_def offers_def Let_def

text \<open>No page offers more than the permission of the route, and every button is offered somewhere to who has it.\<close>

lemma offered_needs: "offered ps b \<Longrightarrow> shows_permission ps (permission_name (button_permission b))"
  by (auto simp: offered_def page_buttons button_permission_def split: if_splits prod.splits)

lemma offered_somewhere:
  assumes "shows_permission ps (permission_name (button_permission b))"
  shows "offered ps b"
proof -
  have somewhere: "\<exists>issued. Issue_credential \<in> set (credential_buttons ps issued)" if "b = Issue_credential"
    using assms that by (intro exI [of _ False]) (simp add: page_buttons button_permission_def)
  moreover have "\<exists>status. b \<in> set (ban_buttons ps status)" if "b \<in> {Confirm_ban, Kick_ban, Dismiss_ban}"
    using assms that by (intro exI [of _ "''PENDING''"]) (auto simp: page_buttons button_permission_def)
  moreover have "\<exists>status. Lift_ban \<in> set (ban_buttons ps status)" if "b = Lift_ban"
    using assms that by (intro exI [of _ "''ACTIVE''"]) (simp add: page_buttons button_permission_def)
  moreover have "\<exists>banned seen. b \<in> set (player_buttons ps banned seen)" if "b \<in> {Ban_player, Observe_player}"
    using assms that by (intro exI [of _ False] exI [of _ "[[]]"]) (auto simp: page_buttons button_permission_def)
  moreover have "\<exists>n self r. b \<in> set (team_buttons ps n self r)" if "b \<in> {Change_role, Remove_member}"
    using assms that by (intro exI [of _ 2] exI [of _ False] exI [of _ STAFF]) (auto simp: page_buttons button_permission_def)
  moreover have "\<exists>target. Save_settings \<in> set (settings_buttons ps target)" if "b = Save_settings"
    using assms that by (intro exI [of _ "''s''"]) (simp add: page_buttons button_permission_def)
  moreover have "\<exists>p. Save_protections \<in> set (protections_buttons ps p)" if "b = Save_protections"
    using assms that by (intro exI [of _ "\<lparr>ed_server = None, ed_hook = fresh_hook None, ed_cats = [], ed_dirty = True, ed_saving = False,
      ed_saved = False\<rparr>"]) (simp add: page_buttons button_permission_def)
  moreover have "\<exists>note. Comment_incident \<in> set (note_buttons ps note)" if "b = Comment_incident"
  proof -
    have "js_trim ''n'' \<noteq> []" by code_simp
    then show ?thesis using assms that by (intro exI [of _ "''n''"]) (simp add: page_buttons button_permission_def)
  qed
  moreover have "\<exists>status. Set_alert_status \<in> fst ` set (alert_buttons ps status)" if "b = Set_alert_status"
    using assms that by (intro exI [of _ "''OPEN''"]) (simp add: page_buttons button_permission_def)
  ultimately show ?thesis
    using assms by (cases b) (auto simp: offered_def, auto simp: page_buttons button_permission_def)
qed

lemma refused_by_guard:
  assumes "writes v x q (button_permission b) w = (Inl e, w1)"
  shows "button_route rnd b v x q w = (refused e, w1)"
  using assms
  by (cases b) (simp_all add: button_route_def button_permission_def handle_with_def createServer_def issueLicense_def setLockdown_def
    createCredential_def issueCommand_def confirmBan_def kickBan_def dismissBan_def reviews_def liftBan_def createBan_def spectate_def
    patchMembership_def deleteMembership_def putConfiguration_def putProtectionSettings_def createIncident_def patchIncident_def
    commentIncident_def patchAlert_def createRule_def updateRule_def generateLicense_def)

lemma guard_by_role:
  assumes "acts True v x q w = (Inr a, w1)"
  shows "writes v x q p w = (if can (ra_role a) p then Inr a else Inl Forbidden_access, w1)"
  using assms by (auto simp: acts_def writes_def require_def requireRead_def assertCan_def split: sum.splits)

lemma me_permissions:
  assumes "me v x q w = (r, w')" "ar_status r = 200" "acts False v x q w = (Inr a, w1)"
  shows "json_field ''permissions'' (JObj (ar_body r)) = Some (JArr (map (\<lambda>p. JStr (permission_name p)) (permissionsOf (ra_role a))))"
proof -
  define Q where "Q = (\<lambda>(r :: api_reply) (w' :: world). ar_status r = 200 \<longrightarrow>
    json_field ''permissions'' (JObj (ar_body r)) = Some (JArr (map (\<lambda>p. JStr (permission_name p)) (permissionsOf (ra_role a)))))"
  have none: "Q (refused e) w" for e w by (cases e) (simp_all add: Q_def refused_def toHttpError_def fault_reply_def reply_def)
  have "Q r w'"
    by (rule routed [OF assms(1) [unfolded me_def]])
      (use assms(3) in \<open>auto simp: wp none intro!: wp_plain, auto simp: Q_def reply_def json_field_def obj_get_def\<close>)
  with assms(2) show ?thesis by (simp add: Q_def)
qed


section \<open>Buttons that cannot work\<close>

text \<open>The buttons of an alert only go forward in its states.\<close>

lemma alert_buttons_forward:
  "(b, t) \<in> set (alert_buttons ps status) \<Longrightarrow> t \<noteq> status \<and> t \<noteq> ''OPEN'' \<and> status \<noteq> ''RESOLVED''"
  by (auto simp: alert_buttons_def split: if_splits)

text \<open>The last owner of the page can neither be given another role nor be removed, and no member removes himself.\<close>

lemma team_buttons_kept:
  "n \<le> 1 \<Longrightarrow> team_buttons ps n self OWNER = []" "Remove_member \<notin> set (team_buttons ps n True r)"
  by (auto simp: page_buttons split: if_splits)

end
