(* ===== verification/Web_Handler_Facts.thy ===== *)
theory Web_Handler_Facts
  imports Web_Buttons License_Facts
begin

text \<open>
  What the handlers leave on their pages: a call that fails leaves a notice and nothing else, and the key the page of the licences
  shows is one the platform verifies.
\<close>

section \<open>Failures\<close>

text \<open>The page as it was, with a notice: no form is emptied or closed, and nothing is loaded again.\<close>

definition left_alone :: "'a page_scheme \<Rightarrow> 'a page_scheme \<Rightarrow> bool" where
  "left_alone p p' = (\<exists>m. p' = told (Some m) p)"

lemma left_alone_told [simp]: "left_alone p (told (Some m) p)"
  by (auto simp: left_alone_def)

lemma after_failure [simp]: "left_alone p (after_call fallback done (Inl c) p)"
  by (simp add: after_call_def)

lemma after_member_failure [simp]: "left_alone p (after_member_call fallback (Inl c) p)"
  by (cases c) (simp_all add: after_member_call_def)

theorem failures_leave_pages_alone:
  fixes c :: cause
  defines "send \<equiv> \<lambda>call. Inl c"
  shows "left_alone lp (on_login send now email password lp) \<and> on_switch_organization send org lp = lp \<and> on_logout send lp = lp \<and>
    left_alone p (on_changeRole send m r p) \<and> left_alone p (on_remove send m p) \<and> left_alone p (on_save_settings f send t s p) \<and>
    left_alone p (on_revoke_session send i p) \<and> left_alone ip (on_create_incident send ip) \<and>
    left_alone p (on_incident_status send i st p) \<and> left_alone p (on_detail_status send i st p) \<and>
    (on_add_note send i np = np \<or> left_alone np (on_add_note send i np)) \<and> left_alone p (on_alert_status send i st p) \<and>
    left_alone rp (on_create_rule send rp) \<and> left_alone p (on_rule_action send i st p) \<and> left_alone p (on_toggle_rule send i st p) \<and>
    left_alone p (on_act send i verdict st p) \<and> left_alone p (on_lift send i p) \<and> left_alone p (on_ban_player send i score name p) \<and>
    left_alone p (on_observe send i seen p) \<and> left_alone vp (on_lockdown send i st vp) \<and> left_alone vp (on_issue_license send i st vp) \<and>
    left_alone vp (on_issue_credential send i vp) \<and> left_alone vp (on_send_command send i st vp)"
  unfolding send_def
  by (simp add: on_login_def on_switch_organization_def on_logout_def on_changeRole_def on_remove_def on_save_settings_def
    on_revoke_session_def on_create_incident_def on_incident_status_def on_detail_status_def on_alert_status_def on_create_rule_def
    on_rule_action_def on_toggle_rule_def on_act_def on_lift_def on_ban_player_def on_lockdown_def on_issue_license_def
    on_issue_credential_def on_send_command_def Let_def)
    (auto simp: on_add_note_def on_observe_def split: option.split)

text \<open>An account with a second factor cannot enter: no page asks for the factor.\<close>

lemma second_factor_keeps_out:
  assumes "send (login_call email password) = Inr (Some (JObj fs))" "obj_get ''status'' fs = Some (JStr ''mfa_required'')"
  shows "on_login send now email password p = told (Some second_factor_text) p"
  using assms by (simp add: on_login_def read_property_def Let_def)

section \<open>Licences\<close>

text \<open>The days and the binding the form asks for.\<close>

definition asked_days :: "(string \<Rightarrow> rat option) \<Rightarrow> string \<Rightarrow> string \<Rightarrow> int" where
  "asked_days number days plan =
     (case number days of Some d \<Rightarrow> if js_trim days \<noteq> [] \<and> 0 < d then \<lfloor>d\<rfloor> else plan_days plan | None \<Rightarrow> plan_days plan)"

definition asked_binding :: "(string \<Rightarrow> string) \<Rightarrow> string \<Rightarrow> string" where
  "asked_binding lower fingerprint = (let fp = lower (js_trim fingerprint) in if fp = [] then ''any'' else fp)"

lemma plan_days_bounds: "0 < plan_days plan \<and> plan_days plan \<le> 30"
  by (simp add: plan_days_def coalesce_default_def)

lemma generate_schema:
  assumes "licenseGenerateSchema (payload_of (generate_call lower number plan days fingerprint)) = Some (plan', n, fp)"
  shows "plan' = plan \<and> plan \<in> set license_plans \<and> coalesce_default n (plan_days plan) = asked_days number days plan \<and>
    0 < asked_days number days plan \<and> asked_days number days plan \<le> 3650 \<and>
    coalesce_default fp ''any'' = asked_binding lower fingerprint \<and> binding_ok (asked_binding lower fingerprint)"
  using assms plan_days_bounds [of plan]
  by (auto simp: licenseGenerateSchema_def generate_call_def Let_def form_defs z_plan_def asked_days_def asked_binding_def binding_ok_def
    bind_eq_Some_conv split: if_splits option.splits)

lemma generated_key:
  assumes "generateLicense v x q w = (r, w')" "ar_status r = 200"
    and "body_or_empty q = payload_of (generate_call lower number plan days fingerprint)"
  shows "obj_get ''token'' (ar_body r) = Some (JStr (lk_token (signLicense v (px_js x 0) (asked_binding lower fingerprint) plan
      (asked_days number days plan)))) \<and> plan \<in> set license_plans \<and> binding_ok (asked_binding lower fingerprint) \<and>
      0 < asked_days number days plan \<and> asked_days number days plan \<le> 3650"
proof -
  define Q where "Q = (\<lambda>(r :: api_reply) (w' :: world). ar_status r = 200 \<longrightarrow>
    obj_get ''token'' (ar_body r) = Some (JStr (lk_token (signLicense v (px_js x 0) (asked_binding lower fingerprint) plan
      (asked_days number days plan)))) \<and> plan \<in> set license_plans \<and> binding_ok (asked_binding lower fingerprint) \<and>
      0 < asked_days number days plan \<and> asked_days number days plan \<le> 3650)"
  have none: "Q (refused e) w" "Q invalid w" for e w
    by (cases e; simp add: Q_def refused_def toHttpError_def invalid_def fault_reply_def reply_def)+
  have "Q r w'"
  proof (rule routed [OF assms(1) [unfolded generateLicense_def assms(3)]])
    fix a w1
    show "wp (case licenseGenerateSchema (payload_of (generate_call lower number plan days fingerprint)) of
           None \<Rightarrow> give invalid
         | Some (plan, days, fp) \<Rightarrow>
             (let n = coalesce_default days (plan_days plan); binding = coalesce_default fp ''any'';
                  k = signLicense v (px_js x 0) binding plan n in
              and_then (audit x 0 a ''license.generated'' binding) (\<lambda>_.
                give (reply 200 (license_reply k (binding \<noteq> ''any'') @ [(''days'', JInt n)])))))
      Q (\<lambda>w2. \<forall>e. Q (refused (Other_access e)) w2) w1"
      by (auto simp: wp none Let_def split: option.split intro!: wp_audit)
        (auto dest!: generate_schema simp: Q_def reply_def license_reply_def obj_get_def)
  qed (rule none)
  with assms(2) show ?thesis by (simp add: Q_def)
qed

text \<open>C22: The key the page of the licences shows after its form was accepted is verified by the platform with the plan, the days and the
  server the form asked for, until its end and no longer.\<close>

theorem generated_key_works:
  assumes laws: "digest_laws (pd_crypto v)"
    and route: "generateLicense v x q w = (r, w')" "ar_status r = 200" "0 \<le> px_js x 0" "px_js x 0 < 10 ^ 17"
    and sent: "body_or_empty q = payload_of (generate_call lower number plan days fingerprint)"
    and answer: "send (generate_call lower number plan days fingerprint) = request_result (web_answer r)"
  shows "\<exists>key token. gn_result (on_generate lower number send plan days fingerprint p) = Some key \<and> field_text ''token'' key = Some token \<and>
    pg_message (on_generate lower number send plan days fingerprint p) = None \<and>
    (let issued = px_js x 0 div 1000; expires = issued + asked_days number days plan * 86400 in
     \<forall>t. verifyLicenseKey v t token =
       (if t < expires * 1000
        then Some \<lparr>lf_binding = asked_binding lower fingerprint, lf_plan = plan, lf_issued = issued, lf_expires = expires\<rparr> else None))"
proof -
  note key = generated_key [OF route(1,2) sent]
  have "px_js x 0 div 1000 < 10 ^ 14" using route(4) by simp
  then have "px_js x 0 div 1000 + asked_days number days plan * 86400 < 10 ^ 15" using key by simp
  then have "verifyLicenseKey v t (lk_token (signLicense v (px_js x 0) (asked_binding lower fingerprint) plan (asked_days number days plan))) =
     (if t < (px_js x 0 div 1000 + asked_days number days plan * 86400) * 1000
      then Some \<lparr>lf_binding = asked_binding lower fingerprint, lf_plan = plan, lf_issued = px_js x 0 div 1000,
        lf_expires = px_js x 0 div 1000 + asked_days number days plan * 86400\<rparr> else None)" for t
    using key route(3) by (intro signed_key_verified [OF laws]) auto
  moreover have "request_result (web_answer r) = Inr (Some (JObj (ar_body r)))" using route(2) by (simp add: result_of_answer)
  ultimately show ?thesis
    using key by (simp add: on_generate_def answer Let_def told_def field_text_def)
qed

lemma generate_runs:
  assumes "writes v x q Billing_manage w = (Inr a, w1)" "org_id_ok (ra_organizationId a)" "\<And>n. px_faults x n = no_faults"
    and "length (aw_email (ra_user a)) \<le> 200" "licenseGenerateSchema (body_or_empty q) = Some (plan, n, fp)"
    and "length (coalesce_default fp ''any'') \<le> 64"
  shows "\<exists>r w'. generateLicense v x q w = (r, w') \<and> ar_status r = 200"
  using assms by (simp add: generateLicense_def handle_with_def and_then_def audit_runs settle_def give_def reply_def Let_def)

end
