(* ===== verification/Web_Facts.thy ===== *)
theory Web_Facts
  imports Web_Client
begin

text \<open>
  The browser against the guard of the API: what its client sends passes the check against forged requests; a resource never
  stays loading for good; a live connection never gives up.
\<close>

section \<open>Cookies\<close>

text \<open>\<open>document.cookie\<close>: the readable cookies of the page. A name has neither \<open>=\<close> nor \<open>;\<close>, a value no \<open>;\<close>.\<close>

definition cookie_pair :: "string \<times> string \<Rightarrow> string" where
  "cookie_pair kv = fst kv @ ''='' @ snd kv"

fun later_pairs :: "(string \<times> string) list \<Rightarrow> string" where
  "later_pairs [] = []"
| "later_pairs (kv # jar) = ''; '' @ cookie_pair kv @ later_pairs jar"

definition document_cookie :: "(string \<times> string) list \<Rightarrow> string" where
  "document_cookie jar = (case jar of [] \<Rightarrow> [] | kv # jar' \<Rightarrow> cookie_pair kv @ later_pairs jar')"

definition jar_ok :: "(string \<times> string) list \<Rightarrow> bool" where
  "jar_ok jar = (\<forall>(n, v) \<in> set jar. CHR ''='' \<notin> set n \<and> CHR '';'' \<notin> set n \<and> CHR '';'' \<notin> set v)"

text \<open>What the browser makes of a call: the headers of the page, and all its cookies, those the page cannot read (\<open>hidden\<close>) too.\<close>

definition sent :: "(string \<times> string) list \<Rightarrow> (string \<times> string) list \<Rightarrow> web_call \<Rightarrow> http_request" where
  "sent hidden jar call = \<lparr>hq_method = wc_method call, hq_cookies = map_of (jar @ hidden), hq_headers = map_of (wc_headers call)\<rparr>"

lemma prefix_pair:
  assumes "CHR ''='' \<notin> set n" "CHR ''='' \<notin> set name"
  shows "prefix (name @ ''='') (n @ CHR ''='' # r) \<longleftrightarrow> n = name"
  using assms
proof (induction name arbitrary: n)
  case Nil
  then show ?case by (cases n) auto
next
  case (Cons c name)
  then show ?case by (cases n) auto
qed

lemma value_at_pair:
  assumes "CHR ''='' \<notin> set n" "CHR ''='' \<notin> set name" "CHR '';'' \<notin> set v" "r = [] \<or> (\<exists>s. r = CHR '';'' # s)"
  shows "value_at (name @ ''='') (n @ CHR ''='' # v @ r) = (if n = name then Some v else None)"
proof -
  have "takeWhile (\<lambda>c. c \<noteq> CHR '';'') (v @ r) = v" using assms(3,4) by (induction v) auto
  then show ?thesis using prefix_pair [OF assms(1,2)] by (simp add: value_at_def)
qed

lemma value_at_separator: "value_at (''; '' @ s) (CHR '';'' # CHR '' '' # t) = value_at s t"
  by (simp add: value_at_def)

lemma later_value_skip: "CHR '';'' \<notin> set s \<Longrightarrow> later_value name (s @ t) = later_value name t"
  by (induction s) (auto simp: value_at_def)

lemma later_pairs_start: "later_pairs jar = [] \<or> (\<exists>s. later_pairs jar = CHR '';'' # s)"
  by (cases jar) auto

lemma later_value_skip_pair:
  assumes "CHR '';'' \<notin> set n" "CHR '';'' \<notin> set v"
  shows "later_value name (CHR '' '' # n @ CHR ''='' # v @ t) = later_value name t"
  using later_value_skip [of "CHR '' '' # n @ CHR ''='' # v" name t] assms by simp

lemma later_value_pairs:
  assumes "jar_ok jar" "CHR ''='' \<notin> set name"
  shows "later_value name (later_pairs jar) = map_of jar name"
  using assms(1)
proof (induction jar)
  case (Cons kv jar)
  obtain n v where kv: "kv = (n, v)" by (cases kv)
  then have ok: "CHR ''='' \<notin> set n" "CHR '';'' \<notin> set n" "CHR '';'' \<notin> set v" "jar_ok jar"
    using Cons.prems by (auto simp: jar_ok_def)
  have "later_pairs (kv # jar) = CHR '';'' # CHR '' '' # n @ CHR ''='' # v @ later_pairs jar" by (simp add: kv cookie_pair_def)
  moreover have "value_at (''; '' @ name @ ''='') (CHR '';'' # CHR '' '' # n @ CHR ''='' # v @ later_pairs jar) = (if n = name then Some v else None)"
    unfolding value_at_separator by (rule value_at_pair) (use ok assms(2) later_pairs_start in auto)
  ultimately show ?case
    using Cons.IH [OF ok(4)] later_value_skip_pair [OF ok(2,3)] by (simp add: kv)
qed simp

lemma first_value:
  assumes "jar_ok jar" "CHR ''='' \<notin> set name"
  shows "(case value_at (name @ ''='') (document_cookie jar) of Some v \<Rightarrow> Some v | None \<Rightarrow> later_value name (document_cookie jar)) = map_of jar name"
proof (cases jar)
  case Nil
  then show ?thesis by (simp add: document_cookie_def value_at_def)
next
  case (Cons kv jar')
  obtain n v where kv: "kv = (n, v)" by (cases kv)
  then have ok: "CHR ''='' \<notin> set n" "CHR '';'' \<notin> set n" "CHR '';'' \<notin> set v" "jar_ok jar'"
    using assms(1) Cons by (auto simp: jar_ok_def)
  have whole: "document_cookie jar = n @ CHR ''='' # v @ later_pairs jar'" by (simp add: Cons kv document_cookie_def cookie_pair_def)
  have "value_at (name @ ''='') (n @ CHR ''='' # v @ later_pairs jar') = (if n = name then Some v else None)"
    by (rule value_at_pair) (use ok assms(2) later_pairs_start in auto)
  moreover have "later_value name (n @ CHR ''='' # v @ later_pairs jar') = later_value name (later_pairs jar')"
    using later_value_skip [of "n @ CHR ''='' # v" name] ok by simp
  ultimately show ?thesis using later_value_pairs [OF ok(4) assms(2)] unfolding whole by (simp add: Cons kv)
qed

lemma readCookie_jar:
  "jar_ok jar \<Longrightarrow> CHR ''='' \<notin> set name \<Longrightarrow>
   readCookie decode (document_cookie jar) name =
     (case map_of jar name of None \<Rightarrow> Some None | Some v \<Rightarrow> if v = [] then Some None else map_option Some (decode v))"
  by (simp only: readCookie_def first_value not_False_eq_True)

text \<open>C20: In a page that holds the token its session was opened with, every call that changes state passes the check against forged
  requests; the same call without the header, which is what a page of another origin can make a browser send, is
  refused.\<close>

theorem interface_writes_pass_csrf:
  assumes "outgoing decode (document_cookie jar) verb path payload = Some call" and jar: "jar_ok jar"
    and token: "map_of jar csrf_cookie = Some (fst (issueCsrfToken production random))" "length random = 32"
    and plain: "\<And>s. CHR ''%'' \<notin> set s \<Longrightarrow> decode s = Some s"
  shows "verifyCsrf c (sent hidden jar call) = Inr () \<and>
    (verb \<notin> set safe_methods \<longrightarrow> verifyCsrf c (sent hidden jar (call\<lparr>wc_headers := []\<rparr>)) = Inl Csrf_failed)"
proof -
  let ?t = "to_base64url random"
  have t: "fst (issueCsrfToken production random) = ?t" by (simp add: issueCsrfToken_def Let_def)
  have len: "16 \<le> length ?t" using base64url_length [of random] token(2) by simp
  have "CHR ''%'' \<notin> set ?t" using base64url_set [of random] by (auto simp: base64url_chars_def)
  then have "decode ?t = Some ?t" by (rule plain)
  moreover have "CHR ''='' \<notin> set csrf_cookie" by (simp add: csrf_cookie_def)
  ultimately have read: "readCookie decode (document_cookie jar) csrf_cookie = Some (Some ?t)"
    using readCookie_jar [OF jar, of csrf_cookie decode] token(1) len by (auto simp: t)
  have "wc_method call = verb \<and> (verb \<notin> set safe_methods \<longrightarrow> map_of (wc_headers call) csrf_header = Some ?t)"
    using assms(1) read by (auto simp: outgoing_def Let_def safe_methods_def csrf_header_def csrf_cookie_def split: if_splits option.splits)
  then show ?thesis using token(1) t len
    by (auto simp: verifyCsrf_def sent_def map_add_Some_iff)
qed

section \<open>Resources\<close>

inductive hook_run :: "hook \<Rightarrow> bool" where
  "hook_run (fresh_hook p)"
| "hook_run h \<Longrightarrow> hook_step e h = Some h' \<Longrightarrow> hook_run h'"

definition flight_ok :: "flight \<Rightarrow> bool" where
  "flight_ok f = (fl_attempt f < load_attempts \<and> (fl_waits f \<longrightarrow> Suc (fl_attempt f) < load_attempts))"

definition hook_ok :: "hook \<Rightarrow> bool" where
  "hook_ok h = ((hk_loading h \<longrightarrow> hk_left h \<or> hk_flights h \<noteq> []) \<and> (\<forall>f \<in> set (hk_flights h). flight_ok f))"

lemma set_without: "set (without n xs) \<subseteq> set xs"
  unfolding without_def by (auto dest: in_set_takeD in_set_dropD)

lemma start_load_ok: "(\<forall>f \<in> set (hk_flights h). flight_ok f) \<Longrightarrow> (hk_path h = None \<Longrightarrow> hook_ok h) \<Longrightarrow> hook_ok (start_load h)"
  by (auto simp: start_load_def hook_ok_def flight_ok_def load_attempts_def split: option.splits)

lemma answered_ok:
  assumes "hook_ok h" "n < length (hk_flights h)" "\<not> fl_waits (hk_flights h ! n)"
  shows "hook_ok (answered n r h)"
proof -
  have "flight_ok (hk_flights h ! n)" using assms nth_mem by (auto simp: hook_ok_def)
  then have "fl_attempt (hk_flights h ! n) \<noteq> 5 \<Longrightarrow> fl_attempt (hk_flights h ! n) < 5" by (simp add: flight_ok_def load_attempts_def)
  then show ?thesis using assms set_without [of n "hk_flights h"]
    by (auto simp: answered_def hook_ok_def flight_ok_def load_attempts_def split: sum.split dest!: subsetD [OF set_update_subset_insert])
qed

lemma hook_step_ok:
  assumes "hook_ok h" "hook_step e h = Some h'"
  shows "hook_ok h'"
proof (cases e)
  case (Waited n)
  then have n: "n < length (hk_flights h)" "fl_waits (hk_flights h ! n)" using assms(2) by (auto split: if_splits)
  then have "flight_ok (hk_flights h ! n)" using assms(1) nth_mem by (auto simp: hook_ok_def)
  then show ?thesis using assms n Waited
    by (auto simp: hook_ok_def flight_ok_def dest!: subsetD [OF set_update_subset_insert])
next
  case (Rendered p)
  then show ?thesis using assms start_load_ok [of "h\<lparr>hk_path := p\<rparr>"]
    by (auto simp: hook_ok_def split: if_splits)
next
  case Reloaded
  then show ?thesis using assms start_load_ok [of h] by (auto simp: hook_ok_def)
next
  case (Answered n r)
  then show ?thesis using assms answered_ok by (auto split: if_splits)
qed

lemma hook_run_ok: "hook_run h \<Longrightarrow> hook_ok h"
proof (induction rule: hook_run.induct)
  case (1 p)
  then show ?case unfolding fresh_hook_def by (rule start_load_ok) (auto simp: hook_ok_def)
qed (rule hook_step_ok)

text \<open>What the loads on their way can still do: two events for each attempt that is left.\<close>

definition flight_work :: "flight \<Rightarrow> nat" where
  "flight_work f = 2 * (load_attempts - fl_attempt f) - (if fl_waits f then 1 else 0)"

definition hook_work :: "hook \<Rightarrow> nat" where
  "hook_work h = sum_list (map flight_work (hk_flights h))"

lemma work_without: "n < length fs \<Longrightarrow> sum_list (map flight_work (without n fs)) + flight_work (fs ! n) = sum_list (map flight_work fs)"
  by (subst (2) id_take_nth_drop [of n fs]) (simp_all add: without_def)

lemma work_updated: "n < length fs \<Longrightarrow> flight_work f < flight_work (fs ! n) \<Longrightarrow>
    sum_list (map flight_work (fs[n := f])) < sum_list (map flight_work fs)"
  by (subst (2) id_take_nth_drop [of n fs]) (simp_all add: upd_conv_take_nth_drop)

text \<open>A resource never stays loading for good: a load makes six requests at most, the events it waits for come to an end, and
  when no load is on its way the page shows data or an error, unless it left for the login.\<close>

theorem resource_settles:
  assumes "hook_run h"
  shows "(hk_flights h = [] \<and> \<not> hk_left h \<longrightarrow> \<not> hk_loading h) \<and> (\<forall>f \<in> set (hk_flights h). fl_attempt f < 6) \<and>
    (\<forall>n r h'. hook_step (Answered n r) h = Some h' \<or> hook_step (Waited n) h = Some h' \<longrightarrow> hook_work h' < hook_work h)"
proof (intro conjI allI impI)
  have ok: "hook_ok h" using assms by (rule hook_run_ok)
  then show "\<forall>f \<in> set (hk_flights h). fl_attempt f < 6" by (auto simp: hook_ok_def flight_ok_def load_attempts_def)
  show "\<not> hk_loading h" if "hk_flights h = [] \<and> \<not> hk_left h" using ok that by (auto simp: hook_ok_def)
  fix n r h'
  assume step: "hook_step (Answered n r) h = Some h' \<or> hook_step (Waited n) h = Some h'"
  then have n: "n < length (hk_flights h)" by (auto split: if_splits)
  then have f: "flight_ok (hk_flights h ! n)" using ok nth_mem by (auto simp: hook_ok_def)
  then have pos: "0 < flight_work (hk_flights h ! n)" by (auto simp: flight_ok_def flight_work_def load_attempts_def)
  show "hook_work h' < hook_work h" using step
  proof
    assume "hook_step (Answered n r) h = Some h'"
    then have "h' = answered n r h" "\<not> fl_waits (hk_flights h ! n)" by (auto split: if_splits)
    with n f pos work_without [OF n] show ?thesis
      by (auto simp: answered_def hook_work_def flight_work_def flight_ok_def load_attempts_def split: sum.split intro!: work_updated)
  next
    assume "hook_step (Waited n) h = Some h'"
    with n f show ?thesis
      by (auto simp: hook_work_def flight_work_def flight_ok_def load_attempts_def split: if_splits intro!: work_updated)
  qed
qed

text \<open>A slow answer replaces the data of the path that was chosen after it: no load is called off when the path changes.\<close>

theorem stale_answer_shown:
  "\<exists>h1 h2 h3. hook_step (Rendered (Some ''/b'')) (fresh_hook (Some ''/a'')) = Some h1 \<and>
     hook_step (Answered 1 (Inr (Some (JStr ''of b'')))) h1 = Some h2 \<and>
     hook_step (Answered 0 (Inr (Some (JStr ''of a'')))) h2 = Some h3 \<and>
     hk_path h3 = Some ''/b'' \<and> hk_data h3 = Some (JStr ''of a'') \<and> \<not> hk_loading h3 \<and> hk_flights h3 = []"
  by (simp add: fresh_hook_def start_load_def answered_def without_def)

section \<open>The live connection\<close>

lemma backoff_bounds:
  assumes "0 \<le> r" "r < 1"
  shows "500 \<le> backoff n r \<and> backoff n r < max_backoff_ms"
proof -
  define b where "b = min (1000 * 2 ^ (n - 1)) max_backoff_ms"
  have "(1 :: rat) \<le> 2 ^ (n - 1)" by simp
  then have b: "1000 \<le> b" "b \<le> max_backoff_ms" by (auto simp: b_def max_backoff_ms_def)
  have "r * (b / 2) < 1 * (b / 2)" using assms(2) b(1) by (intro mult_strict_right_mono) auto
  moreover have "0 \<le> r * (b / 2)" using assms(1) b(1) by simp
  ultimately show ?thesis using b unfolding backoff_def b_def [symmetric] Let_def by linarith
qed

definition link_ok :: "link \<Rightarrow> bool" where
  "link_ok l =
     ((if ln_closed l then ln_timer l = None \<and> ln_socket l \<in> {None, Some Leaving}
       else (ln_socket l = None) = (ln_timer l \<noteq> None)) \<and>
      (case ln_timer l of None \<Rightarrow> True | Some d \<Rightarrow> 500 \<le> d \<and> d < max_backoff_ms) \<and>
      (ln_connected l \<longrightarrow> ln_socket l \<in> {Some Open_socket, Some Leaving}))"

lemma link_step_ok: "link_ok l \<Longrightarrow> random_ok e \<Longrightarrow> link_step e l = Some l' \<Longrightarrow> link_ok l'"
  by (cases e) (auto simp: link_ok_def backoff_bounds split: if_splits option.splits)

lemma live_ok: "live l \<Longrightarrow> link_ok l"
proof (induction rule: live.induct)
  case 1
  then show ?case by (simp add: link_ok_def fresh_link_def)
qed (rule link_step_ok)

text \<open>While the page is there its live connection never gives up: it has a socket, or a timer below thirty seconds to open one,
  and never both; it shows itself connected only while a socket was opened. Once the page is gone, no timer is left and
  its handler is called no more.\<close>

theorem live_connection_never_gives_up:
  assumes "live l"
  shows "(\<not> ln_closed l \<longrightarrow> (case ln_timer l of None \<Rightarrow> ln_socket l \<noteq> None | Some d \<Rightarrow> ln_socket l = None \<and> 500 \<le> d \<and> d < 30000)) \<and>
    (ln_connected l \<longrightarrow> ln_socket l \<in> {Some Open_socket, Some Leaving}) \<and>
    (ln_closed l \<longrightarrow> ln_timer l = None \<and> (\<forall>e l'. link_step e l = Some l' \<longrightarrow> ln_closed l' \<and> ln_heard l' = ln_heard l))"
proof -
  have ok: "link_ok l" using assms by (rule live_ok)
  have "ln_closed l' \<and> ln_heard l' = ln_heard l" if "ln_closed l" "link_step e l = Some l'" for e l'
    using ok that by (cases e) (auto simp: link_ok_def split: if_splits)
  then show ?thesis using ok by (auto simp: link_ok_def max_backoff_ms_def split: option.splits)
qed

end
