(* ===== verification/Web_Witnesses.thy ===== *)
theory Web_Witnesses
  imports Settings_Witnesses Web_Handler_Facts Web_Facts
begin

text \<open>
  Applications of the properties of the browser: a page with the token of its session, a connection that was closed, the assistant
  over a server that connected, the editor that switches a protection off, the forms as they are first filled in.
\<close>

section \<open>Client\<close>

definition plain_decode :: "string \<Rightarrow> string option" where
  "plain_decode s = (if CHR ''%'' \<in> set s then None else Some s)"

definition sample_jar :: "(string \<times> string) list" where
  "sample_jar = [(''theme'', ''dark''), (csrf_cookie, fst (issueCsrfToken True (replicate 32 8)))]"

theorem interface_writes_pass_csrf_witness:
  "\<exists>call. outgoing plain_decode (document_cookie sample_jar) ''POST'' ''/api/bans'' None = Some call \<and>
     verifyCsrf sample_crypto (sent [] sample_jar call) = Inr () \<and>
     verifyCsrf sample_crypto (sent [] sample_jar (call\<lparr>wc_headers := []\<rparr>)) = Inl Csrf_failed"
proof -
  have "outgoing plain_decode (document_cookie sample_jar) ''POST'' ''/api/bans'' None \<noteq> None" by code_simp
  then obtain call where call: "outgoing plain_decode (document_cookie sample_jar) ''POST'' ''/api/bans'' None = Some call" by auto
  have jar: "jar_ok sample_jar" by code_simp
  have token: "map_of sample_jar csrf_cookie = Some (fst (issueCsrfToken True (replicate 32 8)))"
    by (simp add: sample_jar_def csrf_cookie_def)
  from interface_writes_pass_csrf [OF call jar token, of sample_crypto "[]"] call show ?thesis
    by (auto simp: plain_decode_def safe_methods_def)
qed

theorem resource_settles_witness: "\<forall>f \<in> set (hk_flights (fresh_hook (Some ''/api/bans''))). fl_attempt f < 6"
  using resource_settles [OF hook_run.intros(1) [of "Some ''/api/bans''"]] by simp

theorem live_connection_never_gives_up_witness:
  "\<exists>l. link_step (Socket_closed 0) fresh_link = Some l \<and> \<not> ln_closed l \<and> ln_timer l \<noteq> None \<and> ln_socket l = None"
proof -
  obtain l where l: "link_step (Socket_closed 0) fresh_link = Some l" "\<not> ln_closed l" "ln_timer l \<noteq> None"
    by (simp add: fresh_link_def)
  have "live l" using live.intros(2) [OF live.intros(1) _ l(1)] by simp
  from live_connection_never_gives_up [OF this] l show ?thesis by (auto split: option.splits)
qed

section \<open>Assistant\<close>

definition connected_world :: world where
  "connected_world = \<lparr>wd_db = api_db\<lparr>servers := [sample_server\<lparr>sv_connected_at := Some 2000\<rparr>]\<rparr>, wd_events = []\<rparr>"

definition list_reply :: "api_reply \<times> world" where
  "list_reply = listServers sample_deps (sample_env (\<lambda>n. [])) (sample_call [] JNull) connected_world"

definition wizard_events :: "wizard_event list" where
  "wizard_events =
     [Created (Inr (Some (JObj [(''server'', JObj [(''id'', JStr sample_server_id)])]))), Generated (Inr (Some (JObj []))), Installed,
      Poll_answered (request_result (web_answer (fst list_reply)))]"

fun wizard_fold :: "wizard_event list \<Rightarrow> wizard \<Rightarrow> wizard option" where
  "wizard_fold [] z = Some z"
| "wizard_fold (e # es) z = Option.bind (wizard_step e z) (wizard_fold es)"

lemma wizard_fold_run: "wizard_run es z \<Longrightarrow> wizard_fold es' z = Some z' \<Longrightarrow> wizard_run (es @ es') z'"
proof (induction es' arbitrary: es z)
  case (Cons e es')
  then obtain z1 where "wizard_step e z = Some z1" "wizard_fold es' z1 = Some z'" by auto
  with Cons.IH [OF wizard_run.intros(2) [OF Cons.prems(1)]] show ?case by force
qed simp

theorem assistant_waits_for_connection_witness:
  "\<exists>z. wizard_run wizard_events z \<and> wz_step z = 4 \<and> wz_server_id z = Some sample_server_id"
proof -
  have "map_option (\<lambda>z. (wz_step z, wz_server_id z)) (wizard_fold wizard_events fresh_wizard) = Some (4, Some sample_server_id)" by code_simp
  then obtain z where z: "wizard_fold wizard_events fresh_wizard = Some z" "wz_step z = 4" "wz_server_id z = Some sample_server_id" by auto
  from wizard_fold_run [OF wizard_run.intros(1) z(1)] have run: "wizard_run wizard_events z" by simp
  have "\<exists>v x q w rep w'. listServers v x q w = (rep, w') \<and> r = request_result (web_answer rep)" if "Poll_answered r \<in> set wizard_events" for r
  proof -
    have "r = request_result (web_answer (fst list_reply))" using that by (simp add: wizard_events_def)
    moreover have "listServers sample_deps (sample_env (\<lambda>n. [])) (sample_call [] JNull) connected_world = (fst list_reply, snd list_reply)"
      by (simp add: list_reply_def)
    ultimately show ?thesis by blast
  qed
  from assistant_waits_for_connection [OF run _ this] z run show ?thesis by auto
qed

section \<open>Editor\<close>

definition opened_editor :: editor where
  "opened_editor = \<lparr>ed_server = Some sample_server_id, ed_hook = fresh_hook (Some (settings_path sample_server_id)), ed_cats = [],
     ed_dirty = False, ed_saving = False, ed_saved = False\<rparr>"

definition noclip_off :: "(string \<times> string \<times> item_patch) list" where
  "noclip_off = [(''deplacement'', ''mv_noclip'', \<lparr>ip_enabled = Some False, ip_mode = None\<rparr>)]"

definition shown_after :: "shown_item list" where
  "shown_after = concat (map (\<lambda>c. map (\<lambda>it. edited noclip_off (pc_id c) (shown_setting (saved_settings sample_org sample_server_id api_db) it))
     (pc_items c)) protection_catalog)"

lemma shown_after_modes: "i \<in> set shown_after \<Longrightarrow> si_mode i = ''watch'' \<or> si_mode i = ''block''"
proof -
  have none: "saved_settings sample_org sample_server_id api_db = []" by (simp add: saved_settings_def api_db_def account_db_def empty_db_def)
  have m: "mode_name m = ''watch'' \<or> mode_name m = ''block''" for m by (cases m) (simp_all add: mode_name_def)
  have "si_mode (edited noclip_off c s) = si_mode s" for c s
    by (simp add: noclip_off_def edited_simps patched_item_def coalesce_default_def)
  then show "i \<in> set shown_after \<Longrightarrow> si_mode i = ''watch'' \<or> si_mode i = ''block''"
    using m by (force simp: shown_after_def none shown_setting_def effective_setting_def)
qed

lemma shown_after_length: "length shown_after \<le> 500"
proof -
  have "length shown_after = length catalog_items" by (simp add: shown_after_def catalog_items_def length_concat comp_def)
  then show ?thesis using catalog_length by simp
qed

theorem editor_reaches_agent_witness:
  "\<exists>fs. obj_get ''protections'' fs = Some (JArr (map item_json shown_after)) \<and>
     (\<exists>w. agent_config no_faults sample_agent_context w = (Inr (Some (Config_ok fs)), w))"
proof -
  let ?x = "sample_env (\<lambda>n. [])" and ?get = "sample_call sample_server_id JNull"
  let ?put = "sample_call sample_server_id (JObj [(''items'', JArr (map item_json shown_after))])"
  let ?g = "reads sample_deps ?x ?get Detection_read api_world" and ?h = "writes sample_deps ?x ?put Configuration_write"
  have x: "px_faults ?x n = no_faults" for n by (simp add: sample_env_def)
  have "(case ?g of (Inl _, _) \<Rightarrow> False | (Inr a, w) \<Rightarrow> ra_organizationId a = sample_org \<and> servers (wd_db w) = [sample_server])" by code_simp
  then obtain a0 w0 where g: "?g = (Inr a0, w0)" "ra_organizationId a0 = sample_org" "servers (wd_db w0) = [sample_server]"
    by (auto split: prod.splits sum.splits)
  have live: "exists_row (live_server sample_org sample_server_id) [sample_server]" by code_simp
  obtain r0 where get: "getProtectionSettings sample_deps ?x ?get api_world = (r0, w0)" "ar_status r0 = 200"
    using get_settings_runs [OF g(1) _ x] g(2,3) live sample_org_ok by (auto simp: sample_call_def)
  let ?saved = "saved_settings sample_org sample_server_id api_db"
  have cats: "categories_of (JObj (ar_body r0)) = Some (map (\<lambda>c. (pc_id c, map (shown_setting ?saved) (pc_items c))) protection_catalog)"
    using categories_shown [OF get g(1)] by (simp add: g(2) sample_call_def api_world_def)
  then obtain p1 where page: "editor_answered 0 (request_result (web_answer r0)) opened_editor = Some p1"
    and p1: "ed_cats p1 = map (\<lambda>c. (pc_id c, map (shown_setting ?saved) (pc_items c))) protection_catalog"
      "ed_server p1 = Some sample_server_id" "\<not> ed_saving p1"
    using get(2) by (auto simp: editor_answered_def result_of_answer opened_editor_def fresh_hook_def start_load_def)
  have path: "editor_path (Some sample_server_id) = Some (settings_path sample_server_id)"
    by (simp add: editor_path_def sample_server_id_def sample_id_def)
  have save: "save_call True (fold (mutate_item True) noclip_off p1) =
      Some (''PUT'', settings_path sample_server_id, Some (pq_body ?put))"
    using p1 mutated_flags(3) [of noclip_off p1]
    by (simp add: save_call_def path sample_call_def shown_after_def comp_def mutated_cats mutated_flags noclip_off_def [THEN arg_cong, of "\<lambda>x. x = []"])
  have same: "?h api_world = writes sample_deps ?x ?get Configuration_write api_world" by (simp add: writes_def sample_call_def)
  have hw: "(case ?h api_world of (Inl _, _) \<Rightarrow> False | (Inr a, w) \<Rightarrow> ra_organizationId a = sample_org \<and> servers (wd_db w) = [sample_server] \<and>
      length (aw_email (ra_user a)) \<le> 200)" unfolding same by code_simp
  then obtain a w1 where h: "?h api_world = (Inr a, w1)" "ra_organizationId a = sample_org" "servers (wd_db w1) = [sample_server]"
      "length (aw_email (ra_user a)) \<le> 200"
    by (auto split: prod.splits sum.splits)
  have schema: "protectionSettingsSchema (pq_body ?put) = Some (map sent_item shown_after)"
    using items_pass [OF shown_after_modes shown_after_length] by (simp add: sample_call_def)
  have "length (pq_id ?put) \<le> 64" by (simp add: sample_call_def sample_server_id_def sample_id_def)
  then obtain r w' where put: "putProtectionSettings sample_deps ?x ?put api_world = (r, w')" "ar_status r = 200"
    and w': "servers (wd_db w') = sql_update (\<lambda>s. sv_organization_id s = sample_org \<and> sv_id s = sample_server_id)
      (\<lambda>s. s\<lparr>sv_config_version := sv_config_version s + 1, sv_updated_at := 3000\<rparr>) [sample_server]"
    using put_settings_runs [OF h(1) _ x h(4) _ schema] h(2,3) live sample_org_ok by (auto simp: sample_call_def sample_env_def)
  have "\<exists>fs. config_tx sample_org sample_server_id (wd_db w') = (Inr (Some (Config_ok fs)), wd_db w')"
    by (simp add: config_tx_def Let_def w' sql_update_def first_row_def live_server_def sample_server_def remoteConfigSchema_def
      z_object_def z_optional_def z_bounded_def obj_get_def)
  then obtain fs where "config_tx sample_org sample_server_id (wd_db w') = (Inr (Some (Config_ok fs)), wd_db w')" ..
  from world_tx_ok [where fn = "config_tx sample_org sample_server_id" and w = w', OF sample_org_ok this]
  have c: "agent_config no_faults sample_agent_context w' = (Inr (Some (Config_ok fs)), w')"
    by (simp add: agent_config_def sample_agent_context_def sample_current_def)
  have ctx: "rc_organizationId (cx_credential sample_agent_context) = ra_organizationId a"
    "rc_serverId (cx_credential sample_agent_context) = pq_id ?put"
    by (simp_all add: sample_agent_context_def sample_current_def h(2) sample_call_def)
  from editor_reaches_agent [OF get g(1) page save put h(1) ctx c] c show ?thesis
    by (auto simp: g(2) shown_after_def map_concat comp_def sample_call_def api_world_def)
qed

section \<open>Forms\<close>

definition first_form :: register_form where
  "first_form = \<lparr>rf_organization_name = ''City'', rf_display_name = ''Ann'', rf_email = ''ann@z.io'', rf_password = ''0123456789abcdef''\<rparr>"


section \<open>Buttons\<close>

text \<open>The account of the samples as a reader.\<close>

definition reader_world :: world where
  "reader_world = \<lparr>wd_db = api_db\<lparr>memberships := map (\<lambda>m. m\<lparr>me_role := VIEWER\<rparr>) (memberships api_db)\<rparr>, wd_events = []\<rparr>"


section \<open>Licences\<close>

definition sale_call :: api_request where
  "sale_call = sample_call [] (payload_of (generate_call (\<lambda>s. s) (\<lambda>s. None) ''pro'' [] []))"

theorem generated_key_works_witness:
  "\<exists>key token. gn_result (on_generate (\<lambda>s. s) (\<lambda>s. None) (\<lambda>c. request_result (web_answer (fst (generateLicense sample_deps
       (sample_env (\<lambda>n. [])) sale_call api_world)))) ''pro'' [] [] \<lparr>pg_message = None, pg_reloaded = [], gn_result = None, gn_copied = False\<rparr>) =
     Some key \<and> field_text ''token'' key = Some token \<and> verifyLicenseKey sample_deps 2592002999 token \<noteq> None \<and>
     verifyLicenseKey sample_deps 2592003000 token = None"
proof -
  let ?x = "sample_env (\<lambda>n. [])"
  have same: "writes sample_deps ?x sale_call p api_world = writes sample_deps ?x (sample_call [] JNull) p api_world" for p
    by (simp add: writes_def sample_call_def sale_call_def)
  have "(case writes sample_deps ?x (sample_call [] JNull) Billing_manage api_world of (Inl _, _) \<Rightarrow> False
      | (Inr a, w) \<Rightarrow> ra_organizationId a = sample_org \<and> length (aw_email (ra_user a)) \<le> 200)" by code_simp
  then obtain a w1 where g: "writes sample_deps ?x sale_call Billing_manage api_world = (Inr a, w1)"
      "ra_organizationId a = sample_org" "length (aw_email (ra_user a)) \<le> 200"
    unfolding same by (auto split: prod.splits sum.splits)
  have js: "js_trim [] = []" by code_simp
  have body: "body_or_empty sale_call = payload_of (generate_call (\<lambda>s. s) (\<lambda>s. None) ''pro'' [] [])"
    by (simp add: body_or_empty_def sale_call_def sample_call_def payload_of_def generate_call_def coalesce_default_def Let_def)
  have schema: "licenseGenerateSchema (body_or_empty sale_call) = Some (''pro'', None, None)"
    unfolding body by (simp add: licenseGenerateSchema_def generate_call_def Let_def form_defs z_plan_def license_plans_def js)
  obtain r w' where run: "generateLicense sample_deps ?x sale_call api_world = (r, w')" "ar_status r = 200"
    using generate_runs [OF g(1) _ _ g(3) schema] g(2) sample_org_ok by (auto simp: sample_env_def coalesce_default_def)
  have laws: "digest_laws (pd_crypto sample_deps)" using sample_crypto_laws(2) by (simp add: sample_deps_def)
  have now: "px_js ?x 0 = 3000" by (simp add: sample_env_def)
  have days: "asked_days (\<lambda>s. None) [] ''pro'' = 30" by (simp add: asked_days_def plan_days_def coalesce_default_def)
  obtain key token where k: "gn_result (on_generate (\<lambda>s. s) (\<lambda>s. None) (\<lambda>c. request_result (web_answer r)) ''pro'' [] []
      \<lparr>pg_message = None, pg_reloaded = [], gn_result = None, gn_copied = False\<rparr>) = Some key" "field_text ''token'' key = Some token"
    and verdict: "\<And>t. verifyLicenseKey sample_deps t token = (if t < 2592003000
      then Some \<lparr>lf_binding = asked_binding (\<lambda>s. s) [], lf_plan = ''pro'', lf_issued = 3, lf_expires = 3 + 2592000\<rparr> else None)"
    using generated_key_works [OF laws run _ _ body, of "\<lambda>c. request_result (web_answer r)"
      "\<lparr>pg_message = None, pg_reloaded = [], gn_result = None, gn_copied = False\<rparr>"] by (auto simp: now days Let_def)
  have "fst (generateLicense sample_deps ?x sale_call api_world) = r" by (simp add: run(1))
  with k show ?thesis by (intro exI [of _ key] exI [of _ token]) (simp add: verdict)
qed

end
