(* ===== verification/Web_Views.thy ===== *)
theory Web_Views
  imports Prelude "HOL-Library.List_Lexorder" "HOL-Library.Char_ord" "HOL-Library.Multiset" "HOL-Library.Sublist"
begin

text \<open>
  \<open>apps/web\<close>: what the pages compute from the answers of the API before they show it: durations and ages, the band of the fleet, the
  alerts grouped by day, the steps of the guided start, the counts of the console. Labels and colours of states are
  left out.
\<close>

section \<open>Durations\<close>

abbreviation em_dash :: string where "em_dash \<equiv> [CHR 0xE2, CHR 0x80, CHR 0x94]"

text \<open>\<open>Math.round\<close>\<close>

definition js_round :: "rat \<Rightarrow> int" where "js_round x = \<lfloor>x + 1 / 2\<rfloor>"

text \<open>An age from two instants in milliseconds; \<open>None\<close>: no value.\<close>

(* src apps/web/lib/format.ts:19-31 formatAge *)
definition formatAge :: "int \<Rightarrow> int option \<Rightarrow> string" where
  "formatAge now value =
     (case value of
        None \<Rightarrow> ''jamais''
      | Some t \<Rightarrow>
          let seconds = max 0 (js_round (of_int (now - t) / 1000)) in
          if seconds < 60 then ''il y a '' @ string_of_int seconds @ '' s''
          else let minutes = js_round (of_int seconds / 60) in
            if minutes < 60 then ''il y a '' @ string_of_int minutes @ '' min''
            else let hours = js_round (of_int minutes / 60) in
              if hours < 48 then ''il y a '' @ string_of_int hours @ '' h''
              else ''il y a '' @ string_of_int (js_round (of_int hours / 24)) @ '' j'')"

(* src apps/web/lib/format.ts:33-41 formatDuration *)
definition formatDuration :: "int option \<Rightarrow> string" where
  "formatDuration seconds =
     (case seconds of
        None \<Rightarrow> em_dash
      | Some s \<Rightarrow>
          if s < 60 then string_of_int s @ '' s''
          else let minutes = s div 60 in
            if minutes < 60 then string_of_int minutes @ '' min''
            else let hours = minutes div 60 in
              if hours < 48 then string_of_int hours @ '' h '' @ string_of_int (minutes mod 60) @ '' min''
              else string_of_int (hours div 24) @ '' j '' @ string_of_int (hours mod 24) @ '' h'')"

(* src apps/web/lib/format.ts:48-50 formatPlayers *)
definition formatPlayers :: "int option \<Rightarrow> string" where
  "formatPlayers shown = (case shown of None \<Rightarrow> ''non mesur'' @ [CHR 0xC3, CHR 0xA9] | Some n \<Rightarrow> string_of_int n)"

text \<open>The hours and minutes, or days and hours, of a duration lose less than a unit of the last one.\<close>

lemma duration_parts:
  fixes s :: int
  assumes "0 \<le> s"
  shows "s - 60 * (60 * (s div 60 div 60) + s div 60 mod 60) \<in> {0..<60}"
    "s - 3600 * (24 * (s div 60 div 60 div 24) + s div 60 div 60 mod 24) \<in> {0..<3600}"
proof -
  have h: "s div 60 div 60 = s div 3600" by (simp add: zdiv_zmult2_eq [symmetric])
  have "60 * (s div 60 div 60) + s div 60 mod 60 = s div 60" by (rule mult_div_mod_eq)
  then show "s - 60 * (60 * (s div 60 div 60) + s div 60 mod 60) \<in> {0..<60}" by (auto simp: minus_mult_div_eq_mod)
  have "24 * (s div 60 div 60 div 24) + s div 60 div 60 mod 24 = s div 3600" unfolding h by (rule mult_div_mod_eq)
  then show "s - 3600 * (24 * (s div 60 div 60 div 24) + s div 60 div 60 mod 24) \<in> {0..<3600}" by (auto simp: minus_mult_div_eq_mod)
qed

section \<open>The band of the fleet\<close>

text \<open>The part of each server in the width, before the floor.\<close>

(* src apps/web/components/FleetBand.tsx:35-42 FleetBand/share *)
definition fleet_shares :: "int option list \<Rightarrow> rat list" where
  "fleet_shares players =
     (let ps = map (\<lambda>p. case p of None \<Rightarrow> 0 | Some n \<Rightarrow> n) players; total = sum_list ps in
      map (\<lambda>n. if 0 < total then of_int n / of_int total else 1 / of_nat (length players)) ps)"

(* src apps/web/components/FleetBand.tsx:49-51 FleetBand/flexGrow *)
definition fleet_widths :: "int option list \<Rightarrow> rat list" where
  "fleet_widths players = map (\<lambda>share. max (share * of_nat (length players)) (2 / 5)) (fleet_shares players)"

lemma sum_list_divide: "sum_list (map (\<lambda>n. of_int n / c) ns) = (of_int (sum_list ns) / c :: rat)"
  by (induction ns) (simp_all add: add_divide_distrib)

text \<open>The parts make up the whole band, and no server disappears from it.\<close>

theorem fleet_band_whole:
  assumes "players \<noteq> []"
  shows "sum_list (fleet_shares players) = 1 \<and> (\<forall>x \<in> set (fleet_widths players). 2 / 5 \<le> x)"
proof -
  let ?ps = "map (\<lambda>p. case p of None \<Rightarrow> 0 | Some n \<Rightarrow> n) players"
  have "sum_list (fleet_shares players) = 1"
  proof (cases "0 < sum_list ?ps")
    case True
    then show ?thesis by (simp add: fleet_shares_def Let_def sum_list_divide del: map_map)
  next
    case False
    then show ?thesis using assms by (simp add: fleet_shares_def Let_def sum_list_triv comp_def)
  qed
  then show ?thesis by (auto simp: fleet_widths_def)
qed

section \<open>Alerts by day\<close>

type_synonym point = "string \<times> string \<times> int"

text \<open>A map of JavaScript as the list of its entries, in the order of their first insertion.\<close>

fun add_to :: "string \<Rightarrow> int \<Rightarrow> (string \<times> int) list \<Rightarrow> (string \<times> int) list" where
  "add_to k n [] = [(k, n)]"
| "add_to k n ((k', m) # kvs) = (if k' = k then (k', m + n) # kvs else (k', m) # add_to k n kvs)"

fun put_point :: "point \<Rightarrow> (string \<times> (string \<times> int) list) list \<Rightarrow> (string \<times> (string \<times> int) list) list" where
  "put_point (day, severity, n) [] = [(take 10 day, [(severity, n)])]"
| "put_point (day, severity, n) ((d, bucket) # days) =
     (if d = take 10 day then (d, add_to severity n bucket) # days else (d, bucket) # put_point (day, severity, n) days)"

definition bucket_total :: "(string \<times> int) list \<Rightarrow> int" where
  "bucket_total bucket = sum_list (map snd bucket)"

(* src apps/web/app/(app)/analytics/page.tsx:56-64 byDay *)
definition by_day :: "point list \<Rightarrow> (string \<times> (string \<times> int) list) list" where
  "by_day points = sort_key fst (fold put_point points [])"

(* src apps/web/app/(app)/analytics/page.tsx:65-72 peak, total *)
definition peak_and_total :: "(string \<times> (string \<times> int) list) list \<Rightarrow> int \<times> int" where
  "peak_and_total days =
     (foldl max 1 (map (\<lambda>d. bucket_total (snd d)) days), sum_list (map (\<lambda>d. bucket_total (snd d)) days))"

lemma bucket_total_add: "bucket_total (add_to k n b) = bucket_total b + n"
  by (induction k n b rule: add_to.induct) (simp_all add: bucket_total_def)

lemma total_put: "snd (peak_and_total (put_point p days)) = snd (peak_and_total days) + snd (snd p)"
  by (induction p days rule: put_point.induct) (simp_all add: peak_and_total_def bucket_total_add, simp add: bucket_total_def)

lemma total_sorted: "snd (peak_and_total (sort_key fst days)) = snd (peak_and_total days)"
proof -
  have "sum_mset (mset (map (\<lambda>d. bucket_total (snd d)) (sort_key fst days))) = sum_mset (mset (map (\<lambda>d. bucket_total (snd d)) days))" by simp
  then show ?thesis unfolding sum_mset_sum_list by (simp add: peak_and_total_def)
qed

lemma foldl_max: "(x :: int) \<le> foldl max x ys \<and> (\<forall>y \<in> set ys. y \<le> foldl max x ys)"
proof (induction ys arbitrary: x)
  case (Cons y ys)
  from Cons [of "max x y"] show ?case by auto
qed simp

text \<open>Grouping by day and severity loses no alert, and no day is higher than the scale.\<close>

theorem by_day_keeps_totals:
  "snd (peak_and_total (by_day points)) = sum_list (map (\<lambda>p. snd (snd p)) points) \<and>
   (\<forall>d \<in> set (by_day points). bucket_total (snd d) \<le> fst (peak_and_total (by_day points)))"
proof -
  have "snd (peak_and_total (fold put_point points days)) = snd (peak_and_total days) + sum_list (map (\<lambda>p. snd (snd p)) points)" for days
    by (induction points arbitrary: days) (simp_all add: total_put)
  from this [of "[]"] have "snd (peak_and_total (by_day points)) = sum_list (map (\<lambda>p. snd (snd p)) points)"
    unfolding by_day_def total_sorted by (simp add: peak_and_total_def)
  then show ?thesis using foldl_max [of 1] by (auto simp: peak_and_total_def)
qed

section \<open>The guided start, the console\<close>

text \<open>The last heartbeat of each server of the list; which steps are done.\<close>

(* src apps/web/app/(app)/onboarding/page.tsx:42-73 steps *)
definition start_steps :: "int option list \<Rightarrow> bool list" where
  "start_steps heartbeats =
     (let hasServer = (heartbeats \<noteq> []); hasHeartbeat = (\<exists>h \<in> set heartbeats. h \<noteq> None) in
      [hasServer, hasServer, hasHeartbeat, hasHeartbeat])"

(* src apps/web/app/(app)/onboarding/page.tsx:75-75 doneCount *)
definition done_count :: "int option list \<Rightarrow> nat" where
  "done_count heartbeats = length (filter (\<lambda>d. d) (start_steps heartbeats))"

lemma start_steps_in_order: "sorted (map (\<lambda>d. \<not> d) (start_steps hs)) \<and> done_count hs \<in> {0, 2, 4}"
  by (auto simp: start_steps_def done_count_def Let_def)

datatype console_filter = All | Unlicensed | Expired

text \<open>Whether the licence of a server is expired, where it has one.\<close>

(* src apps/web/app/(app)/admin/page.tsx:43-48 servers *)
definition console_servers :: "console_filter \<Rightarrow> ('a \<times> bool option) list \<Rightarrow> ('a \<times> bool option) list" where
  "console_servers f all =
     filter (\<lambda>s. case f of Unlicensed \<Rightarrow> snd s = None | Expired \<Rightarrow> snd s = Some True | All \<Rightarrow> True) all"

(* src apps/web/app/(app)/admin/page.tsx:75-79 counts *)
definition console_counts :: "('a \<times> bool option) list \<Rightarrow> nat \<times> nat \<times> nat" where
  "console_counts all = (length all, length (filter (\<lambda>s. snd s = None) all), length (filter (\<lambda>s. snd s = Some True) all))"

lemma counts_are_of_filters:
  "console_counts all = (length (console_servers All all), length (console_servers Unlicensed all), length (console_servers Expired all))"
  by (simp add: console_counts_def console_servers_def)

section \<open>The rows of the protections\<close>

text \<open>A category: identifier, label, items; of an item, its name and its description count. \<open>lower\<close> and \<open>trim\<close> are the methods of a
  string.\<close>

record ('i) shown_row =
  sh_cat :: string
  sh_label :: string
  sh_item :: 'i
  sh_showCat :: bool

(* src apps/web/app/(app)/protections/page.tsx:217-232 ProtectionRows *)
definition protection_rows :: "(string \<Rightarrow> string) \<Rightarrow> (string \<Rightarrow> string) \<Rightarrow> ('i \<Rightarrow> string) \<Rightarrow> ('i \<Rightarrow> string) \<Rightarrow>
    (string \<times> string \<times> 'i list) list \<Rightarrow> nat \<Rightarrow> string \<Rightarrow> 'i shown_row list" where
  "protection_rows lower trim name_of description_of cats tab query =
     (let q = lower (trim query) in
      if q \<noteq> []
      then concat (map (\<lambda>(i, label, items). map (\<lambda>it. \<lparr>sh_cat = i, sh_label = label, sh_item = it, sh_showCat = True\<rparr>)
             (filter (\<lambda>it. sublist q (lower (name_of it @ '' '' @ description_of it @ '' '' @ label))) items)) cats)
      else if cats = [] then []
      else case cats ! min tab (length cats - 1) of
             (i, label, items) \<Rightarrow> map (\<lambda>it. \<lparr>sh_cat = i, sh_label = label, sh_item = it, sh_showCat = False\<rparr>) items)"

text \<open>A row stands for an item of its category, and a search looks through them all.\<close>

lemma protection_rows_sound:
  assumes row: "row \<in> set (protection_rows lower trim name_of description_of cats tab query)"
  shows "\<exists>items. (sh_cat row, sh_label row, items) \<in> set cats \<and> sh_item row \<in> set items"
proof (cases "lower (trim query) = []")
  case True
  obtain i label items where c: "cats ! min tab (length cats - 1) = (i, label, items)" by (metis prod_cases3)
  have "cats \<noteq> []" using row True by (auto simp: protection_rows_def)
  then have "cats ! min tab (length cats - 1) \<in> set cats" by (intro nth_mem) (simp add: min_less_iff_disj)
  moreover have "sh_cat row = i \<and> sh_label row = label \<and> sh_item row \<in> set items"
    using row True c by (auto simp: protection_rows_def split: if_splits)
  ultimately show ?thesis using c by auto
next
  case False
  then show ?thesis using row by (force simp: protection_rows_def)
qed

lemma search_finds_all:
  assumes "lower (trim query) \<noteq> []" "(i, label, items) \<in> set cats" "it \<in> set items"
    and "sublist (lower (trim query)) (lower (name_of it @ '' '' @ description_of it @ '' '' @ label))"
  shows "\<lparr>sh_cat = i, sh_label = label, sh_item = it, sh_showCat = True\<rparr> \<in>
    set (protection_rows lower trim name_of description_of cats tab query)"
proof -
  let ?row = "\<lparr>sh_cat = i, sh_label = label, sh_item = it, sh_showCat = True\<rparr>"
  let ?rows = "\<lambda>(i, label, items). map (\<lambda>it. \<lparr>sh_cat = i, sh_label = label, sh_item = it, sh_showCat = True\<rparr>)
    (filter (\<lambda>it. sublist (lower (trim query)) (lower (name_of it @ '' '' @ description_of it @ '' '' @ label))) items)"
  have "?row \<in> set (?rows (i, label, items))" using assms(3,4) by simp
  then have "?row \<in> set (concat (map ?rows cats))" using assms(2) unfolding set_concat set_map by blast
  then show ?thesis using assms(1) by (simp add: protection_rows_def Let_def)
qed

end
