(* ===== verification/Spec2Isabelle.thy ===== *)
theory Spec2Isabelle
  imports Witnesses Agent_Witnesses Auth_Witnesses Api_Witnesses Ban_Witnesses Capture_Witnesses License_Witnesses Platform_Witnesses
    Settings_Witnesses Web_Witnesses Web_Views Api_Views Api_Protections
begin

text \<open>
  Z-Shield is a platform for the operators of game servers. An agent on each server reports telemetry, alerts and
  players to an API, which hands it commands and configuration; operators work on the same data in a web interface;
  several organizations share one database, kept apart by row level security. The development models the API,
  \<open>src/apps/api/src\<close>, in TypeScript. Every definition that translates code names its file, its lines and its symbol in a
  comment before it; paths in the theories are below that directory.

  \<^bold>\<open>Ground.\<close>
  \<^item> \<open>Prelude\<close>: text, bytes, instants, JSON, the string operations of JavaScript, the statements of SQL on a table read as a
    list of rows (\<open>sql_update\<close>, \<open>first_row\<close>, \<open>row_count\<close>). \<open>Tables\<close>: a record per table, with the columns the
    modelled code reads or writes, the state \<open>db\<close>. \<open>Statements\<close>: sequences of statements that may throw, how rows may change.
    \<open>Histories\<close>: the interfaces \<open>row_history\<close> (a relation on rows that composes) and \<open>db_relation\<close> (a
    relation on databases that sessions and journal keep, hence every route whose transactions keep it).
  \<^item> \<open>Db\<close> (\<open>lib/db.ts\<close>): \<open>withTenant\<close>, \<open>withUser\<close>, \<open>withAgentLookup\<close>, \<open>withPlatformAdmin\<close> over a connection whose commands may
    fail, and the policies of the migrations as filters. A transaction commits all or nothing, and a
    tenant sees and changes what is its own.
  \<^item> \<open>Crypto\<close> (\<open>lib/crypto.ts\<close>), \<open>Totp\<close> (\<open>auth/totp.ts\<close>), \<open>Rbac\<close> (\<open>rbac/permissions.ts\<close>), \<open>Catalog\<close>
    (\<open>protections/catalog.ts\<close>).

  \<^bold>\<open>The gateway of the agents\<close> (\<open>agent-gateway\<close>). \<open>Protocol\<close>, \<open>Replay\<close>, \<open>Credentials\<close>, \<open>Authenticate\<close>, \<open>Respond\<close>, \<open>Schemas\<close>
  follow the files of the same names; \<open>service.ts\<close> is \<open>Agent_Session\<close> (handshake, heartbeat, rotation), \<open>Ingest\<close>
  (telemetry, alerts, sanctions), \<open>Commands\<close>, \<open>Agent_Config\<close>, over the world of \<open>Effects\<close> (a database and the events
  handed to Redis); \<open>Gateway\<close> is \<open>routes.ts\<close>, a request from its bytes to its reply. The lemmas show what a request
  must carry to be accepted, that no request is accepted twice, that a reply is signed exactly when the request
  was authenticated, that an agent touches the rows of its server alone, that rotation never locks an agent out,
  and that the queue of commands refines the life of a command.

  \<^bold>\<open>Accounts\<close>. \<open>Sessions\<close> is the class \<open>AuthService\<close> (\<open>auth/sessions.ts\<close>), \<open>Session_Facts\<close>, \<open>Login_Facts\<close>, \<open>Account_Facts\<close>
  what it guarantees; \<open>Middleware\<close> (\<open>api/middleware.ts\<close>) is the guard, over the contract \<open>session_authority\<close>, interpreted on the model
  of the sessions.

  \<^bold>\<open>The routes of the interface\<close> (\<open>api/routes.ts\<close>). \<open>Api_Base\<close> is what they share, with the weakest precondition \<open>wp\<close> that walks
  back from a reply through the steps of a route. \<open>Api_Members\<close>, \<open>Api_Discord\<close>, \<open>Api_Servers\<close>, \<open>Api_Incidents\<close>, \<open>Api_Bans\<close>, \<open>Api_Commands\<close>,
  \<open>Api_Protections\<close>, \<open>Api_Rules\<close>, \<open>Api_Licenses\<close>, \<open>Api_Views\<close> are the routes by subject, a function of the libraries
  (\<open>api_deps\<close>), of what the process draws and meets during the request (\<open>api_env\<close>: instants, failures, identifiers), of the request
  and of the world. \<open>Member_Facts\<close>: an organization keeps an owner, and the routes refine an abstract table of
  roles. \<open>Server_Facts\<close>, \<open>Incident_Facts\<close>: keys, quota, configuration, alerts and incidents. \<open>Ban_Facts\<close>,
  \<open>Appeal_Facts\<close>: the life of a ban as a step relation, the index on the bans in force, what an appeal reveals.
  \<open>Capture_Facts\<close>, with \<open>Upload\<close> (\<open>evidence/upload.ts\<close>): the parser on bytes, a capture from its request to the image an
  operator reads. \<open>License_Facts\<close>: signed keys, their single use, the reach of a revocation. \<open>Settings_Facts\<close>: what an operator sets for a
  server is what its agent, or the interface, reads back.

  \<^bold>\<open>Around them\<close>. \<open>Realtime\<close> (\<open>realtime/websocket.ts\<close>) with \<open>Realtime_Facts\<close>: the sockets as a machine, isolated by organization.
  \<open>Startup\<close> (\<open>config/env.ts\<close>, \<open>server.ts\<close>, \<open>app.ts\<close>, \<open>lib/migrate.ts\<close>, \<open>lib/logger.ts\<close>) with \<open>Startup_Facts\<close>: what a valid environment
  guarantees, migrations, redaction of log lines.

  \<^bold>\<open>The browser\<close> (\<open>src/apps/web\<close>). \<open>Web_Client\<close> is \<open>lib\<close>: the client of the API, the loading of a resource and the live connection as
  machines, the navigation; \<open>Web_Facts\<close>: its writes pass the check of the guard, loads end, the connection never gives
  up. \<open>Web_Pages\<close>: what the pages send and make of the answers, the assistant that adds a server and the editor of the
  protections as machines; \<open>Web_Page_Facts\<close> proves them against the routes they call, up to what the agent receives.
  \<open>Web_Handlers\<close> has the handlers of forms and buttons whole, \<open>Web_Buttons\<close> which of them each page offers to whom:
  exactly those the guard of the route lets in; \<open>Web_Handler_Facts\<close>: a call that fails leaves a page as it was but for its
  notice, and the key the page of the licences shows is one the platform verifies.
  \<open>Web_Views\<close>: what the pages compute before they show it.

  \<^bold>\<open>Parameters.\<close> The primitives of \<open>node:crypto\<close> (\<open>crypto\<close>, with \<open>gcm_laws\<close>, \<open>digest_laws\<close>, \<open>scrypt_laws\<close>), Redis (\<open>redis_laws\<close>: a key
  set to live for some seconds lives that long), the parts of the standard library of JavaScript beyond the texts modelled
  (\<open>js_lib\<close>), the checks of addresses of the schema library, the answers of the servers of Discord (\<open>discord_server\<close>). Their laws are hypotheses; \<open>Samples\<close>,
  \<open>Gateway_Samples\<close> hold instances that satisfy them. Instants and random bytes are arguments.

  \<^bold>\<open>Bounds.\<close> Loops are structural recursions. The two loops over random bytes (\<open>Crypto.newId\<close>) take the list of the draws as their
  fuel; \<open>Crypto\<close> gives a number of good draws that is enough. The parts of a multipart body are walked
  with the remaining length as measure.

  \<^bold>\<open>Applications.\<close> The theories named \<open>Witnesses\<close> apply the properties to concrete inputs, evaluated by the simplifier.

  \<^bold>\<open>Not modelled.\<close> The markup, labels and colours of the web interface, and the scheduling of React: a page is a record and its
  handlers are functions on it. The
  driver of PostgreSQL and its pool, the Redis connections, the wiring of Fastify and the handling of signals: calls of libraries. Two
  requests are interleaved by their transactions, each taken as one step; what READ COMMITTED lets pass between statements of
  two open transactions is not modelled. Metadata columns of the journal, addresses and user agents of sessions are not
  kept. Texts are Latin-1 characters, one for each UTF-16 unit and each byte.
\<close>

end
